(* ===== verification/Imf_Prelude.thy ===== *)
theory Imf_Prelude
  imports "HOL-Library.State_Monad" "HOL-Library.AList" "HOL-Library.Word"
begin

text \<open>
  Shared material of the development: the machine types of the C++ code, ordered association
  lists that stand for \<open>std::map\<close>, first-match search (\<open>std::find_if\<close>), and a small calculus
  over the state monad (weakest preconditions and invariant preservation) in which the handlers
  of the service are written and verified.
\<close>

section \<open>Types\<close>

text \<open>
  Display, display-group and window identifiers are unsigned words as in the code; process ids,
  user ids and return codes (\<open>pid_t\<close>, \<open>int32_t\<close>) are only compared, never computed with, and
  are integers. A remote object (\<open>sptr<IRemoteObject>\<close>) is its address; a null pointer is
  \<open>None\<close>.
\<close>

type_synonym u32 = "32 word"
type_synonym u64 = "64 word"
type_synonym pid_t = int
type_synonym robj = nat

section \<open>Collections of facts\<close>

named_theorems wp_simps "weakest preconditions of the monad's constructs and of the model's operations"
named_theorems pres_intros "introduction rules for invariant preservation"
named_theorems frame_intros "introduction rules for frames"

section \<open>Ordered association lists: \<open>std::map\<close>\<close>

definition omap_ok :: "('k::linorder \<times> 'v) list \<Rightarrow> bool" where
  "omap_ok m \<longleftrightarrow> sorted_wrt (<) (map fst m)"

text \<open>\<open>insert\<close> keeps an existing entry, as \<open>std::map::insert\<close> does.\<close>

fun omap_insert :: "'k::linorder \<Rightarrow> 'v \<Rightarrow> ('k \<times> 'v) list \<Rightarrow> ('k \<times> 'v) list" where
  "omap_insert k v [] = [(k, v)]"
| "omap_insert k v ((k', v') # m) =
     (if k < k' then (k, v) # (k', v') # m
      else if k = k' then (k', v') # m
      else (k', v') # omap_insert k v m)"

text \<open>\<open>operator[]\<close> followed by an assignment, and \<open>insert_or_assign\<close>, overwrite it.\<close>

fun omap_assign :: "'k::linorder \<Rightarrow> 'v \<Rightarrow> ('k \<times> 'v) list \<Rightarrow> ('k \<times> 'v) list" where
  "omap_assign k v [] = [(k, v)]"
| "omap_assign k v ((k', v') # m) =
     (if k < k' then (k, v) # (k', v') # m
      else if k = k' then (k, v) # m
      else (k', v') # omap_assign k v m)"

lemma omap_ok_Nil [simp]: "omap_ok []"
  by (simp add: omap_ok_def)

lemma omap_ok_Cons [simp]:
  "omap_ok ((k, v) # m) \<longleftrightarrow> (\<forall>k' \<in> fst ` set m. k < k') \<and> omap_ok m"
  by (auto simp: omap_ok_def)

lemma fst_set_omap_insert [simp]: "fst ` set (omap_insert k v m) = insert k (fst ` set m)"
  by (induction m rule: omap_insert.induct) auto

lemma fst_set_omap_assign [simp]: "fst ` set (omap_assign k v m) = insert k (fst ` set m)"
  by (induction m rule: omap_assign.induct) auto

lemma omap_ok_insert [simp]: "omap_ok m \<Longrightarrow> omap_ok (omap_insert k v m)"
  by (induction m rule: omap_insert.induct) force+

lemma omap_ok_assign [simp]: "omap_ok m \<Longrightarrow> omap_ok (omap_assign k v m)"
  by (induction m rule: omap_assign.induct) force+

lemma omap_ok_delete [simp]: "omap_ok m \<Longrightarrow> omap_ok (AList.delete k m)"
  by (induction m) (auto simp: AList.delete_eq)

lemma keys_map_entry [simp]: "map fst (AList.map_entry k f m) = map fst m"
  by (induction m) auto

lemma omap_ok_map_entry [simp]: "omap_ok (AList.map_entry k f m) \<longleftrightarrow> omap_ok m"
  by (simp add: omap_ok_def)

lemma map_of_eq_None_less: "\<forall>k' \<in> fst ` set m. k < k' \<Longrightarrow> map_of m (k::'k::linorder) = None"
  by (force simp: map_of_eq_None_iff)

lemma map_of_omap_insert:
  "omap_ok m \<Longrightarrow>
   map_of (omap_insert k v m) = (if k \<in> fst ` set m then map_of m else (map_of m)(k \<mapsto> v))"
  by (induction m rule: omap_insert.induct) (auto simp: fun_eq_iff)

lemma map_of_omap_insert_pt:
  "omap_ok m \<Longrightarrow> map_of (omap_insert k v m) k' =
     (case map_of m k' of Some x \<Rightarrow> Some x | None \<Rightarrow> if k' = k then Some v else None)"
proof (cases "k \<in> fst ` set m")
  case True
  moreover assume "omap_ok m"
  moreover from True obtain x where "map_of m k = Some x"
    by (metis map_of_eq_None_iff not_None_eq)
  ultimately show ?thesis by (auto simp: map_of_omap_insert split: option.split)
next
  case False
  moreover assume "omap_ok m"
  moreover from False have "map_of m k = None" by (simp add: map_of_eq_None_iff)
  ultimately show ?thesis by (auto simp: map_of_omap_insert split: option.split)
qed

lemma map_of_omap_assign: "omap_ok m \<Longrightarrow> map_of (omap_assign k v m) = (map_of m)(k \<mapsto> v)"
  by (induction m rule: omap_assign.induct) (auto simp: fun_eq_iff)

lemma map_of_delete_self [simp]: "map_of (AList.delete k m) k = None"
  by (simp add: AList.delete_conv)

lemma map_of_delete_other [simp]: "k' \<noteq> k \<Longrightarrow> map_of (AList.delete k m) k' = map_of m k'"
  by (simp add: AList.delete_conv)

lemma map_of_map_entry: "map_of (AList.map_entry k f m) k' =
   (if k' = k then map_option f (map_of m k) else map_of m k')"
  by (induction m) auto

lemma omap_ok_distinct: "omap_ok m \<Longrightarrow> distinct (map fst m)"
  by (simp add: omap_ok_def strict_sorted_iff)

section \<open>First match\<close>

text \<open>\<open>List.find\<close> is \<open>std::find_if\<close>: the first element that satisfies the predicate.\<close>

lemma find_SomeD: "List.find P xs = Some x \<Longrightarrow> x \<in> set xs \<and> P x"
  by (auto simp: find_Some_iff in_set_conv_nth)

lemma find_NoneD: "List.find P xs = None \<Longrightarrow> x \<in> set xs \<Longrightarrow> \<not> P x"
  by (auto simp: find_None_iff)

lemma find_ex: "x \<in> set xs \<Longrightarrow> P x \<Longrightarrow> \<exists>y. List.find P xs = Some y"
  by (cases "List.find P xs") (auto simp: find_None_iff)

text \<open>\<open>erase\<close> at the position that \<open>find_if\<close> gave.\<close>

fun erase_first :: "('a \<Rightarrow> bool) \<Rightarrow> 'a list \<Rightarrow> 'a list" where
  "erase_first P [] = []"
| "erase_first P (x # xs) = (if P x then xs else x # erase_first P xs)"

lemma set_erase_first: "set (erase_first P xs) \<subseteq> set xs"
  by (induction xs) auto

lemma distinct_erase_first: "distinct (map f xs) \<Longrightarrow> distinct (map f (erase_first P xs))"
  by (induction xs) (auto dest!: subsetD [OF set_erase_first])

lemma erase_first_gone:
  "distinct (map f xs) \<Longrightarrow> x \<in> set (erase_first (\<lambda>x. f x = k) xs) \<longleftrightarrow> x \<in> set xs \<and> f x \<noteq> k"
  by (induction xs) auto

section \<open>The state monad: readers, weakest preconditions, preservation\<close>

definition gets :: "('s \<Rightarrow> 'a) \<Rightarrow> ('s, 'a) state" where
  "gets f = do { s \<leftarrow> State_Monad.get; State_Monad.return (f s) }"

definition modify :: "('s \<Rightarrow> 's) \<Rightarrow> ('s, unit) state" where
  "modify f = State_Monad.update f"

abbreviation ret :: "'a \<Rightarrow> ('s, 'a) state" where
  "ret \<equiv> State_Monad.return"

definition when_do :: "bool \<Rightarrow> ('s, unit) state \<Rightarrow> ('s, unit) state" where
  "when_do b m = (if b then m else ret ())"

definition wp :: "('s, 'a) state \<Rightarrow> ('a \<Rightarrow> 's \<Rightarrow> bool) \<Rightarrow> 's \<Rightarrow> bool" where
  "wp m Q s = (case run_state m s of (r, s') \<Rightarrow> Q r s')"

definition preserves :: "('s \<Rightarrow> bool) \<Rightarrow> ('s, 'a) state \<Rightarrow> bool" where
  "preserves I m \<longleftrightarrow> (\<forall>s. I s \<longrightarrow> I (snd (run_state m s)))"

lemma run_gets [simp]: "run_state (gets f) s = (f s, s)"
  by (simp add: gets_def)

lemma run_modify [simp]: "run_state (modify f) s = ((), f s)"
  by (simp add: modify_def State_Monad.update_def)

lemma run_when_do [simp]: "run_state (when_do b m) s = (if b then run_state m s else ((), s))"
  by (simp add: when_do_def)

lemma run_if [simp]: "run_state (if b then m else n) s = (if b then run_state m s else run_state n s)"
  by simp

lemma wp_return [wp_simps]: "wp (ret x) Q s = Q x s"
  by (simp add: wp_def)

lemma wp_gets [wp_simps]: "wp (gets f) Q s = Q (f s) s"
  by (simp add: wp_def)

lemma wp_modify [wp_simps]: "wp (modify f) Q s = Q () (f s)"
  by (simp add: wp_def)

lemma wp_bind [wp_simps]: "wp (m \<bind> f) Q s = wp m (\<lambda>r. wp (f r) Q) s"
  by (simp add: wp_def split: prod.splits)

lemma wp_when_do [wp_simps]: "wp (when_do b m) Q s = (if b then wp m Q s else Q () s)"
  by (simp add: wp_def)

lemma wp_if [wp_simps]: "wp (if b then m else n) Q s = (if b then wp m Q s else wp n Q s)"
  by simp

lemma wp_run: "wp m Q s \<longleftrightarrow> Q (fst (run_state m s)) (snd (run_state m s))"
  by (simp add: wp_def split: prod.splits)

lemma wpI: "Q (fst (run_state m s)) (snd (run_state m s)) \<Longrightarrow> wp m Q s"
  by (simp add: wp_run)

lemma wp_conseq: "wp m P s \<Longrightarrow> (\<And>r t. P r t \<Longrightarrow> Q r t) \<Longrightarrow> wp m Q s"
  by (simp add: wp_run)

lemma wp_conj: "wp m P s \<Longrightarrow> wp m Q s \<Longrightarrow> wp m (\<lambda>r t. P r t \<and> Q r t) s"
  by (simp add: wp_run)

lemma preserves_wp: "preserves I m \<longleftrightarrow> (\<forall>s. I s \<longrightarrow> wp m (\<lambda>_. I) s)"
  by (simp add: preserves_def wp_run)

lemma preservesI: "(\<And>s. I s \<Longrightarrow> wp m (\<lambda>_. I) s) \<Longrightarrow> preserves I m"
  by (simp add: preserves_wp)

lemma preservesD: "preserves I m \<Longrightarrow> I s \<Longrightarrow> wp m (\<lambda>_. I) s"
  by (simp add: preserves_wp)

lemma preserves_run: "preserves I m \<Longrightarrow> I s \<Longrightarrow> I (snd (run_state m s))"
  by (simp add: preserves_def)

lemma preserves_return [pres_intros, simp]: "preserves I (ret x)"
  by (simp add: preserves_def)

lemma preserves_gets [pres_intros, simp]: "preserves I (gets f)"
  by (simp add: preserves_def)

lemma preserves_modify: "(\<And>s. I s \<Longrightarrow> I (f s)) \<Longrightarrow> preserves I (modify f)"
  by (simp add: preserves_def)

lemma preserves_bind [pres_intros]:
  "preserves I m \<Longrightarrow> (\<And>r. preserves I (f r)) \<Longrightarrow> preserves I (m \<bind> f)"
  by (simp add: preserves_def split: prod.splits) (metis snd_conv)

lemma preserves_if [pres_intros]:
  "(b \<Longrightarrow> preserves I m) \<Longrightarrow> (\<not> b \<Longrightarrow> preserves I n) \<Longrightarrow> preserves I (if b then m else n)"
  by simp

lemma preserves_when_do [pres_intros]: "(b \<Longrightarrow> preserves I m) \<Longrightarrow> preserves I (when_do b m)"
  by (simp add: when_do_def)

lemma preserves_option [pres_intros]:
  "(x = None \<Longrightarrow> preserves I m) \<Longrightarrow> (\<And>y. x = Some y \<Longrightarrow> preserves I (f y)) \<Longrightarrow>
   preserves I (case x of None \<Rightarrow> m | Some y \<Rightarrow> f y)"
  by (cases x) simp_all

lemma preserves_prod [pres_intros]:
  "(\<And>a b. x = (a, b) \<Longrightarrow> preserves I (f a b)) \<Longrightarrow> preserves I (case x of (a, b) \<Rightarrow> f a b)"
  by (cases x) simp

lemma preserves_let [pres_intros]: "preserves I (f x) \<Longrightarrow> preserves I (let y = x in f y)"
  by (simp add: Let_def)

definition void :: "('s, 'a) state \<Rightarrow> ('s, unit) state" where
  "void m = do { m; ret () }"

lemma run_void [simp]: "run_state (void m) s = ((), snd (run_state m s))"
  by (simp add: void_def split: prod.split)

lemma wp_void [wp_simps]: "wp (void m) Q s = wp m (\<lambda>_. Q ()) s"
  by (simp add: wp_run)

lemma preserves_void [pres_intros]: "preserves I m \<Longrightarrow> preserves I (void m)"
  by (simp add: preserves_def)

text \<open>Running an operation over a list, left to right: a range-based \<open>for\<close> loop.\<close>

fun for_each :: "'a list \<Rightarrow> ('a \<Rightarrow> ('s, unit) state) \<Rightarrow> ('s, unit) state" where
  "for_each [] f = ret ()"
| "for_each (x # xs) f = do { f x; for_each xs f }"

lemma preserves_for_each [pres_intros]:
  "(\<And>x. x \<in> set xs \<Longrightarrow> preserves I (f x)) \<Longrightarrow> preserves I (for_each xs f)"
  by (induction xs) (auto intro!: preserves_bind)

text \<open>A frame: the operation leaves the projection \<open>g\<close> of the state as it was.\<close>

definition frames :: "('s \<Rightarrow> 'b) \<Rightarrow> ('s, 'a) state \<Rightarrow> bool" where
  "frames g m \<longleftrightarrow> (\<forall>s. g (snd (run_state m s)) = g s)"

lemma frames_preserves: "frames g m \<longleftrightarrow> (\<forall>v. preserves (\<lambda>s. g s = v) m)"
  by (auto simp: frames_def preserves_def)

lemma framesI: "(\<And>v. preserves (\<lambda>s. g s = v) m) \<Longrightarrow> frames g m"
  by (simp add: frames_preserves)

lemma framesD: "frames g m \<Longrightarrow> preserves (\<lambda>s. g s = v) m"
  by (simp add: frames_preserves)

lemma frames_run: "frames g m \<Longrightarrow> g (snd (run_state m s)) = g s"
  by (simp add: frames_def)

lemma frames_inv: "frames g m \<Longrightarrow> preserves (\<lambda>s. P (g s)) m"
  by (simp add: frames_def preserves_def)

lemma frames_return [frame_intros, simp]: "frames g (ret x)"
  by (simp add: frames_def)

lemma frames_gets [frame_intros, simp]: "frames g (gets f)"
  by (simp add: frames_def)

lemma frames_modify: "(\<And>s. g (f s) = g s) \<Longrightarrow> frames g (modify f)"
  by (simp add: frames_def)

lemma frames_bind [frame_intros]:
  "frames g m \<Longrightarrow> (\<And>r. frames g (f r)) \<Longrightarrow> frames g (m \<bind> f)"
  unfolding frames_preserves by (blast intro: preserves_bind)

lemma frames_void [frame_intros]: "frames g m \<Longrightarrow> frames g (void m)"
  by (simp add: frames_def)

lemma frames_if [frame_intros]:
  "(b \<Longrightarrow> frames g m) \<Longrightarrow> (\<not> b \<Longrightarrow> frames g n) \<Longrightarrow> frames g (if b then m else n)"
  by simp

lemma frames_when_do [frame_intros]: "(b \<Longrightarrow> frames g m) \<Longrightarrow> frames g (when_do b m)"
  by (simp add: when_do_def)

lemma frames_option [frame_intros]:
  "(x = None \<Longrightarrow> frames g m) \<Longrightarrow> (\<And>y. x = Some y \<Longrightarrow> frames g (f y)) \<Longrightarrow>
   frames g (case x of None \<Rightarrow> m | Some y \<Rightarrow> f y)"
  by (cases x) simp_all

lemma frames_prod [frame_intros]:
  "(\<And>a b. x = (a, b) \<Longrightarrow> frames g (f a b)) \<Longrightarrow> frames g (case x of (a, b) \<Rightarrow> f a b)"
  by (cases x) simp

lemma frames_let [frame_intros]: "frames g (f x) \<Longrightarrow> frames g (let y = x in f y)"
  by (simp add: Let_def)

lemma frames_for_each [frame_intros]:
  "(\<And>x. x \<in> set xs \<Longrightarrow> frames g (f x)) \<Longrightarrow> frames g (for_each xs f)"
  unfolding frames_preserves by (blast intro: preserves_for_each)

section \<open>Reachable states\<close>

inductive reaches :: "('s \<Rightarrow> bool) \<Rightarrow> ('s \<Rightarrow> 's \<Rightarrow> bool) \<Rightarrow> 's \<Rightarrow> bool" for init step where
  start: "init s \<Longrightarrow> reaches init step s"
| more: "reaches init step s \<Longrightarrow> step s t \<Longrightarrow> reaches init step t"

text \<open>
  What every state machine of the development provides: an invariant that holds initially and that
  its steps keep.
\<close>

locale safe_system =
  fixes init :: "'s \<Rightarrow> bool"
    and step :: "'s \<Rightarrow> 's \<Rightarrow> bool"
    and inv :: "'s \<Rightarrow> bool"
  assumes inv_start: "init s \<Longrightarrow> inv s"
    and inv_next: "step s t \<Longrightarrow> inv s \<Longrightarrow> inv t"
begin

lemma inv_reaches: "reaches init step s \<Longrightarrow> inv s"
  by (induction rule: reaches.induct) (auto intro: inv_start inv_next)

end

end
