(* ===== verification/Imf_Global.thy ===== *)
theory Imf_Global
  imports Complex_Main Imf_Prelude
begin

text \<open>
  The constants and the data that the components of the service share: the return codes and
  the \<open>ImfCommonConst\<close> values of \<open>common/include/global.h\<close>, the editor attributes
  (\<open>input_attribute.h\<close>), the text configuration (\<open>input_method_utils.h\<close>) and the record of an
  input client (\<open>input_client_info.h\<close>). A return code is an \<open>int32_t\<close>; codes that come back
  from other processes can be any integer, so the codes are integers with the values the
  enumeration gives them.
\<close>

section \<open>Return codes\<close>

abbreviation NO_ERROR :: int where
  "NO_ERROR \<equiv> 0"

abbreviation ERROR_EX_ILLEGAL_STATE :: int where
  "ERROR_EX_ILLEGAL_STATE \<equiv> - 5"

abbreviation ERROR_NULL_POINTER :: int where
  "ERROR_NULL_POINTER \<equiv> 1"

abbreviation ERROR_BAD_PARAMETERS :: int where
  "ERROR_BAD_PARAMETERS \<equiv> 2"

abbreviation ERROR_KBD_HIDE_FAILED :: int where
  "ERROR_KBD_HIDE_FAILED \<equiv> 6"

abbreviation ERROR_ADD_DEATH_RECIPIENT_FAILED :: int where
  "ERROR_ADD_DEATH_RECIPIENT_FAILED \<equiv> 12"

abbreviation ERROR_IME :: int where
  "ERROR_IME \<equiv> 42"

abbreviation ERROR_CLIENT_NOT_BOUND :: int where
  "ERROR_CLIENT_NOT_BOUND \<equiv> 55"

abbreviation ERROR_PARSE_CONFIG_FILE :: int where
  "ERROR_PARSE_CONFIG_FILE \<equiv> 59"

abbreviation ERROR_IME_START_INPUT_FAILED :: int where
  "ERROR_IME_START_INPUT_FAILED \<equiv> 60"

abbreviation ERROR_CLIENT_NOT_FOCUSED :: int where
  "ERROR_CLIENT_NOT_FOCUSED \<equiv> 62"

abbreviation ERROR_CLIENT_NULL_POINTER :: int where
  "ERROR_CLIENT_NULL_POINTER \<equiv> 63"

abbreviation ERROR_CLIENT_ADD_FAILED :: int where
  "ERROR_CLIENT_ADD_FAILED \<equiv> 64"

abbreviation ERROR_CLIENT_NOT_FOUND :: int where
  "ERROR_CLIENT_NOT_FOUND \<equiv> 65"

abbreviation ERROR_IME_NOT_STARTED :: int where
  "ERROR_IME_NOT_STARTED \<equiv> 66"

abbreviation ERROR_KBD_SHOW_FAILED :: int where
  "ERROR_KBD_SHOW_FAILED \<equiv> 67"

abbreviation ERROR_IMSA_INPUT_TYPE_NOT_FOUND :: int where
  "ERROR_IMSA_INPUT_TYPE_NOT_FOUND \<equiv> 68"

abbreviation ERROR_IMSA_DEFAULT_IME_NOT_FOUND :: int where
  "ERROR_IMSA_DEFAULT_IME_NOT_FOUND \<equiv> 69"

abbreviation ERROR_IMSA_CLIENT_INPUT_READY_FAILED :: int where
  "ERROR_IMSA_CLIENT_INPUT_READY_FAILED \<equiv> 70"

abbreviation ERROR_IMSA_MALLOC_FAILED :: int where
  "ERROR_IMSA_MALLOC_FAILED \<equiv> 71"

abbreviation ERROR_IMSA_NULLPTR :: int where
  "ERROR_IMSA_NULLPTR \<equiv> 72"

abbreviation ERROR_IMSA_GET_IME_INFO_FAILED :: int where
  "ERROR_IMSA_GET_IME_INFO_FAILED \<equiv> 74"

abbreviation ERROR_IMSA_IME_TO_START_NULLPTR :: int where
  "ERROR_IMSA_IME_TO_START_NULLPTR \<equiv> 75"

abbreviation ERROR_IMSA_REBOOT_OLD_IME_NOT_STOP :: int where
  "ERROR_IMSA_REBOOT_OLD_IME_NOT_STOP \<equiv> 76"

abbreviation ERROR_IMSA_IME_EVENT_CONVERT_FAILED :: int where
  "ERROR_IMSA_IME_EVENT_CONVERT_FAILED \<equiv> 77"

abbreviation ERROR_IMSA_IME_CONNECT_FAILED :: int where
  "ERROR_IMSA_IME_CONNECT_FAILED \<equiv> 78"

abbreviation ERROR_IMSA_IME_DISCONNECT_FAILED :: int where
  "ERROR_IMSA_IME_DISCONNECT_FAILED \<equiv> 79"

abbreviation ERROR_IMSA_IME_START_TIMEOUT :: int where
  "ERROR_IMSA_IME_START_TIMEOUT \<equiv> 80"

abbreviation ERROR_IMSA_IME_START_MORE_THAN_EIGHT_SECOND :: int where
  "ERROR_IMSA_IME_START_MORE_THAN_EIGHT_SECOND \<equiv> 81"

abbreviation ERROR_IMSA_FORCE_STOP_IME_TIMEOUT :: int where
  "ERROR_IMSA_FORCE_STOP_IME_TIMEOUT \<equiv> 82"

abbreviation ERROR_DEVICE_UNSUPPORTED :: int where
  "ERROR_DEVICE_UNSUPPORTED \<equiv> 83"

abbreviation ERROR_SCENE_UNSUPPORTED :: int where
  "ERROR_SCENE_UNSUPPORTED \<equiv> 84"

abbreviation ERROR_IME_HAS_STARTED :: int where
  "ERROR_IME_HAS_STARTED \<equiv> 89"

abbreviation ERROR_OPERATION_NOT_ALLOWED :: int where
  "ERROR_OPERATION_NOT_ALLOWED \<equiv> 90"

abbreviation ERROR_REQUEST_RATE_EXCEEDED :: int where
  "ERROR_REQUEST_RATE_EXCEEDED \<equiv> 91"

abbreviation ERROR_TRY_IME_START_FAILED :: int where
  "ERROR_TRY_IME_START_FAILED \<equiv> 93"

section \<open>\<open>ImfCommonConst\<close>\<close>

abbreviation DEFAULT_DISPLAY_ID :: u64 where
  "DEFAULT_DISPLAY_ID \<equiv> 0"

abbreviation DEFAULT_DISPLAY_GROUP_ID :: u64 where
  "DEFAULT_DISPLAY_GROUP_ID \<equiv> 0"

abbreviation NOT_DEFAULT_DISPLAY_GROUP_ID :: u64 where
  "NOT_DEFAULT_DISPLAY_GROUP_ID \<equiv> 10000"

abbreviation INVALID_PID :: int where
  "INVALID_PID \<equiv> - 1"

abbreviation INVALID_UID :: int where
  "INVALID_UID \<equiv> - 1"

abbreviation COL_PROXY_IME :: int where
  "COL_PROXY_IME \<equiv> 5521"

abbreviation IMF_INVALID_TOKENID :: u32 where
  "IMF_INVALID_TOKENID \<equiv> 0"

section \<open>Editor attributes\<close>

abbreviation PATTERN_PASSWORD :: int where
  "PATTERN_PASSWORD \<equiv> 7"

abbreviation PATTERN_PASSWORD_NUMBER :: int where
  "PATTERN_PASSWORD_NUMBER \<equiv> 8"

abbreviation PATTERN_PASSWORD_SCREEN_LOCK :: int where
  "PATTERN_PASSWORD_SCREEN_LOCK \<equiv> 9"

abbreviation PATTERN_NEWPASSWORD :: int where
  "PATTERN_NEWPASSWORD \<equiv> 11"

abbreviation PATTERN_ONE_TIME_CODE :: int where
  "PATTERN_ONE_TIME_CODE \<equiv> 13"

abbreviation PATTERN_ONE_TIME_CODE_NUMBER :: int where
  "PATTERN_ONE_TIME_CODE_NUMBER \<equiv> 15"

text \<open>
  A \<open>double\<close> is only stored and compared, never computed with; \<open>double_eq\<close> is the operator
  \<open>==\<close>, under which a NaN differs from everything. A \<open>std::u16string\<close> is its list of code units.
\<close>

datatype double = Fin rat | Infinity bool | NaN

fun double_eq :: "double \<Rightarrow> double \<Rightarrow> bool" where
  "double_eq NaN _ = False"
| "double_eq _ NaN = False"
| "double_eq x y = (x = y)"

type_synonym u16string = "16 word list"

datatype capitalize_mode = CAP_NONE | CAP_SENTENCES | CAP_WORDS | CAP_CHARACTERS

datatype custom_value = CV_string string | CV_int int | CV_bool bool

type_synonym custom_settings = "(string \<times> custom_value) list"

record input_attribute =
  ia_inputPattern :: int
  ia_enterKeyType :: int
  ia_inputOption :: int
  ia_isTextPreviewSupported :: bool
  ia_bundleName :: string
  ia_immersiveMode :: int
  ia_gradientMode :: int
  ia_fluidLightMode :: int
  ia_editorWindowId :: u32
  ia_editorDisplayId :: u64
  ia_windowId :: u32
  ia_callingDisplayId :: u64
  ia_displayGroupId :: u64
  ia_callingScreenId :: u64
  ia_placeholder :: u16string
  ia_abilityName :: u16string
  ia_capitalizeMode :: capitalize_mode
  ia_needAutoInputNumkey :: bool
  ia_extraConfig :: custom_settings
  ia_consumeKeyEvents :: bool

text \<open>The member initialisers of \<open>InputAttribute\<close>.\<close>

definition default_input_attribute :: input_attribute where
  "default_input_attribute = \<lparr>ia_inputPattern = 0, ia_enterKeyType = 0, ia_inputOption = 0,
     ia_isTextPreviewSupported = False, ia_bundleName = '''', ia_immersiveMode = 0, ia_gradientMode = 0,
     ia_fluidLightMode = 0, ia_editorWindowId = 0, ia_editorDisplayId = 0, ia_windowId = 0, ia_callingDisplayId = 0,
     ia_displayGroupId = 0, ia_callingScreenId = 0, ia_placeholder = [], ia_abilityName = [],
     ia_capitalizeMode = CAP_NONE, ia_needAutoInputNumkey = False, ia_extraConfig = [], ia_consumeKeyEvents = False\<rparr>"

definition GetSecurityFlag :: "input_attribute \<Rightarrow> bool" where
  "GetSecurityFlag a \<longleftrightarrow> ia_inputPattern a = PATTERN_PASSWORD
     \<or> ia_inputPattern a = PATTERN_PASSWORD_SCREEN_LOCK
     \<or> PATTERN_PASSWORD_NUMBER = ia_inputPattern a \<or> PATTERN_NEWPASSWORD = ia_inputPattern a"

definition IsOneTimeCodeFlag :: "input_attribute \<Rightarrow> bool" where
  "IsOneTimeCodeFlag a \<longleftrightarrow> ia_inputPattern a = PATTERN_ONE_TIME_CODE
     \<or> ia_inputPattern a = PATTERN_ONE_TIME_CODE_NUMBER"

definition IsSecurityImeFlag :: "input_attribute \<Rightarrow> bool" where
  "IsSecurityImeFlag a = GetSecurityFlag a"

lemma security_not_one_time_code: "\<not> (GetSecurityFlag a \<and> IsOneTimeCodeFlag a)"
  by (auto simp: GetSecurityFlag_def IsOneTimeCodeFlag_def)

section \<open>Text configuration\<close>

text \<open>
  An enumeration that is read from another process (\<open>static_cast\<close> of the number received) can hold
  a number that none of its enumerators has: the constructor \<open>_VALUE\<close>.
\<close>

datatype request_keyboard_reason = REASON_NONE | REASON_MOUSE | REASON_TOUCH | REASON_OTHER | REASON_VALUE int

datatype private_data_value = PV_string string | PV_bool bool | PV_int int

type_synonym private_command = "(string \<times> private_data_value) list"

record cursor_info =
  cu_left :: double
  cu_top :: double
  cu_width :: double
  cu_height :: double
  cu_displayId :: u64

definition default_cursor_info :: cursor_info where
  "default_cursor_info = \<lparr>cu_left = Fin (- 1), cu_top = Fin (- 1), cu_width = Fin (- 1), cu_height = Fin (- 1),
     cu_displayId = 0\<rparr>"

definition CursorInfo_eq :: "cursor_info \<Rightarrow> cursor_info \<Rightarrow> bool" where
  "CursorInfo_eq a b \<longleftrightarrow> double_eq (cu_left a) (cu_left b) \<and> double_eq (cu_top a) (cu_top b)
     \<and> double_eq (cu_width a) (cu_width b) \<and> double_eq (cu_height a) (cu_height b) \<and> cu_displayId a = cu_displayId b"

abbreviation INVALID_VALUE :: int where
  "INVALID_VALUE \<equiv> - 1"

abbreviation INVALID_WINDOW_ID :: u32 where
  "INVALID_WINDOW_ID \<equiv> 0"

record text_selection =
  ts_oldBegin :: int
  ts_oldEnd :: int
  ts_newBegin :: int
  ts_newEnd :: int

definition default_text_selection :: text_selection where
  "default_text_selection = \<lparr>ts_oldBegin = INVALID_VALUE, ts_oldEnd = INVALID_VALUE, ts_newBegin = INVALID_VALUE,
     ts_newEnd = INVALID_VALUE\<rparr>"

record text_total_config =
  tc_inputAttribute :: input_attribute
  tc_cursorInfo :: cursor_info
  tc_textSelection :: text_selection
  tc_windowId :: u32
  tc_positionY :: double
  tc_height :: double
  tc_privateCommand :: private_command
  tc_requestKeyboardReason :: request_keyboard_reason
  tc_abilityToken :: "robj option"
  tc_isSimpleKeyboardEnabled :: bool

text \<open>The member initialisers of \<open>TextTotalConfig\<close>.\<close>

definition default_text_total_config :: text_total_config where
  "default_text_total_config = \<lparr>tc_inputAttribute = default_input_attribute, tc_cursorInfo = default_cursor_info,
     tc_textSelection = default_text_selection, tc_windowId = INVALID_WINDOW_ID, tc_positionY = Fin 0, tc_height = Fin 0,
     tc_privateCommand = [], tc_requestKeyboardReason = REASON_NONE, tc_abilityToken = None,
     tc_isSimpleKeyboardEnabled = False\<rparr>"

section \<open>Focus\<close>

text \<open>Where the editor and the keyboard are, as the identity check of a caller finds them.\<close>

record focused_info =
  fi_windowId :: u32
  fi_displayId :: u64
  fi_displayGroupId :: u64
  fi_keyboardWindowId :: u32
  fi_keyboardDisplayId :: u64
  fi_keyboardDisplayGroupId :: u64
  fi_uiExtensionHostPid :: pid_t

section \<open>Input clients\<close>

datatype ime_type = IME | PROXY_IME | IME_MIRROR | IME_NONE

datatype client_state = INACTIVE | ACTIVE | STATE_VALUE u32

datatype client_type = CAPI | JS | CJ | INNER_KIT | INNER_KIT_ARKUI | CLIENT_TYPE_END | TYPE_VALUE u32

record bind_ime_data =
  bd_pid :: pid_t
  bd_type :: ime_type

definition BindImeData_IsRealIme :: "bind_ime_data \<Rightarrow> bool" where
  "BindImeData_IsRealIme b \<longleftrightarrow> bd_type b = IME"

record input_client_info =
  ci_pid :: pid_t
  ci_uid :: pid_t
  ci_userID :: int
  ci_isShowKeyboard :: bool
  ci_config :: text_total_config
  ci_eventFlag :: u32
  ci_ownAttribute :: input_attribute
  ci_client :: "robj option"
  ci_channel :: "robj option"
  ci_deathRecipient :: "nat option"
  ci_state :: client_state
  ci_isNotifyInputStart :: bool
  ci_isStylusActivation :: bool
  ci_needHide :: bool
  ci_uiExtensionTokenId :: u32
  ci_uiExtensionHostPid :: pid_t
  ci_type :: client_type
  ci_name :: string
  ci_bindImeData :: "bind_ime_data option"
  ci_clientGroupId :: u64

text \<open>The member initialisers of \<open>InputClientInfo\<close>.\<close>

definition default_input_client_info :: input_client_info where
  "default_input_client_info = \<lparr>ci_pid = - 1, ci_uid = - 1, ci_userID = 0, ci_isShowKeyboard = False,
     ci_config = default_text_total_config, ci_eventFlag = 0, ci_ownAttribute = default_input_attribute,
     ci_client = None, ci_channel = None, ci_deathRecipient = None, ci_state = INACTIVE,
     ci_isNotifyInputStart = True, ci_isStylusActivation = False, ci_needHide = False,
     ci_uiExtensionTokenId = IMF_INVALID_TOKENID, ci_uiExtensionHostPid = INVALID_PID, ci_type = INNER_KIT,
     ci_name = '''', ci_bindImeData = None, ci_clientGroupId = 0\<rparr>"

abbreviation ci_attribute :: "input_client_info \<Rightarrow> input_attribute" where
  "ci_attribute ci \<equiv> tc_inputAttribute (ci_config ci)"

abbreviation ci_bound_real :: "input_client_info \<Rightarrow> bool" where
  "ci_bound_real ci \<equiv> (case ci_bindImeData ci of None \<Rightarrow> False | Some b \<Rightarrow> BindImeData_IsRealIme b)"

record detach_options =
  do_sessionId :: u32
  do_clientSessionId :: int
  do_isUnbindFromClient :: bool
  do_isInactiveClient :: bool
  do_isNotifyClientAsync :: bool
  do_needNotifyClient :: bool
  do_isSendKeyboardStatus :: bool
  do_isStopByMultiPreemptInProc :: bool

text \<open>The member initialisers of \<open>DetachOptions\<close>.\<close>

definition default_detach_options :: detach_options where
  "default_detach_options = \<lparr>do_sessionId = 0, do_clientSessionId = - 1, do_isUnbindFromClient = False,
     do_isInactiveClient = False, do_isNotifyClientAsync = False, do_needNotifyClient = False,
     do_isSendKeyboardStatus = True, do_isStopByMultiPreemptInProc = False\<rparr>"

section \<open>The configuration of an input method\<close>

datatype start_reason = DEFAULT_START | RESTART_AFTER_DIED

record ime_native_cfg =
  nc_imeId :: string
  nc_bundleName :: string
  nc_subName :: string
  nc_extName :: string
  nc_privateCommand :: private_command
  nc_startReason :: start_reason

definition empty_native_cfg :: ime_native_cfg where
  "empty_native_cfg = \<lparr>nc_imeId = '''', nc_bundleName = '''', nc_subName = '''', nc_extName = '''',
     nc_privateCommand = [], nc_startReason = DEFAULT_START\<rparr>"

end
