(* ===== verification/Client_Group.thy ===== *)
theory Client_Group
  imports Imf_Global
begin

text \<open>
  The clients of one display group (\<open>services/src/client_group.cpp\<close>): a map from the client's
  remote object to its record, and the two distinguished clients, the current one and the
  inactive one. The operations are functions on the record; the death recipients they register
  or drop are returned as events, in order.
\<close>

section \<open>State\<close>

record client_group =
  cg_displayGroupId :: u64
  cg_mapClients :: "(robj \<times> input_client_info) list"
  cg_currentClient :: "robj option"
  cg_inactiveClient :: "robj option"

definition new_client_group :: "u64 \<Rightarrow> client_group" where
  "new_client_group gid = \<lparr>cg_displayGroupId = gid, cg_mapClients = [], cg_currentClient = None,
     cg_inactiveClient = None\<rparr>"

text \<open>
  The flags and the values of an update. A value is an alternative of the \<open>std::variant\<close> the
  code passes; \<open>VariantUtil::GetValue\<close> stores it only when the variant holds the alternative
  of the target's type.
\<close>

datatype update_flag = EVENTFLAG | ISSHOWKEYBOARD | BINDIMETYPE | STATE | TEXT_CONFIG
  | UIEXTENSION_TOKENID | CLIENT_TYPE | BIND_IME_DATA | UIEXTENSION_HOST_WINDOW_PID
  | CLIENT_GROUP_ID | REQUEST_KEYBOARD_REASON

datatype update_value = V_bool bool | V_u32 u32 | V_ImeType ime_type | V_ClientState client_state
  | V_TextTotalConfig text_total_config | V_ClientType client_type | V_pid pid_t
  | V_BindImeData "bind_ime_data option" | V_u64 u64 | V_RequestKeyboardReason request_keyboard_reason

datatype death_event = AddDeathRecipient robj | RemoveDeathRecipient robj nat

text \<open>What registering the death recipient of a client's object does.\<close>

datatype add_death = NoObject | AddFailed | Added

section \<open>Lookups\<close>

definition GetClientInfo :: "robj option \<Rightarrow> client_group \<Rightarrow> input_client_info option" where
  "GetClientInfo c g = (case c of None \<Rightarrow> None | Some k \<Rightarrow> map_of (cg_mapClients g) k)"

definition find_client :: "(input_client_info \<Rightarrow> bool) \<Rightarrow> client_group \<Rightarrow> input_client_info option" where
  "find_client p g = map_option snd (List.find (\<lambda>kv. p (snd kv)) (cg_mapClients g))"

definition GetClientInfo_pid :: "pid_t \<Rightarrow> client_group \<Rightarrow> input_client_info option" where
  "GetClientInfo_pid p g = find_client (\<lambda>ci. ci_pid ci = p) g"

definition GetClientInfoByHostPid :: "pid_t \<Rightarrow> client_group \<Rightarrow> input_client_info option" where
  "GetClientInfoByHostPid p g = find_client (\<lambda>ci. ci_uiExtensionHostPid ci = p) g"

definition GetClientInfoByBindIme :: "pid_t \<Rightarrow> client_group \<Rightarrow> input_client_info option" where
  "GetClientInfoByBindIme p g = find_client
     (\<lambda>ci. case ci_bindImeData ci of None \<Rightarrow> False | Some b \<Rightarrow> bd_pid b = p) g"

definition GetClientInfoBoundRealIme :: "client_group \<Rightarrow> input_client_info option" where
  "GetClientInfoBoundRealIme g = find_client ci_bound_real g"

definition GetCurrentClientInfoBoundRealIme :: "client_group \<Rightarrow> input_client_info option" where
  "GetCurrentClientInfoBoundRealIme g = (case cg_currentClient g of None \<Rightarrow> None
     | Some k \<Rightarrow> (case map_of (cg_mapClients g) k of None \<Rightarrow> None
         | Some ci \<Rightarrow> if ci_bound_real ci then Some ci else None))"

definition GetClientBoundImeByWindowId :: "u32 \<Rightarrow> client_group \<Rightarrow> input_client_info option" where
  "GetClientBoundImeByWindowId w g = find_client
     (\<lambda>ci. ia_windowId (ci_attribute ci) = w \<and> ci_bindImeData ci \<noteq> None) g"

definition GetCurrentClientInfo :: "client_group \<Rightarrow> input_client_info option" where
  "GetCurrentClientInfo g = (case cg_currentClient g of None \<Rightarrow> None | Some k \<Rightarrow> GetClientInfo (Some k) g)"

definition GetCurrentClientPid :: "client_group \<Rightarrow> int" where
  "GetCurrentClientPid g = (case GetCurrentClientInfo g of None \<Rightarrow> INVALID_PID | Some ci \<Rightarrow> ci_pid ci)"

definition GetInactiveClientPid :: "client_group \<Rightarrow> int" where
  "GetInactiveClientPid g = (case cg_inactiveClient g of None \<Rightarrow> INVALID_PID
     | Some k \<Rightarrow> (case GetClientInfo (Some k) g of None \<Rightarrow> INVALID_PID | Some ci \<Rightarrow> ci_pid ci))"

definition IsClientExist :: "robj option \<Rightarrow> client_group \<Rightarrow> bool" where
  "IsClientExist c g = (case c of None \<Rightarrow> False | Some k \<Rightarrow> map_of (cg_mapClients g) k \<noteq> None)"

definition IsSameClient :: "robj option \<Rightarrow> robj option \<Rightarrow> bool" where
  "IsSameClient source dest \<longleftrightarrow> source \<noteq> None \<and> dest \<noteq> None \<and> source = dest"

definition IsNotifyInputStop :: "robj option \<Rightarrow> client_group \<Rightarrow> bool \<times> u64 \<times> bool" where
  "IsNotifyInputStop c g =
     (case c of None \<Rightarrow> (False, DEFAULT_DISPLAY_ID, False)
      | Some k \<Rightarrow>
        (case GetClientInfo (Some k) g of None \<Rightarrow> (False, DEFAULT_DISPLAY_ID, False)
         | Some ci \<Rightarrow>
           (let isRealIme = ci_bound_real ci; display = ia_editorDisplayId (ci_attribute ci) in
            if IsSameClient c (cg_currentClient g) then (True, display, isRealIme)
            else if cg_currentClient g = None \<and> IsSameClient c (cg_inactiveClient g)
            then (True, display, isRealIme)
            else (False, display, isRealIme))))"

text \<open>
  Focus tests; \<open>IsFocusedUIExtension\<close> asks the window manager whether the extension with a
  given token is focused for a user.
\<close>

definition IsCurClientFocused :: "(u32 \<Rightarrow> int \<Rightarrow> bool) \<Rightarrow> int \<Rightarrow> int \<Rightarrow> client_group \<Rightarrow> bool" where
  "IsCurClientFocused IsFocusedUIExtension pid uid g =
     (case GetCurrentClientInfo g of None \<Rightarrow> False
      | Some ci \<Rightarrow>
        if ci_uiExtensionTokenId ci \<noteq> IMF_INVALID_TOKENID
           \<and> IsFocusedUIExtension (ci_uiExtensionTokenId ci) (ci_userID ci) then True
        else ci_pid ci = pid \<and> ci_uid ci = uid)"

definition IsCurClientUnFocused :: "(u32 \<Rightarrow> int \<Rightarrow> bool) \<Rightarrow> int \<Rightarrow> int \<Rightarrow> client_group \<Rightarrow> bool" where
  "IsCurClientUnFocused IsFocusedUIExtension pid uid g =
     (case GetCurrentClientInfo g of None \<Rightarrow> False
      | Some ci \<Rightarrow>
        if ci_uiExtensionTokenId ci \<noteq> IMF_INVALID_TOKENID
           \<and> \<not> IsFocusedUIExtension (ci_uiExtensionTokenId ci) (ci_userID ci) then True
        else ci_pid ci = pid \<and> ci_uid ci = uid)"

section \<open>Updates\<close>

definition update_one :: "update_flag \<times> update_value \<Rightarrow> input_client_info \<Rightarrow> input_client_info" where
  "update_one u ci = (case fst u of
     ISSHOWKEYBOARD \<Rightarrow> (case snd u of V_bool b \<Rightarrow> ci\<lparr>ci_isShowKeyboard := b\<rparr> | _ \<Rightarrow> ci)
   | STATE \<Rightarrow> (case snd u of V_ClientState x \<Rightarrow> ci\<lparr>ci_state := x\<rparr> | _ \<Rightarrow> ci)
   | TEXT_CONFIG \<Rightarrow> (case snd u of V_TextTotalConfig c \<Rightarrow> ci\<lparr>ci_config := c\<rparr> | _ \<Rightarrow> ci)
   | UIEXTENSION_TOKENID \<Rightarrow> (case snd u of V_u32 t \<Rightarrow> ci\<lparr>ci_uiExtensionTokenId := t\<rparr> | _ \<Rightarrow> ci)
   | CLIENT_TYPE \<Rightarrow> (case snd u of V_ClientType t \<Rightarrow> ci\<lparr>ci_type := t\<rparr> | _ \<Rightarrow> ci)
   | BIND_IME_DATA \<Rightarrow> (case snd u of V_BindImeData b \<Rightarrow> ci\<lparr>ci_bindImeData := b\<rparr> | _ \<Rightarrow> ci)
   | UIEXTENSION_HOST_WINDOW_PID \<Rightarrow> (case snd u of V_pid p \<Rightarrow> ci\<lparr>ci_uiExtensionHostPid := p\<rparr> | _ \<Rightarrow> ci)
   | CLIENT_GROUP_ID \<Rightarrow> (case snd u of V_u64 i \<Rightarrow> ci\<lparr>ci_clientGroupId := i\<rparr> | _ \<Rightarrow> ci)
   | REQUEST_KEYBOARD_REASON \<Rightarrow> (case snd u of
       V_RequestKeyboardReason r \<Rightarrow> ci\<lparr>ci_config := (ci_config ci)\<lparr>tc_requestKeyboardReason := r\<rparr>\<rparr>
     | _ \<Rightarrow> ci)
   | _ \<Rightarrow> ci)"

definition UpdateClientInfo ::
    "robj option \<Rightarrow> (update_flag \<times> update_value) list \<Rightarrow> client_group \<Rightarrow> client_group" where
  "UpdateClientInfo c ups g = (case c of None \<Rightarrow> g
     | Some k \<Rightarrow> g\<lparr>cg_mapClients := AList.map_entry k (fold update_one ups) (cg_mapClients g)\<rparr>)"

text \<open>
  \<open>AddClientInfo\<close> is called with \<open>inputClient\<close> the remote object of the client in the record, so
  a null \<open>inputClient\<close> and \<open>NoObject\<close> are the same case.
\<close>

definition AddClientInfo ::
    "(robj option \<Rightarrow> add_death) \<Rightarrow> robj option \<Rightarrow> input_client_info \<Rightarrow> client_group
     \<Rightarrow> int \<times> death_event list \<times> client_group" where
  "AddClientInfo add inputClient ci g =
     (case GetClientInfo inputClient g of
        Some _ \<Rightarrow> (NO_ERROR, [],
          UpdateClientInfo inputClient
            [(TEXT_CONFIG, V_TextTotalConfig (ci_config ci)), (CLIENT_TYPE, V_ClientType (ci_type ci)),
             (UIEXTENSION_TOKENID, V_u32 (ci_uiExtensionTokenId ci)),
             (UIEXTENSION_HOST_WINDOW_PID, V_pid (ci_uiExtensionHostPid ci)),
             (CLIENT_GROUP_ID, V_u64 (ci_clientGroupId ci))] g)
      | None \<Rightarrow>
        (case (inputClient, add (ci_client ci)) of
           (_, NoObject) \<Rightarrow> (ERROR_CLIENT_NULL_POINTER, [], g)
         | (_, AddFailed) \<Rightarrow> (ERROR_CLIENT_ADD_FAILED, [], g)
         | (None, Added) \<Rightarrow> (ERROR_CLIENT_NULL_POINTER, [], g)
         | (Some k, Added) \<Rightarrow>
             (NO_ERROR, [AddDeathRecipient k], g\<lparr>cg_mapClients := omap_insert k ci (cg_mapClients g)\<rparr>)))"

definition RemoveClientInfo :: "robj option \<Rightarrow> client_group \<Rightarrow> death_event list \<times> client_group" where
  "RemoveClientInfo c g =
     (case c of None \<Rightarrow> ([], g)
      | Some k \<Rightarrow>
        (case GetClientInfo (Some k) g of None \<Rightarrow> ([], g)
         | Some ci \<Rightarrow>
           ((case ci_deathRecipient ci of None \<Rightarrow> [] | Some d \<Rightarrow> [RemoveDeathRecipient k d]),
            g\<lparr>cg_mapClients := AList.delete k (cg_mapClients g)\<rparr>)))"

definition SetCurrentClient :: "robj option \<Rightarrow> client_group \<Rightarrow> client_group" where
  "SetCurrentClient c g = g\<lparr>cg_currentClient := c\<rparr>"

definition SetInactiveClient :: "robj option \<Rightarrow> client_group \<Rightarrow> client_group" where
  "SetInactiveClient c g = g\<lparr>cg_inactiveClient := c\<rparr>"

section \<open>The registry interface\<close>

text \<open>
  What the session relies on: a registry of clients with a distinguished current client. The
  laws say how each operation acts on the lookup and on the current client; from them alone
  follows when a sequence of operations keeps the current client registered.
\<close>

locale client_registry =
  fixes lookup :: "'g \<Rightarrow> robj \<Rightarrow> 'i option"
    and current :: "'g \<Rightarrow> robj option"
    and set_current :: "robj option \<Rightarrow> 'g \<Rightarrow> 'g"
    and remove :: "robj \<Rightarrow> 'g \<Rightarrow> 'g"
    and update :: "robj \<Rightarrow> ('i \<Rightarrow> 'i) \<Rightarrow> 'g \<Rightarrow> 'g"
  assumes lookup_set_current: "lookup (set_current c g) k = lookup g k"
    and current_set_current: "current (set_current c g) = c"
    and lookup_remove: "lookup (remove k g) k' = (if k' = k then None else lookup g k')"
    and current_remove: "current (remove k g) = current g"
    and lookup_update: "lookup (update k f g) k' = (if k' = k then map_option f (lookup g k) else lookup g k')"
    and current_update: "current (update k f g) = current g"
begin

definition current_ok :: "'g \<Rightarrow> bool" where
  "current_ok g \<longleftrightarrow> (\<forall>k. current g = Some k \<longrightarrow> lookup g k \<noteq> None)"

lemmas registry_laws = lookup_set_current current_set_current lookup_remove current_remove
  lookup_update current_update

lemma current_ok_clear: "current_ok (set_current None g)"
  by (simp add: current_ok_def registry_laws)

lemma current_ok_replace: "lookup g k \<noteq> None \<Longrightarrow> current_ok (set_current (Some k) g)"
  by (simp add: current_ok_def registry_laws)

lemma current_ok_remove: "current_ok g \<Longrightarrow> current g \<noteq> Some k \<Longrightarrow> current_ok (remove k g)"
  by (auto simp: current_ok_def registry_laws)

lemma current_ok_detach: "current_ok (remove k (set_current None g))"
  by (simp add: current_ok_def registry_laws)

lemma current_ok_update: "current_ok g \<Longrightarrow> current_ok (update k f g)"
  by (auto simp: current_ok_def registry_laws)

lemma removed_not_found: "lookup (remove k g) k = None"
  by (simp add: registry_laws)

end

lemma snd_RemoveClientInfo:
  "snd (RemoveClientInfo (Some k) g) = g\<lparr>cg_mapClients := AList.delete k (cg_mapClients g)\<rparr>"
proof (cases "map_of (cg_mapClients g) k")
  case None
  then have "AList.delete k (cg_mapClients g) = cg_mapClients g"
    by (simp add: AList.delete_idem map_of_eq_None_iff)
  with None show ?thesis by (simp add: RemoveClientInfo_def GetClientInfo_def)
qed (simp add: RemoveClientInfo_def GetClientInfo_def)

lemma snd_RemoveClientInfo_None [simp]: "snd (RemoveClientInfo None g) = g"
  by (simp add: RemoveClientInfo_def)

interpretation cg: client_registry
  "\<lambda>g. map_of (cg_mapClients g)" cg_currentClient SetCurrentClient
  "\<lambda>k g. snd (RemoveClientInfo (Some k) g)"
  "\<lambda>k f g. g\<lparr>cg_mapClients := AList.map_entry k f (cg_mapClients g)\<rparr>"
  by unfold_locales
    (simp_all add: GetClientInfo_def SetCurrentClient_def snd_RemoveClientInfo map_of_map_entry)

section \<open>Invariant and frames\<close>

text \<open>
  Every entry is filed under the remote object of its own client and carries the id of the
  group it is in; the current client is registered. (The inactive client need not be:
  \<open>Session_Clients\<close> shows how the code leaves it behind.)
\<close>

definition entries_ok :: "client_group \<Rightarrow> bool" where
  "entries_ok g \<longleftrightarrow> omap_ok (cg_mapClients g) \<and>
     (\<forall>k ci. map_of (cg_mapClients g) k = Some ci \<longrightarrow>
        ci_client ci = Some k \<and> ci_clientGroupId ci = cg_displayGroupId g)"

definition group_ok :: "client_group \<Rightarrow> bool" where
  "group_ok g \<longleftrightarrow> entries_ok g \<and> cg.current_ok g"

lemma update_one_frame [simp]:
  "ci_pid (update_one u ci) = ci_pid ci" "ci_uid (update_one u ci) = ci_uid ci"
  "ci_userID (update_one u ci) = ci_userID ci" "ci_client (update_one u ci) = ci_client ci"
  "ci_channel (update_one u ci) = ci_channel ci"
  "ci_deathRecipient (update_one u ci) = ci_deathRecipient ci"
  by (simp_all add: update_one_def split: update_flag.split update_value.split)

lemma fold_update_frame [simp]:
  "ci_pid (fold update_one us ci) = ci_pid ci" "ci_uid (fold update_one us ci) = ci_uid ci"
  "ci_userID (fold update_one us ci) = ci_userID ci" "ci_client (fold update_one us ci) = ci_client ci"
  "ci_channel (fold update_one us ci) = ci_channel ci"
  "ci_deathRecipient (fold update_one us ci) = ci_deathRecipient ci"
  by (induction us arbitrary: ci) simp_all

lemma update_one_group [simp]:
  "fst u \<noteq> CLIENT_GROUP_ID \<Longrightarrow> ci_clientGroupId (update_one u ci) = ci_clientGroupId ci"
  by (simp add: update_one_def split: update_flag.split update_value.split)

lemma fold_update_group:
  "CLIENT_GROUP_ID \<notin> fst ` set us \<Longrightarrow> ci_clientGroupId (fold update_one us ci) = ci_clientGroupId ci"
  by (induction us arbitrary: ci) auto

lemma GetClientInfo_simps [simp]:
  "GetClientInfo None g = None"
  "GetClientInfo (Some k) g = map_of (cg_mapClients g) k"
  by (simp_all add: GetClientInfo_def)

lemma group_fields [simp]:
  "cg_displayGroupId (SetCurrentClient c g) = cg_displayGroupId g"
  "cg_mapClients (SetCurrentClient c g) = cg_mapClients g"
  "cg_currentClient (SetCurrentClient c g) = c"
  "cg_inactiveClient (SetCurrentClient c g) = cg_inactiveClient g"
  "cg_displayGroupId (SetInactiveClient c g) = cg_displayGroupId g"
  "cg_mapClients (SetInactiveClient c g) = cg_mapClients g"
  "cg_currentClient (SetInactiveClient c g) = cg_currentClient g"
  "cg_inactiveClient (SetInactiveClient c g) = c"
  "cg_displayGroupId (UpdateClientInfo c us g) = cg_displayGroupId g"
  "cg_currentClient (UpdateClientInfo c us g) = cg_currentClient g"
  "cg_inactiveClient (UpdateClientInfo c us g) = cg_inactiveClient g"
  "cg_displayGroupId (snd (RemoveClientInfo c g)) = cg_displayGroupId g"
  "cg_currentClient (snd (RemoveClientInfo c g)) = cg_currentClient g"
  "cg_inactiveClient (snd (RemoveClientInfo c g)) = cg_inactiveClient g"
  by (simp_all add: SetCurrentClient_def SetInactiveClient_def UpdateClientInfo_def RemoveClientInfo_def
      split: option.split)

lemma map_of_UpdateClientInfo:
  "map_of (cg_mapClients (UpdateClientInfo c us g)) k =
     (if c = Some k then map_option (fold update_one us) (map_of (cg_mapClients g) k)
      else map_of (cg_mapClients g) k)"
  by (auto simp: UpdateClientInfo_def map_of_map_entry split: option.split)

lemma map_of_RemoveClientInfo:
  "map_of (cg_mapClients (snd (RemoveClientInfo c g))) k =
     (if c = Some k then None else map_of (cg_mapClients g) k)"
  by (cases c) (auto simp: snd_RemoveClientInfo)

lemma omap_ok_UpdateClientInfo [simp]:
  "omap_ok (cg_mapClients (UpdateClientInfo c us g)) = omap_ok (cg_mapClients g)"
  by (simp add: UpdateClientInfo_def split: option.split)

lemma omap_ok_RemoveClientInfo [simp]:
  "omap_ok (cg_mapClients g) \<Longrightarrow> omap_ok (cg_mapClients (snd (RemoveClientInfo c g)))"
  by (cases c) (simp_all add: snd_RemoveClientInfo)

lemma entries_ok_frames [simp]:
  "entries_ok (SetCurrentClient c g) = entries_ok g"
  "entries_ok (SetInactiveClient c g) = entries_ok g"
  by (simp_all add: entries_ok_def)

lemma entries_ok_RemoveClientInfo [simp]: "entries_ok g \<Longrightarrow> entries_ok (snd (RemoveClientInfo c g))"
  by (auto simp: entries_ok_def map_of_RemoveClientInfo split: if_splits)

lemma entries_ok_UpdateClientInfo:
  "entries_ok g \<Longrightarrow> CLIENT_GROUP_ID \<notin> fst ` set us \<Longrightarrow> entries_ok (UpdateClientInfo c us g)"
  by (auto simp: entries_ok_def map_of_UpdateClientInfo fold_update_group split: if_splits)

lemma current_ok_iff:
  "cg.current_ok g \<longleftrightarrow> (\<forall>k. cg_currentClient g = Some k \<longrightarrow> map_of (cg_mapClients g) k \<noteq> None)"
  by (simp add: cg.current_ok_def)

lemma group_ok_UpdateClientInfo:
  "group_ok g \<Longrightarrow> CLIENT_GROUP_ID \<notin> fst ` set us \<Longrightarrow> group_ok (UpdateClientInfo c us g)"
  by (auto simp: group_ok_def entries_ok_UpdateClientInfo current_ok_iff map_of_UpdateClientInfo)

lemma group_ok_SetInactiveClient [simp]: "group_ok (SetInactiveClient c g) = group_ok g"
  by (simp add: group_ok_def current_ok_iff)

lemma group_ok_clear_current: "group_ok g \<Longrightarrow> group_ok (SetCurrentClient None g)"
  by (simp add: group_ok_def cg.current_ok_clear)

lemma group_ok_set_current:
  "group_ok g \<Longrightarrow> map_of (cg_mapClients g) k \<noteq> None \<Longrightarrow> group_ok (SetCurrentClient (Some k) g)"
  by (simp add: group_ok_def cg.current_ok_replace)

lemma group_ok_RemoveClientInfo:
  "group_ok g \<Longrightarrow> c \<noteq> cg_currentClient g \<or> c = None \<Longrightarrow> group_ok (snd (RemoveClientInfo c g))"
  by (cases c) (auto simp: group_ok_def intro: cg.current_ok_remove)

lemma group_ok_new [simp]: "group_ok (new_client_group gid)"
  by (simp add: group_ok_def entries_ok_def current_ok_iff new_client_group_def)

lemma fst_AddClientInfo_cases:
  "fst (AddClientInfo add c ci g) \<in> {NO_ERROR, ERROR_CLIENT_NULL_POINTER, ERROR_CLIENT_ADD_FAILED}"
  by (auto simp: AddClientInfo_def split: option.splits add_death.splits)

lemma AddClientInfo_error:
  "fst (AddClientInfo add c ci g) \<noteq> NO_ERROR \<Longrightarrow> snd (AddClientInfo add c ci g) = ([], g)"
  by (auto simp: AddClientInfo_def split: option.splits add_death.splits)

lemma AddClientInfo_group_ok:
  assumes "group_ok g" "ci_client ci = Some k" "ci_clientGroupId ci = cg_displayGroupId g"
  shows "group_ok (snd (snd (AddClientInfo add (Some k) ci g)))"
proof (cases "map_of (cg_mapClients g) k")
  case None
  then have "k \<notin> fst ` set (cg_mapClients g)" by (simp add: map_of_eq_None_iff)
  with None assms show ?thesis
    by (auto simp: AddClientInfo_def group_ok_def entries_ok_def current_ok_iff map_of_omap_insert
        split: add_death.split)
next
  case (Some x)
  with assms show ?thesis
    by (auto simp: AddClientInfo_def group_ok_def entries_ok_def current_ok_iff map_of_UpdateClientInfo
        update_one_def split: if_splits)
qed

lemma find_client_SomeD:
  "find_client p g = Some ci \<Longrightarrow> \<exists>k. (k, ci) \<in> set (cg_mapClients g) \<and> p ci"
  by (auto simp: find_client_def dest!: find_SomeD)

lemma find_client_registered:
  assumes "entries_ok g" "find_client p g = Some ci"
  shows "\<exists>k. ci_client ci = Some k \<and> map_of (cg_mapClients g) k = Some ci \<and> p ci"
proof -
  obtain k where "(k, ci) \<in> set (cg_mapClients g)" "p ci"
    using find_client_SomeD [OF assms(2)] by blast
  moreover from this assms(1) have "map_of (cg_mapClients g) k = Some ci"
    by (simp add: entries_ok_def omap_ok_distinct)
  ultimately show ?thesis using assms(1) by (auto simp: entries_ok_def)
qed

lemma find_client_complete:
  "map_of (cg_mapClients g) k = Some ci \<Longrightarrow> p ci \<Longrightarrow> \<exists>ci'. find_client p g = Some ci'"
  using find_ex [of "(k, ci)" "cg_mapClients g" "\<lambda>kv. p (snd kv)"]
  by (auto simp: find_client_def dest: map_of_SomeD)

lemma delete_omap_insert: "k \<notin> fst ` set m \<Longrightarrow> AList.delete k (omap_insert k v m) = m"
  by (induction k v m rule: omap_insert.induct) (force simp: AList.delete_eq filter_id_conv)+

text \<open>Adding a client that is not registered and whose object can be watched registers exactly it, under
  its own record, and watches the object once; removing it again gives back the group as it was and
  drops the same watch.\<close>

theorem client_roundtrip:
  assumes "map_of (cg_mapClients g) k = None" "add (ci_client ci) = Added" "ci_deathRecipient ci = Some dr"
    "AddClientInfo add (Some k) ci g = (r, evs, g')" "RemoveClientInfo (Some k) g' = (evs', g'')" "entries_ok g"
  shows "r = NO_ERROR \<and> evs = [AddDeathRecipient k] \<and> GetClientInfo (Some k) g' = Some ci \<and>
    (\<forall>k'. k' \<noteq> k \<longrightarrow> GetClientInfo (Some k') g' = GetClientInfo (Some k') g) \<and>
    evs' = [RemoveDeathRecipient k dr] \<and> g'' = g"
proof -
  have k: "k \<notin> fst ` set (cg_mapClients g)" using assms(1) by (simp add: map_of_eq_None_iff)
  have g': "r = NO_ERROR" "evs = [AddDeathRecipient k]" "g' = g\<lparr>cg_mapClients := omap_insert k ci (cg_mapClients g)\<rparr>"
    using assms(1,2,4) by (simp_all add: AddClientInfo_def)
  have m: "map_of (cg_mapClients g') = (map_of (cg_mapClients g))(k \<mapsto> ci)"
    using k g'(3) assms(6) by (simp add: map_of_omap_insert entries_ok_def)
  then have "evs' = [RemoveDeathRecipient k dr]" "g'' = g'\<lparr>cg_mapClients := AList.delete k (cg_mapClients g')\<rparr>"
    using assms(3,5) by (simp_all add: RemoveClientInfo_def)
  with g' m delete_omap_insert [OF k] show ?thesis by simp
qed

theorem client_roundtrip_witness:
  "let ci = default_input_client_info\<lparr>ci_client := Some 5, ci_deathRecipient := Some 9\<rparr>;
     (r, evs, g') = AddClientInfo (\<lambda>_. Added) (Some 5) ci (new_client_group 0) in
   r = NO_ERROR \<and> GetClientInfo (Some 5) g' = Some ci \<and> snd (RemoveClientInfo (Some 5) g') = new_client_group 0"
proof -
  define ci where "ci = default_input_client_info\<lparr>ci_client := Some 5, ci_deathRecipient := Some 9\<rparr>"
  obtain r evs g' where a: "AddClientInfo (\<lambda>_. Added) (Some 5) ci (new_client_group 0) = (r, evs, g')" by (metis prod_cases3)
  have "map_of (cg_mapClients (new_client_group 0)) 5 = None" by (simp add: new_client_group_def)
  moreover have "ci_deathRecipient ci = Some 9" by (simp add: ci_def)
  moreover have "entries_ok (new_client_group 0)" using group_ok_new by (simp add: group_ok_def)
  ultimately have "r = NO_ERROR \<and> GetClientInfo (Some 5) g' = Some ci \<and> snd (RemoveClientInfo (Some 5) g') = new_client_group 0"
    using client_roundtrip [OF _ _ _ a prod.collapse [symmetric]] by simp
  with a show ?thesis unfolding ci_def by (simp del: GetClientInfo_simps)
qed

end
