(* ===== verification/Ime_State_Manager.thy ===== *)
theory Ime_State_Manager
  imports Imf_Global
begin

text \<open>
  The managers that freeze and thaw an input method process around requests
  (\<open>ime_state_manager.cpp\<close>, \<open>freeze_manager.cpp\<close>, \<open>ime_lifecycle_manager.cpp\<close>,
  \<open>ime_state_manager_factory.cpp\<close>). A manager's operation returns the manager and the list of
  actions it performs on the resource scheduler and on the event handler; a small step relation
  adds the event handler's queue and the scheduler's view of the process.
\<close>

section \<open>Managers\<close>

datatype request_type = NORMAL | START_INPUT | STOP_INPUT | REQUEST_SHOW | REQUEST_HIDE

datatype manager_kind = FreezeManager | ImeLifecycleManager

datatype stop_task = ReportStopTask pid_t pid_t | StopImeTask

datatype state_action =
    ReportRss bool pid_t pid_t            \<comment> \<open>\<open>ReportRss(shouldFreeze, pid, uid)\<close>\<close>
  | PostTask string int stop_task         \<comment> \<open>\<open>PostTask(task, name, delay)\<close>\<close>
  | RemoveTask string

record ime_state_manager =
  sm_kind :: manager_kind
  sm_pid :: pid_t
  sm_uid :: pid_t
  sm_isFrozen :: bool
  sm_isImeInUse :: bool

definition STOP_TASK_NAME :: string where
  "STOP_TASK_NAME = ''ReportStop''"

definition STOP_IME_TASK_NAME :: string where
  "STOP_IME_TASK_NAME = ''StopImeTask''"

abbreviation DELAY_TIME :: int where
  "DELAY_TIME \<equiv> 3000"

abbreviation STOP_DELAY_TIME :: int where
  "STOP_DELAY_TIME \<equiv> 20000"

text \<open>\<open>h\<close> says whether the static \<open>eventHandler_\<close> has been set.\<close>

definition FreezeManager_ControlIme :: "bool \<Rightarrow> bool \<Rightarrow> ime_state_manager \<Rightarrow> state_action list" where
  "FreezeManager_ControlIme h shouldApply m =
     (if \<not> h then [ReportRss shouldApply (sm_pid m) (sm_uid m)]
      else if shouldApply
      then [PostTask STOP_TASK_NAME DELAY_TIME (ReportStopTask (sm_pid m) (sm_uid m))]
      else [RemoveTask STOP_TASK_NAME, ReportRss shouldApply (sm_pid m) (sm_uid m)])"

definition ImeLifecycleManager_ControlIme :: "bool \<Rightarrow> bool \<Rightarrow> ime_state_manager \<Rightarrow> state_action list" where
  "ImeLifecycleManager_ControlIme h shouldApply m =
     (if \<not> h then []
      else if \<not> shouldApply
      then [ReportRss False (sm_pid m) (sm_uid m), RemoveTask STOP_IME_TASK_NAME]
      else [ReportRss True (sm_pid m) (sm_uid m), PostTask STOP_IME_TASK_NAME STOP_DELAY_TIME StopImeTask])"

definition ControlIme :: "bool \<Rightarrow> bool \<Rightarrow> ime_state_manager \<Rightarrow> state_action list" where
  "ControlIme h shouldApply m = (case sm_kind m of
     FreezeManager \<Rightarrow> FreezeManager_ControlIme h shouldApply m
   | ImeLifecycleManager \<Rightarrow> ImeLifecycleManager_ControlIme h shouldApply m)"

definition IsIpcNeeded :: "request_type \<Rightarrow> ime_state_manager \<Rightarrow> bool" where
  "IsIpcNeeded t m \<longleftrightarrow> \<not> (t = REQUEST_HIDE \<and> \<not> sm_isImeInUse m)"

definition BeforeIpc :: "bool \<Rightarrow> request_type \<Rightarrow> ime_state_manager \<Rightarrow> state_action list \<times> ime_state_manager" where
  "BeforeIpc h t m =
     (let m1 = (if t = START_INPUT \<or> t = REQUEST_SHOW then m\<lparr>sm_isImeInUse := True\<rparr> else m) in
      if \<not> sm_isFrozen m1 then ([], m1)
      else let m2 = m1\<lparr>sm_isFrozen := False\<rparr> in (ControlIme h False m2, m2))"

definition AfterIpc ::
    "bool \<Rightarrow> request_type \<Rightarrow> bool \<Rightarrow> ime_state_manager \<Rightarrow> state_action list \<times> ime_state_manager" where
  "AfterIpc h t isSuccess m =
     (let m1 = (if t = START_INPUT \<or> t = REQUEST_SHOW then m\<lparr>sm_isImeInUse := isSuccess\<rparr> else m);
          m2 = (if t = REQUEST_HIDE \<and> sm_isImeInUse m1 then m1\<lparr>sm_isImeInUse := \<not> isSuccess\<rparr> else m1);
          m3 = (if t = STOP_INPUT then m2\<lparr>sm_isImeInUse := False\<rparr> else m2) in
      if sm_isFrozen m3 = (\<not> sm_isImeInUse m3) then ([], m3)
      else let m4 = m3\<lparr>sm_isFrozen := \<not> sm_isImeInUse m3\<rparr> in (ControlIme h (sm_isFrozen m4) m4, m4))"

definition IsImeInUse :: "ime_state_manager \<Rightarrow> bool" where
  "IsImeInUse m = sm_isImeInUse m"

definition TemporaryActiveIme :: "ime_state_manager \<Rightarrow> state_action list" where
  "TemporaryActiveIme m = (case sm_kind m of
     FreezeManager \<Rightarrow> if \<not> sm_isFrozen m then []
       else [ReportRss False (sm_pid m) (sm_uid m), ReportRss True (sm_pid m) (sm_uid m)]
   | ImeLifecycleManager \<Rightarrow> [])"

definition CreateImeStateManager :: "bool \<Rightarrow> pid_t \<Rightarrow> pid_t \<Rightarrow> ime_state_manager" where
  "CreateImeStateManager ifDynamicStartIme pid uid =
     \<lparr>sm_kind = (if ifDynamicStartIme then ImeLifecycleManager else FreezeManager),
      sm_pid = pid, sm_uid = uid, sm_isFrozen = True, sm_isImeInUse = False\<rparr>"

section \<open>The two halves of a request\<close>

lemma BeforeIpc_thawed [simp]: "\<not> sm_isFrozen (snd (BeforeIpc h t m))"
  by (simp add: BeforeIpc_def Let_def)

lemma AfterIpc_settled [simp]:
  "sm_isFrozen (snd (AfterIpc h t ok m)) = (\<not> sm_isImeInUse (snd (AfterIpc h t ok m)))"
  by (simp add: AfterIpc_def Let_def)

lemma manager_identity [simp]:
  "sm_kind (snd (BeforeIpc h t m)) = sm_kind m" "sm_pid (snd (BeforeIpc h t m)) = sm_pid m"
  "sm_uid (snd (BeforeIpc h t m)) = sm_uid m"
  "sm_kind (snd (AfterIpc h t ok m)) = sm_kind m" "sm_pid (snd (AfterIpc h t ok m)) = sm_pid m"
  "sm_uid (snd (AfterIpc h t ok m)) = sm_uid m"
  by (simp_all add: BeforeIpc_def AfterIpc_def Let_def)

text \<open>How the use flag follows from the request and its outcome.\<close>

lemma BeforeIpc_inUse:
  "sm_isImeInUse (snd (BeforeIpc h t m)) \<longleftrightarrow> t = START_INPUT \<or> t = REQUEST_SHOW \<or> sm_isImeInUse m"
  by (auto simp: BeforeIpc_def Let_def)

lemma AfterIpc_inUse:
  "sm_isImeInUse (snd (AfterIpc h t ok m)) \<longleftrightarrow>
     (case t of START_INPUT \<Rightarrow> ok | REQUEST_SHOW \<Rightarrow> ok | STOP_INPUT \<Rightarrow> False
      | REQUEST_HIDE \<Rightarrow> sm_isImeInUse m \<and> \<not> ok | NORMAL \<Rightarrow> sm_isImeInUse m)"
  by (cases t) (auto simp: AfterIpc_def Let_def)

section \<open>The event handler's queue and the scheduler's view\<close>

record freeze_world =
  fw_mgr :: ime_state_manager
  fw_queue :: "(string \<times> stop_task) list"     \<comment> \<open>posted tasks that have not run\<close>
  fw_stopped :: "bool option"                  \<comment> \<open>the last status reported to the scheduler\<close>
  fw_stopIme :: nat                            \<comment> \<open>how often \<open>stopImeFunc_\<close> ran\<close>

fun perform :: "state_action \<Rightarrow> freeze_world \<Rightarrow> freeze_world" where
  "perform (ReportRss b p u) w = w\<lparr>fw_stopped := Some b\<rparr>"
| "perform (PostTask n d t) w = w\<lparr>fw_queue := fw_queue w @ [(n, t)]\<rparr>"
| "perform (RemoveTask n) w = w\<lparr>fw_queue := filter (\<lambda>x. fst x \<noteq> n) (fw_queue w)\<rparr>"

fun run_task :: "stop_task \<Rightarrow> freeze_world \<Rightarrow> freeze_world" where
  "run_task (ReportStopTask p u) w = w\<lparr>fw_stopped := Some True\<rparr>"
| "run_task StopImeTask w = w\<lparr>fw_stopIme := Suc (fw_stopIme w)\<rparr>"

definition world_before :: "request_type \<Rightarrow> freeze_world \<Rightarrow> freeze_world" where
  "world_before t w = (let (as, m) = BeforeIpc True t (fw_mgr w) in fold perform as (w\<lparr>fw_mgr := m\<rparr>))"

definition world_after :: "request_type \<Rightarrow> bool \<Rightarrow> freeze_world \<Rightarrow> freeze_world" where
  "world_after t ok w = (let (as, m) = AfterIpc True t ok (fw_mgr w) in fold perform as (w\<lparr>fw_mgr := m\<rparr>))"

text \<open>
  The steps of one input method process with its event handler: the service runs the two halves
  of a request, it can briefly wake a frozen process, and the handler runs a task when its delay
  is over. Which of them happens next is open.
\<close>

inductive freeze_step :: "freeze_world \<Rightarrow> freeze_world \<Rightarrow> bool" where
  before: "IsIpcNeeded t (fw_mgr w) \<Longrightarrow> freeze_step w (world_before t w)"
| after: "freeze_step w (world_after t ok w)"
| temporary: "freeze_step w (fold perform (TemporaryActiveIme (fw_mgr w)) w)"
| fire: "fw_queue w = xs @ (n, t) # ys \<Longrightarrow> freeze_step w (run_task t (w\<lparr>fw_queue := xs @ ys\<rparr>))"

definition freeze_start :: "bool \<Rightarrow> pid_t \<Rightarrow> pid_t \<Rightarrow> freeze_world" where
  "freeze_start dyn pid uid = \<lparr>fw_mgr = CreateImeStateManager dyn pid uid, fw_queue = [], fw_stopped = None, fw_stopIme = 0\<rparr>"

definition freeze_reachable :: "bool \<Rightarrow> pid_t \<Rightarrow> pid_t \<Rightarrow> freeze_world \<Rightarrow> bool" where
  "freeze_reachable dyn pid uid = reaches (\<lambda>w. w = freeze_start dyn pid uid) freeze_step"

definition task_name :: "manager_kind \<Rightarrow> string" where
  "task_name k = (case k of FreezeManager \<Rightarrow> STOP_TASK_NAME | ImeLifecycleManager \<Rightarrow> STOP_IME_TASK_NAME)"

text \<open>
  The invariant: only tasks under the manager's own name are queued, and while the process is
  not frozen none is queued and the last report was a start.
\<close>

definition freeze_inv :: "freeze_world \<Rightarrow> bool" where
  "freeze_inv w \<longleftrightarrow> (\<forall>x \<in> set (fw_queue w). fst x = task_name (sm_kind (fw_mgr w))) \<and>
     (\<not> sm_isFrozen (fw_mgr w) \<longrightarrow> fw_queue w = [] \<and> fw_stopped w = Some False)"

text \<open>
  What both managers promise of \<open>ControlIme\<close>: thawing empties the queue of the manager's own tasks
  and reports a start last; freezing posts at most tasks of the manager's own name. The
  invariant rests on these laws alone.
\<close>

locale state_control =
  fixes control :: "bool \<Rightarrow> ime_state_manager \<Rightarrow> state_action list"
    and name :: string
  assumes thaw_queue: "fst ` set (fw_queue w) \<subseteq> {name} \<Longrightarrow> fw_queue (fold perform (control False m) w) = []"
    and thaw_report: "fw_stopped (fold perform (control False m) w) = Some False"
    and freeze_queue: "fst ` set (fw_queue w) \<subseteq> {name} \<Longrightarrow>
      fst ` set (fw_queue (fold perform (control True m) w)) \<subseteq> {name}"
begin

definition control_inv :: "freeze_world \<Rightarrow> bool" where
  "control_inv w \<longleftrightarrow> fst ` set (fw_queue w) \<subseteq> {name} \<and>
     (\<not> sm_isFrozen (fw_mgr w) \<longrightarrow> fw_queue w = [] \<and> fw_stopped w = Some False)"

lemma control_inv_apply:
  assumes "fst ` set (fw_queue w) \<subseteq> {name}" "sm_isFrozen m' = b" "fw_mgr (fold perform (control b m) w) = m'"
  shows "control_inv (fold perform (control b m) w)"
  using assms thaw_queue thaw_report freeze_queue by (cases b) (simp_all add: control_inv_def)

end

lemma perform_mgr [simp]: "fw_mgr (fold perform as w) = fw_mgr w"
proof (induction as arbitrary: w)
  case (Cons a as)
  then show ?case by (cases a) simp_all
qed simp

lemma run_task_fields [simp]: "fw_mgr (run_task t w) = fw_mgr w" "fw_queue (run_task t w) = fw_queue w"
  by (cases t; simp)+

interpretation fm: state_control "FreezeManager_ControlIme True" STOP_TASK_NAME
  by unfold_locales (auto simp: FreezeManager_ControlIme_def filter_empty_conv)

interpretation lm: state_control "ImeLifecycleManager_ControlIme True" STOP_IME_TASK_NAME
  by unfold_locales (auto simp: ImeLifecycleManager_ControlIme_def filter_empty_conv)

text \<open>The invariant is that of the manager's kind, so what the interface gives holds for \<open>ControlIme\<close>.\<close>

lemma freeze_inv_kind:
  "sm_kind (fw_mgr w) = FreezeManager \<Longrightarrow> freeze_inv w = fm.control_inv w"
  "sm_kind (fw_mgr w) = ImeLifecycleManager \<Longrightarrow> freeze_inv w = lm.control_inv w"
  by (auto simp: freeze_inv_def fm.control_inv_def lm.control_inv_def task_name_def)

lemma freeze_inv_control:
  assumes "freeze_inv w" "sm_kind m = sm_kind (fw_mgr w)" "sm_isFrozen m = b"
  shows "freeze_inv (fold perform (ControlIme True b m) (w\<lparr>fw_mgr := m\<rparr>))"
proof (cases "sm_kind m")
  case FreezeManager
  with assms have "fm.control_inv (fold perform (FreezeManager_ControlIme True b m) (w\<lparr>fw_mgr := m\<rparr>))"
    by (intro fm.control_inv_apply [of _ m]) (auto simp: freeze_inv_def task_name_def)
  with FreezeManager show ?thesis by (simp add: freeze_inv_kind ControlIme_def)
next
  case ImeLifecycleManager
  with assms have "lm.control_inv (fold perform (ImeLifecycleManager_ControlIme True b m) (w\<lparr>fw_mgr := m\<rparr>))"
    by (intro lm.control_inv_apply [of _ m]) (auto simp: freeze_inv_def task_name_def)
  with ImeLifecycleManager show ?thesis by (simp add: freeze_inv_kind ControlIme_def)
qed

lemma freeze_inv_before: "freeze_inv w \<Longrightarrow> freeze_inv (world_before t w)"
  using freeze_inv_control [of w "snd (BeforeIpc True t (fw_mgr w))" False]
  by (auto simp: world_before_def BeforeIpc_def Let_def) (auto simp: freeze_inv_def)

lemma freeze_inv_after:
  assumes "freeze_inv w"
  shows "freeze_inv (world_after t ok w)"
proof -
  let ?m = "snd (AfterIpc True t ok (fw_mgr w))"
  have acts: "fst (AfterIpc True t ok (fw_mgr w)) =
      (if sm_isFrozen ?m = sm_isFrozen (fw_mgr w) then [] else ControlIme True (sm_isFrozen ?m) ?m)"
    by (simp add: AfterIpc_def Let_def)
  show ?thesis
  proof (cases "sm_isFrozen ?m = sm_isFrozen (fw_mgr w)")
    case True
    then have "freeze_inv (w\<lparr>fw_mgr := ?m\<rparr>)"
      using assms by (simp add: freeze_inv_def del: AfterIpc_settled)
    with True acts show ?thesis by (simp add: world_after_def split_def Let_def del: AfterIpc_settled)
  next
    case False
    have "freeze_inv (fold perform (ControlIme True (sm_isFrozen ?m) ?m) (w\<lparr>fw_mgr := ?m\<rparr>))"
      by (rule freeze_inv_control [OF assms _ refl]) simp
    with False acts show ?thesis by (simp add: world_after_def split_def Let_def del: AfterIpc_settled)
  qed
qed

lemma freeze_inv_step: "freeze_step w w' \<Longrightarrow> freeze_inv w \<Longrightarrow> freeze_inv w'"
proof (induction rule: freeze_step.induct)
  case (temporary w)
  then show ?case by (auto simp: freeze_inv_def TemporaryActiveIme_def split: manager_kind.splits)
next
  case (fire w xs n t ys)
  then show ?case by (auto simp: freeze_inv_def)
qed (simp_all add: freeze_inv_before freeze_inv_after)

interpretation fz: safe_system "\<lambda>w. w = freeze_start dyn pid uid" freeze_step freeze_inv
proof (unfold_locales, goal_cases)
  case (1 w)
  then show ?case by (simp add: freeze_start_def freeze_inv_def CreateImeStateManager_def)
next
  case (2 w w')
  then show ?case by (rule freeze_inv_step)
qed

text \<open>C6. In every reachable state of a manager with its event handler, whatever the order of requests, wake-ups
  and expiring timers: while the input method is in use it is not stopped behind its back. It is not
  frozen, the last report to the scheduler was a start and no stop task is waiting to run.\<close>

theorem in_use_not_stopped:
  assumes "freeze_reachable dyn pid uid w" "\<not> sm_isFrozen (fw_mgr w)"
  shows "fw_queue w = [] \<and> fw_stopped w = Some False"
  using fz.inv_reaches [of dyn pid uid w] assms by (simp add: freeze_reachable_def freeze_inv_def)

lemma freeze_reachable_example: "freeze_reachable False 10 20 (world_before START_INPUT (freeze_start False 10 20))"
  unfolding freeze_reachable_def
  by (rule reaches.more [OF reaches.start], rule refl, rule freeze_step.before) (simp add: IsIpcNeeded_def)

theorem in_use_not_stopped_witness:
  "fw_stopped (world_before START_INPUT (freeze_start False 10 20)) = Some False"
proof -
  have "\<not> sm_isFrozen (fw_mgr (world_before START_INPUT (freeze_start False 10 20)))" by code_simp
  with in_use_not_stopped [OF freeze_reachable_example] show ?thesis by simp
qed

end
