(* ===== verification/Input_Type_Manager.thy ===== *)
theory Input_Type_Manager
  imports Imf_Global
begin

text \<open>
  The special input types (password, camera, voice, stylus) and the input methods configured for
  them (\<open>services/src/input_type_manager.cpp\<close>). The configuration is read on first use; what the
  parser of the system configuration returns is the argument \<open>cfg\<close>: \<open>None\<close> when parsing fails.
\<close>

datatype input_type = NONE | CAMERA_INPUT | SECURITY_INPUT | VOICE_INPUT | VOICEKB_INPUT
  | PUSH_TO_TALK_INPUT | STYLUS_INPUT

text \<open>The enumeration's values order the keys of \<open>inputTypes_\<close>.\<close>

fun input_type_value :: "input_type \<Rightarrow> int" where
  "input_type_value NONE = - 1"
| "input_type_value CAMERA_INPUT = 0"
| "input_type_value SECURITY_INPUT = 1"
| "input_type_value VOICE_INPUT = 2"
| "input_type_value VOICEKB_INPUT = 3"
| "input_type_value PUSH_TO_TALK_INPUT = 4"
| "input_type_value STYLUS_INPUT = 5"

lemma input_type_value_inj: "input_type_value a = input_type_value b \<Longrightarrow> a = b"
  by (cases a; cases b) simp_all

instantiation input_type :: linorder
begin

definition less_eq_input_type :: "input_type \<Rightarrow> input_type \<Rightarrow> bool" where
  "less_eq_input_type a b \<longleftrightarrow> input_type_value a \<le> input_type_value b"

definition less_input_type :: "input_type \<Rightarrow> input_type \<Rightarrow> bool" where
  "less_input_type a b \<longleftrightarrow> input_type_value a < input_type_value b"

instance
  by standard (auto simp: less_eq_input_type_def less_input_type_def intro: input_type_value_inj)

end

record ime_identification =
  ii_bundleName :: string
  ii_subName :: string

definition no_ime :: ime_identification where
  "no_ime = \<lparr>ii_bundleName = '''', ii_subName = ''''\<rparr>"

record input_type_info =
  iti_type :: input_type
  iti_bundleName :: string
  iti_subName :: string

type_synonym input_type_cfg = "input_type_info list option"

record input_type_manager =
  it_isStarted :: bool
  it_currentTypeIme :: ime_identification
  it_inputTypes :: "(input_type \<times> ime_identification) list"
  it_inputTypeImeList :: "ime_identification set"
  it_isTypeCfgReady :: bool
  it_isInitInProgress :: bool
  it_isInitSuccess :: bool

definition new_input_type_manager :: input_type_manager where
  "new_input_type_manager = \<lparr>it_isStarted = False, it_currentTypeIme = no_ime, it_inputTypes = [],
     it_inputTypeImeList = {}, it_isTypeCfgReady = False, it_isInitInProgress = False,
     it_isInitSuccess = False\<rparr>"

section \<open>Operations\<close>

fun insert_configs :: "input_type_info list \<Rightarrow> (input_type \<times> ime_identification) list
    \<Rightarrow> (input_type \<times> ime_identification) list" where
  "insert_configs [] m = m"
| "insert_configs (c # cs) m =
     insert_configs cs
       (omap_insert (iti_type c) \<lparr>ii_bundleName = iti_bundleName c, ii_subName = iti_subName c\<rparr> m)"

definition Init :: "input_type_cfg \<Rightarrow> input_type_manager \<Rightarrow> bool \<times> input_type_manager" where
  "Init cfg m =
     (if it_isInitInProgress m then (it_isInitSuccess m, m)
      else case cfg of
        Some configs \<Rightarrow>
          (let types = insert_configs configs (it_inputTypes m) in
           (True, m\<lparr>it_inputTypes := types,
                    it_inputTypeImeList := it_inputTypeImeList m \<union> snd ` set types,
                    it_isTypeCfgReady := True, it_isInitSuccess := True, it_isInitInProgress := False\<rparr>))
      | None \<Rightarrow>
          (False, m\<lparr>it_inputTypes := [], it_inputTypeImeList := {}, it_isTypeCfgReady := False,
                    it_isInitSuccess := False, it_isInitInProgress := False\<rparr>))"

text \<open>\<open>!isTypeCfgReady_.load() && !Init()\<close>: the configuration is read when it is not ready.\<close>

definition cfg_ready :: "input_type_cfg \<Rightarrow> input_type_manager \<Rightarrow> bool \<times> input_type_manager" where
  "cfg_ready cfg m = (if it_isTypeCfgReady m then (True, m) else Init cfg m)"

definition IsSupported :: "input_type_cfg \<Rightarrow> input_type \<Rightarrow> input_type_manager \<Rightarrow> bool \<times> input_type_manager" where
  "IsSupported cfg t m = (let (ok, m') = cfg_ready cfg m in
     (ok \<and> map_of (it_inputTypes m') t \<noteq> None, m'))"

definition IsInputType :: "input_type_cfg \<Rightarrow> ime_identification \<Rightarrow> input_type_manager
    \<Rightarrow> bool \<times> input_type_manager" where
  "IsInputType cfg ime m = (let (ok, m') = cfg_ready cfg m in (ok \<and> ime \<in> it_inputTypeImeList m', m'))"

definition IsInputTypeBundle :: "input_type_cfg \<Rightarrow> string \<Rightarrow> input_type_manager \<Rightarrow> bool \<times> input_type_manager" where
  "IsInputTypeBundle cfg b m = (let (ok, m') = cfg_ready cfg m in
     (ok \<and> (\<exists>ime \<in> it_inputTypeImeList m'. ii_bundleName ime = b), m'))"

text \<open>The output parameter \<open>ime\<close> keeps its value when the type is not found.\<close>

definition GetImeByInputType :: "input_type_cfg \<Rightarrow> input_type \<Rightarrow> ime_identification \<Rightarrow> input_type_manager
    \<Rightarrow> int \<times> ime_identification \<times> input_type_manager" where
  "GetImeByInputType cfg t ime m = (let (ok, m') = cfg_ready cfg m in
     if \<not> ok then (ERROR_PARSE_CONFIG_FILE, ime, m')
     else case map_of (it_inputTypes m') t of
        None \<Rightarrow> (ERROR_IMSA_INPUT_TYPE_NOT_FOUND, ime, m')
      | Some i \<Rightarrow> (NO_ERROR, i, m'))"

definition Set :: "bool \<Rightarrow> ime_identification \<Rightarrow> input_type_manager \<Rightarrow> input_type_manager" where
  "Set isStarted currentIme m = m\<lparr>it_isStarted := isStarted, it_currentTypeIme := currentIme\<rparr>"

definition IsInputTypeImeStarted :: "input_type \<Rightarrow> input_type_manager \<Rightarrow> bool" where
  "IsInputTypeImeStarted t m \<longleftrightarrow> it_isStarted m \<and> map_of (it_inputTypes m) t = Some (it_currentTypeIme m)"

definition IsSecurityImeStarted :: "input_type_manager \<Rightarrow> bool" where
  "IsSecurityImeStarted m = IsInputTypeImeStarted SECURITY_INPUT m"

definition IsCameraImeStarted :: "input_type_manager \<Rightarrow> bool" where
  "IsCameraImeStarted m = IsInputTypeImeStarted CAMERA_INPUT m"

definition IsVoiceImeStarted :: "input_type_manager \<Rightarrow> bool" where
  "IsVoiceImeStarted m = IsInputTypeImeStarted VOICE_INPUT m"

definition IsVoiceKbImeStarted :: "input_type_manager \<Rightarrow> bool" where
  "IsVoiceKbImeStarted m = IsInputTypeImeStarted VOICEKB_INPUT m"

definition IsStylusImeStarted :: "input_type_manager \<Rightarrow> bool" where
  "IsStylusImeStarted m = IsInputTypeImeStarted STYLUS_INPUT m"

definition IsVoiceKbIme :: "input_type_cfg \<Rightarrow> ime_identification \<Rightarrow> input_type_manager
    \<Rightarrow> bool \<times> input_type_manager" where
  "IsVoiceKbIme cfg ime m = (let (r, i, m') = GetImeByInputType cfg VOICEKB_INPUT no_ime m in
     (r = NO_ERROR \<and> i = ime, m'))"

definition GetCurrentInputType :: "input_type_manager \<Rightarrow> input_type" where
  "GetCurrentInputType m =
     (if IsSecurityImeStarted m then SECURITY_INPUT
      else if IsCameraImeStarted m then CAMERA_INPUT
      else if IsVoiceImeStarted m then VOICE_INPUT
      else if IsVoiceKbImeStarted m then VOICEKB_INPUT
      else if IsStylusImeStarted m then STYLUS_INPUT
      else NONE)"

section \<open>Lemmas\<close>

text \<open>
  The configured types and the list of their input methods agree: the invariant that \<open>Init\<close>
  establishes and everything else keeps.
\<close>

definition types_ok :: "input_type_manager \<Rightarrow> bool" where
  "types_ok m \<longleftrightarrow> omap_ok (it_inputTypes m) \<and> it_inputTypeImeList m = snd ` set (it_inputTypes m) \<and>
     (\<not> it_isTypeCfgReady m \<longrightarrow> it_inputTypes m = []) \<and> \<not> it_isInitInProgress m"

lemma types_ok_new [simp]: "types_ok new_input_type_manager"
  by (simp add: types_ok_def new_input_type_manager_def)

lemma omap_ok_insert_configs [simp]: "omap_ok m \<Longrightarrow> omap_ok (insert_configs cs m)"
  by (induction cs m rule: insert_configs.induct) simp_all

text \<open>The first entry of the configuration for a type is the one that counts.\<close>

lemma map_of_insert_configs:
  "omap_ok m \<Longrightarrow> map_of (insert_configs cs m) t =
     (case map_of m t of Some i \<Rightarrow> Some i
      | None \<Rightarrow> map_option (\<lambda>c. \<lparr>ii_bundleName = iti_bundleName c, ii_subName = iti_subName c\<rparr>)
                  (List.find (\<lambda>c. iti_type c = t) cs))"
proof (induction cs m rule: insert_configs.induct)
  case (2 c cs m)
  then show ?case
    by (auto simp: map_of_omap_insert_pt split: option.splits)
qed (simp split: option.split)

lemma snd_set_omap_insert:
  "snd ` set m \<subseteq> snd ` set (omap_insert k v m)"
  by (induction m rule: omap_insert.induct) auto

lemma types_ok_Init: "types_ok m \<Longrightarrow> \<not> it_isTypeCfgReady m \<Longrightarrow> types_ok (snd (Init cfg m))"
  by (auto simp: types_ok_def Init_def Let_def split: option.split)

lemma types_ok_cfg_ready: "types_ok m \<Longrightarrow> types_ok (snd (cfg_ready cfg m))"
  by (simp add: cfg_ready_def types_ok_Init)

lemma types_ok_Set [simp]: "types_ok (Set b i m) = types_ok m"
  by (simp add: types_ok_def Set_def)

lemma cfg_ready_ready:
  "types_ok m \<Longrightarrow> fst (cfg_ready cfg m) = it_isTypeCfgReady (snd (cfg_ready cfg m))"
  by (auto simp: cfg_ready_def Init_def Let_def types_ok_def split: option.split)

lemma cfg_ready_frame [simp]:
  "it_isStarted (snd (cfg_ready cfg m)) = it_isStarted m"
  "it_currentTypeIme (snd (cfg_ready cfg m)) = it_currentTypeIme m"
  by (auto simp: cfg_ready_def Init_def Let_def split: option.split)

text \<open>Starting the input method configured for a type is consistent: once the lookup has found one, it is
  recognised as an input method of a special type, the type counts as started exactly while the
  manager is set to it, and looking it up again gives the same answer without reading the
  configuration a second time.\<close>

theorem GetImeByInputType_consistent:
  assumes "types_ok m" "GetImeByInputType cfg t i0 m = (NO_ERROR, i, m')"
  shows "IsInputTypeImeStarted t (Set True i m') \<and> \<not> IsInputTypeImeStarted t (Set False no_ime m') \<and>
    IsInputType cfg' i m' = (True, m') \<and> GetImeByInputType cfg' t i1 m' = (NO_ERROR, i, m')"
proof -
  have r: "fst (cfg_ready cfg m)" "snd (cfg_ready cfg m) = m'" "map_of (it_inputTypes m') t = Some i"
    using assms(2) by (auto simp: GetImeByInputType_def split_def Let_def split: if_splits option.splits)
  then have ok: "types_ok m'" "it_isTypeCfgReady m'"
    using types_ok_cfg_ready [OF assms(1), of cfg] cfg_ready_ready [OF assms(1), of cfg] by simp_all
  then have "i \<in> it_inputTypeImeList m'" using r(3) by (force simp: types_ok_def dest: map_of_SomeD)
  with r ok show ?thesis
    by (simp add: IsInputTypeImeStarted_def Set_def IsInputType_def GetImeByInputType_def cfg_ready_def)
qed

theorem GetImeByInputType_consistent_witness:
  "IsSecurityImeStarted (Set True \<lparr>ii_bundleName = ''b'', ii_subName = ''s''\<rparr> (snd (snd
     (GetImeByInputType (Some [\<lparr>iti_type = SECURITY_INPUT, iti_bundleName = ''b'', iti_subName = ''s''\<rparr>])
        SECURITY_INPUT no_ime new_input_type_manager))))"
proof -
  let ?g = "GetImeByInputType (Some [\<lparr>iti_type = SECURITY_INPUT, iti_bundleName = ''b'', iti_subName = ''s''\<rparr>])
        SECURITY_INPUT no_ime new_input_type_manager"
  have "?g = (NO_ERROR, \<lparr>ii_bundleName = ''b'', ii_subName = ''s''\<rparr>, snd (snd ?g))" by code_simp
  from GetImeByInputType_consistent [OF types_ok_new this] show ?thesis by (simp add: IsSecurityImeStarted_def)
qed

text \<open>When the configuration cannot be parsed, every question about special types is answered no, nothing
  is remembered of it, and the next question parses it again.\<close>

theorem cfg_unreadable:
  assumes "types_ok m" "\<not> it_isTypeCfgReady m"
  shows "fst (IsSupported None t m) = False \<and> fst (IsInputType None i m) = False \<and> fst (IsInputTypeBundle None b m) = False \<and>
    GetImeByInputType None t i m = (ERROR_PARSE_CONFIG_FILE, i, snd (cfg_ready None m)) \<and>
    cfg_ready cfg (snd (cfg_ready None m)) = Init cfg (snd (cfg_ready None m))"
  using assms
  by (simp add: IsSupported_def IsInputType_def IsInputTypeBundle_def GetImeByInputType_def cfg_ready_def Init_def types_ok_def Let_def)

theorem cfg_unreadable_witness:
  "GetImeByInputType None VOICE_INPUT no_ime new_input_type_manager = (ERROR_PARSE_CONFIG_FILE, no_ime, new_input_type_manager)"
proof -
  have "\<not> it_isTypeCfgReady new_input_type_manager" "snd (cfg_ready None new_input_type_manager) = new_input_type_manager" by code_simp+
  with cfg_unreadable [OF types_ok_new, of VOICE_INPUT no_ime] show ?thesis by simp
qed

end
