(* ===== verification/Session_Base.thy ===== *)
theory Session_Base
  imports Client_Group Ime_State_Manager Input_Type_Manager
begin

text \<open>
  The state of a user's session (\<open>services/include/peruser_session.h\<close>), its environment, and the
  operations of \<open>peruser_session.cpp\<close> on which all handlers rest: the lookups over the client
  groups and over the input methods, requests to an input method around its state manager, and
  the notifications that end an input session.

  A handler is a state transformer over \<^emph>\<open>session\<close>. Everything it does outside the session (a
  call to the input method's core, to a client, to the ability manager, to listeners) is an event
  that it appends to the log (newest first); what comes back is taken from the environment, a
  function of the log and of the call, so that two equal calls may be answered differently.
  Mutexes are not modelled: a handler runs to its end before the next one starts, except at the
  places where it waits; there the environment may change the session (\<open>e_interfere\<close>).
\<close>

section \<open>Data\<close>

datatype ime_status = STARTING | READY | EXITING

datatype ime_event = START_IME | START_IME_TIMEOUT | STOP_IME | SET_CORE_AND_AGENT

datatype ime_action = DO_NOTHING | HANDLE_STARTING_IME | FORCE_STOP_IME | STOP_READY_IME
  | START_AFTER_FORCE_STOP | DO_SET_CORE_AND_AGENT | DO_ACTION_IN_NULL_IME_DATA
  | DO_ACTION_IN_IME_EVENT_CONVERT_FAILED

datatype input_stop_scene = CLIENT_TRIGGER | IMSA_DIED | IME_DIED

datatype un_registered_type = REMOVE_PROXY_IME | SWITCH_PROXY_IME_TO_IME | UNKNOWN_UNREGISTER int

record ime_data =
  im_core :: "robj option"
  im_agent :: "robj option"
  im_deathRecipient :: bool
  im_pid :: pid_t
  im_uid :: pid_t
  im_type :: ime_type
  im_stateManager :: "ime_state_manager option"
  im_status :: ime_status
  im_ime :: "string \<times> string"
  im_startTime :: int
  im_isStartedInScreenLocked :: bool
  im_connection :: "nat option"
  im_privateCommand :: private_command
  im_isDisconnected :: bool

text \<open>\<open>std::make_shared<ImeData>(nullptr, nullptr, nullptr, -1)\<close>\<close>

definition new_ime_data :: ime_data where
  "new_ime_data = \<lparr>im_core = None, im_agent = None, im_deathRecipient = False, im_pid = - 1,
     im_uid = INVALID_UID, im_type = IME, im_stateManager = None, im_status = STARTING, im_ime = ('''', ''''),
     im_startTime = 0, im_isStartedInScreenLocked = False, im_connection = None, im_privateCommand = [],
     im_isDisconnected = False\<rparr>"

definition IsImeMirror :: "ime_data \<Rightarrow> bool" where
  "IsImeMirror d \<longleftrightarrow> im_type d = IME_MIRROR"

definition IsRealIme :: "ime_data \<Rightarrow> bool" where
  "IsRealIme d \<longleftrightarrow> im_type d = IME"

type_synonym sub_property = "string \<times> string"   \<comment> \<open>name and id\<close>

section \<open>Events\<close>

text \<open>What \<open>GetWant\<close> puts into the \<open>Want\<close> with which an input method is started.\<close>

record want =
  w_bundleName :: string
  w_abilityName :: string
  w_strictMode :: bool
  w_isolatedSandbox :: bool
  w_subName :: "string option"

datatype core_call =
    HideKeyboard_ipc | ShowKeyboard_ipc int
  | StartInput_ipc input_client_info bool | StopInput_ipc "robj option" u32 int
  | OnClientInactive_ipc "robj option" | StopInputService_ipc bool | SetSubtype_ipc sub_property
  | OnSetInputType_ipc input_type u64 | InitInputControlChannel_ipc | OnSecurityChange_ipc int
  | OnConnectSystemCmd_ipc "robj option" | OnSendPrivateData_ipc private_command
  | NotifyPreemption_ipc | OnCallingDisplayIdChanged_ipc u64 u64 | OnCallingWindowIdChanged_ipc u32 focused_info
  | HideCandidatePanel_ipc | OnPttLongPress_ipc | OnPttGestureCancelled_ipc
  | GetSoftKeyboardInfo_ipc | IsPanelShown_ipc int int    \<comment> \<open>the panel's type and flag\<close>

datatype client_call =
    OnInputReady_ipc "robj option" pid_t string
  | OnInputStop_ipc bool bool bool | OnInputStopAsync_ipc bool bool bool
  | DeactivateClient_ipc | OnImeMirrorStop_ipc "robj option" | OnExecTextInteraction_ipc string
  | GetCurrentCursorInfo_ipc

datatype event =
    CoreIpc robj core_call
  | ClientIpc robj client_call
  | StateAct state_action
  | ClientDeath death_event
  | ImeAddDeath robj | ImeRemoveDeath robj
  | NotifyInputStopEv u64 input_stop_scene
  | NotifyImeChangeEv string string
  | ImeBindCb string | ImeUnbindCb string
  | ReportImeStateEv bool pid_t string    \<comment> \<open>\<open>True\<close>: BIND, \<open>False\<close>: UNBIND\<close>
  | SetCriticalEv bool
  | PostImeInfoReportHook string
  | SetTmpImeEv string
  | GetImeToStartEv                       \<comment> \<open>the query may also correct the current input method\<close>
  | ConnectExtensionAbility want "nat option"
  | StopExtensionAbility string string
  | DisconnectAbility "nat option"
  | ReportStartImeProcess string string
  | RecordImeHideUnfocused | RecordStartIme
  | FaultReport int string
  | ResetPanelStatusFlag pid_t
  | PostRestartTask int
  | RegisterImageObserver | NotifyMakeImage want | PostImageTimeout | RemoveImageTimeout
  | UnloadSystemAbility
  | WaitEv nat

section \<open>Environment\<close>

text \<open>Yes/no questions the session asks other components or the system.\<close>

datatype bool_query =
    QIsEnable robj u64                     \<comment> \<open>output parameter of \<open>core->IsEnable\<close>\<close>
  | QCoreDeathAdded robj                   \<comment> \<open>the core has an object and its death recipient is added\<close>
  | QDisplayGroupIdExist u64
  | QIsFocusedUIExtension u32 int
  | QIsSceneBoardEnabled | QIsWmsConnected | QSaReady string
  | QIsRunningIme string | QIsImeInstalled string string | QIsSysIme string | QIsUserCfgIme string
  | QDeviceLocked | QScreenLocked | QScreenLockMgr
  | QIsOsAccountForeground | QOsAccountVerified
  | QLowMemWaterMark | QMemoryWatermarkEnabled
  | QIsCapacitySupport
  | QRestrictedDefaultIme u64
  | QIsDefaultFullMode string
  | QFullExperience string                 \<comment> \<open>\<open>GetEnabledState\<close> reports the full experience mode\<close>
  | QImeInfo string string                 \<comment> \<open>\<open>GetImeInfo\<close> finds the input method\<close>
  | QAlloc
  | QTryLock                               \<comment> \<open>\<open>imeStartLock_.try_lock()\<close>\<close>
  | QPostTask
  | QPanelShown robj int int               \<comment> \<open>output parameter of \<open>core->IsPanelShown\<close>\<close>

datatype cfg_query = CurrentImeCfg | ImeToStart | DefaultImeCfg | DefaultImeCfgProp

text \<open>
  \<open>e_screenLockMgr\<close> and \<open>e_onDemandSa\<close> are the build switches \<open>IMF_SCREENLOCK_MGR_ENABLE\<close> and
  \<open>IMF_ON_DEMAND_START_STOP_SA_ENABLE\<close>.
\<close>

record 's env =
  e_int :: "event list \<Rightarrow> event \<Rightarrow> int"
  e_bool :: "event list \<Rightarrow> bool_query \<Rightarrow> bool"
  e_cfg :: "event list \<Rightarrow> cfg_query \<Rightarrow> ime_native_cfg option"
  e_defaultIme :: "event list \<Rightarrow> ime_native_cfg"
  e_displayGroup :: "event list \<Rightarrow> u64 \<Rightarrow> int \<times> u64"
  e_addDeath :: "event list \<Rightarrow> robj option \<Rightarrow> add_death"
  e_subProp :: "event list \<Rightarrow> string \<Rightarrow> string \<Rightarrow> sub_property option"
  e_imeProperty :: "event list \<Rightarrow> string \<Rightarrow> string option"
  e_time :: "event list \<Rightarrow> int"            \<comment> \<open>milliseconds\<close>
  e_seconds :: "event list \<Rightarrow> int"         \<comment> \<open>\<open>time(nullptr)\<close>\<close>
  e_focusInfo :: "event list \<Rightarrow> u64 \<Rightarrow> int \<times> int"
  e_inputTypeCfg :: input_type_cfg
  e_hasHandler :: bool            \<comment> \<open>the state managers' event handler is set\<close>
  e_sessionHandler :: bool        \<comment> \<open>the session's event handler is not null\<close>
  e_dynamicStart :: bool
  e_screenLockMgr :: bool
  e_onDemandSa :: bool
  e_interfere :: "'s \<Rightarrow> 's"

section \<open>Session\<close>

datatype time_limit_type = IME_LIMIT | PROXY_IME_LIMIT

text \<open>
  The counter of \<open>IsAttachFinished\<close> and the delay of \<open>RestartIme\<close> are static variables of their functions in
  the code, hence shared by the sessions of all users; here each session has its own. \<open>restartTasks_\<close>, an
  \<open>int32_t\<close> that stays within a small bound, is an integer here.
\<close>

record session =
  ss_userId :: int
  ss_groups :: "(u64 \<times> client_group) list"          \<comment> \<open>\<open>clientGroupMap_\<close>, in iteration order\<close>
  ss_real :: "ime_data option"                         \<comment> \<open>\<open>realImeData_\<close>\<close>
  ss_mirror :: "ime_data option"                       \<comment> \<open>\<open>mirrorImeData_\<close>\<close>
  ss_proxy :: "(u64 \<times> ime_data list) list"           \<comment> \<open>\<open>proxyImeData_\<close>\<close>
  ss_itm :: input_type_manager                         \<comment> \<open>the \<open>InputTypeManager\<close> singleton\<close>
  ss_log :: "event list"
  ss_runningIme :: string
  ss_imeUsedBeforeScreenLocked :: "string \<times> string"
  ss_largeMemoryState :: int
  ss_attachingCount :: u32
  ss_scbStartCount :: u32
  ss_restartTasks :: int
  ss_waitAttachTimes :: u32                            \<comment> \<open>the static counter of \<open>IsAttachFinished\<close>\<close>
  ss_restartDelay :: int                               \<comment> \<open>the static \<open>delayTime\<close> of \<open>RestartIme\<close>\<close>
  ss_managers :: "(time_limit_type \<times> (u32 \<times> int)) list"
  ss_isBlockStartedByLowMem :: bool
  ss_isFirstPreemption :: bool
  ss_firstStartNeedRetry :: bool
  ss_disconnectedByRss :: bool
  ss_attachFailedByUnavailableIme :: bool
  ss_isImeStarted :: bool
  ss_isNotifyFinished :: bool
  ss_isSwitching :: bool
  ss_usageCallbacks :: bool                            \<comment> \<open>\<open>onImeBind_\<close> and \<open>onImeUnbind_\<close> are set\<close>

type_synonym 'a sess = "(session, 'a) state"
type_synonym senv = "session env"

section \<open>Effects and queries\<close>

definition emit :: "event \<Rightarrow> unit sess" where
  "emit ev = modify (\<lambda>s. s\<lparr>ss_log := ev # ss_log s\<rparr>)"

definition call :: "senv \<Rightarrow> event \<Rightarrow> int sess" where
  "call E ev = do { r \<leftarrow> gets (\<lambda>s. e_int E (ss_log s) ev); emit ev; ret r }"

definition ask :: "senv \<Rightarrow> bool_query \<Rightarrow> bool sess" where
  "ask E q = gets (\<lambda>s. e_bool E (ss_log s) q)"

definition ask_cfg :: "senv \<Rightarrow> cfg_query \<Rightarrow> ime_native_cfg option sess" where
  "ask_cfg E q = gets (\<lambda>s. e_cfg E (ss_log s) q)"

definition ask_ime_to_start :: "senv \<Rightarrow> ime_native_cfg option sess" where
  "ask_ime_to_start E = do { r \<leftarrow> ask_cfg E ImeToStart; emit GetImeToStartEv; ret r }"

definition core_ipc :: "senv \<Rightarrow> ime_data \<Rightarrow> core_call \<Rightarrow> int sess" where
  "core_ipc E d c = (case im_core d of None \<Rightarrow> ret NO_ERROR | Some k \<Rightarrow> call E (CoreIpc k c))"

definition client_ipc :: "senv \<Rightarrow> robj \<Rightarrow> client_call \<Rightarrow> int sess" where
  "client_ipc E k c = call E (ClientIpc k c)"

text \<open>A wait: other threads run meanwhile.\<close>

definition wait_for :: "senv \<Rightarrow> nat \<Rightarrow> unit sess" where
  "wait_for E ms = do { emit (WaitEv ms); modify (e_interfere E) }"

text \<open>\<open>BlockRetry\<close>: a do-while loop, so that the test runs at least once; it sleeps after each
  failed test.\<close>

fun BlockRetry :: "senv \<Rightarrow> nat \<Rightarrow> nat \<Rightarrow> bool sess \<Rightarrow> bool sess" where
  "BlockRetry E interval 0 func = do {
     b \<leftarrow> func;
     if b then ret True else do { wait_for E interval; ret False } }"
| "BlockRetry E interval (Suc n) func = do {
     b \<leftarrow> func;
     if b then ret True
     else do { wait_for E interval; if n = 0 then ret False else BlockRetry E interval n func } }"

section \<open>Groups\<close>

definition upd_group :: "u64 \<Rightarrow> (client_group \<Rightarrow> client_group) \<Rightarrow> unit sess" where
  "upd_group gid f = modify (\<lambda>s. s\<lparr>ss_groups := AList.map_entry gid f (ss_groups s)\<rparr>)"

definition GetClientGroupByGroupId :: "u64 \<Rightarrow> session \<Rightarrow> client_group option" where
  "GetClientGroupByGroupId gid s = map_of (ss_groups s) gid"

definition first_group :: "(client_group \<Rightarrow> 'a option) \<Rightarrow> session \<Rightarrow> (u64 \<times> 'a) option" where
  "first_group f s = (case List.find (\<lambda>gg. f (snd gg) \<noteq> None) (ss_groups s) of
     None \<Rightarrow> None | Some gg \<Rightarrow> map_option (Pair (fst gg)) (f (snd gg)))"

text \<open>\<open>GetClientGroup(displayId)\<close> asks the window manager for the group of a display.\<close>

definition GetClientGroup_display :: "senv \<Rightarrow> u64 \<Rightarrow> session \<Rightarrow> u64 option" where
  "GetClientGroup_display E displayId s =
     (let (r, gid) = e_displayGroup E (ss_log s) displayId in
      if r \<noteq> NO_ERROR then None
      else if GetClientGroupByGroupId gid s = None then None else Some gid)"

definition GetClientGroup_client :: "robj option \<Rightarrow> session \<Rightarrow> u64 option" where
  "GetClientGroup_client c s = (case c of None \<Rightarrow> None
     | Some k \<Rightarrow> map_option fst (List.find (\<lambda>gg. IsClientExist (Some k) (snd gg)) (ss_groups s)))"

definition GetCurrentClientBoundRealIme :: "session \<Rightarrow> (u64 \<times> input_client_info) option" where
  "GetCurrentClientBoundRealIme = first_group GetCurrentClientInfoBoundRealIme"

definition GetClientBoundRealIme :: "session \<Rightarrow> (u64 \<times> input_client_info) option" where
  "GetClientBoundRealIme = first_group GetClientInfoBoundRealIme"

definition GetClientBoundImeByWindowId_s :: "u32 \<Rightarrow> session \<Rightarrow> (u64 \<times> input_client_info) option" where
  "GetClientBoundImeByWindowId_s w = first_group (GetClientBoundImeByWindowId w)"

definition GetClientBySelfPid :: "pid_t \<Rightarrow> session \<Rightarrow> (u64 \<times> input_client_info) option" where
  "GetClientBySelfPid p = first_group (GetClientInfo_pid p)"

definition GetClientBySelfPidOrHostPid :: "pid_t \<Rightarrow> session \<Rightarrow> (u64 \<times> input_client_info) option" where
  "GetClientBySelfPidOrHostPid p = first_group (\<lambda>g. case GetClientInfo_pid p g of
     Some ci \<Rightarrow> Some ci | None \<Rightarrow> GetClientInfoByHostPid p g)"

definition GetClientBoundImeByImePid :: "pid_t \<Rightarrow> session \<Rightarrow> (u64 \<times> input_client_info) option" where
  "GetClientBoundImeByImePid p = first_group (GetClientInfoByBindIme p)"

definition GetCurrentClientInfo_s :: "senv \<Rightarrow> u64 \<Rightarrow> session \<Rightarrow> (u64 \<times> input_client_info) option" where
  "GetCurrentClientInfo_s E displayId s = (case GetClientGroup_display E displayId s of None \<Rightarrow> None
     | Some gid \<Rightarrow> (case GetClientGroupByGroupId gid s of None \<Rightarrow> None
         | Some g \<Rightarrow> map_option (Pair gid) (GetCurrentClientInfo g)))"

text \<open>The record of a client in a group of the session.\<close>

definition client_of :: "u64 \<Rightarrow> robj option \<Rightarrow> session \<Rightarrow> input_client_info option" where
  "client_of gid c s = (case GetClientGroupByGroupId gid s of None \<Rightarrow> None | Some g \<Rightarrow> GetClientInfo c g)"

definition current_of :: "u64 \<Rightarrow> session \<Rightarrow> robj option" where
  "current_of gid s = (case GetClientGroupByGroupId gid s of None \<Rightarrow> None | Some g \<Rightarrow> cg_currentClient g)"

definition inactive_of :: "u64 \<Rightarrow> session \<Rightarrow> robj option" where
  "inactive_of gid s = (case GetClientGroupByGroupId gid s of None \<Rightarrow> None | Some g \<Rightarrow> cg_inactiveClient g)"

definition IsDefaultGroup :: "u64 \<Rightarrow> bool" where
  "IsDefaultGroup gid \<longleftrightarrow> gid = DEFAULT_DISPLAY_GROUP_ID"

definition IsSameClientGroup :: "u64 \<Rightarrow> u64 \<Rightarrow> bool" where
  "IsSameClientGroup old new \<longleftrightarrow> new = old"

text \<open>\<open>clientGroup->RemoveClientInfo\<close> on a group of the session, with its death-recipient event.\<close>

definition remove_client_info :: "u64 \<Rightarrow> robj option \<Rightarrow> unit sess" where
  "remove_client_info gid c = do {
     evs \<leftarrow> gets (\<lambda>s. case GetClientGroupByGroupId gid s of None \<Rightarrow> [] | Some g \<Rightarrow> fst (RemoveClientInfo c g));
     upd_group gid (\<lambda>g. snd (RemoveClientInfo c g));
     for_each evs (\<lambda>ev. emit (ClientDeath ev)) }"

text \<open>A change made through the pointer to a client's record.\<close>

definition upd_client :: "u64 \<Rightarrow> robj option \<Rightarrow> (input_client_info \<Rightarrow> input_client_info) \<Rightarrow> unit sess" where
  "upd_client gid c f = (case c of None \<Rightarrow> ret ()
     | Some k \<Rightarrow> upd_group gid (\<lambda>g. g\<lparr>cg_mapClients := AList.map_entry k f (cg_mapClients g)\<rparr>))"

section \<open>Input methods\<close>

definition GetRealImeData :: "bool \<Rightarrow> session \<Rightarrow> ime_data option" where
  "GetRealImeData isReady s = (case ss_real s of None \<Rightarrow> None
     | Some d \<Rightarrow> if \<not> isReady then Some d else if im_status d \<noteq> READY then None else Some d)"

definition GetRealImeData_pid :: "pid_t \<Rightarrow> session \<Rightarrow> ime_data option" where
  "GetRealImeData_pid p s = (case ss_real s of None \<Rightarrow> None
     | Some d \<Rightarrow> if im_pid d \<noteq> p then None else Some d)"

definition GetMirrorImeData_pid :: "pid_t \<Rightarrow> session \<Rightarrow> ime_data option" where
  "GetMirrorImeData_pid p s = (case ss_mirror s of None \<Rightarrow> None
     | Some d \<Rightarrow> if im_pid d \<noteq> p then None else Some d)"

definition GetProxyImeData_display :: "u64 \<Rightarrow> session \<Rightarrow> ime_data option" where
  "GetProxyImeData_display displayId s = (case map_of (ss_proxy s) displayId of None \<Rightarrow> None
     | Some l \<Rightarrow> if l = [] then None else Some (last l))"

fun find_proxy :: "pid_t \<Rightarrow> (u64 \<times> ime_data list) list \<Rightarrow> ime_data option" where
  "find_proxy p [] = None"
| "find_proxy p ((k, l) # m) = (case List.find (\<lambda>d. im_pid d = p) l of Some d \<Rightarrow> Some d | None \<Rightarrow> find_proxy p m)"

definition GetProxyImeData_pid :: "pid_t \<Rightarrow> session \<Rightarrow> ime_data option" where
  "GetProxyImeData_pid p s = find_proxy p (ss_proxy s)"

definition GetImeData :: "pid_t \<Rightarrow> ime_type \<Rightarrow> session \<Rightarrow> ime_data option" where
  "GetImeData p t s = (case t of IME \<Rightarrow> GetRealImeData_pid p s | IME_MIRROR \<Rightarrow> GetMirrorImeData_pid p s
     | PROXY_IME \<Rightarrow> GetProxyImeData_pid p s | IME_NONE \<Rightarrow> None)"

definition GetImeData_bind :: "bind_ime_data option \<Rightarrow> session \<Rightarrow> ime_data option" where
  "GetImeData_bind b s = (case b of None \<Rightarrow> None | Some x \<Rightarrow> GetImeData (bd_pid x) (bd_type x) s)"

definition IsEnable :: "senv \<Rightarrow> ime_data option \<Rightarrow> u64 \<Rightarrow> session \<Rightarrow> bool" where
  "IsEnable E d displayId s = (case d of None \<Rightarrow> False
     | Some x \<Rightarrow> (case im_core x of None \<Rightarrow> False | Some k \<Rightarrow> e_bool E (ss_log s) (QIsEnable k displayId)))"

definition GetReadyImeDataToBind :: "senv \<Rightarrow> u64 \<Rightarrow> session \<Rightarrow> ime_data option" where
  "GetReadyImeDataToBind E displayId s =
     (let proxyIme = GetProxyImeData_display displayId s in
      if proxyIme \<noteq> None \<and> IsEnable E proxyIme displayId s then proxyIme
      else let mainProxy = GetProxyImeData_display DEFAULT_DISPLAY_ID s in
        if displayId \<noteq> DEFAULT_DISPLAY_ID \<and>
           (case mainProxy of None \<Rightarrow> False
            | Some p \<Rightarrow> im_uid p = COL_PROXY_IME \<and> IsEnable E mainProxy displayId s)
        then mainProxy
        else GetRealImeData True s)"

definition GetAllReadyImeData :: "ime_data option \<Rightarrow> u64 \<Rightarrow> session \<Rightarrow> ime_data list" where
  "GetAllReadyImeData d gid s = (case d of None \<Rightarrow> []
     | Some x \<Rightarrow> if IsImeMirror x then [x]
         else (case ss_mirror s of None \<Rightarrow> [x] | Some m \<Rightarrow> if \<not> IsDefaultGroup gid then [x] else [x, m]))"

definition IsSameIme :: "bind_ime_data option \<Rightarrow> ime_data option \<Rightarrow> bool" where
  "IsSameIme old new = (case old of None \<Rightarrow> False | Some b \<Rightarrow>
     (case new of None \<Rightarrow> False | Some d \<Rightarrow> bd_pid b = im_pid d))"

definition IsSameImeType :: "bind_ime_data option \<Rightarrow> ime_data option \<Rightarrow> bool" where
  "IsSameImeType old new = (case old of None \<Rightarrow> True | Some b \<Rightarrow>
     (case new of None \<Rightarrow> True | Some d \<Rightarrow> bd_type b = im_type d))"

section \<open>Requests to an input method\<close>

text \<open>
  The real input method's data is one object, shared by everyone who holds a pointer to it; its
  place is the session's slot. A request therefore reads and writes the state manager in the slot.
  (Data that has been dropped from the slot meanwhile keeps its own manager, whose further changes
  nobody observes.)
\<close>

definition live_manager :: "ime_data \<Rightarrow> session \<Rightarrow> ime_state_manager option" where
  "live_manager d s = (case ss_real s of None \<Rightarrow> im_stateManager d | Some r \<Rightarrow> im_stateManager r)"

definition put_manager :: "ime_state_manager \<Rightarrow> unit sess" where
  "put_manager m = modify (\<lambda>s. s\<lparr>ss_real := map_option (\<lambda>r. r\<lparr>im_stateManager := Some m\<rparr>) (ss_real s)\<rparr>)"

definition act_all :: "state_action list \<Rightarrow> unit sess" where
  "act_all as = for_each as (\<lambda>a. emit (StateAct a))"

definition before_ipc :: "senv \<Rightarrow> request_type \<Rightarrow> ime_state_manager \<Rightarrow> unit sess" where
  "before_ipc E t m = do {
     put_manager (snd (BeforeIpc (e_hasHandler E) t m));
     act_all (fst (BeforeIpc (e_hasHandler E) t m)) }"

definition after_ipc :: "senv \<Rightarrow> request_type \<Rightarrow> int \<Rightarrow> ime_state_manager \<Rightarrow> unit sess" where
  "after_ipc E t r m = do {
     put_manager (snd (AfterIpc (e_hasHandler E) t (r = NO_ERROR) m));
     act_all (fst (AfterIpc (e_hasHandler E) t (r = NO_ERROR) m)) }"

definition RequestIme :: "senv \<Rightarrow> ime_data option \<Rightarrow> request_type \<Rightarrow> int sess \<Rightarrow> int sess" where
  "RequestIme E data t exec = (case data of None \<Rightarrow> ret NO_ERROR
     | Some d \<Rightarrow>
       if im_core d = None \<or> im_stateManager d = None then ret NO_ERROR
       else if \<not> IsRealIme d then exec
       else do {
         mgr \<leftarrow> gets (live_manager d);
         case mgr of None \<Rightarrow> ret NO_ERROR
         | Some m \<Rightarrow>
           if \<not> IsIpcNeeded t m then ret NO_ERROR
           else do {
             before_ipc E t m;
             r \<leftarrow> exec;
             mgr' \<leftarrow> gets (live_manager (d\<lparr>im_stateManager := Some (snd (BeforeIpc (e_hasHandler E) t m))\<rparr>));
             case mgr' of None \<Rightarrow> ret r
             | Some m' \<Rightarrow> do { after_ipc E t r m'; ret r } } })"

text \<open>\<open>method\<close> is the \<open>CoreMethod\<close> the caller passes, applied to each input method in turn.\<close>

fun request_each :: "senv \<Rightarrow> request_type \<Rightarrow> (ime_data \<Rightarrow> int sess) \<Rightarrow> ime_data list \<Rightarrow> int \<Rightarrow> int sess" where
  "request_each E t method [] res = ret res"
| "request_each E t method (d # ds) res = do {
     r \<leftarrow> RequestIme E (Some d) t (method d);
     request_each E t method ds (if \<not> IsImeMirror d then r else res) }"

definition RequestAllIme ::
    "senv \<Rightarrow> ime_data option \<Rightarrow> request_type \<Rightarrow> (ime_data \<Rightarrow> int sess) \<Rightarrow> u64 \<Rightarrow> int sess" where
  "RequestAllIme E data t method gid = (case data of None \<Rightarrow> ret NO_ERROR
     | Some d \<Rightarrow> do {
         mirror \<leftarrow> gets ss_mirror;
         request_each E t method
           (d # (if \<not> IsImeMirror d \<and> IsDefaultGroup gid then (case mirror of None \<Rightarrow> [] | Some m \<Rightarrow> [m]) else []))
           NO_ERROR })"

section \<open>Sub types\<close>

abbreviation UNDEFINED :: string where
  "UNDEFINED \<equiv> ''undefined''"

definition upd_itm :: "(input_type_manager \<Rightarrow> input_type_manager) \<Rightarrow> unit sess" where
  "upd_itm f = modify (\<lambda>s. s\<lparr>ss_itm := f (ss_itm s)\<rparr>)"

text \<open>A query of the input type manager that may read the configuration first.\<close>

definition itm_query :: "(input_type_manager \<Rightarrow> 'a \<times> input_type_manager) \<Rightarrow> 'a sess" where
  "itm_query f = do { r \<leftarrow> gets (\<lambda>s. fst (f (ss_itm s))); upd_itm (\<lambda>m. snd (f m)); ret r }"

definition SwitchSubtype :: "senv \<Rightarrow> sub_property \<Rightarrow> int sess" where
  "SwitchSubtype E p = do {
     data \<leftarrow> gets (GetRealImeData True);
     case data of None \<Rightarrow> ret ERROR_IME_NOT_STARTED
     | Some d \<Rightarrow> if im_core d = None then ret ERROR_IME_NOT_STARTED
                 else RequestIme E data NORMAL (core_ipc E d (SetSubtype_ipc p)) }"

definition SwitchSubtypeWithoutStartIme :: "senv \<Rightarrow> sub_property \<Rightarrow> int sess" where
  "SwitchSubtypeWithoutStartIme E p = do {
     data \<leftarrow> gets (GetRealImeData True);
     case data of None \<Rightarrow> ret ERROR_IME_NOT_STARTED
     | Some d \<Rightarrow> if im_core d = None then ret ERROR_IME_NOT_STARTED
                 else RequestIme E data NORMAL (core_ipc E d (SetSubtype_ipc p)) }"

definition NotifySubTypeChangedToIme :: "senv \<Rightarrow> string \<Rightarrow> string \<Rightarrow> int sess" where
  "NotifySubTypeChangedToIme E bundleName subName = do {
     subProp \<leftarrow> (if subName = '''' then ret (UNDEFINED, UNDEFINED)
       else do {
         isType \<leftarrow> itm_query (IsInputType (e_inputTypeCfg E) \<lparr>ii_bundleName = bundleName, ii_subName = subName\<rparr>);
         if isType then do {
           upd_itm (Set True \<lparr>ii_bundleName = bundleName, ii_subName = subName\<rparr>);
           ret (bundleName, subName) }
         else do {
           info \<leftarrow> gets (\<lambda>s. e_subProp E (ss_log s) bundleName subName);
           ret (case info of None \<Rightarrow> (UNDEFINED, UNDEFINED) | Some p \<Rightarrow> p) } });
     SwitchSubtypeWithoutStartIme E subProp }"

definition RestoreCurrentImeSubType :: "senv \<Rightarrow> int sess" where
  "RestoreCurrentImeSubType E = do {
     started \<leftarrow> gets (\<lambda>s. it_isStarted (ss_itm s));
     if \<not> started then ret NO_ERROR
     else do {
       typeIme \<leftarrow> gets (\<lambda>s. it_currentTypeIme (ss_itm s));
       upd_itm (Set False no_ime);
       data \<leftarrow> gets (GetRealImeData True);
       case data of None \<Rightarrow> ret NO_ERROR
       | Some d \<Rightarrow>
         if fst (im_ime d) \<noteq> ii_bundleName typeIme then ret NO_ERROR
         else do {
           defaultIme \<leftarrow> ask_cfg E CurrentImeCfg;
           NotifySubTypeChangedToIme E (fst (im_ime d))
             (case defaultIme of None \<Rightarrow> ''''
              | Some i \<Rightarrow> if fst (im_ime d) = nc_bundleName i then nc_subName i else '''') } } }"

section \<open>Ending an input session\<close>

definition NotifyInputStop :: "u64 \<Rightarrow> input_stop_scene \<Rightarrow> bool \<Rightarrow> unit sess" where
  "NotifyInputStop displayId scene isRealIme = when_do isRealIme (emit (NotifyInputStopEv displayId scene))"

definition StopClientInput :: "senv \<Rightarrow> input_client_info option \<Rightarrow> detach_options \<Rightarrow> unit sess" where
  "StopClientInput E info options = (case info of None \<Rightarrow> ret ()
     | Some ci \<Rightarrow> (case ci_client ci of None \<Rightarrow> ret ()
       | Some k \<Rightarrow>
         if do_isNotifyClientAsync options
         then do { client_ipc E k (OnInputStopAsync_ipc (do_isInactiveClient options)
                     (do_isSendKeyboardStatus options) (do_isStopByMultiPreemptInProc options)); ret () }
         else do {
           ok \<leftarrow> ask E QAlloc;
           if \<not> ok then ret ()
           else do {
             modify (\<lambda>s. s\<lparr>ss_isNotifyFinished := False\<rparr>);
             client_ipc E k (OnInputStop_ipc (do_isInactiveClient options)
               (do_isSendKeyboardStatus options) (do_isStopByMultiPreemptInProc options));
             ret () } }))"

definition StopImeInput :: "senv \<Rightarrow> ime_data option \<Rightarrow> input_client_info option \<Rightarrow> u32 \<Rightarrow> int \<Rightarrow> unit sess" where
  "StopImeInput E data info sessionId clientSessionId =
     (case data of None \<Rightarrow> ret () | Some d \<Rightarrow>
      (case info of None \<Rightarrow> ret () | Some ci \<Rightarrow> do {
         r \<leftarrow> RequestAllIme E data STOP_INPUT
                (\<lambda>x. core_ipc E x (StopInput_ipc (ci_channel ci) sessionId clientSessionId)) (ci_clientGroupId ci);
         when_do (r = NO_ERROR \<and> IsRealIme d) (do {
           emit (ReportImeStateEv False (im_pid d) (fst (im_ime d)));
           emit (SetCriticalEv False) });
         when_do (IsRealIme d) (do {
           RestoreCurrentImeSubType E;
           cb \<leftarrow> gets ss_usageCallbacks;
           when_do cb (emit (ImeUnbindCb (fst (im_ime d)))) }) }))"

definition UnBindClientWithIme :: "senv \<Rightarrow> input_client_info option \<Rightarrow> detach_options \<Rightarrow> unit sess" where
  "UnBindClientWithIme E info options = (case info of None \<Rightarrow> ret ()
     | Some ci \<Rightarrow> do {
         when_do (\<not> do_isUnbindFromClient options) (StopClientInput E info options);
         data \<leftarrow> gets (GetImeData_bind (ci_bindImeData ci));
         StopImeInput E data info (do_sessionId options) (do_clientSessionId options) })"

section \<open>Quiet operations\<close>

text \<open>
  Requests and notifications change nothing of the session but the log, the input type
  manager, the state manager and the pending private command of the real input method and the
  notification flag. What they leave
  is the projection \<open>quiet_view\<close>; anything that depends on it only (the client groups, the
  input methods' data) is framed.
\<close>

definition quiet_view :: "session \<Rightarrow> session" where
  "quiet_view s = s\<lparr>ss_log := [], ss_itm := new_input_type_manager, ss_isNotifyFinished := False,
     ss_real := map_option (\<lambda>r. r\<lparr>im_stateManager := None, im_privateCommand := []\<rparr>) (ss_real s)\<rparr>"

abbreviation quiet :: "'a sess \<Rightarrow> bool" where
  "quiet \<equiv> frames quiet_view"

lemma quiet_view_eqD:
  assumes "quiet_view s = quiet_view t"
  shows "ss_groups s = ss_groups t" "ss_mirror s = ss_mirror t" "ss_proxy s = ss_proxy t"
    "ss_userId s = ss_userId t" "ss_attachingCount s = ss_attachingCount t"
    "ss_scbStartCount s = ss_scbStartCount t" "ss_restartTasks s = ss_restartTasks t"
    "ss_usageCallbacks s = ss_usageCallbacks t" "ss_runningIme s = ss_runningIme t"
    "ss_largeMemoryState s = ss_largeMemoryState t" "ss_isFirstPreemption s = ss_isFirstPreemption t"
    "map_option im_pid (ss_real s) = map_option im_pid (ss_real t)"
    "map_option im_status (ss_real s) = map_option im_status (ss_real t)"
    "map_option im_ime (ss_real s) = map_option im_ime (ss_real t)"
    "map_option im_type (ss_real s) = map_option im_type (ss_real t)"
proof -
  have *: "f (quiet_view s) = f (quiet_view t)" for f :: "session \<Rightarrow> 'z" using assms by simp
  from * [of ss_groups] * [of ss_mirror] * [of ss_proxy] * [of ss_userId] * [of ss_attachingCount]
    * [of ss_scbStartCount] * [of ss_restartTasks] * [of ss_usageCallbacks] * [of ss_runningIme]
    * [of ss_largeMemoryState] * [of ss_isFirstPreemption]
    * [of "\<lambda>s. map_option im_pid (ss_real s)"] * [of "\<lambda>s. map_option im_status (ss_real s)"]
    * [of "\<lambda>s. map_option im_ime (ss_real s)"] * [of "\<lambda>s. map_option im_type (ss_real s)"]
  show "ss_groups s = ss_groups t" "ss_mirror s = ss_mirror t" "ss_proxy s = ss_proxy t"
    "ss_userId s = ss_userId t" "ss_attachingCount s = ss_attachingCount t"
    "ss_scbStartCount s = ss_scbStartCount t" "ss_restartTasks s = ss_restartTasks t"
    "ss_usageCallbacks s = ss_usageCallbacks t" "ss_runningIme s = ss_runningIme t"
    "ss_largeMemoryState s = ss_largeMemoryState t" "ss_isFirstPreemption s = ss_isFirstPreemption t"
    "map_option im_pid (ss_real s) = map_option im_pid (ss_real t)"
    "map_option im_status (ss_real s) = map_option im_status (ss_real t)"
    "map_option im_ime (ss_real s) = map_option im_ime (ss_real t)"
    "map_option im_type (ss_real s) = map_option im_type (ss_real t)"
    by (simp_all add: quiet_view_def option.map_comp comp_def)
qed

lemma quiet_groups: "quiet m \<Longrightarrow> frames ss_groups m"
  unfolding frames_def using quiet_view_eqD(1) by blast

lemma quiet_preserves: "quiet m \<Longrightarrow> preserves (\<lambda>s. P (ss_groups s)) m"
  by (rule frames_inv [OF quiet_groups])

lemma quiet_emit [frame_intros]: "quiet (emit ev)"
  by (simp add: frames_def emit_def quiet_view_def)

lemma quiet_put_manager [frame_intros]: "quiet (put_manager m)"
  by (simp add: frames_def put_manager_def quiet_view_def option.map_comp comp_def)

lemma quiet_upd_itm [frame_intros]: "quiet (upd_itm f)"
  by (simp add: frames_def upd_itm_def quiet_view_def)

lemma quiet_notify_flag [frame_intros]: "quiet (modify (\<lambda>s. s\<lparr>ss_isNotifyFinished := b\<rparr>))"
  by (simp add: frames_def quiet_view_def)

lemma quiet_call [frame_intros]: "quiet (call E ev)"
  unfolding call_def by (intro frame_intros)

lemma quiet_ask [frame_intros]: "quiet (ask E q)" "quiet (ask_cfg E q')"
  unfolding ask_def ask_cfg_def by (rule frames_gets)+

lemma quiet_ask_ime_to_start [frame_intros]: "quiet (ask_ime_to_start E)"
  unfolding ask_ime_to_start_def by (intro frame_intros)

lemma quiet_core_ipc [frame_intros]: "quiet (core_ipc E d c)"
  unfolding core_ipc_def by (intro frame_intros)

lemma quiet_client_ipc [frame_intros]: "quiet (client_ipc E k c)"
  unfolding client_ipc_def by (intro frame_intros)

lemma quiet_act_all [frame_intros]: "quiet (act_all as)"
  unfolding act_all_def by (intro frame_intros)

lemma quiet_ipc [frame_intros]: "quiet (before_ipc E t m)" "quiet (after_ipc E t r m)"
  unfolding before_ipc_def after_ipc_def by (intro frame_intros)+

lemma quiet_RequestIme [frame_intros]: "quiet exec \<Longrightarrow> quiet (RequestIme E data t exec)"
  unfolding RequestIme_def by (intro frame_intros)

lemma quiet_request_each [frame_intros]: "(\<And>d. quiet (f d)) \<Longrightarrow> quiet (request_each E t f ds res)"
proof (induction ds arbitrary: res)
  case Nil
  show ?case by simp
next
  case (Cons d ds)
  have "quiet (RequestIme E (Some d) t (f d))" using Cons.prems by (intro frame_intros)
  moreover have "\<And>r. quiet (request_each E t f ds r)" using Cons by blast
  ultimately show ?case by (auto intro!: frames_bind)
qed

lemma quiet_RequestAllIme [frame_intros]: "(\<And>d. quiet (f d)) \<Longrightarrow> quiet (RequestAllIme E data t f gid)"
  unfolding RequestAllIme_def by (intro frame_intros)

lemma quiet_itm_query [frame_intros]: "quiet (itm_query f)"
  unfolding itm_query_def by (intro frame_intros)

lemma quiet_SwitchSubtype [frame_intros]: "quiet (SwitchSubtype E p)" "quiet (SwitchSubtypeWithoutStartIme E p)"
  unfolding SwitchSubtype_def SwitchSubtypeWithoutStartIme_def by (intro frame_intros)+

lemma quiet_NotifySubType [frame_intros]: "quiet (NotifySubTypeChangedToIme E b n)"
  unfolding NotifySubTypeChangedToIme_def by (intro frame_intros)

lemma quiet_RestoreSubType [frame_intros]: "quiet (RestoreCurrentImeSubType E)"
  unfolding RestoreCurrentImeSubType_def by (intro frame_intros)

lemma quiet_NotifyInputStop [frame_intros]: "quiet (NotifyInputStop d sc b)"
  unfolding NotifyInputStop_def by (intro frame_intros)

lemma quiet_StopClientInput [frame_intros]: "quiet (StopClientInput E ci op)"
  unfolding StopClientInput_def by (intro frame_intros)

lemma quiet_StopImeInput [frame_intros]: "quiet (StopImeInput E data ci a b)"
  unfolding StopImeInput_def by (intro frame_intros)

lemma quiet_UnBindClientWithIme [frame_intros]: "quiet (UnBindClientWithIme E ci op)"
  unfolding UnBindClientWithIme_def by (intro frame_intros)

end
