(* ===== verification/Session_Clients.thy ===== *)
theory Session_Clients
  imports Session_Base
begin

text \<open>
  The handlers of \<open>peruser_session.cpp\<close> that attach, show, hide, focus and release clients,
  in the order in which they call each other. A group is named by its id (groups are never
  erased); a null client or group is \<open>None\<close>.
\<close>

section \<open>Show and hide\<close>

definition HideKeyboard :: "senv \<Rightarrow> robj option \<Rightarrow> u64 \<Rightarrow> int sess" where
  "HideKeyboard E client gid = (case client of None \<Rightarrow> ret ERROR_NULL_POINTER
     | Some k \<Rightarrow> do {
       info \<leftarrow> gets (client_of gid client);
       case info of None \<Rightarrow> ret ERROR_CLIENT_NOT_FOUND
       | Some ci \<Rightarrow> do {
         data \<leftarrow> gets (GetImeData_bind (ci_bindImeData ci));
         case data of None \<Rightarrow> ret ERROR_IME_NOT_STARTED
         | Some d \<Rightarrow> do {
           r \<leftarrow> RequestIme E data NORMAL (core_ipc E d HideKeyboard_ipc);
           if r \<noteq> NO_ERROR then ret ERROR_KBD_HIDE_FAILED
           else do {
             upd_group gid (UpdateClientInfo client [(ISSHOWKEYBOARD, V_bool False)]);
             when_do (IsRealIme d) (void (RestoreCurrentImeSubType E));
             NotifyInputStop (ia_editorDisplayId (ci_attribute ci)) CLIENT_TRIGGER (IsRealIme d);
             ret NO_ERROR } } } })"

text \<open>The reason is passed as an \<open>int32_t\<close>, which the variant holds as its \<open>pid_t\<close> alternative.\<close>

definition ShowKeyboard :: "senv \<Rightarrow> robj option \<Rightarrow> u64 \<Rightarrow> int \<Rightarrow> int sess" where
  "ShowKeyboard E client gid requestKeyboardReason = (case client of None \<Rightarrow> ret ERROR_IMSA_NULLPTR
     | Some k \<Rightarrow> do {
       info \<leftarrow> gets (client_of gid client);
       case info of None \<Rightarrow> ret ERROR_CLIENT_NOT_FOUND
       | Some ci \<Rightarrow> do {
         data \<leftarrow> gets (GetImeData_bind (ci_bindImeData ci));
         case data of None \<Rightarrow> ret ERROR_IME_NOT_STARTED
         | Some d \<Rightarrow> do {
           r \<leftarrow> RequestIme E data REQUEST_SHOW (core_ipc E d (ShowKeyboard_ipc requestKeyboardReason));
           if r \<noteq> NO_ERROR then ret ERROR_KBD_SHOW_FAILED
           else do {
             upd_group gid (UpdateClientInfo client
               [(ISSHOWKEYBOARD, V_bool True), (REQUEST_KEYBOARD_REASON, V_pid requestKeyboardReason)]);
             ret NO_ERROR } } } })"

definition OnHideCurrentInput :: "senv \<Rightarrow> u64 \<Rightarrow> int sess" where
  "OnHideCurrentInput E gid = do {
     g \<leftarrow> gets (GetClientGroupByGroupId gid);
     case g of None \<Rightarrow> ret ERROR_CLIENT_NOT_FOUND
     | Some g \<Rightarrow> (case cg_currentClient g of None \<Rightarrow> ret ERROR_CLIENT_NOT_FOUND
         | Some k \<Rightarrow> HideKeyboard E (Some k) gid) }"

text \<open>The default argument of \<open>ShowKeyboard\<close> is \<open>RequestKeyboardReason::NONE\<close>, 0.\<close>

definition OnShowCurrentInput :: "senv \<Rightarrow> u64 \<Rightarrow> int sess" where
  "OnShowCurrentInput E gid = do {
     g \<leftarrow> gets (GetClientGroupByGroupId gid);
     case g of None \<Rightarrow> ret ERROR_CLIENT_NOT_FOUND
     | Some g \<Rightarrow> (case cg_currentClient g of None \<Rightarrow> ret ERROR_CLIENT_NOT_FOUND
         | Some k \<Rightarrow> ShowKeyboard E (Some k) gid 0) }"

definition OnShowCurrentInputInTargetDisplay :: "senv \<Rightarrow> u64 \<Rightarrow> int sess" where
  "OnShowCurrentInputInTargetDisplay E displayId = do {
     gc \<leftarrow> gets GetCurrentClientBoundRealIme;
     case gc of None \<Rightarrow> ret ERROR_CLIENT_NOT_FOUND
     | Some (gid, ci) \<Rightarrow>
       if ia_callingDisplayId (ci_attribute ci) \<noteq> displayId then ret ERROR_CLIENT_NOT_FOUND
       else ShowKeyboard E (ci_client ci) gid 0 }"

definition OnHideCurrentInputInTargetDisplay :: "senv \<Rightarrow> u64 \<Rightarrow> int sess" where
  "OnHideCurrentInputInTargetDisplay E displayId = do {
     gc \<leftarrow> gets GetCurrentClientBoundRealIme;
     case gc of None \<Rightarrow> ret ERROR_CLIENT_NOT_FOUND
     | Some (gid, ci) \<Rightarrow>
       if ia_callingDisplayId (ci_attribute ci) \<noteq> displayId then ret ERROR_CLIENT_NOT_FOUND
       else HideKeyboard E (ci_client ci) gid }"

definition OnHideInput :: "senv \<Rightarrow> robj option \<Rightarrow> int sess" where
  "OnHideInput E client = (case client of None \<Rightarrow> ret ERROR_CLIENT_NOT_FOCUSED
     | Some k \<Rightarrow> do {
       og \<leftarrow> gets (GetClientGroup_client client);
       case og of None \<Rightarrow> ret ERROR_CLIENT_NOT_FOCUSED
       | Some gid \<Rightarrow> do {
         cur \<leftarrow> gets (current_of gid);
         if \<not> IsSameClient client cur then ret ERROR_CLIENT_NOT_FOCUSED
         else HideKeyboard E client gid } })"

definition OnShowInput :: "senv \<Rightarrow> robj option \<Rightarrow> int \<Rightarrow> int sess" where
  "OnShowInput E client requestKeyboardReason = (case client of None \<Rightarrow> ret ERROR_CLIENT_NOT_FOCUSED
     | Some k \<Rightarrow> do {
       og \<leftarrow> gets (GetClientGroup_client client);
       case og of None \<Rightarrow> ret ERROR_CLIENT_NOT_FOCUSED
       | Some gid \<Rightarrow> do {
         cur \<leftarrow> gets (current_of gid);
         if \<not> IsSameClient client cur then ret ERROR_CLIENT_NOT_FOCUSED
         else ShowKeyboard E client gid requestKeyboardReason } })"

definition OnHideSoftKeyBoardSelf :: "senv \<Rightarrow> unit sess" where
  "OnHideSoftKeyBoardSelf E = do {
     gc \<leftarrow> gets GetCurrentClientBoundRealIme;
     case gc of None \<Rightarrow> ret ()
     | Some (gid, ci) \<Rightarrow>
       if ci_client ci = None then ret ()
       else do {
         upd_group gid (UpdateClientInfo (ci_client ci) [(ISSHOWKEYBOARD, V_bool False)]);
         RestoreCurrentImeSubType E;
         cb \<leftarrow> gets ss_usageCallbacks;
         data \<leftarrow> gets (GetImeData_bind (ci_bindImeData ci));
         when_do cb (case data of None \<Rightarrow> ret ()
           | Some d \<Rightarrow> when_do (IsRealIme d) (emit (ImeUnbindCb (fst (im_ime d))))) } }"

section \<open>Removing and deactivating a client\<close>

definition RemoveClient :: "senv \<Rightarrow> robj option \<Rightarrow> u64 \<Rightarrow> detach_options \<Rightarrow> int sess" where
  "RemoveClient E client gid options = (case client of None \<Rightarrow> ret ERROR_CLIENT_NULL_POINTER
     | Some k \<Rightarrow> do {
       info \<leftarrow> gets (client_of gid client);
       cur \<leftarrow> gets (current_of gid);
       inact \<leftarrow> gets (inactive_of gid);
       (if IsSameClient client cur then do {
          UnBindClientWithIme E info options;
          upd_group gid (SetCurrentClient None);
          StopClientInput E info options }
        else if IsSameClient client inact then do {
          upd_group gid (SetInactiveClient None);
          StopClientInput E info options }
        else when_do (do_needNotifyClient options) (StopClientInput E info options));
       remove_client_info gid client;
       ret NO_ERROR })"

definition DeactivateClient :: "senv \<Rightarrow> robj option \<Rightarrow> u64 \<Rightarrow> unit sess" where
  "DeactivateClient E client gid = (case client of None \<Rightarrow> ret ()
     | Some k \<Rightarrow> do {
       info \<leftarrow> gets (client_of gid client);
       case info of None \<Rightarrow> ret ()
       | Some ci \<Rightarrow> do {
         upd_group gid (UpdateClientInfo client [(STATE, V_ClientState INACTIVE)]);
         cur \<leftarrow> gets (current_of gid);
         when_do (IsSameClient client cur) (upd_group gid (SetCurrentClient None));
         upd_group gid (SetInactiveClient client);
         client_ipc E k DeactivateClient_ipc;
         data \<leftarrow> gets (GetImeData_bind (ci_bindImeData ci));
         case data of None \<Rightarrow> ret ()
         | Some d \<Rightarrow> do {
           RequestAllIme E data NORMAL
             (\<lambda>x. do { core_ipc E x (OnClientInactive_ipc (ci_channel ci)); ret NO_ERROR }) (ci_clientGroupId ci);
           emit (ReportImeStateEv False (im_pid d) (fst (im_ime d)));
           emit (SetCriticalEv False) } } })"

definition OnClientDied :: "senv \<Rightarrow> robj option \<Rightarrow> unit sess" where
  "OnClientDied E remote = (case remote of None \<Rightarrow> ret ()
     | Some k \<Rightarrow> do {
       og \<leftarrow> gets (GetClientGroup_client remote);
       case og of None \<Rightarrow> ret ()
       | Some gid \<Rightarrow> do {
         (isNotify, displayId, isRealIme) \<leftarrow> gets (\<lambda>s. case GetClientGroupByGroupId gid s of
            None \<Rightarrow> (False, DEFAULT_DISPLAY_ID, False) | Some g \<Rightarrow> IsNotifyInputStop remote g);
         when_do isNotify (NotifyInputStop displayId CLIENT_TRIGGER isRealIme);
         info \<leftarrow> gets (client_of gid remote);
         cur \<leftarrow> gets (current_of gid);
         when_do (IsSameClient remote cur) (do {
           data \<leftarrow> gets (GetImeData_bind (case info of None \<Rightarrow> None | Some ci \<Rightarrow> ci_bindImeData ci));
           StopImeInput E data info 0 (- 1);
           upd_group gid (SetCurrentClient None) });
         inact \<leftarrow> gets (inactive_of gid);
         when_do (IsSameClient remote inact) (do {
           data \<leftarrow> gets (GetImeData_bind (case info of None \<Rightarrow> None | Some ci \<Rightarrow> ci_bindImeData ci));
           StopImeInput E data info 0 (- 1);
           upd_group gid (SetInactiveClient None) });
         remove_client_info gid remote } })"

definition OnReleaseInput :: "senv \<Rightarrow> robj option \<Rightarrow> u32 \<Rightarrow> int \<Rightarrow> int sess" where
  "OnReleaseInput E client sessionId clientSessionId = (case client of None \<Rightarrow> ret ERROR_CLIENT_NULL_POINTER
     | Some k \<Rightarrow> do {
       og \<leftarrow> gets (GetClientGroup_client client);
       case og of None \<Rightarrow> ret NO_ERROR
       | Some gid \<Rightarrow> do {
         (isReady, displayId, isRealIme) \<leftarrow> gets (\<lambda>s. case GetClientGroupByGroupId gid s of
            None \<Rightarrow> (False, DEFAULT_DISPLAY_ID, False) | Some g \<Rightarrow> IsNotifyInputStop client g);
         r \<leftarrow> RemoveClient E client gid (default_detach_options\<lparr>do_sessionId := sessionId,
                do_clientSessionId := clientSessionId, do_isUnbindFromClient := True\<rparr>);
         if r \<noteq> NO_ERROR then ret r
         else do {
           when_do isReady (NotifyInputStop displayId CLIENT_TRIGGER isRealIme);
           ret NO_ERROR } } })"

section \<open>Hide requests\<close>

definition NeedHideRealIme :: "senv \<Rightarrow> u64 \<Rightarrow> session \<Rightarrow> bool" where
  "NeedHideRealIme E gid s = (case GetClientBoundRealIme s of None \<Rightarrow> True
     | Some (_, ci) \<Rightarrow>
       if \<not> e_bool E (ss_log s) (QDisplayGroupIdExist (ci_clientGroupId ci)) \<or>
          \<not> e_bool E (ss_log s) (QDisplayGroupIdExist (ia_displayGroupId (ci_attribute ci)))
       then True
       else ci_clientGroupId ci = gid \<or> ia_displayGroupId (ci_attribute ci) = gid)"

definition RequestHideRealIme :: "senv \<Rightarrow> u64 \<Rightarrow> bool sess" where
  "RequestHideRealIme E gid = do {
     data \<leftarrow> gets (GetRealImeData True);
     case data of None \<Rightarrow> ret False
     | Some d \<Rightarrow> do {
       need \<leftarrow> gets (NeedHideRealIme E gid);
       if \<not> need then ret False
       else do {
         r \<leftarrow> RequestIme E data REQUEST_HIDE (core_ipc E d HideKeyboard_ipc);
         RestoreCurrentImeSubType E;
         ret (r = NO_ERROR) } } }"

definition RequestHideProxyIme :: "senv \<Rightarrow> u64 \<Rightarrow> bool sess" where
  "RequestHideProxyIme E displayId = do {
     proxyIme \<leftarrow> gets (GetProxyImeData_display displayId);
     proxyIme \<leftarrow> (case proxyIme of Some d \<Rightarrow> ret (Some d)
       | None \<Rightarrow> do {
         info \<leftarrow> gets (GetCurrentClientInfo_s E displayId);
         case info of None \<Rightarrow> ret None
         | Some (_, ci) \<Rightarrow> gets (GetImeData_bind (ci_bindImeData ci)) });
     case proxyIme of None \<Rightarrow> ret False
     | Some d \<Rightarrow> do {
       en \<leftarrow> gets (IsEnable E proxyIme displayId);
       if \<not> en then ret False
       else do {
         r \<leftarrow> RequestIme E proxyIme REQUEST_HIDE (core_ipc E d HideKeyboard_ipc);
         ret (r = NO_ERROR) } } }"

definition UpdateClientAfterRequestHide :: "senv \<Rightarrow> u64 \<Rightarrow> string \<Rightarrow> int sess" where
  "UpdateClientAfterRequestHide E gid callerBundleName = do {
     og \<leftarrow> gets (GetClientGroupByGroupId gid);
     case og of None \<Rightarrow> ret NO_ERROR
     | Some _ \<Rightarrow> do {
       cur \<leftarrow> gets (current_of gid);
       info \<leftarrow> (case cur of None \<Rightarrow> ret None
         | Some k \<Rightarrow> do {
           curInfo \<leftarrow> gets (client_of gid cur);
           (if callerBundleName \<noteq> '''' \<and>
               (case curInfo of None \<Rightarrow> False | Some ci \<Rightarrow> callerBundleName \<noteq> ia_bundleName (ci_attribute ci))
            then void (RemoveClient E cur gid default_detach_options)
            else upd_group gid (UpdateClientInfo cur [(ISSHOWKEYBOARD, V_bool False)]));
           ret curInfo });
       inact \<leftarrow> gets (inactive_of gid);
       info \<leftarrow> (case inact of None \<Rightarrow> ret info
         | Some k \<Rightarrow> do {
           info' \<leftarrow> (case info of Some ci \<Rightarrow> ret (Some ci) | None \<Rightarrow> gets (client_of gid inact));
           RemoveClient E inact gid (default_detach_options\<lparr>do_isInactiveClient := True\<rparr>);
           ret info' });
       case info of None \<Rightarrow> ret NO_ERROR
       | Some ci \<Rightarrow> do {
         NotifyInputStop (ia_editorDisplayId (ci_attribute ci)) CLIENT_TRIGGER (ci_bound_real ci);
         ret NO_ERROR } } }"

definition OnRequestHideInput :: "senv \<Rightarrow> u64 \<Rightarrow> string \<Rightarrow> int sess" where
  "OnRequestHideInput E displayId callerBundleName = do {
     (r, gid) \<leftarrow> gets (\<lambda>s. e_displayGroup E (ss_log s) displayId);
     if r \<noteq> NO_ERROR then ret r
     else do {
       hidden \<leftarrow> RequestHideRealIme E gid;
       (if hidden then do {
          cb \<leftarrow> gets ss_usageCallbacks;
          data \<leftarrow> gets (GetRealImeData False);
          when_do cb (case data of None \<Rightarrow> ret () | Some d \<Rightarrow> emit (ImeUnbindCb (fst (im_ime d)))) }
        else void (RequestHideProxyIme E displayId));
       UpdateClientAfterRequestHide E gid callerBundleName;
       ret NO_ERROR } }"

section \<open>Attaching a client\<close>

text \<open>\<open>AddClientInfo\<close> creates the client's group when it does not exist, but keeps it only if the
  client could be added. The event of adding a death recipient is recorded for every client object; the code
  makes the call only for a proxy object, which a client of another process always is.\<close>

definition AddClientInfo_s :: "senv \<Rightarrow> robj option \<Rightarrow> input_client_info \<Rightarrow> int sess" where
  "AddClientInfo_s E inputClient clientInfo = do {
     og \<leftarrow> gets (GetClientGroupByGroupId (ci_clientGroupId clientInfo));
     add \<leftarrow> gets (\<lambda>s. e_addDeath E (ss_log s));
     case og of
       Some g \<Rightarrow> do {
         upd_group (ci_clientGroupId clientInfo) (\<lambda>g. snd (snd (AddClientInfo add inputClient clientInfo g)));
         for_each (fst (snd (AddClientInfo add inputClient clientInfo g))) (\<lambda>ev. emit (ClientDeath ev));
         ret (fst (AddClientInfo add inputClient clientInfo g)) }
     | None \<Rightarrow>
         (let (r, evs, g) = AddClientInfo add inputClient clientInfo (new_client_group (ci_clientGroupId clientInfo)) in
          if r \<noteq> NO_ERROR then ret r
          else do {
            modify (\<lambda>s. s\<lparr>ss_groups := (ci_clientGroupId clientInfo, g) # ss_groups s\<rparr>);
            for_each evs (\<lambda>ev. emit (ClientDeath ev));
            ret NO_ERROR }) }"

definition HandleInMultiGroup ::
    "senv \<Rightarrow> input_client_info \<Rightarrow> (u64 \<times> input_client_info) option \<Rightarrow> bool \<Rightarrow> unit sess" where
  "HandleInMultiGroup E newClientInfo old needStopIme = (case old of None \<Rightarrow> ret ()
     | Some (oldGid, oldInfo) \<Rightarrow>
       if IsSameClientGroup (ci_clientGroupId oldInfo) (ci_clientGroupId newClientInfo) then ret ()
       else do {
         when_do needStopIme (do {
           data \<leftarrow> gets (GetImeData_bind (ci_bindImeData oldInfo));
           StopImeInput E data (Some oldInfo) 0 (- 1) });
         inact \<leftarrow> gets (inactive_of oldGid);
         when_do (ci_pid oldInfo \<noteq> ci_pid newClientInfo)
           (StopClientInput E (Some oldInfo)
             (default_detach_options\<lparr>do_isInactiveClient := IsSameClient (ci_client oldInfo) inact\<rparr>));
         cur \<leftarrow> gets (current_of oldGid);
         when_do (IsSameClient (ci_client oldInfo) cur) (upd_group oldGid (SetCurrentClient None));
         inact \<leftarrow> gets (inactive_of oldGid);
         when_do (IsSameClient (ci_client oldInfo) inact) (upd_group oldGid (SetInactiveClient None));
         when_do (ci_client oldInfo \<noteq> None) (remove_client_info oldGid (ci_client oldInfo)) })"

definition HandleSameImeInMultiGroup :: "senv \<Rightarrow> input_client_info \<Rightarrow> ime_data option \<Rightarrow> unit sess" where
  "HandleSameImeInMultiGroup E newClientInfo newImeData = (case newImeData of None \<Rightarrow> ret ()
     | Some d \<Rightarrow> do {
       old \<leftarrow> gets (GetClientBoundImeByImePid (im_pid d));
       HandleInMultiGroup E newClientInfo old False })"

definition HandleRealImeInMultiGroup :: "senv \<Rightarrow> input_client_info \<Rightarrow> ime_data option \<Rightarrow> unit sess" where
  "HandleRealImeInMultiGroup E newClientInfo newImeData = (case newImeData of None \<Rightarrow> ret ()
     | Some d \<Rightarrow> if \<not> IsRealIme d then ret ()
       else do {
         old \<leftarrow> gets GetClientBoundRealIme;
         HandleInMultiGroup E newClientInfo old False })"

definition HandleSameClientInMultiGroup :: "senv \<Rightarrow> input_client_info \<Rightarrow> unit sess" where
  "HandleSameClientInMultiGroup E newClientInfo = do {
     old \<leftarrow> gets (GetClientBySelfPidOrHostPid (ci_pid newClientInfo));
     (case old of None \<Rightarrow> ret ()
      | Some (_, oldInfo) \<Rightarrow>
        when_do (\<not> IsSameClientGroup (ci_clientGroupId oldInfo) (ci_clientGroupId newClientInfo)
                 \<and> ci_pid oldInfo = ci_pid newClientInfo)
          (StopClientInput E (Some oldInfo) (default_detach_options\<lparr>do_isStopByMultiPreemptInProc := True\<rparr>)));
     HandleInMultiGroup E newClientInfo old True }"

definition OnPrepareInput :: "senv \<Rightarrow> input_client_info \<Rightarrow> int sess" where
  "OnPrepareInput E clientInfo =
     (if ci_client clientInfo = None then ret ERROR_CLIENT_NULL_POINTER
      else do {
        HandleSameClientInMultiGroup E clientInfo;
        AddClientInfo_s E (ci_client clientInfo) clientInfo })"

text \<open>The pending private command is cleared whether or not the request succeeds.\<close>

definition clear_private_command :: "unit sess" where
  "clear_private_command =
     modify (\<lambda>s. s\<lparr>ss_real := map_option (\<lambda>r. r\<lparr>im_privateCommand := []\<rparr>) (ss_real s)\<rparr>)"

definition SendPrivateData :: "senv \<Rightarrow> private_command \<Rightarrow> int sess" where
  "SendPrivateData E privateCommand = do {
     data \<leftarrow> gets (GetRealImeData True);
     case data of None \<Rightarrow> ret ERROR_IME_NOT_STARTED
     | Some d \<Rightarrow> do {
       r \<leftarrow> RequestIme E data NORMAL (core_ipc E d (OnSendPrivateData_ipc privateCommand));
       when_do (im_privateCommand d \<noteq> []) clear_private_command;
       ret r } }"

definition SetInputType :: "senv \<Rightarrow> input_client_info option \<Rightarrow> int sess" where
  "SetInputType E info = do {
     inputType \<leftarrow> gets (\<lambda>s. GetCurrentInputType (ss_itm s));
     data \<leftarrow> gets (GetRealImeData True);
     case data of None \<Rightarrow> ret ERROR_IME_NOT_STARTED
     | Some d \<Rightarrow>
       (let displayId = (case info of None \<Rightarrow> DEFAULT_DISPLAY_ID
                         | Some ci \<Rightarrow> ia_callingDisplayId (ci_attribute ci));
            inputType = (case info of None \<Rightarrow> inputType
                         | Some ci \<Rightarrow> if GetSecurityFlag (ci_attribute ci) \<and> inputType = NONE
                                      then SECURITY_INPUT else inputType) in
        RequestIme E data NORMAL (core_ipc E d (OnSetInputType_ipc inputType displayId))) }"

definition PostCurrentImeInfoReportHook :: "senv \<Rightarrow> string \<Rightarrow> int sess" where
  "PostCurrentImeInfoReportHook E bundleName = do {
     supported \<leftarrow> ask E QIsCapacitySupport;
     if \<not> supported then ret ERROR_DEVICE_UNSUPPORTED
     else if \<not> e_sessionHandler E then ret ERROR_IMSA_NULLPTR
     else do { emit (PostImeInfoReportHook bundleName); ret NO_ERROR } }"

fun send_each :: "senv \<Rightarrow> robj \<Rightarrow> ime_data list \<Rightarrow> int \<Rightarrow> int sess" where
  "send_each E client [] res = ret res"
| "send_each E client (d # ds) res = do {
     r \<leftarrow> client_ipc E client (OnInputReady_ipc (im_agent d) (im_pid d) (fst (im_ime d)));
     send_each E client ds (if \<not> IsImeMirror d then r else res) }"

text \<open>The client of the record is never null here: its callers take the record from a group.\<close>

definition SendAllReadyImeToClient :: "senv \<Rightarrow> ime_data option \<Rightarrow> input_client_info option \<Rightarrow> int sess" where
  "SendAllReadyImeToClient E data info = (case data of None \<Rightarrow> ret NO_ERROR
     | Some d \<Rightarrow> (case info of None \<Rightarrow> ret NO_ERROR
       | Some ci \<Rightarrow> (case ci_client ci of None \<Rightarrow> ret NO_ERROR
         | Some k \<Rightarrow> do {
           mirror \<leftarrow> gets ss_mirror;
           send_each E k
             (d # (if \<not> IsImeMirror d \<and> IsDefaultGroup (ci_clientGroupId ci)
                   then (case mirror of None \<Rightarrow> [] | Some m \<Rightarrow> [m]) else []))
             NO_ERROR })))"

definition ReplaceCurrentClient :: "senv \<Rightarrow> robj option \<Rightarrow> u64 \<Rightarrow> unit sess" where
  "ReplaceCurrentClient E client gid = (case client of None \<Rightarrow> ret ()
     | Some k \<Rightarrow> do {
       info \<leftarrow> gets (client_of gid client);
       case info of None \<Rightarrow> ret ()
       | Some ci \<Rightarrow> do {
         replaced \<leftarrow> gets (current_of gid);
         upd_group gid (SetCurrentClient client);
         replacedInfo \<leftarrow> gets (client_of gid replaced);
         (case replacedInfo of None \<Rightarrow> ret ()
          | Some rci \<Rightarrow> when_do (ci_pid rci \<noteq> ci_pid ci)
              (void (RemoveClient E replaced gid (default_detach_options\<lparr>do_isNotifyClientAsync := True,
                 do_needNotifyClient := True, do_isSendKeyboardStatus := False\<rparr>))));
         inact \<leftarrow> gets (inactive_of gid);
         inactInfo \<leftarrow> gets (client_of gid inact);
         (case inactInfo of None \<Rightarrow> ret ()
          | Some ici \<Rightarrow> when_do (ci_pid ici \<noteq> ci_pid ci)
              (void (RemoveClient E inact gid default_detach_options))) } })"

definition BindClientWithIme ::
    "senv \<Rightarrow> input_client_info option \<Rightarrow> ime_data option \<Rightarrow> bool \<Rightarrow> int sess" where
  "BindClientWithIme E info imeData isBindFromClient = (case info of None \<Rightarrow> ret ERROR_IMSA_NULLPTR
     | Some ci \<Rightarrow> (case imeData of None \<Rightarrow> ret ERROR_IME_NOT_STARTED
       | Some d \<Rightarrow> do {
         og \<leftarrow> gets (GetClientGroupByGroupId (ci_clientGroupId ci));
         case og of None \<Rightarrow> ret ERROR_IMSA_NULLPTR
         | Some _ \<Rightarrow> do {
           when_do (im_privateCommand d \<noteq> []) (void (SendPrivateData E (im_privateCommand d)));
           when_do (IsRealIme d) (void (SetInputType E info));
           r \<leftarrow> RequestAllIme E imeData START_INPUT
                  (\<lambda>x. core_ipc E x (StartInput_ipc ci isBindFromClient)) (ci_clientGroupId ci);
           if r \<noteq> NO_ERROR then ret ERROR_IME_START_INPUT_FAILED
           else do {
             when_do (IsRealIme d) (do {
               emit (ReportImeStateEv True (im_pid d) (fst (im_ime d)));
               emit (SetCriticalEv True);
               PostCurrentImeInfoReportHook E (fst (im_ime d));
               cb \<leftarrow> gets ss_usageCallbacks;
               when_do cb (emit (ImeBindCb (fst (im_ime d)))) });
             r \<leftarrow> (if isBindFromClient then ret NO_ERROR else SendAllReadyImeToClient E imeData info);
             if r \<noteq> NO_ERROR then ret ERROR_IMSA_CLIENT_INPUT_READY_FAILED
             else if IsImeMirror d then ret NO_ERROR
             else do {
               HandleSameImeInMultiGroup E ci imeData;
               HandleRealImeInMultiGroup E ci imeData;
               upd_group (ci_clientGroupId ci) (UpdateClientInfo (ci_client ci)
                 [(ISSHOWKEYBOARD, V_bool (ci_isShowKeyboard ci)), (STATE, V_ClientState ACTIVE),
                  (BIND_IME_DATA, V_BindImeData (Some \<lparr>bd_pid = im_pid d, bd_type = im_type d\<rparr>))]);
               ReplaceCurrentClient E (ci_client ci) (ci_clientGroupId ci);
               ret NO_ERROR } } } }))"

text \<open>The client record is passed by reference: what comes back is the record after the call.\<close>

definition HandleBindImeChanged ::
    "senv \<Rightarrow> input_client_info \<Rightarrow> ime_data option \<Rightarrow> u64 \<Rightarrow> input_client_info sess" where
  "HandleBindImeChanged E new newIme gid = (case newIme of None \<Rightarrow> ret new
     | Some d \<Rightarrow>
       if IsImeMirror d then ret new
       else do {
         cur \<leftarrow> gets (current_of gid);
         curInfo \<leftarrow> gets (client_of gid cur);
         inact \<leftarrow> gets (inactive_of gid);
         inactInfo \<leftarrow> gets (client_of gid inact);
         let isClientInactive = (curInfo = None);
             oldInfo = (case curInfo of Some ci \<Rightarrow> Some ci | None \<Rightarrow> inactInfo) in
         case oldInfo of None \<Rightarrow> ret new
         | Some old \<Rightarrow>
           if IsSameIme (ci_bindImeData old) newIme then ret new
           else
             let same = IsSameClient (ci_client new) (ci_client old);
                 new' = (if same then new\<lparr>ci_isNotifyInputStart := True\<rparr> else new) in
             if IsSameImeType (ci_bindImeData old) newIme \<and> IsRealIme d then ret new'
             else do {
               when_do (\<not> isClientInactive \<and> \<not> same) (do {
                 upd_group gid (SetCurrentClient None);
                 when_do (ci_client old \<noteq> None) (remove_client_info gid (ci_client old)) });
               (if isClientInactive then do {
                  data \<leftarrow> gets (GetImeData_bind (ci_bindImeData old));
                  StopImeInput E data (Some old) 0 (- 1) }
                else UnBindClientWithIme E (Some old) default_detach_options);
               ret new' } })"

fun prepare_each :: "ime_data list \<Rightarrow> (robj \<times> pid_t \<times> string) list \<Rightarrow> int \<times> (robj \<times> pid_t \<times> string) list" where
  "prepare_each [] out = (NO_ERROR, out)"
| "prepare_each (d # ds) out = (case im_agent d of None \<Rightarrow> (ERROR_IME_NOT_STARTED, out)
     | Some a \<Rightarrow> prepare_each ds (out @ [(a, im_pid d, fst (im_ime d))]))"

definition PrepareImeInfos :: "ime_data option \<Rightarrow> u64 \<Rightarrow> session \<Rightarrow> int \<times> (robj \<times> pid_t \<times> string) list" where
  "PrepareImeInfos imeData gid s = (let allData = GetAllReadyImeData imeData gid s in
     if allData = [] then (ERROR_IME_NOT_STARTED, []) else prepare_each allData [])"

definition OnStartInput :: "senv \<Rightarrow> input_client_info \<Rightarrow> (int \<times> (robj \<times> pid_t \<times> string) list) sess" where
  "OnStartInput E info = do {
     data \<leftarrow> gets (GetReadyImeDataToBind E (ia_editorDisplayId (ci_attribute info)));
     case data of None \<Rightarrow> ret (ERROR_IME_NOT_STARTED, [])
     | Some d \<Rightarrow>
       if im_agent d = None then ret (ERROR_IME_NOT_STARTED, [])
       else do {
         og \<leftarrow> gets (GetClientGroupByGroupId (ci_clientGroupId info));
         case og of None \<Rightarrow> ret (ERROR_IMSA_NULLPTR, [])
         | Some _ \<Rightarrow> do {
           info' \<leftarrow> HandleBindImeChanged E info data (ci_clientGroupId info);
           r \<leftarrow> BindClientWithIme E (Some info') data True;
           if r \<noteq> NO_ERROR then ret (r, [])
           else gets (PrepareImeInfos data (ci_clientGroupId info)) } } }"

section \<open>Focus\<close>

definition focus_query :: "senv \<Rightarrow> session \<Rightarrow> u32 \<Rightarrow> int \<Rightarrow> bool" where
  "focus_query E s token user = e_bool E (ss_log s) (QIsFocusedUIExtension token user)"

definition OnFocused :: "senv \<Rightarrow> u64 \<Rightarrow> int \<Rightarrow> int \<Rightarrow> unit sess" where
  "OnFocused E displayId pid uid = do {
     og \<leftarrow> gets (GetClientGroup_display E displayId);
     case og of None \<Rightarrow> ret ()
     | Some gid \<Rightarrow> do {
       client \<leftarrow> gets (current_of gid);
       case client of None \<Rightarrow> ret ()
       | Some k \<Rightarrow> do {
         (fpid, fuid) \<leftarrow> gets (\<lambda>s. e_focusInfo E (ss_log s) displayId);
         if fpid \<le> 0 \<or> fuid \<le> 0 then ret ()
         else do {
           focused \<leftarrow> gets (\<lambda>s. case GetClientGroupByGroupId gid s of None \<Rightarrow> False
                        | Some g \<Rightarrow> IsCurClientFocused (focus_query E s) fpid fuid g);
           if focused then ret ()
           else do {
             sb \<leftarrow> ask E QIsSceneBoardEnabled;
             if \<not> sb then do {
               RemoveClient E client gid default_detach_options;
               emit RecordImeHideUnfocused }
             else DeactivateClient E client gid } } } } }"

definition OnUnfocused :: "senv \<Rightarrow> u64 \<Rightarrow> int \<Rightarrow> int \<Rightarrow> unit sess" where
  "OnUnfocused E displayId pid uid = do {
     og \<leftarrow> gets (GetClientGroup_display E displayId);
     case og of None \<Rightarrow> ret ()
     | Some gid \<Rightarrow> do {
       client \<leftarrow> gets (current_of gid);
       case client of None \<Rightarrow> ret ()
       | Some _ \<Rightarrow> do {
         unfocused \<leftarrow> gets (\<lambda>s. case GetClientGroupByGroupId gid s of None \<Rightarrow> False
                        | Some g \<Rightarrow> IsCurClientUnFocused (focus_query E s) pid uid g);
         if unfocused then ret ()
         else do {
           info \<leftarrow> gets (\<lambda>s. case GetClientGroupByGroupId gid s of None \<Rightarrow> None
                        | Some g \<Rightarrow> GetClientInfo_pid pid g);
           case info of None \<Rightarrow> ret ()
           | Some ci \<Rightarrow> do {
             RemoveClient E (ci_client ci) gid default_detach_options;
             emit RecordImeHideUnfocused } } } } }"

definition remove_current :: "senv \<Rightarrow> u64 \<Rightarrow> unit sess" where
  "remove_current E gid = do {
     cur \<leftarrow> gets (current_of gid);
     (isNotify, displayId, isRealIme) \<leftarrow> gets (\<lambda>s. case GetClientGroupByGroupId gid s of
        None \<Rightarrow> (False, DEFAULT_DISPLAY_ID, False) | Some g \<Rightarrow> IsNotifyInputStop cur g);
     when_do isNotify (NotifyInputStop displayId CLIENT_TRIGGER isRealIme);
     void (RemoveClient E cur gid default_detach_options) }"

definition RemoveAllCurrentClient :: "senv \<Rightarrow> int sess" where
  "RemoveAllCurrentClient E = do {
     gs \<leftarrow> gets ss_groups;
     if gs = [] then ret ERROR_CLIENT_NULL_POINTER
     else do { for_each (map fst gs) (remove_current E); ret NO_ERROR } }"

section \<open>Windows and displays\<close>

definition NotifyCallingWindowIdChanged :: "senv \<Rightarrow> u32 \<Rightarrow> focused_info \<Rightarrow> ime_data option \<Rightarrow> int sess" where
  "NotifyCallingWindowIdChanged E rawEditorWindowId focusedInfo imeData =
     (case imeData of None \<Rightarrow> ret ERROR_IME_NOT_STARTED
      | Some d \<Rightarrow> if \<not> IsRealIme d then ret ERROR_IME_NOT_STARTED
        else RequestIme E imeData NORMAL (do {
          core_ipc E d (OnCallingWindowIdChanged_ipc rawEditorWindowId focusedInfo); ret NO_ERROR }))"

definition NotifyCallingDisplayChanged :: "senv \<Rightarrow> u64 \<Rightarrow> u64 \<Rightarrow> ime_data option \<Rightarrow> int sess" where
  "NotifyCallingDisplayChanged E editorDisplayId keyboardDisplayId imeData =
     (case imeData of None \<Rightarrow> ret ERROR_IME_NOT_STARTED
      | Some d \<Rightarrow> if \<not> IsRealIme d then ret ERROR_IME_NOT_STARTED
        else RequestIme E imeData NORMAL (do {
          core_ipc E d (OnCallingDisplayIdChanged_ipc editorDisplayId keyboardDisplayId); ret NO_ERROR }))"

text \<open>\<open>static_cast<int32_t>\<close> of a display id keeps its low 32 bits, read as a signed number.\<close>

definition display_id_value :: "u64 \<Rightarrow> private_data_value" where
  "display_id_value d = PV_int (sint (ucast d :: u32))"

definition window_changed :: "focused_info \<Rightarrow> u32 \<Rightarrow> input_client_info \<Rightarrow> input_client_info" where
  "window_changed fi windowId ci = ci\<lparr>ci_config := (ci_config ci)\<lparr>
     tc_privateCommand := AList.update ''displayId'' (display_id_value (fi_displayId fi)) (tc_privateCommand (ci_config ci)),
     tc_windowId := windowId,
     tc_inputAttribute := (ci_attribute ci)\<lparr>ia_editorWindowId := fi_windowId fi, ia_editorDisplayId := fi_displayId fi,
       ia_windowId := fi_keyboardWindowId fi, ia_callingDisplayId := fi_keyboardDisplayId fi\<rparr>\<rparr>\<rparr>"

definition HandleWindowIdChanged :: "senv \<Rightarrow> focused_info \<Rightarrow> u64 \<Rightarrow> input_client_info option \<Rightarrow> u32 \<Rightarrow> unit sess" where
  "HandleWindowIdChanged E focusedInfo gid info windowId = (case info of None \<Rightarrow> ret ()
     | Some ci \<Rightarrow>
       if \<not> IsSameClientGroup (ia_displayGroupId (ci_attribute ci)) (fi_keyboardDisplayGroupId focusedInfo) then ret ()
       else do {
         upd_client gid (ci_client ci) (window_changed focusedInfo windowId);
         data \<leftarrow> gets (GetImeData_bind (ci_bindImeData ci));
         void (NotifyCallingWindowIdChanged E windowId focusedInfo data) })"

definition OnSetCallingWindow :: "senv \<Rightarrow> focused_info \<Rightarrow> robj option \<Rightarrow> u32 \<Rightarrow> int sess" where
  "OnSetCallingWindow E focusedInfo client windowId = (case client of None \<Rightarrow> ret ERROR_CLIENT_NOT_FOCUSED
     | Some k \<Rightarrow> do {
       og \<leftarrow> gets (GetClientGroup_client client);
       case og of None \<Rightarrow> ret ERROR_CLIENT_NOT_FOCUSED
       | Some gid \<Rightarrow> do {
         cur \<leftarrow> gets (current_of gid);
         if \<not> IsSameClient client cur then ret ERROR_CLIENT_NOT_FOCUSED
         else do {
           info \<leftarrow> gets (client_of gid client);
           case info of None \<Rightarrow> ret ERROR_CLIENT_NULL_POINTER
           | Some ci \<Rightarrow>
             if \<not> IsSameClientGroup (ci_clientGroupId ci) (fi_displayGroupId focusedInfo) then ret NO_ERROR
             else do { HandleWindowIdChanged E focusedInfo gid info windowId; ret NO_ERROR } } } })"

definition display_changed :: "u64 \<Rightarrow> input_client_info \<Rightarrow> input_client_info" where
  "display_changed displayId ci = ci\<lparr>ci_config := (ci_config ci)\<lparr>
     tc_inputAttribute := (ci_attribute ci)\<lparr>ia_editorDisplayId := displayId, ia_callingDisplayId := displayId\<rparr>\<rparr>\<rparr>"

definition OnWindowDisplayIdChanged :: "senv \<Rightarrow> u32 \<Rightarrow> u64 \<Rightarrow> unit sess" where
  "OnWindowDisplayIdChanged E windowId displayId = do {
     gc \<leftarrow> gets (GetClientBoundImeByWindowId_s windowId);
     case gc of None \<Rightarrow> ret ()
     | Some (gid, ci) \<Rightarrow> do {
       (r, newGid) \<leftarrow> gets (\<lambda>s. e_displayGroup E (ss_log s) displayId);
       if r \<noteq> NO_ERROR then ret ()
       else if \<not> IsSameClientGroup (ci_clientGroupId ci) newGid then ret ()
       else do {
         (r, newKeyboardGid) \<leftarrow> gets (\<lambda>s. e_displayGroup E (ss_log s) displayId);
         if r \<noteq> NO_ERROR then ret ()
         else if \<not> IsSameClientGroup (ia_displayGroupId (ci_attribute ci)) newKeyboardGid then ret ()
         else do {
           upd_client gid (ci_client ci) (display_changed displayId);
           if displayId = ia_callingDisplayId (ci_attribute ci) \<and> displayId = ia_editorDisplayId (ci_attribute ci)
           then ret ()
           else do {
             data \<leftarrow> gets (GetImeData_bind (ci_bindImeData ci));
             void (NotifyCallingDisplayChanged E displayId displayId data) } } } } }"

section \<open>Queries\<close>

definition GetCurrentClientPid_s :: "senv \<Rightarrow> u64 \<Rightarrow> session \<Rightarrow> int" where
  "GetCurrentClientPid_s E displayId s = (case GetClientGroup_display E displayId s of None \<Rightarrow> INVALID_PID
     | Some gid \<Rightarrow> (case GetClientGroupByGroupId gid s of None \<Rightarrow> INVALID_PID | Some g \<Rightarrow> GetCurrentClientPid g))"

definition GetInactiveClientPid_s :: "senv \<Rightarrow> u64 \<Rightarrow> session \<Rightarrow> int" where
  "GetInactiveClientPid_s E displayId s = (case GetClientGroup_display E displayId s of None \<Rightarrow> INVALID_PID
     | Some gid \<Rightarrow> (case GetClientGroupByGroupId gid s of None \<Rightarrow> INVALID_PID | Some g \<Rightarrow> GetInactiveClientPid g))"

definition IsBoundToClient :: "senv \<Rightarrow> u64 \<Rightarrow> session \<Rightarrow> bool" where
  "IsBoundToClient E displayId s = (case GetClientGroup_display E displayId s of None \<Rightarrow> False
     | Some gid \<Rightarrow> current_of gid s \<noteq> None)"

definition IsKeyboardCallingProcess :: "pid_t \<Rightarrow> u32 \<Rightarrow> session \<Rightarrow> bool" where
  "IsKeyboardCallingProcess pid windowId s = (case GetCurrentClientBoundRealIme s of None \<Rightarrow> False
     | Some (_, ci) \<Rightarrow> ci_pid ci = pid \<or> ia_windowId (ci_attribute ci) = windowId)"

definition IsCurrentImeByPid :: "pid_t \<Rightarrow> session \<Rightarrow> bool" where
  "IsCurrentImeByPid pid s = (case GetRealImeData False s of None \<Rightarrow> False | Some d \<Rightarrow> im_pid d = pid)"

definition CheckPwdInputPatternConv :: "senv \<Rightarrow> input_client_info \<Rightarrow> u64 \<Rightarrow> session \<Rightarrow> bool" where
  "CheckPwdInputPatternConv E clientInfo displayId s = (case GetClientGroup_display E displayId s of None \<Rightarrow> False
     | Some gid \<Rightarrow>
       (let exClient = (case current_of gid s of Some k \<Rightarrow> Some k | None \<Rightarrow> inactive_of gid s) in
        case client_of gid exClient s of None \<Rightarrow> False
        | Some ex \<Rightarrow>
          if GetSecurityFlag (ci_attribute clientInfo) then \<not> GetSecurityFlag (ci_attribute ex)
          else GetSecurityFlag (ci_attribute ex)))"

definition IsShowSameRealImeInMainDisplayInMultiGroup :: "input_client_info \<Rightarrow> input_client_info option \<Rightarrow> bool" where
  "IsShowSameRealImeInMainDisplayInMultiGroup new oldInfo = (case oldInfo of None \<Rightarrow> False
     | Some old \<Rightarrow>
       if IsSameClientGroup (ci_clientGroupId old) (ci_clientGroupId new) then False
       else (case ci_bindImeData new of None \<Rightarrow> False
         | Some nb \<Rightarrow> (case ci_bindImeData old of None \<Rightarrow> False
           | Some ob \<Rightarrow>
             if bd_pid nb \<noteq> bd_pid ob \<or> \<not> BindImeData_IsRealIme nb then False
             else ia_callingDisplayId (ci_attribute new) = ia_callingDisplayId (ci_attribute old)
                  \<and> ia_callingDisplayId (ci_attribute old) = DEFAULT_DISPLAY_ID)))"

definition IsImeInUse_s :: "session \<Rightarrow> bool" where
  "IsImeInUse_s s = (case GetRealImeData True s of None \<Rightarrow> False
     | Some d \<Rightarrow> (case im_stateManager d of None \<Rightarrow> False | Some m \<Rightarrow> IsImeInUse m))"

definition TryUnloadSystemAbility :: "unit sess" where
  "TryUnloadSystemAbility = do {
     inUse \<leftarrow> gets IsImeInUse_s;
     when_do (\<not> inUse) (emit UnloadSystemAbility) }"

record focused_snapshot =
  fs_client :: robj
  fs_channel :: robj
  fs_clientGroupId :: u64
  fs_editorWindowId :: u32
  fs_editorDisplayId :: u64
  fs_isSecurityIme :: bool
  fs_isOneTimeCode :: bool

definition GetFocusedRealImeClient :: "session \<Rightarrow> focused_snapshot option" where
  "GetFocusedRealImeClient s = (case GetCurrentClientBoundRealIme s of None \<Rightarrow> None
     | Some (gid, ci) \<Rightarrow> (case ci_client ci of None \<Rightarrow> None
       | Some k \<Rightarrow> (case ci_channel ci of None \<Rightarrow> None
         | Some ch \<Rightarrow>
           if ci_state ci \<noteq> ACTIVE \<or> ci_userID ci \<noteq> ss_userId s then None
           else Some \<lparr>fs_client = k, fs_channel = ch,
             fs_clientGroupId = (case GetClientGroupByGroupId gid s of None \<Rightarrow> gid | Some g \<Rightarrow> cg_displayGroupId g),
             fs_editorWindowId = ia_editorWindowId (ci_attribute ci),
             fs_editorDisplayId = ia_editorDisplayId (ci_attribute ci),
             fs_isSecurityIme = IsSecurityImeFlag (ci_attribute ci),
             fs_isOneTimeCode = IsOneTimeCodeFlag (ci_attribute ci)\<rparr>)))"

definition OnSecurityChange :: "senv \<Rightarrow> int \<Rightarrow> unit sess" where
  "OnSecurityChange E security = do {
     data \<leftarrow> gets (GetRealImeData True);
     case data of None \<Rightarrow> ret ()
     | Some d \<Rightarrow> void (RequestIme E data NORMAL (core_ipc E d (OnSecurityChange_ipc security))) }"

text \<open>\<open>sys_cmd\<close> is \<open>SYSTEM_CMD_KEY\<close>. The order of an unordered map's literal is not observable.\<close>

definition SendVoicePrivateCommand :: "senv \<Rightarrow> int sess" where
  "SendVoicePrivateCommand E = do {
     data \<leftarrow> gets (GetRealImeData True);
     case data of None \<Rightarrow> ret ERROR_IME_NOT_STARTED
     | Some d \<Rightarrow> do {
       ime \<leftarrow> itm_query (\<lambda>m. let (_, i, m') = GetImeByInputType (e_inputTypeCfg E) VOICEKB_INPUT no_ime m in (i, m'));
       RequestIme E data NORMAL (core_ipc E d (OnSendPrivateData_ipc
         [(''sys_cmd'', PV_int 1), (''subName'', PV_string (ii_subName ime))])) } }"

definition SendPttStopPrivateCommand :: "senv \<Rightarrow> int sess" where
  "SendPttStopPrivateCommand E = do {
     data \<leftarrow> gets (GetRealImeData True);
     case data of None \<Rightarrow> ret ERROR_IME_NOT_STARTED
     | Some d \<Rightarrow> RequestIme E data NORMAL (core_ipc E d (OnSendPrivateData_ipc
         [(''sys_cmd'', PV_int 1), (''pushToTalk'', PV_string ''stop'')])) }"

definition ClearRequestKeyboardReason :: "u64 \<Rightarrow> robj option \<Rightarrow> unit sess" where
  "ClearRequestKeyboardReason gid c =
     upd_client gid c (\<lambda>ci. ci\<lparr>ci_config := (ci_config ci)\<lparr>tc_requestKeyboardReason := REASON_NONE\<rparr>\<rparr>)"

end
