(* ===== verification/Session_Groups.thy ===== *)
theory Session_Groups
  imports Session_Clients
begin

text \<open>
  What the client handlers do to the client groups. Each handler is shown to act on the groups
  as an operation of a small abstract specification (detach a client, purge it, deactivate it,
  make it current), whatever the environment answers; the invariant of the groups is then a
  property of the abstract operations.
\<close>

section \<open>Symbolic execution\<close>

lemma wp_quiet:
  assumes "quiet m" "\<And>r t. ss_groups t = ss_groups s \<Longrightarrow> Q r t"
  shows "wp m Q s"
  using assms frames_run [OF quiet_groups [OF assms(1)]] by (simp add: wp_run)

lemma wp_quiet_bind:
  assumes "quiet m" "\<And>r t. ss_groups t = ss_groups s \<Longrightarrow> wp (f r) Q t"
  shows "wp (m \<bind> f) Q s"
  unfolding wp_bind using assms by (rule wp_quiet)

lemma wp_ifI: "(b \<Longrightarrow> wp m Q s) \<Longrightarrow> (\<not> b \<Longrightarrow> wp n Q s) \<Longrightarrow> wp (if b then m else n) Q s"
  by simp

lemmas wp_quiets = wp_quiet [OF quiet_emit] wp_quiet [OF quiet_call] wp_quiet [OF quiet_core_ipc]
  wp_quiet [OF quiet_client_ipc] wp_quiet [OF quiet_SwitchSubtype(1)] wp_quiet [OF quiet_RestoreSubType]
  wp_quiet [OF quiet_NotifyInputStop] wp_quiet [OF quiet_StopClientInput] wp_quiet [OF quiet_StopImeInput]
  wp_quiet [OF quiet_UnBindClientWithIme] wp_quiet [OF quiet_NotifySubType]

lemma wp_upd_group [wp_simps]:
  "wp (upd_group gid f) Q s = Q () (s\<lparr>ss_groups := AList.map_entry gid f (ss_groups s)\<rparr>)"
  by (simp add: upd_group_def wp_simps)

lemma map_entry_comp: "AList.map_entry k f (AList.map_entry k g m) = AList.map_entry k (\<lambda>x. f (g x)) m"
  by (induction m) auto

lemma map_entry_cong:
  "(\<And>v. map_of m k = Some v \<Longrightarrow> f v = f' v) \<Longrightarrow> AList.map_entry k f m = AList.map_entry k f' m"
  by (induction m) auto

lemma map_entry_ident: "(\<And>v. map_of m k = Some v \<Longrightarrow> f v = v) \<Longrightarrow> AList.map_entry k f m = m"
  by (induction m) auto

lemma map_entry_None: "map_of m k = None \<Longrightarrow> AList.map_entry k f m = m"
  by (rule map_entry_ident) simp

text \<open>The lookups of a session depend on its groups only.\<close>

lemmas lookup_defs = client_of_def current_of_def inactive_of_def GetClientGroupByGroupId_def
  GetClientGroup_client_def first_group_def

lemma quiet_emits: "quiet (for_each evs (\<lambda>ev. emit (f ev)))"
  by (intro frame_intros)

lemma wp_remove_client_info:
  assumes "\<And>t. ss_groups t = AList.map_entry gid (\<lambda>g. snd (RemoveClientInfo c g)) (ss_groups s) \<Longrightarrow> Q () t"
  shows "wp (remove_client_info gid c) Q s"
  unfolding remove_client_info_def
  by (simp add: wp_simps) (rule wp_quiet [OF quiet_emits], simp add: assms)

section \<open>Abstract operations on a group\<close>

text \<open>\<open>RemoveClient\<close>: the current or else the inactive mark of the client is cleared.\<close>

definition detach :: "robj \<Rightarrow> client_group \<Rightarrow> client_group" where
  "detach k g = snd (RemoveClientInfo (Some k)
     (if cg_currentClient g = Some k then SetCurrentClient None g
      else if cg_inactiveClient g = Some k then SetInactiveClient None g else g))"

text \<open>\<open>OnClientDied\<close>, \<open>HandleInMultiGroup\<close>: both marks are cleared.\<close>

definition purge :: "robj \<Rightarrow> client_group \<Rightarrow> client_group" where
  "purge k g = snd (RemoveClientInfo (Some k)
     (let g' = (if cg_currentClient g = Some k then SetCurrentClient None g else g) in
      if cg_inactiveClient g = Some k then SetInactiveClient None g' else g'))"

definition deactivate :: "robj \<Rightarrow> client_group \<Rightarrow> client_group" where
  "deactivate k g = (if map_of (cg_mapClients g) k = None then g
     else SetInactiveClient (Some k)
       (let g' = UpdateClientInfo (Some k) [(STATE, V_ClientState INACTIVE)] g in
        if cg_currentClient g = Some k then SetCurrentClient None g' else g'))"

text \<open>A client whose process is not \<open>p\<close> is detached.\<close>

definition detach_other :: "pid_t \<Rightarrow> robj option \<Rightarrow> client_group \<Rightarrow> client_group" where
  "detach_other p c g = (case c of None \<Rightarrow> g | Some k \<Rightarrow>
     (case map_of (cg_mapClients g) k of None \<Rightarrow> g | Some ci \<Rightarrow> if ci_pid ci \<noteq> p then detach k g else g))"

definition make_current :: "robj \<Rightarrow> client_group \<Rightarrow> client_group" where
  "make_current k g = (case map_of (cg_mapClients g) k of None \<Rightarrow> g
     | Some ci \<Rightarrow>
       (let g' = detach_other (ci_pid ci) (cg_currentClient g) (SetCurrentClient (Some k) g) in
        detach_other (ci_pid ci) (cg_inactiveClient g') g'))"

subsection \<open>They keep the group's invariant\<close>

lemma detach_fields:
  "cg_displayGroupId (detach k g) = cg_displayGroupId g"
  "cg_currentClient (detach k g) = (if cg_currentClient g = Some k then None else cg_currentClient g)"
  "map_of (cg_mapClients (detach k g)) k' = (if k' = k then None else map_of (cg_mapClients g) k')"
  "cg_inactiveClient (detach k g) =
     (if cg_currentClient g \<noteq> Some k \<and> cg_inactiveClient g = Some k then None else cg_inactiveClient g)"
  by (auto simp: detach_def map_of_RemoveClientInfo)

lemma group_ok_detach: "group_ok g \<Longrightarrow> group_ok (detach k g)"
  unfolding detach_def by (rule group_ok_RemoveClientInfo) (auto simp: group_ok_clear_current)

lemma purge_fields:
  "cg_displayGroupId (purge k g) = cg_displayGroupId g"
  "cg_currentClient (purge k g) = (if cg_currentClient g = Some k then None else cg_currentClient g)"
  "map_of (cg_mapClients (purge k g)) k' = (if k' = k then None else map_of (cg_mapClients g) k')"
  "cg_inactiveClient (purge k g) = (if cg_inactiveClient g = Some k then None else cg_inactiveClient g)"
  by (auto simp: purge_def map_of_RemoveClientInfo Let_def)

lemma group_ok_purge: "group_ok g \<Longrightarrow> group_ok (purge k g)"
  unfolding purge_def Let_def by (rule group_ok_RemoveClientInfo) (auto simp: group_ok_clear_current)

lemma deactivate_fields:
  "cg_displayGroupId (deactivate k g) = cg_displayGroupId g"
  "map_of (cg_mapClients g) k \<noteq> None \<Longrightarrow> cg_inactiveClient (deactivate k g) = Some k"
  "map_of (cg_mapClients g) k \<noteq> None \<Longrightarrow>
     cg_currentClient (deactivate k g) = (if cg_currentClient g = Some k then None else cg_currentClient g)"
  "map_of (cg_mapClients (deactivate k g)) k' = (if k' = k
     then map_option (\<lambda>ci. ci\<lparr>ci_state := INACTIVE\<rparr>) (map_of (cg_mapClients g) k) else map_of (cg_mapClients g) k')"
  by (auto simp: deactivate_def Let_def map_of_UpdateClientInfo update_one_def intro: option.map_cong)

lemma group_ok_deactivate: "group_ok g \<Longrightarrow> group_ok (deactivate k g)"
  by (simp add: deactivate_def Let_def group_ok_UpdateClientInfo group_ok_clear_current)

lemma group_ok_detach_other: "group_ok g \<Longrightarrow> group_ok (detach_other p c g)"
  by (simp add: detach_other_def group_ok_detach split: option.split)

lemma detach_other_id [simp]: "cg_displayGroupId (detach_other p c g) = cg_displayGroupId g"
  by (simp add: detach_other_def detach_fields split: option.split)

lemma group_ok_make_current: "group_ok g \<Longrightarrow> group_ok (make_current k g)"
  by (simp add: make_current_def Let_def group_ok_detach_other group_ok_set_current split: option.split)

lemma make_current_id [simp]: "cg_displayGroupId (make_current k g) = cg_displayGroupId g"
  by (simp add: make_current_def Let_def split: option.split)

section \<open>The groups of a session\<close>

definition groups_ok :: "(u64 \<times> client_group) list \<Rightarrow> bool" where
  "groups_ok gs \<longleftrightarrow> distinct (map fst gs) \<and>
     (\<forall>gid g. map_of gs gid = Some g \<longrightarrow> group_ok g \<and> cg_displayGroupId g = gid)"

definition session_ok :: "session \<Rightarrow> bool" where
  "session_ok s \<longleftrightarrow> groups_ok (ss_groups s)"

lemma groups_ok_map_entry:
  assumes "groups_ok gs" "\<And>g. group_ok g \<Longrightarrow> cg_displayGroupId g = gid \<Longrightarrow> group_ok (f g) \<and> cg_displayGroupId (f g) = gid"
  shows "groups_ok (AList.map_entry gid f gs)"
  using assms by (auto simp: groups_ok_def map_of_map_entry split: if_splits)

lemma groups_ok_ops:
  assumes "groups_ok gs"
  shows "groups_ok (AList.map_entry gid (detach k) gs)"
    "groups_ok (AList.map_entry gid (purge k) gs)"
    "groups_ok (AList.map_entry gid (deactivate k) gs)"
    "groups_ok (AList.map_entry gid (make_current k) gs)"
    "CLIENT_GROUP_ID \<notin> fst ` set us \<Longrightarrow> groups_ok (AList.map_entry gid (UpdateClientInfo c us) gs)"
  by (rule groups_ok_map_entry [OF assms],
      simp add: group_ok_detach detach_fields group_ok_purge purge_fields group_ok_deactivate
        deactivate_fields group_ok_make_current group_ok_UpdateClientInfo)+

section \<open>Refinement: removal\<close>

lemma RemoveClient_groups:
  "wp (RemoveClient E (Some k) gid op)
     (\<lambda>r t. r = NO_ERROR \<and> ss_groups t = AList.map_entry gid (detach k) (ss_groups s)) s"
  by (auto simp: RemoveClient_def wp_simps IsSameClient_def detach_def map_entry_comp lookup_defs
      intro!: wp_quiets wp_remove_client_info map_entry_cong split: option.splits)

lemmas wp_RemoveClient = wp_conseq [OF RemoveClient_groups]

lemma RemoveClient_None [simp]: "RemoveClient E None gid op = ret ERROR_CLIENT_NULL_POINTER"
  by (simp add: RemoveClient_def)

lemma OnClientDied_groups:
  "wp (OnClientDied E (Some k)) (\<lambda>r t. ss_groups t = (case GetClientGroup_client (Some k) s of
       None \<Rightarrow> ss_groups s | Some gid \<Rightarrow> AList.map_entry gid (purge k) (ss_groups s))) s"
proof (cases "GetClientGroup_client (Some k) s")
  case (Some gid)
  then show ?thesis
    by (auto simp: OnClientDied_def wp_simps IsSameClient_def purge_def Let_def map_entry_comp map_of_map_entry
        client_of_def current_of_def inactive_of_def GetClientGroupByGroupId_def
        intro!: wp_quiets wp_remove_client_info map_entry_cong split: option.splits prod.splits)
qed (simp add: OnClientDied_def wp_simps)

lemma OnReleaseInput_groups:
  "wp (OnReleaseInput E (Some k) sid csid) (\<lambda>r t. r = NO_ERROR \<and>
     ss_groups t = (case GetClientGroup_client (Some k) s of
       None \<Rightarrow> ss_groups s | Some gid \<Rightarrow> AList.map_entry gid (detach k) (ss_groups s))) s"
proof (cases "GetClientGroup_client (Some k) s")
  case (Some gid)
  then show ?thesis
    by (auto simp: OnReleaseInput_def wp_simps intro!: wp_quiets wp_RemoveClient split: prod.splits)
qed (simp add: OnReleaseInput_def wp_simps)

lemma DeactivateClient_groups:
  "wp (DeactivateClient E (Some k) gid) (\<lambda>r t. ss_groups t = AList.map_entry gid (deactivate k) (ss_groups s)) s"
  by (auto simp: DeactivateClient_def wp_simps IsSameClient_def deactivate_def Let_def map_entry_comp
      map_of_map_entry client_of_def current_of_def GetClientGroupByGroupId_def map_entry_None
      intro!: wp_quiets wp_quiet [OF quiet_RequestAllIme [OF frames_bind [OF quiet_core_ipc frames_return]]]
        map_entry_cong map_entry_ident [symmetric] split: option.splits)

section \<open>Refinement: show and hide\<close>

lemmas wp_request = wp_quiet [OF quiet_RequestIme [OF quiet_core_ipc]]

lemma HideKeyboard_groups:
  "wp (HideKeyboard E c gid) (\<lambda>r t. ss_groups t = (if r = NO_ERROR
     then AList.map_entry gid (UpdateClientInfo c [(ISSHOWKEYBOARD, V_bool False)]) (ss_groups s)
     else ss_groups s)) s"
  by (auto simp: HideKeyboard_def wp_simps intro!: wp_quiets wp_request split: option.splits)

text \<open>The reason of a show request, passed under the wrong alternative, is dropped.\<close>

lemma update_reason_dropped:
  "UpdateClientInfo c [(ISSHOWKEYBOARD, V_bool b), (REQUEST_KEYBOARD_REASON, V_pid r)] g =
   UpdateClientInfo c [(ISSHOWKEYBOARD, V_bool b)] g"
  by (simp add: UpdateClientInfo_def comp_def update_one_def split: option.split)

lemma ShowKeyboard_groups:
  "wp (ShowKeyboard E c gid reason) (\<lambda>r t. ss_groups t = (if r = NO_ERROR
     then AList.map_entry gid (UpdateClientInfo c [(ISSHOWKEYBOARD, V_bool True)]) (ss_groups s)
     else ss_groups s)) s"
  by (auto simp: ShowKeyboard_def wp_simps update_reason_dropped [abs_def]
      intro!: wp_quiets wp_request map_entry_cong split: option.splits)

section \<open>Refinement: attach\<close>

text \<open>The last steps of \<open>HandleInMultiGroup\<close>: both marks of the client are cleared and it is removed.\<close>

lemma wp_purge:
  assumes "\<And>t. ss_groups t = AList.map_entry gid (purge k) (ss_groups s) \<Longrightarrow> Q () t"
  shows "wp (do {
     cur \<leftarrow> gets (current_of gid);
     when_do (IsSameClient (Some k) cur) (upd_group gid (SetCurrentClient None));
     inact \<leftarrow> gets (inactive_of gid);
     when_do (IsSameClient (Some k) inact) (upd_group gid (SetInactiveClient None));
     remove_client_info gid (Some k) }) Q s"
  by (auto simp: wp_simps IsSameClient_def purge_def Let_def map_entry_comp map_of_map_entry
      current_of_def inactive_of_def GetClientGroupByGroupId_def
      intro!: wp_remove_client_info assms map_entry_cong split: option.splits)

lemma HandleInMultiGroup_move:
  assumes "ci_client ci = Some k" "ci_clientGroupId ci \<noteq> ci_clientGroupId new"
    "\<And>t. ss_groups t = AList.map_entry gid (purge k) (ss_groups s) \<Longrightarrow> Q () t"
  shows "wp (HandleInMultiGroup E new (Some (gid, ci)) stop) Q s"
proof -
  have stop: "quiet (when_do stop (do { data \<leftarrow> gets (GetImeData_bind (ci_bindImeData ci));
      StopImeInput E data (Some ci) 0 (- 1) }))" by (intro frame_intros)
  have tell: "quiet (when_do b (StopClientInput E (Some ci) op))" for b op by (intro frame_intros)
  show ?thesis
    unfolding HandleInMultiGroup_def option.case prod.case
    using assms(1,2)
    apply (simp add: IsSameClientGroup_def when_do_def [of True])
    apply (simp only: wp_bind)
    apply (rule wp_quiet [OF stop])
    apply (simp only: wp_bind wp_gets)
    apply (rule wp_quiet [OF tell])
    using wp_purge [of gid k _ Q] assms(3)
    apply (simp only: wp_bind wp_gets)
    done
qed

lemma wp_HandleInMultiGroup_stay:
  "Q () s \<Longrightarrow> ci_clientGroupId ci = ci_clientGroupId new \<Longrightarrow> wp (HandleInMultiGroup E new (Some (gid, ci)) stop) Q s"
  "Q () s \<Longrightarrow> wp (HandleInMultiGroup E new None stop) Q s"
  by (simp_all add: HandleInMultiGroup_def IsSameClientGroup_def wp_simps)

text \<open>Clients found by a search are registered in the group where they were found.\<close>

definition found_in :: "session \<Rightarrow> u64 \<times> input_client_info \<Rightarrow> bool" where
  "found_in s x \<longleftrightarrow> (\<exists>g k. map_of (ss_groups s) (fst x) = Some g \<and> ci_client (snd x) = Some k \<and>
     map_of (cg_mapClients g) k = Some (snd x) \<and> ci_clientGroupId (snd x) = fst x)"

lemma first_group_found:
  assumes "session_ok s" "first_group f s = Some x"
    "\<And>g ci. group_ok g \<Longrightarrow> f g = Some ci \<Longrightarrow> \<exists>k. ci_client ci = Some k \<and> map_of (cg_mapClients g) k = Some ci"
  shows "found_in s x"
proof -
  from assms(2) obtain g where g: "(fst x, g) \<in> set (ss_groups s)" "f g = Some (snd x)"
    by (auto simp: first_group_def split: option.splits dest!: find_SomeD)
  with assms(1) have "map_of (ss_groups s) (fst x) = Some g" by (simp add: session_ok_def groups_ok_def)
  moreover from this assms(1) have ok: "group_ok g" "cg_displayGroupId g = fst x"
    by (auto simp: session_ok_def groups_ok_def)
  moreover from assms(3) [OF ok(1) g(2)] obtain k
    where "ci_client (snd x) = Some k" "map_of (cg_mapClients g) k = Some (snd x)" by blast
  ultimately show ?thesis by (auto simp: found_in_def group_ok_def entries_ok_def)
qed

lemma find_client_ok: "group_ok g \<Longrightarrow> find_client p g = Some ci \<Longrightarrow>
    \<exists>k. ci_client ci = Some k \<and> map_of (cg_mapClients g) k = Some ci"
  using find_client_registered by (fastforce simp: group_ok_def)

lemma found_lookups:
  assumes "session_ok s"
  shows "GetClientBoundImeByImePid p s = Some x \<Longrightarrow> found_in s x"
    "GetClientBoundRealIme s = Some x \<Longrightarrow> found_in s x"
    "GetClientBySelfPid p s = Some x \<Longrightarrow> found_in s x"
    "GetClientBySelfPidOrHostPid p s = Some x \<Longrightarrow> found_in s x"
    "GetClientBoundImeByWindowId_s w s = Some x \<Longrightarrow> found_in s x"
    "GetCurrentClientBoundRealIme s = Some x \<Longrightarrow> found_in s x"
proof -
  show "GetClientBoundImeByImePid p s = Some x \<Longrightarrow> found_in s x"
    "GetClientBoundRealIme s = Some x \<Longrightarrow> found_in s x"
    "GetClientBySelfPid p s = Some x \<Longrightarrow> found_in s x"
    "GetClientBoundImeByWindowId_s w s = Some x \<Longrightarrow> found_in s x"
    unfolding GetClientBoundImeByImePid_def GetClientBoundRealIme_def GetClientBySelfPid_def
      GetClientBoundImeByWindowId_s_def
    by (erule first_group_found [OF assms]; simp add: GetClientInfoByBindIme_def GetClientInfoBoundRealIme_def
        GetClientInfo_pid_def GetClientBoundImeByWindowId_def find_client_ok)+
  show "GetClientBySelfPidOrHostPid p s = Some x \<Longrightarrow> found_in s x"
    unfolding GetClientBySelfPidOrHostPid_def
    by (erule first_group_found [OF assms])
      (auto simp: GetClientInfo_pid_def GetClientInfoByHostPid_def split: option.splits dest: find_client_ok)
  show "GetCurrentClientBoundRealIme s = Some x \<Longrightarrow> found_in s x"
    unfolding GetCurrentClientBoundRealIme_def
    by (erule first_group_found [OF assms])
      (auto simp: GetCurrentClientInfoBoundRealIme_def group_ok_def entries_ok_def split: option.splits if_splits)
qed

text \<open>What moving other groups' clients out leaves alone: the invariant and one group.\<close>

definition moved_out :: "u64 \<Rightarrow> (u64 \<times> client_group) list \<Rightarrow> (u64 \<times> client_group) list \<Rightarrow> bool" where
  "moved_out gid gs gs' \<longleftrightarrow> (groups_ok gs \<longrightarrow> groups_ok gs') \<and> map fst gs' = map fst gs \<and> map_of gs' gid = map_of gs gid \<and>
     (\<forall>gid' g'. map_of gs' gid' = Some g' \<longrightarrow> (\<exists>g. map_of gs gid' = Some g \<and>
        (\<forall>k ci. map_of (cg_mapClients g') k = Some ci \<longrightarrow> map_of (cg_mapClients g) k = Some ci)))"

lemma moved_out_refl [simp]: "moved_out gid gs gs"
  by (auto simp: moved_out_def)

lemma moved_out_trans: "moved_out gid a b \<Longrightarrow> moved_out gid b c \<Longrightarrow> moved_out gid a c"
  unfolding moved_out_def by (clarsimp) (metis (no_types, lifting))

lemma moved_out_purge: "gid' \<noteq> gid \<Longrightarrow> moved_out gid gs (AList.map_entry gid' (purge k) gs)"
  by (auto simp: moved_out_def groups_ok_ops map_of_map_entry purge_fields split: if_splits)

lemma HandleInMultiGroup_moved:
  assumes "case old of None \<Rightarrow> True | Some x \<Rightarrow> found_in s x"
    "\<And>t. moved_out (ci_clientGroupId new) (ss_groups s) (ss_groups t) \<Longrightarrow> Q () t"
  shows "wp (HandleInMultiGroup E new old stop) Q s"
proof (cases old)
  case (Some x)
  obtain gid ci where x: "x = (gid, ci)" by (cases x)
  with assms(1) Some obtain k where k: "ci_client ci = Some k" "ci_clientGroupId ci = gid"
    by (auto simp: found_in_def)
  show ?thesis
  proof (cases "gid = ci_clientGroupId new")
    case True
    then show ?thesis using Some x k by (simp add: wp_HandleInMultiGroup_stay assms(2))
  next
    case False
    then show ?thesis unfolding Some x using k
      by (intro HandleInMultiGroup_move [OF k(1)] assms(2)) (simp_all add: moved_out_purge)
  qed
qed (simp add: wp_HandleInMultiGroup_stay assms(2))

lemma moved_session_ok: "session_ok s \<Longrightarrow> moved_out gid (ss_groups s) (ss_groups t) \<Longrightarrow> session_ok t"
  by (simp add: session_ok_def moved_out_def)

lemma HandleSameIme_moved:
  assumes "session_ok s" "\<And>t. moved_out (ci_clientGroupId new) (ss_groups s) (ss_groups t) \<Longrightarrow> Q () t"
  shows "wp (HandleSameImeInMultiGroup E new d) Q s" "wp (HandleRealImeInMultiGroup E new d) Q s"
  unfolding HandleSameImeInMultiGroup_def HandleRealImeInMultiGroup_def
  using assms by (auto simp: wp_simps found_lookups split: option.splits intro!: HandleInMultiGroup_moved)

lemma wp_detach_other:
  assumes "\<And>t. ss_groups t = AList.map_entry gid (detach_other p c) (ss_groups s) \<Longrightarrow> Q () t"
  shows "wp (do { info \<leftarrow> gets (client_of gid c);
     case info of None \<Rightarrow> ret () | Some x \<Rightarrow> when_do (ci_pid x \<noteq> p) (void (RemoveClient E c gid op)) }) Q s"
proof (cases c)
  case None
  then show ?thesis using assms
    by (simp add: wp_simps client_of_def GetClientInfo_def detach_other_def map_entry_ident split: option.split)
next
  case (Some k)
  then show ?thesis
    by (auto simp: wp_simps client_of_def GetClientGroupByGroupId_def detach_other_def map_entry_None
        intro!: wp_RemoveClient assms map_entry_cong map_entry_ident [symmetric] split: option.splits)
qed

lemma ReplaceCurrentClient_groups:
  assumes "\<And>t. ss_groups t = AList.map_entry gid (make_current k) (ss_groups s) \<Longrightarrow> Q () t"
  shows "wp (ReplaceCurrentClient E (Some k) gid) Q s"
proof (cases "client_of gid (Some k) s")
  case None
  then have "AList.map_entry gid (make_current k) (ss_groups s) = ss_groups s"
    by (intro map_entry_ident) (auto simp: client_of_def GetClientGroupByGroupId_def make_current_def)
  with None show ?thesis using assms by (simp add: ReplaceCurrentClient_def wp_simps)
next
  case (Some ci)
  then obtain g where g: "map_of (ss_groups s) gid = Some g" "map_of (cg_mapClients g) k = Some ci"
    by (auto simp: client_of_def GetClientGroupByGroupId_def split: option.splits)
  let ?p = "ci_pid ci" and ?s = "s\<lparr>ss_groups := AList.map_entry gid (SetCurrentClient (Some k)) (ss_groups s)\<rparr>"
  have fin: "AList.map_entry gid (detach_other ?p (inactive_of gid t)) (ss_groups t)
      = AList.map_entry gid (make_current k) (ss_groups s)"
    if t: "ss_groups t = AList.map_entry gid (detach_other ?p (cg_currentClient g)) (ss_groups ?s)" for t
    using g t
    by (simp add: inactive_of_def GetClientGroupByGroupId_def map_of_map_entry map_entry_comp)
      (rule map_entry_cong, simp add: make_current_def Let_def)
  have cur: "current_of gid s = cg_currentClient g" using g by (simp add: current_of_def GetClientGroupByGroupId_def)
  show ?thesis
    unfolding ReplaceCurrentClient_def option.case wp_bind wp_gets Some cur wp_upd_group
    apply (rule wp_detach_other [unfolded wp_bind wp_gets])
    apply (rule wp_detach_other [unfolded wp_bind wp_gets])
    apply (rule assms)
    using fin by simp
qed

lemma quiet_clear_private_command [frame_intros]: "quiet clear_private_command"
  by (simp add: clear_private_command_def frames_def quiet_view_def option.map_comp comp_def)

lemma quiet_SendPrivateData [frame_intros]: "quiet (SendPrivateData E c)"
  unfolding SendPrivateData_def by (intro frame_intros)

lemma quiet_SetInputType [frame_intros]: "quiet (SetInputType E i)"
  unfolding SetInputType_def by (intro frame_intros)

lemma quiet_PostHook [frame_intros]: "quiet (PostCurrentImeInfoReportHook E b)"
  unfolding PostCurrentImeInfoReportHook_def by (intro frame_intros)

lemma quiet_send_each [frame_intros]: "quiet (send_each E k ds res)"
  by (induction ds arbitrary: res) (auto intro!: frame_intros)

lemma quiet_SendAllReady [frame_intros]: "quiet (SendAllReadyImeToClient E d i)"
  unfolding SendAllReadyImeToClient_def by (intro frame_intros)

definition bind_client :: "input_client_info \<Rightarrow> ime_data \<Rightarrow> robj \<Rightarrow> client_group \<Rightarrow> client_group" where
  "bind_client ci d k g = make_current k (UpdateClientInfo (Some k)
     [(ISSHOWKEYBOARD, V_bool (ci_isShowKeyboard ci)), (STATE, V_ClientState ACTIVE),
      (BIND_IME_DATA, V_BindImeData (Some \<lparr>bd_pid = im_pid d, bd_type = im_type d\<rparr>))] g)"

lemma group_ok_bind_client: "group_ok g \<Longrightarrow> group_ok (bind_client ci d k g)"
  by (simp add: bind_client_def group_ok_make_current group_ok_UpdateClientInfo)

lemma bind_client_id [simp]: "cg_displayGroupId (bind_client ci d k g) = cg_displayGroupId g"
  by (simp add: bind_client_def)

definition bind_effect :: "input_client_info \<Rightarrow> ime_data \<Rightarrow> (u64 \<times> client_group) list \<Rightarrow> (u64 \<times> client_group) list \<Rightarrow> bool" where
  "bind_effect ci d gs gs' \<longleftrightarrow> (\<exists>m k. moved_out (ci_clientGroupId ci) gs m \<and> ci_client ci = Some k \<and>
     gs' = AList.map_entry (ci_clientGroupId ci) (bind_client ci d k) m)"

text \<open>The steps of \<open>BindClientWithIme\<close> after the input method and the client have answered.\<close>

lemma bind_tail:
  assumes "session_ok s" "ci_client ci = Some k" "\<And>t. bind_effect ci d (ss_groups s) (ss_groups t) \<Longrightarrow> Q NO_ERROR t"
  shows "wp (do {
     HandleSameImeInMultiGroup E ci (Some d);
     HandleRealImeInMultiGroup E ci (Some d);
     upd_group (ci_clientGroupId ci) (UpdateClientInfo (ci_client ci)
       [(ISSHOWKEYBOARD, V_bool (ci_isShowKeyboard ci)), (STATE, V_ClientState ACTIVE),
        (BIND_IME_DATA, V_BindImeData (Some \<lparr>bd_pid = im_pid d, bd_type = im_type d\<rparr>))]);
     ReplaceCurrentClient E (ci_client ci) (ci_clientGroupId ci);
     ret NO_ERROR }) Q s"
  unfolding wp_bind assms(2) wp_upd_group wp_return
proof (rule HandleSameIme_moved [OF assms(1)], rule HandleSameIme_moved, goal_cases)
  case (1 t)
  then show ?case using assms(1) by (blast intro: moved_session_ok)
next
  case (2 t u)
  then have "moved_out (ci_clientGroupId ci) (ss_groups s) (ss_groups u)" by (blast intro: moved_out_trans)
  then show ?case
    by (intro ReplaceCurrentClient_groups assms(3))
      (auto simp: bind_effect_def bind_client_def [abs_def] map_entry_comp assms(2))
qed

lemma BindClientWithIme_groups:
  assumes "session_ok s" "ci_client ci = Some k"
  shows "wp (BindClientWithIme E (Some ci) (Some d) b) (\<lambda>r t.
     (if r = NO_ERROR \<and> \<not> IsImeMirror d then bind_effect ci d (ss_groups s) (ss_groups t)
      else ss_groups t = ss_groups s) \<and>
     (GetClientGroupByGroupId (ci_clientGroupId ci) s \<noteq> None \<longrightarrow>
      r \<in> {NO_ERROR, ERROR_IME_START_INPUT_FAILED, ERROR_IMSA_CLIENT_INPUT_READY_FAILED})) s"
proof -
  have 1: "quiet (when_do (im_privateCommand d \<noteq> []) (void (SendPrivateData E (im_privateCommand d))))"
    and 2: "quiet (when_do (IsRealIme d) (void (SetInputType E (Some ci))))"
    and 3: "quiet (RequestAllIme E (Some d) START_INPUT (\<lambda>x. core_ipc E x (StartInput_ipc ci b)) (ci_clientGroupId ci))"
    and 4: "quiet (when_do (IsRealIme d) (do {
               emit (ReportImeStateEv True (im_pid d) (fst (im_ime d)));
               emit (SetCriticalEv True);
               PostCurrentImeInfoReportHook E (fst (im_ime d));
               cb \<leftarrow> gets ss_usageCallbacks;
               when_do cb (emit (ImeBindCb (fst (im_ime d)))) }))"
    and 5: "quiet (if b then ret NO_ERROR else SendAllReadyImeToClient E (Some d) (Some ci))"
    by (intro frame_intros)+
  have tail: "session_ok t" if "ss_groups t = ss_groups s" for t using that assms(1) by (simp add: session_ok_def)
  show ?thesis
    unfolding BindClientWithIme_def option.case wp_bind wp_gets
    apply (cases "GetClientGroupByGroupId (ci_clientGroupId ci) s")
     apply (simp add: wp_return)
    apply (simp only: option.case)
    apply (rule wp_quiet_bind [OF 1], rule wp_quiet_bind [OF 2], rule wp_quiet_bind [OF 3], rule wp_ifI)
     apply (simp add: wp_return)
    apply (rule wp_quiet_bind [OF 4], rule wp_quiet_bind [OF 5], rule wp_ifI)
     apply (simp add: wp_return)
    apply (rule wp_ifI)
     apply (simp add: wp_return)
    apply (rule bind_tail [OF tail assms(2)])
     apply simp_all
    done
qed

section \<open>The invariant is kept by every client handler\<close>

lemma quiet_session_ok: "quiet m \<Longrightarrow> preserves session_ok m"
  unfolding session_ok_def by (rule quiet_preserves)

lemmas pres_quiets [pres_intros] = quiet_session_ok [OF quiet_emit] quiet_session_ok [OF quiet_call]
  quiet_session_ok [OF quiet_ask(1)] quiet_session_ok [OF quiet_ask(2)] quiet_session_ok [OF quiet_ask_ime_to_start]
  quiet_session_ok [OF quiet_core_ipc] quiet_session_ok [OF quiet_client_ipc]
  quiet_session_ok [OF quiet_RestoreSubType] quiet_session_ok [OF quiet_NotifyInputStop]
  quiet_session_ok [OF quiet_StopClientInput] quiet_session_ok [OF quiet_StopImeInput]
  quiet_session_ok [OF quiet_UnBindClientWithIme] quiet_session_ok [OF quiet_NotifySubType]
  quiet_session_ok [OF quiet_SendPrivateData] quiet_session_ok [OF quiet_SetInputType]
  quiet_session_ok [OF quiet_PostHook] quiet_session_ok [OF quiet_SendAllReady]
  quiet_session_ok [OF quiet_RequestIme [OF quiet_core_ipc]]
  quiet_session_ok [OF quiet_RequestIme [OF frames_bind [OF quiet_core_ipc frames_return]]]
  quiet_session_ok [OF quiet_RequestAllIme [OF quiet_core_ipc]]
  quiet_session_ok [OF quiet_SwitchSubtype(1)] quiet_session_ok [OF quiet_SwitchSubtype(2)]

lemma preserves_upd_group:
  "(\<And>g. group_ok g \<Longrightarrow> group_ok (f g) \<and> cg_displayGroupId (f g) = cg_displayGroupId g) \<Longrightarrow>
   preserves session_ok (upd_group gid f)"
  by (auto simp: preserves_def upd_group_def session_ok_def intro!: groups_ok_map_entry)

lemma preserves_update_client [pres_intros]:
  "CLIENT_GROUP_ID \<notin> fst ` set us \<Longrightarrow> preserves session_ok (upd_group gid (UpdateClientInfo c us))"
  by (rule preserves_upd_group) (simp add: group_ok_UpdateClientInfo)

lemma preserves_upd_client:
  assumes "\<And>ci. ci_client (f ci) = ci_client ci" "\<And>ci. ci_clientGroupId (f ci) = ci_clientGroupId ci"
  shows "preserves session_ok (upd_client gid c f)"
  unfolding upd_client_def using assms
  by (intro pres_intros preserves_upd_group)
    (auto simp: group_ok_def entries_ok_def current_ok_iff map_of_map_entry split: if_splits)

lemma preserves_RemoveClient [pres_intros]: "preserves session_ok (RemoveClient E c gid op)"
  by (cases c) (auto intro!: preservesI wp_RemoveClient simp: session_ok_def groups_ok_ops)

lemma preserves_DeactivateClient [pres_intros]: "preserves session_ok (DeactivateClient E c gid)"
proof (cases c)
  case (Some k)
  then show ?thesis
    by (auto intro!: preservesI wp_conseq [OF DeactivateClient_groups] simp: session_ok_def groups_ok_ops)
qed (simp add: DeactivateClient_def)

lemma preserves_OnClientDied [pres_intros]: "preserves session_ok (OnClientDied E c)"
proof (cases c)
  case (Some k)
  then show ?thesis
    by (auto intro!: preservesI wp_conseq [OF OnClientDied_groups]
        simp: session_ok_def groups_ok_ops split: option.splits)
qed (simp add: OnClientDied_def)

lemma preserves_HideKeyboard [pres_intros]: "preserves session_ok (HideKeyboard E c gid)"
  unfolding HideKeyboard_def by (intro pres_intros) simp

lemma preserves_ShowKeyboard [pres_intros]: "preserves session_ok (ShowKeyboard E c gid r)"
  unfolding ShowKeyboard_def by (intro pres_intros) simp

lemma preserves_show_hide:
  "preserves session_ok (OnHideCurrentInput E gid)" "preserves session_ok (OnShowCurrentInput E gid)"
  "preserves session_ok (OnShowCurrentInputInTargetDisplay E displayId)"
  "preserves session_ok (OnHideCurrentInputInTargetDisplay E displayId)"
  "preserves session_ok (OnHideInput E c)" "preserves session_ok (OnShowInput E c r)"
  unfolding OnHideCurrentInput_def OnShowCurrentInput_def OnShowCurrentInputInTargetDisplay_def
    OnHideCurrentInputInTargetDisplay_def OnHideInput_def OnShowInput_def
  by (intro pres_intros)+

lemma preserves_HideSelf: "preserves session_ok (OnHideSoftKeyBoardSelf E)"
  unfolding OnHideSoftKeyBoardSelf_def by (intro pres_intros) simp

lemma preserves_RequestHide [pres_intros]:
  "preserves session_ok (RequestHideRealIme E gid)" "preserves session_ok (RequestHideProxyIme E displayId)"
  unfolding RequestHideRealIme_def RequestHideProxyIme_def by (intro pres_intros)+

lemma preserves_UpdateAfterHide [pres_intros]: "preserves session_ok (UpdateClientAfterRequestHide E gid b)"
  unfolding UpdateClientAfterRequestHide_def by (intro pres_intros) simp

lemma preserves_OnRequestHideInput: "preserves session_ok (OnRequestHideInput E displayId b)"
  unfolding OnRequestHideInput_def by (intro pres_intros)

lemma preserves_OnReleaseInput: "preserves session_ok (OnReleaseInput E c sid csid)"
  unfolding OnReleaseInput_def by (intro pres_intros)

lemma preserves_focus: "preserves session_ok (OnFocused E displayId p u)" "preserves session_ok (OnUnfocused E displayId p u)"
  unfolding OnFocused_def OnUnfocused_def by (intro pres_intros)+

lemma preserves_RemoveAllCurrentClient [pres_intros]: "preserves session_ok (RemoveAllCurrentClient E)"
  unfolding RemoveAllCurrentClient_def remove_current_def by (intro pres_intros)

lemma preserves_window:
  "preserves session_ok (OnSetCallingWindow E fi c w)" "preserves session_ok (OnWindowDisplayIdChanged E w d)"
  unfolding OnSetCallingWindow_def OnWindowDisplayIdChanged_def HandleWindowIdChanged_def
    NotifyCallingWindowIdChanged_def NotifyCallingDisplayChanged_def
  by (intro pres_intros preserves_upd_client; simp add: window_changed_def display_changed_def)+

lemma preserves_SameInMultiGroup [pres_intros]:
  "preserves session_ok (HandleSameImeInMultiGroup E new d)" "preserves session_ok (HandleRealImeInMultiGroup E new d)"
  by (rule preservesI, rule HandleSameIme_moved, assumption, erule (1) moved_session_ok)+

lemma preserves_ReplaceCurrentClient [pres_intros]: "preserves session_ok (ReplaceCurrentClient E c gid)"
proof (cases c)
  case (Some k)
  then show ?thesis
    by (auto intro!: preservesI ReplaceCurrentClient_groups simp: session_ok_def groups_ok_ops)
qed (simp add: ReplaceCurrentClient_def)

lemma preserves_BindClientWithIme [pres_intros]: "preserves session_ok (BindClientWithIme E ci d b)"
  unfolding BindClientWithIme_def by (intro pres_intros) simp

definition forget :: "robj option \<Rightarrow> client_group \<Rightarrow> client_group" where
  "forget c g = snd (RemoveClientInfo c (SetCurrentClient None g))"

lemma forget_fields:
  "cg_displayGroupId (forget c g) = cg_displayGroupId g" "cg_currentClient (forget c g) = None"
  "map_of (cg_mapClients (forget c g)) k = (if c = Some k then None else map_of (cg_mapClients g) k)"
  by (simp_all add: forget_def map_of_RemoveClientInfo)

lemma group_ok_forget: "group_ok g \<Longrightarrow> group_ok (forget c g)"
  unfolding forget_def by (cases c) (auto intro!: group_ok_RemoveClientInfo group_ok_clear_current)

lemma wp_forget:
  assumes "\<And>t. ss_groups t = AList.map_entry gid (forget c) (ss_groups s) \<Longrightarrow> Q () t"
  shows "wp (do { upd_group gid (SetCurrentClient None); when_do (c \<noteq> None) (remove_client_info gid c) }) Q s"
  using assms
  by (cases c) (auto simp: wp_simps map_entry_comp forget_def [abs_def] intro!: wp_remove_client_info)

lemma preserves_forget [pres_intros]:
  "preserves session_ok (do { upd_group gid (SetCurrentClient None); when_do (c \<noteq> None) (remove_client_info gid c) })"
  by (rule preservesI, rule wp_forget)
    (auto simp: session_ok_def group_ok_forget forget_fields intro!: groups_ok_map_entry)

lemma preserves_HandleBindImeChanged [pres_intros]: "preserves session_ok (HandleBindImeChanged E new d gid)"
  unfolding HandleBindImeChanged_def by (intro preserves_forget pres_intros)

lemma preserves_OnStartInput: "preserves session_ok (OnStartInput E ci)"
  unfolding OnStartInput_def by (intro pres_intros)

text \<open>What preparing to bind another input method does: the record of the new client is at most
  marked, and the only client that leaves the group is a current client other than the new one.\<close>

lemma HandleBindImeChanged_groups:
  "wp (HandleBindImeChanged E new d gid) (\<lambda>r t. r \<in> {new, new\<lparr>ci_isNotifyInputStart := True\<rparr>} \<and>
     (ss_groups t = ss_groups s \<or> (\<exists>ci. client_of gid (current_of gid s) s = Some ci \<and>
        \<not> IsSameClient (ci_client new) (ci_client ci) \<and>
        ss_groups t = AList.map_entry gid (forget (ci_client ci)) (ss_groups s)))) s"
  (is "wp _ ?Q s")
proof (cases d)
  case (Some x)
  let ?old = "case client_of gid (current_of gid s) s of Some ci \<Rightarrow> Some ci | None \<Rightarrow> client_of gid (inactive_of gid s) s"
  show ?thesis
    unfolding HandleBindImeChanged_def Some option.case Let_def wp_bind wp_gets
    apply (rule wp_ifI, simp add: wp_return)
    apply (simp only: wp_bind wp_gets)
    apply (cases ?old)
     apply (simp add: wp_return)
    apply (simp only: option.case)
    apply (rule wp_ifI, simp add: wp_return)
    apply (rule wp_ifI, simp add: wp_return)
    apply (cases "client_of gid (current_of gid s) s")
     apply (auto simp: wp_simps intro!: wp_quiets)[1]
    subgoal for old old'
      apply (cases "IsSameClient (ci_client new) (ci_client old')")
       apply (auto simp: wp_simps intro!: wp_quiets)[1]
      apply (simp only: option.case option.inject simp_thms option.distinct when_do_def [of True] if_True if_False
          wp_bind [of "upd_group gid f \<bind> h" for f h])
      apply (simp only: wp_bind)
      apply (rule wp_forget [unfolded wp_bind])
      apply (auto simp: wp_simps intro!: wp_quiets)
      done
    done
qed (simp add: HandleBindImeChanged_def wp_simps)

lemma groups_ok_Cons:
  "groups_ok gs \<Longrightarrow> map_of gs gid = None \<Longrightarrow> group_ok g \<Longrightarrow> cg_displayGroupId g = gid \<Longrightarrow> groups_ok ((gid, g) # gs)"
  by (auto simp: groups_ok_def map_of_eq_None_iff)

lemma AddClientInfo_id [simp]: "cg_displayGroupId (snd (snd (AddClientInfo add c ci g))) = cg_displayGroupId g"
  by (simp add: AddClientInfo_def split: option.split add_death.split)

lemma preserves_AddClientInfo_s [pres_intros]:
  assumes "ci_client ci = Some k"
  shows "preserves session_ok (AddClientInfo_s E (Some k) ci)"
proof (rule preservesI)
  fix s assume ok: "session_ok s"
  let ?gid = "ci_clientGroupId ci" and ?add = "e_addDeath E (ss_log s)"
  have new: "groups_ok ((?gid, snd (snd (AddClientInfo ?add (Some k) ci (new_client_group ?gid)))) # ss_groups s)"
    if "map_of (ss_groups s) ?gid = None"
    using that ok assms
    by (intro groups_ok_Cons AddClientInfo_group_ok) (simp_all add: session_ok_def, simp_all add: new_client_group_def)
  have old: "groups_ok (AList.map_entry ?gid (\<lambda>g. snd (snd (AddClientInfo ?add (Some k) ci g))) (ss_groups s))"
    using ok assms by (intro groups_ok_map_entry) (simp_all add: session_ok_def AddClientInfo_group_ok)
  show "wp (AddClientInfo_s E (Some k) ci) (\<lambda>_. session_ok) s"
    using new old ok
    by (auto simp: AddClientInfo_s_def wp_simps GetClientGroupByGroupId_def session_ok_def
        intro!: wp_quiet [OF quiet_emits] split: option.splits prod.splits)
qed

lemma HandleSameClient_moved:
  assumes "session_ok s" "\<And>t. moved_out (ci_clientGroupId new) (ss_groups s) (ss_groups t) \<Longrightarrow> Q () t"
  shows "wp (HandleSameClientInMultiGroup E new) Q s"
  unfolding HandleSameClientInMultiGroup_def wp_bind wp_gets
proof (rule wp_quiet, goal_cases)
  case 1
  show ?case by (intro frame_intros)
next
  case (2 r t)
  then show ?case using assms
    by (intro HandleInMultiGroup_moved)
      (auto split: option.split dest: found_lookups simp: found_in_def)
qed

lemma preserves_HandleSameClient [pres_intros]: "preserves session_ok (HandleSameClientInMultiGroup E new)"
  by (rule preservesI, rule HandleSameClient_moved, assumption, erule (1) moved_session_ok)

lemma preserves_OnPrepareInput: "preserves session_ok (OnPrepareInput E ci)"
  unfolding OnPrepareInput_def by (cases "ci_client ci") (auto intro!: pres_intros preserves_AddClientInfo_s)

end
