(* ===== verification/Session_Lifecycle.thy ===== *)
theory Session_Lifecycle
  imports Session_Clients
begin

text \<open>
  The life cycle of the real input method in \<open>peruser_session.cpp\<close>: its data, the table that maps
  status and event to the next status and an action, starting, stopping and restarting it, what
  happens when it connects or dies, and when screens lock and unlock.
\<close>

section \<open>The data of the input methods\<close>

definition drop_death :: "ime_data \<Rightarrow> unit sess" where
  "drop_death d = (case im_core d of None \<Rightarrow> ret ()
     | Some k \<Rightarrow> when_do (im_deathRecipient d) (emit (ImeRemoveDeath k)))"

definition RemoveRealImeData :: "unit sess" where
  "RemoveRealImeData = do {
     data \<leftarrow> gets ss_real;
     (case data of None \<Rightarrow> ret () | Some d \<Rightarrow> drop_death d);
     modify (\<lambda>s. s\<lparr>ss_real := None\<rparr>) }"

definition RemoveRealImeData_pid :: "pid_t \<Rightarrow> unit sess" where
  "RemoveRealImeData_pid pid = do {
     data \<leftarrow> gets ss_real;
     case data of None \<Rightarrow> ret ()
     | Some d \<Rightarrow> if im_pid d \<noteq> pid then ret ()
       else do { drop_death d; modify (\<lambda>s. s\<lparr>ss_real := None\<rparr>) } }"

definition RemoveMirrorImeData :: "pid_t \<Rightarrow> unit sess" where
  "RemoveMirrorImeData pid = do {
     data \<leftarrow> gets ss_mirror;
     case data of None \<Rightarrow> ret ()
     | Some d \<Rightarrow> if im_pid d \<noteq> pid then ret ()
       else do { drop_death d; modify (\<lambda>s. s\<lparr>ss_mirror := None\<rparr>) } }"

text \<open>The first entry with the given pid is erased from a vector.\<close>

fun erase_pid :: "pid_t \<Rightarrow> ime_data list \<Rightarrow> ime_data list" where
  "erase_pid pid [] = []"
| "erase_pid pid (d # ds) = (if im_pid d = pid then ds else d # erase_pid pid ds)"

fun erase_proxy :: "pid_t \<Rightarrow> (u64 \<times> ime_data list) list \<Rightarrow> (u64 \<times> ime_data list) list" where
  "erase_proxy pid [] = []"
| "erase_proxy pid ((k, l) # m) =
     (if erase_pid pid l = [] then erase_proxy pid m else (k, erase_pid pid l) # erase_proxy pid m)"

definition RemoveProxyImeData_pid :: "pid_t \<Rightarrow> unit sess" where
  "RemoveProxyImeData_pid pid = do {
     m \<leftarrow> gets ss_proxy;
     for_each m (\<lambda>kl. case List.find (\<lambda>d. im_pid d = pid) (snd kl) of None \<Rightarrow> ret () | Some d \<Rightarrow> drop_death d);
     modify (\<lambda>s. s\<lparr>ss_proxy := erase_proxy pid (ss_proxy s)\<rparr>) }"

definition RemoveImeData :: "pid_t \<Rightarrow> unit sess" where
  "RemoveImeData pid = do {
     emit (ResetPanelStatusFlag pid);
     RemoveRealImeData_pid pid;
     RemoveMirrorImeData pid;
     RemoveProxyImeData_pid pid }"

abbreviation IME_MIRROR_NAME :: string where
  "IME_MIRROR_NAME \<equiv> ''proxyIme_IME_MIRROR''"

abbreviation PROXY_IME_NAME :: string where
  "PROXY_IME_NAME \<equiv> ''proxyIme''"

text \<open>\<open>FillImeData\<close> writes through the pointer before it can fail: the data comes back as it was left.\<close>

definition FillImeData ::
    "senv \<Rightarrow> robj option \<Rightarrow> robj option \<Rightarrow> pid_t \<Rightarrow> ime_type \<Rightarrow> ime_data \<Rightarrow> pid_t \<Rightarrow> (int \<times> ime_data) sess" where
  "FillImeData E core agent pid type imeData uid =
     (case core of None \<Rightarrow> ret (ERROR_NULL_POINTER, imeData)
      | Some k \<Rightarrow>
        if agent = None then ret (ERROR_NULL_POINTER, imeData)
        else let d = imeData\<lparr>im_status := (if type \<noteq> IME then READY else im_status imeData),
               im_type := type, im_core := core, im_agent := agent, im_pid := pid, im_uid := uid,
               im_stateManager := Some (CreateImeStateManager (e_dynamicStart E) pid uid)\<rparr> in
          do {
            ok \<leftarrow> ask E QAlloc;
            if \<not> ok then ret (ERROR_NULL_POINTER, d)
            else do {
              added \<leftarrow> ask E (QCoreDeathAdded k);
              if \<not> added then ret (ERROR_ADD_DEATH_RECIPIENT_FAILED, d)
              else do {
                emit (ImeAddDeath k);
                ret (NO_ERROR, d\<lparr>im_deathRecipient := True,
                  im_ime := (if type = IME_MIRROR then (IME_MIRROR_NAME, snd (im_ime d))
                             else if type = PROXY_IME then (PROXY_IME_NAME, snd (im_ime d)) else im_ime d)\<rparr>) } } })"

definition UpdateRealImeData ::
    "senv \<Rightarrow> robj option \<Rightarrow> robj option \<Rightarrow> pid_t \<Rightarrow> pid_t \<Rightarrow> ime_data option sess" where
  "UpdateRealImeData E core agent pid uid =
     (if core = None \<or> agent = None then ret None
      else do {
        data \<leftarrow> gets ss_real;
        case data of None \<Rightarrow> ret None
        | Some d \<Rightarrow> do {
          (r, d') \<leftarrow> FillImeData E core agent pid IME d uid;
          modify (\<lambda>s. s\<lparr>ss_real := Some d'\<rparr>);
          ret (if r \<noteq> NO_ERROR then None else Some d') } })"

definition InitConnect :: "pid_t \<Rightarrow> int sess" where
  "InitConnect pid = do {
     data \<leftarrow> gets ss_real;
     case data of None \<Rightarrow> ret ERROR_NULL_POINTER
     | Some d \<Rightarrow> do { modify (\<lambda>s. s\<lparr>ss_real := Some (d\<lparr>im_pid := pid\<rparr>)\<rparr>); ret NO_ERROR } }"

definition UpdateRealImeDataOnDisconnect :: "nat option \<Rightarrow> unit sess" where
  "UpdateRealImeDataOnDisconnect connection = do {
     data \<leftarrow> gets ss_real;
     case data of None \<Rightarrow> ret ()
     | Some d \<Rightarrow>
       if connection = None \<or> im_status d = STARTING \<or> im_connection d = None \<or> im_connection d \<noteq> connection
       then ret ()
       else modify (\<lambda>s. s\<lparr>ss_real := Some (d\<lparr>im_isDisconnected := True\<rparr>)\<rparr>) }"

definition IsImeDisconnected :: "pid_t \<Rightarrow> session \<Rightarrow> bool" where
  "IsImeDisconnected pid s = (case ss_real s of None \<Rightarrow> True
     | Some d \<Rightarrow> if im_pid d \<noteq> pid then True else im_isDisconnected d)"

section \<open>Status, events and actions\<close>

definition imeEventConverter :: "ime_status \<times> ime_event \<Rightarrow> (ime_status \<times> ime_action) option" where
  "imeEventConverter k = map_of
     [((READY, START_IME), (READY, DO_NOTHING)),
      ((STARTING, START_IME), (STARTING, HANDLE_STARTING_IME)),
      ((EXITING, START_IME), (EXITING, START_AFTER_FORCE_STOP)),
      ((READY, START_IME_TIMEOUT), (READY, DO_NOTHING)),
      ((STARTING, START_IME_TIMEOUT), (EXITING, START_AFTER_FORCE_STOP)),
      ((EXITING, START_IME_TIMEOUT), (EXITING, START_AFTER_FORCE_STOP)),
      ((READY, STOP_IME), (EXITING, STOP_READY_IME)),
      ((STARTING, STOP_IME), (EXITING, FORCE_STOP_IME)),
      ((EXITING, STOP_IME), (EXITING, FORCE_STOP_IME)),
      ((READY, SET_CORE_AND_AGENT), (READY, DO_NOTHING)),
      ((STARTING, SET_CORE_AND_AGENT), (READY, DO_SET_CORE_AND_AGENT)),
      ((EXITING, SET_CORE_AND_AGENT), (EXITING, DO_NOTHING))] k"

definition GetImeAction :: "ime_event \<Rightarrow> ime_action sess" where
  "GetImeAction ev = do {
     data \<leftarrow> gets ss_real;
     case data of None \<Rightarrow> ret DO_ACTION_IN_NULL_IME_DATA
     | Some d \<Rightarrow> (case imeEventConverter (im_status d, ev) of
         None \<Rightarrow> ret DO_ACTION_IN_IME_EVENT_CONVERT_FAILED
       | Some (st, act) \<Rightarrow> do { modify (\<lambda>s. s\<lparr>ss_real := Some (d\<lparr>im_status := st\<rparr>)\<rparr>); ret act }) }"

section \<open>Waiting\<close>

abbreviation STOP_IME_TIME :: nat where
  "STOP_IME_TIME \<equiv> 600"

definition WaitForCurrentImeStop :: "senv \<Rightarrow> bool sess" where
  "WaitForCurrentImeStop E = do {
     modify (\<lambda>s. s\<lparr>ss_isSwitching := True\<rparr>);
     wait_for E STOP_IME_TIME;
     gets (\<lambda>s. \<not> ss_isSwitching s) }"

definition NotifyImeStopFinished :: "unit sess" where
  "NotifyImeStopFinished = modify (\<lambda>s. s\<lparr>ss_isSwitching := False\<rparr>)"

definition WaitImeExtExit :: "senv \<Rightarrow> ime_type \<Rightarrow> pid_t \<Rightarrow> bool sess" where
  "WaitImeExtExit E type pid =
     (if type \<noteq> IME then ret True else BlockRetry E 5 40 (gets (IsImeDisconnected pid)))"

definition IsSaReady :: "senv \<Rightarrow> string \<Rightarrow> session \<Rightarrow> bool" where
  "IsSaReady E sa s = e_bool E (ss_log s) (QSaReady sa)"

definition IsWmsReady :: "senv \<Rightarrow> session \<Rightarrow> bool" where
  "IsWmsReady E s = (if e_bool E (ss_log s) QIsSceneBoardEnabled then e_bool E (ss_log s) QIsWmsConnected
     else IsSaReady E ''WINDOW_MANAGER_SERVICE_ID'' s)"

definition IsDeviceLockAndScreenLocked :: "senv \<Rightarrow> session \<Rightarrow> bool" where
  "IsDeviceLockAndScreenLocked E s \<longleftrightarrow> e_bool E (ss_log s) QScreenLockMgr \<and>
     e_bool E (ss_log s) QScreenLocked \<and> e_bool E (ss_log s) QDeviceLocked"

definition CanStartIme :: "senv \<Rightarrow> session \<Rightarrow> bool" where
  "CanStartIme E s \<longleftrightarrow> IsSaReady E ''MEMORY_MANAGER_SA_ID'' s \<and> IsWmsReady E s \<and>
     (e_screenLockMgr E \<longrightarrow> IsSaReady E ''SCREENLOCK_SERVICE_ID'' s) \<and> ss_runningIme s = ''''"

section \<open>Starting the process\<close>

text \<open>\<open>imeToStart\<close> is an empty configuration before the call.\<close>

definition ChangeToDefaultImeIfNeed :: "senv \<Rightarrow> ime_native_cfg \<Rightarrow> (int \<times> ime_native_cfg) sess" where
  "ChangeToDefaultImeIfNeed E targetIme =
     (if \<not> e_screenLockMgr E then ret (NO_ERROR, empty_native_cfg)
      else do {
        locked \<leftarrow> gets (IsDeviceLockAndScreenLocked E);
        if \<not> locked then ret (NO_ERROR, targetIme)
        else do {
          defaultIme \<leftarrow> ask_cfg E DefaultImeCfg;
          case defaultIme of None \<Rightarrow> ret (ERROR_IMSA_DEFAULT_IME_NOT_FOUND, empty_native_cfg)
          | Some dflt \<Rightarrow>
            if nc_bundleName dflt = nc_bundleName targetIme then ret (NO_ERROR, targetIme)
            else do { emit (SetTmpImeEv (nc_imeId dflt)); ret (NO_ERROR, dflt) } } })"

definition GetWant :: "senv \<Rightarrow> ime_native_cfg \<Rightarrow> session \<Rightarrow> want" where
  "GetWant E ime s =
     (let fullDefault = e_bool E (ss_log s) (QIsDefaultFullMode (nc_bundleName ime));
          full = (fullDefault \<or> e_bool E (ss_log s) (QFullExperience (nc_bundleName ime))) in
      \<lparr>w_bundleName = nc_bundleName ime, w_abilityName = nc_extName ime, w_strictMode = (\<not> full),
       w_isolatedSandbox = (\<not> fullDefault),
       w_subName = (case e_cfg E (ss_log s) DefaultImeCfg of None \<Rightarrow> None
         | Some dflt \<Rightarrow> if nc_bundleName dflt = nc_bundleName ime then Some (nc_subName ime) else None)\<rparr>)"

text \<open>A new connection object is identified by the length of the log at its creation.\<close>

definition InitRealImeData ::
    "senv \<Rightarrow> string \<times> string \<Rightarrow> ime_native_cfg option \<Rightarrow> (int \<times> nat option \<times> bool) sess" where
  "InitRealImeData E ime cfg = do {
     data \<leftarrow> gets ss_real;
     case data of Some d \<Rightarrow> ret (NO_ERROR, im_connection d, False)
     | None \<Rightarrow> do {
       locked \<leftarrow> gets (IsDeviceLockAndScreenLocked E);
       now \<leftarrow> gets (\<lambda>s. e_time E (ss_log s));
       ok \<leftarrow> ask E QAlloc;
       conn \<leftarrow> gets (\<lambda>s. length (ss_log s));
       if \<not> ok then ret (ERROR_IMSA_MALLOC_FAILED, None, False)
       else do {
         modify (\<lambda>s. s\<lparr>ss_real := Some (new_ime_data\<lparr>
           im_isStartedInScreenLocked := (e_screenLockMgr E \<and> locked),
           im_type := IME, im_startTime := now, im_ime := ime,
           im_stateManager := Some (CreateImeStateManager (e_dynamicStart E) (- 1) (- 1)),
           im_privateCommand := (case cfg of None \<Rightarrow> [] | Some c \<Rightarrow> nc_privateCommand c),
           im_connection := Some conn\<rparr>)\<rparr>);
         ret (NO_ERROR, Some conn, True) } } }"

text \<open>\<open>MAX_IME_START_TIME\<close> depends on the build switch.\<close>

definition MAX_IME_START_TIME :: "senv \<Rightarrow> nat" where
  "MAX_IME_START_TIME E = (if e_onDemandSa E then 2000 else 1500)"

definition StartInputService :: "senv \<Rightarrow> ime_native_cfg option \<Rightarrow> bool \<Rightarrow> int sess" where
  "StartInputService E ime skipWaitAfterTimeout = (case ime of None \<Rightarrow> ret ERROR_IMSA_IME_TO_START_NULLPTR
     | Some i \<Rightarrow> do {
       (r, imeToStart) \<leftarrow> ChangeToDefaultImeIfNeed E i;
       if r \<noteq> NO_ERROR then ret r
       else do {
         (r, connection, isFirstStart) \<leftarrow> InitRealImeData E (nc_bundleName imeToStart, nc_extName imeToStart) ime;
         if r \<noteq> NO_ERROR then ret r
         else do {
           modify (\<lambda>s. s\<lparr>ss_isImeStarted := False\<rparr>);
           want \<leftarrow> gets (GetWant E imeToStart);
           r \<leftarrow> call E (ConnectExtensionAbility want connection);
           if r \<noteq> NO_ERROR then do {
             emit (FaultReport ERROR_IMSA_IME_CONNECT_FAILED (nc_imeId imeToStart));
             when_do isFirstStart RemoveRealImeData;
             ret ERROR_IMSA_IME_CONNECT_FAILED }
           else if \<not> skipWaitAfterTimeout then ret ERROR_IMSA_IME_START_TIMEOUT
           else do {
             wait_for E (MAX_IME_START_TIME E);
             started \<leftarrow> gets ss_isImeStarted;
             if \<not> started then ret ERROR_IMSA_IME_START_TIMEOUT
             else do {
               when_do (nc_startReason i \<noteq> RESTART_AFTER_DIED)
                 (emit (ReportStartImeProcess (nc_bundleName imeToStart) (nc_extName imeToStart)));
               emit RecordStartIme;
               ret NO_ERROR } } } } })"

section \<open>Stopping the process\<close>

definition ForceStopCurrentIme :: "senv \<Rightarrow> bool \<Rightarrow> int sess" where
  "ForceStopCurrentIme E isNeedWait = do {
     data \<leftarrow> gets (GetRealImeData False);
     case data of None \<Rightarrow> ret NO_ERROR
     | Some d \<Rightarrow> do {
       running \<leftarrow> ask E (QIsRunningIme (fst (im_ime d)));
       if \<not> running then do { RemoveRealImeData; ret NO_ERROR }
       else do {
         gc \<leftarrow> gets GetCurrentClientBoundRealIme;
         (case gc of None \<Rightarrow> ret () | Some (_, ci) \<Rightarrow> StopClientInput E (Some ci) default_detach_options);
         r \<leftarrow> call E (StopExtensionAbility (fst (im_ime d)) (snd (im_ime d)));
         if r \<noteq> NO_ERROR then ret ERROR_IMSA_IME_DISCONNECT_FAILED
         else if \<not> isNeedWait then ret ERROR_IMSA_IME_START_MORE_THAN_EIGHT_SECOND
         else do {
           WaitForCurrentImeStop E;
           running \<leftarrow> ask E (QIsRunningIme (fst (im_ime d)));
           if running then ret ERROR_IMSA_FORCE_STOP_IME_TIMEOUT
           else do { RemoveRealImeData; ret NO_ERROR } } } } }"

definition StopReadyCurrentIme :: "senv \<Rightarrow> int sess" where
  "StopReadyCurrentIme E = do {
     gc \<leftarrow> gets GetCurrentClientBoundRealIme;
     (case gc of None \<Rightarrow> ret () | Some (_, ci) \<Rightarrow> StopClientInput E (Some ci) default_detach_options);
     data \<leftarrow> gets (GetRealImeData False);
     case data of None \<Rightarrow> ret NO_ERROR
     | Some d \<Rightarrow>
       if im_core d = None then ForceStopCurrentIme E True
       else do {
         r \<leftarrow> RequestAllIme E data NORMAL (\<lambda>x. core_ipc E x (StopInputService_ipc True))
                (case gc of None \<Rightarrow> NOT_DEFAULT_DISPLAY_GROUP_ID | Some (_, ci) \<Rightarrow> ci_clientGroupId ci);
         if r \<noteq> NO_ERROR then ForceStopCurrentIme E True
         else do {
           stopped \<leftarrow> WaitForCurrentImeStop E;
           if \<not> stopped then ForceStopCurrentIme E True else ret NO_ERROR } } }"

definition StopCurrentIme :: "senv \<Rightarrow> int sess" where
  "StopCurrentIme E = do {
     action \<leftarrow> GetImeAction STOP_IME;
     if action = DO_ACTION_IN_NULL_IME_DATA then ret NO_ERROR
     else if action = DO_ACTION_IN_IME_EVENT_CONVERT_FAILED then ret ERROR_IMSA_IME_EVENT_CONVERT_FAILED
     else if action = STOP_READY_IME then StopReadyCurrentIme E
     else ForceStopCurrentIme E True }"

section \<open>Starting an input method\<close>

definition StartNewIme :: "senv \<Rightarrow> ime_native_cfg option \<Rightarrow> int sess" where
  "StartNewIme E ime = do {
     r \<leftarrow> StopCurrentIme E;
     if r \<noteq> NO_ERROR then ret r else StartInputService E ime True }"

definition HandleStartImeTimeout :: "senv \<Rightarrow> ime_native_cfg option \<Rightarrow> int sess" where
  "HandleStartImeTimeout E ime = do {
     action \<leftarrow> GetImeAction START_IME_TIMEOUT;
     if action = DO_ACTION_IN_NULL_IME_DATA then StartInputService E ime True
     else if action = DO_ACTION_IN_IME_EVENT_CONVERT_FAILED then ret ERROR_IMSA_IME_EVENT_CONVERT_FAILED
     else if action = DO_NOTHING then ret NO_ERROR
     else do {
       r \<leftarrow> ForceStopCurrentIme E False;
       if r \<noteq> NO_ERROR then ret r else StartInputService E ime True } }"

abbreviation START_TIME_OUT :: int where
  "START_TIME_OUT \<equiv> 18000"

definition StartCurrentIme_ime :: "senv \<Rightarrow> ime_native_cfg option \<Rightarrow> int sess" where
  "StartCurrentIme_ime E ime = do {
     data \<leftarrow> gets (GetRealImeData False);
     case data of None \<Rightarrow> StartInputService E ime True
     | Some d \<Rightarrow> do {
       action \<leftarrow> GetImeAction START_IME;
       if action = DO_ACTION_IN_IME_EVENT_CONVERT_FAILED then ret ERROR_IMSA_IME_EVENT_CONVERT_FAILED
       else if action = DO_ACTION_IN_NULL_IME_DATA then StartInputService E ime True
       else if action = DO_NOTHING then ret NO_ERROR
       else if action = HANDLE_STARTING_IME then do {
         now \<leftarrow> gets (\<lambda>s. e_time E (ss_log s));
         if now - im_startTime d > START_TIME_OUT then HandleStartImeTimeout E ime
         else StartInputService E ime False }
       else do {
         r \<leftarrow> ForceStopCurrentIme E True;
         if r \<noteq> NO_ERROR then ret r else StartInputService E ime True } } }"

definition HandleFirstStart :: "senv \<Rightarrow> ime_native_cfg option \<Rightarrow> bool \<Rightarrow> int sess" where
  "HandleFirstStart E ime isStopCurrentIme = do {
     running \<leftarrow> gets ss_runningIme;
     if running = '''' then StartInputService E ime True
     else if isStopCurrentIme then ret NO_ERROR
     else do {
       needRetry \<leftarrow> gets ss_firstStartNeedRetry;
       if needRetry then do {
         stopped \<leftarrow> BlockRetry E 60 10 (do { b \<leftarrow> ask E (QIsRunningIme running); ret (\<not> b) });
         if stopped then do {
           modify (\<lambda>s. s\<lparr>ss_runningIme := ''''\<rparr>);
           StartInputService E ime True }
         else do {
           modify (\<lambda>s. s\<lparr>ss_firstStartNeedRetry := False\<rparr>);
           ret ERROR_IMSA_REBOOT_OLD_IME_NOT_STOP } }
       else do {
         b \<leftarrow> ask E (QIsRunningIme running);
         if \<not> b then do {
           modify (\<lambda>s. s\<lparr>ss_runningIme := '''', ss_firstStartNeedRetry := True\<rparr>);
           StartInputService E ime True }
         else ret ERROR_IMSA_REBOOT_OLD_IME_NOT_STOP } } }"

definition StartIme :: "senv \<Rightarrow> ime_native_cfg option \<Rightarrow> bool \<Rightarrow> int sess" where
  "StartIme E ime isStopCurrentIme = do {
     locked \<leftarrow> ask E QTryLock;
     if \<not> locked then ret ERROR_TRY_IME_START_FAILED
     else case ime of None \<Rightarrow> ret ERROR_IMSA_IME_TO_START_NULLPTR
     | Some i \<Rightarrow> do {
       data \<leftarrow> gets (GetRealImeData False);
       case data of None \<Rightarrow> HandleFirstStart E ime isStopCurrentIme
       | Some d \<Rightarrow>
         if im_ime d = (nc_bundleName i, nc_extName i)
         then (if isStopCurrentIme then StartNewIme E ime else StartCurrentIme_ime E ime)
         else StartNewIme E ime } }"

section \<open>Which input method to start\<close>

definition GetImeNativeCfg :: "senv \<Rightarrow> string \<Rightarrow> string \<Rightarrow> session \<Rightarrow> ime_native_cfg option" where
  "GetImeNativeCfg E bundleName subName s = (case e_imeProperty E (ss_log s) bundleName of None \<Rightarrow> None
     | Some ext \<Rightarrow> Some (empty_native_cfg\<lparr>nc_imeId := bundleName @ ''/'' @ ext, nc_bundleName := bundleName,
         nc_subName := subName, nc_extName := ext\<rparr>))"

text \<open>The result is \<open>None\<close> when no special input type is in use.\<close>

definition GetInputTypeToStart :: "senv \<Rightarrow> ime_native_cfg option option sess" where
  "GetInputTypeToStart E = do {
     started \<leftarrow> gets (\<lambda>s. it_isStarted (ss_itm s));
     if \<not> started then ret None
     else do {
       cur \<leftarrow> gets (\<lambda>s. it_currentTypeIme (ss_itm s));
       cur \<leftarrow> (if ii_bundleName cur = ''''
         then itm_query (\<lambda>m. let (_, i, m') = GetImeByInputType (e_inputTypeCfg E) (GetCurrentInputType m) cur m in (i, m'))
         else ret cur);
       cfg \<leftarrow> gets (GetImeNativeCfg E (ii_bundleName cur) (ii_subName cur));
       ret (Some cfg) } }"

definition IsPreconfiguredDefaultImeSpecified :: "senv \<Rightarrow> input_client_info \<Rightarrow> session \<Rightarrow> bool" where
  "IsPreconfiguredDefaultImeSpecified E ci s \<longleftrightarrow>
     e_bool E (ss_log s) (QRestrictedDefaultIme (ia_callingDisplayId (ci_attribute ci))) \<or>
     tc_isSimpleKeyboardEnabled (ci_config ci) \<or> IsOneTimeCodeFlag (ci_attribute ci)"

text \<open>
  The special cases that come from the current client: \<open>None\<close> when none of them applies.
\<close>

definition client_ime :: "senv \<Rightarrow> input_client_info \<Rightarrow> ime_native_cfg option sess" where
  "client_ime E ci = do {
     secure \<leftarrow> (if GetSecurityFlag (ci_attribute ci) then do {
         i \<leftarrow> itm_query (\<lambda>m. let (_, i, m') = GetImeByInputType (e_inputTypeCfg E) SECURITY_INPUT no_ime m in (i, m'));
         gets (GetImeNativeCfg E (ii_bundleName i) (ii_subName i)) }
       else ret None);
     case secure of Some i \<Rightarrow> ret (Some i)
     | None \<Rightarrow> do {
       spec \<leftarrow> gets (IsPreconfiguredDefaultImeSpecified E ci);
       if \<not> spec then ret None
       else do {
         pre \<leftarrow> ask_cfg E DefaultImeCfg;
         dflt \<leftarrow> ask_cfg E CurrentImeCfg;
         ret (case pre of None \<Rightarrow> None
           | Some p \<Rightarrow> (case dflt of None \<Rightarrow> Some p
             | Some d \<Rightarrow> if nc_imeId d = nc_imeId p then Some d else Some p)) } } }"

definition GetRealCurrentIme :: "senv \<Rightarrow> bool \<Rightarrow> ime_native_cfg option sess" where
  "GetRealCurrentIme E needMinGuarantee = do {
     typed \<leftarrow> GetInputTypeToStart E;
     case typed of Some cfg \<Rightarrow> ret cfg
     | None \<Rightarrow> do {
       gc \<leftarrow> gets GetCurrentClientBoundRealIme;
       special \<leftarrow> (case gc of None \<Rightarrow> ret None | Some (_, ci) \<Rightarrow> client_ime E ci);
       case special of Some i \<Rightarrow> ret (Some i)
       | None \<Rightarrow> do {
         locked \<leftarrow> gets (IsDeviceLockAndScreenLocked E);
         when_do (e_screenLockMgr E \<and> locked) (do {
           pre \<leftarrow> ask_cfg E DefaultImeCfg;
           dflt \<leftarrow> ask_cfg E CurrentImeCfg;
           case pre of None \<Rightarrow> ret ()
           | Some p \<Rightarrow> when_do (case dflt of None \<Rightarrow> True | Some d \<Rightarrow> nc_imeId d \<noteq> nc_imeId p)
               (emit (SetTmpImeEv (nc_imeId p))) });
         if needMinGuarantee then ask_ime_to_start E else ask_cfg E CurrentImeCfg } } }"

definition NotifyImeChangedToClients :: "senv \<Rightarrow> int sess" where
  "NotifyImeChangedToClients E = do {
     cfg \<leftarrow> ask_cfg E CurrentImeCfg;
     case cfg of None \<Rightarrow> ret ERROR_IMSA_NULLPTR
     | Some c \<Rightarrow> do {
       found \<leftarrow> ask E (QImeInfo (nc_bundleName c) (nc_subName c));
       if \<not> found then ret ERROR_IMSA_GET_IME_INFO_FAILED
       else do { emit (NotifyImeChangeEv (nc_bundleName c) (nc_subName c)); ret NO_ERROR } } }"

definition StartCurrentIme :: "senv \<Rightarrow> bool \<Rightarrow> start_reason \<Rightarrow> int sess" where
  "StartCurrentIme E isStopCurrentIme startReason = do {
     imeToStart \<leftarrow> GetRealCurrentIme E True;
     case imeToStart of None \<Rightarrow> ret ERROR_IMSA_IME_TO_START_NULLPTR
     | Some i \<Rightarrow> do {
       r \<leftarrow> StartIme E (Some (i\<lparr>nc_startReason := startReason\<rparr>)) isStopCurrentIme;
       if r \<noteq> NO_ERROR then do { emit (FaultReport r (nc_imeId i)); ret r }
       else do {
         ready \<leftarrow> gets (GetRealImeData True);
         case ready of None \<Rightarrow> ret ERROR_IME_NOT_STARTED
         | Some d \<Rightarrow> do {
           NotifyImeChangedToClients E;
           NotifySubTypeChangedToIme E (fst (im_ime d))
             (if fst (im_ime d) \<noteq> nc_bundleName i then '''' else nc_subName i);
           ret NO_ERROR } } } }"

definition StartUserSpecifiedIme :: "senv \<Rightarrow> int sess" where
  "StartUserSpecifiedIme E = do {
     upd_itm (Set False no_ime);
     cfgIme \<leftarrow> ask_ime_to_start E;
     data \<leftarrow> gets (GetRealImeData True);
     if (case data of None \<Rightarrow> False | Some d \<Rightarrow>
          (case cfgIme of None \<Rightarrow> False | Some c \<Rightarrow> im_ime d = (nc_bundleName c, nc_extName c)))
     then ret NO_ERROR
     else do {
       r \<leftarrow> StartIme E cfgIme False;
       if r \<noteq> NO_ERROR then ret r
       else do {
         NotifyImeChangedToClients E;
         cfgIme \<leftarrow> ask_cfg E CurrentImeCfg;
         (case cfgIme of None \<Rightarrow> ret ()
          | Some c \<Rightarrow> void (NotifySubTypeChangedToIme E (nc_bundleName c) (nc_subName c)));
         ret NO_ERROR } } }"

datatype start_pre_default_ime_status = NO_NEED | HAS_STARTED | TO_START

definition StartPreconfiguredDefaultIme ::
    "senv \<Rightarrow> private_command \<Rightarrow> bool \<Rightarrow> (int \<times> start_pre_default_ime_status) sess" where
  "StartPreconfiguredDefaultIme E imeExtendInfo isStopCurrentIme = do {
     upd_itm (Set False no_ime);
     pre \<leftarrow> gets (\<lambda>s. e_defaultIme E (ss_log s));
     ime \<leftarrow> gets (GetRealImeData True);
     if (case ime of None \<Rightarrow> False | Some d \<Rightarrow> im_ime d = (nc_bundleName pre, nc_extName pre))
     then ret (NO_ERROR, HAS_STARTED)
     else do {
       r \<leftarrow> StartIme E (Some (pre\<lparr>nc_privateCommand := imeExtendInfo\<rparr>)) isStopCurrentIme;
       if r \<noteq> NO_ERROR then ret (r, TO_START)
       else do {
         dflt \<leftarrow> ask_cfg E CurrentImeCfg;
         subName \<leftarrow> (case dflt of None \<Rightarrow> ret ''''
           | Some d \<Rightarrow> if nc_imeId d = nc_imeId pre
               then do { NotifyImeChangedToClients E; ret (nc_subName d) } else ret '''');
         NotifySubTypeChangedToIme E (nc_bundleName pre) subName;
         ret (NO_ERROR, TO_START) } } }"

definition SpecialScenarioCheck :: "senv \<Rightarrow> session \<Rightarrow> bool" where
  "SpecialScenarioCheck E s = (case GetCurrentClientBoundRealIme s of None \<Rightarrow> False
     | Some (_, ci) \<Rightarrow> \<not> tc_isSimpleKeyboardEnabled (ci_config ci) \<and>
         \<not> (IsSecurityImeFlag (ci_attribute ci) \<or> IsOneTimeCodeFlag (ci_attribute ci)) \<and>
         \<not> IsDeviceLockAndScreenLocked E s)"

definition SpecialSendPrivateData :: "senv \<Rightarrow> private_command \<Rightarrow> int sess" where
  "SpecialSendPrivateData E privateCommand = do {
     (r, status) \<leftarrow> StartPreconfiguredDefaultIme E privateCommand True;
     if r \<noteq> NO_ERROR then ret r
     else if status = NO_NEED \<or> status = TO_START then ret r
     else SendPrivateData E privateCommand }"

definition IsImeSwitchForbidden :: "senv \<Rightarrow> session \<Rightarrow> bool" where
  "IsImeSwitchForbidden E s = (if e_screenLockMgr E \<and> IsDeviceLockAndScreenLocked E s then True
     else (case GetCurrentClientBoundRealIme s of None \<Rightarrow> False
       | Some (_, ci) \<Rightarrow>
         (let isSimpleKeyboard = (if IsSecurityImeFlag (ci_attribute ci) \<or> IsOneTimeCodeFlag (ci_attribute ci)
                then False else tc_isSimpleKeyboardEnabled (ci_config ci)) in
          e_bool E (ss_log s) (QRestrictedDefaultIme (ia_callingDisplayId (ci_attribute ci))) \<or>
          IsSecurityImeFlag (ci_attribute ci) \<or> isSimpleKeyboard)))"

section \<open>Counters\<close>

abbreviation MAX_ATTACH_COUNT :: u32 where
  "MAX_ATTACH_COUNT \<equiv> 100000"

abbreviation MAX_SCB_START_COUNT :: u32 where
  "MAX_SCB_START_COUNT \<equiv> 2"

definition IncreaseAttachCount :: "unit sess" where
  "IncreaseAttachCount = do {
     n \<leftarrow> gets ss_attachingCount;
     if n \<ge> MAX_ATTACH_COUNT then ret () else modify (\<lambda>s. s\<lparr>ss_attachingCount := n + 1\<rparr>) }"

definition DecreaseAttachCount :: "unit sess" where
  "DecreaseAttachCount = do {
     n \<leftarrow> gets ss_attachingCount;
     if n = 0 then ret () else modify (\<lambda>s. s\<lparr>ss_attachingCount := n - 1\<rparr>) }"

definition GetAttachCount :: "session \<Rightarrow> u32" where
  "GetAttachCount s = ss_attachingCount s"

definition IncreaseScbStartCount :: "unit sess" where
  "IncreaseScbStartCount = modify (\<lambda>s. s\<lparr>ss_scbStartCount := min (ss_scbStartCount s + 1) MAX_SCB_START_COUNT\<rparr>)"

definition GetScbStartCount :: "session \<Rightarrow> u32" where
  "GetScbStartCount s = ss_scbStartCount s"

definition ResetRestartTasks :: "unit sess" where
  "ResetRestartTasks = modify (\<lambda>s. s\<lparr>ss_restartTasks := 0\<rparr>)"

definition IsAttachFinished :: "bool sess" where
  "IsAttachFinished = do {
     n \<leftarrow> gets GetAttachCount;
     w \<leftarrow> gets ss_waitAttachTimes;
     if n \<noteq> 0 \<and> w < 20 then do { modify (\<lambda>s. s\<lparr>ss_waitAttachTimes := w + 1\<rparr>); ret False }
     else do { modify (\<lambda>s. s\<lparr>ss_waitAttachTimes := 0\<rparr>); ret True } }"

definition CompareExchange :: "int \<Rightarrow> bool sess" where
  "CompareExchange value = do {
     cur \<leftarrow> gets ss_largeMemoryState;
     if cur = value then ret True
     else do { modify (\<lambda>s. s\<lparr>ss_largeMemoryState := value\<rparr>); ret False } }"

abbreviation LARGE_MEMORY_NEED :: int where
  "LARGE_MEMORY_NEED \<equiv> 2"

abbreviation LARGE_MEMORY_NOT_NEED :: int where
  "LARGE_MEMORY_NOT_NEED \<equiv> 3"

definition IsLargeMemoryStateNeed :: "session \<Rightarrow> bool" where
  "IsLargeMemoryStateNeed s \<longleftrightarrow> ss_largeMemoryState s = LARGE_MEMORY_NEED"

text \<open>\<open>managers_[timeLimitType]\<close> inserts a zero entry when there is none.\<close>

definition IsRequestOverLimit :: "senv \<Rightarrow> time_limit_type \<Rightarrow> int \<Rightarrow> u32 \<Rightarrow> int sess" where
  "IsRequestOverLimit E t resetTimeOut restartNum = do {
     now \<leftarrow> gets (\<lambda>s. e_seconds E (ss_log s));
     (num, last) \<leftarrow> gets (\<lambda>s. case map_of (ss_managers s) t of None \<Rightarrow> (0, 0) | Some m \<Rightarrow> m);
     let (num, last) = (if now - last > resetTimeOut then (0, now) else (num, last)) in do {
       modify (\<lambda>s. s\<lparr>ss_managers := AList.update t (num + 1, last) (ss_managers s)\<rparr>);
       ret (if num + 1 > restartNum then ERROR_REQUEST_RATE_EXCEEDED else NO_ERROR) } }"

section \<open>When the input method connects\<close>

definition InitInputControlChannel :: "senv \<Rightarrow> int sess" where
  "InitInputControlChannel E = do {
     ok \<leftarrow> ask E QAlloc;
     if \<not> ok then ret ERROR_NULL_POINTER
     else do {
       data \<leftarrow> gets (GetRealImeData True);
       case data of None \<Rightarrow> ret ERROR_IME_NOT_STARTED
       | Some d \<Rightarrow> RequestIme E data NORMAL (core_ipc E d InitInputControlChannel_ipc) } }"

definition OnSetCoreAndAgent :: "senv \<Rightarrow> robj option \<Rightarrow> robj option \<Rightarrow> pid_t \<Rightarrow> pid_t \<Rightarrow> int sess" where
  "OnSetCoreAndAgent E core agent pid uid = do {
     data \<leftarrow> UpdateRealImeData E core agent pid uid;
     case data of None \<Rightarrow> ret ERROR_BAD_PARAMETERS
     | Some d \<Rightarrow> do {
       action \<leftarrow> GetImeAction SET_CORE_AND_AGENT;
       if action = DO_NOTHING then ret NO_ERROR
       else if action \<noteq> DO_SET_CORE_AND_AGENT then ret ERROR_IME
       else do {
         InitInputControlChannel E;
         needBind \<leftarrow> gets (\<lambda>s. GetAttachCount s = 0 \<and> \<not> ss_attachFailedByUnavailableIme s);
         gc \<leftarrow> gets GetCurrentClientBoundRealIme;
         when_do needBind (case gc of None \<Rightarrow> ret ()
           | Some (gid, ci) \<Rightarrow> do {
             ClearRequestKeyboardReason gid (ci_client ci);
             ci' \<leftarrow> gets (client_of gid (ci_client ci));
             void (BindClientWithIme E ci' data False) });
         modify (\<lambda>s. s\<lparr>ss_isImeStarted := True\<rparr>);
         ret NO_ERROR } } }"

definition OnConnectSystemCmd :: "senv \<Rightarrow> robj option \<Rightarrow> (int \<times> robj option) sess" where
  "OnConnectSystemCmd E channel = do {
     data \<leftarrow> gets (GetRealImeData True);
     case data of None \<Rightarrow> ret (ERROR_IME_NOT_STARTED, None)
     | Some d \<Rightarrow> if im_agent d = None then ret (ERROR_IME_NOT_STARTED, None)
       else do {
         r \<leftarrow> RequestIme E data NORMAL (core_ipc E d (OnConnectSystemCmd_ipc channel));
         ret (r, im_agent d) } }"

section \<open>Memory watermarks and process images\<close>

datatype ime_start_scene = MAKE_IMAGE | NORMAL_START

datatype image_failed_reason = FAILED_HAS_RUNNING_IME | FAILED_OTHERS | FAILED_NONE

definition NeedStartIme :: "senv \<Rightarrow> ime_start_scene \<Rightarrow> bool sess" where
  "NeedStartIme E scene =
     (if e_onDemandSa E then ret False
      else if e_dynamicStart E then ret False
      else do {
        large \<leftarrow> gets IsLargeMemoryStateNeed;
        if large then ret False
        else do {
          fg \<leftarrow> ask E QIsOsAccountForeground;
          if \<not> fg then ret False
          else do {
            wms \<leftarrow> gets (IsWmsReady E);
            if \<not> wms then ret False
            else do {
              wm \<leftarrow> ask E QMemoryWatermarkEnabled;
              low \<leftarrow> ask E QLowMemWaterMark;
              if scene \<noteq> MAKE_IMAGE \<and> wm \<and> low
              then do { modify (\<lambda>s. s\<lparr>ss_isBlockStartedByLowMem := True\<rparr>); ret False }
              else ret True } } } })"

definition NeedMakeImage :: "senv \<Rightarrow> string \<Rightarrow> (bool \<times> image_failed_reason) sess" where
  "NeedMakeImage E bundleName = do {
     sys \<leftarrow> ask E (QIsSysIme bundleName);
     if \<not> sys then ret (False, FAILED_OTHERS)
     else do {
       verified \<leftarrow> ask E QOsAccountVerified;
       if \<not> verified then ret (False, FAILED_OTHERS)
       else do {
         need \<leftarrow> NeedStartIme E MAKE_IMAGE;
         if \<not> need then ret (False, FAILED_OTHERS)
         else do {
           data \<leftarrow> gets (GetRealImeData False);
           running \<leftarrow> ask E (QIsRunningIme bundleName);
           if (case data of None \<Rightarrow> False | Some d \<Rightarrow> fst (im_ime d) = bundleName) \<or> running
           then ret (False, FAILED_HAS_RUNNING_IME)
           else ret (True, FAILED_NONE) } } } }"

definition StartImageTimeoutTask :: "senv \<Rightarrow> unit sess" where
  "StartImageTimeoutTask E =
     (if \<not> e_sessionHandler E then ret () else do { emit RemoveImageTimeout; emit PostImageTimeout })"

definition StopImageTimeoutTask :: "senv \<Rightarrow> unit sess" where
  "StopImageTimeoutTask E = (if \<not> e_sessionHandler E then ret () else emit RemoveImageTimeout)"

abbreviation E_IMAGE_CREATING :: int where
  "E_IMAGE_CREATING \<equiv> - 2"

definition MakeImage :: "senv \<Rightarrow> string \<Rightarrow> string \<Rightarrow> (bool \<times> image_failed_reason) sess" where
  "MakeImage E bundleName extName = do {
     (need, reason) \<leftarrow> NeedMakeImage E bundleName;
     if \<not> need then ret (need, reason)
     else do {
       call E RegisterImageObserver;
       want \<leftarrow> gets (GetWant E (empty_native_cfg\<lparr>nc_bundleName := bundleName, nc_extName := extName,
         nc_imeId := bundleName @ ''/'' @ extName\<rparr>));
       r \<leftarrow> call E (NotifyMakeImage want);
       if r \<noteq> NO_ERROR then
         (if r = E_IMAGE_CREATING then ret (True, FAILED_NONE) else ret (False, FAILED_OTHERS))
       else do { StartImageTimeoutTask E; ret (True, FAILED_NONE) } } }"

section \<open>When the input method dies\<close>

definition StartImeIfInstalled :: "senv \<Rightarrow> start_reason \<Rightarrow> unit sess" where
  "StartImeIfInstalled E startReason = do {
     ime \<leftarrow> GetRealCurrentIme E False;
     case ime of None \<Rightarrow> ret ()
     | Some i \<Rightarrow>
       if nc_imeId i = '''' then ret ()
       else do {
         installed \<leftarrow> ask E (QIsImeInstalled (nc_bundleName i) (nc_extName i));
         if \<not> installed then ret () else void (StartCurrentIme E False startReason) } }"

definition StartImeInImeDied :: "senv \<Rightarrow> unit sess" where
  "StartImeInImeDied E = do {
     r \<leftarrow> IsRequestOverLimit E IME_LIMIT 3 3;
     if r \<noteq> NO_ERROR then ret ()
     else do {
       wms \<leftarrow> gets (IsWmsReady E);
       if \<not> wms then ret ()
       else do {
         large \<leftarrow> gets IsLargeMemoryStateNeed;
         if large then ret () else StartImeIfInstalled E RESTART_AFTER_DIED } } }"

definition HandleSysImeInDied :: "senv \<Rightarrow> ime_type \<Rightarrow> bool \<Rightarrow> int sess" where
  "HandleSysImeInDied E type disconnectedByRss = do {
     cur \<leftarrow> ask_cfg E CurrentImeCfg;
     case cur of None \<Rightarrow> ret ERROR_EX_ILLEGAL_STATE
     | Some c \<Rightarrow> do {
       dflt \<leftarrow> ask_cfg E DefaultImeCfgProp;
       case dflt of None \<Rightarrow> ret ERROR_EX_ILLEGAL_STATE
       | Some d \<Rightarrow>
         if type \<noteq> IME \<or> nc_bundleName c \<noteq> nc_bundleName d then ret NO_ERROR
         else do {
           low \<leftarrow> ask E QLowMemWaterMark;
           (makeImage, _) \<leftarrow> (if \<not> low \<and> disconnectedByRss then MakeImage E (nc_bundleName d) (nc_extName d)
                               else ret (False, FAILED_NONE));
           if makeImage then ret NO_ERROR
           else do {
             wm \<leftarrow> ask E QMemoryWatermarkEnabled;
             low \<leftarrow> ask E QLowMemWaterMark;
             modify (\<lambda>s. s\<lparr>ss_isBlockStartedByLowMem := (wm \<and> low)\<rparr>);
             when_do (\<not> (wm \<and> low)) (StartImeInImeDied E);
             ret NO_ERROR } } } }"

definition OnImeDied :: "senv \<Rightarrow> robj option \<Rightarrow> ime_type \<Rightarrow> pid_t \<Rightarrow> unit sess" where
  "OnImeDied E remote type pid = (case remote of None \<Rightarrow> ret ()
     | Some _ \<Rightarrow> do {
       WaitImeExtExit E type pid;
       modify (\<lambda>s. s\<lparr>ss_isBlockStartedByLowMem := False\<rparr>);
       byRss \<leftarrow> gets ss_disconnectedByRss;
       modify (\<lambda>s. s\<lparr>ss_disconnectedByRss := False\<rparr>);
       data \<leftarrow> gets (GetImeData pid type);
       if (case data of None \<Rightarrow> False | Some d \<Rightarrow> im_status d = EXITING) then do {
         RemoveImeData pid;
         upd_itm (Set False no_ime);
         NotifyImeStopFinished }
       else do {
         RemoveImeData pid;
         fg \<leftarrow> ask E QIsOsAccountForeground;
         if \<not> fg then ret ()
         else do {
           gc \<leftarrow> gets (GetClientBoundImeByImePid pid);
           case gc of None \<Rightarrow> void (HandleSysImeInDied E type byRss)
           | Some (gid, ci) \<Rightarrow> do {
             cur \<leftarrow> gets (current_of gid);
             if IsSameClient cur (ci_client ci) then do {
               NotifyInputStop (ia_editorDisplayId (ci_attribute ci)) IME_DIED (type = IME);
               StopClientInput E (Some ci) default_detach_options;
               when_do (type = IME) (StartImeInImeDied E) }
             else void (HandleSysImeInDied E type byRss) } } } })"

section \<open>Restart tasks\<close>

abbreviation MAX_RESTART_TASKS :: int where
  "MAX_RESTART_TASKS \<equiv> 2"

text \<open>\<open>RestartIme\<close> posts a task; \<open>restart_task\<close> is the task's body, run later by the event handler.\<close>

definition RestartIme :: "senv \<Rightarrow> bool sess" where
  "RestartIme E =
     (if \<not> e_sessionHandler E then ret False
      else do {
        delay \<leftarrow> gets ss_restartDelay;
        posted \<leftarrow> ask E QPostTask;
        emit (PostRestartTask delay);
        ret posted })"

definition restart_task :: "senv \<Rightarrow> unit sess" where
  "restart_task E = do {
     conflict \<leftarrow> gets (\<lambda>s. GetAttachCount s \<noteq> 0 \<and> GetScbStartCount s \<le> 1);
     if conflict then ResetRestartTasks
     else do {
       finished \<leftarrow> IsAttachFinished;
       if \<not> finished then do {
         modify (\<lambda>s. s\<lparr>ss_restartDelay := 50\<rparr>);
         void (RestartIme E) }
       else do {
         modify (\<lambda>s. s\<lparr>ss_restartDelay := 0\<rparr>);
         can \<leftarrow> gets (CanStartIme E);
         when_do can (do {
           ResetRestartTasks;
           void (StartCurrentIme E True DEFAULT_START) });
         modify (\<lambda>s. s\<lparr>ss_restartTasks := ss_restartTasks s - 1\<rparr>);
         tasks \<leftarrow> gets ss_restartTasks;
         if tasks > 0 then do {
           ok \<leftarrow> RestartIme E;
           when_do (\<not> ok) ResetRestartTasks }
         else ret () } } }"

definition AddRestartIme :: "senv \<Rightarrow> unit sess" where
  "AddRestartIme E = do {
     n \<leftarrow> gets ss_restartTasks;
     if n \<ge> MAX_RESTART_TASKS then ret ()
     else do {
       modify (\<lambda>s. s\<lparr>ss_restartTasks := max n 0 + 1\<rparr>);
       if max n 0 + 1 = 1 then do {
         ok \<leftarrow> RestartIme E;
         when_do (\<not> ok) ResetRestartTasks }
       else ret () } }"

section \<open>System events\<close>

definition OnScbStarted :: "senv \<Rightarrow> bool \<Rightarrow> unit sess" where
  "OnScbStarted E isScbReboot =
     (if e_onDemandSa E then ret ()
      else if e_dynamicStart E then ret ()
      else if isScbReboot then do { IncreaseScbStartCount; AddRestartIme E }
      else do {
        data \<leftarrow> gets (GetRealImeData True);
        wms \<leftarrow> gets (IsWmsReady E);
        when_do (data = None \<and> wms) (void (StartCurrentIme E False DEFAULT_START)) })"

definition OnScbStopped :: "senv \<Rightarrow> unit sess" where
  "OnScbStopped E = do {
     RemoveAllCurrentClient E;
     if \<not> e_onDemandSa E \<and> \<not> e_dynamicStart E then ret ()
     else void (StopCurrentIme E) }"

definition OnScreenUnlock :: "senv \<Rightarrow> unit sess" where
  "OnScreenUnlock E = do {
     emit (SetTmpImeEv '''');
     data \<leftarrow> gets (GetRealImeData False);
     cfg \<leftarrow> ask_cfg E CurrentImeCfg;
     case data of None \<Rightarrow> ret ()
     | Some d \<Rightarrow> (case cfg of None \<Rightarrow> ret ()
       | Some c \<Rightarrow>
         if fst (im_ime d) = nc_bundleName c \<or> \<not> im_isStartedInScreenLocked d then ret ()
         else when_do (\<not> e_onDemandSa E \<and> \<not> e_dynamicStart E) (void (StartUserSpecifiedIme E))) }"

definition OnScreenLock :: "unit sess" where
  "OnScreenLock = do {
     data \<leftarrow> gets (GetRealImeData False);
     modify (\<lambda>s. s\<lparr>ss_imeUsedBeforeScreenLocked := (case data of None \<Rightarrow> ('''', '''') | Some d \<Rightarrow> im_ime d)\<rparr>) }"

definition OnPackageUpdated :: "senv \<Rightarrow> string \<Rightarrow> int sess" where
  "OnPackageUpdated E bundleName = do {
     cfg \<leftarrow> ask_cfg E CurrentImeCfg;
     if (case cfg of None \<Rightarrow> False | Some c \<Rightarrow> bundleName \<noteq> nc_bundleName c) then ret NO_ERROR
     else do {
       n \<leftarrow> gets GetAttachCount;
       if n \<noteq> 0 then ret NO_ERROR
       else do {
         gc \<leftarrow> gets GetCurrentClientBoundRealIme;
         if gc \<noteq> None then ret NO_ERROR else StartUserSpecifiedIme E } } }"

definition UpdateLargeMemorySceneState :: "senv \<Rightarrow> int \<Rightarrow> int sess" where
  "UpdateLargeMemorySceneState E memoryState = do {
     dup \<leftarrow> CompareExchange memoryState;
     if dup then ret NO_ERROR
     else do {
       when_do (memoryState = LARGE_MEMORY_NOT_NEED) (void (StartCurrentIme E False DEFAULT_START));
       ret NO_ERROR } }"

definition TryStartIme :: "senv \<Rightarrow> int sess" where
  "TryStartIme E = do {
     blocked \<leftarrow> gets ss_isBlockStartedByLowMem;
     if \<not> blocked then ret ERROR_OPERATION_NOT_ALLOWED
     else do {
       modify (\<lambda>s. s\<lparr>ss_isBlockStartedByLowMem := False\<rparr>);
       sysIme \<leftarrow> gets (\<lambda>s. e_defaultIme E (ss_log s));
       (makeImage, _) \<leftarrow> MakeImage E (nc_bundleName sysIme) (nc_extName sysIme);
       if makeImage then ret NO_ERROR
       else do {
         data \<leftarrow> gets (GetRealImeData False);
         if data \<noteq> None then ret ERROR_IME_HAS_STARTED
         else do {
           cfg \<leftarrow> ask_cfg E CurrentImeCfg;
           sysIme \<leftarrow> gets (\<lambda>s. e_defaultIme E (ss_log s));
           if (case cfg of None \<Rightarrow> True | Some c \<Rightarrow> nc_bundleName sysIme \<noteq> nc_bundleName c)
           then ret ERROR_OPERATION_NOT_ALLOWED
           else do {
             wms \<leftarrow> gets (IsWmsReady E);
             when_do (\<not> e_onDemandSa E \<and> \<not> e_dynamicStart E \<and> wms) (StartImeIfInstalled E DEFAULT_START);
             ret NO_ERROR } } } } }"

definition TryDisconnectIme :: "senv \<Rightarrow> int sess" where
  "TryDisconnectIme E = do {
     data \<leftarrow> gets (GetRealImeData False);
     case data of None \<Rightarrow> ret ERROR_IME_NOT_STARTED
     | Some d \<Rightarrow>
       if im_status d = STARTING then ret ERROR_IME_NOT_STARTED
       else do {
         n \<leftarrow> gets GetAttachCount;
         if n \<noteq> 0 then ret ERROR_OPERATION_NOT_ALLOWED
         else do {
           gc \<leftarrow> gets GetCurrentClientBoundRealIme;
           if gc \<noteq> None then ret ERROR_OPERATION_NOT_ALLOWED
           else do {
             ok \<leftarrow> ask E QAlloc;
             if \<not> ok then ret ERROR_IMSA_NULLPTR
             else do {
               r \<leftarrow> call E (DisconnectAbility (im_connection d));
               ret (if r \<noteq> NO_ERROR then ERROR_IMSA_IME_DISCONNECT_FAILED else NO_ERROR) } } } } }"

definition StartImeInSysImageChanged :: "senv \<Rightarrow> int sess" where
  "StartImeInSysImageChanged E = do {
     data \<leftarrow> gets (GetRealImeData False);
     if data \<noteq> None then ret ERROR_IME_HAS_STARTED
     else do {
       sysIme \<leftarrow> gets (\<lambda>s. e_defaultIme E (ss_log s));
       user \<leftarrow> ask E (QIsUserCfgIme (nc_bundleName sysIme));
       if \<not> user then ret NO_ERROR
       else do {
         need \<leftarrow> NeedStartIme E NORMAL_START;
         if \<not> need then ret ERROR_SCENE_UNSUPPORTED
         else do { StartCurrentIme E False DEFAULT_START; ret NO_ERROR } } } }"

definition OnSysImeImageCreated :: "senv \<Rightarrow> unit sess" where
  "OnSysImeImageCreated E = do { StopImageTimeoutTask E; void (StartImeInSysImageChanged E) }"

definition OnMakeSysImeImage :: "senv \<Rightarrow> int sess" where
  "OnMakeSysImeImage E = do {
     sysIme \<leftarrow> gets (\<lambda>s. e_defaultIme E (ss_log s));
     (makeImage, failedReason) \<leftarrow> MakeImage E (nc_bundleName sysIme) (nc_extName sysIme);
     if makeImage then ret NO_ERROR
     else do {
       user \<leftarrow> ask E (QIsUserCfgIme (nc_bundleName sysIme));
       low \<leftarrow> ask E QLowMemWaterMark;
       when_do (user \<and> failedReason = FAILED_HAS_RUNNING_IME \<and> \<not> low) (do {
         r \<leftarrow> TryDisconnectIme E;
         when_do (r = NO_ERROR) (modify (\<lambda>s. s\<lparr>ss_disconnectedByRss := True\<rparr>)) });
       ret NO_ERROR } }"

section \<open>Flags set by other components\<close>

definition SetAttachFailedByUnavailableImeFlag :: "bool \<Rightarrow> unit sess" where
  "SetAttachFailedByUnavailableImeFlag flag = modify (\<lambda>s. s\<lparr>ss_attachFailedByUnavailableIme := flag\<rparr>)"

definition NotifyOnInputStopFinished :: "unit sess" where
  "NotifyOnInputStopFinished = modify (\<lambda>s. s\<lparr>ss_isNotifyFinished := True\<rparr>)"

definition SetImeUsageCallbacks :: "bool \<Rightarrow> unit sess" where
  "SetImeUsageCallbacks b = modify (\<lambda>s. s\<lparr>ss_usageCallbacks := b\<rparr>)"

section \<open>Push to talk and text interaction\<close>

definition ExecTextInteraction :: "senv \<Rightarrow> string \<Rightarrow> int sess" where
  "ExecTextInteraction E txt = do {
     gc \<leftarrow> gets GetCurrentClientBoundRealIme;
     case gc of None \<Rightarrow> ret ERROR_CLIENT_NOT_BOUND
     | Some (_, ci) \<Rightarrow> (case ci_client ci of None \<Rightarrow> ret ERROR_CLIENT_NOT_BOUND
       | Some k \<Rightarrow> do {
         data \<leftarrow> gets (GetImeData_bind (ci_bindImeData ci));
         (case data of None \<Rightarrow> ret ()
          | Some d \<Rightarrow> when_do (im_core d \<noteq> None) (void (RequestIme E data NORMAL (core_ipc E d HideCandidatePanel_ipc))));
         client_ipc E k (OnExecTextInteraction_ipc txt) }) }"

definition NotifyRollbackSpace :: "senv \<Rightarrow> int sess" where
  "NotifyRollbackSpace E = do {
     data \<leftarrow> gets (GetRealImeData True);
     case data of None \<Rightarrow> ret ERROR_IME_NOT_STARTED
     | Some d \<Rightarrow> if im_core d = None then ret ERROR_IME_NOT_STARTED
       else RequestIme E data NORMAL (core_ipc E d OnPttLongPress_ipc) }"

definition NotifyPttGestureCancelled :: "senv \<Rightarrow> int sess" where
  "NotifyPttGestureCancelled E = do {
     data \<leftarrow> gets (GetRealImeData True);
     case data of None \<Rightarrow> ret ERROR_IME_NOT_STARTED
     | Some d \<Rightarrow> if im_core d = None then ret ERROR_IME_NOT_STARTED
       else RequestIme E data NORMAL (core_ipc E d OnPttGestureCancelled_ipc) }"

section \<open>Queries that ask the input method\<close>

text \<open>The code, and whether the status is set to \<open>HIDE\<close> here; else the input method fills the information.\<close>

definition GetSoftKeyboardInfo_s :: "senv \<Rightarrow> (int \<times> bool) sess" where
  "GetSoftKeyboardInfo_s E = do {
     gc \<leftarrow> gets GetCurrentClientBoundRealIme;
     data \<leftarrow> gets (GetRealImeData True);
     case (gc, data) of
       (Some _, Some d) \<Rightarrow> do { r \<leftarrow> RequestIme E data NORMAL (core_ipc E d GetSoftKeyboardInfo_ipc); ret (r, False) }
     | _ \<Rightarrow> ret (NO_ERROR, True) }"

text \<open>The client's part of the information: whether it shows the keyboard, its window, its display, its reason.\<close>

definition GetInputStartInfo_s :: "senv \<Rightarrow> (int \<times> (bool \<times> u32 \<times> u64 \<times> request_keyboard_reason) option) sess" where
  "GetInputStartInfo_s E = do {
     gc \<leftarrow> gets GetCurrentClientBoundRealIme;
     case gc of None \<Rightarrow> ret (ERROR_CLIENT_NOT_BOUND, None)
     | Some (_, ci) \<Rightarrow> do {
       let info = Some (ci_isShowKeyboard ci, ia_editorWindowId (ci_attribute ci), ia_editorDisplayId (ci_attribute ci),
             tc_requestKeyboardReason (ci_config ci));
       data \<leftarrow> gets (GetRealImeData True);
       case data of None \<Rightarrow> ret (ERROR_IME_NOT_STARTED, info)
       | Some d \<Rightarrow> do {
         r \<leftarrow> RequestIme E data NORMAL (core_ipc E d GetSoftKeyboardInfo_ipc);
         ret (if r \<noteq> NO_ERROR then ERROR_EX_ILLEGAL_STATE else NO_ERROR, info) } } }"

definition panel_shown :: "senv \<Rightarrow> (input_client_info \<Rightarrow> bool) \<Rightarrow> int \<Rightarrow> int \<Rightarrow> (int \<times> bool) sess" where
  "panel_shown E here panelType panelFlag = do {
     gc \<leftarrow> gets GetCurrentClientBoundRealIme;
     data \<leftarrow> gets (GetRealImeData True);
     case (gc, data) of
       (Some (_, ci), Some d) \<Rightarrow>
         if \<not> here ci then ret (NO_ERROR, False)
         else do {
           shown \<leftarrow> (case im_core d of None \<Rightarrow> ret False | Some k \<Rightarrow> ask E (QPanelShown k panelType panelFlag));
           r \<leftarrow> RequestIme E data NORMAL (core_ipc E d (IsPanelShown_ipc panelType panelFlag));
           ret (r, shown) }
     | _ \<Rightarrow> ret (NO_ERROR, False) }"

definition IsPanelShown_display :: "senv \<Rightarrow> u64 \<Rightarrow> int \<Rightarrow> int \<Rightarrow> (int \<times> bool) sess" where
  "IsPanelShown_display E displayId = panel_shown E (\<lambda>ci. ia_callingDisplayId (ci_attribute ci) = displayId)"

definition IsPanelShown_s :: "senv \<Rightarrow> int \<Rightarrow> int \<Rightarrow> (int \<times> bool) sess" where
  "IsPanelShown_s E = panel_shown E (\<lambda>ci. ia_displayGroupId (ci_attribute ci) = DEFAULT_DISPLAY_GROUP_ID)"

text \<open>The code and the display; the rest of the cursor comes from the client, unless it asks itself.\<close>

definition GetCursorInfo_s :: "senv \<Rightarrow> pid_t \<Rightarrow> (int \<times> u64 option) sess" where
  "GetCursorInfo_s E clientPid = do {
     gc \<leftarrow> gets GetCurrentClientBoundRealIme;
     case gc of None \<Rightarrow> ret (ERROR_CLIENT_NOT_FOUND, None)
     | Some (_, ci) \<Rightarrow> do {
       r \<leftarrow> (if clientPid \<noteq> ci_pid ci then (case ci_client ci of None \<Rightarrow> ret NO_ERROR
               | Some k \<Rightarrow> client_ipc E k GetCurrentCursorInfo_ipc) else ret NO_ERROR);
       ret (if r \<noteq> NO_ERROR then (r, None) else (NO_ERROR, Some (ia_callingDisplayId (ci_attribute ci)))) } }"

end
