(* ===== verification/Session_Proxy.thy ===== *)
theory Session_Proxy
  imports Session_Lifecycle
begin

text \<open>
  Proxy input methods, several per display and the last one in use, and the mirror input method
  (\<open>peruser_session.cpp\<close>): registering, preempting, unregistering. A vector of proxies is a list
  with \<open>back()\<close> at its end.
\<close>

section \<open>Proxies\<close>

definition put_proxies :: "u64 \<Rightarrow> ime_data list \<Rightarrow> unit sess" where
  "put_proxies displayId l = modify (\<lambda>s. s\<lparr>ss_proxy := omap_assign displayId l (ss_proxy s)\<rparr>)"

text \<open>The private overload: a new proxy is preferred, except that the very first preemption does not
  displace an enabled proxy by a disabled one.\<close>

definition AddProxyImeData_list :: "senv \<Rightarrow> u64 \<Rightarrow> ime_data list \<Rightarrow> ime_data \<Rightarrow> ime_data list sess" where
  "AddProxyImeData_list E displayId l d =
     (if l = [] then ret [d]
      else do {
        first \<leftarrow> gets ss_isFirstPreemption;
        if \<not> first then do {
          modify (\<lambda>s. s\<lparr>ss_isFirstPreemption := True\<rparr>);
          enOld \<leftarrow> gets (IsEnable E (Some (last l)) displayId);
          enNew \<leftarrow> gets (IsEnable E (Some d) displayId);
          ret (if enOld \<and> \<not> enNew then d # l else l @ [d]) }
        else ret (l @ [d]) })"

text \<open>\<open>proxyImeData_[displayId]\<close> creates an empty vector, which stays when filling in the data fails.\<close>

definition AddProxyImeData ::
    "senv \<Rightarrow> u64 \<Rightarrow> robj option \<Rightarrow> robj option \<Rightarrow> pid_t \<Rightarrow> pid_t \<Rightarrow> ime_data option sess" where
  "AddProxyImeData E displayId core agent pid uid =
     (if core = None \<or> agent = None then ret None
      else do {
        l \<leftarrow> gets (\<lambda>s. case map_of (ss_proxy s) displayId of None \<Rightarrow> [] | Some l \<Rightarrow> l);
        put_proxies displayId l;
        case List.find (\<lambda>d. im_pid d = pid) l of
          Some d \<Rightarrow> do { put_proxies displayId (erase_pid pid l @ [d]); ret (Some d) }
        | None \<Rightarrow> do {
            (r, d) \<leftarrow> FillImeData E core agent pid PROXY_IME new_ime_data uid;
            if r \<noteq> NO_ERROR then ret None
            else do {
              l' \<leftarrow> AddProxyImeData_list E displayId l d;
              put_proxies displayId l';
              ret (Some d) } } })"

definition RemoveProxyImeData :: "u64 \<Rightarrow> pid_t \<Rightarrow> int sess" where
  "RemoveProxyImeData displayId pid = do {
     ol \<leftarrow> gets (\<lambda>s. map_of (ss_proxy s) displayId);
     case ol of None \<Rightarrow> ret NO_ERROR
     | Some l \<Rightarrow> do {
       (case List.find (\<lambda>d. im_pid d = pid) l of None \<Rightarrow> ret () | Some d \<Rightarrow> drop_death d);
       (if erase_pid pid l = [] then modify (\<lambda>s. s\<lparr>ss_proxy := AList.delete displayId (ss_proxy s)\<rparr>)
        else put_proxies displayId (erase_pid pid l));
       ret NO_ERROR } }"

definition OnRegisterProxyIme ::
    "senv \<Rightarrow> u64 \<Rightarrow> robj option \<Rightarrow> robj option \<Rightarrow> pid_t \<Rightarrow> pid_t \<Rightarrow> int sess" where
  "OnRegisterProxyIme E displayId core agent pid uid = do {
     old \<leftarrow> gets (GetProxyImeData_display displayId);
     (case old of None \<Rightarrow> ret ()
      | Some d \<Rightarrow> when_do (im_core d \<noteq> None \<and> core \<noteq> None \<and> im_core d \<noteq> core)
                    (void (core_ipc E d NotifyPreemption_ipc)));
     new \<leftarrow> AddProxyImeData E displayId core agent pid uid;
     case new of None \<Rightarrow> ret ERROR_BAD_PARAMETERS
     | Some d \<Rightarrow> do {
       info \<leftarrow> gets (GetCurrentClientInfo_s E displayId);
       case info of None \<Rightarrow> ret NO_ERROR
       | Some (_, ci) \<Rightarrow> do {
         when_do (\<not> IsSameIme (ci_bindImeData ci) new)
           (UnBindClientWithIme E (Some ci) default_detach_options);
         BindClientWithIme E (Some ci) new False;
         ret NO_ERROR } } }"

text \<open>The step the two kinds of unregistering share.\<close>

definition unbind_proxy_client :: "senv \<Rightarrow> pid_t \<Rightarrow> (u64 \<times> input_client_info) option \<Rightarrow> unit sess" where
  "unbind_proxy_client E pid info = (case info of None \<Rightarrow> ret ()
     | Some (_, ci) \<Rightarrow> when_do (case ci_bindImeData ci of None \<Rightarrow> False | Some b \<Rightarrow> bd_pid b = pid)
         (UnBindClientWithIme E (Some ci) default_detach_options))"

definition OnUnregisterProxyIme :: "senv \<Rightarrow> u64 \<Rightarrow> pid_t \<Rightarrow> un_registered_type \<Rightarrow> int sess" where
  "OnUnregisterProxyIme E displayId pid type = (case type of
     REMOVE_PROXY_IME \<Rightarrow> do {
       info \<leftarrow> gets (GetCurrentClientInfo_s E displayId);
       unbind_proxy_client E pid info;
       RemoveProxyImeData displayId pid;
       ret NO_ERROR }
   | SWITCH_PROXY_IME_TO_IME \<Rightarrow> do {
       info \<leftarrow> gets (GetCurrentClientInfo_s E displayId);
       unbind_proxy_client E pid info;
       RemoveProxyImeData displayId pid;
       case info of None \<Rightarrow> ret NO_ERROR
       | Some (gid, ci) \<Rightarrow> do {
         r \<leftarrow> StartCurrentIme E False DEFAULT_START;
         if r \<noteq> NO_ERROR then ret r
         else do {
           data \<leftarrow> gets (GetRealImeData True);
           ci' \<leftarrow> gets (\<lambda>s. case client_of gid (ci_client ci) s of None \<Rightarrow> ci | Some c \<Rightarrow> c);
           BindClientWithIme E (Some ci') data False } } }
   | UNKNOWN_UNREGISTER n \<Rightarrow> ret ERROR_BAD_PARAMETERS)"

section \<open>The mirror\<close>

definition AddMirrorImeData :: "senv \<Rightarrow> robj option \<Rightarrow> robj option \<Rightarrow> pid_t \<Rightarrow> pid_t \<Rightarrow> ime_data option sess" where
  "AddMirrorImeData E core agent pid uid = do {
     (r, d) \<leftarrow> FillImeData E core agent pid IME_MIRROR new_ime_data uid;
     if r \<noteq> NO_ERROR then ret None
     else do { modify (\<lambda>s. s\<lparr>ss_mirror := Some d\<rparr>); ret (Some d) } }"

definition OnBindImeMirror :: "senv \<Rightarrow> robj option \<Rightarrow> robj option \<Rightarrow> pid_t \<Rightarrow> pid_t \<Rightarrow> int sess" where
  "OnBindImeMirror E core agent pid uid = do {
     info \<leftarrow> gets (GetCurrentClientInfo_s E DEFAULT_DISPLAY_ID);
     old \<leftarrow> gets ss_mirror;
     (case old of None \<Rightarrow> ret ()
      | Some d \<Rightarrow> when_do (im_pid d \<noteq> pid) (do {
          core_ipc E d NotifyPreemption_ipc;
          (case info of None \<Rightarrow> ret ()
           | Some (_, ci) \<Rightarrow> (case ci_client ci of None \<Rightarrow> ret ()
             | Some k \<Rightarrow> void (client_ipc E k (OnImeMirrorStop_ipc (im_agent d)))));
          RemoveMirrorImeData (im_pid d) }));
     if (case old of None \<Rightarrow> False | Some d \<Rightarrow> im_pid d = pid) then do {
       (case info of None \<Rightarrow> ret () | Some (_, ci) \<Rightarrow> void (BindClientWithIme E (Some ci) old False));
       ret NO_ERROR }
     else do {
       new \<leftarrow> AddMirrorImeData E core agent pid uid;
       case new of None \<Rightarrow> ret ERROR_BAD_PARAMETERS
       | Some d \<Rightarrow> do {
         (case info of None \<Rightarrow> ret () | Some (_, ci) \<Rightarrow> void (BindClientWithIme E (Some ci) new False));
         ret NO_ERROR } } }"

definition OnUnbindImeMirror :: "senv \<Rightarrow> pid_t \<Rightarrow> int sess" where
  "OnUnbindImeMirror E pid = do {
     mirror \<leftarrow> gets ss_mirror;
     case mirror of None \<Rightarrow> ret NO_ERROR
     | Some d \<Rightarrow>
       if im_pid d \<noteq> pid then ret NO_ERROR
       else do {
         info \<leftarrow> gets (GetCurrentClientInfo_s E DEFAULT_DISPLAY_ID);
         case info of None \<Rightarrow> do { RemoveMirrorImeData pid; ret NO_ERROR }
         | Some (_, ci) \<Rightarrow> do {
           (case ci_client ci of None \<Rightarrow> ret ()
            | Some k \<Rightarrow> void (client_ipc E k (OnImeMirrorStop_ipc (im_agent d))));
           StopImeInput E mirror (Some ci) 0 (- 1);
           RemoveMirrorImeData pid;
           ret NO_ERROR } } }"

end
