(* ===== verification/Session_Inv.thy ===== *)
theory Session_Inv
  imports Session_Groups Session_Proxy
begin

text \<open>
  The invariant of a session: the client groups are well formed, the data of each input method
  has the type of the slot it is in and is complete when it is ready, and the counters stay
  within their bounds. Every handler keeps it, provided that the threads that run while a
  handler waits keep it too.
\<close>

section \<open>Input methods and counters\<close>

definition complete :: "ime_data \<Rightarrow> bool" where
  "complete d \<longleftrightarrow> im_core d \<noteq> None \<and> im_agent d \<noteq> None"

definition real_ok :: "ime_data option \<Rightarrow> bool" where
  "real_ok r \<longleftrightarrow> (\<forall>d. r = Some d \<longrightarrow> im_type d = IME \<and> (im_status d = READY \<longrightarrow> complete d))"

definition mirror_ok :: "ime_data option \<Rightarrow> bool" where
  "mirror_ok m \<longleftrightarrow> (\<forall>d. m = Some d \<longrightarrow> im_type d = IME_MIRROR \<and> im_status d = READY \<and> complete d)"

definition proxies_ok :: "ime_data list \<Rightarrow> bool" where
  "proxies_ok l \<longleftrightarrow> distinct (map im_pid l) \<and>
     (\<forall>d \<in> set l. im_type d = PROXY_IME \<and> im_status d = READY \<and> complete d)"

definition proxy_ok :: "(u64 \<times> ime_data list) list \<Rightarrow> bool" where
  "proxy_ok m \<longleftrightarrow> omap_ok m \<and> (\<forall>k l. map_of m k = Some l \<longrightarrow> proxies_ok l)"

definition imes_ok :: "session \<Rightarrow> bool" where
  "imes_ok s \<longleftrightarrow> real_ok (ss_real s) \<and> mirror_ok (ss_mirror s) \<and> proxy_ok (ss_proxy s)"

definition counters_ok :: "session \<Rightarrow> bool" where
  "counters_ok s \<longleftrightarrow> ss_attachingCount s \<le> MAX_ATTACH_COUNT \<and> ss_scbStartCount s \<le> MAX_SCB_START_COUNT \<and>
     ss_restartTasks s \<le> MAX_RESTART_TASKS \<and> ss_waitAttachTimes s \<le> 20"

definition session_inv :: "session \<Rightarrow> bool" where
  "session_inv s \<longleftrightarrow> session_ok s \<and> imes_ok s \<and> counters_ok s"

text \<open>What the environment's threads promise while a handler waits.\<close>

definition env_ok :: "senv \<Rightarrow> bool" where
  "env_ok E \<longleftrightarrow> (\<forall>s. session_inv s \<longrightarrow> session_inv (e_interfere E s))"

section \<open>Client handlers do not touch them\<close>

definition strip :: "ime_data \<Rightarrow> ime_data" where
  "strip d = d\<lparr>im_stateManager := None, im_privateCommand := []\<rparr>"

definition other_view :: "session \<Rightarrow> ime_data option \<times> ime_data option \<times> (u64 \<times> ime_data list) list \<times> u32 \<times> u32 \<times> int \<times> u32" where
  "other_view s = (map_option strip (ss_real s), ss_mirror s, ss_proxy s, ss_attachingCount s, ss_scbStartCount s,
     ss_restartTasks s, ss_waitAttachTimes s)"

abbreviation other_frame :: "'a sess \<Rightarrow> bool" where
  "other_frame \<equiv> frames other_view"

lemma real_ok_strip: "real_ok (map_option strip r) = real_ok r"
  by (cases r) (simp_all add: real_ok_def strip_def complete_def)

lemma other_view_inv: "other_view s = other_view t \<Longrightarrow> imes_ok s \<and> counters_ok s \<longleftrightarrow> imes_ok t \<and> counters_ok t"
  unfolding imes_ok_def counters_ok_def other_view_def by (metis prod.inject real_ok_strip)

lemma other_frame_inv:
  assumes "other_frame m" "preserves session_ok m"
  shows "preserves session_inv m"
  using assms other_view_inv unfolding preserves_def frames_def session_inv_def by meson

lemma other_view_quiet_view: "other_view (quiet_view s) = other_view s"
  by (simp add: other_view_def quiet_view_def option.map_comp comp_def strip_def [abs_def])

lemma quiet_other: "quiet m \<Longrightarrow> other_frame m"
  unfolding frames_def using other_view_quiet_view by metis

lemma quiet_inv: "quiet m \<Longrightarrow> preserves session_inv m"
  by (rule other_frame_inv [OF quiet_other quiet_session_ok])

lemmas other_quiets [frame_intros] = quiet_other [OF quiet_emit] quiet_other [OF quiet_call]
  quiet_other [OF quiet_ask(1)] quiet_other [OF quiet_ask(2)] quiet_other [OF quiet_ask_ime_to_start]
  quiet_other [OF quiet_core_ipc] quiet_other [OF quiet_client_ipc]
  quiet_other [OF quiet_RestoreSubType] quiet_other [OF quiet_NotifyInputStop]
  quiet_other [OF quiet_StopClientInput] quiet_other [OF quiet_StopImeInput]
  quiet_other [OF quiet_UnBindClientWithIme] quiet_other [OF quiet_NotifySubType]
  quiet_other [OF quiet_SendPrivateData] quiet_other [OF quiet_SetInputType]
  quiet_other [OF quiet_PostHook] quiet_other [OF quiet_SendAllReady]
  quiet_other [OF quiet_RequestIme [OF quiet_core_ipc]]
  quiet_other [OF quiet_RequestIme [OF frames_bind [OF quiet_core_ipc frames_return]]]
  quiet_other [OF quiet_RequestAllIme [OF quiet_core_ipc]]
  quiet_other [OF quiet_RequestAllIme [OF frames_bind [OF quiet_core_ipc frames_return]]]

lemma other_upd_group [frame_intros]: "other_frame (upd_group gid f)"
  by (simp add: frames_def upd_group_def other_view_def)

lemma other_upd_client [frame_intros]: "other_frame (upd_client gid c f)"
  unfolding upd_client_def by (intro frame_intros)

lemma other_remove_client_info [frame_intros]: "other_frame (remove_client_info gid c)"
  unfolding remove_client_info_def by (intro frame_intros)

lemma other_add_group [frame_intros]: "other_frame (modify (\<lambda>s. s\<lparr>ss_groups := f s\<rparr>))"
  by (simp add: frames_def other_view_def)

lemma other_client_ops [frame_intros]:
  "other_frame (HideKeyboard E c gid)" "other_frame (ShowKeyboard E c gid r)"
  "other_frame (RemoveClient E c gid op)" "other_frame (DeactivateClient E c gid)"
  "other_frame (HandleInMultiGroup E new old b)"
  unfolding HideKeyboard_def ShowKeyboard_def RemoveClient_def DeactivateClient_def HandleInMultiGroup_def
  by (intro frame_intros)+

lemma other_client_ops2 [frame_intros]:
  "other_frame (HandleSameImeInMultiGroup E new d)" "other_frame (HandleRealImeInMultiGroup E new d)"
  "other_frame (HandleSameClientInMultiGroup E new)" "other_frame (AddClientInfo_s E c ci)"
  "other_frame (ReplaceCurrentClient E c gid)" "other_frame (HandleBindImeChanged E new d gid)"
  "other_frame (RequestHideRealIme E gid)" "other_frame (RequestHideProxyIme E displayId)"
  "other_frame (UpdateClientAfterRequestHide E gid b)" "other_frame (remove_current E gid)"
  unfolding HandleSameImeInMultiGroup_def HandleRealImeInMultiGroup_def HandleSameClientInMultiGroup_def
    AddClientInfo_s_def ReplaceCurrentClient_def HandleBindImeChanged_def RequestHideRealIme_def
    RequestHideProxyIme_def UpdateClientAfterRequestHide_def remove_current_def
  by (intro frame_intros)+

lemma other_bind [frame_intros]: "other_frame (BindClientWithIme E ci d b)"
  unfolding BindClientWithIme_def by (intro frame_intros)

lemma inv_client_handlers [pres_intros]:
  "preserves session_inv (OnHideCurrentInput E gid)" "preserves session_inv (OnShowCurrentInput E gid)"
  "preserves session_inv (OnShowCurrentInputInTargetDisplay E displayId)"
  "preserves session_inv (OnHideCurrentInputInTargetDisplay E displayId)"
  "preserves session_inv (OnHideInput E c)" "preserves session_inv (OnShowInput E c r)"
  "preserves session_inv (OnHideSoftKeyBoardSelf E)" "preserves session_inv (OnClientDied E c)"
  "preserves session_inv (OnReleaseInput E c sid csid)" "preserves session_inv (OnRequestHideInput E displayId bn)"
  "preserves session_inv (OnPrepareInput E ci)" "preserves session_inv (OnStartInput E ci)"
  "preserves session_inv (OnFocused E displayId p u)" "preserves session_inv (OnUnfocused E displayId p u)"
  "preserves session_inv (RemoveAllCurrentClient E)" "preserves session_inv (OnSetCallingWindow E fi c w)"
  "preserves session_inv (OnWindowDisplayIdChanged E w displayId)"
  by (rule other_frame_inv, (unfold OnHideCurrentInput_def OnShowCurrentInput_def OnShowCurrentInputInTargetDisplay_def
      OnHideCurrentInputInTargetDisplay_def OnHideInput_def OnShowInput_def OnHideSoftKeyBoardSelf_def
      OnClientDied_def OnReleaseInput_def OnRequestHideInput_def OnPrepareInput_def OnStartInput_def
      OnFocused_def OnUnfocused_def RemoveAllCurrentClient_def OnSetCallingWindow_def
      OnWindowDisplayIdChanged_def HandleWindowIdChanged_def NotifyCallingWindowIdChanged_def
      NotifyCallingDisplayChanged_def, intro frame_intros)[],
      intro preserves_show_hide preserves_HideSelf preserves_OnClientDied preserves_OnReleaseInput
        preserves_OnRequestHideInput preserves_OnPrepareInput preserves_OnStartInput preserves_focus
        preserves_RemoveAllCurrentClient preserves_window)+

section \<open>The life cycle keeps the invariant\<close>

lemmas inv_quiets [pres_intros] = quiet_inv [OF quiet_emit] quiet_inv [OF quiet_call]
  quiet_inv [OF quiet_ask(1)] quiet_inv [OF quiet_ask(2)] quiet_inv [OF quiet_ask_ime_to_start] quiet_inv [OF quiet_upd_itm]
  quiet_inv [OF quiet_itm_query] quiet_inv [OF quiet_core_ipc] quiet_inv [OF quiet_client_ipc]
  quiet_inv [OF quiet_NotifyInputStop] quiet_inv [OF quiet_StopClientInput] quiet_inv [OF quiet_StopImeInput]
  quiet_inv [OF quiet_UnBindClientWithIme] quiet_inv [OF quiet_NotifySubType]
  quiet_inv [OF quiet_SendPrivateData]
  quiet_inv [OF quiet_RequestIme [OF quiet_core_ipc]]
  quiet_inv [OF quiet_RequestAllIme [OF quiet_core_ipc]]

lemma inv_bind [pres_intros]: "preserves session_inv (BindClientWithIme E ci d b)"
  by (rule other_frame_inv [OF other_bind preserves_BindClientWithIme])

lemma inv_clear_reason [pres_intros]: "preserves session_inv (ClearRequestKeyboardReason gid c)"
  unfolding ClearRequestKeyboardReason_def
  by (rule other_frame_inv [OF other_upd_client preserves_upd_client]) simp_all

lemma inv_wait [pres_intros]: "env_ok E \<Longrightarrow> preserves session_inv (wait_for E ms)"
  unfolding wait_for_def by (intro pres_intros preserves_modify) (simp add: env_ok_def)

lemma inv_BlockRetry [pres_intros]:
  "env_ok E \<Longrightarrow> preserves session_inv f \<Longrightarrow> preserves session_inv (BlockRetry E i n f)"
proof (induction E i n f rule: BlockRetry.induct)
  case (1 E interval func)
  then show ?case by (simp, intro pres_intros)
next
  case (2 E interval n func)
  have "preserves session_inv (BlockRetry E interval n func)" if "n \<noteq> 0" using 2 that by blast
  with 2(2,3) show ?case unfolding BlockRetry.simps(2) by (intro preserves_bind preserves_if inv_wait) simp_all
qed

text \<open>Changes of fields the invariant does not mention.\<close>

lemma inv_modify_other [pres_intros]:
  "preserves session_inv (modify (\<lambda>s. s\<lparr>ss_isSwitching := b1\<rparr>))"
  "preserves session_inv (modify (\<lambda>s. s\<lparr>ss_isImeStarted := b1\<rparr>))"
  "preserves session_inv (modify (\<lambda>s. s\<lparr>ss_runningIme := rn\<rparr>))"
  "preserves session_inv (modify (\<lambda>s. s\<lparr>ss_firstStartNeedRetry := b1\<rparr>))"
  "preserves session_inv (modify (\<lambda>s. s\<lparr>ss_runningIme := rn, ss_firstStartNeedRetry := b1\<rparr>))"
  "preserves session_inv (modify (\<lambda>s. s\<lparr>ss_isBlockStartedByLowMem := b1\<rparr>))"
  "preserves session_inv (modify (\<lambda>s. s\<lparr>ss_disconnectedByRss := b1\<rparr>))"
  "preserves session_inv (modify (\<lambda>s. s\<lparr>ss_restartDelay := i\<rparr>))"
  "preserves session_inv (modify (\<lambda>s. s\<lparr>ss_imeUsedBeforeScreenLocked := pr\<rparr>))"
  "preserves session_inv (modify (\<lambda>s. s\<lparr>ss_largeMemoryState := i\<rparr>))"
  "preserves session_inv (modify (\<lambda>s. s\<lparr>ss_isFirstPreemption := b1\<rparr>))"
  "preserves session_inv (modify (\<lambda>s. s\<lparr>ss_managers := f s\<rparr>))"
  by (rule preserves_modify, simp add: session_inv_def session_ok_def imes_ok_def counters_ok_def)+

lemma inv_modify_real:
  "(\<And>s. session_inv s \<Longrightarrow> real_ok (f s)) \<Longrightarrow> preserves session_inv (modify (\<lambda>s. s\<lparr>ss_real := f s\<rparr>))"
  by (rule preserves_modify) (simp add: session_inv_def session_ok_def imes_ok_def counters_ok_def)

lemma inv_modify_mirror:
  "mirror_ok m \<Longrightarrow> preserves session_inv (modify (\<lambda>s. s\<lparr>ss_mirror := m\<rparr>))"
  by (rule preserves_modify) (simp add: session_inv_def session_ok_def imes_ok_def counters_ok_def)

lemma inv_modify_proxy:
  "(\<And>s. session_inv s \<Longrightarrow> proxy_ok (f s)) \<Longrightarrow> preserves session_inv (modify (\<lambda>s. s\<lparr>ss_proxy := f s\<rparr>))"
  by (rule preserves_modify) (simp add: session_inv_def session_ok_def imes_ok_def counters_ok_def)

lemma inv_drop_death [pres_intros]: "preserves session_inv (drop_death d)"
  unfolding drop_death_def by (intro pres_intros)

lemma erase_pid_subset: "set (erase_pid p l) \<subseteq> set l"
  by (induction l) auto

lemma proxies_ok_erase: "proxies_ok l \<Longrightarrow> proxies_ok (erase_pid p l)"
proof -
  have "distinct (map im_pid l) \<Longrightarrow> distinct (map im_pid (erase_pid p l))"
    by (induction l) (use erase_pid_subset in fastforce)+
  then show "proxies_ok l \<Longrightarrow> proxies_ok (erase_pid p l)"
    using erase_pid_subset by (fastforce simp: proxies_ok_def)
qed

lemma erase_proxy_keys: "fst ` set (erase_proxy p m) \<subseteq> fst ` set m"
  by (induction p m rule: erase_proxy.induct) auto

lemma map_of_erase_proxy:
  "distinct (map fst m) \<Longrightarrow> map_of (erase_proxy p m) k = (case map_of m k of None \<Rightarrow> None
     | Some l \<Rightarrow> if erase_pid p l = [] then None else Some (erase_pid p l))"
proof (induction p m rule: erase_proxy.induct)
  case (2 p k' l m)
  moreover have "k' \<notin> fst ` set (erase_proxy p m)" using 2(3) erase_proxy_keys [of p m] by auto
  ultimately show ?case by (auto simp: map_of_eq_None_iff split: option.splits)
qed simp

lemma omap_ok_erase_proxy: "omap_ok m \<Longrightarrow> omap_ok (erase_proxy p m)"
proof (induction p m rule: erase_proxy.induct)
  case (2 p k l m)
  then have "\<forall>k' \<in> fst ` set (erase_proxy p m). k < k'"
    using erase_proxy_keys [of p m] unfolding omap_ok_Cons by blast
  with 2 show ?case by (auto split: if_splits)
qed simp

lemma proxy_ok_erase: "proxy_ok m \<Longrightarrow> proxy_ok (erase_proxy p m)"
  unfolding proxy_ok_def
  by (auto simp: omap_ok_erase_proxy map_of_erase_proxy omap_ok_distinct proxies_ok_erase split: option.splits if_splits)

lemma inv_remove_data [pres_intros]:
  "preserves session_inv RemoveRealImeData" "preserves session_inv (RemoveRealImeData_pid p)"
  "preserves session_inv (RemoveMirrorImeData p)" "preserves session_inv (RemoveProxyImeData_pid p)"
  unfolding RemoveRealImeData_def RemoveRealImeData_pid_def RemoveMirrorImeData_def RemoveProxyImeData_pid_def
  by (intro pres_intros inv_modify_real inv_modify_mirror inv_modify_proxy;
      simp add: real_ok_def mirror_ok_def session_inv_def imes_ok_def proxy_ok_erase)+

lemma inv_RemoveImeData [pres_intros]: "preserves session_inv (RemoveImeData p)"
  unfolding RemoveImeData_def by (intro pres_intros)

lemma converter_ready:
  "imeEventConverter (st, ev) = Some (st', act) \<Longrightarrow> st' = READY \<longleftrightarrow> st = READY \<and> ev \<noteq> STOP_IME \<or> st = STARTING \<and> ev = SET_CORE_AND_AGENT"
  by (cases st; cases ev; auto simp: imeEventConverter_def)

lemma GetImeAction_inv:
  assumes "session_inv s" "ev = SET_CORE_AND_AGENT \<Longrightarrow> \<forall>d. ss_real s = Some d \<longrightarrow> complete d"
  shows "wp (GetImeAction ev) (\<lambda>_. session_inv) s"
  using assms converter_ready
  by (fastforce simp: GetImeAction_def wp_simps session_inv_def session_ok_def imes_ok_def counters_ok_def
      real_ok_def complete_def split: option.splits prod.splits)

lemma inv_GetImeAction [pres_intros]: "ev \<noteq> SET_CORE_AND_AGENT \<Longrightarrow> preserves session_inv (GetImeAction ev)"
  by (rule preservesI, rule GetImeAction_inv) auto

lemma quiet_FillImeData: "quiet (FillImeData E core agent pid type d uid)"
  unfolding FillImeData_def by (intro frame_intros)

lemma FillImeData_spec:
  assumes "core \<noteq> None" "agent \<noteq> None"
  shows "wp (FillImeData E core agent pid type d uid) (\<lambda>r t. complete (snd r) \<and> im_type (snd r) = type \<and>
     im_pid (snd r) = pid \<and> im_status (snd r) = (if type \<noteq> IME then READY else im_status d)) s"
  using assms
  by (auto simp: FillImeData_def Let_def wp_simps ask_def emit_def complete_def)

lemma FillImeData_inv:
  assumes "session_inv s" "core \<noteq> None" "agent \<noteq> None"
    "\<And>r t. session_inv t \<Longrightarrow> complete (snd r) \<Longrightarrow> im_type (snd r) = type \<Longrightarrow> im_pid (snd r) = pid \<Longrightarrow>
       im_status (snd r) = (if type \<noteq> IME then READY else im_status d) \<Longrightarrow> other_view t = other_view s \<Longrightarrow> Q r t"
  shows "wp (FillImeData E core agent pid type d uid) Q s"
proof -
  have "wp (FillImeData E core agent pid type d uid) (\<lambda>r t. session_inv t \<and> other_view t = other_view s) s"
    using quiet_inv [OF quiet_FillImeData, of E core agent pid type d uid]
      frames_run [OF quiet_other [OF quiet_FillImeData], of E core agent pid type d uid s] assms(1)
    by (simp add: wp_run preserves_def)
  from wp_conj [OF this FillImeData_spec [OF assms(2,3)]] show ?thesis
    by (rule wp_conseq) (use assms(4) in blast)
qed

lemma UpdateRealImeData_inv:
  assumes "session_inv s" "\<And>r t. session_inv t \<Longrightarrow>
      (r \<noteq> None \<Longrightarrow> \<forall>d. ss_real t = Some d \<longrightarrow> complete d) \<Longrightarrow> Q r t"
  shows "wp (UpdateRealImeData E core agent pid uid) Q s"
proof (cases "core = None \<or> agent = None \<or> ss_real s = None")
  case True
  then show ?thesis using assms by (auto simp: UpdateRealImeData_def wp_simps)
next
  case False
  then obtain d where d: "ss_real s = Some d" "core \<noteq> None" "agent \<noteq> None" by auto
  with assms(1) have "im_type d = IME" by (simp add: session_inv_def imes_ok_def real_ok_def)
  have upd: "session_inv (t\<lparr>ss_real := Some d'\<rparr>)"
    if "session_inv t" "complete d'" "im_type d' = IME" for t d'
    using that by (simp add: session_inv_def session_ok_def imes_ok_def counters_ok_def real_ok_def)
  have "wp (FillImeData E core agent pid IME d uid) (\<lambda>r. wp (case r of (r, d') \<Rightarrow> do {
      modify (\<lambda>s. s\<lparr>ss_real := Some d'\<rparr>); ret (if r \<noteq> NO_ERROR then None else Some d') }) Q) s"
    by (rule FillImeData_inv [OF assms(1) d(2,3)]) (auto simp: wp_simps upd intro!: assms(2) split: prod.splits)
  with d show ?thesis by (auto simp: UpdateRealImeData_def wp_simps)
qed

lemma inv_StartInput_parts [pres_intros]:
  "preserves session_inv (ChangeToDefaultImeIfNeed E i)" "preserves session_inv (InitRealImeData E im c)"
  unfolding ChangeToDefaultImeIfNeed_def InitRealImeData_def
  by (intro pres_intros inv_modify_real; simp add: real_ok_def new_ime_data_def)+

lemma inv_StartInputService [pres_intros]: "env_ok E \<Longrightarrow> preserves session_inv (StartInputService E i b)"
  unfolding StartInputService_def by (intro pres_intros)

lemma inv_waits [pres_intros]:
  "env_ok E \<Longrightarrow> preserves session_inv (WaitForCurrentImeStop E)" "preserves session_inv NotifyImeStopFinished"
  "env_ok E \<Longrightarrow> preserves session_inv (WaitImeExtExit E ty p)"
  unfolding WaitForCurrentImeStop_def NotifyImeStopFinished_def WaitImeExtExit_def
  by (intro pres_intros | assumption)+

lemma inv_stop [pres_intros]:
  assumes "env_ok E"
  shows "preserves session_inv (ForceStopCurrentIme E b)" "preserves session_inv (StopReadyCurrentIme E)"
    "preserves session_inv (StopCurrentIme E)"
proof -
  show 1: "preserves session_inv (ForceStopCurrentIme E b)" for b
    unfolding ForceStopCurrentIme_def using assms by (intro pres_intros)
  show 2: "preserves session_inv (StopReadyCurrentIme E)"
    unfolding StopReadyCurrentIme_def using assms by (intro pres_intros 1)
  show "preserves session_inv (StopCurrentIme E)"
    unfolding StopCurrentIme_def by (intro pres_intros 1 2) simp
qed

lemma inv_start [pres_intros]:
  assumes "env_ok E"
  shows "preserves session_inv (StartIme E i b)"
  unfolding StartIme_def StartNewIme_def StartCurrentIme_ime_def HandleStartImeTimeout_def HandleFirstStart_def
  using assms by (intro pres_intros) simp_all

lemma inv_which [pres_intros]:
  "preserves session_inv (GetRealCurrentIme E b)" "preserves session_inv (NotifyImeChangedToClients E)"
  unfolding GetRealCurrentIme_def GetInputTypeToStart_def client_ime_def NotifyImeChangedToClients_def
  by (intro pres_intros)+

lemma inv_start_entries [pres_intros]:
  assumes "env_ok E"
  shows "preserves session_inv (StartCurrentIme E b r)" "preserves session_inv (StartUserSpecifiedIme E)"
    "preserves session_inv (StartPreconfiguredDefaultIme E c b)"
  unfolding StartCurrentIme_def StartUserSpecifiedIme_def StartPreconfiguredDefaultIme_def
  by (intro pres_intros assms)+

lemma inv_special [pres_intros]: "env_ok E \<Longrightarrow> preserves session_inv (SpecialSendPrivateData E c)"
  unfolding SpecialSendPrivateData_def by (intro pres_intros)

lemma word_dec_le: "n \<le> m \<Longrightarrow> n \<noteq> 0 \<Longrightarrow> n - 1 \<le> (m :: u32)"
  by unat_arith

lemma inv_counters [pres_intros]:
  "preserves session_inv IncreaseAttachCount" "preserves session_inv DecreaseAttachCount"
  "preserves session_inv IncreaseScbStartCount" "preserves session_inv ResetRestartTasks"
  "preserves session_inv IsAttachFinished" "preserves session_inv (CompareExchange v)"
  unfolding IncreaseAttachCount_def DecreaseAttachCount_def IncreaseScbStartCount_def ResetRestartTasks_def
    IsAttachFinished_def CompareExchange_def preserves_wp
  by (auto simp: wp_simps session_inv_def session_ok_def imes_ok_def counters_ok_def inc_le word_dec_le not_le)

lemma inv_OverLimit [pres_intros]: "preserves session_inv (IsRequestOverLimit E t a b)"
  unfolding IsRequestOverLimit_def by (intro pres_intros)

lemma inv_RestartIme [pres_intros]: "preserves session_inv (RestartIme E)"
  unfolding RestartIme_def by (intro pres_intros)

lemma inv_images [pres_intros]:
  "preserves session_inv (MakeImage E b x)" "preserves session_inv (NeedStartIme E sc)"
  "preserves session_inv (StopImageTimeoutTask E)"
  unfolding MakeImage_def NeedMakeImage_def NeedStartIme_def StartImageTimeoutTask_def StopImageTimeoutTask_def
  by (intro pres_intros)+

lemma inv_died_parts [pres_intros]:
  assumes "env_ok E"
  shows "preserves session_inv (StartImeIfInstalled E r)" "preserves session_inv (StartImeInImeDied E)"
    "preserves session_inv (HandleSysImeInDied E ty b)"
proof -
  show 1: "preserves session_inv (StartImeIfInstalled E r)" for r
    unfolding StartImeIfInstalled_def by (intro pres_intros assms)
  show 2: "preserves session_inv (StartImeInImeDied E)"
    unfolding StartImeInImeDied_def by (intro pres_intros 1)
  show "preserves session_inv (HandleSysImeInDied E ty b)"
    unfolding HandleSysImeInDied_def by (intro pres_intros 2)
qed

lemma inv_InitChannel [pres_intros]: "preserves session_inv (InitInputControlChannel E)"
  unfolding InitInputControlChannel_def by (intro pres_intros)

lemma inv_OnSetCoreAndAgent: "preserves session_inv (OnSetCoreAndAgent E core agent pid uid)"
proof (rule preservesI)
  fix s assume s: "session_inv s"
  have rest: "preserves session_inv (if action = DO_NOTHING then ret NO_ERROR
       else if action \<noteq> DO_SET_CORE_AND_AGENT then ret ERROR_IME
       else do {
         InitInputControlChannel E;
         needBind \<leftarrow> gets (\<lambda>s. GetAttachCount s = 0 \<and> \<not> ss_attachFailedByUnavailableIme s);
         gc \<leftarrow> gets GetCurrentClientBoundRealIme;
         when_do needBind (case gc of None \<Rightarrow> ret ()
           | Some (gid, ci) \<Rightarrow> do {
             ClearRequestKeyboardReason gid (ci_client ci);
             ci' \<leftarrow> gets (client_of gid (ci_client ci));
             void (BindClientWithIme E ci' data False) });
         modify (\<lambda>s. s\<lparr>ss_isImeStarted := True\<rparr>);
         ret NO_ERROR })" for action data
    by (intro pres_intros)
  show "wp (OnSetCoreAndAgent E core agent pid uid) (\<lambda>_. session_inv) s"
    unfolding OnSetCoreAndAgent_def wp_bind
  proof (rule UpdateRealImeData_inv [OF s], goal_cases)
    case (1 r t)
    show ?case
    proof (cases r)
      case (Some d)
      have "wp (GetImeAction SET_CORE_AND_AGENT) (\<lambda>_. session_inv) t"
        using 1 Some by (intro GetImeAction_inv) auto
      then show ?thesis unfolding Some option.case wp_bind
        by (rule wp_conseq) (rule preservesD [OF rest])
    qed (simp add: wp_return 1)
  qed
qed

lemma inv_lifecycle:
  assumes "env_ok E"
  shows "preserves session_inv (OnImeDied E core ty p)" "preserves session_inv (OnScbStopped E)"
    "preserves session_inv (OnScreenUnlock E)" "preserves session_inv OnScreenLock"
    "preserves session_inv (OnPackageUpdated E b)" "preserves session_inv (UpdateLargeMemorySceneState E v)"
    "preserves session_inv (TryStartIme E)" "preserves session_inv (OnSysImeImageCreated E)"
    "preserves session_inv (OnMakeSysImeImage E)" "preserves session_inv (TryDisconnectIme E)"
    "preserves session_inv (ExecTextInteraction E txt)"
  unfolding OnImeDied_def OnScbStopped_def OnScreenUnlock_def OnScreenLock_def OnPackageUpdated_def
    UpdateLargeMemorySceneState_def TryStartIme_def OnSysImeImageCreated_def StartImeInSysImageChanged_def
    OnMakeSysImeImage_def TryDisconnectIme_def ExecTextInteraction_def
  by (intro pres_intros assms)+

lemma inv_tasks:
  assumes "env_ok E"
  shows "preserves session_inv (restart_task E)" "preserves session_inv (OnScbStarted E b)"
proof -
  have dec: "preserves session_inv (modify (\<lambda>s. s\<lparr>ss_restartTasks := ss_restartTasks s - 1\<rparr>))"
    by (rule preserves_modify) (simp add: session_inv_def session_ok_def imes_ok_def counters_ok_def)
  have inc: "preserves session_inv (modify (\<lambda>s. s\<lparr>ss_restartTasks := max n 0 + 1\<rparr>))"
    if "\<not> MAX_RESTART_TASKS \<le> n" for n
    using that by (intro preserves_modify) (simp add: session_inv_def session_ok_def imes_ok_def counters_ok_def)
  show "preserves session_inv (restart_task E)"
    unfolding restart_task_def by (intro pres_intros assms dec)
  show "preserves session_inv (OnScbStarted E b)"
    unfolding OnScbStarted_def AddRestartIme_def by (intro pres_intros assms inc)
qed

section \<open>Proxies and mirror keep the invariant\<close>

lemma proxy_ok_assign: "proxy_ok m \<Longrightarrow> proxies_ok l \<Longrightarrow> proxy_ok (omap_assign k l m)"
  by (auto simp: proxy_ok_def map_of_omap_assign)

lemma inv_put_proxies: "proxies_ok l \<Longrightarrow> preserves session_inv (put_proxies k l)"
  unfolding put_proxies_def
  by (rule inv_modify_proxy) (simp add: proxy_ok_assign session_inv_def imes_ok_def)

lemma session_inv_proxies:
  "session_inv s \<Longrightarrow> proxies_ok (case map_of (ss_proxy s) k of None \<Rightarrow> [] | Some l \<Rightarrow> l)"
  by (auto simp: session_inv_def imes_ok_def proxy_ok_def proxies_ok_def split: option.split)

lemma erase_pid_absent: "distinct (map im_pid l) \<Longrightarrow> d \<in> set (erase_pid p l) \<Longrightarrow> im_pid d \<noteq> p"
  by (induction l) (force split: if_splits)+

lemma proxies_ok_again:
  "proxies_ok l \<Longrightarrow> List.find (\<lambda>d. im_pid d = p) l = Some d \<Longrightarrow> proxies_ok (erase_pid p l @ [d])"
  using proxies_ok_erase [of l p]
  by (auto simp: proxies_ok_def dest!: find_SomeD dest: erase_pid_absent)

lemma proxies_ok_new:
  assumes "proxies_ok l" "List.find (\<lambda>d. im_pid d = p) l = None" "im_pid d = p" "im_type d = PROXY_IME"
    "im_status d = READY" "complete d"
  shows "proxies_ok (d # l)" "proxies_ok (l @ [d])"
  using assms by (auto simp: proxies_ok_def find_None_iff)

lemma wp_AddProxyImeData_list:
  assumes "session_inv s" "\<And>l' t. session_inv t \<Longrightarrow> l' \<in> {d # l, l @ [d]} \<Longrightarrow> Q l' t"
  shows "wp (AddProxyImeData_list E k l d) Q s"
  using assms
  by (auto simp: AddProxyImeData_list_def wp_simps session_inv_def session_ok_def imes_ok_def counters_ok_def
      intro!: assms(2))

lemma inv_AddProxyImeData [pres_intros]: "preserves session_inv (AddProxyImeData E k core agent pid uid)"
proof (rule preservesI)
  fix s assume s: "session_inv s"
  let ?l = "case map_of (ss_proxy s) k of None \<Rightarrow> [] | Some l \<Rightarrow> l"
  have l: "proxies_ok ?l" by (rule session_inv_proxies [OF s])
  have put: "wp (put_proxies k l) (\<lambda>_. session_inv) t" if "proxies_ok l" "session_inv t" for l t
    using preservesD [OF inv_put_proxies] that by blast
  show "wp (AddProxyImeData E k core agent pid uid) (\<lambda>_. session_inv) s"
  proof (cases "core = None \<or> agent = None")
    case True
    then show ?thesis using s by (auto simp: AddProxyImeData_def wp_simps)
  next
    case False
    then have ca: "core \<noteq> None" "agent \<noteq> None" by auto
    have new: "wp (do {
            (r, d) \<leftarrow> FillImeData E core agent pid PROXY_IME new_ime_data uid;
            if r \<noteq> NO_ERROR then ret None
            else do {
              l' \<leftarrow> AddProxyImeData_list E k ?l d;
              put_proxies k l';
              ret (Some d) } }) (\<lambda>_. session_inv) t"
      if t: "session_inv t" and none: "List.find (\<lambda>d. im_pid d = pid) ?l = None" for t
      unfolding wp_bind
    proof (rule FillImeData_inv [OF t ca], goal_cases)
      case (1 r u)
      obtain e d where r: "r = (e, d)" by (cases r)
      have "proxies_ok l'" if "l' \<in> {d # ?l, ?l @ [d]}" for l'
        using that proxies_ok_new [OF l none] 1 r by auto
      then show ?case using 1 r
        by (auto simp: wp_bind wp_return intro!: wp_AddProxyImeData_list wp_conseq [OF put])
    qed
    have again: "wp (do { put_proxies k (erase_pid pid ?l @ [d]); ret (Some d) }) (\<lambda>_. session_inv) t"
      if "session_inv t" "List.find (\<lambda>d. im_pid d = pid) ?l = Some d" for t d
      unfolding wp_bind wp_return by (rule wp_conseq [OF put [OF proxies_ok_again [OF l that(2)] that(1)]])
    show ?thesis
      unfolding AddProxyImeData_def if_not_P [OF False] wp_bind wp_gets
      by (rule wp_conseq [OF put [OF l s]], cases "List.find (\<lambda>d. im_pid d = pid) ?l")
        (simp_all only: option.case new again)
  qed
qed

lemma inv_RemoveProxyImeData [pres_intros]: "preserves session_inv (RemoveProxyImeData k pid)"
proof (rule preservesI)
  fix s assume s: "session_inv s"
  show "wp (RemoveProxyImeData k pid) (\<lambda>_. session_inv) s"
  proof (cases "map_of (ss_proxy s) k")
    case (Some l)
    with s have l: "proxies_ok (erase_pid pid l)"
      by (auto intro!: proxies_ok_erase simp: session_inv_def imes_ok_def proxy_ok_def)
    have "preserves session_inv (do {
       (case List.find (\<lambda>d. im_pid d = pid) l of None \<Rightarrow> ret () | Some d \<Rightarrow> drop_death d);
       (if erase_pid pid l = [] then modify (\<lambda>s. s\<lparr>ss_proxy := AList.delete k (ss_proxy s)\<rparr>)
        else put_proxies k (erase_pid pid l));
       ret NO_ERROR })"
      by (intro pres_intros inv_put_proxies [OF l] inv_modify_proxy)
        (auto simp: session_inv_def imes_ok_def proxy_ok_def AList.delete_conv split: if_splits)
    from preservesD [OF this s] Some show ?thesis
      by (simp only: RemoveProxyImeData_def wp_bind [of "gets f" for f] wp_gets option.case)
  qed (simp add: RemoveProxyImeData_def wp_simps s)
qed

lemma inv_AddMirrorImeData [pres_intros]: "preserves session_inv (AddMirrorImeData E core agent pid uid)"
proof (rule preservesI)
  fix s assume s: "session_inv s"
  have upd: "session_inv (t\<lparr>ss_mirror := Some d\<rparr>)"
    if "session_inv t" "complete d" "im_type d = IME_MIRROR" "im_status d = READY" for t d
    using that by (simp add: session_inv_def session_ok_def imes_ok_def counters_ok_def mirror_ok_def)
  show "wp (AddMirrorImeData E core agent pid uid) (\<lambda>_. session_inv) s"
  proof (cases "core = None \<or> agent = None")
    case True
    then show ?thesis using s by (auto simp: AddMirrorImeData_def FillImeData_def wp_simps split: option.splits)
  next
    case False
    then have ca: "core \<noteq> None" "agent \<noteq> None" by auto
    show ?thesis unfolding AddMirrorImeData_def wp_bind
      by (rule FillImeData_inv [OF s ca]) (auto simp: wp_simps upd split: prod.splits)
  qed
qed

lemma inv_proxy:
  assumes "env_ok E"
  shows "preserves session_inv (OnRegisterProxyIme E k core agent pid uid)"
    "preserves session_inv (OnUnregisterProxyIme E k pid ty)"
    "preserves session_inv (OnBindImeMirror E core agent pid uid)" "preserves session_inv (OnUnbindImeMirror E pid)"
proof -
  show "preserves session_inv (OnUnregisterProxyIme E k pid ty)"
    unfolding OnUnregisterProxyIme_def unbind_proxy_client_def
    by (cases ty; simp only: un_registered_type.case; intro pres_intros assms)
qed (unfold OnRegisterProxyIme_def OnBindImeMirror_def OnUnbindImeMirror_def, (intro pres_intros)+)

end
