(* ===== verification/Session_Machine.thy ===== *)
theory Session_Machine
  imports Session_Inv
begin

text \<open>
  A session as a state machine: it starts empty and serves requests, one after the other, each
  by the handler of \<open>peruser_session.cpp\<close> for it. A request is a call of the system ability, a
  death notification, a system event or a task of the event handler, with its arguments.
\<close>

text \<open>The constructor: \<open>running\<close> is an input method process left over from before, if there is one.\<close>

definition new_session :: "int \<Rightarrow> string \<Rightarrow> session" where
  "new_session userId running = \<lparr>ss_userId = userId, ss_groups = [], ss_real = None, ss_mirror = None,
     ss_proxy = [], ss_itm = new_input_type_manager, ss_log = [], ss_runningIme = running,
     ss_imeUsedBeforeScreenLocked = ('''', ''''), ss_largeMemoryState = LARGE_MEMORY_NOT_NEED,
     ss_attachingCount = 0, ss_scbStartCount = 0, ss_restartTasks = 0, ss_waitAttachTimes = 0,
     ss_restartDelay = 0, ss_managers = [], ss_isBlockStartedByLowMem = False, ss_isFirstPreemption = False,
     ss_firstStartNeedRetry = True, ss_disconnectedByRss = False, ss_attachFailedByUnavailableIme = False,
     ss_isImeStarted = False, ss_isNotifyFinished = False, ss_isSwitching = False, ss_usageCallbacks = False\<rparr>"

datatype request =
    PrepareInput input_client_info | StartInput input_client_info
  | ReleaseInput "robj option" u32 int
  | ShowInput "robj option" int | HideInput "robj option"
  | ShowCurrentInput u64 | HideCurrentInput u64
  | ShowInTargetDisplay u64 | HideInTargetDisplay u64
  | HideSoftKeyBoardSelf | RequestHideInput u64 string
  | Focused u64 int int | Unfocused u64 int int
  | SetCallingWindow focused_info "robj option" u32 | WindowDisplayIdChanged u32 u64
  | ClientDied "robj option" | ImeDied "robj option" ime_type pid_t
  | SetCoreAndAgent "robj option" "robj option" pid_t pid_t
  | StartIme_req "ime_native_cfg option" bool | StartCurrentIme_req bool | StopCurrentIme_req
  | StartUserSpecifiedIme_req | SpecialSendPrivateData_req private_command
  | RegisterProxyIme u64 "robj option" "robj option" pid_t pid_t
  | UnregisterProxyIme u64 pid_t un_registered_type
  | BindImeMirror "robj option" "robj option" pid_t pid_t | UnbindImeMirror pid_t
  | ScbStarted bool | ScbStopped | ScreenUnlock | ScreenLock | PackageUpdated string
  | LargeMemory int | TryStartIme_req | TryDisconnectIme_req | MakeSysImeImage | SysImeImageCreated
  | AttachBegin | AttachEnd | RestartTask | ExecText string
  | ConnectIme pid_t | ImeDisconnect "nat option" | AttachFailed bool | InputStopFinished | UsageCallbacks bool
  | SwitchSubtype_req sub_property | SendPrivateData_req private_command | SendVoice | SendPttStop
  | SoftKeyboardInfo | InputStartInfo | PanelShownOn u64 int int | PanelShown int int | CursorInfo pid_t
  | RollbackSpace | PttGestureCancelled | SecurityChange int | ConnectSystemCmd "robj option"

definition handle :: "senv \<Rightarrow> request \<Rightarrow> unit sess" where
  "handle E q = (case q of
     PrepareInput ci \<Rightarrow> void (OnPrepareInput E ci)
   | StartInput ci \<Rightarrow> void (OnStartInput E ci)
   | ReleaseInput c sid csid \<Rightarrow> void (OnReleaseInput E c sid csid)
   | ShowInput c r \<Rightarrow> void (OnShowInput E c r)
   | HideInput c \<Rightarrow> void (OnHideInput E c)
   | ShowCurrentInput gid \<Rightarrow> void (OnShowCurrentInput E gid)
   | HideCurrentInput gid \<Rightarrow> void (OnHideCurrentInput E gid)
   | ShowInTargetDisplay d \<Rightarrow> void (OnShowCurrentInputInTargetDisplay E d)
   | HideInTargetDisplay d \<Rightarrow> void (OnHideCurrentInputInTargetDisplay E d)
   | HideSoftKeyBoardSelf \<Rightarrow> OnHideSoftKeyBoardSelf E
   | RequestHideInput d b \<Rightarrow> void (OnRequestHideInput E d b)
   | Focused d p u \<Rightarrow> OnFocused E d p u
   | Unfocused d p u \<Rightarrow> OnUnfocused E d p u
   | SetCallingWindow fi c w \<Rightarrow> void (OnSetCallingWindow E fi c w)
   | WindowDisplayIdChanged w d \<Rightarrow> OnWindowDisplayIdChanged E w d
   | ClientDied c \<Rightarrow> OnClientDied E c
   | ImeDied c t p \<Rightarrow> OnImeDied E c t p
   | SetCoreAndAgent c a p u \<Rightarrow> void (OnSetCoreAndAgent E c a p u)
   | StartIme_req i b \<Rightarrow> void (StartIme E i b)
   | StartCurrentIme_req b \<Rightarrow> void (StartCurrentIme E b DEFAULT_START)
   | StopCurrentIme_req \<Rightarrow> void (StopCurrentIme E)
   | StartUserSpecifiedIme_req \<Rightarrow> void (StartUserSpecifiedIme E)
   | SpecialSendPrivateData_req c \<Rightarrow> void (SpecialSendPrivateData E c)
   | RegisterProxyIme d c a p u \<Rightarrow> void (OnRegisterProxyIme E d c a p u)
   | UnregisterProxyIme d p t \<Rightarrow> void (OnUnregisterProxyIme E d p t)
   | BindImeMirror c a p u \<Rightarrow> void (OnBindImeMirror E c a p u)
   | UnbindImeMirror p \<Rightarrow> void (OnUnbindImeMirror E p)
   | ScbStarted b \<Rightarrow> OnScbStarted E b
   | ScbStopped \<Rightarrow> OnScbStopped E
   | ScreenUnlock \<Rightarrow> OnScreenUnlock E
   | ScreenLock \<Rightarrow> OnScreenLock
   | PackageUpdated b \<Rightarrow> void (OnPackageUpdated E b)
   | LargeMemory v \<Rightarrow> void (UpdateLargeMemorySceneState E v)
   | TryStartIme_req \<Rightarrow> void (TryStartIme E)
   | TryDisconnectIme_req \<Rightarrow> void (TryDisconnectIme E)
   | MakeSysImeImage \<Rightarrow> void (OnMakeSysImeImage E)
   | SysImeImageCreated \<Rightarrow> OnSysImeImageCreated E
   | AttachBegin \<Rightarrow> IncreaseAttachCount
   | AttachEnd \<Rightarrow> DecreaseAttachCount
   | RestartTask \<Rightarrow> restart_task E
   | ExecText t \<Rightarrow> void (ExecTextInteraction E t)
   | ConnectIme p \<Rightarrow> void (InitConnect p)
   | ImeDisconnect c \<Rightarrow> UpdateRealImeDataOnDisconnect c
   | AttachFailed b \<Rightarrow> SetAttachFailedByUnavailableImeFlag b
   | InputStopFinished \<Rightarrow> NotifyOnInputStopFinished
   | UsageCallbacks b \<Rightarrow> SetImeUsageCallbacks b
   | SwitchSubtype_req p \<Rightarrow> void (SwitchSubtype E p)
   | SendPrivateData_req c \<Rightarrow> void (SendPrivateData E c)
   | SendVoice \<Rightarrow> void (SendVoicePrivateCommand E)
   | SendPttStop \<Rightarrow> void (SendPttStopPrivateCommand E)
   | SoftKeyboardInfo \<Rightarrow> void (GetSoftKeyboardInfo_s E)
   | InputStartInfo \<Rightarrow> void (GetInputStartInfo_s E)
   | PanelShownOn d t f \<Rightarrow> void (IsPanelShown_display E d t f)
   | PanelShown t f \<Rightarrow> void (IsPanelShown_s E t f)
   | CursorInfo p \<Rightarrow> void (GetCursorInfo_s E p)
   | RollbackSpace \<Rightarrow> void (NotifyRollbackSpace E)
   | PttGestureCancelled \<Rightarrow> void (NotifyPttGestureCancelled E)
   | SecurityChange n \<Rightarrow> OnSecurityChange E n
   | ConnectSystemCmd c \<Rightarrow> void (OnConnectSystemCmd E c))"

inductive session_step :: "senv \<Rightarrow> session \<Rightarrow> session \<Rightarrow> bool" for E where
  step: "run_state (handle E q) s = ((), t) \<Longrightarrow> session_step E s t"

inductive_simps session_step_iff: "session_step E s t"

definition session_start :: "int \<Rightarrow> session \<Rightarrow> bool" where
  "session_start userId s \<longleftrightarrow> (\<exists>running. s = new_session userId running)"

definition session_reachable :: "senv \<Rightarrow> int \<Rightarrow> session \<Rightarrow> bool" where
  "session_reachable E userId = reaches (session_start userId) (session_step E)"

lemma inv_small [pres_intros]:
  "preserves session_inv (InitConnect p)" "preserves session_inv (UpdateRealImeDataOnDisconnect c)"
  "preserves session_inv (SetAttachFailedByUnavailableImeFlag b)" "preserves session_inv NotifyOnInputStopFinished"
  "preserves session_inv (SetImeUsageCallbacks b)"
  unfolding InitConnect_def UpdateRealImeDataOnDisconnect_def SetAttachFailedByUnavailableImeFlag_def
    NotifyOnInputStopFinished_def SetImeUsageCallbacks_def preserves_wp
  by (auto simp: wp_simps session_inv_def session_ok_def imes_ok_def counters_ok_def real_ok_def complete_def
      split: option.split)

lemma quiet_small:
  "quiet (SendVoicePrivateCommand E)" "quiet (SendPttStopPrivateCommand E)" "quiet (NotifyRollbackSpace E)"
  "quiet (NotifyPttGestureCancelled E)" "quiet (OnSecurityChange E n)" "quiet (OnConnectSystemCmd E ch)"
  "quiet (SwitchSubtype E sp)" "quiet (GetSoftKeyboardInfo_s E)" "quiet (GetInputStartInfo_s E)"
  "quiet (IsPanelShown_display E d t f)" "quiet (IsPanelShown_s E t f)" "quiet (GetCursorInfo_s E p)"
  unfolding GetSoftKeyboardInfo_s_def GetInputStartInfo_s_def IsPanelShown_display_def IsPanelShown_s_def panel_shown_def
    GetCursorInfo_s_def SendVoicePrivateCommand_def SendPttStopPrivateCommand_def NotifyRollbackSpace_def
    NotifyPttGestureCancelled_def OnSecurityChange_def OnConnectSystemCmd_def
  by (intro frame_intros)+

lemmas inv_quiet_small [pres_intros] = quiet_small [THEN quiet_inv]

lemma inv_handle: "env_ok E \<Longrightarrow> preserves session_inv (handle E q)"
  by (cases q; simp only: handle_def request.case)
    (intro pres_intros inv_OnSetCoreAndAgent inv_lifecycle inv_tasks inv_proxy; assumption)+

lemma inv_new_session: "session_inv (new_session userId running)"
  by (simp add: session_inv_def session_ok_def groups_ok_def imes_ok_def real_ok_def mirror_ok_def proxy_ok_def
      counters_ok_def new_session_def)

lemma inv_step: "env_ok E \<Longrightarrow> session_step E s t \<Longrightarrow> session_inv s \<Longrightarrow> session_inv t"
  unfolding session_step_iff by (metis inv_handle preserves_run snd_conv)

text \<open>The environment's promise is part of the invariant, so that the interface holds for every environment.\<close>

interpretation sm: safe_system "session_start userId" "session_step E" "\<lambda>s. env_ok E \<longrightarrow> session_inv s"
proof (unfold_locales, goal_cases)
  case (1 s)
  then show ?case using inv_new_session by (auto simp: session_start_def)
next
  case (2 s t)
  then show ?case by (auto intro: inv_step)
qed

lemma inv_reachable: "session_reachable E userId s \<Longrightarrow> env_ok E \<Longrightarrow> session_inv s"
  using sm.inv_reaches by (auto simp: session_reachable_def)

end
