(* ===== verification/Session_Examples.thy ===== *)
theory Session_Examples
  imports Session_Machine
begin

text \<open>
  A concrete environment and a few concrete sessions, on which the properties of the session are
  instantiated: every request succeeds, the display with id \<open>d\<close> is in group \<open>d\<close>, scene board is
  enabled, nothing is locked and nothing interferes.
\<close>

definition cfg0 :: ime_native_cfg where
  "cfg0 = empty_native_cfg\<lparr>nc_imeId := ''b/e'', nc_bundleName := ''b'', nc_extName := ''e''\<rparr>"

definition env0 :: senv where
  "env0 = \<lparr>e_int = (\<lambda>_ _. 0), e_bool = (\<lambda>_ q. q \<in> {QAlloc, QIsSceneBoardEnabled, QIsWmsConnected, QTryLock,
       QIsOsAccountForeground, QPostTask} \<or> (case q of QCoreDeathAdded _ \<Rightarrow> True | QDisplayGroupIdExist _ \<Rightarrow> True
         | QIsEnable _ _ \<Rightarrow> True | _ \<Rightarrow> False)),
     e_cfg = (\<lambda>_ _. Some cfg0), e_defaultIme = (\<lambda>_. cfg0), e_displayGroup = (\<lambda>_ d. (0, d)),
     e_addDeath = (\<lambda>_ _. Added), e_subProp = (\<lambda>_ _ _. None), e_imeProperty = (\<lambda>_ _. None),
     e_time = (\<lambda>_. 0), e_seconds = (\<lambda>_. 0), e_focusInfo = (\<lambda>_ _. (99, 99)), e_inputTypeCfg = None, e_hasHandler = True,
     e_sessionHandler = True, e_dynamicStart = False, e_screenLockMgr = True, e_onDemandSa = False,
     e_interfere = (\<lambda>s. s)\<rparr>"

definition attr0 :: input_attribute where
  "attr0 = default_input_attribute\<lparr>ia_bundleName := ''app'', ia_editorWindowId := 1, ia_windowId := 1\<rparr>"

definition client0 :: "nat \<Rightarrow> pid_t \<Rightarrow> input_client_info" where
  "client0 k p = default_input_client_info\<lparr>ci_pid := p, ci_uid := p, ci_userID := 100, ci_isShowKeyboard := True,
     ci_config := default_text_total_config\<lparr>tc_inputAttribute := attr0, tc_windowId := 1\<rparr>,
     ci_client := Some k, ci_channel := Some (k + 100), ci_deathRecipient := Some k, ci_state := ACTIVE,
     ci_isNotifyInputStart := False\<rparr>"

definition real0 :: ime_data where
  "real0 = new_ime_data\<lparr>im_core := Some 7, im_agent := Some 8, im_deathRecipient := True, im_pid := 50, im_uid := 51,
     im_type := IME, im_stateManager := Some (CreateImeStateManager False 50 51), im_status := READY,
     im_ime := (''b'', ''e''), im_connection := Some 0\<rparr>"

text \<open>A session whose input method is ready, and the same with a client attached to it.\<close>

definition session0 :: session where
  "session0 = (new_session 100 '''')\<lparr>ss_real := Some real0\<rparr>"

definition after :: "request list \<Rightarrow> session \<Rightarrow> session" where
  "after qs s = fold (\<lambda>q s. snd (run_state (handle env0 q) s)) qs s"

definition attached0 :: session where
  "attached0 = after [PrepareInput (client0 5 11), StartInput (client0 5 11)] session0"

definition prepared0 :: session where
  "prepared0 = after [PrepareInput (client0 5 11)] session0"

text \<open>
  What the two sessions are, evaluated once; the examples that start from them evaluate from here on, without the
  handlers that led to them.
\<close>

lemma prepared0_code [code]:
  "prepared0 = session0\<lparr>
     ss_groups := [(0, \<lparr>cg_displayGroupId = 0, cg_mapClients = [(5, client0 5 11)], cg_currentClient = None,
        cg_inactiveClient = None\<rparr>)],
     ss_log := [ClientDeath (AddDeathRecipient 5)]\<rparr>" (is "_ = ?t")
proof -
  have "prepared0 = snd (run_state (OnPrepareInput env0 (client0 5 11)) session0)"
    by (simp add: prepared0_def after_def handle_def)
  also have "\<dots> = ?t" by code_simp
  finally show ?thesis .
qed

lemma attached0_code [code]:
  "attached0 = session0\<lparr>
     ss_groups := [(0, \<lparr>cg_displayGroupId = 0,
        cg_mapClients = [(5, (client0 5 11)\<lparr>ci_bindImeData := Some \<lparr>bd_pid = 50, bd_type = IME\<rparr>\<rparr>)],
        cg_currentClient = Some 5, cg_inactiveClient = None\<rparr>)],
     ss_real := Some (real0\<lparr>im_stateManager :=
        Some \<lparr>sm_kind = FreezeManager, sm_pid = 50, sm_uid = 51, sm_isFrozen = False, sm_isImeInUse = True\<rparr>\<rparr>),
     ss_log := [SetCriticalEv True, ReportImeStateEv True 50 ''b'', CoreIpc 7 (StartInput_ipc (client0 5 11) True),
        StateAct (ReportRss False 50 51), StateAct (RemoveTask ''ReportStop''),
        StateAct (PostTask ''ReportStop'' DELAY_TIME (ReportStopTask 50 51)), CoreIpc 7 (OnSetInputType_ipc NONE 0),
        StateAct (ReportRss False 50 51), StateAct (RemoveTask ''ReportStop''), ClientDeath (AddDeathRecipient 5)]\<rparr>"
  (is "_ = ?t")
proof -
  have "attached0 = snd (run_state (OnStartInput env0 (client0 5 11)) prepared0)"
    by (simp add: attached0_def prepared0_def after_def handle_def)
  also have "\<dots> = ?t" by code_simp
  finally show ?thesis .
qed

lemma env_ok_env0: "env_ok env0"
  by (simp add: env_ok_def env0_def)

text \<open>Reachable sessions, by the list of requests served.\<close>

lemma reachable_after: "session_reachable env0 u s \<Longrightarrow> session_reachable env0 u (after qs s)"
proof (induction qs arbitrary: s)
  case (Cons q qs)
  have "session_step env0 s (snd (run_state (handle env0 q) s))"
    by (rule session_step.step) (simp add: prod_eq_iff)
  with Cons show ?case by (auto simp: after_def session_reachable_def intro: reaches.more)
qed (simp add: after_def)

lemma real0_inv: "session_inv session0"
  using inv_new_session [of 100 "''''"]
  by (simp add: session0_def session_inv_def session_ok_def imes_ok_def counters_ok_def real_ok_def real0_def
      complete_def new_ime_data_def)

lemma after_inv: "session_inv s \<Longrightarrow> session_inv (after qs s)"
  by (induction qs arbitrary: s) (auto simp: after_def preserves_run [OF inv_handle [OF env_ok_env0]])

lemma attached0_inv: "session_inv attached0"
  by (simp add: attached0_def after_inv real0_inv)

lemma prepared0_inv: "session_inv prepared0"
  by (simp add: prepared0_def after_inv real0_inv)

end
