(* ===== verification/Client_Correct.thy ===== *)
theory Client_Correct
  imports Session_Examples
begin

text \<open>
  What the client handlers achieve: a successful bind makes the client the current one of its
  group and displaces clients of other processes, a failed one changes no group; a released or
  dead client is gone; the guards of show and hide; loss of focus.
\<close>

lemma wp_runD: "wp m Q s \<Longrightarrow> run_state m s = (r, t) \<Longrightarrow> Q r t"
  by (simp add: wp_def)

lemma current_of_map_entry:
  assumes "map_of (ss_groups s) gid = Some g" "ss_groups t = AList.map_entry gid f (ss_groups s)"
  shows "current_of gid t = cg_currentClient (f g)" "inactive_of gid t = cg_inactiveClient (f g)"
    "client_of gid c t = GetClientInfo c (f g)"
  using assms by (simp_all add: lookup_defs map_of_map_entry)

lemma lookups_Some:
  assumes "map_of (ss_groups s) gid = Some g"
  shows "current_of gid s = cg_currentClient g" "inactive_of gid s = cg_inactiveClient g"
    "client_of gid c s = GetClientInfo c g" "GetClientGroupByGroupId gid s = Some g"
  using assms by (simp_all add: lookup_defs)

section \<open>Making a client current\<close>

lemma detach_other_keep:
  assumes "map_of (cg_mapClients g) k = Some ci"
  shows "map_of (cg_mapClients (detach_other (ci_pid ci) c g)) k = Some ci"
    "cg_currentClient g = Some k \<Longrightarrow> cg_currentClient (detach_other (ci_pid ci) c g) = Some k"
  using assms by (auto simp: detach_other_def detach_fields split: option.split)

lemma detach_other_gone:
  "map_of (cg_mapClients g) k' = Some ci' \<Longrightarrow> ci_pid ci' \<noteq> p \<Longrightarrow>
   map_of (cg_mapClients (detach_other p (Some k') g)) k' = None"
  "map_of (cg_mapClients g) k' = None \<Longrightarrow> map_of (cg_mapClients (detach_other p c g)) k' = None"
  by (auto simp: detach_other_def detach_fields split: option.split)

lemma make_current_correct:
  assumes "map_of (cg_mapClients g) k = Some ci"
  shows "cg_currentClient (make_current k g) = Some k" "map_of (cg_mapClients (make_current k g)) k = Some ci"
    "map_of (cg_mapClients g) k' = Some ci' \<Longrightarrow> ci_pid ci' \<noteq> ci_pid ci \<Longrightarrow>
       cg_currentClient g = Some k' \<or> cg_inactiveClient g = Some k' \<Longrightarrow>
       map_of (cg_mapClients (make_current k g)) k' = None"
proof -
  let ?g1 = "detach_other (ci_pid ci) (cg_currentClient g) (SetCurrentClient (Some k) g)"
  have mc: "make_current k g = detach_other (ci_pid ci) (cg_inactiveClient ?g1) ?g1"
    using assms by (simp add: make_current_def Let_def)
  have g1: "map_of (cg_mapClients ?g1) k = Some ci" "cg_currentClient ?g1 = Some k"
    using assms by (simp_all add: detach_other_keep)
  show "cg_currentClient (make_current k g) = Some k" "map_of (cg_mapClients (make_current k g)) k = Some ci"
    using g1 by (simp_all add: mc detach_other_keep)
  assume k': "map_of (cg_mapClients g) k' = Some ci'" "ci_pid ci' \<noteq> ci_pid ci"
    and or: "cg_currentClient g = Some k' \<or> cg_inactiveClient g = Some k'"
  show "map_of (cg_mapClients (make_current k g)) k' = None"
  proof (cases "map_of (cg_mapClients ?g1) k'")
    case None
    then show ?thesis by (simp add: mc detach_other_gone)
  next
    case (Some c)
    with k' have c: "c = ci'" "cg_currentClient g \<noteq> Some k'"
      by (auto simp: detach_other_def detach_fields split: option.splits if_splits)
    with or have "cg_inactiveClient g = Some k'" by simp
    with c k' assms Some have "cg_inactiveClient ?g1 = Some k'"
      by (auto simp: detach_other_def detach_fields split: option.splits if_splits)
    with Some c k' show ?thesis by (simp add: mc detach_other_gone)
  qed
qed

definition bound_to :: "ime_data \<Rightarrow> input_client_info \<Rightarrow> input_client_info \<Rightarrow> bool" where
  "bound_to d new ci \<longleftrightarrow> ci_bindImeData ci = Some \<lparr>bd_pid = im_pid d, bd_type = im_type d\<rparr> \<and> ci_state ci = ACTIVE \<and>
     ci_isShowKeyboard ci = ci_isShowKeyboard new"

lemma bind_effect_correct:
  assumes "bind_effect ci d gs gs'" "map_of gs (ci_clientGroupId ci) = Some g" "ci_client ci = Some k"
    "map_of (cg_mapClients g) k = Some old"
  shows "\<exists>g'. map_of gs' (ci_clientGroupId ci) = Some g' \<and> cg_currentClient g' = Some k \<and>
     (\<exists>ci'. map_of (cg_mapClients g') k = Some ci' \<and> bound_to d ci ci' \<and> ci_pid ci' = ci_pid old) \<and>
     (\<forall>k' ci'. map_of (cg_mapClients g) k' = Some ci' \<and> ci_pid ci' \<noteq> ci_pid old \<and>
        (cg_currentClient g = Some k' \<or> cg_inactiveClient g = Some k') \<longrightarrow> map_of (cg_mapClients g') k' = None)"
proof -
  let ?us = "[(ISSHOWKEYBOARD, V_bool (ci_isShowKeyboard ci)), (STATE, V_ClientState ACTIVE),
      (BIND_IME_DATA, V_BindImeData (Some \<lparr>bd_pid = im_pid d, bd_type = im_type d\<rparr>))]"
  let ?g = "UpdateClientInfo (Some k) ?us g" and ?ci = "fold update_one ?us old"
  from assms obtain m where "moved_out (ci_clientGroupId ci) gs m"
    "gs' = AList.map_entry (ci_clientGroupId ci) (bind_client ci d k) m" by (auto simp: bind_effect_def)
  with assms(2) have "map_of gs' (ci_clientGroupId ci) = Some (make_current k ?g)"
    by (simp add: map_of_map_entry moved_out_def bind_client_def)
  moreover have old: "map_of (cg_mapClients ?g) k = Some ?ci"
    using assms(4) by (simp add: map_of_UpdateClientInfo)
  moreover have "bound_to d ci ?ci" "ci_pid ?ci = ci_pid old" by (simp_all add: bound_to_def update_one_def)
  moreover have "map_of (cg_mapClients (make_current k ?g)) k' = None"
    if "map_of (cg_mapClients g) k' = Some ci'" "ci_pid ci' \<noteq> ci_pid old"
      "cg_currentClient g = Some k' \<or> cg_inactiveClient g = Some k'" for k' ci'
    using that assms(4) by (intro make_current_correct(3) [OF old]) (auto simp: map_of_UpdateClientInfo)
  ultimately show ?thesis using make_current_correct(1,2) [OF old] by blast
qed



lemma GetReadyImeDataToBind_kind:
  assumes "session_inv s" "GetReadyImeDataToBind E displayId s = Some d"
  shows "\<not> IsImeMirror d \<and> im_status d = READY \<and> complete d"
proof -
  have "im_type d = PROXY_IME \<and> im_status d = READY \<and> complete d" if "GetProxyImeData_display k s = Some d" for k
    using that assms(1)
    by (auto simp: GetProxyImeData_display_def session_inv_def imes_ok_def proxy_ok_def proxies_ok_def
        split: option.splits if_splits)
  moreover have "im_type d = IME \<and> im_status d = READY \<and> complete d" if "GetRealImeData True s = Some d"
    using that assms(1)
    by (auto simp: GetRealImeData_def session_inv_def imes_ok_def real_ok_def split: option.splits if_splits)
  ultimately show ?thesis using assms(2)
    by (auto simp: GetReadyImeDataToBind_def Let_def IsImeMirror_def split: if_splits)
qed

lemma PrepareImeInfos_ready:
  assumes "mirror_ok (ss_mirror t)" "\<not> IsImeMirror d" "im_agent d \<noteq> None"
  shows "\<exists>out. PrepareImeInfos (Some d) gid t = (NO_ERROR, out) \<and> out \<noteq> [] \<and> Some (fst (hd out)) = im_agent d"
  using assms
  by (auto simp: PrepareImeInfos_def GetAllReadyImeData_def Let_def mirror_ok_def complete_def split: option.splits if_splits)

text \<open>The two ways through \<open>OnStartInput\<close> for an existing group.\<close>

lemma OnStartInput_cases:
  assumes "session_inv s" "map_of (ss_groups s) (ci_clientGroupId ci) = Some g" "run_state (OnStartInput E ci) s = ((r, out), t)"
  obtains "GetReadyImeDataToBind E (ia_editorDisplayId (ci_attribute ci)) s = None" "r = ERROR_IME_NOT_STARTED" "out = []" "t = s"
  | d ci1 s1 r2 where "GetReadyImeDataToBind E (ia_editorDisplayId (ci_attribute ci)) s = Some d"
      "run_state (HandleBindImeChanged E ci (Some d) (ci_clientGroupId ci)) s = (ci1, s1)"
      "run_state (BindClientWithIme E (Some ci1) (Some d) True) s1 = (r2, t)"
      "(r, out) = (if r2 \<noteq> NO_ERROR then (r2, []) else PrepareImeInfos (Some d) (ci_clientGroupId ci) t)"
proof (cases "GetReadyImeDataToBind E (ia_editorDisplayId (ci_attribute ci)) s")
  case None
  with assms(3) have "r = ERROR_IME_NOT_STARTED" "out = []" "t = s" by (simp_all add: OnStartInput_def)
  with None show thesis by (rule that(1))
next
  case (Some d)
  then have "im_agent d \<noteq> None" using GetReadyImeDataToBind_kind [OF assms(1) Some] by (simp add: complete_def)
  then obtain a where a: "im_agent d = Some a" by blast
  obtain ci1 s1 where h: "run_state (HandleBindImeChanged E ci (Some d) (ci_clientGroupId ci)) s = (ci1, s1)" by fastforce
  obtain r2 t2 where b: "run_state (BindClientWithIme E (Some ci1) (Some d) True) s1 = (r2, t2)" by fastforce
  from Some a h b assms(3) lookups_Some(4) [OF assms(2)]
  have "t2 = t" "(r, out) = (if r2 \<noteq> NO_ERROR then (r2, []) else PrepareImeInfos (Some d) (ci_clientGroupId ci) t)"
    by (auto simp: OnStartInput_def split: if_splits)
  with Some h b show thesis by (intro that(2)) simp_all
qed

text \<open>The old current client, which \<open>HandleBindImeChanged\<close> may have removed, apart, it leaves all clients as they are.\<close>

lemma HandleBindImeChanged_keeps:
  assumes "session_ok s" "ci_client ci = Some k" "map_of (ss_groups s) gid = Some g" "map_of (cg_mapClients g) k = Some old"
    "run_state (HandleBindImeChanged E ci d gid) s = (ci1, s1)"
  shows "ci1 = ci \<or> ci1 = ci\<lparr>ci_isNotifyInputStart := True\<rparr>" "session_ok s1"
    "\<exists>g1. map_of (ss_groups s1) gid = Some g1 \<and> map_of (cg_mapClients g1) k = Some old"
    "gid' \<noteq> gid \<Longrightarrow> map_of (ss_groups s1) gid' = map_of (ss_groups s) gid'"
    "current_of gid s \<noteq> Some k' \<Longrightarrow> client_of gid (Some k') s1 = client_of gid (Some k') s"
proof -
  note hb = wp_runD [OF HandleBindImeChanged_groups assms(5)]
  show "ci1 = ci \<or> ci1 = ci\<lparr>ci_isNotifyInputStart := True\<rparr>" using hb by blast
  show "session_ok s1" using preserves_run [OF preserves_HandleBindImeChanged assms(1), of E ci d gid] assms(5) by simp
  have g: "group_ok g" using assms(1,3) by (auto simp: session_ok_def groups_ok_def)
  from hb consider "ss_groups s1 = ss_groups s"
    | c where "client_of gid (current_of gid s) s = Some c" "\<not> IsSameClient (ci_client ci) (ci_client c)"
      "ss_groups s1 = AList.map_entry gid (forget (ci_client c)) (ss_groups s)" by blast
  then have "(\<exists>g1. map_of (ss_groups s1) gid = Some g1 \<and> map_of (cg_mapClients g1) k = Some old) \<and>
     (gid' \<noteq> gid \<longrightarrow> map_of (ss_groups s1) gid' = map_of (ss_groups s) gid') \<and>
     (current_of gid s \<noteq> Some k' \<longrightarrow> client_of gid (Some k') s1 = client_of gid (Some k') s)"
  proof cases
    case 1
    with assms(3,4) show ?thesis by (simp add: lookup_defs)
  next
    case (2 c)
    then have "ci_client c = current_of gid s"
      using g assms(3) by (auto simp: lookup_defs GetClientInfo_def group_ok_def entries_ok_def split: option.splits)
    with 2 assms(2,3,4) show ?thesis
      by (auto simp: map_of_map_entry forget_fields IsSameClient_def lookup_defs GetClientInfo_def)
  qed
  then show "\<exists>g1. map_of (ss_groups s1) gid = Some g1 \<and> map_of (cg_mapClients g1) k = Some old"
    "gid' \<noteq> gid \<Longrightarrow> map_of (ss_groups s1) gid' = map_of (ss_groups s) gid'"
    "current_of gid s \<noteq> Some k' \<Longrightarrow> client_of gid (Some k') s1 = client_of gid (Some k') s" by blast+
qed

text \<open>C5. \<open>OnStartInput\<close> for a registered client. On success there was an input method ready for the
  editor's display (the enabled proxy of the display, the collaborating proxy of the main display
  or the real one), the client is now the current client of its group and bound to that input
  method, and the reply lists the agent of the input method first. It fails with
  \<open>ERROR_IME_NOT_STARTED\<close> exactly when no input method is ready, and otherwise with one of the two
  errors of the bind; the reply is then empty, the client is still registered with the record it had,
  and the other groups and the other clients of the group are as they were, except that the current
  client of the group may have been removed before the bind failed.\<close>

theorem OnStartInput_correct:
  assumes "session_inv s" "map_of (ss_groups s) (ci_clientGroupId ci) = Some g" "ci_client ci = Some k"
    "map_of (cg_mapClients g) k = Some old" "run_state (OnStartInput E ci) s = ((r, out), t)"
  shows "(r = ERROR_IME_NOT_STARTED \<longleftrightarrow> GetReadyImeDataToBind E (ia_editorDisplayId (ci_attribute ci)) s = None) \<and>
   (if r = NO_ERROR
    then \<exists>d. GetReadyImeDataToBind E (ia_editorDisplayId (ci_attribute ci)) s = Some d \<and>
      current_of (ci_clientGroupId ci) t = Some k \<and>
      (\<exists>ci'. client_of (ci_clientGroupId ci) (Some k) t = Some ci' \<and> bound_to d ci ci' \<and> ci_pid ci' = ci_pid old) \<and>
      out \<noteq> [] \<and> Some (fst (hd out)) = im_agent d
    else r \<in> {ERROR_IME_NOT_STARTED, ERROR_IME_START_INPUT_FAILED, ERROR_IMSA_CLIENT_INPUT_READY_FAILED} \<and> out = [] \<and>
      client_of (ci_clientGroupId ci) (Some k) t = Some old \<and>
      (\<forall>gid. gid \<noteq> ci_clientGroupId ci \<longrightarrow> map_of (ss_groups t) gid = map_of (ss_groups s) gid) \<and>
      (\<forall>k'. current_of (ci_clientGroupId ci) s \<noteq> Some k' \<longrightarrow>
         client_of (ci_clientGroupId ci) (Some k') t = client_of (ci_clientGroupId ci) (Some k') s))"
proof -
  let ?gid = "ci_clientGroupId ci"
  have ok: "session_ok s" using assms(1) by (simp add: session_inv_def)
  have inv: "session_inv t" using preserves_run [OF inv_client_handlers(12) assms(1), of E ci] assms(5) by simp
  show ?thesis
  proof (rule OnStartInput_cases [OF assms(1,2,5)])
    fix d ci1 s1 r2
    assume d: "GetReadyImeDataToBind E (ia_editorDisplayId (ci_attribute ci)) s = Some d"
      and h: "run_state (HandleBindImeChanged E ci (Some d) ?gid) s = (ci1, s1)"
      and b: "run_state (BindClientWithIme E (Some ci1) (Some d) True) s1 = (r2, t)"
      and out: "(r, out) = (if r2 \<noteq> NO_ERROR then (r2, []) else PrepareImeInfos (Some d) ?gid t)"
    note keeps = HandleBindImeChanged_keeps [OF ok assms(3,2,4) h]
    note kind = GetReadyImeDataToBind_kind [OF assms(1) d]
    have same: "ci_clientGroupId ci1 = ?gid" "ci_client ci1 = Some k" "bound_to d ci1 = bound_to d ci"
      using keeps(1) assms(3) by (auto simp: bound_to_def fun_eq_iff)
    obtain g1 where g1: "map_of (ss_groups s1) ?gid = Some g1" "map_of (cg_mapClients g1) k = Some old"
      using keeps(3) by blast
    note bind = wp_runD [OF BindClientWithIme_groups [OF keeps(2) same(2)] b]
    show ?thesis
    proof (cases "r2 = NO_ERROR")
      case True
      with bind kind have "bind_effect ci1 d (ss_groups s1) (ss_groups t)" by simp
      from bind_effect_correct [OF this _ same(2) g1(2)] g1(1)
      have "current_of ?gid t = Some k \<and>
          (\<exists>ci'. client_of ?gid (Some k) t = Some ci' \<and> bound_to d ci ci' \<and> ci_pid ci' = ci_pid old)"
        by (auto simp: same lookup_defs)
      moreover have "r = NO_ERROR \<and> out \<noteq> [] \<and> Some (fst (hd out)) = im_agent d"
        using out True kind PrepareImeInfos_ready [of t d ?gid] inv
        by (auto simp: session_inv_def imes_ok_def complete_def)
      ultimately show ?thesis using d by simp
    next
      case False
      with bind have t: "ss_groups t = ss_groups s1" by simp
      from False out bind lookups_Some(4) [OF g1(1)] same(1)
      have "r \<in> {ERROR_IME_START_INPUT_FAILED, ERROR_IMSA_CLIENT_INPUT_READY_FAILED}" "out = []" by auto
      moreover have "client_of ?gid (Some k) t = Some old" using t g1 by (simp add: lookup_defs GetClientInfo_def)
      moreover have "client_of gid c t = client_of gid c s1" for gid c using t by (simp add: lookup_defs)
      ultimately show ?thesis using keeps(4,5) t d by auto
    qed
  qed (use assms(2,4) in \<open>simp add: lookup_defs GetClientInfo_def\<close>)
qed

theorem OnStartInput_correct_witness:
  "current_of 0 attached0 = Some 5 \<and> fst (run_state (OnStartInput env0 (client0 5 11))
     prepared0) = (NO_ERROR, [(8, 50, ''b'')])"
proof -
  let ?s = prepared0
  let ?g = "\<lparr>cg_displayGroupId = 0, cg_mapClients = [(5, client0 5 11)], cg_currentClient = None,
      cg_inactiveClient = None\<rparr>"
  have g: "map_of (ss_groups ?s) (ci_clientGroupId (client0 5 11)) = Some ?g" by code_simp
  have r: "fst (run_state (OnStartInput env0 (client0 5 11)) ?s) = (NO_ERROR, [(8, 50, ''b'')])" by code_simp
  have c: "ci_client (client0 5 11) = Some 5" "map_of (cg_mapClients ?g) 5 = Some (client0 5 11)" by code_simp+
  have d: "ci_clientGroupId (client0 5 11) = 0" by code_simp
  have t: "snd (run_state (OnStartInput env0 (client0 5 11)) ?s) = attached0"
    by (simp add: attached0_def prepared0_def after_def handle_def)
  from r t have "run_state (OnStartInput env0 (client0 5 11)) ?s = ((NO_ERROR, [(8, 50, ''b'')]), attached0)"
    by (simp add: prod_eq_iff)
  from OnStartInput_correct [OF prepared0_inv g c this] r show ?thesis unfolding d by auto
qed

section \<open>Releasing a client\<close>

lemma GetClientGroup_client_SomeD:
  assumes "groups_ok (ss_groups s)" "GetClientGroup_client (Some k) s = Some gid"
  shows "\<exists>g ci. map_of (ss_groups s) gid = Some g \<and> map_of (cg_mapClients g) k = Some ci"
  using assms by (auto simp: GetClientGroup_client_def IsClientExist_def groups_ok_def dest!: find_SomeD)

text \<open>C10. \<open>OnReleaseInput\<close> of a client always succeeds. When the client is registered, it is afterwards
  no longer registered in its group nor its current client; the current client stays if it was
  another one, and so does every other registered client. A client that is not registered
  changes nothing.\<close>

theorem OnReleaseInput_correct:
  assumes "session_inv s" "run_state (OnReleaseInput E (Some k) sid csid) s = (r, t)"
  shows "r = NO_ERROR \<and> (case GetClientGroup_client (Some k) s of
      None \<Rightarrow> ss_groups t = ss_groups s
    | Some gid \<Rightarrow> client_of gid (Some k) t = None \<and> current_of gid t \<noteq> Some k \<and>
        (current_of gid s \<noteq> Some k \<longrightarrow> current_of gid t = current_of gid s) \<and>
        (\<forall>k'. k' \<noteq> k \<longrightarrow> client_of gid (Some k') t = client_of gid (Some k') s))"
proof -
  note * = wp_runD [OF OnReleaseInput_groups assms(2)]
  show ?thesis
  proof (cases "GetClientGroup_client (Some k) s")
    case (Some gid)
    with assms(1) obtain g where g: "map_of (ss_groups s) gid = Some g"
      using GetClientGroup_client_SomeD by (fastforce simp: session_inv_def session_ok_def)
    with Some * have t: "ss_groups t = AList.map_entry gid (detach k) (ss_groups s)" by simp
    show ?thesis using * Some
      by (simp add: current_of_map_entry [OF g t] lookups_Some [OF g] detach_fields)
  qed (use * in simp)
qed

theorem OnReleaseInput_correct_witness:
  "let t = snd (run_state (OnReleaseInput env0 (Some 5) 1 2) attached0) in
   client_of 0 (Some 5) t = None \<and> current_of 0 t \<noteq> Some 5"
proof -
  have "GetClientGroup_client (Some 5) attached0 = Some 0" by code_simp
  with OnReleaseInput_correct [OF attached0_inv prod.collapse [symmetric], of env0 5 1 2]
  show ?thesis by (simp add: Let_def)
qed

text \<open>C9. When a client's process dies, the client leaves its group completely: it is not registered,
  not current and not inactive any more; the other clients stay as they were.\<close>

theorem OnClientDied_correct:
  assumes "session_inv s" "GetClientGroup_client (Some k) s = Some gid" "run_state (OnClientDied E (Some k)) s = (u, t)"
  shows "client_of gid (Some k) t = None \<and> current_of gid t \<noteq> Some k \<and> inactive_of gid t \<noteq> Some k \<and>
    (\<forall>k'. k' \<noteq> k \<longrightarrow> client_of gid (Some k') t = client_of gid (Some k') s)"
proof -
  obtain g where g: "map_of (ss_groups s) gid = Some g"
    using GetClientGroup_client_SomeD assms(1,2) by (fastforce simp: session_inv_def session_ok_def)
  have t: "ss_groups t = AList.map_entry gid (purge k) (ss_groups s)"
    using wp_runD [OF OnClientDied_groups assms(3)] assms(2) by simp
  show ?thesis by (simp add: current_of_map_entry [OF g t] lookups_Some [OF g] purge_fields)
qed

theorem OnClientDied_correct_witness:
  "let t = snd (run_state (OnClientDied env0 (Some 5)) attached0) in
   client_of 0 (Some 5) t = None \<and> current_of 0 t \<noteq> Some 5 \<and> inactive_of 0 t \<noteq> Some 5"
proof -
  have "GetClientGroup_client (Some 5) attached0 = Some 0" by code_simp
  from OnClientDied_correct [OF attached0_inv this prod.collapse [symmetric], of env0]
  show ?thesis by (simp add: Let_def)
qed

section \<open>A client that is both current and inactive\<close>

text \<open>A client that is both the current and the inactive client of its group is not cleaned up by
  \<open>RemoveClient\<close>: the client is unregistered, but the group keeps it as its inactive client.\<close>

theorem RemoveClient_leaves_inactive:
  assumes "current_of gid s = Some k" "inactive_of gid s = Some k"
    "run_state (RemoveClient E (Some k) gid op) s = (r, t)"
  shows "client_of gid (Some k) t = None \<and> current_of gid t = None \<and> inactive_of gid t = Some k"
proof -
  obtain g where g: "map_of (ss_groups s) gid = Some g"
    using assms(1) by (auto simp: lookup_defs split: option.splits)
  have t: "ss_groups t = AList.map_entry gid (detach k) (ss_groups s)"
    using wp_runD [OF RemoveClient_groups assms(3)] by simp
  show ?thesis using assms(1,2)
    by (simp add: current_of_map_entry [OF g t] lookups_Some [OF g] detach_fields)
qed

text \<open>The state is reached by losing the focus and attaching again.\<close>

definition reattached0 :: session where
  "reattached0 = after [Focused 0 99 99, StartInput (client0 5 11)] attached0"

lemma reattached0_code [code]:
  "reattached0 = snd (run_state (OnStartInput env0 (client0 5 11)) (snd (run_state (OnFocused env0 0 99 99) attached0)))"
  by (simp add: reattached0_def after_def handle_def)

theorem RemoveClient_leaves_inactive_witness:
  "let t = snd (run_state (RemoveClient env0 (Some 5) 0 default_detach_options) reattached0) in
   client_of 0 (Some 5) t = None \<and> inactive_of 0 t = Some 5"
proof -
  have "current_of 0 reattached0 = Some 5" "inactive_of 0 reattached0 = Some 5" by code_simp+
  from RemoveClient_leaves_inactive [OF this prod.collapse [symmetric], of env0 default_detach_options]
  show ?thesis by (simp add: Let_def)
qed

text \<open>A hide request of the client's own application is meant to mark the keyboard as hidden and keep
  the client; but when the current client is also still marked as the inactive one, it is
  removed from the group.\<close>

theorem UpdateClientAfterRequestHide_drops_current:
  assumes "map_of (ss_groups s) gid = Some g" "cg_currentClient g = Some k" "cg_inactiveClient g = Some k"
    "map_of (cg_mapClients g) k = Some ci" "b = ia_bundleName (ci_attribute ci)"
    "run_state (UpdateClientAfterRequestHide E gid b) s = (r, t)"
  shows "client_of gid (Some k) t = None \<and> current_of gid t = None"
proof -
  let ?f = "UpdateClientInfo (Some k) [(ISSHOWKEYBOARD, V_bool False)]"
  have "wp (UpdateClientAfterRequestHide E gid b)
      (\<lambda>r t. ss_groups t = AList.map_entry gid (\<lambda>g. detach k (?f g)) (ss_groups s)) s"
    using assms(1-5)
    by (auto simp: UpdateClientAfterRequestHide_def wp_simps lookup_defs map_of_map_entry map_entry_comp
        intro!: wp_RemoveClient wp_quiets)
  from wp_runD [OF this assms(6)] show ?thesis
    by (simp add: current_of_map_entry [OF assms(1)] detach_fields assms(2))
qed

theorem UpdateClientAfterRequestHide_drops_current_witness:
  "let t = snd (run_state (UpdateClientAfterRequestHide env0 0 ''app'') reattached0) in
   client_of 0 (Some 5) t = None \<and> current_of 0 t = None"
proof -
  let ?g = "the (map_of (ss_groups reattached0) 0)" and ?ci = "the (client_of 0 (Some 5) reattached0)"
  have "map_of (ss_groups reattached0) 0 = Some ?g" "cg_currentClient ?g = Some 5" "cg_inactiveClient ?g = Some 5"
    "map_of (cg_mapClients ?g) 5 = Some ?ci" "''app'' = ia_bundleName (ci_attribute ?ci)" by code_simp+
  from UpdateClientAfterRequestHide_drops_current [OF this prod.collapse [symmetric], of env0]
  show ?thesis by (simp add: Let_def)
qed

section \<open>Show and hide\<close>

text \<open>Only the current client of its group may show or hide the keyboard: any other caller gets
  \<open>ERROR_CLIENT_NOT_FOCUSED\<close> and the session is exactly as before; no call has left it.\<close>

theorem show_hide_guard:
  assumes "case GetClientGroup_client c s of None \<Rightarrow> True | Some gid \<Rightarrow> c \<noteq> current_of gid s"
  shows "run_state (OnShowInput E c reason) s = (ERROR_CLIENT_NOT_FOCUSED, s) \<and>
    run_state (OnHideInput E c) s = (ERROR_CLIENT_NOT_FOCUSED, s)"
  using assms by (cases c) (auto simp: OnShowInput_def OnHideInput_def IsSameClient_def split: option.splits)

theorem show_hide_guard_witness:
  "run_state (OnShowInput env0 (Some 6) 0) attached0 = (ERROR_CLIENT_NOT_FOCUSED, attached0) \<and>
   run_state (OnHideInput env0 (Some 6)) attached0 = (ERROR_CLIENT_NOT_FOCUSED, attached0)"
proof -
  have "GetClientGroup_client (Some 6) attached0 = None" by code_simp
  then show ?thesis using show_hide_guard [of "Some 6" attached0] by simp
qed

text \<open>\<open>ShowKeyboard\<close> on a registered client bound to a known input method: the request goes to the input
  method's core with the given reason, and exactly if it succeeds the client's keyboard counts as
  shown. The stored reason of the client does not change in either case, whatever reason is given.\<close>

theorem ShowKeyboard_correct:
  assumes "client_of gid (Some k) s = Some ci" "run_state (ShowKeyboard E (Some k) gid reason) s = (r, t)"
  shows "(case GetImeData_bind (ci_bindImeData ci) s of None \<Rightarrow> r = ERROR_IME_NOT_STARTED
      | Some d \<Rightarrow> r \<in> {NO_ERROR, ERROR_KBD_SHOW_FAILED}) \<and>
    (\<exists>ci'. client_of gid (Some k) t = Some ci' \<and>
       ci_isShowKeyboard ci' = (r = NO_ERROR \<or> ci_isShowKeyboard ci) \<and>
       tc_requestKeyboardReason (ci_config ci') = tc_requestKeyboardReason (ci_config ci))"
proof -
  obtain g where g: "map_of (ss_groups s) gid = Some g" "map_of (cg_mapClients g) k = Some ci"
    using assms(1) by (auto simp: lookup_defs split: option.splits)
  have "case GetImeData_bind (ci_bindImeData ci) s of None \<Rightarrow> r = ERROR_IME_NOT_STARTED
      | Some d \<Rightarrow> r \<in> {NO_ERROR, ERROR_KBD_SHOW_FAILED}"
    using assms by (auto simp: ShowKeyboard_def split: option.splits prod.splits if_splits)
  moreover have "\<exists>ci'. client_of gid (Some k) t = Some ci' \<and>
       ci_isShowKeyboard ci' = (r = NO_ERROR \<or> ci_isShowKeyboard ci) \<and>
       tc_requestKeyboardReason (ci_config ci') = tc_requestKeyboardReason (ci_config ci)"
    using wp_runD [OF ShowKeyboard_groups assms(2)] g
    by (auto simp: lookup_defs map_of_map_entry map_of_UpdateClientInfo update_one_def split: if_splits)
  ultimately show ?thesis by blast
qed

theorem ShowKeyboard_correct_witness:
  "\<exists>ci'. client_of 0 (Some 5) (snd (run_state (ShowKeyboard env0 (Some 5) 0 2) attached0)) = Some ci' \<and>
     ci_isShowKeyboard ci' \<and> tc_requestKeyboardReason (ci_config ci') = REASON_NONE"
proof -
  let ?ci = "the (client_of 0 (Some 5) attached0)" and ?m = "ShowKeyboard env0 (Some 5) 0 2"
  have c: "client_of 0 (Some 5) attached0 = Some ?ci" "tc_requestKeyboardReason (ci_config ?ci) = REASON_NONE"
    "fst (run_state ?m attached0) = NO_ERROR" by code_simp+
  from ShowKeyboard_correct [OF c(1) prod.collapse [symmetric], of env0 2] show ?thesis unfolding c(2,3) by auto
qed

text \<open>\<open>HideKeyboard\<close> on a registered client changes the groups only if it succeeds, and then only in that
  the client's keyboard counts as hidden; it fails exactly when the client's input method is
  unknown or refuses.\<close>

theorem HideKeyboard_correct:
  assumes "client_of gid (Some k) s = Some ci" "run_state (HideKeyboard E (Some k) gid) s = (r, t)"
  shows "(GetImeData_bind (ci_bindImeData ci) s = None \<longleftrightarrow> r = ERROR_IME_NOT_STARTED) \<and>
    r \<in> {NO_ERROR, ERROR_IME_NOT_STARTED, ERROR_KBD_HIDE_FAILED} \<and>
    (if r = NO_ERROR then client_of gid (Some k) t = Some (ci\<lparr>ci_isShowKeyboard := False\<rparr>) \<and>
       current_of gid t = current_of gid s \<and> inactive_of gid t = inactive_of gid s
     else ss_groups t = ss_groups s)"
proof -
  obtain g where g: "map_of (ss_groups s) gid = Some g" "map_of (cg_mapClients g) k = Some ci"
    using assms(1) by (auto simp: lookup_defs split: option.splits)
  have "(GetImeData_bind (ci_bindImeData ci) s = None \<longleftrightarrow> r = ERROR_IME_NOT_STARTED) \<and>
      r \<in> {NO_ERROR, ERROR_IME_NOT_STARTED, ERROR_KBD_HIDE_FAILED}"
    using assms by (auto simp: HideKeyboard_def split: option.splits prod.splits if_splits)
  moreover have "if r = NO_ERROR then client_of gid (Some k) t = Some (ci\<lparr>ci_isShowKeyboard := False\<rparr>) \<and>
       current_of gid t = current_of gid s \<and> inactive_of gid t = inactive_of gid s
     else ss_groups t = ss_groups s"
    using wp_runD [OF HideKeyboard_groups assms(2)] g
    by (auto simp: lookup_defs map_of_map_entry map_of_UpdateClientInfo update_one_def split: if_splits)
  ultimately show ?thesis by blast
qed

theorem HideKeyboard_correct_witness:
  "map_option ci_isShowKeyboard (client_of 0 (Some 5) (snd (run_state (HideKeyboard env0 (Some 5) 0) attached0))) = Some False"
proof -
  let ?ci = "the (client_of 0 (Some 5) attached0)" and ?m = "HideKeyboard env0 (Some 5) 0"
  have c: "client_of 0 (Some 5) attached0 = Some ?ci" "fst (run_state ?m attached0) = NO_ERROR" by code_simp+
  from HideKeyboard_correct [OF c(1) prod.collapse [symmetric], of env0] show ?thesis unfolding c(2) by simp
qed

section \<open>Focus\<close>

text \<open>When the window focus moves away from the current client, under scene board the client becomes
  the inactive client: it is not current any more, but stays registered, in state \<open>INACTIVE\<close>; without
  scene board it is removed.\<close>

theorem OnFocused_correct:
  assumes "GetClientGroup_display E displayId s = Some gid" "map_of (ss_groups s) gid = Some g"
    "cg_currentClient g = Some k" "map_of (cg_mapClients g) k = Some ci"
    "e_focusInfo E (ss_log s) displayId = (fp, fu)" "fp > 0" "fu > 0"
    "\<not> IsCurClientFocused (focus_query E s) fp fu g" "run_state (OnFocused E displayId p u) s = (v, t)"
  shows "current_of gid t = None \<and>
    (if e_bool E (ss_log s) QIsSceneBoardEnabled
     then inactive_of gid t = Some k \<and> client_of gid (Some k) t = Some (ci\<lparr>ci_state := INACTIVE\<rparr>)
     else client_of gid (Some k) t = None)"
proof -
  let ?f = "if e_bool E (ss_log s) QIsSceneBoardEnabled then deactivate k else detach k"
  have "wp (OnFocused E displayId p u) (\<lambda>_ t. ss_groups t = AList.map_entry gid ?f (ss_groups s)) s"
    using assms(1-8)
    by (auto simp: OnFocused_def wp_simps ask_def lookups_Some [OF assms(2)]
        intro!: wp_RemoveClient wp_quiets wp_conseq [OF DeactivateClient_groups])
  from current_of_map_entry [OF assms(2) wp_runD [OF this assms(9)]] assms(3,4) show ?thesis
    by (auto simp: deactivate_fields detach_fields)
qed

theorem OnFocused_correct_witness:
  "let t = snd (run_state (OnFocused env0 0 99 99) attached0) in
   current_of 0 t = None \<and> inactive_of 0 t = Some 5 \<and> map_option ci_state (client_of 0 (Some 5) t) = Some INACTIVE"
proof -
  let ?g = "the (map_of (ss_groups attached0) 0)" and ?ci = "the (client_of 0 (Some 5) attached0)"
  have a: "GetClientGroup_display env0 0 attached0 = Some 0" "map_of (ss_groups attached0) 0 = Some ?g"
    "cg_currentClient ?g = Some 5" "map_of (cg_mapClients ?g) 5 = Some ?ci"
    "e_focusInfo env0 (ss_log attached0) 0 = (99, 99)" "(99::int) > 0" "(99::int) > 0"
    "\<not> IsCurClientFocused (focus_query env0 attached0) 99 99 ?g" by code_simp+
  have sb: "e_bool env0 (ss_log attached0) QIsSceneBoardEnabled" by code_simp
  from OnFocused_correct [OF a prod.collapse [symmetric], of 99 99] sb show ?thesis by (simp add: Let_def)
qed

lemma remove_current_effect:
  "wp (remove_current E gid) (\<lambda>_ t. \<forall>gid'. current_of gid' t = (if gid' = gid then None else current_of gid' s)) s"
proof (cases "current_of gid s")
  case None
  then show ?thesis
    by (auto simp: remove_current_def wp_simps lookup_defs split: prod.splits intro!: wp_quiets)
next
  case (Some k)
  then obtain g where g: "map_of (ss_groups s) gid = Some g" "cg_currentClient g = Some k"
    by (auto simp: lookup_defs split: option.splits)
  have "wp (remove_current E gid) (\<lambda>_ t. ss_groups t = AList.map_entry gid (detach k) (ss_groups s)) s"
    using Some by (auto simp: remove_current_def wp_simps split: prod.splits intro!: wp_quiets wp_RemoveClient)
  then show ?thesis
    by (rule wp_conseq) (auto simp: g detach_fields lookup_defs map_of_map_entry)
qed

lemma remove_each_current:
  "wp (for_each gids (remove_current E))
     (\<lambda>_ t. \<forall>gid. current_of gid t = (if gid \<in> set gids then None else current_of gid s)) s"
proof (induction gids arbitrary: s)
  case (Cons gid gids)
  show ?case unfolding for_each.simps wp_bind
    by (rule wp_conseq [OF remove_current_effect], rule wp_conseq [OF Cons.IH]) auto
qed (simp add: wp_simps)

text \<open>\<open>RemoveAllCurrentClient\<close> leaves no group with a current client; it fails only when there is no
  group.\<close>

theorem RemoveAllCurrentClient_correct:
  "case run_state (RemoveAllCurrentClient E) s of (r, t) \<Rightarrow>
     (\<forall>gid. current_of gid t = None) \<and> r = (if ss_groups s = [] then ERROR_CLIENT_NULL_POINTER else NO_ERROR)"
proof -
  have none: "current_of gid s = None" if "gid \<notin> set (map fst (ss_groups s))" for gid
    using that by (simp add: lookup_defs map_of_eq_None_iff [THEN iffD2] split: option.split)
  have "wp (RemoveAllCurrentClient E) (\<lambda>r t. (\<forall>gid. current_of gid t = None) \<and>
      r = (if ss_groups s = [] then ERROR_CLIENT_NULL_POINTER else NO_ERROR)) s"
  proof (cases "ss_groups s = []")
    case True
    then show ?thesis by (simp add: RemoveAllCurrentClient_def wp_simps lookup_defs)
  next
    case False
    then show ?thesis
      by (simp add: RemoveAllCurrentClient_def wp_bind wp_gets)
        (rule wp_conseq [OF remove_each_current], use none in \<open>auto simp: wp_return\<close>)
  qed
  then show ?thesis by (simp add: wp_def)
qed

end
