(* ===== verification/Ime_Correct.thy ===== *)
theory Ime_Correct
  imports Client_Correct
begin

text \<open>
  What the life cycle operations achieve: the event table, requests around the state manager,
  starting and stopping the process, its connection and its death, the limits on restarts, and
  the proxies of a display.
\<close>

section \<open>The event table\<close>

text \<open>The event table is total, so that \<open>GetImeAction\<close> never fails on existing data. A stop event always
  leads to exiting, a start timeout does so from starting, connecting leads from starting to
  ready, and nothing else changes the status; in particular an exiting input method never
  becomes ready again.\<close>

theorem GetImeAction_status:
  "case run_state (GetImeAction ev) s of (act, t) \<Rightarrow>
     (case ss_real s of None \<Rightarrow> act = DO_ACTION_IN_NULL_IME_DATA \<and> t = s
      | Some d \<Rightarrow> act \<notin> {DO_ACTION_IN_NULL_IME_DATA, DO_ACTION_IN_IME_EVENT_CONVERT_FAILED} \<and>
          ss_real t = Some (d\<lparr>im_status :=
            (if ev = STOP_IME then EXITING
             else if ev = START_IME_TIMEOUT \<and> im_status d = STARTING then EXITING
             else if ev = SET_CORE_AND_AGENT \<and> im_status d = STARTING then READY
             else im_status d)\<rparr>))"
proof (cases "ss_real s")
  case (Some d)
  then show ?thesis
    by (cases ev; cases "im_status d") (auto simp: GetImeAction_def imeEventConverter_def)
qed (simp add: GetImeAction_def)

section \<open>Requests\<close>

lemma live_manager_real: "ss_real s = Some d \<Longrightarrow> live_manager d' s = im_stateManager d"
  by (simp add: live_manager_def)

lemma run_put_manager: "run_state (put_manager m) s =
   ((), s\<lparr>ss_real := map_option (\<lambda>r. r\<lparr>im_stateManager := Some m\<rparr>) (ss_real s)\<rparr>)"
  by (simp add: put_manager_def)

lemma run_emit: "run_state (emit ev) s = ((), s\<lparr>ss_log := ev # ss_log s\<rparr>)"
  by (simp add: emit_def)

lemma run_bind: "run_state (m \<bind> f) s = run_state (f (fst (run_state m s))) (snd (run_state m s))"
  by (simp add: split_def)

lemma run_act_all: "run_state (act_all as) s = ((), s\<lparr>ss_log := rev (map StateAct as) @ ss_log s\<rparr>)"
  by (induction as arbitrary: s) (simp_all add: act_all_def run_emit)

lemma run_ipc:
  assumes "ss_real s = Some d"
  shows "run_state (before_ipc E t m) s = ((), s\<lparr>ss_real := Some (d\<lparr>im_stateManager := Some (snd (BeforeIpc (e_hasHandler E) t m))\<rparr>),
       ss_log := rev (map StateAct (fst (BeforeIpc (e_hasHandler E) t m))) @ ss_log s\<rparr>)"
    "run_state (after_ipc E t r m) s = ((), s\<lparr>ss_real := Some (d\<lparr>im_stateManager := Some (snd (AfterIpc (e_hasHandler E) t (r = NO_ERROR) m))\<rparr>),
       ss_log := rev (map StateAct (fst (AfterIpc (e_hasHandler E) t (r = NO_ERROR) m))) @ ss_log s\<rparr>)"
  using assms by (simp_all add: before_ipc_def after_ipc_def run_put_manager run_act_all)

lemma run_core_ipc:
  "im_core d = Some k \<Longrightarrow> run_state (core_ipc E d c) s = (e_int E (ss_log s) (CoreIpc k c), s\<lparr>ss_log := CoreIpc k c # ss_log s\<rparr>)"
  by (simp add: core_ipc_def call_def run_emit)

text \<open>A request that is sent: what it does to the session, in terms of the two halves of the manager's work.\<close>

lemma RequestIme_sent:
  fixes s :: session
  assumes "ss_real s = Some d" "IsRealIme d" "im_core d = Some k" "im_stateManager d = Some m" "IsIpcNeeded q m"
    "mb = snd (BeforeIpc (e_hasHandler E) q m)" "before = rev (map StateAct (fst (BeforeIpc (e_hasHandler E) q m)))"
    "r = e_int E (before @ ss_log s) (CoreIpc k c)"
  shows "run_state (RequestIme E (Some d) q (core_ipc E d c)) s = (r,
    s\<lparr>ss_real := Some (d\<lparr>im_stateManager := Some (snd (AfterIpc (e_hasHandler E) q (r = NO_ERROR) mb))\<rparr>),
      ss_log := rev (map StateAct (fst (AfterIpc (e_hasHandler E) q (r = NO_ERROR) mb))) @ CoreIpc k c # before @ ss_log s\<rparr>)"
  using assms(1-5)
  by (simp add: RequestIme_def live_manager_def run_ipc run_core_ipc assms(6-8))

text \<open>The contract of a request as a client of the session sees it: a start or a request to show puts the input
  method in use iff it succeeds, a stop ends the use, a request to hide ends it iff it succeeds, anything else
  leaves it as it is.\<close>

fun use_after :: "request_type \<Rightarrow> bool \<Rightarrow> bool \<Rightarrow> bool" where
  "use_after START_INPUT ok u = ok"
| "use_after REQUEST_SHOW ok u = ok"
| "use_after STOP_INPUT ok u = False"
| "use_after REQUEST_HIDE ok u = (u \<and> \<not> ok)"
| "use_after NORMAL ok u = u"

lemma ipc_use: "sm_isImeInUse (snd (AfterIpc h q ok (snd (BeforeIpc h q m)))) = use_after q ok (sm_isImeInUse m)"
  by (cases q) (auto simp: AfterIpc_inUse BeforeIpc_inUse)

lemma BeforeIpc_actions:
  "\<not> sm_isFrozen m \<Longrightarrow> fst (BeforeIpc h q m) = []"
  "sm_isFrozen m \<Longrightarrow> h \<Longrightarrow> ReportRss False (sm_pid m) (sm_uid m) \<in> set (fst (BeforeIpc h q m))"
  by (auto simp: BeforeIpc_def Let_def ControlIme_def FreezeManager_ControlIme_def ImeLifecycleManager_ControlIme_def
      split: manager_kind.split)

lemma AfterIpc_actions:
  assumes "\<not> sm_isFrozen m"
  shows "sm_isImeInUse (snd (AfterIpc h q ok m)) \<Longrightarrow> fst (AfterIpc h q ok m) = []"
    "\<not> sm_isImeInUse (snd (AfterIpc h q ok m)) \<Longrightarrow> h \<Longrightarrow> \<exists>name delay x. PostTask name delay x \<in> set (fst (AfterIpc h q ok m))"
  using assms
  by (auto simp: AfterIpc_def Let_def ControlIme_def FreezeManager_ControlIme_def ImeLifecycleManager_ControlIme_def
      split: manager_kind.splits if_splits)

text \<open>C8. A request to the real input method implements the contract \<open>use_after\<close>, when its manager is settled, that is
  frozen exactly when not in use. A request to hide an input method that is not in use is not sent: it succeeds and
  the session does not change. Every other request is sent exactly once and returns the input method's answer; of the
  session it changes the log and the manager of that input method only. The manager keeps its kind, pid and uid, its
  use is that of the contract with the outcome of the call, and it is settled again. With an event handler, an input
  method that was not in use is reported as started before it is called, one that was is called at once; afterwards
  nothing is done while it is in use, and a delayed stop is posted when it is not.\<close>

theorem RequestIme_refines:
  assumes "ss_real s = Some d" "IsRealIme d" "im_core d = Some k" "im_stateManager d = Some m" "sm_isFrozen m = (\<not> sm_isImeInUse m)"
    "run_state (RequestIme E (Some d) q (core_ipc E d c)) s = (r, u)"
  shows "if q = REQUEST_HIDE \<and> \<not> sm_isImeInUse m then r = NO_ERROR \<and> u = s
    else \<exists>m' before after. r = e_int E (before @ ss_log s) (CoreIpc k c) \<and>
      u = s\<lparr>ss_real := Some (d\<lparr>im_stateManager := Some m'\<rparr>), ss_log := after @ CoreIpc k c # before @ ss_log s\<rparr> \<and>
      sm_kind m' = sm_kind m \<and> sm_pid m' = sm_pid m \<and> sm_uid m' = sm_uid m \<and>
      sm_isImeInUse m' = use_after q (r = NO_ERROR) (sm_isImeInUse m) \<and> sm_isFrozen m' = (\<not> sm_isImeInUse m') \<and>
      (if sm_isImeInUse m then before = []
       else e_hasHandler E \<longrightarrow> StateAct (ReportRss False (sm_pid m) (sm_uid m)) \<in> set before) \<and>
      (if sm_isImeInUse m' then after = []
       else e_hasHandler E \<longrightarrow> (\<exists>name delay x. StateAct (PostTask name delay x) \<in> set after))"
proof (cases "IsIpcNeeded q m")
  case False
  with assms show ?thesis by (simp add: RequestIme_def live_manager_real IsIpcNeeded_def)
next
  case True
  let ?h = "e_hasHandler E" let ?mb = "snd (BeforeIpc ?h q m)" let ?m = "snd (AfterIpc ?h q (r = NO_ERROR) ?mb)"
  let ?before = "rev (map StateAct (fst (BeforeIpc ?h q m)))" and ?after = "rev (map StateAct (fst (AfterIpc ?h q (r = NO_ERROR) ?mb)))"
  have run: "r = e_int E (?before @ ss_log s) (CoreIpc k c)"
    "u = s\<lparr>ss_real := Some (d\<lparr>im_stateManager := Some ?m\<rparr>), ss_log := ?after @ CoreIpc k c # ?before @ ss_log s\<rparr>"
    using RequestIme_sent [OF assms(1-4) True refl refl refl, where E = E and c = c] assms(6) by auto
  have before: "if sm_isImeInUse m then ?before = [] else ?h \<longrightarrow> StateAct (ReportRss False (sm_pid m) (sm_uid m)) \<in> set ?before"
    using BeforeIpc_actions [of m ?h q] assms(5) by auto
  have after: "if sm_isImeInUse ?m then ?after = [] else ?h \<longrightarrow> (\<exists>name delay x. StateAct (PostTask name delay x) \<in> set ?after)"
    using AfterIpc_actions [of ?mb ?h q "r = NO_ERROR"] by fastforce
  have "\<not> (q = REQUEST_HIDE \<and> \<not> sm_isImeInUse m)" using True by (simp add: IsIpcNeeded_def)
  then show ?thesis
    by (simp only: if_False, intro exI [of _ ?m] exI [of _ ?before] exI [of _ ?after] conjI run before after)
      (simp_all add: ipc_use)
qed

theorem RequestIme_refines_witness:
  "let r = run_state (RequestIme env0 (Some real0) REQUEST_SHOW (core_ipc env0 real0 (ShowKeyboard_ipc 0))) session0 in
   fst r = NO_ERROR \<and> (\<exists>m before. ss_real (snd r) = Some (real0\<lparr>im_stateManager := Some m\<rparr>) \<and> sm_isImeInUse m \<and> \<not> sm_isFrozen m \<and>
     ss_log (snd r) = CoreIpc 7 (ShowKeyboard_ipc 0) # before @ ss_log session0 \<and> StateAct (ReportRss False 50 51) \<in> set before)"
proof -
  let ?r = "run_state (RequestIme env0 (Some real0) REQUEST_SHOW (core_ipc env0 real0 (ShowKeyboard_ipc 0))) session0"
  let ?m = "CreateImeStateManager False 50 51"
  have a: "ss_real session0 = Some real0" "IsRealIme real0" "im_core real0 = Some 7" "im_stateManager real0 = Some ?m"
    "sm_isFrozen ?m = (\<not> sm_isImeInUse ?m)" by code_simp+
  have m: "\<not> sm_isImeInUse ?m" "sm_pid ?m = 50" "sm_uid ?m = 51" by code_simp+
  have r: "fst ?r = NO_ERROR" "e_hasHandler env0" by code_simp+
  from RequestIme_refines [OF a prod.collapse [symmetric], where E = env0 and q = REQUEST_SHOW and c = "ShowKeyboard_ipc 0"] r m
  show ?thesis by (force simp: Let_def)
qed

text \<open>A hide request to an input method that is not in use is not sent: the session does not change.\<close>

theorem RequestIme_no_hide:
  assumes "ss_real s = Some d" "IsRealIme d" "im_stateManager d = Some m" "\<not> IsImeInUse m"
  shows "run_state (RequestIme E (Some d) REQUEST_HIDE exec) s = (NO_ERROR, s)"
  using assms by (simp add: RequestIme_def live_manager_real IsIpcNeeded_def IsImeInUse_def)

theorem RequestIme_no_hide_witness:
  "run_state (RequestIme env0 (Some real0) REQUEST_HIDE (core_ipc env0 real0 HideKeyboard_ipc)) session0 = (NO_ERROR, session0)"
proof -
  have a: "ss_real session0 = Some real0" "IsRealIme real0"
    "im_stateManager real0 = Some (CreateImeStateManager False 50 51)"
    "\<not> IsImeInUse (CreateImeStateManager False 50 51)" by code_simp+
  show ?thesis by (rule RequestIme_no_hide [OF a])
qed

text \<open>What a request to all input methods returns is what the bound input method answers: the answer
  of the mirror is ignored.\<close>

theorem RequestAllIme_result:
  assumes "mirror_ok (ss_mirror s)" "\<not> IsImeMirror d"
  shows "fst (run_state (RequestAllIme E (Some d) q method gid) s) = fst (run_state (RequestIme E (Some d) q (method d)) s)"
  using assms
  by (auto simp: RequestAllIme_def mirror_ok_def IsImeMirror_def split: option.split prod.split)

theorem RequestAllIme_result_witness:
  "fst (run_state (RequestAllIme env0 (Some real0) NORMAL (\<lambda>x. core_ipc env0 x HideKeyboard_ipc) 0)
     (session0\<lparr>ss_mirror := Some (real0\<lparr>im_type := IME_MIRROR, im_core := Some 9\<rparr>)\<rparr>)) = NO_ERROR"
proof -
  let ?s = "session0\<lparr>ss_mirror := Some (real0\<lparr>im_type := IME_MIRROR, im_core := Some 9\<rparr>)\<rparr>"
  have a: "mirror_ok (ss_mirror ?s)" by (simp add: mirror_ok_def real0_def complete_def new_ime_data_def)
  have b: "\<not> IsImeMirror real0" by code_simp
  have "fst (run_state (RequestIme env0 (Some real0) NORMAL (core_ipc env0 real0 HideKeyboard_ipc)) ?s) = NO_ERROR"
    by code_simp
  then show ?thesis
    using RequestAllIme_result [OF a b, of env0 NORMAL "\<lambda>x. core_ipc env0 x HideKeyboard_ipc" 0] by simp
qed

section \<open>Starting and stopping\<close>

text \<open>Starting the input method that already runs and is ready, without being asked to stop it first,
  succeeds and changes nothing.\<close>

theorem StartIme_ready_noop:
  assumes "e_bool E (ss_log s) QTryLock" "ss_real s = Some d" "im_status d = READY"
    "im_ime d = (nc_bundleName i, nc_extName i)"
  shows "run_state (StartIme E (Some i) False) s = (NO_ERROR, s)"
proof -
  have "d\<lparr>im_status := READY\<rparr> = d" "s\<lparr>ss_real := Some d\<rparr> = s" using assms(2,3) by simp_all
  with assms show ?thesis
    by (simp add: StartIme_def ask_def GetRealImeData_def StartCurrentIme_ime_def GetImeAction_def imeEventConverter_def)
qed

theorem StartIme_ready_noop_witness: "run_state (StartIme env0 (Some cfg0) False) session0 = (NO_ERROR, session0)"
proof -
  have a: "e_bool env0 (ss_log session0) QTryLock" "ss_real session0 = Some real0" "im_status real0 = READY"
    "im_ime real0 = (nc_bundleName cfg0, nc_extName cfg0)" by code_simp+
  show ?thesis by (rule StartIme_ready_noop [OF a])
qed

text \<open>When \<open>ForceStopCurrentIme\<close> reports success, the data of the real input method is gone, whatever other
  threads did while it waited. Without waiting, the only other outcomes are its two errors.\<close>

theorem ForceStopCurrentIme_success:
  "case run_state (ForceStopCurrentIme E w) s of (r, t) \<Rightarrow>
     (r = NO_ERROR \<longrightarrow> ss_real t = None) \<and>
     r \<in> {NO_ERROR, ERROR_IMSA_IME_DISCONNECT_FAILED} \<union>
       (if w then {ERROR_IMSA_FORCE_STOP_IME_TIMEOUT} else {ERROR_IMSA_IME_START_MORE_THAN_EIGHT_SECOND})"
  by (auto simp: ForceStopCurrentIme_def GetRealImeData_def RemoveRealImeData_def ask_def split: option.splits prod.splits)

theorem ForceStopCurrentIme_success_witness: "ss_real (snd (run_state (ForceStopCurrentIme env0 True) session0)) = None"
proof -
  have "fst (run_state (ForceStopCurrentIme env0 True) session0) = NO_ERROR" by code_simp
  with ForceStopCurrentIme_success [where E = env0 and w = True and s = session0] show ?thesis by (simp add: split_def)
qed

lemma GetWant_names [simp]: "w_bundleName (GetWant E i s) = nc_bundleName i" "w_abilityName (GetWant E i s) = nc_extName i"
  by (simp_all add: GetWant_def Let_def)

lemma GetWant_frame [simp]:
  "GetWant E i (s\<lparr>ss_real := x\<rparr>) = GetWant E i s" "GetWant E i (s\<lparr>ss_isImeStarted := b\<rparr>) = GetWant E i s"
  by (simp_all add: GetWant_def)

text \<open>The first start of an input method on an unlocked device, without waiting for it: either the
  connection is refused and no data is left, or the data of the requested input method is in place,
  in status \<open>STARTING\<close>, and the request to connect to it is the last thing that left the session.\<close>

theorem StartInputService_first:
  assumes "e_screenLockMgr E" "\<not> IsDeviceLockAndScreenLocked E s" "ss_real s = None" "e_bool E (ss_log s) QAlloc"
    "run_state (StartInputService E (Some i) False) s = (r, t)"
  shows "r = ERROR_IMSA_IME_CONNECT_FAILED \<and> ss_real t = None \<or>
    r = ERROR_IMSA_IME_START_TIMEOUT \<and> (\<exists>d. ss_real t = Some d \<and> im_ime d = (nc_bundleName i, nc_extName i) \<and>
      im_status d = STARTING \<and> im_type d = IME \<and> im_privateCommand d = nc_privateCommand i \<and>
      hd (ss_log t) = ConnectExtensionAbility (GetWant E i s) (im_connection d))"
  using assms
  by (auto simp: StartInputService_def ChangeToDefaultImeIfNeed_def InitRealImeData_def ask_def call_def emit_def
      new_ime_data_def RemoveRealImeData_def drop_death_def split: if_splits)

theorem StartInputService_first_witness:
  "let t = snd (run_state (StartInputService env0 (Some cfg0) False) (new_session 100 '''')) in
   \<exists>d. ss_real t = Some d \<and> im_ime d = (''b'', ''e'') \<and> im_status d = STARTING"
proof -
  let ?s = "new_session 100 ''''"
  have a: "e_screenLockMgr env0" "\<not> IsDeviceLockAndScreenLocked env0 ?s" "ss_real ?s = None"
    "e_bool env0 (ss_log ?s) QAlloc" by code_simp+
  have r: "fst (run_state (StartInputService env0 (Some cfg0) False) ?s) = ERROR_IMSA_IME_START_TIMEOUT" by code_simp
  have c: "(nc_bundleName cfg0, nc_extName cfg0) = (''b'', ''e'')" by code_simp
  from StartInputService_first [OF a prod.collapse [symmetric], of cfg0] r c show ?thesis by (auto simp: Let_def)
qed

text \<open>In a build without the screen lock manager, \<open>ChangeToDefaultImeIfNeed\<close> returns before it has set the
  input method to start: the service then asks for a connection to an ability with an empty
  name, whichever input method was requested.\<close>

theorem StartInputService_empty_name:
  assumes "\<not> e_screenLockMgr E" "ss_real s = None" "e_bool E (ss_log s) QAlloc"
    "run_state (StartInputService E (Some i) False) s = (r, t)"
  shows "\<exists>w c. ConnectExtensionAbility w c \<in> set (ss_log t) \<and> w_bundleName w = '''' \<and> w_abilityName w = ''''"
proof -
  have names: "nc_bundleName empty_native_cfg = ''''" "nc_extName empty_native_cfg = ''''"
    by (simp_all add: empty_native_cfg_def)
  have "ConnectExtensionAbility (GetWant E empty_native_cfg s) (Some (length (ss_log s))) \<in> set (ss_log t)"
    using assms
    by (auto simp: StartInputService_def ChangeToDefaultImeIfNeed_def InitRealImeData_def ask_def call_def emit_def
        new_ime_data_def RemoveRealImeData_def drop_death_def split: if_splits)
  with names show ?thesis by (metis GetWant_names)
qed

theorem StartInputService_empty_name_witness:
  "let t = snd (run_state (StartInputService (env0\<lparr>e_screenLockMgr := False\<rparr>) (Some cfg0) False) (new_session 100 '''')) in
   \<exists>w c. ConnectExtensionAbility w c \<in> set (ss_log t) \<and> w_bundleName w = '''' \<and> w_abilityName w = ''''"
proof -
  let ?s = "new_session 100 ''''" and ?E = "env0\<lparr>e_screenLockMgr := False\<rparr>"
  have a: "\<not> e_screenLockMgr ?E" "ss_real ?s = None" "e_bool ?E (ss_log ?s) QAlloc" by code_simp+
  from StartInputService_empty_name [OF a prod.collapse [symmetric], of cfg0] show ?thesis by (simp add: Let_def)
qed

section \<open>Connection and death\<close>

lemma other_InitChannel: "other_frame (InitInputControlChannel E)"
  unfolding InitInputControlChannel_def by (intro frame_intros)

lemma other_clear_reason: "other_frame (ClearRequestKeyboardReason gid c)"
  unfolding ClearRequestKeyboardReason_def by (rule other_upd_client)

text \<open>The fields of the real input method's data that requests leave alone.\<close>

definition identity :: "ime_data \<Rightarrow> pid_t \<times> pid_t \<times> ime_type \<times> ime_status \<times> robj option \<times> robj option" where
  "identity d = (im_pid d, im_uid d, im_type d, im_status d, im_core d, im_agent d)"

lemma other_view_identity: "other_view s = other_view t \<Longrightarrow> map_option identity (ss_real s) = map_option identity (ss_real t)"
proof -
  assume "other_view s = other_view t"
  then have "map_option identity (map_option strip (ss_real s)) = map_option identity (map_option strip (ss_real t))"
    by (simp add: other_view_def)
  then show ?thesis by (simp add: option.map_comp comp_def identity_def [abs_def] strip_def)
qed

text \<open>C34. When the starting input method connects with its core and agent and the death recipient can be
  added, it is ready: the session holds its pid, core and agent, and the start that waits for it is
  told so.\<close>

theorem OnSetCoreAndAgent_ready:
  assumes "ss_real s = Some d" "im_status d = STARTING" "e_bool E (ss_log s) QAlloc"
    "e_bool E (ss_log s) (QCoreDeathAdded core)"
    "run_state (OnSetCoreAndAgent E (Some core) (Some agent) pid uid) s = (r, t)"
  shows "r = NO_ERROR \<and> ss_isImeStarted t \<and>
    map_option identity (ss_real t) = Some (pid, uid, IME, READY, Some core, Some agent)"
proof -
  let ?rest = "\<lambda>data. do {
         InitInputControlChannel E;
         needBind \<leftarrow> gets (\<lambda>s. GetAttachCount s = 0 \<and> \<not> ss_attachFailedByUnavailableIme s);
         gc \<leftarrow> gets GetCurrentClientBoundRealIme;
         when_do needBind (case gc of None \<Rightarrow> ret ()
           | Some (gid, ci) \<Rightarrow> do {
             ClearRequestKeyboardReason gid (ci_client ci);
             ci' \<leftarrow> gets (client_of gid (ci_client ci));
             void (BindClientWithIme E ci' data False) }) }"
  have frame: "other_frame (?rest data)" for data
    by (intro frame_intros other_InitChannel other_clear_reason)
  obtain d' s' where s': "run_state (OnSetCoreAndAgent E (Some core) (Some agent) pid uid) s =
      run_state (do { ?rest (Some d'); modify (\<lambda>s. s\<lparr>ss_isImeStarted := True\<rparr>); ret NO_ERROR }) s'"
    "map_option identity (ss_real s') = Some (pid, uid, IME, READY, Some core, Some agent)"
    using assms(1-4)
    by (simp add: OnSetCoreAndAgent_def UpdateRealImeData_def FillImeData_def ask_def emit_def GetImeAction_def
        imeEventConverter_def Let_def identity_def)
  let ?t = "snd (run_state (?rest (Some d')) s')"
  have "(r, t) = (NO_ERROR, ?t\<lparr>ss_isImeStarted := True\<rparr>)"
    using assms(5) s'(1) by (simp only: run_bind [of "?rest (Some d')"]) simp
  moreover have "map_option identity (ss_real ?t) = map_option identity (ss_real s')"
    by (rule other_view_identity [OF frames_run [OF frame]])
  ultimately show ?thesis using s'(2) by simp
qed

text \<open>A session whose input method is being started.\<close>

definition ime_starting0 :: session where
  "ime_starting0 = snd (run_state (StartIme env0 (Some cfg0) False) (new_session 100 ''''))"

theorem OnSetCoreAndAgent_ready_witness:
  "let t = snd (run_state (OnSetCoreAndAgent env0 (Some 7) (Some 8) 50 51) ime_starting0) in
   ss_isImeStarted t \<and> map_option identity (ss_real t) = Some (50, 51, IME, READY, Some 7, Some 8)"
proof -
  let ?s = ime_starting0
  let ?d = "the (ss_real ?s)"
  have a: "ss_real ?s = Some ?d" "im_status ?d = STARTING" "e_bool env0 (ss_log ?s) QAlloc"
    "e_bool env0 (ss_log ?s) (QCoreDeathAdded 7)" by code_simp+
  from OnSetCoreAndAgent_ready [OF a prod.collapse [symmetric], of 8 50 51] show ?thesis by (simp add: Let_def)
qed

text \<open>Dropping the death recipient and dropping the data, field by field.\<close>

lemma drop_death_fields [simp]:
  "ss_real (snd (run_state (drop_death d) s)) = ss_real s" "ss_mirror (snd (run_state (drop_death d) s)) = ss_mirror s"
  "ss_proxy (snd (run_state (drop_death d) s)) = ss_proxy s" "ss_groups (snd (run_state (drop_death d) s)) = ss_groups s"
  by (simp_all add: drop_death_def run_emit split: option.split)

lemma frames_drop_death_proxy: "frames ss_proxy (drop_death d)" "frames ss_groups (drop_death d)"
    "frames ss_real (drop_death d)" "frames ss_mirror (drop_death d)"
  by (simp_all add: frames_def)

lemma RemoveProxyImeData_pid_fields:
  "ss_real (snd (run_state (RemoveProxyImeData_pid p) s)) = ss_real s"
  "ss_mirror (snd (run_state (RemoveProxyImeData_pid p) s)) = ss_mirror s"
  "ss_groups (snd (run_state (RemoveProxyImeData_pid p) s)) = ss_groups s"
  "ss_proxy (snd (run_state (RemoveProxyImeData_pid p) s)) = erase_proxy p (ss_proxy s)"
proof -
  let ?m = "for_each (ss_proxy s) (\<lambda>kl. case List.find (\<lambda>d. im_pid d = p) (snd kl) of None \<Rightarrow> ret () | Some d \<Rightarrow> drop_death d)"
  have "frames ss_real ?m" "frames ss_mirror ?m" "frames ss_groups ?m" "frames ss_proxy ?m"
    by (intro frame_intros frames_drop_death_proxy)+
  note this [THEN frames_run, of s]
  then show "ss_real (snd (run_state (RemoveProxyImeData_pid p) s)) = ss_real s"
    "ss_mirror (snd (run_state (RemoveProxyImeData_pid p) s)) = ss_mirror s"
    "ss_groups (snd (run_state (RemoveProxyImeData_pid p) s)) = ss_groups s"
    "ss_proxy (snd (run_state (RemoveProxyImeData_pid p) s)) = erase_proxy p (ss_proxy s)"
    by (simp_all add: RemoveProxyImeData_pid_def split_def)
qed

lemma RemoveImeData_fields:
  "ss_real (snd (run_state (RemoveImeData p) s)) = (case ss_real s of None \<Rightarrow> None | Some d \<Rightarrow> if im_pid d = p then None else Some d)"
  "ss_mirror (snd (run_state (RemoveImeData p) s)) = (case ss_mirror s of None \<Rightarrow> None | Some d \<Rightarrow> if im_pid d = p then None else Some d)"
  "ss_groups (snd (run_state (RemoveImeData p) s)) = ss_groups s"
  "ss_proxy (snd (run_state (RemoveImeData p) s)) = erase_proxy p (ss_proxy s)"
  by (cases "ss_real s"; cases "ss_mirror s"; simp add: RemoveImeData_def RemoveRealImeData_pid_def
      RemoveMirrorImeData_def run_emit split_def RemoveProxyImeData_pid_fields)+

text \<open>Once its process is gone, an input method cannot be found under its pid any more, whichever kind it
  was; the client groups do not change.\<close>

theorem RemoveImeData_correct:
  assumes "proxy_ok (ss_proxy s)" "run_state (RemoveImeData pid) s = ((), t)"
  shows "GetImeData pid ty t = None \<and> ss_groups t = ss_groups s"
proof -
  have "find_proxy pid (erase_proxy pid m) = None" if "\<forall>l \<in> snd ` set m. proxies_ok l" for m
    using that
  proof (induction pid m rule: erase_proxy.induct)
    case (2 p k l m)
    then have "List.find (\<lambda>d. im_pid d = p) (erase_pid p l) = None"
      by (auto simp: find_None_iff proxies_ok_def dest: erase_pid_absent)
    with 2 show ?case by simp
  qed simp
  moreover have "\<forall>l \<in> snd ` set (ss_proxy s). proxies_ok l"
    using assms(1) by (auto simp: proxy_ok_def omap_ok_distinct)
  ultimately show ?thesis
    using assms(2) RemoveImeData_fields [of pid s]
    by (cases ty) (auto simp: GetImeData_def GetRealImeData_pid_def GetMirrorImeData_pid_def GetProxyImeData_pid_def
        split: option.splits)
qed

theorem RemoveImeData_correct_witness:
  "GetImeData 50 IME session0 \<noteq> None \<and> GetImeData 50 IME (snd (run_state (RemoveImeData 50) session0)) = None"
proof -
  have "proxy_ok (ss_proxy session0)" using real0_inv by (simp add: session_inv_def imes_ok_def)
  note RemoveImeData_correct [OF this, of 50 "snd (run_state (RemoveImeData 50) session0)" IME]
  moreover have "GetImeData 50 IME session0 \<noteq> None" by code_simp
  ultimately show ?thesis by (simp add: prod_eq_iff)
qed

text \<open>When an input method that was told to stop dies after its connection was closed, its data goes, the
  special input type it stood for ends, and the thread that waits for the switch is released; no
  client group changes, so that the client stays current for the input method that follows.\<close>

theorem OnImeDied_exiting:
  assumes "ss_real s = Some d" "im_pid d = pid" "im_status d = EXITING" "im_isDisconnected d"
    "run_state (OnImeDied E (Some remote) IME pid) s = ((), t)"
  shows "ss_real t = None \<and> \<not> ss_isSwitching t \<and> \<not> it_isStarted (ss_itm t) \<and> ss_groups t = ss_groups s"
proof -
  have "run_state (WaitImeExtExit E IME pid) s = (True, s)"
    using assms(1,2,4) by (simp add: WaitImeExtExit_def numeral_eq_Suc IsImeDisconnected_def)
  with assms RemoveImeData_fields [of pid "s\<lparr>ss_isBlockStartedByLowMem := False, ss_disconnectedByRss := False\<rparr>"]
  show ?thesis
    by (auto simp: OnImeDied_def GetImeData_def GetRealImeData_pid_def upd_itm_def NotifyImeStopFinished_def Set_def
        run_bind simp del: run_state_bind)
qed

theorem OnImeDied_exiting_witness:
  "ss_real (snd (run_state (OnImeDied env0 (Some 7) IME 50)
     (attached0\<lparr>ss_real := Some (real0\<lparr>im_status := EXITING, im_isDisconnected := True\<rparr>)\<rparr>))) = None"
proof -
  let ?d = "real0\<lparr>im_status := EXITING, im_isDisconnected := True\<rparr>"
  have a: "ss_real (attached0\<lparr>ss_real := Some ?d\<rparr>) = Some ?d" "im_pid ?d = 50" "im_status ?d = EXITING" "im_isDisconnected ?d"
    by (simp_all add: real0_def)
  from OnImeDied_exiting [OF a, of env0 7] show ?thesis by (simp add: prod_eq_iff)
qed

section \<open>Limits\<close>

text \<open>The answers to a sequence of requests, each in the environment of its moment.\<close>

fun limit_answers :: "senv list \<Rightarrow> time_limit_type \<Rightarrow> int \<Rightarrow> u32 \<Rightarrow> session \<Rightarrow> int list" where
  "limit_answers [] t w n s = []"
| "limit_answers (E # Es) t w n s =
     (case run_state (IsRequestOverLimit E t w n) s of (r, s') \<Rightarrow> r # limit_answers Es t w n s')"

lemma limit_answers_counting:
  assumes "map_of (ss_managers s) t = Some (c, t0)" "unat c + length Es < 2 ^ 32"
    "\<forall>E \<in> set Es. \<forall>l. e_seconds E l - t0 \<le> w"
  shows "limit_answers Es t w n s =
    map (\<lambda>i. if unat c + i + 1 > unat n then ERROR_REQUEST_RATE_EXCEEDED else NO_ERROR) [0..<length Es]"
  using assms
proof (induction Es arbitrary: s c)
  case (Cons E Es)
  let ?s = "s\<lparr>ss_managers := AList.update t (c + 1, t0) (ss_managers s)\<rparr>"
  have c: "unat (c + 1) = unat c + 1" using Cons.prems(2) by (simp add: unat_word_ariths)
  have le: "e_seconds E (ss_log s) - t0 \<le> w" using Cons.prems(3) by simp
  then have "run_state (IsRequestOverLimit E t w n) s =
      (if c + 1 > n then ERROR_REQUEST_RATE_EXCEEDED else NO_ERROR, ?s)"
    using Cons.prems(1) by (simp add: IsRequestOverLimit_def)
  moreover have "limit_answers Es t w n ?s =
      map (\<lambda>i. if unat (c + 1) + i + 1 > unat n then ERROR_REQUEST_RATE_EXCEEDED else NO_ERROR) [0..<length Es]"
    using Cons.prems c by (intro Cons.IH) (auto simp: AList.update_conv)
  moreover have "[0..<length (E # Es)] = 0 # map Suc [0..<length Es]"
    by (simp only: length_Cons map_Suc_upt upt_conv_Cons [of 0 "Suc (length Es)"] zero_less_Suc)
  ultimately show ?case using c by (simp add: word_less_nat_alt)
qed simp

text \<open>The rate limit: in a window that starts with a request after a pause longer than the reset time,
  exactly the first \<open>n\<close> requests are let through and every later one is refused, as long as the window
  is no longer than the reset time and the 32-bit count does not wrap.\<close>

theorem IsRequestOverLimit_window:
  assumes "\<forall>l. e_seconds E l = t0" "\<forall>F \<in> set Es. \<forall>l. e_seconds F l - t0 \<le> w"
    "t0 - (case map_of (ss_managers s) t of None \<Rightarrow> 0 | Some m \<Rightarrow> snd m) > w"
    "length Es + 1 < 2 ^ 32" "0 < n"
  shows "limit_answers (E # Es) t w n s =
    replicate (min (unat n) (length Es + 1)) NO_ERROR @ replicate (length Es + 1 - unat n) ERROR_REQUEST_RATE_EXCEEDED"
proof -
  let ?s = "s\<lparr>ss_managers := AList.update t (1, t0) (ss_managers s)\<rparr>"
  have "\<not> (1 > n)" using assms(5) by (simp add: word_less_nat_alt unat_gt_0 not_less Suc_le_eq)
  moreover have "e_seconds E (ss_log s) = t0" using assms(1) by blast
  ultimately have "run_state (IsRequestOverLimit E t w n) s = (NO_ERROR, ?s)"
    using assms(3) by (cases "map_of (ss_managers s) t") (auto simp: IsRequestOverLimit_def Let_def)
  moreover have "limit_answers Es t w n ?s =
      map (\<lambda>i. if unat (1 :: u32) + i + 1 > unat n then ERROR_REQUEST_RATE_EXCEEDED else NO_ERROR) [0..<length Es]"
    using assms by (intro limit_answers_counting) (auto simp: AList.update_conv)
  ultimately have "limit_answers (E # Es) t w n s =
      NO_ERROR # map (\<lambda>i. if i + 2 > unat n then ERROR_REQUEST_RATE_EXCEEDED else NO_ERROR) [0..<length Es]" (is "_ = ?l")
    by simp
  moreover have "0 < unat n" using assms(5) by (simp add: word_less_nat_alt)
  then have "?l = replicate (min (unat n) (length Es + 1)) NO_ERROR @
      replicate (length Es + 1 - unat n) ERROR_REQUEST_RATE_EXCEEDED"
    by (intro nth_equalityI) (auto simp: nth_append nth_Cons' min_def)
  ultimately show ?thesis by simp
qed

theorem IsRequestOverLimit_window_witness:
  "limit_answers (replicate 5 (env0\<lparr>e_seconds := \<lambda>_. 100\<rparr>)) IME_LIMIT 3 3 session0 = [0, 0, 0, 91, 91]"
proof -
  let ?E = "env0\<lparr>e_seconds := \<lambda>_. 100\<rparr>"
  have "map_of (ss_managers session0) IME_LIMIT = None" by code_simp
  with IsRequestOverLimit_window [of ?E 100 "replicate 4 ?E" 3 session0 IME_LIMIT 3]
  have "limit_answers (?E # replicate 4 ?E) IME_LIMIT 3 3 session0 = replicate 3 0 @ replicate 2 91" by simp
  moreover have "?E # replicate 4 ?E = replicate 5 ?E" by (simp add: numeral_eq_Suc)
  moreover have "replicate 3 0 @ replicate 2 91 = [0, 0, 0, 91, 91 :: int]" by (simp add: numeral_eq_Suc)
  ultimately show ?thesis by simp
qed

text \<open>The number of attaches in progress never exceeds its bound, and below it a finished attach undoes
  the count of its beginning: nothing wraps around.\<close>

theorem attach_count_roundtrip:
  assumes "ss_attachingCount s \<le> MAX_ATTACH_COUNT" "run_state IncreaseAttachCount s = ((), t)"
    "run_state DecreaseAttachCount t = ((), u)"
  shows "GetAttachCount t \<le> MAX_ATTACH_COUNT \<and> GetAttachCount t \<noteq> 0 \<and>
    (ss_attachingCount s \<noteq> MAX_ATTACH_COUNT \<longrightarrow> u = s)"
proof (cases "ss_attachingCount s = MAX_ATTACH_COUNT")
  case True
  with assms(2) show ?thesis by (auto simp: IncreaseAttachCount_def GetAttachCount_def)
next
  case False
  with assms(1) have lt: "ss_attachingCount s < MAX_ATTACH_COUNT" by simp
  then have n: "unat (ss_attachingCount s + 1) = unat (ss_attachingCount s) + 1"
    by (simp add: word_less_nat_alt unat_word_ariths)
  then have c: "ss_attachingCount s + 1 \<noteq> 0" "ss_attachingCount s + 1 \<le> MAX_ATTACH_COUNT"
    using lt by (auto simp: word_less_nat_alt word_le_nat_alt)
  have "t = s\<lparr>ss_attachingCount := ss_attachingCount s + 1\<rparr>"
    using assms(2) lt [folded not_le] by (simp add: IncreaseAttachCount_def del: not_le)
  with c assms(3) show ?thesis by (auto simp: DecreaseAttachCount_def GetAttachCount_def)
qed

theorem attach_count_roundtrip_witness:
  "snd (run_state DecreaseAttachCount (snd (run_state IncreaseAttachCount session0))) = session0"
proof -
  have "ss_attachingCount session0 = 0" by code_simp
  then show ?thesis
    using attach_count_roundtrip [of session0 "snd (run_state IncreaseAttachCount session0)"
        "snd (run_state DecreaseAttachCount (snd (run_state IncreaseAttachCount session0)))"]
    by (simp add: prod_eq_iff)
qed

section \<open>Guards\<close>

text \<open>The idle disconnect never takes the input method away from anyone: unless the session is left untouched,
  the input method is not starting, no attach is in progress and no current client is bound to it;
  and then its own connection is closed and nothing else happens.\<close>

theorem TryDisconnectIme_safe:
  "case run_state (TryDisconnectIme E) s of (r, t) \<Rightarrow>
     t = s \<and> r \<noteq> NO_ERROR \<or>
     (\<exists>d. ss_real s = Some d \<and> im_status d \<noteq> STARTING \<and> GetAttachCount s = 0 \<and> GetCurrentClientBoundRealIme s = None \<and>
        t = s\<lparr>ss_log := DisconnectAbility (im_connection d) # ss_log s\<rparr> \<and> r \<in> {NO_ERROR, ERROR_IMSA_IME_DISCONNECT_FAILED})"
  by (cases "ss_real s"; cases "GetCurrentClientBoundRealIme s")
    (simp_all add: TryDisconnectIme_def GetRealImeData_def ask_def call_def emit_def)

theorem TryDisconnectIme_safe_witness:
  "snd (run_state (TryDisconnectIme env0) attached0) = attached0 \<and>
   ss_log (snd (run_state (TryDisconnectIme env0) session0)) = [DisconnectAbility (Some 0)]"
proof -
  have "fst (run_state (TryDisconnectIme env0) attached0) \<noteq> NO_ERROR"
    "fst (run_state (TryDisconnectIme env0) attached0) \<noteq> ERROR_IMSA_IME_DISCONNECT_FAILED" by code_simp+
  moreover have "fst (run_state (TryDisconnectIme env0) session0) = NO_ERROR" "ss_real session0 = Some real0"
    "im_connection real0 = Some 0" "ss_log session0 = []" by code_simp+
  ultimately show ?thesis
    using TryDisconnectIme_safe [where E = env0 and s = attached0] TryDisconnectIme_safe [where E = env0 and s = session0]
    by (auto simp: split_def)
qed

text \<open>On a locked device only the default input method is started: every connection that \<open>StartInputService\<close>
  asks for goes to the default input method's bundle, whichever input method was requested, as long
  as other threads log nothing while it waits.\<close>

theorem StartInputService_locked:
  assumes "e_screenLockMgr E" "IsDeviceLockAndScreenLocked E s" "e_cfg E (ss_log s) DefaultImeCfg = Some dflt"
    "\<forall>u. ss_log (e_interfere E u) = ss_log u"
    "run_state (StartInputService E (Some i) w) s = (r, t)" "ConnectExtensionAbility x c \<in> set (ss_log t)"
  shows "w_bundleName x = nc_bundleName dflt \<or> ConnectExtensionAbility x c \<in> set (ss_log s)"
proof -
  obtain i' s' where c: "run_state (ChangeToDefaultImeIfNeed E i) s = ((NO_ERROR, i'), s')"
    "nc_bundleName i' = nc_bundleName dflt" "ss_real s' = ss_real s"
    "\<And>x c. ConnectExtensionAbility x c \<in> set (ss_log s') \<longleftrightarrow> ConnectExtensionAbility x c \<in> set (ss_log s)"
  proof (cases "nc_bundleName dflt = nc_bundleName i")
    case True
    with assms(1-3) show ?thesis by (intro that [of i s]) (simp_all add: ChangeToDefaultImeIfNeed_def ask_cfg_def)
  next
    case False
    with assms(1-3) show ?thesis
      by (intro that [of dflt "s\<lparr>ss_log := SetTmpImeEv (nc_imeId dflt) # ss_log s\<rparr>"])
        (simp_all add: ChangeToDefaultImeIfNeed_def ask_cfg_def emit_def)
  qed
  have "ConnectExtensionAbility x c \<in> set (ss_log s') \<or> w_bundleName x = nc_bundleName i'"
    using assms(4,5,6) c(1)
    by (cases "ss_real s'")
      (auto simp: StartInputService_def InitRealImeData_def ask_def call_def emit_def RemoveRealImeData_def
        drop_death_def new_ime_data_def wait_for_def split: if_splits)
  with c show ?thesis by auto
qed

definition is_connect :: "event \<Rightarrow> bool" where
  "is_connect ev = (case ev of ConnectExtensionAbility _ _ \<Rightarrow> True | _ \<Rightarrow> False)"

lemma is_connect_log: "list_ex is_connect l \<Longrightarrow> \<exists>x c. ConnectExtensionAbility x c \<in> set l"
proof -
  assume "list_ex is_connect l"
  then obtain ev where "ev \<in> set l" "is_connect ev" by (auto simp: list_ex_iff)
  then show ?thesis by (induction ev rule: event.induct) (auto simp: is_connect_def)
qed

theorem StartInputService_locked_witness:
  "let E = env0\<lparr>e_bool := \<lambda>_ _. True\<rparr>; s = new_session 100 '''';
       t = snd (run_state (StartInputService E (Some (cfg0\<lparr>nc_bundleName := ''other''\<rparr>)) True) s) in
   \<exists>x c. ConnectExtensionAbility x c \<in> set (ss_log t) \<and> w_bundleName x = ''b''"
proof -
  let ?E = "env0\<lparr>e_bool := \<lambda>_ _. True\<rparr>" and ?s = "new_session 100 ''''" and ?i = "cfg0\<lparr>nc_bundleName := ''other''\<rparr>"
  let ?t = "snd (run_state (StartInputService ?E (Some ?i) True) ?s)"
  have a: "e_screenLockMgr ?E" "IsDeviceLockAndScreenLocked ?E ?s" "e_cfg ?E (ss_log ?s) DefaultImeCfg = Some cfg0"
    "nc_bundleName cfg0 = ''b''" by code_simp+
  have b: "\<forall>u. ss_log (e_interfere ?E u) = ss_log u" by (simp add: env0_def)
  have "list_ex is_connect (ss_log ?t)" "ss_log ?s = []" by code_simp+
  then obtain x c where "ConnectExtensionAbility x c \<in> set (ss_log ?t)" "ss_log ?s = []"
    using is_connect_log by blast
  with StartInputService_locked [OF a(1-3) b prod.collapse [symmetric]] a(4) show ?thesis by (auto simp: Let_def)
qed

text \<open>A password field gets the security input method: when the current client of the real input method edits
  a password, no other special type is in use and the configuration, not yet read, names a security
  input method that is installed, that is the one to start, and working this out has no outside effect.\<close>

theorem GetRealCurrentIme_secure:
  assumes "\<not> it_isStarted (ss_itm s)" "types_ok (ss_itm s)" "\<not> it_isTypeCfgReady (ss_itm s)"
    "GetCurrentClientBoundRealIme s = Some (gid, ci)" "GetSecurityFlag (ci_attribute ci)"
    "e_inputTypeCfg E = Some cs" "List.find (\<lambda>c. iti_type c = SECURITY_INPUT) cs = Some c"
    "e_imeProperty E (ss_log s) (iti_bundleName c) = Some ext"
    "run_state (GetRealCurrentIme E b) s = (r, t)"
  shows "r = Some (empty_native_cfg\<lparr>nc_imeId := iti_bundleName c @ ''/'' @ ext, nc_bundleName := iti_bundleName c,
      nc_subName := iti_subName c, nc_extName := ext\<rparr>) \<and> ss_log t = ss_log s \<and> ss_groups t = ss_groups s"
proof -
  have "map_of (insert_configs cs (it_inputTypes (ss_itm s))) SECURITY_INPUT =
      Some \<lparr>ii_bundleName = iti_bundleName c, ii_subName = iti_subName c\<rparr>"
    using assms(2,3,7) by (simp add: map_of_insert_configs types_ok_def)
  with assms(1-6) obtain m where m: "GetImeByInputType (e_inputTypeCfg E) SECURITY_INPUT no_ime (ss_itm s) =
      (NO_ERROR, \<lparr>ii_bundleName = iti_bundleName c, ii_subName = iti_subName c\<rparr>, m)"
    by (simp add: GetImeByInputType_def cfg_ready_def Init_def types_ok_def Let_def)
  have "run_state (client_ime E ci) s = (Some (empty_native_cfg\<lparr>nc_imeId := iti_bundleName c @ ''/'' @ ext,
      nc_bundleName := iti_bundleName c, nc_subName := iti_subName c, nc_extName := ext\<rparr>), s\<lparr>ss_itm := m\<rparr>)"
    using assms(5,8) m by (simp add: client_ime_def itm_query_def upd_itm_def GetImeNativeCfg_def)
  with assms(1,4,9) show ?thesis
    by (auto simp: GetRealCurrentIme_def GetInputTypeToStart_def)
qed

theorem GetRealCurrentIme_secure_witness:
  "let E = env0\<lparr>e_inputTypeCfg := Some [\<lparr>iti_type = SECURITY_INPUT, iti_bundleName = ''sec'', iti_subName = ''s''\<rparr>],
             e_imeProperty := \<lambda>_ _. Some ''ext''\<rparr>;
       ci = (client0 5 11)\<lparr>ci_config := (ci_config (client0 5 11))\<lparr>tc_inputAttribute := attr0\<lparr>ia_inputPattern := PATTERN_PASSWORD\<rparr>\<rparr>\<rparr>;
       s = after [PrepareInput ci, StartInput ci] session0 in
   map_option nc_bundleName (fst (run_state (GetRealCurrentIme E True) s)) = Some ''sec''"
proof -
  let ?c = "\<lparr>iti_type = SECURITY_INPUT, iti_bundleName = ''sec'', iti_subName = ''s''\<rparr>"
  let ?E = "env0\<lparr>e_inputTypeCfg := Some [?c], e_imeProperty := \<lambda>_ _. Some ''ext''\<rparr>"
  let ?ci = "(client0 5 11)\<lparr>ci_config := (ci_config (client0 5 11))\<lparr>tc_inputAttribute := attr0\<lparr>ia_inputPattern := PATTERN_PASSWORD\<rparr>\<rparr>\<rparr>"
  let ?s = "after [PrepareInput ?ci, StartInput ?ci] session0"
  let ?g = "the (GetCurrentClientBoundRealIme ?s)"
  have s: "?s = snd (run_state (OnStartInput env0 ?ci) (snd (run_state (OnPrepareInput env0 ?ci) session0)))"
    by (simp add: after_def handle_def)
  have i: "ss_itm ?s = new_input_type_manager" unfolding s by code_simp
  have a: "\<not> it_isStarted (ss_itm ?s)" "types_ok (ss_itm ?s)" "\<not> it_isTypeCfgReady (ss_itm ?s)"
    unfolding i by (simp_all add: types_ok_new) (simp_all add: new_input_type_manager_def)
  have b: "GetCurrentClientBoundRealIme ?s = Some (fst ?g, snd ?g)" "GetSecurityFlag (ci_attribute (snd ?g))" unfolding s by code_simp+
  have c: "e_inputTypeCfg ?E = Some [?c]" "List.find (\<lambda>c. iti_type c = SECURITY_INPUT) [?c] = Some ?c"
    "e_imeProperty ?E (ss_log ?s) (iti_bundleName ?c) = Some ''ext''" by simp_all
  from GetRealCurrentIme_secure [OF a b c prod.collapse [symmetric], of True] show ?thesis by (simp add: Let_def)
qed

end
