(* ===== verification/Proxy_Correct.thy ===== *)
theory Proxy_Correct
  imports Ime_Correct
begin

text \<open>
  Which input method a client is bound to, and what registering and unregistering proxies and the
  mirror achieves.
\<close>

section \<open>Choosing the input method\<close>

text \<open>The input method chosen for a display is always ready and has its core and agent, and the choice is
  the documented preference: the display's own enabled proxy, else an enabled collaboration proxy of
  the main display, else the real input method; nothing is chosen only if all three are missing.\<close>

theorem GetReadyImeDataToBind_correct:
  assumes "session_inv s"
  shows "case GetReadyImeDataToBind E displayId s of
      Some d \<Rightarrow> complete d \<and> im_status d = READY \<and>
        (im_type d = PROXY_IME \<and> IsEnable E (Some d) displayId s \<or>
         im_type d = IME \<and> ss_real s = Some d \<and>
           (\<forall>p. GetProxyImeData_display displayId s = Some p \<longrightarrow> \<not> IsEnable E (Some p) displayId s))
    | None \<Rightarrow> GetRealImeData True s = None \<and>
        (\<forall>p. GetProxyImeData_display displayId s = Some p \<longrightarrow> \<not> IsEnable E (Some p) displayId s)"
proof -
  have real: "complete d \<and> im_status d = READY \<and> im_type d = IME \<and> ss_real s = Some d" if "GetRealImeData True s = Some d" for d
    using that assms by (auto simp: GetRealImeData_def session_inv_def imes_ok_def real_ok_def split: option.splits if_splits)
  have proxy: "complete d \<and> im_status d = READY \<and> im_type d = PROXY_IME" if "GetProxyImeData_display k s = Some d" for k d
  proof -
    from that obtain l where "map_of (ss_proxy s) k = Some l" "l \<noteq> []" "d = last l"
      by (auto simp: GetProxyImeData_display_def split: option.splits if_splits)
    with assms show ?thesis by (auto simp: session_inv_def imes_ok_def proxy_ok_def proxies_ok_def)
  qed
  have *: "IsEnable E (Some p) displayId s" if "GetProxyImeData_display k s = Some p" "IsEnable E (GetProxyImeData_display k s) displayId s" for k p
    using that by simp
  show ?thesis
    by (cases "GetRealImeData True s"; cases "GetProxyImeData_display displayId s";
        cases "GetProxyImeData_display DEFAULT_DISPLAY_ID s")
      (auto simp: GetReadyImeDataToBind_def Let_def dest: real proxy)
qed

theorem GetReadyImeDataToBind_correct_witness: "GetReadyImeDataToBind env0 0 session0 = Some real0 \<and> complete real0"
proof -
  have r: "GetReadyImeDataToBind env0 0 session0 = Some real0" by code_simp
  with GetReadyImeDataToBind_correct [OF real0_inv, of 0 env0] show ?thesis by simp
qed

section \<open>Registering and unregistering a proxy\<close>

lemma put_proxies_run: "run_state (put_proxies k l) s = ((), s\<lparr>ss_proxy := omap_assign k l (ss_proxy s)\<rparr>)"
  by (simp add: put_proxies_def)

lemma FillImeData_ok:
  assumes "run_state (FillImeData E core agent pid ty d uid) s = ((r, d'), t)" "r = NO_ERROR"
  shows "im_pid d' = pid \<and> im_type d' = ty \<and> im_core d' = core \<and> im_agent d' = agent \<and> ss_proxy t = ss_proxy s"
  using assms by (auto simp: FillImeData_def Let_def ask_def emit_def split: option.splits if_splits)

lemma AddProxyImeData_list_run:
  assumes "run_state (AddProxyImeData_list E k l d) s = (l', t)"
  shows "ss_proxy t = ss_proxy s \<and> (l' = l @ [d] \<or>
    l' = d # l \<and> l \<noteq> [] \<and> \<not> ss_isFirstPreemption s \<and> IsEnable E (Some (last l)) k (s\<lparr>ss_isFirstPreemption := True\<rparr>) \<and>
      \<not> IsEnable E (Some d) k (s\<lparr>ss_isFirstPreemption := True\<rparr>))"
  using assms by (auto simp: AddProxyImeData_list_def split: if_splits)

lemma erase_pid_append: "p \<notin> im_pid ` set l \<Longrightarrow> erase_pid p (l @ d # m) = l @ erase_pid p (d # m)"
  by (induction l) auto

definition proxies_of :: "u64 \<Rightarrow> session \<Rightarrow> ime_data list" where
  "proxies_of k s = (case map_of (ss_proxy s) k of None \<Rightarrow> [] | Some l \<Rightarrow> l)"

lemma AddProxyImeData_new:
  assumes "proxy_ok (ss_proxy s)" "pid \<notin> im_pid ` set (proxies_of k s)"
    "run_state (AddProxyImeData E k core agent pid uid) s = (Some d, t)"
  shows "im_pid d = pid \<and> im_type d = PROXY_IME \<and>
    (\<exists>l'. map_of (ss_proxy t) = (map_of (ss_proxy s))(k \<mapsto> l') \<and> (l' = proxies_of k s @ [d] \<or>
       l' = d # proxies_of k s \<and> proxies_of k s \<noteq> [] \<and> \<not> ss_isFirstPreemption s))"
proof -
  let ?l = "proxies_of k s" let ?s1 = "s\<lparr>ss_proxy := omap_assign k ?l (ss_proxy s)\<rparr>"
  have ok: "omap_ok (ss_proxy s)" using assms(1) by (simp add: proxy_ok_def)
  have nf: "List.find (\<lambda>d. im_pid d = pid) ?l = None" using assms(2) by (auto simp: find_None_iff)
  obtain r d' u l' v where
    f: "run_state (FillImeData E core agent pid PROXY_IME new_ime_data uid) ?s1 = ((r, d'), u)" and r: "r = NO_ERROR" and
    a: "run_state (AddProxyImeData_list E k ?l d') u = (l', v)" and
    t: "d' = d" "t = v\<lparr>ss_proxy := omap_assign k l' (ss_proxy v)\<rparr>"
    using assms(3) nf
    by (auto simp: AddProxyImeData_def proxies_of_def put_proxies_run split: if_splits prod.splits)
  have p: "ss_proxy v = omap_assign k ?l (ss_proxy s)" "ss_isFirstPreemption u = ss_isFirstPreemption s"
    using FillImeData_ok [OF f r] AddProxyImeData_list_run [OF a] f
    by (auto simp: FillImeData_def Let_def ask_def emit_def split: option.splits if_splits)
  have "map_of (ss_proxy t) = (map_of (ss_proxy s))(k \<mapsto> l')"
    using t p ok by (simp add: map_of_omap_assign)
  with FillImeData_ok [OF f r] AddProxyImeData_list_run [OF a] p t show ?thesis by auto
qed

lemma RemoveProxyImeData_run:
  assumes "proxy_ok (ss_proxy s)" "map_of (ss_proxy s) k = Some l" "run_state (RemoveProxyImeData k pid) s = (r, t)"
  shows "map_of (ss_proxy t) = (map_of (ss_proxy s))(k := if erase_pid pid l = [] then None else Some (erase_pid pid l))"
  using assms
  by (auto simp: RemoveProxyImeData_def put_proxies_run proxy_ok_def run_bind map_of_omap_assign AList.delete_conv
      simp del: run_state_bind split: if_splits option.splits)

text \<open>A proxy that registers for a display it was not registered for is the one in use from then on (the
  last of the display's list), unless it is the first to preempt another one, which it then may
  follow in line; the proxies of other displays and the older ones of this display keep their order.
  Unregistering it gives every display back exactly the proxies it had.\<close>

theorem proxy_register_roundtrip:
  assumes "session_inv s" "pid \<notin> im_pid ` set (proxies_of k s)" "map_of (ss_proxy s) k \<noteq> Some []"
    "run_state (AddProxyImeData E k core agent pid uid) s = (Some d, t)" "run_state (RemoveProxyImeData k pid) t = (r, u)"
  shows "im_pid d = pid \<and> (GetProxyImeData_display k t = Some d \<or> \<not> ss_isFirstPreemption s \<and> proxies_of k t = d # proxies_of k s) \<and>
    map_of (ss_proxy u) = map_of (ss_proxy s)"
proof -
  obtain l' where d: "im_pid d = pid" and l': "map_of (ss_proxy t) = (map_of (ss_proxy s))(k \<mapsto> l')"
    "l' = proxies_of k s @ [d] \<or> l' = d # proxies_of k s \<and> proxies_of k s \<noteq> [] \<and> \<not> ss_isFirstPreemption s"
    using AddProxyImeData_new [OF _ assms(2,4)] assms(1) by (auto simp: session_inv_def imes_ok_def)
  have "session_inv t" using preserves_run [OF inv_AddProxyImeData assms(1), of E k core agent pid uid] assms(4) by simp
  then have t: "proxy_ok (ss_proxy t)" by (simp add: session_inv_def imes_ok_def)
  have "erase_pid pid l' = proxies_of k s"
    using l'(2) d assms(2) by (auto simp: erase_pid_append)
  with RemoveProxyImeData_run [OF t _ assms(5), of l'] l'(1) assms(3)
  have "map_of (ss_proxy u) = map_of (ss_proxy s)"
    by (auto simp: fun_eq_iff proxies_of_def split: option.splits)
  with d l' show ?thesis by (auto simp: GetProxyImeData_display_def proxies_of_def)
qed

theorem proxy_register_roundtrip_witness:
  "let t = snd (run_state (AddProxyImeData env0 0 (Some 20) (Some 21) 60 61) session0) in
   ss_proxy t \<noteq> [] \<and> map_of (ss_proxy (snd (run_state (RemoveProxyImeData 0 60) t))) = map_of (ss_proxy session0)"
proof -
  let ?m = "AddProxyImeData env0 0 (Some 20) (Some 21) 60 61"
  let ?t = "snd (run_state ?m session0)" and ?d = "the (fst (run_state ?m session0))"
  have f: "fst (run_state ?m session0) = Some ?d" "ss_proxy session0 = []" "ss_proxy ?t \<noteq> []" by code_simp+
  then have a: "60 \<notin> im_pid ` set (proxies_of 0 session0)" "map_of (ss_proxy session0) 0 \<noteq> Some []"
    by (simp_all add: proxies_of_def)
  have r: "run_state ?m session0 = (Some ?d, ?t)" using f by (simp add: prod_eq_iff)
  from proxy_register_roundtrip [OF real0_inv a r prod.collapse [symmetric]] f(3) show ?thesis by (simp add: Let_def)
qed

section \<open>The mirror\<close>

lemma RemoveMirrorImeData_fields:
  "ss_mirror (snd (run_state (RemoveMirrorImeData p) s)) = (case ss_mirror s of None \<Rightarrow> None | Some d \<Rightarrow> if im_pid d = p then None else Some d)"
  "ss_groups (snd (run_state (RemoveMirrorImeData p) s)) = ss_groups s"
  "ss_proxy (snd (run_state (RemoveMirrorImeData p) s)) = ss_proxy s"
  "ss_real (snd (run_state (RemoveMirrorImeData p) s)) = ss_real s"
  by (cases "ss_mirror s"; simp add: RemoveMirrorImeData_def split_def)+

text \<open>Unbinding the mirror by its own process takes it away and touches nobody else: the clients, their
  bindings and the proxies stay, and so does the status of the real input method; the call of any other
  process changes nothing at all.\<close>

theorem OnUnbindImeMirror_correct:
  assumes "ss_mirror s = Some d" "run_state (OnUnbindImeMirror E pid) s = (r, t)"
  shows "r = NO_ERROR \<and> (if im_pid d \<noteq> pid then t = s
    else ss_mirror t = None \<and> ss_groups t = ss_groups s \<and> ss_proxy t = ss_proxy s \<and>
      map_option im_status (ss_real t) = map_option im_status (ss_real s))"
proof (cases "im_pid d = pid")
  case False
  with assms show ?thesis by (simp add: OnUnbindImeMirror_def)
next
  case True
  let ?stop = "\<lambda>ci. do { (case ci_client ci of None \<Rightarrow> ret () | Some k \<Rightarrow> void (client_ipc E k (OnImeMirrorStop_ipc (im_agent d))));
      StopImeInput E (Some d) (Some ci) 0 (- 1) }"
  have "quiet (?stop ci)" for ci by (intro frame_intros)
  then have q: "quiet_view (snd (run_state (?stop ci) s)) = quiet_view s" for ci by (rule frames_run)
  obtain u where u: "quiet_view u = quiet_view s" and t: "(r, t) = (NO_ERROR, snd (run_state (RemoveMirrorImeData pid) u))"
  proof (cases "GetCurrentClientInfo_s E DEFAULT_DISPLAY_ID s")
    case None
    with True assms that [OF refl] show ?thesis by (simp add: OnUnbindImeMirror_def split_def)
  next
    case (Some gci)
    with True assms have "(r, t) = (NO_ERROR, snd (run_state (RemoveMirrorImeData pid) (snd (run_state (?stop (snd gci)) s))))"
      by (cases gci) (simp add: OnUnbindImeMirror_def split_def)
    with that [OF q] show ?thesis by blast
  qed
  with True assms(1) quiet_view_eqD [OF u] show ?thesis by (simp add: RemoveMirrorImeData_fields)
qed

theorem OnUnbindImeMirror_correct_witness:
  "ss_mirror (snd (run_state (OnUnbindImeMirror env0 70)
     (attached0\<lparr>ss_mirror := Some (real0\<lparr>im_type := IME_MIRROR, im_pid := 70\<rparr>)\<rparr>))) = None"
proof -
  let ?d = "real0\<lparr>im_type := IME_MIRROR, im_pid := 70\<rparr>"
  have "ss_mirror (attached0\<lparr>ss_mirror := Some ?d\<rparr>) = Some ?d" by simp
  from OnUnbindImeMirror_correct [OF this prod.collapse [symmetric], of env0 70] show ?thesis by simp
qed

end
