(* ===== verification/Task_Manager.thy ===== *)
theory Task_Manager
  imports Imf_Global
begin

text \<open>
  The task manager of an input method engine (\<open>frameworks/native/inputmethod_ability\<close>:
  \<open>task_manager.cpp\<close>, \<open>tasks/task.cpp\<close>, \<open>actions/action.h\<close>, \<open>actions/action_wait.h\<close>). Tasks come from
  four sources and are lists of actions; an action runs a callback or waits for a resume message.
  One task is current, and while it waits it is paused. Everything runs on one thread, the event
  handler's: a posted task or message is a queue entry there, taken out when its delay is over.

  What a callback does is code of the engine; as far as the manager is concerned it is a list of
  calls to the manager, given by the parameter \<open>F\<close>. The log records which callbacks ran.
\<close>

section \<open>Data\<close>

datatype running_state = RUNNING_STATE_IDLE | RUNNING_STATE_RUNNING | RUNNING_STATE_PAUSED
  | RUNNING_STATE_COMPLETED | RUNNING_STATE_ERROR

datatype source_type = SOURCE_TYPE_AMS | SOURCE_TYPE_IMA | SOURCE_TYPE_IMSA | SOURCE_TYPE_INNER

datatype task_type = TASK_TYPE_AMS_INIT | TASK_TYPE_IMA_SHOW_PANEL | TASK_TYPE_IMA_HIDE_PANEL
  | TASK_TYPE_IMSA_START_INPUT | TASK_TYPE_IMSA_STOP_INPUT | TASK_TYPE_IMSA_SHOW_KEYBOARD
  | TASK_TYPE_IMSA_HIDE_KEYBOARD | TASK_TYPE_IMSA_CLIENT_INACTIVE | TASK_TYPE_IMSA_INIT_INPUT_CTRL_CHANNEL
  | TASK_TYPE_IMSA_CURSOR_UPDATE | TASK_TYPE_IMSA_SEND_PRIVATE_COMMAND | TASK_TYPE_IMSA_SELECTION_CHANGE
  | TASK_TYPE_IMSA_ATTRIBUTE_CHANGE | TASK_TYPE_IMSA_STOP_INPUT_SERVICE | TASK_TYPE_IMSA_SET_SUBPROPERTY
  | TASK_TYPE_IMSA_SET_CORE_AND_AGENT | TASK_TYPE_IMSA_ADJUST_KEYBOARD | TASK_TYPE_IMSA_DISCARD_TYPING_TEXT
  | TASK_TYPE_IMSA_ON_FUNCTION_KEY | TASK_TYPE_IMSA_DISPLAYID_CHANGED | TASK_TYPE_IMSA_WINDOWID_CHANGED
  | TASK_TYPE_IMSA_HIDE_CANDIDATE_PANEL | TASK_TYPE_RESUME

abbreviation ERROR_TASK_MANAGER_PEND_FAILED :: int where
  "ERROR_TASK_MANAGER_PEND_FAILED \<equiv> 27"

text \<open>The body of an action: a function, or a wait with its two ids and callbacks.\<close>

datatype action_body = ActionFunc "nat option" | ActionWait u32 u64 u64 "nat option" "nat option"

record action =
  ac_state :: running_state
  ac_body :: action_body

record task =
  tk_type :: task_type
  tk_state :: running_state
  tk_seqId :: u64
  tk_curAction :: "action option"
  tk_actions :: "action list"
  tk_pendingActions :: "action list"

datatype post = NewTask task u32 | ProcessPost

record task_manager =
  tm_inited :: bool
  tm_curTask :: "task option"
  tm_amsTasks :: "task list"
  tm_imaTasks :: "task list"
  tm_imsaTasks :: "task list"
  tm_innerTasks :: "task list"
  tm_handler :: "post list"          \<comment> \<open>posted to the event handler, not run yet\<close>
  tm_nextSeqId :: u64                \<comment> \<open>the static counter of \<open>GetNextSeqId\<close>\<close>
  tm_log :: "nat list"               \<comment> \<open>callbacks that ran, in order\<close>

definition new_task_manager :: task_manager where
  "new_task_manager = \<lparr>tm_inited = False, tm_curTask = None, tm_amsTasks = [], tm_imaTasks = [], tm_imsaTasks = [],
     tm_innerTasks = [], tm_handler = [], tm_nextSeqId = 1, tm_log = []\<rparr>"

text \<open>The calls a callback can make.\<close>

datatype cb_op = CallPend nat | CallWaitExec u64 u32 nat | CallSetInited bool
  | CallPostTask task_type "nat list" | CallComplete u64 | CallProcessAsync

type_synonym callbacks = "nat \<Rightarrow> cb_op list"

section \<open>Tasks and actions\<close>

fun task_type_value :: "task_type \<Rightarrow> nat" where
  "task_type_value TASK_TYPE_AMS_INIT = 0"
| "task_type_value TASK_TYPE_IMA_SHOW_PANEL = 10000"
| "task_type_value TASK_TYPE_IMA_HIDE_PANEL = 10001"
| "task_type_value TASK_TYPE_IMSA_START_INPUT = 20000"
| "task_type_value TASK_TYPE_IMSA_STOP_INPUT = 20001"
| "task_type_value TASK_TYPE_IMSA_SHOW_KEYBOARD = 20002"
| "task_type_value TASK_TYPE_IMSA_HIDE_KEYBOARD = 20003"
| "task_type_value TASK_TYPE_IMSA_CLIENT_INACTIVE = 20004"
| "task_type_value TASK_TYPE_IMSA_INIT_INPUT_CTRL_CHANNEL = 20005"
| "task_type_value TASK_TYPE_IMSA_CURSOR_UPDATE = 20006"
| "task_type_value TASK_TYPE_IMSA_SEND_PRIVATE_COMMAND = 20007"
| "task_type_value TASK_TYPE_IMSA_SELECTION_CHANGE = 20008"
| "task_type_value TASK_TYPE_IMSA_ATTRIBUTE_CHANGE = 20009"
| "task_type_value TASK_TYPE_IMSA_STOP_INPUT_SERVICE = 20010"
| "task_type_value TASK_TYPE_IMSA_SET_SUBPROPERTY = 20011"
| "task_type_value TASK_TYPE_IMSA_SET_CORE_AND_AGENT = 20012"
| "task_type_value TASK_TYPE_IMSA_ADJUST_KEYBOARD = 20013"
| "task_type_value TASK_TYPE_IMSA_DISCARD_TYPING_TEXT = 20014"
| "task_type_value TASK_TYPE_IMSA_ON_FUNCTION_KEY = 20015"
| "task_type_value TASK_TYPE_IMSA_DISPLAYID_CHANGED = 20016"
| "task_type_value TASK_TYPE_IMSA_WINDOWID_CHANGED = 20017"
| "task_type_value TASK_TYPE_IMSA_HIDE_CANDIDATE_PANEL = 20018"
| "task_type_value TASK_TYPE_RESUME = 20019"

definition GetSourceType :: "task_type \<Rightarrow> source_type" where
  "GetSourceType t =
     (if task_type_value t \<ge> task_type_value TASK_TYPE_AMS_INIT \<and> task_type_value t \<le> task_type_value TASK_TYPE_AMS_INIT
      then SOURCE_TYPE_AMS
      else if task_type_value t \<ge> task_type_value TASK_TYPE_IMA_SHOW_PANEL \<and>
              task_type_value t \<le> task_type_value TASK_TYPE_IMA_HIDE_PANEL
      then SOURCE_TYPE_IMA
      else if task_type_value t \<ge> task_type_value TASK_TYPE_IMSA_START_INPUT \<and>
              task_type_value t \<le> task_type_value TASK_TYPE_IMSA_HIDE_CANDIDATE_PANEL
      then SOURCE_TYPE_IMSA
      else SOURCE_TYPE_INNER)"

definition GetNextSeqId :: "task_manager \<Rightarrow> u64 \<times> task_manager" where
  "GetNextSeqId m = (tm_nextSeqId m, m\<lparr>tm_nextSeqId := tm_nextSeqId m + 1\<rparr>)"

definition new_action :: "action_body \<Rightarrow> action" where
  "new_action b = \<lparr>ac_state = RUNNING_STATE_IDLE, ac_body = b\<rparr>"

definition new_task :: "task_type \<Rightarrow> u64 \<Rightarrow> action list \<Rightarrow> task" where
  "new_task t seqId as = \<lparr>tk_type = t, tk_state = RUNNING_STATE_IDLE, tk_seqId = seqId, tk_curAction = None,
     tk_actions = as, tk_pendingActions = []\<rparr>"

definition TaskResume :: "u64 \<Rightarrow> task" where
  "TaskResume seqId = new_task TASK_TYPE_RESUME seqId []"

abbreviation AMS_INIT_TIMEOUT_MS :: u32 where
  "AMS_INIT_TIMEOUT_MS \<equiv> 15000"

text \<open>\<open>onComplete\<close> stands for \<open>TaskAmsInit::OnComplete\<close>, the callback that sets \<open>inited_\<close>.\<close>

definition TaskAmsInit :: "nat \<Rightarrow> nat \<Rightarrow> task_manager \<Rightarrow> task \<times> task_manager" where
  "TaskAmsInit onComplete onTimeout m =
     (let (seqId, m1) = GetNextSeqId m; (timeoutId, m2) = GetNextSeqId m1 in
      (new_task TASK_TYPE_AMS_INIT seqId
         [new_action (ActionWait AMS_INIT_TIMEOUT_MS seqId timeoutId (Some onComplete) (Some onTimeout))], m2))"

text \<open>\<open>PostTask\<close> with a task that is not null.\<close>

definition PostTask :: "task \<Rightarrow> u32 \<Rightarrow> task_manager \<Rightarrow> u64 \<times> task_manager" where
  "PostTask t delayMs m = (tk_seqId t, m\<lparr>tm_handler := tm_handler m @ [NewTask t delayMs]\<rparr>)"

definition ProcessAsync :: "task_manager \<Rightarrow> task_manager" where
  "ProcessAsync m = m\<lparr>tm_handler := tm_handler m @ [ProcessPost]\<rparr>"

definition Complete :: "u64 \<Rightarrow> task_manager \<Rightarrow> task_manager" where
  "Complete seqId m = snd (PostTask (TaskResume seqId) 0 m)"

definition SetInited :: "bool \<Rightarrow> task_manager \<Rightarrow> task_manager" where
  "SetInited flag m = m\<lparr>tm_inited := flag\<rparr>"

definition IsRunning :: "task \<Rightarrow> bool" where
  "IsRunning t \<longleftrightarrow> tk_state t = RUNNING_STATE_RUNNING"

definition Task_Pend_action :: "action \<Rightarrow> task \<Rightarrow> task" where
  "Task_Pend_action a t = t\<lparr>tk_pendingActions := tk_pendingActions t @ [a]\<rparr>"

text \<open>Pending another task: its actions are spliced to the pending ones, then the two lists are swapped.\<close>

definition Task_Pend_task :: "task \<Rightarrow> task \<Rightarrow> task" where
  "Task_Pend_task other t = t\<lparr>tk_actions := tk_pendingActions t @ tk_actions other, tk_pendingActions := tk_actions t\<rparr>"

definition upd_cur :: "(task \<Rightarrow> task) \<Rightarrow> task_manager \<Rightarrow> task_manager" where
  "upd_cur f m = m\<lparr>tm_curTask := map_option f (tm_curTask m)\<rparr>"

definition Pend :: "action \<Rightarrow> task_manager \<Rightarrow> int \<times> task_manager" where
  "Pend a m = (case tm_curTask m of None \<Rightarrow> (ERROR_TASK_MANAGER_PEND_FAILED, m)
     | Some t \<Rightarrow> if \<not> IsRunning t then (ERROR_TASK_MANAGER_PEND_FAILED, m)
                 else (NO_ERROR, upd_cur (Task_Pend_action a) m))"

definition WaitExec :: "u64 \<Rightarrow> u32 \<Rightarrow> nat \<Rightarrow> task_manager \<Rightarrow> int \<times> task_manager" where
  "WaitExec seqId timeoutMs func m =
     (let (timeoutId, m1) = GetNextSeqId m;
          (r, m2) = Pend (new_action (ActionWait timeoutMs seqId timeoutId None None)) m1 in
      if r \<noteq> NO_ERROR then (r, m2)
      else Pend (new_action (ActionFunc (Some func))) m2)"

fun call_op :: "cb_op \<Rightarrow> task_manager \<Rightarrow> task_manager" where
  "call_op (CallPend f) m = snd (Pend (new_action (ActionFunc (Some f))) m)"
| "call_op (CallWaitExec seqId timeoutMs f) m = snd (WaitExec seqId timeoutMs f m)"
| "call_op (CallSetInited b) m = SetInited b m"
| "call_op (CallPostTask t fs) m = (let (seqId, m1) = GetNextSeqId m in
     snd (PostTask (new_task t seqId (map (\<lambda>f. new_action (ActionFunc (Some f))) fs)) 0 m1))"
| "call_op (CallComplete seqId) m = Complete seqId m"
| "call_op CallProcessAsync m = ProcessAsync m"

definition run_cb :: "callbacks \<Rightarrow> nat option \<Rightarrow> task_manager \<Rightarrow> task_manager" where
  "run_cb F c m = (case c of None \<Rightarrow> m | Some f \<Rightarrow> fold call_op (F f) (m\<lparr>tm_log := tm_log m @ [f]\<rparr>))"

text \<open>The virtual method \<open>Execute\<close>: the first case is \<open>Action::Execute\<close> (\<open>action.h\<close>), the second its override
  \<open>ActionWait::Execute\<close> (\<open>action_wait.h\<close>).\<close>

definition Action_Execute :: "callbacks \<Rightarrow> action \<Rightarrow> task_manager \<Rightarrow> running_state \<times> action \<times> task_manager" where
  "Action_Execute F a m = (case ac_body a of
     ActionFunc f \<Rightarrow>
       if ac_state a \<noteq> RUNNING_STATE_IDLE then (RUNNING_STATE_ERROR, a, m)
       else (RUNNING_STATE_COMPLETED, a\<lparr>ac_state := RUNNING_STATE_COMPLETED\<rparr>, run_cb F f m)
   | ActionWait timeoutMs completeId timeoutId onComplete onTimeout \<Rightarrow>
       (RUNNING_STATE_PAUSED, a\<lparr>ac_state := RUNNING_STATE_PAUSED\<rparr>, snd (PostTask (TaskResume timeoutId) timeoutMs m)))"

definition Action_Resume :: "callbacks \<Rightarrow> u64 \<Rightarrow> action \<Rightarrow> task_manager \<Rightarrow> running_state \<times> action \<times> task_manager" where
  "Action_Resume F seqId a m = (case ac_body a of
     ActionFunc f \<Rightarrow> (ac_state a, a, m)
   | ActionWait timeoutMs completeId timeoutId onComplete onTimeout \<Rightarrow>
       if ac_state a \<noteq> RUNNING_STATE_PAUSED then (RUNNING_STATE_ERROR, a, m)
       else if seqId = completeId
       then (RUNNING_STATE_COMPLETED, a\<lparr>ac_state := RUNNING_STATE_COMPLETED\<rparr>, run_cb F onComplete m)
       else if seqId = timeoutId
       then (RUNNING_STATE_COMPLETED, a\<lparr>ac_state := RUNNING_STATE_COMPLETED\<rparr>, run_cb F onTimeout m)
       else (ac_state a, a, m))"

text \<open>\<open>if (!pendingActions_.empty()) splice, swap\<close>\<close>

definition merge_pending :: "task \<Rightarrow> task" where
  "merge_pending t = (if tk_pendingActions t = [] then t
     else t\<lparr>tk_actions := tk_pendingActions t @ tk_actions t, tk_pendingActions := []\<rparr>)"

text \<open>
  The loop of \<open>Task::ExecuteInner\<close> on the current task. A callback can pend further actions, so the loop
  need not end: then the result is \<open>None\<close>.
\<close>

partial_function (option) exec_loop :: "callbacks \<Rightarrow> task_manager \<Rightarrow> (running_state \<times> task_manager) option" where
  "exec_loop F m = (case tm_curTask m of None \<Rightarrow> Some (RUNNING_STATE_ERROR, m)
     | Some t \<Rightarrow> (case tk_actions t of
         [] \<Rightarrow> Some (RUNNING_STATE_COMPLETED, upd_cur (\<lambda>t. t\<lparr>tk_state := RUNNING_STATE_COMPLETED\<rparr>) m)
       | a # as \<Rightarrow>
         (let (r, a', m1) = Action_Execute F a (upd_cur (\<lambda>t. t\<lparr>tk_curAction := Some a, tk_actions := as\<rparr>) m);
              m2 = upd_cur merge_pending m1 in
          if r = RUNNING_STATE_COMPLETED then exec_loop F (upd_cur (\<lambda>t. t\<lparr>tk_curAction := None\<rparr>) m2)
          else Some (RUNNING_STATE_PAUSED,
                 upd_cur (\<lambda>t. t\<lparr>tk_curAction := Some a', tk_state := RUNNING_STATE_PAUSED\<rparr>) m2))))"

declare exec_loop.simps [code]

definition ExecuteInner :: "callbacks \<Rightarrow> task_manager \<Rightarrow> (running_state \<times> task_manager) option" where
  "ExecuteInner F m = exec_loop F (upd_cur (\<lambda>t. merge_pending (t\<lparr>tk_state := RUNNING_STATE_RUNNING\<rparr>)) m)"

definition Execute :: "callbacks \<Rightarrow> task_manager \<Rightarrow> (running_state \<times> task_manager) option" where
  "Execute F m = (case tm_curTask m of None \<Rightarrow> Some (RUNNING_STATE_ERROR, m)
     | Some t \<Rightarrow> if tk_state t \<noteq> RUNNING_STATE_IDLE then Some (RUNNING_STATE_ERROR, m) else ExecuteInner F m)"

definition Resume :: "callbacks \<Rightarrow> u64 \<Rightarrow> task \<Rightarrow> task_manager \<Rightarrow> (running_state \<times> task_manager) option" where
  "Resume F seqId t m = (case tk_curAction t of None \<Rightarrow> Some (RUNNING_STATE_ERROR, m)
     | Some a \<Rightarrow>
       if tk_state t \<noteq> RUNNING_STATE_PAUSED then Some (RUNNING_STATE_ERROR, m)
       else (let (r, a', m1) = Action_Resume F seqId a m in
         if r = RUNNING_STATE_PAUSED then Some (tk_state t, m1)
         else if r = RUNNING_STATE_COMPLETED
         then ExecuteInner F (upd_cur (\<lambda>t. t\<lparr>tk_curAction := None\<rparr>) m1)
         else Some (RUNNING_STATE_ERROR, m1)))"

text \<open>\<open>curTask_->OnTask(task)\<close>, where \<open>t\<close> is the current task.\<close>

definition OnTask :: "callbacks \<Rightarrow> task \<Rightarrow> task \<Rightarrow> task_manager \<Rightarrow> (running_state \<times> task_manager) option" where
  "OnTask F t other m = (case GetSourceType (tk_type other) of
     SOURCE_TYPE_INNER \<Rightarrow> Resume F (tk_seqId other) t m
   | SOURCE_TYPE_IMA \<Rightarrow> Some (tk_state t, upd_cur (Task_Pend_task other) m)
   | _ \<Rightarrow> Some (tk_state t, m))"

section \<open>Processing\<close>

definition ExecuteCurrentTask :: "callbacks \<Rightarrow> task_manager \<Rightarrow> task_manager option" where
  "ExecuteCurrentTask F m = (case tm_curTask m of None \<Rightarrow> Some m
     | Some t \<Rightarrow> (case Execute F m of None \<Rightarrow> None
       | Some (st, m1) \<Rightarrow>
         Some (if st = RUNNING_STATE_COMPLETED then ProcessAsync (m1\<lparr>tm_curTask := None\<rparr>)
               else if st = RUNNING_STATE_PAUSED then m1
               else m1\<lparr>tm_curTask := None\<rparr>)))"

text \<open>The loop over \<open>innerTasks_\<close>, which is \<open>ts\<close>.\<close>

fun inner_loop :: "callbacks \<Rightarrow> task list \<Rightarrow> task_manager \<Rightarrow> task_manager option" where
  "inner_loop F ts m = (case tm_curTask m of None \<Rightarrow> Some m
     | Some t \<Rightarrow> (case ts of [] \<Rightarrow> Some m
       | task # ts' \<Rightarrow> (case OnTask F t task (m\<lparr>tm_innerTasks := ts'\<rparr>) of None \<Rightarrow> None
         | Some (st, m1) \<Rightarrow>
           if st = RUNNING_STATE_COMPLETED then Some (m1\<lparr>tm_curTask := None, tm_innerTasks := []\<rparr>)
           else if st = RUNNING_STATE_PAUSED then inner_loop F ts' m1
           else Some (m1\<lparr>tm_curTask := None, tm_innerTasks := []\<rparr>))))"

declare inner_loop.simps [simp del]

definition ProcessNextInnerTask :: "callbacks \<Rightarrow> task_manager \<Rightarrow> task_manager option" where
  "ProcessNextInnerTask F m = inner_loop F (tm_innerTasks m) m"

text \<open>
  The loop the other three sources share: while no task is current, the first one of the queue becomes
  current and is executed. \<open>put\<close> stores the rest of the queue.
\<close>

fun run_queue :: "callbacks \<Rightarrow> (task list \<Rightarrow> task_manager \<Rightarrow> task_manager) \<Rightarrow> task list \<Rightarrow> task_manager
    \<Rightarrow> task_manager option" where
  "run_queue F put [] m = Some m"
| "run_queue F put (t # ts) m = (if tm_curTask m \<noteq> None then Some m
     else (case ExecuteCurrentTask F (put ts (m\<lparr>tm_curTask := Some t\<rparr>)) of None \<Rightarrow> None
       | Some m1 \<Rightarrow> run_queue F put ts m1))"

definition ProcessNextAmsTask :: "callbacks \<Rightarrow> task_manager \<Rightarrow> task_manager option" where
  "ProcessNextAmsTask F m =
     (if tm_amsTasks m = [] then Some m
      else if (case tm_curTask m of None \<Rightarrow> False | Some t \<Rightarrow> GetSourceType (tk_type t) = SOURCE_TYPE_AMS) then Some m
      else run_queue F (\<lambda>ts m. m\<lparr>tm_amsTasks := ts\<rparr>) (tm_amsTasks m) (m\<lparr>tm_curTask := None\<rparr>))"

text \<open>While a task is paused, the tasks of the engine's own interface are pended to it one after the other.\<close>

fun pend_loop :: "callbacks \<Rightarrow> task list \<Rightarrow> task \<Rightarrow> task_manager \<Rightarrow> task_manager option" where
  "pend_loop F [] t m = Some m"
| "pend_loop F (x # xs) t m = (case OnTask F t x (m\<lparr>tm_imaTasks := xs\<rparr>) of None \<Rightarrow> None
     | Some (st, m1) \<Rightarrow>
       if st = RUNNING_STATE_COMPLETED then Some (m1\<lparr>tm_curTask := None\<rparr>)
       else (case tm_curTask m1 of None \<Rightarrow> Some m1 | Some t1 \<Rightarrow> pend_loop F xs t1 m1))"

definition ProcessNextImaTask :: "callbacks \<Rightarrow> task_manager \<Rightarrow> task_manager option" where
  "ProcessNextImaTask F m =
     (if tm_imaTasks m = [] then Some m
      else (case (case tm_curTask m of None \<Rightarrow> Some m | Some t \<Rightarrow> pend_loop F (tm_imaTasks m) t m) of None \<Rightarrow> None
        | Some m1 \<Rightarrow> run_queue F (\<lambda>ts m. m\<lparr>tm_imaTasks := ts\<rparr>) (tm_imaTasks m1) m1))"

definition ProcessNextImsaTask :: "callbacks \<Rightarrow> task_manager \<Rightarrow> task_manager option" where
  "ProcessNextImsaTask F m =
     (if \<not> tm_inited m then Some m
      else if tm_curTask m \<noteq> None \<or> tm_imsaTasks m = [] then Some m
      else run_queue F (\<lambda>ts m. m\<lparr>tm_imsaTasks := ts\<rparr>) (tm_imsaTasks m) m)"

definition Process :: "callbacks \<Rightarrow> task_manager \<Rightarrow> task_manager option" where
  "Process F m = Option.bind (Option.bind (Option.bind (ProcessNextInnerTask F m) (ProcessNextAmsTask F))
     (ProcessNextImaTask F)) (ProcessNextImsaTask F)"

definition enqueue :: "task \<Rightarrow> task_manager \<Rightarrow> task_manager" where
  "enqueue t m = (case GetSourceType (tk_type t) of
     SOURCE_TYPE_AMS \<Rightarrow> m\<lparr>tm_amsTasks := tm_amsTasks m @ [t]\<rparr>
   | SOURCE_TYPE_IMA \<Rightarrow> m\<lparr>tm_imaTasks := tm_imaTasks m @ [t]\<rparr>
   | SOURCE_TYPE_IMSA \<Rightarrow> m\<lparr>tm_imsaTasks := tm_imsaTasks m @ [t]\<rparr>
   | SOURCE_TYPE_INNER \<Rightarrow> m\<lparr>tm_innerTasks := tm_innerTasks m @ [t]\<rparr>)"

definition OnNewTask :: "callbacks \<Rightarrow> task \<Rightarrow> task_manager \<Rightarrow> task_manager option" where
  "OnNewTask F t m = Process F (enqueue t m)"

definition Reset :: "task_manager \<Rightarrow> task_manager" where
  "Reset m = m\<lparr>tm_inited := False, tm_curTask := None, tm_innerTasks := [], tm_imaTasks := [], tm_imsaTasks := [],
     tm_amsTasks := []\<rparr>"

text \<open>The event handler runs a posted entry.\<close>

fun run_post :: "callbacks \<Rightarrow> post \<Rightarrow> task_manager \<Rightarrow> task_manager option" where
  "run_post F (NewTask t d) m = OnNewTask F t m"
| "run_post F ProcessPost m = Process F m"

end
