(* ===== verification/Task_Correct.thy ===== *)
theory Task_Correct
  imports Task_Manager
begin

text \<open>
  The task manager as a state machine: which states it can be in between two entries of the event
  handler, that a paused task is always resumed in the end, in which order actions run, and
  when the loop over the actions ends.
\<close>

section \<open>The machine\<close>

definition fresh_action :: "action \<Rightarrow> bool" where
  "fresh_action a \<longleftrightarrow> ac_state a = RUNNING_STATE_IDLE"

definition fresh_task :: "task \<Rightarrow> bool" where
  "fresh_task t \<longleftrightarrow> tk_state t = RUNNING_STATE_IDLE \<and> tk_curAction t = None \<and> tk_pendingActions t = [] \<and>
     list_all fresh_action (tk_actions t)"

text \<open>Other threads post new tasks and messages; the handler runs any of its entries.\<close>

inductive task_step :: "callbacks \<Rightarrow> task_manager \<Rightarrow> task_manager \<Rightarrow> bool" for F where
  post: "fresh_task t \<Longrightarrow> task_step F m (snd (PostTask t d m))"
| complete: "task_step F m (Complete i m)"
| inited: "task_step F m (SetInited b m)"
| seq: "task_step F m (snd (GetNextSeqId m))"
| run: "tm_handler m = xs @ p # ys \<Longrightarrow> run_post F p (m\<lparr>tm_handler := xs @ ys\<rparr>) = Some m' \<Longrightarrow> task_step F m m'"

definition task_reachable :: "callbacks \<Rightarrow> task_manager \<Rightarrow> bool" where
  "task_reachable F = reaches (\<lambda>m. m = new_task_manager) (task_step F)"

section \<open>The invariant\<close>

fun post_ok :: "post \<Rightarrow> bool" where
  "post_ok (NewTask t d) = fresh_task t"
| "post_ok ProcessPost = True"

definition queues_ok :: "task_manager \<Rightarrow> bool" where
  "queues_ok m \<longleftrightarrow> list_all fresh_task (tm_amsTasks m) \<and> list_all fresh_task (tm_imaTasks m) \<and>
     list_all fresh_task (tm_imsaTasks m) \<and> list_all post_ok (tm_handler m) \<and>
     list_all (\<lambda>t. GetSourceType (tk_type t) = SOURCE_TYPE_INNER) (tm_innerTasks m) \<and>
     list_all (\<lambda>t. GetSourceType (tk_type t) = SOURCE_TYPE_IMA) (tm_imaTasks m)"

text \<open>The ids of the resume messages that are still to come.\<close>

definition resume_ids :: "task_manager \<Rightarrow> u64 set" where
  "resume_ids m = {i. \<exists>d. NewTask (TaskResume i) d \<in> set (tm_handler m)}"

definition actions_ok :: "task \<Rightarrow> bool" where
  "actions_ok t \<longleftrightarrow> list_all fresh_action (tk_actions t) \<and> list_all fresh_action (tk_pendingActions t)"

text \<open>A task that waits, with the timeout message among those in \<open>P\<close>.\<close>

definition paused_ok :: "u64 set \<Rightarrow> task \<Rightarrow> bool" where
  "paused_ok P t \<longleftrightarrow> tk_state t = RUNNING_STATE_PAUSED \<and> actions_ok t \<and>
     (\<exists>ms c to oc ot. tk_curAction t = Some \<lparr>ac_state = RUNNING_STATE_PAUSED, ac_body = ActionWait ms c to oc ot\<rparr> \<and> to \<in> P)"

definition task_inv :: "task_manager \<Rightarrow> bool" where
  "task_inv m \<longleftrightarrow> queues_ok m \<and> (\<forall>t. tm_curTask m = Some t \<longrightarrow> paused_ok (resume_ids m) t)"

section \<open>Callbacks\<close>

text \<open>What a callback can do to the manager: post entries, and pend fresh actions to a running task.\<close>

definition extends :: "task_manager \<Rightarrow> task_manager \<Rightarrow> bool" where
  "extends m m' \<longleftrightarrow> tm_amsTasks m' = tm_amsTasks m \<and> tm_imaTasks m' = tm_imaTasks m \<and> tm_imsaTasks m' = tm_imsaTasks m \<and>
     tm_innerTasks m' = tm_innerTasks m \<and> (\<exists>ps. list_all post_ok ps \<and> tm_handler m' = tm_handler m @ ps) \<and>
     (case tm_curTask m of None \<Rightarrow> tm_curTask m' = None
      | Some t \<Rightarrow> \<exists>as. list_all fresh_action as \<and> (\<not> IsRunning t \<longrightarrow> as = []) \<and>
          tm_curTask m' = Some (t\<lparr>tk_pendingActions := tk_pendingActions t @ as\<rparr>))"

lemma fresh_new [simp]: "fresh_action (new_action b)" "fresh_task (new_task t i as) = list_all fresh_action as"
  "fresh_task (TaskResume i)"
  by (simp_all add: fresh_action_def new_action_def fresh_task_def new_task_def TaskResume_def)

lemma no_pend: "\<exists>as. list_all fresh_action as \<and> (\<not> IsRunning t \<longrightarrow> as = []) \<and>
    Some t = Some (t\<lparr>tk_pendingActions := tk_pendingActions t @ as\<rparr>)"
  by (rule exI [of _ "[]"]) simp

lemma extendsI:
  assumes "tm_amsTasks m' = tm_amsTasks m" "tm_imaTasks m' = tm_imaTasks m" "tm_imsaTasks m' = tm_imsaTasks m"
    "tm_innerTasks m' = tm_innerTasks m" "tm_handler m' = tm_handler m @ ps" "list_all post_ok ps" "tm_curTask m' = tm_curTask m"
  shows "extends m m'"
  using assms no_pend by (auto simp: extends_def split: option.split)

lemma extends_refl [simp]: "extends m m"
  by (rule extendsI [where ps = "[]"]) simp_all

lemma extends_trans: "extends m m1 \<Longrightarrow> extends m1 m2 \<Longrightarrow> extends m m2"
proof -
  assume a: "extends m m1" "extends m1 m2"
  obtain ps1 ps2 where "list_all post_ok ps1" "tm_handler m1 = tm_handler m @ ps1" "list_all post_ok ps2"
    "tm_handler m2 = tm_handler m1 @ ps2" using a by (auto simp: extends_def)
  then have "\<exists>ps. list_all post_ok ps \<and> tm_handler m2 = tm_handler m @ ps"
    by (intro exI [of _ "ps1 @ ps2"]) simp
  moreover have "case tm_curTask m of None \<Rightarrow> tm_curTask m2 = None
      | Some t \<Rightarrow> \<exists>as. list_all fresh_action as \<and> (\<not> IsRunning t \<longrightarrow> as = []) \<and>
          tm_curTask m2 = Some (t\<lparr>tk_pendingActions := tk_pendingActions t @ as\<rparr>)"
  proof (cases "tm_curTask m")
    case (Some t)
    with a obtain as1 where 1: "list_all fresh_action as1" "\<not> IsRunning t \<longrightarrow> as1 = []"
      "tm_curTask m1 = Some (t\<lparr>tk_pendingActions := tk_pendingActions t @ as1\<rparr>)" by (auto simp: extends_def)
    with a obtain as2 where "list_all fresh_action as2" "\<not> IsRunning t \<longrightarrow> as2 = []"
      "tm_curTask m2 = Some (t\<lparr>tk_pendingActions := tk_pendingActions t @ as1 @ as2\<rparr>)"
      by (auto simp: extends_def IsRunning_def)
    with 1 Some show ?thesis by (auto intro!: exI [of _ "as1 @ as2"])
  qed (use a in \<open>auto simp: extends_def\<close>)
  ultimately show ?thesis using a by (simp add: extends_def)
qed

lemma extends_Pend: "fresh_action a \<Longrightarrow> extends m (snd (Pend a m))"
  by (cases "tm_curTask m") (auto simp: Pend_def, auto simp: extends_def upd_cur_def Task_Pend_action_def intro!: exI [of _ "[a]"])

lemma extends_post: "fresh_task t \<Longrightarrow> extends m (snd (PostTask t d m))" "extends m (ProcessAsync m)"
    "extends m (SetInited b m)" "extends m (snd (GetNextSeqId m))" "extends m (m\<lparr>tm_log := l\<rparr>)"
  by (auto simp: PostTask_def ProcessAsync_def SetInited_def GetNextSeqId_def intro: extendsI)

lemma extends_WaitExec: "extends m (snd (WaitExec i d f m))"
  using extends_post(4) [of m] extends_Pend extends_trans
  by (auto simp: WaitExec_def split_def Let_def intro!: extends_Pend [THEN extends_trans [rotated]])

lemma extends_call_op: "extends m (call_op op m)"
proof (cases op)
  case (CallPostTask t fs)
  let ?x = "new_task t (fst (GetNextSeqId m)) (map (\<lambda>f. new_action (ActionFunc (Some f))) fs)"
  have "fresh_task ?x" by (simp add: list_all_iff)
  from extends_trans [OF extends_post(4) extends_post(1) [OF this]] CallPostTask show ?thesis
    by (simp add: split_def Let_def)
qed (simp_all add: extends_Pend extends_WaitExec extends_post Complete_def)

lemma extends_run_cb: "extends m (run_cb F c m)"
proof -
  have "extends m (fold call_op ops m)" for ops m
    by (induction ops arbitrary: m) (auto intro: extends_trans extends_call_op)
  then show ?thesis
    by (auto simp: run_cb_def split: option.split intro: extends_trans [OF extends_post(5)])
qed

lemma extends_cur:
  "extends m m' \<Longrightarrow> tm_curTask m = Some t \<Longrightarrow> \<exists>as. list_all fresh_action as \<and> (\<not> IsRunning t \<longrightarrow> as = []) \<and>
     tm_curTask m' = Some (t\<lparr>tk_pendingActions := tk_pendingActions t @ as\<rparr>)"
  by (simp add: extends_def)

lemma extends_queues: "extends m m' \<Longrightarrow> queues_ok m \<Longrightarrow> queues_ok m'"
  by (auto simp: extends_def queues_ok_def)

lemma extends_resume_ids: "extends m m' \<Longrightarrow> resume_ids m \<subseteq> resume_ids m'"
  by (auto simp: extends_def resume_ids_def)

section \<open>Executing a task\<close>

definition grows :: "task_manager \<Rightarrow> task_manager \<Rightarrow> bool" where
  "grows m m' \<longleftrightarrow> tm_amsTasks m' = tm_amsTasks m \<and> tm_imaTasks m' = tm_imaTasks m \<and> tm_imsaTasks m' = tm_imsaTasks m \<and>
     tm_innerTasks m' = tm_innerTasks m \<and> (\<exists>ps. list_all post_ok ps \<and> tm_handler m' = tm_handler m @ ps)"

lemma extends_grows: "extends m m' \<Longrightarrow> grows m m'"
  by (simp add: extends_def grows_def)

lemma grows_refl [simp]: "grows m m"
  by (simp add: grows_def)

lemma grows_trans: "grows m m1 \<Longrightarrow> grows m1 m2 \<Longrightarrow> grows m m2"
  by (auto simp: grows_def)

lemma grows_upd_cur [simp]: "grows m (upd_cur f m') = grows m m'" "grows (upd_cur f m) m' = grows m m'"
  by (simp_all add: grows_def upd_cur_def)

lemma grows_queues: "grows m m' \<Longrightarrow> queues_ok m \<Longrightarrow> queues_ok m'"
  by (auto simp: grows_def queues_ok_def)

lemma grows_resume_ids: "grows m m' \<Longrightarrow> resume_ids m \<subseteq> resume_ids m'"
  by (auto simp: grows_def resume_ids_def)

lemma paused_ok_mono: "paused_ok P t \<Longrightarrow> P \<subseteq> Q \<Longrightarrow> paused_ok Q t"
  by (auto simp: paused_ok_def)

lemma cur_upd_cur [simp]: "tm_curTask (upd_cur f m) = map_option f (tm_curTask m)"
  by (simp add: upd_cur_def)

lemma merge_fields [simp]:
  "tk_type (merge_pending t) = tk_type t" "tk_state (merge_pending t) = tk_state t" "tk_curAction (merge_pending t) = tk_curAction t"
  "actions_ok (merge_pending t) = actions_ok t"
  by (auto simp: merge_pending_def actions_ok_def)

text \<open>What the loop leaves: the task is done, or it waits and its timeout is posted.\<close>

definition loop_ok :: "task_manager \<Rightarrow> task \<Rightarrow> running_state \<times> task_manager \<Rightarrow> bool" where
  "loop_ok m t y \<longleftrightarrow> grows m (snd y) \<and> (\<exists>t'. tm_curTask (snd y) = Some t' \<and> tk_type t' = tk_type t \<and>
     (fst y = RUNNING_STATE_COMPLETED \<or> fst y = RUNNING_STATE_PAUSED \<and> paused_ok (resume_ids (snd y)) t'))"

lemmas exec_loop_induct = exec_loop.raw_induct [rotated, consumes 1, case_names step]

lemma exec_loop_ok:
  assumes "exec_loop F m = Some y" "tm_curTask m = Some t" "IsRunning t" "actions_ok t"
  shows "loop_ok m t y"
  using assms
proof (induction arbitrary: t rule: exec_loop_induct)
  case (step loop F m y)
  note 1 = step.IH step.hyps step.prems
  show ?case
  proof (cases "tk_actions t")
    case Nil
    with 1 show ?thesis by (auto simp: loop_ok_def)
  next
    case (Cons a as)
    let ?m0 = "upd_cur (\<lambda>t. t\<lparr>tk_curAction := Some a, tk_actions := as\<rparr>) m"
    let ?t0 = "t\<lparr>tk_curAction := Some a, tk_actions := as\<rparr>"
    have t0: "tm_curTask ?m0 = Some ?t0" using 1 by simp
    have fresh: "fresh_action a" "actions_ok ?t0" using 1 Cons by (auto simp: actions_ok_def)
    show ?thesis
    proof (cases "ac_body a")
      case (ActionFunc f)
      let ?m1 = "run_cb F f ?m0"
      have ext: "extends ?m0 ?m1" by (rule extends_run_cb)
      obtain ps where ps: "list_all fresh_action ps"
        "tm_curTask ?m1 = Some (?t0\<lparr>tk_pendingActions := tk_pendingActions ?t0 @ ps\<rparr>)"
        using extends_cur [OF ext t0] by blast
      let ?m2 = "upd_cur (\<lambda>t. t\<lparr>tk_curAction := None\<rparr>) (upd_cur merge_pending ?m1)"
      let ?t2 = "(merge_pending (?t0\<lparr>tk_pendingActions := tk_pendingActions ?t0 @ ps\<rparr>))\<lparr>tk_curAction := None\<rparr>"
      have "loop F ?m2 = Some y"
        using 1(2,3) Cons ActionFunc fresh by (simp add: Action_Execute_def fresh_action_def)
      moreover have "tm_curTask ?m2 = Some ?t2" using ps by simp
      moreover have "IsRunning ?t2" using 1(4) by (simp add: IsRunning_def)
      moreover have "actions_ok ?t2"
        using ps fresh by (auto simp: merge_pending_def actions_ok_def)
      ultimately have "loop_ok ?m2 ?t2 y" by (rule 1(1))
      moreover have "grows m ?m2" using extends_grows [OF ext] by simp
      ultimately show ?thesis by (auto simp: loop_ok_def intro: grows_trans)
    next
      case (ActionWait ms c to oc ot)
      let ?m1 = "snd (PostTask (TaskResume to) ms ?m0)"
      let ?a = "a\<lparr>ac_state := RUNNING_STATE_PAUSED\<rparr>"
      have y: "y = (RUNNING_STATE_PAUSED,
          upd_cur (\<lambda>t. t\<lparr>tk_curAction := Some ?a, tk_state := RUNNING_STATE_PAUSED\<rparr>) (upd_cur merge_pending ?m1))"
        using 1(2,3) Cons ActionWait by (simp add: Action_Execute_def)
      have "to \<in> resume_ids (snd y)" by (auto simp: y resume_ids_def upd_cur_def PostTask_def)
      moreover have "grows m (snd y)" using extends_grows [OF extends_post(1), of "TaskResume to" ?m0 ms] by (simp add: y)
      moreover have "tm_curTask (snd y) = Some ((merge_pending ?t0)\<lparr>tk_curAction := Some ?a, tk_state := RUNNING_STATE_PAUSED\<rparr>)"
        using 1(3) by (simp add: y PostTask_def)
      moreover have "?a = \<lparr>ac_state = RUNNING_STATE_PAUSED, ac_body = ActionWait ms c to oc ot\<rparr>"
        using ActionWait by (cases a) simp
      moreover have "actions_ok ((merge_pending ?t0)\<lparr>tk_curAction := Some ?a, tk_state := RUNNING_STATE_PAUSED\<rparr>)"
        using fresh(2) by (auto simp: actions_ok_def merge_pending_def)
      ultimately show ?thesis by (auto simp: loop_ok_def paused_ok_def y)
    qed
  qed
qed

lemma ExecuteInner_ok:
  assumes "ExecuteInner F m = Some y" "tm_curTask m = Some t" "actions_ok t"
  shows "loop_ok m t y"
proof -
  let ?f = "\<lambda>t. merge_pending (t\<lparr>tk_state := RUNNING_STATE_RUNNING\<rparr>)"
  have "actions_ok (?f t)" using assms(3) by (auto simp: merge_pending_def actions_ok_def)
  moreover have "IsRunning (?f t)" by (simp add: IsRunning_def)
  ultimately have "loop_ok (upd_cur ?f m) (?f t) y"
    using assms(1,2) by (intro exec_loop_ok [of F]) (simp_all add: ExecuteInner_def)
  then show ?thesis by (simp add: loop_ok_def)
qed

section \<open>Processing keeps the invariant\<close>

lemma ExecuteCurrentTask_ok:
  assumes "ExecuteCurrentTask F m = Some m'" "queues_ok m" "tm_curTask m = Some t" "fresh_task t"
  shows "task_inv m' \<and> grows m m'"
proof -
  have a: "actions_ok t" "tk_state t = RUNNING_STATE_IDLE" using assms(4) by (simp_all add: fresh_task_def actions_ok_def)
  then obtain st m1 where e: "ExecuteInner F m = Some (st, m1)"
    and m': "m' = (if st = RUNNING_STATE_COMPLETED then ProcessAsync (m1\<lparr>tm_curTask := None\<rparr>)
               else if st = RUNNING_STATE_PAUSED then m1 else m1\<lparr>tm_curTask := None\<rparr>)"
    using assms(1,3) by (auto simp: ExecuteCurrentTask_def Execute_def split: option.splits prod.splits)
  from ExecuteInner_ok [OF e assms(3) a(1)] have l: "loop_ok m t (st, m1)" .
  then have g: "grows m m1" by (simp add: loop_ok_def)
  then have "grows m m'"
    by (auto simp: m' grows_def ProcessAsync_def)
  then show ?thesis
    using l g assms(2) by (auto simp: m' loop_ok_def task_inv_def ProcessAsync_def dest: grows_queues)
qed

lemma run_queue_ok:
  assumes "run_queue F put ts m = Some m'" "task_inv m" "list_all Q ts"
    and put: "\<And>ts m. queues_ok m \<Longrightarrow> list_all Q ts \<Longrightarrow> queues_ok (put ts m)"
      "\<And>ts m. tm_curTask (put ts m) = tm_curTask m" "\<And>t. Q t \<Longrightarrow> fresh_task t"
  shows "task_inv m'"
  using assms(1-3)
proof (induction ts arbitrary: m)
  case (Cons t ts)
  show ?case
  proof (cases "tm_curTask m")
    case None
    let ?m0 = "put ts (m\<lparr>tm_curTask := Some t\<rparr>)"
    obtain m1 where e: "ExecuteCurrentTask F ?m0 = Some m1" "run_queue F put ts m1 = Some m'"
      using Cons.prems(1) None by (auto split: option.splits)
    have "queues_ok (m\<lparr>tm_curTask := Some t\<rparr>)" using Cons.prems(2) by (simp add: task_inv_def queues_ok_def)
    then have "queues_ok ?m0" using Cons.prems(3) by (intro put(1)) simp_all
    moreover have "tm_curTask ?m0 = Some t" by (simp add: put(2))
    ultimately have "task_inv m1" using ExecuteCurrentTask_ok [OF e(1)] Cons.prems(3) put(3) by simp
    with e(2) Cons.prems(3) show ?thesis by (auto intro: Cons.IH)
  next
    case (Some t)
    with Cons.prems show ?thesis by simp
  qed
qed simp

text \<open>A resume message: either it is for the current wait and the task goes on, or nothing happens.\<close>

lemma Resume_ok:
  assumes "Resume F i t m = Some (st, m')" "tm_curTask m = Some t" "paused_ok P t" "\<not> IsRunning t"
  shows "grows m m' \<and> (st = RUNNING_STATE_COMPLETED \<or> st = RUNNING_STATE_PAUSED \<and>
    (\<exists>t'. tm_curTask m' = Some t' \<and> (paused_ok (resume_ids m') t' \<or> m' = m \<and> paused_ok (P - {i}) t)))"
proof -
  obtain ms c to oc ot where cur: "tk_curAction t = Some \<lparr>ac_state = RUNNING_STATE_PAUSED, ac_body = ActionWait ms c to oc ot\<rparr>"
    "to \<in> P" and st: "tk_state t = RUNNING_STATE_PAUSED" "actions_ok t" using assms(3) by (auto simp: paused_ok_def)
  show ?thesis
  proof (cases "i = c \<or> i = to")
    case True
    then obtain cb where x: "ExecuteInner F (upd_cur (\<lambda>t. t\<lparr>tk_curAction := None\<rparr>) (run_cb F cb m)) = Some (st, m')"
      using assms(1) cur st by (auto simp: Resume_def Action_Resume_def split: if_splits)
    have ext: "extends m (run_cb F cb m)" by (rule extends_run_cb)
    have "tm_curTask (run_cb F cb m) = Some t" using extends_cur [OF ext assms(2)] assms(4) by auto
    then have "loop_ok (upd_cur (\<lambda>t. t\<lparr>tk_curAction := None\<rparr>) (run_cb F cb m)) (t\<lparr>tk_curAction := None\<rparr>) (st, m')"
      using st(2) by (intro ExecuteInner_ok [OF x]) (simp_all add: actions_ok_def)
    with extends_grows [OF ext] show ?thesis by (auto simp: loop_ok_def intro: grows_trans)
  next
    case False
    with assms(1,2) cur st show ?thesis by (auto simp: Resume_def Action_Resume_def paused_ok_def)
  qed
qed

lemma paused_not_running: "paused_ok P t \<Longrightarrow> \<not> IsRunning t"
  by (simp add: paused_ok_def IsRunning_def)

lemma inner_loop_ok:
  assumes "inner_loop F ts m = Some m'" "queues_ok m" "tm_innerTasks m = ts"
    "\<And>t. tm_curTask m = Some t \<Longrightarrow> paused_ok (resume_ids m \<union> tk_seqId ` set ts) t"
  shows "task_inv m'"
  using assms
proof (induction ts arbitrary: m)
  case Nil
  then show ?case by (auto simp: inner_loop.simps [of F "[]"] task_inv_def split: option.splits)
next
  case (Cons x xs)
  show ?case
  proof (cases "tm_curTask m")
    case None
    with Cons.prems show ?thesis by (simp add: inner_loop.simps [of F "x # xs"] task_inv_def)
  next
    case (Some t)
    let ?m0 = "m\<lparr>tm_innerTasks := xs\<rparr>"
    have p: "paused_ok (resume_ids m \<union> tk_seqId ` set (x # xs)) t" by (rule Cons.prems(4) [OF Some])
    have inner: "GetSourceType (tk_type x) = SOURCE_TYPE_INNER" and q0: "queues_ok ?m0"
      using Cons.prems(2,3) by (auto simp: queues_ok_def)
    obtain st m1 where r: "Resume F (tk_seqId x) t ?m0 = Some (st, m1)"
      and m': "(if st = RUNNING_STATE_COMPLETED then Some (m1\<lparr>tm_curTask := None, tm_innerTasks := []\<rparr>)
           else if st = RUNNING_STATE_PAUSED then inner_loop F xs m1
           else Some (m1\<lparr>tm_curTask := None, tm_innerTasks := []\<rparr>)) = Some m'"
      using Cons.prems(1) Some inner
      by (auto simp: inner_loop.simps [of F "x # xs"] OnTask_def split: option.splits prod.splits)
    have ok: "grows ?m0 m1 \<and> (st = RUNNING_STATE_COMPLETED \<or> st = RUNNING_STATE_PAUSED \<and>
      (\<exists>t'. tm_curTask m1 = Some t' \<and> (paused_ok (resume_ids m1) t' \<or> m1 = ?m0 \<and>
         paused_ok (resume_ids m \<union> tk_seqId ` set (x # xs) - {tk_seqId x}) t)))"
      using Some by (intro Resume_ok [OF r _ p paused_not_running [OF p]]) simp
    then have q1: "queues_ok m1" "tm_innerTasks m1 = xs" by (auto intro: grows_queues [OF _ q0]) (auto simp: grows_def)
    show ?thesis
    proof (cases "st = RUNNING_STATE_COMPLETED")
      case True
      with m' q1 show ?thesis by (auto simp: task_inv_def queues_ok_def)
    next
      case False
      with ok m' have loop: "inner_loop F xs m1 = Some m'" by auto
      have "paused_ok (resume_ids m1 \<union> tk_seqId ` set xs) t'" if c: "tm_curTask m1 = Some t'" for t'
      proof -
        from ok False consider "paused_ok (resume_ids m1) t'" |
            "m1 = ?m0" "t' = t" "paused_ok (resume_ids m \<union> tk_seqId ` set (x # xs) - {tk_seqId x}) t"
          using c Some by auto
        then show ?thesis by cases (auto elim!: paused_ok_mono simp: resume_ids_def)
      qed
      with loop q1 show ?thesis by (intro Cons.IH)
    qed
  qed
qed

lemma pend_loop_ok:
  assumes "pend_loop F xs t m = Some m'" "task_inv m" "tm_curTask m = Some t" "tm_imaTasks m = xs"
  shows "task_inv m'"
  using assms
proof (induction xs arbitrary: m t)
  case (Cons x xs)
  let ?t = "Task_Pend_task x t"
  let ?m1 = "upd_cur (Task_Pend_task x) (m\<lparr>tm_imaTasks := xs\<rparr>)"
  have x: "fresh_task x" "GetSourceType (tk_type x) = SOURCE_TYPE_IMA"
    using Cons.prems(2,4) by (auto simp: task_inv_def queues_ok_def)
  have p: "paused_ok (resume_ids m) t" using Cons.prems(2,3) by (simp add: task_inv_def)
  then have st: "tk_state t = RUNNING_STATE_PAUSED" by (simp add: paused_ok_def)
  have "pend_loop F xs ?t ?m1 = Some m'" using Cons.prems(1,3) x(2) st by (simp add: OnTask_def)
  moreover have "task_inv ?m1"
    using Cons.prems(2,3,4) p x(1)
    by (auto simp: task_inv_def queues_ok_def upd_cur_def paused_ok_def Task_Pend_task_def actions_ok_def fresh_task_def resume_ids_def)
  ultimately show ?case using Cons.prems(3) by (intro Cons.IH [of ?t ?m1]) (simp_all add: upd_cur_def)
qed simp

lemma Process_ok:
  assumes "Process F m = Some m'" "queues_ok m"
    "\<And>t. tm_curTask m = Some t \<Longrightarrow> paused_ok (resume_ids m \<union> tk_seqId ` set (tm_innerTasks m)) t"
  shows "task_inv m'"
proof -
  obtain m1 m2 m3 where s: "ProcessNextInnerTask F m = Some m1" "ProcessNextAmsTask F m1 = Some m2"
    "ProcessNextImaTask F m2 = Some m3" "ProcessNextImsaTask F m3 = Some m'"
    using assms(1) by (auto simp: Process_def bind_eq_Some_conv)
  have 1: "task_inv m1" using s(1) assms(2,3) by (intro inner_loop_ok [of F "tm_innerTasks m" m]) (simp_all add: ProcessNextInnerTask_def)
  have 2: "task_inv m2"
  proof (cases "m2 = m1")
    case False
    with s(2) have r: "run_queue F (\<lambda>ts m. m\<lparr>tm_amsTasks := ts\<rparr>) (tm_amsTasks m1) (m1\<lparr>tm_curTask := None\<rparr>) = Some m2"
      by (auto simp: ProcessNextAmsTask_def split: if_splits)
    show ?thesis
      by (rule run_queue_ok [OF r, where Q = fresh_task]) (use 1 in \<open>auto simp: task_inv_def queues_ok_def\<close>)
  qed (use 1 in simp)
  have 3: "task_inv m3"
  proof (cases "tm_imaTasks m2 = []")
    case False
    with s(3) obtain n where n: "(case tm_curTask m2 of None \<Rightarrow> Some m2 | Some t \<Rightarrow> pend_loop F (tm_imaTasks m2) t m2) = Some n"
      "run_queue F (\<lambda>ts m. m\<lparr>tm_imaTasks := ts\<rparr>) (tm_imaTasks n) n = Some m3"
      by (auto simp: ProcessNextImaTask_def split: option.splits)
    have "task_inv n" using n(1) 2 pend_loop_ok by (auto split: option.splits)
    note n' = this
    show ?thesis
    proof (rule run_queue_ok [OF n(2) n', where Q = "\<lambda>t. fresh_task t \<and> GetSourceType (tk_type t) = SOURCE_TYPE_IMA"])
      show "list_all (\<lambda>t. fresh_task t \<and> GetSourceType (tk_type t) = SOURCE_TYPE_IMA) (tm_imaTasks n)"
        using n' by (auto simp: task_inv_def queues_ok_def list_all_iff)
    qed (auto simp: queues_ok_def list_all_iff)
  qed (use s(3) 2 in \<open>simp add: ProcessNextImaTask_def\<close>)
  show ?thesis
  proof (cases "m' = m3")
    case False
    with s(4) have r: "run_queue F (\<lambda>ts m. m\<lparr>tm_imsaTasks := ts\<rparr>) (tm_imsaTasks m3) m3 = Some m'"
      by (auto simp: ProcessNextImsaTask_def split: if_splits)
    show ?thesis by (rule run_queue_ok [OF r 3, where Q = fresh_task]) (use 3 in \<open>auto simp: task_inv_def queues_ok_def\<close>)
  qed (use 3 in simp)
qed

lemma task_inv_run_post:
  assumes "task_inv m" "tm_handler m = xs @ p # ys" "run_post F p (m\<lparr>tm_handler := xs @ ys\<rparr>) = Some m'"
  shows "task_inv m'"
proof -
  let ?m0 = "m\<lparr>tm_handler := xs @ ys\<rparr>"
  have q: "queues_ok ?m0" "post_ok p" using assms(1,2) by (auto simp: task_inv_def queues_ok_def)
  show ?thesis
  proof (cases p)
    case ProcessPost
    have "resume_ids m = resume_ids ?m0" using assms(2) ProcessPost by (auto simp: resume_ids_def)
    with assms ProcessPost q show ?thesis
      by (intro Process_ok [of F ?m0]) (auto simp: task_inv_def elim!: paused_ok_mono)
  next
    case (NewTask t d)
    let ?m1 = "enqueue t ?m0"
    have run: "Process F ?m1 = Some m'" using assms(3) NewTask by (simp add: OnNewTask_def)
    have q1: "queues_ok ?m1" using q NewTask by (auto simp: queues_ok_def enqueue_def split: source_type.split)
    have cur: "tm_curTask ?m1 = tm_curTask m" by (simp add: enqueue_def split: source_type.split)
    have ids: "resume_ids m \<subseteq> resume_ids ?m1 \<union> tk_seqId ` set (tm_innerTasks ?m1)"
      using assms(2) NewTask
      by (auto simp: resume_ids_def enqueue_def TaskResume_def new_task_def GetSourceType_def)
    show ?thesis
    proof (rule Process_ok [OF run q1])
      fix t assume "tm_curTask ?m1 = Some t"
      with cur assms(1) have "paused_ok (resume_ids m) t" by (simp add: task_inv_def)
      then show "paused_ok (resume_ids ?m1 \<union> tk_seqId ` set (tm_innerTasks ?m1)) t" using ids by (rule paused_ok_mono)
    qed
  qed
qed

lemma task_inv_extends: "task_inv m \<Longrightarrow> extends m m' \<Longrightarrow> task_inv m'"
proof -
  assume a: "task_inv m" "extends m m'"
  have "paused_ok (resume_ids m') t'" if t': "tm_curTask m' = Some t'" for t'
  proof -
    obtain t where t: "tm_curTask m = Some t" using a(2) t' by (cases "tm_curTask m") (simp_all add: extends_def)
    with a(1) have p: "paused_ok (resume_ids m) t" by (simp add: task_inv_def)
    obtain as where "as = []" "tm_curTask m' = Some (t\<lparr>tk_pendingActions := tk_pendingActions t @ as\<rparr>)"
      using extends_cur [OF a(2) t] paused_not_running [OF p] by blast
    with t' have "t' = t" by simp
    with p extends_resume_ids [OF a(2)] show ?thesis by (auto elim: paused_ok_mono)
  qed
  moreover have "queues_ok m'" using a(1) extends_queues [OF a(2)] by (simp add: task_inv_def)
  ultimately show ?thesis by (simp add: task_inv_def)
qed

lemma task_inv_step: "task_step F m m' \<Longrightarrow> task_inv m \<Longrightarrow> task_inv m'"
proof (induction rule: task_step.induct)
  case (run m xs p ys m')
  show ?case by (rule task_inv_run_post [OF run(3,1,2)])
next
  case (complete m i)
  then show ?case using extends_call_op [of m "CallComplete i"] by (auto intro: task_inv_extends)
qed (auto intro: task_inv_extends extends_post)

interpretation tm: safe_system "\<lambda>m. m = new_task_manager" "task_step F" task_inv
proof (unfold_locales, goal_cases)
  case (1 m)
  then show ?case by (simp add: task_inv_def queues_ok_def new_task_manager_def)
next
  case (2 m m')
  then show ?case by (rule task_inv_step)
qed

text \<open>C38. Between two entries of the event handler a current task is always paused in a wait, and the message of
  that wait's timeout is still to come: no task blocks the manager for ever, and the branches the code
  marks as unreachable are never taken. This holds whatever the callbacks do, in whatever order tasks of
  the four sources and resume messages arrive and whenever they are taken from the queue.\<close>

theorem paused_task_resumes:
  assumes "task_reachable F m" "tm_curTask m = Some t"
  shows "tk_state t = RUNNING_STATE_PAUSED \<and>
    (\<exists>a ms c to oc ot d. tk_curAction t = Some a \<and> ac_state a = RUNNING_STATE_PAUSED \<and>
       ac_body a = ActionWait ms c to oc ot \<and> NewTask (TaskResume to) d \<in> set (tm_handler m))"
proof -
  have "paused_ok (resume_ids m) t"
    using tm.inv_reaches [of F m] assms by (simp add: task_reachable_def task_inv_def)
  then show ?thesis by (fastforce simp: paused_ok_def resume_ids_def)
qed

text \<open>The engine starts: the initial task waits for the ability.\<close>

definition starting0 :: task_manager where
  "starting0 = (let (t, m) = TaskAmsInit 1 2 new_task_manager in
     the (run_post (\<lambda>_. []) (NewTask t 0) m))"

lemma starting0_reachable: "task_reachable (\<lambda>_. []) starting0"
proof -
  let ?t = "fst (TaskAmsInit 1 2 new_task_manager)" and ?m = "snd (TaskAmsInit 1 2 new_task_manager)"
  let ?m1 = "snd (PostTask ?t 0 ?m)"
  have more: "task_reachable (\<lambda>_. []) m'" if "task_reachable (\<lambda>_. []) m" "task_step (\<lambda>_. []) m m'" for m m'
    using that unfolding task_reachable_def by (rule reaches.more)
  have "task_reachable (\<lambda>_. []) new_task_manager" unfolding task_reachable_def by (rule reaches.start) simp
  from more [OF more [OF this task_step.seq] task_step.seq] have 1: "task_reachable (\<lambda>_. []) ?m"
    by (simp add: TaskAmsInit_def GetNextSeqId_def)
  have "fresh_task ?t" by (simp add: TaskAmsInit_def GetNextSeqId_def)
  then have 2: "task_reachable (\<lambda>_. []) ?m1"
    by (intro more [OF 1] task_step.post)
  have "tm_handler ?m1 = [] @ NewTask ?t 0 # []" "?m1\<lparr>tm_handler := [] @ []\<rparr> = ?m" by code_simp+
  moreover have "run_post (\<lambda>_. []) (NewTask ?t 0) ?m = Some starting0"
    by code_simp
  ultimately have "task_step (\<lambda>_. []) ?m1 starting0" by (metis task_step.run)
  with 2 show ?thesis by (rule more)
qed

theorem paused_task_resumes_witness: "\<exists>d. NewTask (TaskResume 2) d \<in> set (tm_handler starting0)"
proof -
  let ?t = "the (tm_curTask starting0)"
  have t: "tm_curTask starting0 = Some ?t" by code_simp
  have b: "map_option ac_body (tk_curAction ?t) = Some (ActionWait 15000 1 2 (Some 1) (Some 2))" by code_simp
  from paused_task_resumes [OF starting0_reachable t] b show ?thesis by auto
qed

section \<open>The order of actions\<close>

text \<open>The engine's own tasks that arrive while a task is paused are appended to its actions, but not in a
  consistent order: one such task runs after the remaining actions, as intended; when two arrive, the
  actions of the first one run before the remaining actions and those of the second one after them.\<close>

theorem pend_order:
  assumes "tk_pendingActions t = []"
  shows "tk_actions (merge_pending (Task_Pend_task x t)) = tk_actions t @ tk_actions x \<and>
    tk_actions (merge_pending (Task_Pend_task y (Task_Pend_task x t))) = tk_actions x @ tk_actions t @ tk_actions y"
  using assms by (simp add: merge_pending_def Task_Pend_task_def)

theorem pend_order_witness:
  "let a = (\<lambda>n. new_action (ActionFunc (Some n))); t = (\<lambda>n. new_task TASK_TYPE_IMA_SHOW_PANEL 0 [a n]) in
   tk_actions (merge_pending (Task_Pend_task (t 3) (Task_Pend_task (t 2) (t 1)))) = [a 2, a 1, a 3]"
proof -
  let ?t = "\<lambda>n. new_task TASK_TYPE_IMA_SHOW_PANEL 0 [new_action (ActionFunc (Some n))]"
  have "tk_pendingActions (?t 1) = []" by (simp add: new_task_def)
  from pend_order [OF this, of "?t 2" "?t 3"] show ?thesis by (simp add: Let_def new_task_def)
qed

section \<open>Termination\<close>

text \<open>Weights of callbacks, and of what they pend.\<close>

fun pend_weight :: "(nat \<Rightarrow> nat) \<Rightarrow> cb_op \<Rightarrow> nat" where
  "pend_weight w (CallPend f) = w f"
| "pend_weight w (CallWaitExec i d f) = 1 + w f"
| "pend_weight w op = 0"

fun body_weight :: "(nat \<Rightarrow> nat) \<Rightarrow> action_body \<Rightarrow> nat" where
  "body_weight w (ActionFunc None) = 1"
| "body_weight w (ActionFunc (Some f)) = w f"
| "body_weight w (ActionWait d c to oc ot) = 1"

definition actions_weight :: "(nat \<Rightarrow> nat) \<Rightarrow> action list \<Rightarrow> nat" where
  "actions_weight w as = sum_list (map (\<lambda>a. body_weight w (ac_body a)) as)"

definition cur_weight :: "(nat \<Rightarrow> nat) \<Rightarrow> task_manager \<Rightarrow> nat" where
  "cur_weight w m = (case tm_curTask m of None \<Rightarrow> 0
     | Some t \<Rightarrow> actions_weight w (tk_actions t) + actions_weight w (tk_pendingActions t))"

lemma cur_weight_merge [simp]: "cur_weight w (upd_cur merge_pending m) = cur_weight w m"
  by (simp add: cur_weight_def merge_pending_def actions_weight_def split: option.split)

lemma cur_weight_Pend: "cur_weight w (snd (Pend a m)) \<le> cur_weight w m + body_weight w (ac_body a)"
  by (auto simp: cur_weight_def Pend_def upd_cur_def Task_Pend_action_def actions_weight_def split: option.split)

lemma cur_weight_call_op: "cur_weight w (call_op op m) \<le> cur_weight w m + pend_weight w op"
proof (cases op)
  case (CallPend f)
  then show ?thesis using cur_weight_Pend [of w "new_action (ActionFunc (Some f))" m] by (simp add: new_action_def)
next
  case (CallWaitExec i d f)
  let ?m1 = "snd (GetNextSeqId m)" let ?a = "new_action (ActionWait d i (fst (GetNextSeqId m)) None None)"
  let ?b = "new_action (ActionFunc (Some f))"
  have "cur_weight w ?m1 = cur_weight w m" by (simp add: cur_weight_def GetNextSeqId_def)
  with cur_weight_Pend [of w ?a ?m1] cur_weight_Pend [of w ?b "snd (Pend ?a ?m1)"] CallWaitExec show ?thesis
    by (auto simp: WaitExec_def split_def Let_def new_action_def)
qed (simp_all add: cur_weight_def SetInited_def Complete_def PostTask_def ProcessAsync_def GetNextSeqId_def)

lemma cur_weight_run_cb: "cur_weight w (run_cb F (Some f) m) \<le> cur_weight w m + sum_list (map (pend_weight w) (F f))"
proof -
  have "cur_weight w (fold call_op ops m) \<le> cur_weight w m + sum_list (map (pend_weight w) ops)" for ops m
  proof (induction ops arbitrary: m)
    case (Cons op ops)
    from Cons.IH [of "call_op op m"] cur_weight_call_op [of w op m] show ?case by simp
  qed simp
  from this [of "F f" "m\<lparr>tm_log := tm_log m @ [f]\<rparr>"] show ?thesis by (simp add: run_cb_def cur_weight_def)
qed

text \<open>C39. Executing a task ends: if callbacks can be given weights so that what each one pends weighs less than
  itself (no callback pends itself again, directly or through others), the loop over the actions of
  the current task returns, whatever it has pending.\<close>

theorem exec_loop_ends:
  assumes "\<forall>f. sum_list (map (pend_weight w) (F f)) < w f" "tm_curTask m = Some t"
  shows "\<exists>y. exec_loop F m = Some y"
  using assms(2)
proof (induction "cur_weight w m" arbitrary: m t rule: less_induct)
  case less
  show ?case
  proof (cases "tk_actions t")
    case Nil
    with less.prems show ?thesis by (simp add: exec_loop.simps [of F m])
  next
    case (Cons a as)
    let ?m0 = "upd_cur (\<lambda>t. t\<lparr>tk_curAction := Some a, tk_actions := as\<rparr>) m"
    have w0: "cur_weight w m = cur_weight w ?m0 + body_weight w (ac_body a)"
      using less.prems Cons by (simp add: cur_weight_def actions_weight_def)
    show ?thesis
    proof (cases "\<exists>f. ac_body a = ActionFunc f \<and> ac_state a = RUNNING_STATE_IDLE")
      case False
      then have "fst (Action_Execute F a ?m0) \<noteq> RUNNING_STATE_COMPLETED"
        by (auto simp: Action_Execute_def split: action_body.split)
      with less.prems Cons show ?thesis by (simp add: exec_loop.simps [of F m] split_def Let_def)
    next
      case True
      then obtain f where f: "ac_body a = ActionFunc f" "ac_state a = RUNNING_STATE_IDLE" by blast
      let ?m1 = "run_cb F f ?m0"
      let ?m2 = "upd_cur (\<lambda>t. t\<lparr>tk_curAction := None\<rparr>) (upd_cur merge_pending ?m1)"
      have eq: "exec_loop F m = exec_loop F ?m2"
        using less.prems Cons f by (simp add: exec_loop.simps [of F m] Action_Execute_def)
      have "cur_weight w ?m1 < cur_weight w m"
      proof (cases f)
        case None
        then show ?thesis using w0 f by (simp add: run_cb_def)
      next
        case (Some g)
        from cur_weight_run_cb [of w F g ?m0] assms(1) w0 f Some show ?thesis
          by (metis add_le_cancel_left body_weight.simps(2) le_less_trans nat_add_left_cancel_less)
      qed
      moreover have "cur_weight w ?m2 = cur_weight w (upd_cur merge_pending ?m1)"
        by (simp add: cur_weight_def split: option.split)
      ultimately have "cur_weight w ?m2 < cur_weight w m" by simp
      moreover obtain t2 where "tm_curTask ?m2 = Some t2"
        using extends_cur [OF extends_run_cb [of ?m0 F f]] less.prems by auto
      ultimately show ?thesis using less.hyps eq by metis
    qed
  qed
qed

theorem exec_loop_ends_witness:
  "\<exists>y. exec_loop (\<lambda>f. if f = 2 then [CallPend 1, CallWaitExec 5 100 0] else [])
     (new_task_manager\<lparr>tm_curTask := Some (new_task TASK_TYPE_IMSA_START_INPUT 1 [new_action (ActionFunc (Some 2))])\<rparr>) = Some y"
proof -
  let ?F = "\<lambda>f::nat. if f = 2 then [CallPend 1, CallWaitExec 5 100 0] else []"
  have "\<forall>f. sum_list (map (pend_weight (\<lambda>f. if f = 2 then 4 else 1)) (?F f)) < (if f = 2 then 4 else 1)" by simp
  from exec_loop_ends [OF this, of "new_task_manager\<lparr>tm_curTask := Some (new_task TASK_TYPE_IMSA_START_INPUT 1 [new_action (ActionFunc (Some 2))])\<rparr>"]
  show ?thesis by simp
qed

end
