(* ===== verification/Json_Serializable.thy ===== *)
theory Json_Serializable
  imports Imf_Global
begin

text \<open>
  Reading and writing JSON (\<open>services/json/src/serializable.cpp\<close>, \<open>serializable.h\<close>) and the
  structures the settings components keep as JSON text.

  The library cJSON is a parameter: \<open>cj_parse\<close> (\<open>cJSON_Parse\<close>), \<open>cj_print\<close>
  (\<open>cJSON_PrintUnformatted\<close>) and \<open>cj_same\<close>, the comparison of names of \<open>cJSON_GetObjectItem\<close>. A
  \<open>cJSON\<close> node is the tree \<open>json\<close>; a number is its \<open>valueint\<close>. Memory is available: adding an item to
  an object succeeds. An output parameter that an operation may leave as it is, is an argument, and
  the operation returns its value.
\<close>

datatype json = JNull | JBool bool | JNumber int | JString string | JArray "json list"
  | JObject "(string \<times> json) list"

record cjson =
  cj_parse :: "string \<Rightarrow> json option"
  cj_print :: "json \<Rightarrow> string option"
  cj_same :: "string \<Rightarrow> string \<Rightarrow> bool"

section \<open>Reading\<close>

definition GetSubNode :: "cjson \<Rightarrow> json \<Rightarrow> string \<Rightarrow> json option" where
  "GetSubNode cj node name =
     (if name = '''' then Some node
      else case node of JObject ms \<Rightarrow> map_option snd (List.find (\<lambda>m. cj_same cj (fst m) name) ms) | _ \<Rightarrow> None)"

definition GetValue_string :: "cjson \<Rightarrow> json \<Rightarrow> string \<Rightarrow> string \<Rightarrow> bool \<times> string" where
  "GetValue_string cj node name value = (case GetSubNode cj node name of Some (JString s) \<Rightarrow> (True, s) | _ \<Rightarrow> (False, value))"

definition GetValue_int :: "cjson \<Rightarrow> json \<Rightarrow> string \<Rightarrow> int \<Rightarrow> bool \<times> int" where
  "GetValue_int cj node name value = (case GetSubNode cj node name of Some (JNumber n) \<Rightarrow> (True, n) | _ \<Rightarrow> (False, value))"

definition GetValue_uint :: "cjson \<Rightarrow> json \<Rightarrow> string \<Rightarrow> u32 \<Rightarrow> bool \<times> u32" where
  "GetValue_uint cj node name value = (case GetSubNode cj node name of
     Some (JNumber n) \<Rightarrow> if n < 0 then (False, value) else (True, of_int n) | _ \<Rightarrow> (False, value))"

definition GetValue_bool :: "cjson \<Rightarrow> json \<Rightarrow> string \<Rightarrow> bool \<Rightarrow> bool \<times> bool" where
  "GetValue_bool cj node name value = (case GetSubNode cj node name of Some (JBool b) \<Rightarrow> (True, b) | _ \<Rightarrow> (False, value))"

text \<open>A nested structure: \<open>un\<close> is its \<open>Unmarshal\<close>.\<close>

definition GetValue_object :: "cjson \<Rightarrow> (json \<Rightarrow> 'a \<Rightarrow> bool \<times> 'a) \<Rightarrow> json \<Rightarrow> string \<Rightarrow> 'a \<Rightarrow> bool \<times> 'a" where
  "GetValue_object cj un node name value = (case GetSubNode cj node name of
     Some (JObject ms) \<Rightarrow> un (JObject ms) value | _ \<Rightarrow> (False, value))"

definition resize :: "nat \<Rightarrow> 'a \<Rightarrow> 'a list \<Rightarrow> 'a list" where
  "resize n d xs = take n xs @ replicate (n - length xs) d"

text \<open>
  The template for vectors. \<open>get\<close> reads one element (the call \<open>GetValue(item, "", values[i])\<close>); an
  element that cannot be read keeps its value, and the result says whether all could be read.
\<close>

fun read_items :: "(json \<Rightarrow> 'a \<Rightarrow> bool \<times> 'a) \<Rightarrow> json list \<Rightarrow> 'a list \<Rightarrow> bool \<times> 'a list" where
  "read_items get (j # js) (v # vs) =
     (let (r, v') = get j v; (rs, vs') = read_items get js vs in (r \<and> rs, v' # vs'))"
| "read_items get js vs = (True, vs)"

definition GetValue_vector :: "cjson \<Rightarrow> (json \<Rightarrow> 'a \<Rightarrow> bool \<times> 'a) \<Rightarrow> 'a \<Rightarrow> json \<Rightarrow> string \<Rightarrow> nat \<Rightarrow> 'a list
    \<Rightarrow> bool \<times> 'a list" where
  "GetValue_vector cj get d node name maxNum values = (case GetSubNode cj node name of
     Some (JArray js) \<Rightarrow>
       (let size = (if 0 < maxNum \<and> maxNum < length js then maxNum else length js)
        in read_items get (take size js) (resize size d values))
   | _ \<Rightarrow> (False, values))"

text \<open>The keys of the members whose value is a number that passes the filter.\<close>

fun GetKeys_int :: "cjson \<Rightarrow> (string \<times> json) list \<Rightarrow> string list \<Rightarrow> (int \<Rightarrow> bool) \<Rightarrow> bool \<times> string list" where
  "GetKeys_int cj [] keys flt = (True, keys)"
| "GetKeys_int cj ((nodeKey, child) # ms) keys flt =
     (let (ok, value) = GetValue_int cj child '''' 0;
          (rest, keys') = GetKeys_int cj ms (if ok \<and> flt value then keys @ [nodeKey] else keys) flt
      in (ok \<and> rest, keys'))"

definition Unmarshall :: "cjson \<Rightarrow> (json \<Rightarrow> 'a \<Rightarrow> bool \<times> 'a) \<Rightarrow> string \<Rightarrow> 'a \<Rightarrow> bool \<times> 'a" where
  "Unmarshall cj un content value = (case cj_parse cj content of None \<Rightarrow> (False, value) | Some rt \<Rightarrow> un rt value)"

section \<open>Writing\<close>

text \<open>
  The object under construction is the list of its members; a new one goes to the end. The code passes a
  text as \<open>c_str()\<close>, which ends at the first zero character: the texts are names, versions and identifiers
  and are taken to contain none.
\<close>

type_synonym members = "(string \<times> json) list"

definition SetValue_string :: "string \<Rightarrow> string \<Rightarrow> members \<Rightarrow> members" where
  "SetValue_string name value ms = ms @ [(name, JString value)]"

definition SetValue_int :: "string \<Rightarrow> int \<Rightarrow> members \<Rightarrow> members" where
  "SetValue_int name value ms = ms @ [(name, JNumber value)]"

definition SetValue_bool :: "string \<Rightarrow> bool \<Rightarrow> members \<Rightarrow> members" where
  "SetValue_bool name value ms = ms @ [(name, JBool value)]"

definition SetValue_object :: "('a \<Rightarrow> members \<Rightarrow> members) \<Rightarrow> string \<Rightarrow> 'a \<Rightarrow> members \<Rightarrow> members" where
  "SetValue_object mar name value ms = ms @ [(name, JObject (mar value []))]"

definition SetValue_strings :: "string \<Rightarrow> string list \<Rightarrow> members \<Rightarrow> members" where
  "SetValue_strings name values ms = ms @ [(name, JArray (map JString values))]"

definition SetValue_vector :: "('a \<Rightarrow> members \<Rightarrow> members) \<Rightarrow> string \<Rightarrow> 'a list \<Rightarrow> members \<Rightarrow> members" where
  "SetValue_vector mar name values ms = ms @ [(name, JArray (map (\<lambda>v. JObject (mar v [])) values))]"

text \<open>\<open>None\<close> when the text cannot be printed.\<close>

definition Marshall :: "cjson \<Rightarrow> ('a \<Rightarrow> members \<Rightarrow> members) \<Rightarrow> 'a \<Rightarrow> string option" where
  "Marshall cj mar value = cj_print cj (JObject (mar value []))"

section \<open>The table of enabled input methods\<close>

text \<open>
  An \<open>EnabledStatus\<close> read from JSON is any \<open>int32_t\<close>, so it is an integer with the values of the
  enumeration.
\<close>

type_synonym enabled_status = int

abbreviation (input) DISABLED :: enabled_status where "DISABLED \<equiv> 0"
abbreviation (input) BASIC_MODE :: enabled_status where "BASIC_MODE \<equiv> 1"
abbreviation (input) FULL_EXPERIENCE_MODE :: enabled_status where "FULL_EXPERIENCE_MODE \<equiv> 2"

record extra_info =
  xi_isDefaultIme :: bool
  xi_isDefaultImeSet :: bool
  xi_isTmpIme :: bool
  xi_currentSubName :: string

definition new_extra_info :: extra_info where
  "new_extra_info = \<lparr>xi_isDefaultIme = False, xi_isDefaultImeSet = False, xi_isTmpIme = False, xi_currentSubName = ''''\<rparr>"

definition ExtraInfo_Unmarshal :: "cjson \<Rightarrow> json \<Rightarrow> extra_info \<Rightarrow> bool \<times> extra_info" where
  "ExtraInfo_Unmarshal cj node x =
     (let (r1, a) = GetValue_bool cj node ''isDefaultIme'' (xi_isDefaultIme x);
          (r2, b) = GetValue_bool cj node ''isDefaultImeSet'' (xi_isDefaultImeSet x);
          (r3, c) = GetValue_bool cj node ''isTmpIme'' (xi_isTmpIme x);
          (r4, d) = GetValue_string cj node ''currentSubName'' (xi_currentSubName x)
      in (r4 \<and> r3 \<and> r2 \<and> r1,
          \<lparr>xi_isDefaultIme = a, xi_isDefaultImeSet = b, xi_isTmpIme = c, xi_currentSubName = d\<rparr>))"

definition ExtraInfo_Marshal :: "extra_info \<Rightarrow> members \<Rightarrow> members" where
  "ExtraInfo_Marshal x ms =
     (let ms = SetValue_bool ''isDefaultIme'' (xi_isDefaultIme x) ms;
          ms = SetValue_bool ''isDefaultImeSet'' (xi_isDefaultImeSet x) ms;
          ms = SetValue_bool ''isTmpIme'' (xi_isTmpIme x) ms
      in SetValue_string ''currentSubName'' (xi_currentSubName x) ms)"

record ime_enabled_info =
  ei_bundleName :: string
  ei_extensionName :: string
  ei_enabledStatus :: enabled_status
  ei_stateUpdateTime :: string
  ei_extraInfo :: extra_info

definition new_ime_enabled_info :: "string \<Rightarrow> string \<Rightarrow> enabled_status \<Rightarrow> ime_enabled_info" where
  "new_ime_enabled_info bundleName extensionName status =
     \<lparr>ei_bundleName = bundleName, ei_extensionName = extensionName, ei_enabledStatus = status, ei_stateUpdateTime = '''',
      ei_extraInfo = new_extra_info\<rparr>"

definition ImeEnabledInfo_Unmarshal :: "cjson \<Rightarrow> json \<Rightarrow> ime_enabled_info \<Rightarrow> bool \<times> ime_enabled_info" where
  "ImeEnabledInfo_Unmarshal cj node x =
     (let (r1, a) = GetValue_string cj node ''bundleName'' (ei_bundleName x);
          (r2, b) = GetValue_string cj node ''extensionName'' (ei_extensionName x);
          (r3, c) = GetValue_int cj node ''enabledStatus'' 0;
          (r4, d) = GetValue_string cj node ''stateUpdateTime'' (ei_stateUpdateTime x);
          (r5, e) = GetValue_object cj (ExtraInfo_Unmarshal cj) node ''extraInfo'' (ei_extraInfo x)
      in (r5 \<and> r4 \<and> r3 \<and> r2 \<and> r1,
          \<lparr>ei_bundleName = a, ei_extensionName = b, ei_enabledStatus = c, ei_stateUpdateTime = d, ei_extraInfo = e\<rparr>))"

definition ImeEnabledInfo_Marshal :: "ime_enabled_info \<Rightarrow> members \<Rightarrow> members" where
  "ImeEnabledInfo_Marshal x ms =
     (let ms = SetValue_string ''bundleName'' (ei_bundleName x) ms;
          ms = SetValue_string ''extensionName'' (ei_extensionName x) ms;
          ms = SetValue_int ''enabledStatus'' (ei_enabledStatus x) ms;
          ms = SetValue_string ''stateUpdateTime'' (ei_stateUpdateTime x) ms
      in SetValue_object ExtraInfo_Marshal ''extraInfo'' (ei_extraInfo x) ms)"

record ime_enabled_cfg =
  ec_version :: string
  ec_enabledInfos :: "ime_enabled_info list"

definition new_ime_enabled_cfg :: ime_enabled_cfg where
  "new_ime_enabled_cfg = \<lparr>ec_version = ''empty'', ec_enabledInfos = []\<rparr>"

text \<open>The elements of a vector are read with \<open>GetValue(item, "", values[i])\<close>.\<close>

definition ImeEnabledCfg_Unmarshal :: "cjson \<Rightarrow> json \<Rightarrow> ime_enabled_cfg \<Rightarrow> bool \<times> ime_enabled_cfg" where
  "ImeEnabledCfg_Unmarshal cj node x =
     (let (r1, a) = GetValue_string cj node ''version'' (ec_version x);
          (r2, b) = GetValue_vector cj (\<lambda>item. GetValue_object cj (ImeEnabledInfo_Unmarshal cj) item '''')
             (new_ime_enabled_info '''' '''' DISABLED) node ''inputmethods'' 0 (ec_enabledInfos x)
      in (r2 \<and> r1, \<lparr>ec_version = a, ec_enabledInfos = b\<rparr>))"

definition ImeEnabledCfg_Marshal :: "ime_enabled_cfg \<Rightarrow> members \<Rightarrow> members" where
  "ImeEnabledCfg_Marshal x ms =
     (let ms = SetValue_string ''version'' (ec_version x) ms
      in SetValue_vector ImeEnabledInfo_Marshal ''inputmethods'' (ec_enabledInfos x) ms)"

section \<open>The tables of earlier versions\<close>

record ime_persist_info =
  pe_userId :: int
  pe_currentIme :: string
  pe_currentSubName :: string
  pe_tempScreenLockIme :: string
  pe_isDefaultImeSet :: bool

definition new_ime_persist_info :: ime_persist_info where
  "new_ime_persist_info = \<lparr>pe_userId = - 1, pe_currentIme = '''', pe_currentSubName = '''', pe_tempScreenLockIme = '''',
     pe_isDefaultImeSet = False\<rparr>"

definition ImePersistInfo_Marshal :: "ime_persist_info \<Rightarrow> members \<Rightarrow> members" where
  "ImePersistInfo_Marshal x ms =
     (let ms = SetValue_int ''userId'' (pe_userId x) ms;
          ms = SetValue_string ''currentIme'' (pe_currentIme x) ms;
          ms = SetValue_string ''currentSubName'' (pe_currentSubName x) ms;
          ms = SetValue_string ''tempScreenLockIme'' (pe_tempScreenLockIme x) ms
      in SetValue_bool ''isDefaultImeSet'' (pe_isDefaultImeSet x) ms)"

definition ImePersistInfo_Unmarshal :: "cjson \<Rightarrow> json \<Rightarrow> ime_persist_info \<Rightarrow> bool \<times> ime_persist_info" where
  "ImePersistInfo_Unmarshal cj node x =
     (let (r1, a) = GetValue_int cj node ''userId'' (pe_userId x);
          (r2, b) = GetValue_string cj node ''currentIme'' (pe_currentIme x);
          (r3, c) = GetValue_string cj node ''currentSubName'' (pe_currentSubName x);
          (r4, d) = GetValue_string cj node ''tempScreenLockIme'' (pe_tempScreenLockIme x);
          (r5, e) = GetValue_bool cj node ''isDefaultImeSet'' (pe_isDefaultImeSet x)
      in (r5 \<and> r3 \<and> r2 \<and> r1,
          \<lparr>pe_userId = a, pe_currentIme = b, pe_currentSubName = c, pe_tempScreenLockIme = d, pe_isDefaultImeSet = e\<rparr>))"

definition ImePersistCfg_Unmarshal :: "cjson \<Rightarrow> json \<Rightarrow> ime_persist_info list \<Rightarrow> bool \<times> ime_persist_info list" where
  "ImePersistCfg_Unmarshal cj node infos =
     GetValue_vector cj (\<lambda>item. GetValue_object cj (ImePersistInfo_Unmarshal cj) item '''') new_ime_persist_info
       node ''imeCfgList'' 0 infos"

record user_ime_config =
  uc_userId :: string
  uc_identities :: "string list"

definition UserImeConfig_Unmarshal :: "cjson \<Rightarrow> json \<Rightarrow> user_ime_config \<Rightarrow> bool \<times> user_ime_config" where
  "UserImeConfig_Unmarshal cj node x =
     (let (r, v) = GetValue_vector cj (\<lambda>item. GetValue_string cj item '''') '''' node (uc_userId x) 0 (uc_identities x)
      in (r, x\<lparr>uc_identities := v\<rparr>))"

definition UserImeConfig_Marshal :: "user_ime_config \<Rightarrow> members \<Rightarrow> members" where
  "UserImeConfig_Marshal x ms = SetValue_strings (uc_userId x) (uc_identities x) ms"

definition EnabledImeCfg_Unmarshal :: "cjson \<Rightarrow> json \<Rightarrow> user_ime_config \<Rightarrow> bool \<times> user_ime_config" where
  "EnabledImeCfg_Unmarshal cj node x = GetValue_object cj (UserImeConfig_Unmarshal cj) node ''enableImeList'' x"

definition EnabledImeCfg_Marshal :: "user_ime_config \<Rightarrow> members \<Rightarrow> members" where
  "EnabledImeCfg_Marshal x ms = SetValue_object UserImeConfig_Marshal ''enableImeList'' x ms"

definition SecurityModeCfg_Unmarshal :: "cjson \<Rightarrow> json \<Rightarrow> user_ime_config \<Rightarrow> bool \<times> user_ime_config" where
  "SecurityModeCfg_Unmarshal cj node x = GetValue_object cj (UserImeConfig_Unmarshal cj) node ''fullExperienceList'' x"

section \<open>Round trips\<close>

text \<open>
  What the code relies on of cJSON: a printed tree parses to itself, names are looked up without regard
  to case (ASCII), and the empty text does not parse. A tree that the library cannot represent (nested
  too deep, a number beyond 32 bits, a zero character in a text) is one that \<open>cj_print\<close> does not print
  here: the law then says nothing of it.
\<close>

definition lower :: "char \<Rightarrow> char" where
  "lower c = (let n = of_char c :: nat in if 65 \<le> n \<and> n \<le> 90 then char_of (n + 32) else c)"

definition cjson_ok :: "cjson \<Rightarrow> bool" where
  "cjson_ok cj \<longleftrightarrow> (\<forall>j c. cj_print cj j = Some c \<longrightarrow> cj_parse cj c = Some j) \<and>
     (\<forall>a b. cj_same cj a b \<longleftrightarrow> map lower a = map lower b) \<and> cj_parse cj '''' = None"

lemma cj_same_lower: "cjson_ok cj \<Longrightarrow> cj_same cj a b \<longleftrightarrow> map lower a = map lower b"
  by (simp add: cjson_ok_def)

lemma GetSubNode_empty [simp]: "GetSubNode cj node '''' = Some node"
  by (simp add: GetSubNode_def)

lemma GetSubNode_object:
  "cjson_ok cj \<Longrightarrow> name \<noteq> '''' \<Longrightarrow>
   GetSubNode cj (JObject ms) name = map_option snd (List.find (\<lambda>m. map lower (fst m) = map lower name) ms)"
  by (simp add: GetSubNode_def cj_same_lower)

lemmas set_value_defs = SetValue_string_def SetValue_int_def SetValue_bool_def SetValue_object_def
  SetValue_strings_def SetValue_vector_def

lemmas get_value_defs = GetValue_string_def GetValue_int_def GetValue_bool_def GetValue_object_def

text \<open>
  What a structure that is kept as JSON promises: it is read back from what was written, whatever the
  structure it is read into held before.
\<close>

locale json_codec =
  fixes un :: "cjson \<Rightarrow> json \<Rightarrow> 'a \<Rightarrow> bool \<times> 'a"
    and mar :: "'a \<Rightarrow> members \<Rightarrow> members"
  assumes un_mar: "cjson_ok cj \<Longrightarrow> un cj (JObject (mar x [])) y = (True, x)"
begin

lemma object_roundtrip:
  assumes "cjson_ok cj" "GetSubNode cj node name = Some (JObject (mar x []))"
  shows "GetValue_object cj (un cj) node name y = (True, x)"
  using assms by (simp add: GetValue_object_def un_mar)

lemma items_roundtrip:
  assumes "cjson_ok cj" "length ys = length xs"
  shows "read_items (\<lambda>item. GetValue_object cj (un cj) item '''') (map (\<lambda>v. JObject (mar v [])) xs) ys = (True, xs)"
  using assms(2)
proof (induction xs arbitrary: ys)
  case (Cons x xs)
  then obtain y zs where "ys = y # zs" "length zs = length xs" by (cases ys) auto
  with Cons.IH [of zs] object_roundtrip [OF assms(1), of "JObject (mar x [])" "''''" x y] show ?case by simp
qed simp

lemma vector_roundtrip:
  assumes "cjson_ok cj" "GetSubNode cj node name = Some (JArray (map (\<lambda>v. JObject (mar v [])) xs))"
  shows "GetValue_vector cj (\<lambda>item. GetValue_object cj (un cj) item '''') d node name 0 ys = (True, xs)"
  using assms by (simp add: GetValue_vector_def items_roundtrip resize_def)

lemma text_roundtrip:
  assumes "cjson_ok cj" "Marshall cj mar x = Some c"
  shows "Unmarshall cj (un cj) c y = (True, x)"
  using assms by (simp add: Marshall_def Unmarshall_def cjson_ok_def un_mar)

end

interpretation xi: json_codec ExtraInfo_Unmarshal ExtraInfo_Marshal
  by unfold_locales
     (simp add: ExtraInfo_Unmarshal_def ExtraInfo_Marshal_def Let_def set_value_defs get_value_defs GetSubNode_object lower_def)

interpretation ei: json_codec ImeEnabledInfo_Unmarshal ImeEnabledInfo_Marshal
proof
  fix cj x y
  assume cj: "cjson_ok cj"
  note X = xi.object_roundtrip [OF cj, of _ _ "ei_extraInfo x"]
  show "ImeEnabledInfo_Unmarshal cj (JObject (ImeEnabledInfo_Marshal x [])) y = (True, x)"
    using cj by (simp add: X ImeEnabledInfo_Unmarshal_def ImeEnabledInfo_Marshal_def Let_def set_value_defs
        GetValue_string_def GetValue_int_def GetSubNode_object lower_def)
qed

interpretation ec: json_codec ImeEnabledCfg_Unmarshal ImeEnabledCfg_Marshal
proof
  fix cj x y
  assume cj: "cjson_ok cj"
  show "ImeEnabledCfg_Unmarshal cj (JObject (ImeEnabledCfg_Marshal x [])) y = (True, x)"
    using cj by (simp add: ei.vector_roundtrip [OF cj, of _ _ "ec_enabledInfos x"] ImeEnabledCfg_Unmarshal_def
        ImeEnabledCfg_Marshal_def Let_def set_value_defs GetValue_string_def GetSubNode_object lower_def)
qed

interpretation pe: json_codec ImePersistInfo_Unmarshal ImePersistInfo_Marshal
  by unfold_locales
     (simp add: ImePersistInfo_Unmarshal_def ImePersistInfo_Marshal_def Let_def set_value_defs get_value_defs
        GetSubNode_object lower_def)

section \<open>The stored text\<close>

text \<open>C40. A table of enabled input methods that is written as JSON text is read back unchanged, with its version and
  every field of every entry.\<close>

theorem enabled_cfg_roundtrip:
  assumes "cjson_ok cj" "Marshall cj ImeEnabledCfg_Marshal cfg = Some c"
  shows "Unmarshall cj (ImeEnabledCfg_Unmarshal cj) c new_ime_enabled_cfg = (True, cfg)"
  by (rule ec.text_roundtrip [OF assms])

end
