(* ===== verification/Settings_Data.thy ===== *)
theory Settings_Data
  imports Json_Serializable
begin

text \<open>
  Access to the settings database (\<open>settings_data_utils.cpp\<close>). The system ability manager and the
  data share library are a parameter: \<open>'d\<close> is the state of the outside world and \<open>data_share\<close> holds
  the calls, each with its result and the world after it. The state of \<open>SettingsDataUtils\<close> is a record
  that the components built on it extend.
\<close>

section \<open>Return codes\<close>

abbreviation (input) ERROR_EX_PARCELABLE :: int where "ERROR_EX_PARCELABLE \<equiv> - 6"
abbreviation (input) ERROR_PERSIST_CONFIG :: int where "ERROR_PERSIST_CONFIG \<equiv> 5"
abbreviation (input) ERROR_KEYWORD_NOT_FOUND :: int where "ERROR_KEYWORD_NOT_FOUND \<equiv> 15"
abbreviation (input) ERROR_ENABLE_IME :: int where "ERROR_ENABLE_IME \<equiv> 16"
abbreviation (input) ERROR_IME_NOT_FOUND :: int where "ERROR_IME_NOT_FOUND \<equiv> 86"
abbreviation (input) ERROR_OPERATE_SYSTEM_IME :: int where "ERROR_OPERATE_SYSTEM_IME \<equiv> 87"

section \<open>Numbers and addresses as text\<close>

fun digits :: "nat \<Rightarrow> string" where
  "digits n = (if n < 10 then [char_of (48 + n)] else digits (n div 10) @ [char_of (48 + n mod 10)])"

declare digits.simps [simp del]

definition to_string :: "int \<Rightarrow> string" where
  "to_string i = (if i < 0 then ''-'' @ digits (nat (- i)) else digits (nat i))"

abbreviation SETTING_URI_PROXY :: string where
  "SETTING_URI_PROXY \<equiv> ''datashare:///com.ohos.settingsdata/entry/settingsdata/SETTINGSDATA?Proxy=true''"

definition user_uri :: "int \<Rightarrow> string" where
  "user_uri userId = ''datashare:///com.ohos.settingsdata/entry/settingsdata/USER_SETTINGSDATA_'' @ to_string userId @ ''?Proxy=true''"

abbreviation ENABLE_IME :: string where "ENABLE_IME \<equiv> ''settings.inputmethod.enable_ime''"
abbreviation SECURITY_MODE :: string where "SECURITY_MODE \<equiv> ''settings.inputmethod.full_experience''"

definition GenerateTargetUri :: "string \<Rightarrow> string \<Rightarrow> string" where
  "GenerateTargetUri uriProxy key = uriProxy @ ''&key='' @ key"

text \<open>\<open>content.find(pat) != npos\<close>\<close>

fun contains :: "string \<Rightarrow> string \<Rightarrow> bool" where
  "contains pat [] \<longleftrightarrow> pat = []"
| "contains pat (c # cs) \<longleftrightarrow> take (length pat) (c # cs) = pat \<or> contains pat cs"

section \<open>The data share library\<close>

text \<open>The rows of a query: their number, the result of \<open>GetString\<close> and its text.\<close>

record result_set =
  rs_count :: int
  rs_ret :: int
  rs_value :: string

record 'd data_share =
  ds_token :: "'d \<Rightarrow> bool \<times> 'd"                              \<comment> \<open>the system ability is found\<close>
  ds_create :: "string \<Rightarrow> 'd \<Rightarrow> bool \<times> 'd"                   \<comment> \<open>\<open>DataShareHelper::Creator\<close>\<close>
  ds_update :: "string \<Rightarrow> string \<Rightarrow> string \<Rightarrow> 'd \<Rightarrow> int \<times> 'd"   \<comment> \<open>address, key, value\<close>
  ds_insert :: "string \<Rightarrow> string \<Rightarrow> string \<Rightarrow> 'd \<Rightarrow> int \<times> 'd"
  ds_query :: "string \<Rightarrow> string \<Rightarrow> 'd \<Rightarrow> result_set option \<times> 'd"
  ds_release :: "'d \<Rightarrow> bool \<times> 'd"
  ds_register :: "string \<Rightarrow> nat \<Rightarrow> 'd \<Rightarrow> 'd"
  ds_unregister :: "string \<Rightarrow> nat \<Rightarrow> 'd \<Rightarrow> 'd"

section \<open>\<open>SettingsDataUtils\<close>\<close>

record observer =
  ob_uriProxy :: string
  ob_key :: string
  ob_id :: nat

record 'd settings =
  sd_world :: 'd
  sd_remoteObj :: bool
  sd_isDataShareReady :: bool
  sd_observerList :: "observer list"
  sd_nextObserver :: nat

type_synonym ('d, 'x, 'a) settings_op = "(('d, 'x) settings_scheme, 'a) state"

definition outside :: "('d \<Rightarrow> 'a \<times> 'd) \<Rightarrow> ('d, 'x, 'a) settings_op" where
  "outside f = do { w \<leftarrow> gets sd_world; modify (\<lambda>s. s\<lparr>sd_world := snd (f w)\<rparr>); ret (fst (f w)) }"

definition GetToken :: "'d data_share \<Rightarrow> ('d, 'x, bool) settings_op" where
  "GetToken D = do {
     r \<leftarrow> gets sd_remoteObj;
     if r then ret True
     else do {
       ok \<leftarrow> outside (ds_token D);
       when_do ok (modify (\<lambda>s. s\<lparr>sd_remoteObj := True\<rparr>));
       ret ok } }"

definition CreateDataShareHelper :: "'d data_share \<Rightarrow> string \<Rightarrow> ('d, 'x, bool) settings_op" where
  "CreateDataShareHelper D uriProxy = do {
     r \<leftarrow> GetToken D;
     if \<not> r then ret False else outside (ds_create D uriProxy) }"

definition ReleaseDataShareHelper :: "'d data_share \<Rightarrow> ('d, 'x, bool) settings_op" where
  "ReleaseDataShareHelper D = outside (ds_release D)"

definition SetStringValue :: "'d data_share \<Rightarrow> string \<Rightarrow> string \<Rightarrow> string \<Rightarrow> ('d, 'x, bool) settings_op" where
  "SetStringValue D uriProxy key value = do {
     helper \<leftarrow> CreateDataShareHelper D uriProxy;
     if \<not> helper then ret False
     else do {
       n \<leftarrow> outside (ds_update D (GenerateTargetUri uriProxy key) key value);
       when_do (n \<le> 0) (void (outside (ds_insert D (GenerateTargetUri uriProxy key) key value)));
       ReleaseDataShareHelper D } }"

text \<open>The code and the value; the value stays as it was unless \<open>GetString\<close> stores one.\<close>

definition GetStringValue :: "'d data_share \<Rightarrow> string \<Rightarrow> string \<Rightarrow> string \<Rightarrow> ('d, 'x, int \<times> string) settings_op" where
  "GetStringValue D uriProxy key value = do {
     helper \<leftarrow> CreateDataShareHelper D uriProxy;
     if \<not> helper then ret (ERROR_NULL_POINTER, value)
     else do {
       resultSet \<leftarrow> outside (ds_query D (GenerateTargetUri uriProxy key) key);
       ReleaseDataShareHelper D;
       ret (case resultSet of None \<Rightarrow> (ERROR_NULL_POINTER, value)
            | Some rs \<Rightarrow> if rs_count rs \<le> 0 then (ERROR_KEYWORD_NOT_FOUND, value)
                         else (rs_ret rs, rs_value rs)) } }"

definition register_observer :: "'d data_share \<Rightarrow> observer \<Rightarrow> ('d, 'x, int) settings_op" where
  "register_observer D ob = do {
     helper \<leftarrow> CreateDataShareHelper D (ob_uriProxy ob);
     if \<not> helper then ret ERROR_NULL_POINTER
     else do {
       outside (\<lambda>w. ((), ds_register D (GenerateTargetUri (ob_uriProxy ob) (ob_key ob)) (ob_id ob) w));
       ReleaseDataShareHelper D;
       modify (\<lambda>s. s\<lparr>sd_observerList := sd_observerList s @ [ob]\<rparr>);
       ret NO_ERROR } }"

text \<open>The observer that was created is returned also when it cannot be registered.\<close>

definition RegisterObserver :: "'d data_share \<Rightarrow> string \<Rightarrow> string \<Rightarrow> ('d, 'x, int \<times> observer) settings_op" where
  "RegisterObserver D uriProxy key = do {
     n \<leftarrow> gets sd_nextObserver;
     modify (\<lambda>s. s\<lparr>sd_nextObserver := Suc n\<rparr>);
     let ob = \<lparr>ob_uriProxy = uriProxy, ob_key = key, ob_id = n\<rparr>;
     r \<leftarrow> register_observer D ob;
     ret (r, ob) }"

definition UnregisterObserver :: "'d data_share \<Rightarrow> observer \<Rightarrow> ('d, 'x, int) settings_op" where
  "UnregisterObserver D ob = do {
     helper \<leftarrow> CreateDataShareHelper D (ob_uriProxy ob);
     if \<not> helper then ret ERROR_NULL_POINTER
     else do {
       outside (\<lambda>w. ((), ds_unregister D (GenerateTargetUri (ob_uriProxy ob) (ob_key ob)) (ob_id ob) w));
       ReleaseDataShareHelper D;
       modify (\<lambda>s. s\<lparr>sd_observerList := removeAll ob (sd_observerList s)\<rparr>);
       ret NO_ERROR } }"

definition Release_settings :: "'d data_share \<Rightarrow> ('d, 'x, unit) settings_op" where
  "Release_settings D = do {
     obs \<leftarrow> gets sd_observerList;
     modify (\<lambda>s. s\<lparr>sd_observerList := []\<rparr>);
     for_each obs (\<lambda>ob. void (UnregisterObserver D ob)) }"

definition NotifyDataShareReady :: "('d, 'x, unit) settings_op" where
  "NotifyDataShareReady = modify (\<lambda>s. s\<lparr>sd_isDataShareReady := True\<rparr>)"

definition SetEDCBackupInputMethod :: "'d data_share \<Rightarrow> int \<Rightarrow> string \<Rightarrow> ('d, 'x, bool) settings_op" where
  "SetEDCBackupInputMethod D userId backupIme =
     SetStringValue D SETTING_URI_PROXY (''settings.inputmethod.edc_backup_ime'' @ to_string userId) backupIme"

definition GetEDCBackupInputMethod :: "'d data_share \<Rightarrow> int \<Rightarrow> string \<Rightarrow> ('d, 'x, bool \<times> string) settings_op" where
  "GetEDCBackupInputMethod D userId backupIme = do {
     (r, v) \<leftarrow> GetStringValue D SETTING_URI_PROXY (''settings.inputmethod.edc_backup_ime'' @ to_string userId) backupIme;
     ret (r = NO_ERROR, v) }"

definition SetPushToTalkDialogPopped :: "'d data_share \<Rightarrow> ('d, 'x, unit) settings_op" where
  "SetPushToTalkDialogPopped D =
     void (SetStringValue D SETTING_URI_PROXY ''settings.keyboard.push_talk_dialog_pop'' ''true'')"

definition GetPushToTalkDialogPopped :: "'d data_share \<Rightarrow> ('d, 'x, bool) settings_op" where
  "GetPushToTalkDialogPopped D = do {
     (r, v) \<leftarrow> GetStringValue D SETTING_URI_PROXY ''settings.keyboard.push_talk_dialog_pop'' '''';
     ret (r = NO_ERROR \<and> v = ''true'') }"

end
