(* ===== verification/Ime_Enabled_Info.thy ===== *)
theory Ime_Enabled_Info
  imports Settings_Data "HOL-Library.List_Lexorder" "HOL-Library.Char_ord"
begin

text \<open>
  The table of enabled input methods of each user: \<open>ImeEnabledInfoManager\<close>
  (\<open>ime_enabled_info_manager.cpp\<close>), which keeps it in a cache and in the settings database, and
  \<open>EnableUpgradeManager\<close> (\<open>enable_upgrade_manager.cpp\<close>), which builds it from the tables of earlier
  versions. The answers of the bundle manager, of the account manager and of the clock, and the system
  configuration, are the environment.
\<close>

section \<open>The environment\<close>

text \<open>What is read of \<open>Property\<close> and \<open>FullImeInfo\<close>.\<close>

record ime_property =
  pr_name :: string
  pr_id :: string
  pr_status :: enabled_status

record full_ime_info =
  fi_prop :: ime_property
  fi_isSystemSpecialIme :: bool

record default_full_ime_info =
  df_appId :: string
  df_expirationTime :: string
  df_expirationVersionCode :: u32

record 'd settings_env =
  se_cj :: cjson
  se_ds :: "'d data_share"
  se_defaultInputMethod :: string               \<comment> \<open>of the system configuration\<close>
  se_defaultParam :: string                     \<comment> \<open>the system parameter, empty if not set\<close>
  se_enableInputMethodFeature :: bool
  se_enableFullExperienceFeature :: bool
  se_initEnabledState :: enabled_status
  se_hasInitEnabledState :: bool
  se_isInputMethod :: "'d \<Rightarrow> int \<Rightarrow> string \<Rightarrow> bool"
  se_isImeInstalled :: "'d \<Rightarrow> int \<Rightarrow> string \<Rightarrow> string \<Rightarrow> bool"
  se_queryFullImeInfo :: "'d \<Rightarrow> int \<Rightarrow> int \<times> full_ime_info list"
  se_appId :: "'d \<Rightarrow> int \<Rightarrow> string \<Rightarrow> string option"
  se_versionCode :: "'d \<Rightarrow> int \<Rightarrow> string \<Rightarrow> u32 option"
  se_defaultFullImeList :: "default_full_ime_info list option"
  se_parseTime :: "string \<Rightarrow> int option"        \<comment> \<open>\<open>std::get_time\<close> and \<open>mktime\<close>\<close>
  se_now :: "'d \<Rightarrow> int"                         \<comment> \<open>milliseconds\<close>
  se_displayVersion :: string
  se_imeCfgFile :: "'d \<Rightarrow> string option option" \<comment> \<open>\<open>None\<close>: no file; \<open>Some None\<close>: it cannot be read\<close>
  se_foregroundUser :: "'d \<Rightarrow> int"

text \<open>\<open>find('/')\<close> and the two parts, empty when either the separator or the second part is missing.\<close>

definition SplitImeId :: "string \<Rightarrow> string \<times> string" where
  "SplitImeId imeId =
     (let bundleName = takeWhile (\<lambda>c. c \<noteq> CHR ''/'') imeId; pos = length bundleName
      in if pos + 1 < length imeId then (bundleName, drop (pos + 1) imeId) else ('''', ''''))"

definition GetDefaultIme :: "'d settings_env \<Rightarrow> ime_native_cfg" where
  "GetDefaultIme E =
     (let imeId = (if se_defaultInputMethod E \<noteq> '''' then se_defaultInputMethod E else se_defaultParam E);
          bundleName = takeWhile (\<lambda>c. c \<noteq> CHR ''/'') imeId; pos = length bundleName
      in if length imeId \<le> pos + 1 then empty_native_cfg
         else empty_native_cfg\<lparr>nc_imeId := imeId, nc_bundleName := bundleName, nc_extName := drop (pos + 1) imeId\<rparr>)"

definition GetDefaultImeCfg :: "'d settings_env \<Rightarrow> ime_native_cfg option" where
  "GetDefaultImeCfg E = (let ime = GetDefaultIme E in
     if nc_bundleName ime = '''' \<or> nc_extName ime = '''' then None else Some ime)"

definition GetDefaultImeCfgProp :: "'d settings_env \<Rightarrow> ime_property option" where
  "GetDefaultImeCfgProp E = (let ime = GetDefaultIme E in
     if nc_bundleName ime = '''' \<or> nc_extName ime = '''' then None
     else Some \<lparr>pr_name = nc_bundleName ime, pr_id = nc_extName ime, pr_status = DISABLED\<rparr>)"

definition ComputeSysCfgEnabledStatus :: "'d settings_env \<Rightarrow> enabled_status \<Rightarrow> enabled_status" where
  "ComputeSysCfgEnabledStatus E initStatus =
     (if se_hasInitEnabledState E then initStatus
      else if \<not> se_enableFullExperienceFeature E
      then (if se_enableInputMethodFeature E then DISABLED else FULL_EXPERIENCE_MODE)
      else if \<not> se_enableInputMethodFeature E then BASIC_MODE
      else DISABLED)"

definition ComputeEnabledStatus :: "'d settings_env \<Rightarrow> string \<Rightarrow> bool \<Rightarrow> enabled_status \<Rightarrow> enabled_status" where
  "ComputeEnabledStatus E bundleName isSystemSpecialIme initStatus =
     (if bundleName = '''' then DISABLED
      else if isSystemSpecialIme then FULL_EXPERIENCE_MODE
      else let status = ComputeSysCfgEnabledStatus E initStatus; sysIme = GetDefaultIme E in
           if nc_bundleName sysIme = '''' then status
           else if status = DISABLED \<and> bundleName = nc_bundleName sysIme then BASIC_MODE
           else status)"

section \<open>Tables\<close>

text \<open>Changing what \<open>std::find_if\<close> finds.\<close>

fun upd_first :: "('a \<Rightarrow> bool) \<Rightarrow> ('a \<Rightarrow> 'a) \<Rightarrow> 'a list \<Rightarrow> 'a list" where
  "upd_first P f [] = []"
| "upd_first P f (x # xs) = (if P x then f x # xs else x # upd_first P f xs)"

definition find_bundle :: "string \<Rightarrow> ime_enabled_info list \<Rightarrow> ime_enabled_info option" where
  "find_bundle b infos = List.find (\<lambda>i. ei_bundleName i = b) infos"

definition upd_extra :: "(extra_info \<Rightarrow> extra_info) \<Rightarrow> ime_enabled_info \<Rightarrow> ime_enabled_info" where
  "upd_extra f i = i\<lparr>ei_extraInfo := f (ei_extraInfo i)\<rparr>"

abbreviation is_default :: "ime_enabled_info \<Rightarrow> bool" where
  "is_default i \<equiv> xi_isDefaultIme (ei_extraInfo i)"

abbreviation is_tmp :: "ime_enabled_info \<Rightarrow> bool" where
  "is_tmp i \<equiv> xi_isTmpIme (ei_extraInfo i)"

abbreviation sub_name :: "ime_enabled_info \<Rightarrow> string" where
  "sub_name i \<equiv> xi_currentSubName (ei_extraInfo i)"

definition IsCurrentIme :: "string \<Rightarrow> ime_enabled_info list \<Rightarrow> bool" where
  "IsCurrentIme bundleName infos =
     (case List.find is_default infos of None \<Rightarrow> False | Some i \<Rightarrow> ei_bundleName i = bundleName)"

text \<open>
  \<open>ModCurrentIme\<close>: the new input method is marked before the old one is cleared. \<open>oldIter\<close> and
  \<open>newIter\<close> are positions.
\<close>

fun position :: "('a \<Rightarrow> bool) \<Rightarrow> 'a list \<Rightarrow> nat option" where
  "position P [] = None"
| "position P (x # xs) = (if P x then Some 0 else map_option Suc (position P xs))"

definition ModCurrentIme :: "'d settings_env \<Rightarrow> ime_enabled_info list \<Rightarrow> ime_enabled_info list" where
  "ModCurrentIme E infos =
     (let oldIter = position is_default infos;
          newIter = (case position (\<lambda>i. ei_bundleName i = nc_bundleName (GetDefaultIme E)) infos of
              Some n \<Rightarrow> Some n
            | None \<Rightarrow> position (\<lambda>i. ei_enabledStatus i \<noteq> DISABLED) infos)
      in case newIter of None \<Rightarrow> infos
         | Some n \<Rightarrow>
           (let infos1 = infos[n := upd_extra (\<lambda>x. x\<lparr>xi_isDefaultIme := True\<rparr>) (infos ! n)]
            in case oldIter of None \<Rightarrow> infos1
               | Some k \<Rightarrow> infos1[k := upd_extra (\<lambda>x. x\<lparr>xi_isDefaultIme := False, xi_isDefaultImeSet := False,
                   xi_isTmpIme := False, xi_currentSubName := ''''\<rparr>) (infos1 ! k)]))"

section \<open>\<open>EnableUpgradeManager\<close>\<close>

record 'd upgrade_state = "'d settings" +
  ug_upgradedUserId :: "int set"

type_synonym ('d, 'x, 'a) upgrade_op = "(('d, 'x) upgrade_state_scheme, 'a) state"

definition GetEnabledTable_content :: "'d settings_env \<Rightarrow> string \<Rightarrow> string \<Rightarrow> ('d, 'x, int \<times> string) settings_op" where
  "GetEnabledTable_content E uriProxy content = GetStringValue (se_ds E) uriProxy ENABLE_IME content"

definition GetGlobalEnabledTable_content :: "'d settings_env \<Rightarrow> string \<Rightarrow> ('d, 'x, int \<times> string) settings_op" where
  "GetGlobalEnabledTable_content E content = GetEnabledTable_content E SETTING_URI_PROXY content"

definition GetUserEnabledTable_content :: "'d settings_env \<Rightarrow> int \<Rightarrow> string \<Rightarrow> ('d, 'x, int \<times> string) settings_op" where
  "GetUserEnabledTable_content E userId content = GetEnabledTable_content E (user_uri userId) content"

text \<open>A \<open>std::set<std::string>\<close> is the list of its elements in order.\<close>

definition ParseEnabledTable :: "'d settings_env \<Rightarrow> int \<Rightarrow> string \<Rightarrow> int \<times> string list" where
  "ParseEnabledTable E userId content =
     (case Unmarshall (se_cj E) (EnabledImeCfg_Unmarshal (se_cj E)) content \<lparr>uc_userId = to_string userId, uc_identities = []\<rparr> of
        (False, _) \<Rightarrow> (ERROR_EX_PARCELABLE, [])
      | (True, c) \<Rightarrow> (NO_ERROR, sort (remdups (uc_identities c))))"

definition GetEnabledTable_names :: "'d settings_env \<Rightarrow> int \<Rightarrow> string \<Rightarrow> ('d, 'x, int \<times> string list) settings_op" where
  "GetEnabledTable_names E userId uriProxy = do {
     (r, content) \<leftarrow> GetEnabledTable_content E uriProxy '''';
     ret (if r \<noteq> NO_ERROR then (r, []) else ParseEnabledTable E userId content) }"

definition GetEnabledTable :: "'d settings_env \<Rightarrow> int \<Rightarrow> ('d, 'x, int \<times> string list) settings_op" where
  "GetEnabledTable E userId = do {
     (r, names) \<leftarrow> GetEnabledTable_names E userId SETTING_URI_PROXY;
     if r = ERROR_EX_PARCELABLE then GetEnabledTable_names E userId (user_uri userId) else ret (r, names) }"

definition GetFullExperienceTable :: "'d settings_env \<Rightarrow> int \<Rightarrow> ('d, 'x, int \<times> string list) settings_op" where
  "GetFullExperienceTable E userId = do {
     (r, content) \<leftarrow> GetStringValue (se_ds E) SETTING_URI_PROXY SECURITY_MODE '''';
     ret (if r \<noteq> NO_ERROR then (r, [])
          else case Unmarshall (se_cj E) (SecurityModeCfg_Unmarshal (se_cj E)) content
                      \<lparr>uc_userId = to_string userId, uc_identities = []\<rparr> of
             (False, _) \<Rightarrow> (ERROR_EX_PARCELABLE, [])
           | (True, c) \<Rightarrow> (NO_ERROR, sort (remdups (uc_identities c)))) }"

fun add_full_mode :: "string list \<Rightarrow> ime_enabled_info list \<Rightarrow> ime_enabled_info list" where
  "add_full_mode [] infos = infos"
| "add_full_mode (b # bs) infos = add_full_mode bs
     (if find_bundle b infos \<noteq> None
      then upd_first (\<lambda>i. ei_bundleName i = b) (\<lambda>i. i\<lparr>ei_enabledStatus := FULL_EXPERIENCE_MODE\<rparr>) infos
      else infos @ [new_ime_enabled_info b '''' FULL_EXPERIENCE_MODE])"

definition MergeTwoTable :: "'d settings_env \<Rightarrow> int \<Rightarrow> ('d, 'x, int \<times> ime_enabled_info list) settings_op" where
  "MergeTwoTable E userId = do {
     (r, enabledBundleNames) \<leftarrow> GetEnabledTable E userId;
     if r \<noteq> NO_ERROR \<and> r \<noteq> ERROR_KEYWORD_NOT_FOUND \<and> r \<noteq> ERROR_EX_PARCELABLE then ret (r, [])
     else do {
       (r, fullModeBundleNames) \<leftarrow> GetFullExperienceTable E userId;
       ret (if r \<noteq> NO_ERROR \<and> r \<noteq> ERROR_KEYWORD_NOT_FOUND \<and> r \<noteq> ERROR_EX_PARCELABLE then (r, [])
            else (NO_ERROR, add_full_mode fullModeBundleNames
                    (map (\<lambda>b. new_ime_enabled_info b '''' BASIC_MODE) enabledBundleNames))) } }"

text \<open>The installed input methods: the given ones, or those the bundle manager knows.\<close>

definition final_ime_infos :: "'d settings_env \<Rightarrow> int \<Rightarrow> full_ime_info list \<Rightarrow> ('d, 'x, int \<times> full_ime_info list) settings_op" where
  "final_ime_infos E userId imeInfos =
     (if imeInfos \<noteq> [] then ret (NO_ERROR, imeInfos) else gets (\<lambda>s. se_queryFullImeInfo E (sd_world s) userId))"

fun pad_infos :: "(ime_enabled_info \<Rightarrow> bool) \<Rightarrow> (full_ime_info \<Rightarrow> enabled_status) \<Rightarrow> full_ime_info list
    \<Rightarrow> ime_enabled_info list \<Rightarrow> ime_enabled_info list" where
  "pad_infos may st [] infos = infos"
| "pad_infos may st (f # fs) infos = pad_infos may st fs
     (let name = pr_name (fi_prop f); ident = pr_id (fi_prop f) in
      if find_bundle name infos \<noteq> None
      then upd_first (\<lambda>i. ei_bundleName i = name) (\<lambda>i. if may i then i\<lparr>ei_extensionName := ident\<rparr> else i) infos
      else infos @ [new_ime_enabled_info name ident (st f)])"

definition PaddedByBundleMgr :: "'d settings_env \<Rightarrow> int \<Rightarrow> full_ime_info list \<Rightarrow> ime_enabled_info list
    \<Rightarrow> ('d, 'x, int \<times> ime_enabled_info list) settings_op" where
  "PaddedByBundleMgr E userId imeInfos infos = do {
     (r, finalImeInfos) \<leftarrow> final_ime_infos E userId imeInfos;
     ret (if r \<noteq> NO_ERROR then (r, infos)
          else (NO_ERROR, pad_infos (\<lambda>_. True)
                  (\<lambda>f. ComputeEnabledStatus E (pr_name (fi_prop f)) (fi_isSystemSpecialIme f) DISABLED) finalImeInfos infos)) }"

definition GetImePersistCfg :: "'d settings_env \<Rightarrow> 'd \<Rightarrow> int \<Rightarrow> int \<times> ime_persist_info" where
  "GetImePersistCfg E w userId = (case se_imeCfgFile E w of
     None \<Rightarrow> (NO_ERROR, new_ime_persist_info)
   | Some None \<Rightarrow> (ERROR_PERSIST_CONFIG, new_ime_persist_info)
   | Some (Some content) \<Rightarrow>
       (case Unmarshall (se_cj E) (ImePersistCfg_Unmarshal (se_cj E)) content [] of
          (False, _) \<Rightarrow> (NO_ERROR, new_ime_persist_info)
        | (True, infos) \<Rightarrow> (NO_ERROR, case List.find (\<lambda>i. pe_userId i = userId) infos of
            None \<Rightarrow> new_ime_persist_info | Some i \<Rightarrow> i)))"

definition padded_by_persist :: "'d settings_env \<Rightarrow> ime_persist_info \<Rightarrow> ime_enabled_info list \<Rightarrow> ime_enabled_info list" where
  "padded_by_persist E p infos =
     (let (b, e) = SplitImeId (pe_currentIme p);
          isCur = (\<lambda>i. ei_bundleName i = b \<and> ei_extensionName i = e \<and> ei_enabledStatus i \<noteq> DISABLED);
          infos1 = (if List.find isCur infos \<noteq> None
             then upd_first isCur (upd_extra (\<lambda>x. x\<lparr>xi_isDefaultIme := True, xi_isDefaultImeSet := pe_isDefaultImeSet p,
                    xi_currentSubName := pe_currentSubName p\<rparr>)) infos
             else upd_first (\<lambda>i. ei_bundleName i = nc_bundleName (GetDefaultIme E))
                    (upd_extra (\<lambda>x. x\<lparr>xi_isDefaultIme := True\<rparr>)) infos);
          (tb, te) = SplitImeId (pe_tempScreenLockIme p)
      in upd_first (\<lambda>i. ei_bundleName i = tb \<and> ei_extensionName i = te) (upd_extra (\<lambda>x. x\<lparr>xi_isTmpIme := True\<rparr>)) infos1)"

definition PaddedByImePersistCfg :: "'d settings_env \<Rightarrow> int \<Rightarrow> ime_enabled_info list
    \<Rightarrow> ('d, 'x, int \<times> ime_enabled_info list) settings_op" where
  "PaddedByImePersistCfg E userId infos = do {
     w \<leftarrow> gets sd_world;
     ret (case GetImePersistCfg E w userId of (r, p) \<Rightarrow>
            if r \<noteq> NO_ERROR then (r, infos) else (NO_ERROR, padded_by_persist E p infos)) }"

definition SetGlobalEnabledTable :: "'d settings_env \<Rightarrow> string \<Rightarrow> ('d, 'x, bool) settings_op" where
  "SetGlobalEnabledTable E content = SetStringValue (se_ds E) SETTING_URI_PROXY ENABLE_IME content"

definition SetUserEnabledTable :: "'d settings_env \<Rightarrow> int \<Rightarrow> string \<Rightarrow> ('d, 'x, bool) settings_op" where
  "SetUserEnabledTable E userId content = SetStringValue (se_ds E) (user_uri userId) ENABLE_IME content"

text \<open>The table is written as an empty text when it cannot be printed.\<close>

definition Upgrade :: "'d settings_env \<Rightarrow> int \<Rightarrow> full_ime_info list \<Rightarrow> ('d, 'x, int) upgrade_op" where
  "Upgrade E userId imeInfos = do {
     done \<leftarrow> gets ug_upgradedUserId;
     if userId \<in> done then ret NO_ERROR
     else do {
       (r, userContent) \<leftarrow> GetUserEnabledTable_content E userId '''';
       if r \<noteq> NO_ERROR \<and> r \<noteq> ERROR_KEYWORD_NOT_FOUND then ret r
       else if contains ''version'' userContent then do {
         modify (\<lambda>s. s\<lparr>ug_upgradedUserId := insert userId (ug_upgradedUserId s)\<rparr>);
         ret NO_ERROR }
       else do {
         (r, infos) \<leftarrow> MergeTwoTable E userId;
         if r \<noteq> NO_ERROR then ret r
         else do {
           (r, infos) \<leftarrow> PaddedByBundleMgr E userId imeInfos infos;
           if r \<noteq> NO_ERROR then ret r
           else do {
             (r, infos) \<leftarrow> PaddedByImePersistCfg E userId infos;
             if r \<noteq> NO_ERROR then ret r
             else do {
               let cfg = \<lparr>ec_version = se_displayVersion E, ec_enabledInfos = infos\<rparr>;
               ok \<leftarrow> SetUserEnabledTable E userId
                 (case Marshall (se_cj E) ImeEnabledCfg_Marshal cfg of None \<Rightarrow> '''' | Some c \<Rightarrow> c);
               if \<not> ok then ret ERROR_ENABLE_IME
               else do {
                 modify (\<lambda>s. s\<lparr>ug_upgradedUserId := insert userId (ug_upgradedUserId s)\<rparr>);
                 ret NO_ERROR } } } } } } }"

text \<open>\<open>atoi\<close>: blanks, a sign, and digits up to the first other character.\<close>

definition digit_value :: "char \<Rightarrow> nat" where
  "digit_value c = of_char c - 48"

definition is_digit :: "char \<Rightarrow> bool" where
  "is_digit c \<longleftrightarrow> 48 \<le> (of_char c :: nat) \<and> (of_char c :: nat) \<le> 57"

definition read_digits :: "string \<Rightarrow> nat" where
  "read_digits s = foldl (\<lambda>n c. 10 * n + digit_value c) 0 (takeWhile is_digit s)"

definition atoi :: "string \<Rightarrow> int" where
  "atoi s = (case dropWhile (\<lambda>c. c = CHR '' '' \<or> 9 \<le> (of_char c :: nat) \<and> (of_char c :: nat) \<le> 13) s of
     [] \<Rightarrow> 0
   | c # cs \<Rightarrow> if c = CHR ''-'' then - int (read_digits cs)
               else if c = CHR ''+'' then int (read_digits cs) else int (read_digits (c # cs)))"

definition GetGlobalTableUserId :: "'d settings_env \<Rightarrow> string \<Rightarrow> int" where
  "GetGlobalTableUserId E valueStr = (case cj_parse (se_cj E) valueStr of None \<Rightarrow> - 1
     | Some rt \<Rightarrow> (case GetSubNode (se_cj E) rt ''enableImeList'' of
         Some (JObject ((k, _) # _)) \<Rightarrow> atoi k | _ \<Rightarrow> - 1))"

definition GenerateGlobalContent :: "'d settings_env \<Rightarrow> int \<Rightarrow> string list \<Rightarrow> string" where
  "GenerateGlobalContent E userId bundleNames =
     (case Marshall (se_cj E) EnabledImeCfg_Marshal \<lparr>uc_userId = to_string userId, uc_identities = bundleNames\<rparr> of
        None \<Rightarrow> '''' | Some c \<Rightarrow> c)"

definition Upgrade_UpdateGlobalEnabledTable :: "'d settings_env \<Rightarrow> int \<Rightarrow> ime_enabled_cfg
    \<Rightarrow> ('d, 'x, unit) upgrade_op" where
  "Upgrade_UpdateGlobalEnabledTable E userId newEnabledCfg =
     (if \<not> se_enableInputMethodFeature E then ret ()
      else do {
        w \<leftarrow> gets sd_world;
        if userId \<noteq> se_foregroundUser E w then ret ()
        else do {
          let newBundleNames = map ei_bundleName (filter (\<lambda>i. ei_enabledStatus i \<noteq> DISABLED \<and>
            se_isImeInstalled E w userId (ei_bundleName i) (ei_extensionName i)) (ec_enabledInfos newEnabledCfg));
          (r, oldGlobalContent) \<leftarrow> GetGlobalEnabledTable_content E '''';
          if r \<noteq> NO_ERROR \<and> r \<noteq> ERROR_KEYWORD_NOT_FOUND then ret ()
          else do {
            let newGlobalContent = GenerateGlobalContent E userId newBundleNames;
            if newGlobalContent = '''' \<or> newGlobalContent = oldGlobalContent then ret ()
            else do {
              let globalTableUserId = GetGlobalTableUserId E oldGlobalContent;
              if globalTableUserId = - 1 \<or> userId = globalTableUserId
              then void (SetGlobalEnabledTable E newGlobalContent)
              else do {
                r \<leftarrow> Upgrade E globalTableUserId [];
                if r \<noteq> NO_ERROR then ret () else void (SetGlobalEnabledTable E newGlobalContent) } } } } })"

end
