(* ===== verification/Ime_Enabled_Manager.thy ===== *)
theory Ime_Enabled_Manager
  imports Ime_Enabled_Info
begin

text \<open>
  The operations of \<open>ImeEnabledInfoManager\<close> (\<open>ime_enabled_info_manager.cpp\<close>), over the state of the
  settings and of the upgrade manager. \<open>operateLock_\<close> makes each public operation one step. What is
  posted to the event handler is the list \<open>em_posted\<close>.
\<close>

datatype posted = NotifyStatus int string enabled_status | UpdateGlobal int ime_enabled_cfg

record 'd enabled_state = "'d upgrade_state" +
  em_imeEnabledCfg :: "(int \<times> ime_enabled_cfg) list"
  em_statusHandler :: "nat option"              \<comment> \<open>\<open>currentImeStatusChangedHandler_\<close>\<close>
  em_serviceHandler :: bool
  em_posted :: "posted list"

type_synonym ('d, 'x, 'a) enabled_op = "(('d, 'x) enabled_state_scheme, 'a) state"

definition SetCurrentImeStatusChangedHandler :: "nat \<Rightarrow> ('d, 'x, unit) enabled_op" where
  "SetCurrentImeStatusChangedHandler h =
     modify (\<lambda>s. if em_statusHandler s \<noteq> None then s else s\<lparr>em_statusHandler := Some h\<rparr>)"

definition SetEventHandler :: "bool \<Rightarrow> ('d, 'x, unit) enabled_op" where
  "SetEventHandler h = modify (\<lambda>s. s\<lparr>em_serviceHandler := h\<rparr>)"

section \<open>The cache\<close>

definition SetEnabledCache :: "int \<Rightarrow> ime_enabled_cfg \<Rightarrow> ('d, 'x, unit) enabled_op" where
  "SetEnabledCache userId cfg = modify (\<lambda>s. s\<lparr>em_imeEnabledCfg := omap_assign userId cfg (em_imeEnabledCfg s)\<rparr>)"

definition cached :: "int \<Rightarrow> ('d, 'x) enabled_state_scheme \<Rightarrow> ime_enabled_cfg" where
  "cached userId s = (case map_of (em_imeEnabledCfg s) userId of None \<Rightarrow> new_ime_enabled_cfg | Some c \<Rightarrow> c)"

definition GetEnabledCache :: "int \<Rightarrow> ('d, 'x, ime_enabled_cfg) enabled_op" where
  "GetEnabledCache userId = gets (cached userId)"

definition ClearEnabledCache :: "int \<Rightarrow> ('d, 'x, unit) enabled_op" where
  "ClearEnabledCache userId = modify (\<lambda>s. s\<lparr>em_imeEnabledCfg := AList.delete userId (em_imeEnabledCfg s)\<rparr>)"

definition IsInEnabledCache :: "int \<Rightarrow> string \<Rightarrow> ('d, 'x, bool) enabled_op" where
  "IsInEnabledCache userId bundleName = gets (\<lambda>s. find_bundle bundleName (ec_enabledInfos (cached userId s)) \<noteq> None)"

definition NotifyCurrentImeStatusChanged :: "int \<Rightarrow> string \<Rightarrow> enabled_status \<Rightarrow> ('d, 'x, unit) enabled_op" where
  "NotifyCurrentImeStatusChanged userId bundleName newStatus =
     modify (\<lambda>s. if \<not> em_serviceHandler s then s
       else s\<lparr>em_posted := em_posted s @ [NotifyStatus userId bundleName newStatus]\<rparr>)"

definition UpdateGlobalEnabledTable :: "int \<Rightarrow> ime_enabled_cfg \<Rightarrow> ('d, 'x, unit) enabled_op" where
  "UpdateGlobalEnabledTable userId newEnabledCfg =
     modify (\<lambda>s. if \<not> em_serviceHandler s then s else s\<lparr>em_posted := em_posted s @ [UpdateGlobal userId newEnabledCfg]\<rparr>)"

text \<open>The table is cached only when it was written to the database.\<close>

definition UpdateEnabledCfgCache_cfg :: "'d settings_env \<Rightarrow> int \<Rightarrow> ime_enabled_cfg \<Rightarrow> ('d, 'x, int) enabled_op" where
  "UpdateEnabledCfgCache_cfg E userId cfg =
     (case Marshall (se_cj E) ImeEnabledCfg_Marshal cfg of None \<Rightarrow> ret ERROR_ENABLE_IME
      | Some content \<Rightarrow> do {
          ok \<leftarrow> SetStringValue (se_ds E) (user_uri userId) ENABLE_IME content;
          if \<not> ok then ret ERROR_ENABLE_IME
          else do { SetEnabledCache userId cfg; ret NO_ERROR } })"

text \<open>
  The first loop of \<open>CorrectByBundleMgr\<close>: the first current input method that is not installed any more
  is replaced, and the loop ends.
\<close>

definition correct_current :: "'d settings_env \<Rightarrow> full_ime_info list \<Rightarrow> ime_enabled_info list \<Rightarrow> ime_enabled_info list" where
  "correct_current E installed infos =
     (if \<exists>i \<in> set infos. is_default i \<and> (\<forall>f \<in> set installed. pr_name (fi_prop f) \<noteq> ei_bundleName i)
      then ModCurrentIme E infos else infos)"

definition CorrectByBundleMgr :: "'d settings_env \<Rightarrow> int \<Rightarrow> full_ime_info list \<Rightarrow> ime_enabled_info list
    \<Rightarrow> ('d, 'x, int \<times> ime_enabled_info list) enabled_op" where
  "CorrectByBundleMgr E userId imeInfos infos = do {
     (r, finalImeInfos) \<leftarrow> final_ime_infos E userId imeInfos;
     ret (if r \<noteq> NO_ERROR then (r, infos)
          else (NO_ERROR, pad_infos (\<lambda>i. ei_extensionName i = '''')
                  (\<lambda>f. ComputeEnabledStatus E (pr_name (fi_prop f)) (fi_isSystemSpecialIme f) (se_initEnabledState E))
                  finalImeInfos (correct_current E finalImeInfos infos))) }"

definition GetEnabledCfg :: "'d settings_env \<Rightarrow> int \<Rightarrow> full_ime_info list \<Rightarrow> ('d, 'x, int \<times> ime_enabled_cfg) enabled_op" where
  "GetEnabledCfg E userId imeInfos = do {
     (r, userContent) \<leftarrow> GetStringValue (se_ds E) (user_uri userId) ENABLE_IME '''';
     if r \<noteq> NO_ERROR \<and> r \<noteq> ERROR_KEYWORD_NOT_FOUND then ret (r, new_ime_enabled_cfg)
     else if contains ''version'' userContent then do {
       let cfg = snd (Unmarshall (se_cj E) (ImeEnabledCfg_Unmarshal (se_cj E)) userContent new_ime_enabled_cfg);
       (r, infos) \<leftarrow> CorrectByBundleMgr E userId imeInfos (ec_enabledInfos cfg);
       ret (r, cfg\<lparr>ec_enabledInfos := infos\<rparr>) }
     else do {
       r \<leftarrow> Upgrade E userId imeInfos;
       if r \<noteq> NO_ERROR then ret (r, new_ime_enabled_cfg)
       else do {
         (r, userContent) \<leftarrow> GetStringValue (se_ds E) (user_uri userId) ENABLE_IME userContent;
         if r \<noteq> NO_ERROR \<and> r \<noteq> ERROR_KEYWORD_NOT_FOUND then ret (r, new_ime_enabled_cfg)
         else ret (NO_ERROR,
                snd (Unmarshall (se_cj E) (ImeEnabledCfg_Unmarshal (se_cj E)) userContent new_ime_enabled_cfg)) } } }"

definition UpdateEnabledCfgCache :: "'d settings_env \<Rightarrow> int \<Rightarrow> full_ime_info list \<Rightarrow> ('d, 'x, int) enabled_op" where
  "UpdateEnabledCfgCache E userId imeInfos = do {
     (r, cfg) \<leftarrow> GetEnabledCfg E userId imeInfos;
     if r \<noteq> NO_ERROR then ret r else UpdateEnabledCfgCache_cfg E userId cfg }"

text \<open>The two versions of \<open>GetEnabledCacheWithCorrect\<close>.\<close>

definition GetEnabledCacheWithCorrect :: "'d settings_env \<Rightarrow> int \<Rightarrow> ('d, 'x, int \<times> ime_enabled_cfg) enabled_op" where
  "GetEnabledCacheWithCorrect E userId = do {
     enabledCfg \<leftarrow> GetEnabledCache userId;
     if ec_enabledInfos enabledCfg \<noteq> [] then ret (NO_ERROR, enabledCfg)
     else do {
       r \<leftarrow> UpdateEnabledCfgCache E userId [];
       if r \<noteq> NO_ERROR then ret (r, enabledCfg)
       else do {
         enabledCfg \<leftarrow> GetEnabledCache userId;
         ret (if ec_enabledInfos enabledCfg = [] then ERROR_ENABLE_IME else NO_ERROR, enabledCfg) } } }"

definition GetEnabledCacheWithCorrect_bundle :: "'d settings_env \<Rightarrow> int \<Rightarrow> string \<Rightarrow> ('d, 'x, int \<times> ime_enabled_cfg) enabled_op" where
  "GetEnabledCacheWithCorrect_bundle E userId bundleName = do {
     enabledCfg \<leftarrow> GetEnabledCache userId;
     if find_bundle bundleName (ec_enabledInfos enabledCfg) \<noteq> None then ret (NO_ERROR, enabledCfg)
     else do {
       w \<leftarrow> gets sd_world;
       if \<not> se_isInputMethod E w userId bundleName then ret (ERROR_IME_NOT_FOUND, enabledCfg)
       else do {
         r \<leftarrow> UpdateEnabledCfgCache E userId [];
         if r \<noteq> NO_ERROR then ret (r, enabledCfg)
         else do {
           enabledCfg \<leftarrow> GetEnabledCache userId;
           ret (if ec_enabledInfos enabledCfg = [] then ERROR_ENABLE_IME else NO_ERROR, enabledCfg) } } } }"

section \<open>Users and installation\<close>

definition Init_enabled :: "'d settings_env \<Rightarrow> (int \<times> full_ime_info list) list \<Rightarrow> ('d, 'x, int) enabled_op" where
  "Init_enabled E fullImeInfos = do {
     ready \<leftarrow> gets sd_isDataShareReady;
     if \<not> ready then ret ERROR_ENABLE_IME
     else do {
       for_each fullImeInfos (\<lambda>f. do {
         cfg \<leftarrow> GetEnabledCache (fst f);
         if ec_enabledInfos cfg \<noteq> [] then ret () else void (UpdateEnabledCfgCache E (fst f) (snd f)) });
       ret NO_ERROR } }"

definition Switch :: "'d settings_env \<Rightarrow> int \<Rightarrow> full_ime_info list \<Rightarrow> ('d, 'x, int) enabled_op" where
  "Switch E userId imeInfos = do {
     cfg \<leftarrow> GetEnabledCache userId;
     if ec_enabledInfos cfg \<noteq> [] then do { UpdateGlobalEnabledTable userId cfg; ret NO_ERROR }
     else do {
       ready \<leftarrow> gets sd_isDataShareReady;
       if \<not> ready then ret ERROR_ENABLE_IME else UpdateEnabledCfgCache E userId imeInfos } }"

definition Delete_user :: "int \<Rightarrow> ('d, 'x, int) enabled_op" where
  "Delete_user userId = do { ClearEnabledCache userId; ret NO_ERROR }"

definition Add :: "'d settings_env \<Rightarrow> int \<Rightarrow> full_ime_info \<Rightarrow> ('d, 'x, int) enabled_op" where
  "Add E userId imeInfo =
     (let name = pr_name (fi_prop imeInfo); ident = pr_id (fi_prop imeInfo) in
      if name = nc_bundleName (GetDefaultIme E) \<or> fi_isSystemSpecialIme imeInfo then ret NO_ERROR
      else do {
        (r, enabledCfg) \<leftarrow> GetEnabledCacheWithCorrect E userId;
        if r \<noteq> NO_ERROR then ret r
        else case find_bundle name (ec_enabledInfos enabledCfg) of
          Some i \<Rightarrow>
            if ei_extensionName i = ''''
            then UpdateEnabledCfgCache_cfg E userId (enabledCfg\<lparr>ec_enabledInfos :=
                   upd_first (\<lambda>i. ei_bundleName i = name) (\<lambda>i. i\<lparr>ei_extensionName := ident\<rparr>) (ec_enabledInfos enabledCfg)\<rparr>)
            else ret NO_ERROR
        | None \<Rightarrow> UpdateEnabledCfgCache_cfg E userId (enabledCfg\<lparr>ec_enabledInfos := ec_enabledInfos enabledCfg @
                   [new_ime_enabled_info name ident
                      (ComputeEnabledStatus E name (fi_isSystemSpecialIme imeInfo) (se_initEnabledState E))]\<rparr>) })"

definition Delete_bundle :: "'d settings_env \<Rightarrow> int \<Rightarrow> string \<Rightarrow> ('d, 'x, int) enabled_op" where
  "Delete_bundle E userId bundleName = do {
     (r, enabledCfg) \<leftarrow> GetEnabledCacheWithCorrect E userId;
     if r \<noteq> NO_ERROR then ret r
     else if \<not> IsCurrentIme bundleName (ec_enabledInfos enabledCfg) then ret NO_ERROR
     else do {
       UpdateEnabledCfgCache_cfg E userId (enabledCfg\<lparr>ec_enabledInfos := ModCurrentIme E (ec_enabledInfos enabledCfg)\<rparr>);
       NotifyCurrentImeStatusChanged userId bundleName DISABLED;
       ret NO_ERROR } }"

section \<open>The enabled status\<close>

definition CheckUpdate :: "'d settings_env \<Rightarrow> 'd \<Rightarrow> int \<Rightarrow> string \<Rightarrow> string \<Rightarrow> enabled_status \<Rightarrow> int" where
  "CheckUpdate E w userId bundleName extensionName status =
     (if bundleName = '''' \<or> status < DISABLED \<or> FULL_EXPERIENCE_MODE < status then ERROR_BAD_PARAMETERS
      else if (if extensionName = '''' then \<not> se_isInputMethod E w userId bundleName
               else \<not> se_isImeInstalled E w userId bundleName extensionName) then ERROR_IME_NOT_FOUND
      else if nc_bundleName (GetDefaultIme E) = bundleName then ERROR_OPERATE_SYSTEM_IME
      else NO_ERROR)"

definition Update :: "'d settings_env \<Rightarrow> int \<Rightarrow> string \<Rightarrow> string \<Rightarrow> enabled_status \<Rightarrow> ('d, 'x, int) enabled_op" where
  "Update E userId bundleName extensionName status = do {
     w \<leftarrow> gets sd_world;
     let r = CheckUpdate E w userId bundleName extensionName status;
     if r \<noteq> NO_ERROR then ret r
     else do {
       (r, enabledCfg) \<leftarrow> GetEnabledCacheWithCorrect_bundle E userId bundleName;
       if r \<noteq> NO_ERROR then ret ERROR_ENABLE_IME
       else case find_bundle bundleName (ec_enabledInfos enabledCfg) of
         None \<Rightarrow> ret ERROR_IME_NOT_FOUND
       | Some i \<Rightarrow>
         if ei_enabledStatus i = status then ret NO_ERROR
         else do {
           now \<leftarrow> gets (\<lambda>s. se_now E (sd_world s));
           let infos = upd_first (\<lambda>i. ei_bundleName i = bundleName)
             (\<lambda>i. i\<lparr>ei_enabledStatus := status, ei_stateUpdateTime := to_string now\<rparr>) (ec_enabledInfos enabledCfg);
           let isCurrentIme = IsCurrentIme bundleName infos;
           let infos = (if isCurrentIme \<and> status = DISABLED then ModCurrentIme E infos else infos);
           r \<leftarrow> UpdateEnabledCfgCache_cfg E userId (enabledCfg\<lparr>ec_enabledInfos := infos\<rparr>);
           if r \<noteq> NO_ERROR then ret ERROR_ENABLE_IME
           else do {
             when_do isCurrentIme (NotifyCurrentImeStatusChanged userId bundleName status);
             ret NO_ERROR } } } }"

definition GetEnabledStateInner :: "'d settings_env \<Rightarrow> int \<Rightarrow> string \<Rightarrow> enabled_status \<Rightarrow> ('d, 'x, int \<times> enabled_status) enabled_op" where
  "GetEnabledStateInner E userId bundleName status = do {
     (r, enabledCfg) \<leftarrow> GetEnabledCacheWithCorrect_bundle E userId bundleName;
     ret (if r \<noteq> NO_ERROR then (ERROR_ENABLE_IME, status)
          else case find_bundle bundleName (ec_enabledInfos enabledCfg) of
            None \<Rightarrow> (ERROR_ENABLE_IME, status) | Some i \<Rightarrow> (NO_ERROR, ei_enabledStatus i)) }"

definition GetEnabledState :: "'d settings_env \<Rightarrow> int \<Rightarrow> string \<Rightarrow> enabled_status \<Rightarrow> ('d, 'x, int \<times> enabled_status) enabled_op" where
  "GetEnabledState E userId bundleName status =
     (if bundleName = '''' then ret (ERROR_BAD_PARAMETERS, status)
      else do {
        (r, status) \<leftarrow> GetEnabledStateInner E userId bundleName status;
        let status = (if bundleName = nc_bundleName (GetDefaultIme E) \<and> (r \<noteq> NO_ERROR \<or> status = DISABLED)
                      then BASIC_MODE else status);
        ret (if r \<noteq> NO_ERROR then ERROR_ENABLE_IME else NO_ERROR, status) })"

definition GetEnabledStatesInner :: "'d settings_env \<Rightarrow> int \<Rightarrow> ime_property list \<Rightarrow> ('d, 'x, int \<times> ime_property list) enabled_op" where
  "GetEnabledStatesInner E userId props = do {
     cfg \<leftarrow> GetEnabledCache userId;
     r \<leftarrow> (if ec_enabledInfos cfg = [] then UpdateEnabledCfgCache E userId [] else ret NO_ERROR);
     if r \<noteq> NO_ERROR then ret (r, props)
     else do {
       cfg \<leftarrow> GetEnabledCache userId;
       ret (NO_ERROR, map (\<lambda>p. case find_bundle (pr_name p) (ec_enabledInfos cfg) of
              None \<Rightarrow> p | Some i \<Rightarrow> p\<lparr>pr_status := ei_enabledStatus i\<rparr>) props) } }"

definition GetEnabledStates :: "'d settings_env \<Rightarrow> int \<Rightarrow> ime_property list \<Rightarrow> ('d, 'x, int \<times> ime_property list) enabled_op" where
  "GetEnabledStates E userId props =
     (if props = [] then ret (ERROR_BAD_PARAMETERS, props)
      else do {
        (r, props) \<leftarrow> GetEnabledStatesInner E userId props;
        let props = upd_first (\<lambda>p. pr_name p = nc_bundleName (GetDefaultIme E) \<and> pr_status p = DISABLED)
          (\<lambda>p. p\<lparr>pr_status := BASIC_MODE\<rparr>) props;
        ret (if r \<noteq> NO_ERROR then ERROR_ENABLE_IME else NO_ERROR, props) })"

definition IsExpired :: "'d settings_env \<Rightarrow> 'd \<Rightarrow> string \<Rightarrow> bool" where
  "IsExpired E w expirationTime = (case se_parseTime E expirationTime of None \<Rightarrow> False | Some t \<Rightarrow> t < se_now E w)"

definition IsDefaultFullMode :: "'d settings_env \<Rightarrow> 'd \<Rightarrow> int \<Rightarrow> string \<Rightarrow> bool" where
  "IsDefaultFullMode E w userId bundleName =
     (if (case GetDefaultImeCfgProp E of None \<Rightarrow> False | Some p \<Rightarrow> bundleName = pr_name p) then True
      else case (se_appId E w userId bundleName, se_versionCode E w userId bundleName) of
        (Some appId, Some versionCode) \<Rightarrow>
          (case se_defaultFullImeList E of None \<Rightarrow> False
           | Some l \<Rightarrow> (case List.find (\<lambda>i. df_appId i = appId) l of None \<Rightarrow> False
             | Some ime \<Rightarrow>
               if 0 < df_expirationVersionCode ime
               then \<not> IsExpired E w (df_expirationTime ime) \<or> versionCode < df_expirationVersionCode ime
               else \<not> IsExpired E w (df_expirationTime ime)))
      | _ \<Rightarrow> False)"

definition OnFullExperienceTableChanged :: "'d settings_env \<Rightarrow> int \<Rightarrow> ('d, 'x, unit) enabled_op" where
  "OnFullExperienceTableChanged E userId =
     (let defaultIme = GetDefaultIme E in
      if nc_bundleName defaultIme = '''' then ret ()
      else do {
        (r, bundleNames) \<leftarrow> GetFullExperienceTable E userId;
        if r \<noteq> NO_ERROR then ret ()
        else void (Update E userId (nc_bundleName defaultIme) (nc_extName defaultIme)
               (if nc_bundleName defaultIme \<in> set bundleNames then FULL_EXPERIENCE_MODE else BASIC_MODE)) })"

section \<open>The current input method\<close>

text \<open>The body of the loop over the table in \<open>SetCurrentIme\<close>.\<close>

definition mark_current :: "string \<Rightarrow> string \<Rightarrow> string \<Rightarrow> bool \<Rightarrow> ime_enabled_info \<Rightarrow> ime_enabled_info" where
  "mark_current bundleName extName subName isSetByUser i =
     (let i = upd_extra (\<lambda>x. x\<lparr>xi_currentSubName := '''', xi_isDefaultImeSet := False, xi_isDefaultIme := False\<rparr>) i in
      if ei_bundleName i = bundleName
      then upd_extra (\<lambda>x. x\<lparr>xi_currentSubName := subName, xi_isDefaultImeSet := isSetByUser, xi_isDefaultIme := True\<rparr>)
             (i\<lparr>ei_extensionName := extName\<rparr>)
      else i)"

definition SetCurrentIme :: "'d settings_env \<Rightarrow> int \<Rightarrow> string \<Rightarrow> string \<Rightarrow> bool \<Rightarrow> ('d, 'x, int) enabled_op" where
  "SetCurrentIme E userId imeId subName isSetByUser =
     (let (bundleName, extName) = SplitImeId imeId in
      if bundleName = '''' then ret ERROR_BAD_PARAMETERS
      else do {
        (r, enabledCfg) \<leftarrow> GetEnabledCacheWithCorrect_bundle E userId bundleName;
        if r \<noteq> NO_ERROR then ret ERROR_ENABLE_IME
        else if find_bundle bundleName (ec_enabledInfos enabledCfg) = None then ret ERROR_BAD_PARAMETERS
        else do {
          let infos = map (mark_current bundleName extName subName isSetByUser) (ec_enabledInfos enabledCfg);
          r \<leftarrow> UpdateEnabledCfgCache_cfg E userId (enabledCfg\<lparr>ec_enabledInfos := infos\<rparr>);
          ret (if r \<noteq> NO_ERROR then ERROR_ENABLE_IME else NO_ERROR) } })"

definition set_tmp :: "(ime_enabled_info \<Rightarrow> bool) \<Rightarrow> ime_enabled_info \<Rightarrow> ime_enabled_info" where
  "set_tmp P i = upd_extra (\<lambda>x. x\<lparr>xi_isTmpIme := P i\<rparr>) i"

definition store_tmp :: "'d settings_env \<Rightarrow> int \<Rightarrow> ime_enabled_cfg \<Rightarrow> (ime_enabled_info \<Rightarrow> bool) \<Rightarrow> ('d, 'x, int) enabled_op" where
  "store_tmp E userId enabledCfg P = do {
     r \<leftarrow> UpdateEnabledCfgCache_cfg E userId
       (enabledCfg\<lparr>ec_enabledInfos := map (set_tmp P) (ec_enabledInfos enabledCfg)\<rparr>);
     ret (if r \<noteq> NO_ERROR then ERROR_ENABLE_IME else NO_ERROR) }"

definition SetTmpIme :: "'d settings_env \<Rightarrow> int \<Rightarrow> string \<Rightarrow> ('d, 'x, int) enabled_op" where
  "SetTmpIme E userId imeId =
     (if imeId = '''' then do {
        (r, enabledCfg) \<leftarrow> GetEnabledCacheWithCorrect E userId;
        if r \<noteq> NO_ERROR then ret r
        else if List.find is_tmp (ec_enabledInfos enabledCfg) = None then ret NO_ERROR
        else store_tmp E userId enabledCfg (\<lambda>_. False) }
      else do {
        let (bundleName, extName) = SplitImeId imeId;
        (r, enabledCfg) \<leftarrow> GetEnabledCacheWithCorrect_bundle E userId bundleName;
        if r \<noteq> NO_ERROR then ret r
        else if List.find (\<lambda>i. is_tmp i \<and> ei_bundleName i = bundleName) (ec_enabledInfos enabledCfg) \<noteq> None then ret NO_ERROR
        else store_tmp E userId enabledCfg (\<lambda>i. ei_bundleName i = bundleName) })"

definition native_of :: "ime_enabled_info \<Rightarrow> ime_native_cfg" where
  "native_of i = empty_native_cfg\<lparr>nc_imeId := ei_bundleName i @ ''/'' @ ei_extensionName i, nc_bundleName := ei_bundleName i,
     nc_extName := ei_extensionName i\<rparr>"

definition GetCurrentImeCfgInner :: "'d settings_env \<Rightarrow> int \<Rightarrow> ('d, 'x, ime_native_cfg \<times> bool) enabled_op" where
  "GetCurrentImeCfgInner E userId = do {
     (r, enabledCfg) \<leftarrow> GetEnabledCacheWithCorrect E userId;
     ret (if r \<noteq> NO_ERROR then (empty_native_cfg, True)
          else case List.find is_tmp (ec_enabledInfos enabledCfg) of
            Some i \<Rightarrow> (native_of i, True)
          | None \<Rightarrow> (case List.find is_default (ec_enabledInfos enabledCfg) of
              Some i \<Rightarrow> ((native_of i)\<lparr>nc_subName := sub_name i\<rparr>, True)
            | None \<Rightarrow> (empty_native_cfg, False))) }"

definition GetCurrentImeCfg :: "'d settings_env \<Rightarrow> int \<Rightarrow> ('d, 'x, ime_native_cfg) enabled_op" where
  "GetCurrentImeCfg E userId = do { (c, _) \<leftarrow> GetCurrentImeCfgInner E userId; ret c }"

definition GetCurrentImeCfgWithCorrect :: "'d settings_env \<Rightarrow> int \<Rightarrow> ('d, 'x, ime_native_cfg option) enabled_op" where
  "GetCurrentImeCfgWithCorrect E userId = do {
     (c, isCurrentImeSet) \<leftarrow> GetCurrentImeCfgInner E userId;
     ret (if \<not> isCurrentImeSet then GetDefaultImeCfg E else Some c) }"

definition GetUserCfgIme :: "'d settings_env \<Rightarrow> int \<Rightarrow> ('d, 'x, ime_native_cfg) enabled_op" where
  "GetUserCfgIme E userId = do {
     (r, enabledCfg) \<leftarrow> GetEnabledCacheWithCorrect E userId;
     ret (if r \<noteq> NO_ERROR then empty_native_cfg
          else case List.find is_default (ec_enabledInfos enabledCfg) of
            Some i \<Rightarrow> (native_of i)\<lparr>nc_subName := sub_name i\<rparr> | None \<Rightarrow> empty_native_cfg) }"

definition IsUserCfgIme :: "'d settings_env \<Rightarrow> int \<Rightarrow> string \<Rightarrow> ('d, 'x, bool) enabled_op" where
  "IsUserCfgIme E userId bundleName = do {
     userCfgIme \<leftarrow> GetUserCfgIme E userId;
     ret (bundleName \<noteq> '''' \<and> bundleName = nc_bundleName userCfgIme) }"

definition IsDefaultImeSet :: "'d settings_env \<Rightarrow> int \<Rightarrow> ('d, 'x, bool) enabled_op" where
  "IsDefaultImeSet E userId = do {
     (r, enabledCfg) \<leftarrow> GetEnabledCacheWithCorrect E userId;
     ret (if r \<noteq> NO_ERROR then False
          else case List.find is_default (ec_enabledInfos enabledCfg) of
            Some i \<Rightarrow> xi_isDefaultImeSet (ei_extraInfo i) | None \<Rightarrow> False) }"

end
