(* ===== verification/Enabled_Inv.thy ===== *)
theory Enabled_Inv
  imports Ime_Enabled_Manager
begin

text \<open>
  Correctness of the tables of enabled input methods. The library cJSON and the database are
  parameters; what is assumed of them is \<open>cjson_ok\<close> and \<open>store_ok\<close>.
\<close>

section \<open>First match\<close>

lemma upd_first_none: "List.find P xs = None \<Longrightarrow> upd_first P f xs = xs"
  by (induction xs) (auto split: if_splits)

lemma map_upd_first [simp]: "(\<And>x. g (f x) = g x) \<Longrightarrow> map g (upd_first P f xs) = map g xs"
  by (induction xs) auto

lemma find_upd_first: "(\<And>x. P x \<Longrightarrow> P (f x)) \<Longrightarrow> List.find P (upd_first P f xs) = map_option f (List.find P xs)"
  by (induction xs) auto

lemma find_upd_first_other:
  "(\<And>x. Q (f x) = Q x) \<Longrightarrow> (\<And>x. Q x \<Longrightarrow> P x \<Longrightarrow> g (f x) = g x) \<Longrightarrow>
   map_option g (List.find Q (upd_first P f xs)) = map_option g (List.find Q xs)"
  by (induction xs) auto

lemma position_Some: "position P xs = Some n \<Longrightarrow> n < length xs \<and> P (xs ! n)"
  by (induction xs arbitrary: n) (auto split: if_splits)

lemma position_None: "position P xs = None \<longleftrightarrow> (\<forall>x \<in> set xs. \<not> P x)"
  by (induction xs) auto

lemma find_None_all: "List.find P xs = None \<longleftrightarrow> (\<forall>x \<in> set xs. \<not> P x)"
  by (auto simp: find_None_iff)

lemma map_of_assign [simp]: "map_of (omap_assign k v m) = (map_of m)(k \<mapsto> v)"
  by (induction m rule: omap_assign.induct) (auto simp: fun_eq_iff)

section \<open>Well-formed tables\<close>

text \<open>The entries are of different bundles, at most one is current and at most one is temporary.\<close>

fun at_most_one :: "('a \<Rightarrow> bool) \<Rightarrow> 'a list \<Rightarrow> bool" where
  "at_most_one P [] \<longleftrightarrow> True"
| "at_most_one P (x # xs) \<longleftrightarrow> (P x \<longrightarrow> (\<forall>y \<in> set xs. \<not> P y)) \<and> at_most_one P xs"

lemma at_most_one_nth:
  "at_most_one P xs \<longleftrightarrow> (\<forall>i < length xs. \<forall>j < length xs. P (xs ! i) \<longrightarrow> P (xs ! j) \<longrightarrow> i = j)"
proof (induction xs)
  case (Cons x xs)
  show ?case
    by (auto simp: Cons.IH all_set_conv_all_nth All_less_Suc2)
qed simp

lemma at_most_one_append:
  "at_most_one P (xs @ ys) \<longleftrightarrow> at_most_one P xs \<and> at_most_one P ys \<and> ((\<exists>x \<in> set xs. P x) \<longrightarrow> (\<forall>y \<in> set ys. \<not> P y))"
  by (induction xs) auto

lemma set_upd_first: "y \<in> set (upd_first P f xs) \<Longrightarrow> y \<in> set xs \<or> (\<exists>x \<in> set xs. P x \<and> y = f x)"
  by (induction xs) (auto split: if_splits)

lemma ball_upd_first: "(\<And>x. Q (f x) = Q x) \<Longrightarrow> (\<forall>y \<in> set (upd_first P f xs). Q y) \<longleftrightarrow> (\<forall>y \<in> set xs. Q y)"
  by (induction xs) auto

lemma at_most_one_upd_first [simp]: "(\<And>x. Q (f x) = Q x) \<Longrightarrow> at_most_one Q (upd_first P f xs) \<longleftrightarrow> at_most_one Q xs"
  by (induction xs) (auto simp: ball_upd_first [where Q = "\<lambda>x. \<not> Q x"])

text \<open>Marking one entry of a table without a mark.\<close>

lemma at_most_one_mark: "\<forall>x \<in> set xs. \<not> Q x \<Longrightarrow> at_most_one Q (upd_first P f xs)"
proof (induction xs)
  case (Cons x xs)
  have "at_most_one Q xs" using Cons.prems by (induction xs) auto
  with Cons show ?case by auto
qed simp

lemma at_most_one_names:
  "distinct (map g xs) \<Longrightarrow> at_most_one (\<lambda>x. g x = b) xs"
  by (induction xs) (auto simp: image_iff)

lemma at_most_one_map: "at_most_one P (map f xs) \<longleftrightarrow> at_most_one (\<lambda>x. P (f x)) xs"
  by (induction xs) auto

lemma at_most_one_cong: "(\<And>x. x \<in> set xs \<Longrightarrow> P x = Q x) \<Longrightarrow> at_most_one P xs \<longleftrightarrow> at_most_one Q xs"
  by (induction xs) auto

definition table_ok :: "ime_enabled_info list \<Rightarrow> bool" where
  "table_ok infos \<longleftrightarrow> distinct (map ei_bundleName infos) \<and> at_most_one is_default infos \<and> at_most_one is_tmp infos"

lemmas table_defs = table_ok_def upd_extra_def new_ime_enabled_info_def new_extra_info_def

lemma table_ok_Nil [simp]: "table_ok []"
  by (simp add: table_ok_def)

lemma table_ok_append:
  assumes "table_ok infos" "find_bundle b infos = None"
  shows "table_ok (infos @ [new_ime_enabled_info b e st])"
  using assms by (auto simp: table_defs at_most_one_append find_bundle_def find_None_all)

lemma table_ok_upd_first:
  assumes "table_ok infos" "\<And>i. ei_bundleName (f i) = ei_bundleName i" "\<And>i. ei_extraInfo (f i) = ei_extraInfo i"
  shows "table_ok (upd_first P f infos)"
  using assms by (simp add: table_ok_def)

lemma table_ok_pad_infos: "table_ok infos \<Longrightarrow> table_ok (pad_infos may st fs infos)"
  by (induction may st fs infos rule: pad_infos.induct)
     (auto simp: Let_def table_ok_append table_ok_upd_first)

lemma table_ok_add_full_mode: "table_ok infos \<Longrightarrow> table_ok (add_full_mode bs infos)"
  by (induction bs infos rule: add_full_mode.induct) (auto simp: table_ok_append table_ok_upd_first)

text \<open>Tables without current and temporary input methods, as the upgrade builds them.\<close>

definition unmarked :: "ime_enabled_info list \<Rightarrow> bool" where
  "unmarked infos \<longleftrightarrow> (\<forall>i \<in> set infos. \<not> is_default i \<and> \<not> is_tmp i)"

lemma unmarked_upd_first: "unmarked infos \<Longrightarrow> (\<And>i. ei_extraInfo (f i) = ei_extraInfo i) \<Longrightarrow> unmarked (upd_first P f infos)"
  by (auto simp: unmarked_def dest!: set_upd_first)

lemma unmarked_append: "unmarked infos \<Longrightarrow> unmarked (infos @ [new_ime_enabled_info b e st])"
  by (auto simp: unmarked_def new_ime_enabled_info_def new_extra_info_def)

lemma unmarked_pad_infos: "unmarked infos \<Longrightarrow> unmarked (pad_infos may st fs infos)"
  by (induction may st fs infos rule: pad_infos.induct) (auto simp: Let_def unmarked_append unmarked_upd_first)

lemma unmarked_add_full_mode: "unmarked infos \<Longrightarrow> unmarked (add_full_mode bs infos)"
  by (induction bs infos rule: add_full_mode.induct) (auto simp: unmarked_append unmarked_upd_first)

lemma table_ok_basic: "distinct names \<Longrightarrow> table_ok (map (\<lambda>b. new_ime_enabled_info b '''' st) names)"
  by (induction names) (auto simp: table_defs)

lemma table_ok_padded_by_persist:
  assumes "table_ok infos" "unmarked infos"
  shows "table_ok (padded_by_persist E p infos)"
  using assms by (auto simp: padded_by_persist_def Let_def table_ok_def upd_extra_def unmarked_def at_most_one_mark
      split: prod.split intro!: at_most_one_mark dest!: set_upd_first)

lemma at_most_one_update: "n < length xs \<Longrightarrow> at_most_one P xs \<Longrightarrow> (P v \<Longrightarrow> P (xs ! n)) \<Longrightarrow> at_most_one P (xs[n := v])"
  by (auto simp: at_most_one_nth nth_list_update)

lemma at_most_one_same: "n < length xs \<Longrightarrow> P v = P (xs ! n) \<Longrightarrow> at_most_one P (xs[n := v]) \<longleftrightarrow> at_most_one P xs"
  by (auto simp: at_most_one_nth nth_list_update)

lemma at_most_one_move:
  assumes "at_most_one P xs" "k < length xs" "P (xs ! k)" "n < length xs" "\<not> P v"
  shows "at_most_one P (xs[n := u, k := v])"
  using assms by (auto simp: at_most_one_nth nth_list_update)

lemma at_most_one_set: "\<forall>x \<in> set xs. \<not> P x \<Longrightarrow> n < length xs \<Longrightarrow> at_most_one P (xs[n := u])"
  by (auto simp: at_most_one_nth nth_list_update)

lemma distinct_names_update:
  "n < length xs \<Longrightarrow> ei_bundleName v = ei_bundleName (xs ! n) \<Longrightarrow> map ei_bundleName (xs[n := v]) = map ei_bundleName xs"
  by (metis list_update_id map_update nth_map)

lemma table_ok_mark:
  assumes "table_ok infos" "n < length infos" "\<forall>i \<in> set infos. \<not> is_default i"
  shows "table_ok (infos[n := upd_extra (\<lambda>x. x\<lparr>xi_isDefaultIme := True\<rparr>) (infos ! n)])"
  using assms by (simp add: table_ok_def distinct_names_update at_most_one_set upd_extra_def at_most_one_same)

lemma table_ok_move:
  assumes ok: "table_ok infos" and n: "n < length infos" and k: "k < length infos" and d: "is_default (infos ! k)"
    and f: "\<And>x. \<not> xi_isDefaultIme (f x)" "\<And>x. \<not> xi_isTmpIme (f x)"
  defines "infos1 \<equiv> infos[n := upd_extra (\<lambda>x. x\<lparr>xi_isDefaultIme := True\<rparr>) (infos ! n)]"
  shows "table_ok (infos1[k := upd_extra f (infos1 ! k)])"
proof -
  have names: "map ei_bundleName infos1 = map ei_bundleName infos"
    using n by (simp add: infos1_def distinct_names_update upd_extra_def)
  have len: "length infos1 = length infos" by (simp add: infos1_def)
  have "at_most_one is_tmp infos1"
    using ok n by (simp add: infos1_def table_ok_def at_most_one_same upd_extra_def)
  then have "at_most_one is_tmp (infos1[k := upd_extra f (infos1 ! k)])"
    using f k len by (intro at_most_one_update) (simp_all add: upd_extra_def)
  moreover have "at_most_one is_default (infos1[k := upd_extra f (infos1 ! k)])"
    unfolding infos1_def by (rule at_most_one_move) (use ok n k d f in \<open>simp_all add: table_ok_def upd_extra_def\<close>)
  ultimately show ?thesis
    using ok k len names by (simp add: table_ok_def distinct_names_update upd_extra_def)
qed

lemma table_ok_ModCurrentIme:
  assumes "table_ok infos"
  shows "table_ok (ModCurrentIme E infos)"
  using assms
  by (auto simp: ModCurrentIme_def Let_def position_None split: option.split
      dest!: position_Some intro!: table_ok_mark table_ok_move)

section \<open>What is assumed of the database\<close>

text \<open>
  \<open>content w\<close> is what the database holds at each address. An update or an insertion stores its value
  at its address or fails; the other calls change nothing; a query returns what is stored, or no text.
\<close>

definition store_ok :: "'d data_share \<Rightarrow> ('d \<Rightarrow> string \<rightharpoonup> string) \<Rightarrow> bool" where
  "store_ok D content \<longleftrightarrow>
     (\<forall>w. content (snd (ds_token D w)) = content w \<and> content (snd (ds_release D w)) = content w) \<and>
     (\<forall>u w. content (snd (ds_create D u w)) = content w) \<and>
     (\<forall>u n w. content (ds_register D u n w) = content w \<and> content (ds_unregister D u n w) = content w) \<and>
     (\<forall>u k v w. content (snd (ds_update D u k v w)) \<in> {content w, (content w)(u \<mapsto> v)} \<and>
       content (snd (ds_insert D u k v w)) \<in> {content w, (content w)(u \<mapsto> v)}) \<and>
     (\<forall>u k w. content (snd (ds_query D u k w)) = content w \<and>
       (\<forall>rs. fst (ds_query D u k w) = Some rs \<longrightarrow> rs_value rs = '''' \<or> content w u = Some (rs_value rs)))"

section \<open>Invariants with results\<close>

text \<open>The operation keeps \<open>I\<close> and its result satisfies \<open>Q\<close>.\<close>

definition yields :: "('s \<Rightarrow> bool) \<Rightarrow> ('s, 'a) state \<Rightarrow> ('a \<Rightarrow> bool) \<Rightarrow> bool" where
  "yields I m Q \<longleftrightarrow> (\<forall>s. I s \<longrightarrow> wp m (\<lambda>r t. I t \<and> Q r) s)"

named_theorems yields_intros "rules for operations that keep an invariant"

lemma yields_return [yields_intros]: "Q x \<Longrightarrow> yields I (ret x) Q"
  by (simp add: yields_def wp_simps)

lemma yields_gets [yields_intros]: "(\<And>s. I s \<Longrightarrow> Q (f s)) \<Longrightarrow> yields I (gets f) Q"
  by (simp add: yields_def wp_simps)

lemma yields_modify [yields_intros]: "(\<And>s. I s \<Longrightarrow> I (f s)) \<Longrightarrow> Q () \<Longrightarrow> yields I (modify f) Q"
  by (simp add: yields_def wp_simps)

lemma yields_bind:
  assumes "yields I m P" "\<And>r. P r \<Longrightarrow> yields I (f r) Q"
  shows "yields I (m \<bind> f) Q"
  unfolding yields_def wp_bind
proof (intro allI impI)
  fix s assume "I s"
  with assms(1) have "wp m (\<lambda>r t. I t \<and> P r) s" by (simp add: yields_def)
  then show "wp m (\<lambda>r. wp (f r) (\<lambda>r t. I t \<and> Q r)) s"
    by (rule wp_conseq) (use assms(2) in \<open>simp add: yields_def\<close>)
qed

lemma yields_if [yields_intros]: "(b \<Longrightarrow> yields I m Q) \<Longrightarrow> (\<not> b \<Longrightarrow> yields I n Q) \<Longrightarrow> yields I (if b then m else n) Q"
  by simp

lemma yields_when_do [yields_intros]: "(b \<Longrightarrow> yields I m Q) \<Longrightarrow> Q () \<Longrightarrow> yields I (when_do b m) Q"
  by (simp add: when_do_def yields_return)

lemma yields_void [yields_intros]: "yields I m (\<lambda>_. True) \<Longrightarrow> Q () \<Longrightarrow> yields I (void m) Q"
  by (simp add: yields_def wp_simps)

lemma yields_weaken: "yields I m P \<Longrightarrow> (\<And>r. P r \<Longrightarrow> Q r) \<Longrightarrow> yields I m Q"
  by (simp add: yields_def wp_run)

lemma yields_for_each [yields_intros]: "(\<And>x. x \<in> set xs \<Longrightarrow> yields I (f x) (\<lambda>_. True)) \<Longrightarrow> Q () \<Longrightarrow> yields I (for_each xs f) Q"
  by (induction xs) (auto intro!: yields_return yields_bind)

lemma yields_any: "yields I m (\<lambda>_. True) \<longleftrightarrow> preserves I m"
  by (simp add: yields_def preserves_wp)

lemma yields_run: "yields I m Q \<Longrightarrow> I s \<Longrightarrow> I (snd (run_state m s)) \<and> Q (fst (run_state m s))"
  by (simp add: yields_def wp_run)

section \<open>The invariant\<close>

definition decode :: "'d settings_env \<Rightarrow> string \<Rightarrow> ime_enabled_cfg" where
  "decode E c = snd (Unmarshall (se_cj E) (ImeEnabledCfg_Unmarshal (se_cj E)) c new_ime_enabled_cfg)"

definition user_table :: "int \<Rightarrow> string" where
  "user_table userId = GenerateTargetUri (user_uri userId) ENABLE_IME"

text \<open>
  Every cached table is well-formed, and so is every table in the database. A text of an earlier
  version has no list of input methods and decodes to the empty table.
\<close>

definition enabled_inv :: "'d settings_env \<Rightarrow> ('d \<Rightarrow> string \<rightharpoonup> string) \<Rightarrow> ('d, 'x) enabled_state_scheme \<Rightarrow> bool" where
  "enabled_inv E content s \<longleftrightarrow>
     (\<forall>u c. map_of (em_imeEnabledCfg s) u = Some c \<longrightarrow> table_ok (ec_enabledInfos c)) \<and>
     (\<forall>u c. content (sd_world s) (user_table u) = Some c \<longrightarrow> table_ok (ec_enabledInfos (decode E c)))"

lemma cached_ok: "enabled_inv E content s \<Longrightarrow> table_ok (ec_enabledInfos (cached u s))"
  by (auto simp: enabled_inv_def cached_def new_ime_enabled_cfg_def split: option.split)

lemma inv_same: "enabled_inv E content s \<Longrightarrow> em_imeEnabledCfg t = em_imeEnabledCfg s \<Longrightarrow>
    content (sd_world t) = content (sd_world s) \<Longrightarrow> enabled_inv E content t"
  by (simp add: enabled_inv_def)

lemma yields_outside:
  fixes E :: "'d settings_env"
  assumes "\<And>w. content (snd (f w)) = content w"
    "\<And>s :: ('d, 'x) enabled_state_scheme. enabled_inv E content s \<Longrightarrow> Q (fst (f (sd_world s)))"
  shows "yields (enabled_inv E content :: ('d, 'x) enabled_state_scheme \<Rightarrow> bool) (outside f) Q"
  using assms by (auto simp: yields_def outside_def wp_simps elim!: inv_same)

lemma decode_empty: "cjson_ok (se_cj E) \<Longrightarrow> ec_enabledInfos (decode E '''') = []"
  by (simp add: decode_def Unmarshall_def cjson_ok_def new_ime_enabled_cfg_def)

lemma decode_Marshall: "cjson_ok (se_cj E) \<Longrightarrow> Marshall (se_cj E) ImeEnabledCfg_Marshal cfg = Some c \<Longrightarrow> decode E c = cfg"
  by (simp add: decode_def ec.text_roundtrip)

lemma user_table_global: "GenerateTargetUri SETTING_URI_PROXY k \<noteq> user_table u"
  by (simp add: GenerateTargetUri_def user_table_def user_uri_def)

definition settings_ok :: "'d settings_env \<Rightarrow> ('d \<Rightarrow> string \<rightharpoonup> string) \<Rightarrow> bool" where
  "settings_ok E content \<longleftrightarrow> cjson_ok (se_cj E) \<and> store_ok (se_ds E) content"

lemma settings_okD:
  assumes "settings_ok E content"
  shows "cjson_ok (se_cj E)"
    "content (snd (ds_token (se_ds E) w)) = content w" "content (snd (ds_release (se_ds E) w)) = content w"
    "content (snd (ds_create (se_ds E) u w)) = content w" "content (snd (ds_query (se_ds E) u k w)) = content w"
    "content (ds_register (se_ds E) u n w) = content w" "content (ds_unregister (se_ds E) u n w) = content w"
    "content (snd (ds_update (se_ds E) u k v w)) \<in> {content w, (content w)(u \<mapsto> v)}"
    "content (snd (ds_insert (se_ds E) u k v w)) \<in> {content w, (content w)(u \<mapsto> v)}"
    "fst (ds_query (se_ds E) u k w) = Some rs \<Longrightarrow> rs_value rs = [] \<or> content w u = Some (rs_value rs)"
  using assms unfolding settings_ok_def store_ok_def by blast+

lemma yields_store:
  fixes E :: "'d settings_env"
  assumes "\<And>w. content (snd (f w)) \<in> {content w, (content w)(a \<mapsto> v)}"
    "\<And>u. a = user_table u \<Longrightarrow> table_ok (ec_enabledInfos (decode E v))" "\<And>r. Q r"
  shows "yields (enabled_inv E content :: ('d, 'x) enabled_state_scheme \<Rightarrow> bool) (outside f) Q"
proof -
  have "enabled_inv E content (s\<lparr>sd_world := snd (f (sd_world s))\<rparr>)" if "enabled_inv E content s"
    for s :: "('d, 'x) enabled_state_scheme"
    using that assms(1) [of "sd_world s"] assms(2) unfolding enabled_inv_def by (auto split: if_splits)
  then show ?thesis using assms(3) by (simp add: yields_def outside_def wp_simps)
qed

lemma yields_prod [yields_intros]: "(\<And>a b. x = (a, b) \<Longrightarrow> yields I (f a b) Q) \<Longrightarrow> yields I (case x of (a, b) \<Rightarrow> f a b) Q"
  by (cases x) simp

lemma yields_option [yields_intros]:
  "(x = None \<Longrightarrow> yields I m Q) \<Longrightarrow> (\<And>y. x = Some y \<Longrightarrow> yields I (f y) Q) \<Longrightarrow> yields I (case x of None \<Rightarrow> m | Some y \<Rightarrow> f y) Q"
  by (cases x) simp_all

text \<open>Where nothing is known of an intermediate result.\<close>

lemma yields_bind_any: "yields I m (\<lambda>_. True) \<Longrightarrow> (\<And>r. yields I (f r) Q) \<Longrightarrow> yields I (m \<bind> f) Q"
  by (rule yields_bind) auto

lemma yields_Create: "settings_ok E content \<Longrightarrow> yields (enabled_inv E content) (CreateDataShareHelper (se_ds E) u) (\<lambda>_. True)"
  unfolding CreateDataShareHelper_def GetToken_def
  by (auto simp: settings_okD enabled_inv_def intro!: yields_bind_any yields_intros yields_outside)

lemma yields_Release: "settings_ok E content \<Longrightarrow> yields (enabled_inv E content) (ReleaseDataShareHelper (se_ds E)) (\<lambda>_. True)"
  unfolding ReleaseDataShareHelper_def by (auto simp: settings_okD intro!: yields_outside)

lemma yields_SetStringValue:
  assumes "settings_ok E content" "\<And>u'. GenerateTargetUri u k = user_table u' \<Longrightarrow> table_ok (ec_enabledInfos (decode E v))"
  shows "yields (enabled_inv E content) (SetStringValue (se_ds E) u k v) (\<lambda>_. True)"
  unfolding SetStringValue_def
  by (intro yields_bind_any yields_if yields_return yields_when_do yields_void yields_Create yields_Release assms TrueI
      yields_store [OF settings_okD(8)] yields_store [OF settings_okD(9)]) (use assms in auto)

lemma yields_GetStringValue:
  assumes "settings_ok E content"
  shows "yields (enabled_inv E content) (GetStringValue (se_ds E) u k v) (\<lambda>_. True)"
  unfolding GetStringValue_def
  by (intro yields_bind_any yields_if yields_return yields_Create yields_Release yields_outside settings_okD assms TrueI)

lemma yields_GetStringValue_user:
  assumes ok: "settings_ok E content"
  shows "yields (enabled_inv E content) (GetStringValue (se_ds E) (user_uri u) ENABLE_IME v)
     (\<lambda>(r, c). c = v \<or> table_ok (ec_enabledInfos (decode E c)))"
proof -
  let ?Q = "\<lambda>rs. \<forall>r. rs = Some r \<longrightarrow> table_ok (ec_enabledInfos (decode E (rs_value r)))"
  have q: "yields (enabled_inv E content) (outside (ds_query (se_ds E) (GenerateTargetUri (user_uri u) ENABLE_IME) ENABLE_IME)) ?Q"
  proof (intro yields_outside settings_okD [OF ok] allI impI)
    fix s r
    assume I: "enabled_inv E content s"
      and r: "fst (ds_query (se_ds E) (GenerateTargetUri (user_uri u) ENABLE_IME) ENABLE_IME (sd_world s)) = Some r"
    from settings_okD(10) [OF ok r] I decode_empty [OF settings_okD(1) [OF ok]]
    show "table_ok (ec_enabledInfos (decode E (rs_value r)))"
      by (auto simp: enabled_inv_def user_table_def)
  qed
  show ?thesis
    unfolding GetStringValue_def
    by (intro yields_bind_any [OF yields_Create [OF ok]] yields_if yields_return
        yields_bind [OF q] yields_bind_any [OF yields_Release [OF ok]]) (auto split: option.split)
qed

section \<open>Every operation keeps the invariant\<close>

abbreviation ok_infos :: "int \<times> ime_enabled_info list \<Rightarrow> bool" where
  "ok_infos x \<equiv> table_ok (snd x)"

abbreviation ok_cfg :: "int \<times> ime_enabled_cfg \<Rightarrow> bool" where
  "ok_cfg x \<equiv> table_ok (ec_enabledInfos (snd x))"

lemma yields_UpdateEnabledCfgCache_cfg:
  assumes ok: "settings_ok E content" and t: "table_ok (ec_enabledInfos cfg)"
  shows "yields (enabled_inv E content) (UpdateEnabledCfgCache_cfg E userId cfg) (\<lambda>_. True)"
proof -
  have set: "yields (enabled_inv E content) (SetStringValue (se_ds E) (user_uri userId) ENABLE_IME c) (\<lambda>_. True)"
    if "Marshall (se_cj E) ImeEnabledCfg_Marshal cfg = Some c" for c
    using decode_Marshall [OF settings_okD(1) [OF ok] that] t by (intro yields_SetStringValue [OF ok]) simp
  have cache: "yields (enabled_inv E content) (SetEnabledCache userId cfg) (\<lambda>_. True)"
    using t by (auto simp: SetEnabledCache_def enabled_inv_def intro!: yields_modify)
  show ?thesis
    unfolding UpdateEnabledCfgCache_cfg_def
    by (auto intro!: yields_option yields_return yields_if yields_bind_any [OF cache] yields_bind_any [OF set])
qed

lemma yields_final_ime_infos: "yields (enabled_inv E content) (final_ime_infos E userId imeInfos) (\<lambda>_. True)"
  by (auto simp: final_ime_infos_def intro!: yields_intros)

lemma yields_GetEnabledTable:
  assumes ok: "settings_ok E content"
  shows "yields (enabled_inv E content) (GetEnabledTable E userId) (\<lambda>x. distinct (snd x))"
proof -
  have names: "yields (enabled_inv E content) (GetEnabledTable_names E userId uri) (\<lambda>x. distinct (snd x))" for uri
    unfolding GetEnabledTable_names_def GetEnabledTable_content_def
    by (auto intro!: yields_bind_any [OF yields_GetStringValue [OF ok]] yields_prod yields_return
        simp: ParseEnabledTable_def split: prod.split bool.split)
  show ?thesis
    unfolding GetEnabledTable_def
    by (rule yields_bind [OF names]) (auto intro!: yields_prod yields_if names yields_return)
qed

lemma yields_GetFullExperienceTable:
  "settings_ok E content \<Longrightarrow> yields (enabled_inv E content) (GetFullExperienceTable E userId) (\<lambda>_. True)"
  unfolding GetFullExperienceTable_def
  by (auto intro!: yields_bind_any yields_GetStringValue yields_prod yields_return)

text \<open>The tables the upgrade builds.\<close>

lemma basic_unmarked: "unmarked (map (\<lambda>b. new_ime_enabled_info b '''' st) names)"
  by (auto simp: unmarked_def new_ime_enabled_info_def new_extra_info_def)

lemma yields_MergeTwoTable:
  assumes ok: "settings_ok E content"
  shows "yields (enabled_inv E content) (MergeTwoTable E userId) (\<lambda>x. ok_infos x \<and> unmarked (snd x))"
  unfolding MergeTwoTable_def
proof (rule yields_bind [OF yields_GetEnabledTable [OF ok]])
  fix x :: "int \<times> string list"
  assume d: "distinct (snd x)"
  have u: "unmarked []" by (simp add: unmarked_def)
  have m: "table_ok (add_full_mode bs (map (\<lambda>b. new_ime_enabled_info b '''' BASIC_MODE) (snd x)))"
    "unmarked (add_full_mode bs (map (\<lambda>b. new_ime_enabled_info b '''' BASIC_MODE) (snd x)))" for bs
    by (intro table_ok_add_full_mode table_ok_basic d unmarked_add_full_mode basic_unmarked)+
  show "yields (enabled_inv E content) (case x of (r, names) \<Rightarrow>
      if r \<noteq> NO_ERROR \<and> r \<noteq> ERROR_KEYWORD_NOT_FOUND \<and> r \<noteq> ERROR_EX_PARCELABLE then ret (r, [])
      else do {
       (r, fullModeBundleNames) \<leftarrow> GetFullExperienceTable E userId;
       ret (if r \<noteq> NO_ERROR \<and> r \<noteq> ERROR_KEYWORD_NOT_FOUND \<and> r \<noteq> ERROR_EX_PARCELABLE then (r, [])
            else (NO_ERROR, add_full_mode fullModeBundleNames
                    (map (\<lambda>b. new_ime_enabled_info b '''' BASIC_MODE) names))) })
     (\<lambda>x. ok_infos x \<and> unmarked (snd x))"
    using m u by (cases x) (auto intro!: yields_if yields_return yields_bind_any [OF yields_GetFullExperienceTable [OF ok]] yields_prod)
qed

lemma yields_PaddedByBundleMgr:
  assumes "table_ok infos" "unmarked infos"
  shows "yields (enabled_inv E content) (PaddedByBundleMgr E userId imeInfos infos) (\<lambda>x. ok_infos x \<and> unmarked (snd x))"
  unfolding PaddedByBundleMgr_def using assms
  by (auto intro!: yields_bind_any [OF yields_final_ime_infos] yields_prod yields_return table_ok_pad_infos unmarked_pad_infos)

lemma yields_PaddedByImePersistCfg:
  assumes "table_ok infos" "unmarked infos"
  shows "yields (enabled_inv E content) (PaddedByImePersistCfg E userId infos) ok_infos"
  unfolding PaddedByImePersistCfg_def using assms
  by (auto intro!: yields_bind_any yields_gets yields_return table_ok_padded_by_persist split: prod.split)

lemma yields_bind2:
  assumes "yields I m P" "\<And>a b. P (a, b) \<Longrightarrow> yields I (f a b) Q"
  shows "yields I (m \<bind> (\<lambda>(a, b). f a b)) Q"
  by (rule yields_bind [OF assms(1)]) (use assms(2) in \<open>auto split: prod.split\<close>)

lemma yields_upgraded: "yields (enabled_inv E content) (modify (\<lambda>s. s\<lparr>ug_upgradedUserId := f s\<rparr>)) (\<lambda>_. True)"
  by (auto simp: enabled_inv_def intro!: yields_modify)

lemma yields_SetUserEnabledTable:
  assumes ok: "settings_ok E content" and t: "table_ok (ec_enabledInfos cfg)"
  shows "yields (enabled_inv E content) (SetUserEnabledTable E userId
     (case Marshall (se_cj E) ImeEnabledCfg_Marshal cfg of None \<Rightarrow> '''' | Some c \<Rightarrow> c)) (\<lambda>_. True)"
  unfolding SetUserEnabledTable_def
  using decode_Marshall [OF settings_okD(1) [OF ok]] decode_empty [OF settings_okD(1) [OF ok]] t
  by (intro yields_SetStringValue [OF ok]) (auto split: option.split)

lemma yields_Upgrade:
  assumes ok: "settings_ok E content"
  shows "yields (enabled_inv E content) (Upgrade E userId imeInfos) (\<lambda>_. True)"
  unfolding Upgrade_def Let_def GetUserEnabledTable_content_def GetEnabledTable_content_def
  by (intro yields_bind_any [OF yields_gets] yields_if yields_return yields_bind_any [OF yields_upgraded] TrueI
      yields_bind2 [OF yields_GetStringValue [OF ok]] yields_bind2 [OF yields_MergeTwoTable [OF ok]]
      yields_bind2 [OF yields_PaddedByBundleMgr] yields_bind2 [OF yields_PaddedByImePersistCfg]
      yields_bind_any [OF yields_SetUserEnabledTable [OF ok]]) auto

lemma table_ok_correct_current: "table_ok infos \<Longrightarrow> table_ok (correct_current E installed infos)"
  by (simp add: correct_current_def table_ok_ModCurrentIme)

lemma yields_CorrectByBundleMgr:
  assumes "table_ok infos"
  shows "yields (enabled_inv E content) (CorrectByBundleMgr E userId imeInfos infos) ok_infos"
  unfolding CorrectByBundleMgr_def using assms
  by (auto intro!: yields_bind_any [OF yields_final_ime_infos] yields_prod yields_return table_ok_pad_infos table_ok_correct_current)

lemma yields_GetEnabledCfg:
  assumes ok: "settings_ok E content"
  shows "yields (enabled_inv E content) (GetEnabledCfg E userId imeInfos) ok_cfg"
proof -
  note G = yields_GetStringValue_user [OF ok, of userId]
  have new: "table_ok (ec_enabledInfos new_ime_enabled_cfg)" by (simp add: new_ime_enabled_cfg_def)
  have empty: "table_ok (ec_enabledInfos (decode E ''''))"
    by (simp add: decode_empty [OF settings_okD(1) [OF ok]])
  show ?thesis
    unfolding GetEnabledCfg_def Let_def decode_def [symmetric]
    by (intro yields_bind2 [OF G] yields_if yields_return yields_bind2 [OF yields_CorrectByBundleMgr]
        yields_bind_any [OF yields_Upgrade [OF ok]])
      (use new empty in auto)
qed

lemma yields_UpdateEnabledCfgCache:
  assumes ok: "settings_ok E content"
  shows "yields (enabled_inv E content) (UpdateEnabledCfgCache E userId imeInfos) (\<lambda>_. True)"
  unfolding UpdateEnabledCfgCache_def
  by (intro yields_bind2 [OF yields_GetEnabledCfg [OF ok]] yields_if yields_return
      yields_UpdateEnabledCfgCache_cfg [OF ok] TrueI) simp

lemma yields_GetEnabledCache: "yields (enabled_inv E content) (GetEnabledCache userId) (\<lambda>c. table_ok (ec_enabledInfos c))"
  by (auto simp: GetEnabledCache_def intro!: yields_gets cached_ok)

lemma yields_GetEnabledCacheWithCorrect:
  assumes ok: "settings_ok E content"
  shows "yields (enabled_inv E content) (GetEnabledCacheWithCorrect E userId) ok_cfg"
    "yields (enabled_inv E content) (GetEnabledCacheWithCorrect_bundle E userId b) ok_cfg"
  unfolding GetEnabledCacheWithCorrect_def GetEnabledCacheWithCorrect_bundle_def
  by (intro yields_bind [OF yields_GetEnabledCache] yields_bind_any [OF yields_UpdateEnabledCfgCache [OF ok]]
      yields_bind_any [OF yields_gets] yields_if yields_return; simp)+

lemma yields_notify: "yields (enabled_inv E content) (NotifyCurrentImeStatusChanged u b st) (\<lambda>_. True)"
    "yields (enabled_inv E content) (UpdateGlobalEnabledTable u cfg) (\<lambda>_. True)"
  by (auto simp: NotifyCurrentImeStatusChanged_def UpdateGlobalEnabledTable_def enabled_inv_def intro!: yields_modify)

lemma yields_Init_enabled:
  assumes ok: "settings_ok E content"
  shows "yields (enabled_inv E content) (Init_enabled E infos) (\<lambda>_. True)"
proof -
  have load: "yields (enabled_inv E content) (GetEnabledCache (fst f) \<bind> (\<lambda>cfg.
      if ec_enabledInfos cfg \<noteq> [] then ret () else void (UpdateEnabledCfgCache E (fst f) (snd f)))) (\<lambda>_. True)" for f
    by (intro yields_bind [OF yields_GetEnabledCache] yields_if yields_return yields_void yields_UpdateEnabledCfgCache [OF ok] TrueI)
  show ?thesis
    unfolding Init_enabled_def
    by (intro yields_bind_any [OF yields_gets] yields_if yields_return yields_bind_any [OF yields_for_each] load TrueI)
qed

lemma yields_Switch:
  assumes ok: "settings_ok E content"
  shows "yields (enabled_inv E content) (Switch E userId infos) (\<lambda>_. True)"
  unfolding Switch_def
  by (intro yields_bind [OF yields_GetEnabledCache] yields_if yields_return yields_bind_any [OF yields_notify(2)]
      yields_bind_any [OF yields_gets] yields_UpdateEnabledCfgCache [OF ok] TrueI)

lemma yields_Delete_user:
  fixes E :: "'d settings_env"
  shows "yields (enabled_inv E content :: ('d, 'x) enabled_state_scheme \<Rightarrow> bool) (Delete_user userId) (\<lambda>_. True)"
proof -
  have "enabled_inv E content (s\<lparr>em_imeEnabledCfg := AList.delete userId (em_imeEnabledCfg s)\<rparr>)"
    if "enabled_inv E content s" for s :: "('d, 'x) enabled_state_scheme"
    using that by (auto simp: enabled_inv_def AList.delete_conv split: if_splits)
  then show ?thesis
    unfolding Delete_user_def ClearEnabledCache_def
    by (intro yields_bind_any yields_modify yields_return TrueI)
qed

lemma yields_Add:
  assumes ok: "settings_ok E content"
  shows "yields (enabled_inv E content) (Add E userId imeInfo) (\<lambda>_. True)"
  unfolding Add_def Let_def
  by (intro yields_if yields_return yields_bind2 [OF yields_GetEnabledCacheWithCorrect(1) [OF ok]] yields_option
      yields_UpdateEnabledCfgCache_cfg [OF ok] TrueI) (auto intro: table_ok_append table_ok_upd_first)

lemma yields_Delete_bundle:
  assumes ok: "settings_ok E content"
  shows "yields (enabled_inv E content) (Delete_bundle E userId b) (\<lambda>_. True)"
  unfolding Delete_bundle_def
  by (intro yields_if yields_return yields_bind2 [OF yields_GetEnabledCacheWithCorrect(1) [OF ok]]
      yields_bind_any [OF yields_UpdateEnabledCfgCache_cfg [OF ok]] yields_bind_any [OF yields_notify(1)] TrueI)
     (auto intro: table_ok_ModCurrentIme)

lemma yields_Update:
  assumes ok: "settings_ok E content"
  shows "yields (enabled_inv E content) (Update E userId b e st) (\<lambda>_. True)"
  unfolding Update_def Let_def
  by (intro yields_bind_any [OF yields_gets] yields_if yields_return yields_when_do yields_option
      yields_bind2 [OF yields_GetEnabledCacheWithCorrect(2) [OF ok]]
      yields_bind_any [OF yields_UpdateEnabledCfgCache_cfg [OF ok]] yields_bind_any [OF yields_when_do] yields_notify TrueI)
     (auto intro!: table_ok_ModCurrentIme table_ok_upd_first)

lemma yields_queries:
  assumes ok: "settings_ok E content"
  shows "yields (enabled_inv E content) (GetEnabledState E userId b st) (\<lambda>_. True)"
    "yields (enabled_inv E content) (GetEnabledStates E userId props) (\<lambda>_. True)"
    "yields (enabled_inv E content) (GetCurrentImeCfgInner E userId) (\<lambda>_. True)"
    "yields (enabled_inv E content) (GetUserCfgIme E userId) (\<lambda>_. True)"
    "yields (enabled_inv E content) (IsDefaultImeSet E userId) (\<lambda>_. True)"
proof -
  note G = yields_GetEnabledCacheWithCorrect [OF ok]
  have s: "yields (enabled_inv E content) (GetEnabledStateInner E userId b st) (\<lambda>_. True)"
    unfolding GetEnabledStateInner_def by (intro yields_bind2 [OF G(2)] yields_return TrueI)
  have ss: "yields (enabled_inv E content) (GetEnabledStatesInner E userId props) (\<lambda>_. True)"
    unfolding GetEnabledStatesInner_def
    by (intro yields_bind [OF yields_GetEnabledCache] yields_bind_any [OF yields_if] yields_if yields_return
        yields_UpdateEnabledCfgCache [OF ok] TrueI)
  show "yields (enabled_inv E content) (GetEnabledState E userId b st) (\<lambda>_. True)"
    unfolding GetEnabledState_def Let_def by (intro yields_if yields_return yields_bind2 [OF s] TrueI)
  show "yields (enabled_inv E content) (GetEnabledStates E userId props) (\<lambda>_. True)"
    unfolding GetEnabledStates_def Let_def by (intro yields_if yields_return yields_bind2 [OF ss] TrueI)
  show "yields (enabled_inv E content) (GetCurrentImeCfgInner E userId) (\<lambda>_. True)"
    "yields (enabled_inv E content) (GetUserCfgIme E userId) (\<lambda>_. True)"
    "yields (enabled_inv E content) (IsDefaultImeSet E userId) (\<lambda>_. True)"
    unfolding GetCurrentImeCfgInner_def GetUserCfgIme_def IsDefaultImeSet_def
    by (intro yields_bind2 [OF G(1)] yields_return TrueI)+
qed

lemma yields_OnFullExperienceTableChanged:
  assumes ok: "settings_ok E content"
  shows "yields (enabled_inv E content) (OnFullExperienceTableChanged E userId) (\<lambda>_. True)"
  unfolding OnFullExperienceTableChanged_def Let_def
  by (intro yields_if yields_return yields_bind2 [OF yields_GetFullExperienceTable [OF ok]] yields_void yields_Update [OF ok] TrueI)

text \<open>The two operations that choose the current input method.\<close>

lemma mark_current_simps [simp]:
  "ei_bundleName (mark_current b e sn bu i) = ei_bundleName i"
  "is_default (mark_current b e sn bu i) \<longleftrightarrow> ei_bundleName i = b"
  "is_tmp (mark_current b e sn bu i) = is_tmp i"
  "ei_enabledStatus (mark_current b e sn bu i) = ei_enabledStatus i"
  by (simp_all add: mark_current_def Let_def upd_extra_def)

lemma table_ok_mark_current: "table_ok infos \<Longrightarrow> table_ok (map (mark_current b e sn bu) infos)"
  by (simp add: table_ok_def at_most_one_map at_most_one_names comp_def)

lemma yields_SetCurrentIme:
  assumes ok: "settings_ok E content"
  shows "yields (enabled_inv E content) (SetCurrentIme E userId imeId subName byUser) (\<lambda>_. True)"
  unfolding SetCurrentIme_def Let_def
  by (intro yields_prod yields_if yields_return yields_bind2 [OF yields_GetEnabledCacheWithCorrect(2) [OF ok]] TrueI
      yields_bind_any [OF yields_UpdateEnabledCfgCache_cfg [OF ok]]) (simp add: table_ok_mark_current)

lemma set_tmp_simps [simp]:
  "is_tmp (set_tmp P i) = P i" "is_default (set_tmp P i) = is_default i" "sub_name (set_tmp P i) = sub_name i"
  "native_of (set_tmp P i) = native_of i" "ei_bundleName (set_tmp P i) = ei_bundleName i"
  by (simp_all add: set_tmp_def upd_extra_def native_of_def)

lemma table_ok_tmp:
  assumes "table_ok infos" "at_most_one P infos"
  shows "table_ok (map (set_tmp P) infos)"
  using assms by (simp add: table_ok_def at_most_one_map comp_def)

lemma yields_SetTmpIme:
  assumes ok: "settings_ok E content"
  shows "yields (enabled_inv E content) (SetTmpIme E userId imeId) (\<lambda>_. True)"
proof -
  have none: "at_most_one (\<lambda>_. False) xs" for xs :: "ime_enabled_info list" by (induction xs) auto
  have st: "yields (enabled_inv E content) (store_tmp E userId cfg P) (\<lambda>_. True)"
    if "table_ok (ec_enabledInfos cfg)" "at_most_one P (ec_enabledInfos cfg)" for cfg P
    unfolding store_tmp_def
    by (intro yields_bind_any [OF yields_UpdateEnabledCfgCache_cfg [OF ok]] yields_return TrueI) (simp add: table_ok_tmp that)
  note G = yields_GetEnabledCacheWithCorrect [OF ok]
  show ?thesis
    unfolding SetTmpIme_def Let_def
    by (intro yields_prod yields_if yields_return yields_bind2 [OF G(1)] yields_bind2 [OF G(2)] st TrueI)
       (auto simp: none table_ok_def at_most_one_names)
qed

lemma yields_SetGlobalEnabledTable:
  "settings_ok E content \<Longrightarrow> yields (enabled_inv E content) (SetGlobalEnabledTable E c) (\<lambda>_. True)"
  unfolding SetGlobalEnabledTable_def by (rule yields_SetStringValue) (simp_all add: user_table_global)

lemma yields_Upgrade_UpdateGlobalEnabledTable:
  assumes ok: "settings_ok E content"
  shows "yields (enabled_inv E content) (Upgrade_UpdateGlobalEnabledTable E userId cfg) (\<lambda>_. True)"
  unfolding Upgrade_UpdateGlobalEnabledTable_def Let_def GetGlobalEnabledTable_content_def GetEnabledTable_content_def
  by (intro yields_if yields_return yields_bind_any [OF yields_gets] yields_bind2 [OF yields_GetStringValue [OF ok]]
      yields_void yields_SetGlobalEnabledTable [OF ok] yields_bind_any [OF yields_Upgrade [OF ok]] TrueI)

end
