(* ===== verification/Settings_Example.thy ===== *)
theory Settings_Example
  imports Enabled_Inv
begin

text \<open>
  A concrete environment of the settings components, in which the properties are exercised: a printer
  and a parser for trees, and a database that is a list of addresses and texts.
\<close>

section \<open>Trees as text\<close>

definition num :: "nat \<Rightarrow> string" where
  "num n = replicate n (CHR ''1'') @ ''.''"

definition take_num :: "string \<Rightarrow> nat \<times> string" where
  "take_num s = (length (takeWhile (\<lambda>c. c = CHR ''1'') s), drop 1 (dropWhile (\<lambda>c. c = CHR ''1'') s))"

lemma take_num_num [simp]: "take_num (num n @ s) = (n, s)"
  by (induction n) (simp_all add: num_def take_num_def)

definition enc_str :: "string \<Rightarrow> string" where
  "enc_str s = num (length s) @ s"

definition dec_str :: "string \<Rightarrow> string \<times> string" where
  "dec_str x = (let (n, r) = take_num x in (take n r, drop n r))"

lemma dec_str_enc_str [simp]: "dec_str (enc_str s @ r) = (s, r)"
  by (simp add: dec_str_def enc_str_def)

fun enc :: "json \<Rightarrow> string" where
  "enc JNull = ''n''"
| "enc (JBool b) = (if b then ''t'' else ''f'')"
| "enc (JNumber i) = (if i < 0 then ''-'' else ''+'') @ num (nat \<bar>i\<bar>)"
| "enc (JString s) = ''s'' @ enc_str s"
| "enc (JArray js) = ''a'' @ num (length js) @ concat (map enc js)"
| "enc (JObject ms) = ''o'' @ num (length ms) @ concat (map (\<lambda>(k, v). enc_str k @ enc v) ms)"

fun dec_n :: "nat \<Rightarrow> (string \<Rightarrow> 'a \<times> string) \<Rightarrow> string \<Rightarrow> 'a list \<times> string" where
  "dec_n 0 d s = ([], s)"
| "dec_n (Suc n) d s = (let (x, s1) = d s; (xs, s2) = dec_n n d s1 in (x # xs, s2))"

fun dec :: "nat \<Rightarrow> string \<Rightarrow> json \<times> string" where
  "dec 0 s = (JNull, s)"
| "dec (Suc f) [] = (JNull, [])"
| "dec (Suc f) (c # r) =
     (if c = CHR ''t'' then (JBool True, r)
      else if c = CHR ''f'' then (JBool False, r)
      else if c = CHR ''-'' then (let (n, s) = take_num r in (JNumber (- int n), s))
      else if c = CHR ''+'' then (let (n, s) = take_num r in (JNumber (int n), s))
      else if c = CHR ''s'' then (let (x, s) = dec_str r in (JString x, s))
      else if c = CHR ''a'' then (let (n, s) = take_num r; (xs, s1) = dec_n n (dec f) s in (JArray xs, s1))
      else if c = CHR ''o'' then (let (n, s) = take_num r;
          (xs, s1) = dec_n n (\<lambda>s. let (k, s1) = dec_str s; (v, s2) = dec f s1 in ((k, v), s2)) s in (JObject xs, s1))
      else (JNull, r))"

lemma dec_n_concat:
  "(\<And>x r. x \<in> set xs \<Longrightarrow> d (e x @ r) = (x, r)) \<Longrightarrow> dec_n (length xs) d (concat (map e xs) @ r) = (xs, r)"
  by (induction xs arbitrary: r) simp_all

lemma dec_enc: "size j < f \<Longrightarrow> dec f (enc j @ r) = (j, r)"
proof (induction j arbitrary: f r)
  case (JArray js)
  then obtain g where f: "f = Suc g" by (cases f) auto
  have "dec g (enc x @ r') = (x, r')" if "x \<in> set js" for x r'
    using JArray.prems that size_list_estimation' [OF that, of "size x" size] by (intro JArray.IH) (simp_all add: f)
  then show ?case by (simp add: f dec_n_concat)
next
  case (JObject ms)
  then obtain g where f: "f = Suc g" by (cases f) auto
  let ?e = "\<lambda>(k, v). enc_str k @ enc v"
  have d: "(let (k, s1) = dec_str (?e x @ r'); (v, s2) = dec g s1 in ((k, v), s2)) = (x, r')" if "x \<in> set ms" for x r'
  proof -
    obtain k v where x: "x = (k, v)" by fastforce
    have "size_prod (\<lambda>_. 0) size x \<le> size_list (size_prod (\<lambda>_. 0) size) ms"
      by (rule size_list_estimation' [OF that]) simp
    then have "size v < g" using JObject.prems by (simp add: f x)
    with that show ?thesis using JObject.IH [of x v g r'] by (simp add: x)
  qed
  have "dec_n (length ms) (\<lambda>s. let (k, s1) = dec_str s; (v, s2) = dec g s1 in ((k, v), s2)) (concat (map ?e ms) @ r) = (ms, r)"
    by (rule dec_n_concat) (rule d)
  then show ?case by (simp add: f)
qed (case_tac f; simp)+


lemma size_list_le: "(\<And>x. x \<in> set xs \<Longrightarrow> g x < length (e x)) \<Longrightarrow> size_list g xs \<le> length (concat (map e xs)) + length xs"
  by (induction xs) fastforce+

lemma size_enc: "size j < length (enc j)"
proof (induction j)
  case (JArray js)
  then show ?case using size_list_le [of js size enc] by (simp add: num_def)
next
  case (JObject ms)
  have h: "size_prod (\<lambda>_. 0) size x < length ((\<lambda>(k, v). enc_str k @ enc v) x)" if "x \<in> set ms" for x
    using JObject [of x "snd x"] that by (cases x) (auto simp: enc_str_def num_def)
  from size_list_le [of ms "size_prod (\<lambda>_. 0) size" "\<lambda>(k, v). enc_str k @ enc v", OF h] show ?case by (simp add: num_def)
qed (simp_all add: num_def enc_str_def)

definition json0 :: cjson where
  "json0 = \<lparr>cj_parse = (\<lambda>c. if c = '''' then None else Some (fst (dec (length c) c))), cj_print = (\<lambda>j. Some (enc j)),
     cj_same = (\<lambda>a b. map lower a = map lower b)\<rparr>"

lemma json0_ok: "cjson_ok json0"
proof -
  have "enc j \<noteq> ''''" "fst (dec (length (enc j)) (enc j)) = j" for j
    using size_enc [of j] dec_enc [of j "length (enc j)" "[]"] by auto
  then show ?thesis by (simp add: cjson_ok_def json0_def)
qed

section \<open>A database\<close>

type_synonym db = "(string \<times> string) list"

definition share0 :: "db data_share" where
  "share0 = \<lparr>ds_token = (\<lambda>w. (True, w)), ds_create = (\<lambda>u w. (True, w)),
     ds_update = (\<lambda>u k v w. if map_of w u = None then (0, w) else (1, AList.update u v w)),
     ds_insert = (\<lambda>u k v w. (1, AList.update u v w)),
     ds_query = (\<lambda>u k w. (Some (case map_of w u of None \<Rightarrow> \<lparr>rs_count = 0, rs_ret = 0, rs_value = ''''\<rparr>
        | Some v \<Rightarrow> \<lparr>rs_count = 1, rs_ret = 0, rs_value = v\<rparr>), w)),
     ds_release = (\<lambda>w. (True, w)), ds_register = (\<lambda>u n w. w), ds_unregister = (\<lambda>u n w. w)\<rparr>"

lemma share0_ok: "store_ok share0 map_of"
  by (auto simp: store_ok_def share0_def update_conv' split: option.splits)

section \<open>An environment and a state\<close>

text \<open>Two installed input methods, of which \<open>sys/Sys\<close> is that of the system.\<close>

definition installed0 :: "full_ime_info list" where
  "installed0 = [\<lparr>fi_prop = \<lparr>pr_name = ''sys'', pr_id = ''Sys'', pr_status = DISABLED\<rparr>, fi_isSystemSpecialIme = False\<rparr>,
     \<lparr>fi_prop = \<lparr>pr_name = ''ime'', pr_id = ''Ime'', pr_status = DISABLED\<rparr>, fi_isSystemSpecialIme = False\<rparr>]"

definition db_env0 :: "db settings_env" where
  "db_env0 = \<lparr>se_cj = json0, se_ds = share0, se_defaultInputMethod = ''sys/Sys'', se_defaultParam = '''',
     se_enableInputMethodFeature = True, se_enableFullExperienceFeature = True, se_initEnabledState = BASIC_MODE,
     se_hasInitEnabledState = True, se_isInputMethod = (\<lambda>w u b. b \<in> {''sys'', ''ime''}),
     se_isImeInstalled = (\<lambda>w u b e. (b, e) \<in> {(''sys'', ''Sys''), (''ime'', ''Ime'')}),
     se_queryFullImeInfo = (\<lambda>w u. (NO_ERROR, installed0)),
     se_appId = (\<lambda>w u b. None), se_versionCode = (\<lambda>w u b. None), se_defaultFullImeList = None,
     se_parseTime = (\<lambda>s. None), se_now = (\<lambda>w. 7), se_displayVersion = ''1.0'', se_imeCfgFile = (\<lambda>w. None),
     se_foregroundUser = (\<lambda>w. 100)\<rparr>"

definition table0 :: "ime_enabled_info list" where
  "table0 = [upd_extra (\<lambda>x. x\<lparr>xi_isDefaultIme := True\<rparr>) (new_ime_enabled_info ''sys'' ''Sys'' BASIC_MODE),
     new_ime_enabled_info ''ime'' ''Ime'' BASIC_MODE]"

definition db_state0 :: "db enabled_state" where
  "db_state0 = \<lparr>sd_world = [], sd_remoteObj = False, sd_isDataShareReady = True, sd_observerList = [], sd_nextObserver = 0,
     ug_upgradedUserId = {}, em_imeEnabledCfg = [], em_statusHandler = None, em_serviceHandler = True, em_posted = []\<rparr>"

definition loaded0 :: "db enabled_state" where
  "loaded0 = db_state0\<lparr>em_imeEnabledCfg := [(100, \<lparr>ec_version = ''1.0'', ec_enabledInfos = table0\<rparr>)]\<rparr>"

lemma settings_ok0: "settings_ok db_env0 map_of"
  using json0_ok share0_ok by (simp add: settings_ok_def db_env0_def)

lemma table0_ok: "table_ok table0"
  by code_simp

lemma cached_loaded0: "ec_enabledInfos (cached 100 loaded0) = table0"
  by (simp add: loaded0_def cached_def)

theorem enabled_cfg_roundtrip_witness:
  "let cfg = \<lparr>ec_version = ''1.0'', ec_enabledInfos = table0\<rparr>
   in Unmarshall json0 (ImeEnabledCfg_Unmarshal json0) (enc (JObject (ImeEnabledCfg_Marshal cfg []))) new_ime_enabled_cfg = (True, cfg)"
proof -
  have "Marshall json0 ImeEnabledCfg_Marshal cfg = Some (enc (JObject (ImeEnabledCfg_Marshal cfg [])))" for cfg
    by (simp add: Marshall_def json0_def)
  from enabled_cfg_roundtrip [OF json0_ok this] show ?thesis by (simp add: Let_def)
qed

end
