(* ===== verification/Enabled_Correct.thy ===== *)
theory Enabled_Correct
  imports Settings_Example
begin

text \<open>
  The settings components as a state machine over their requests, and what holds of the tables of
  enabled input methods: the invariant of every reachable state, what the operations do to the current
  and the temporary input method, and that a choice survives a restart of the service.
\<close>

section \<open>The state machine\<close>

datatype enabled_request = InitReq "(int \<times> full_ime_info list) list" | SwitchReq int "full_ime_info list"
  | DeleteUser int | AddReq int full_ime_info | DeleteBundle int string
  | UpdateReq int string string enabled_status | SetCurrent int string string bool | SetTmp int string
  | GetState int string | GetStates int "ime_property list" | GetCurrent int | GetUserCfg int | GetIsSet int
  | FullExperienceChanged int | UpdateGlobalTask int ime_enabled_cfg

fun serve :: "'d settings_env \<Rightarrow> enabled_request \<Rightarrow> ('d, unit, unit) enabled_op" where
  "serve E (InitReq infos) = void (Init_enabled E infos)"
| "serve E (SwitchReq u infos) = void (Switch E u infos)"
| "serve E (DeleteUser u) = void (Delete_user u)"
| "serve E (AddReq u i) = void (Add E u i)"
| "serve E (DeleteBundle u b) = void (Delete_bundle E u b)"
| "serve E (UpdateReq u b e st) = void (Update E u b e st)"
| "serve E (SetCurrent u i sn by_user) = void (SetCurrentIme E u i sn by_user)"
| "serve E (SetTmp u i) = void (SetTmpIme E u i)"
| "serve E (GetState u b) = void (GetEnabledState E u b DISABLED)"
| "serve E (GetStates u ps) = void (GetEnabledStates E u ps)"
| "serve E (GetCurrent u) = void (GetCurrentImeCfgInner E u)"
| "serve E (GetUserCfg u) = void (GetUserCfgIme E u)"
| "serve E (GetIsSet u) = void (IsDefaultImeSet E u)"
| "serve E (FullExperienceChanged u) = OnFullExperienceTableChanged E u"
| "serve E (UpdateGlobalTask u cfg) = Upgrade_UpdateGlobalEnabledTable E u cfg"

text \<open>
  Besides serving a request, the world can change except for the tables in the database (input methods
  are installed, time passes, another user comes to the foreground), and the service can restart with
  empty caches.
\<close>

inductive enabled_step :: "'d settings_env \<Rightarrow> ('d \<Rightarrow> string \<rightharpoonup> string) \<Rightarrow> 'd enabled_state \<Rightarrow> 'd enabled_state \<Rightarrow> bool"
  for E content where
  request: "enabled_step E content s (snd (run_state (serve E q) s))"
| world: "content w = content (sd_world s) \<Longrightarrow> enabled_step E content s (s\<lparr>sd_world := w\<rparr>)"
| restart: "enabled_step E content s (s\<lparr>sd_remoteObj := False, ug_upgradedUserId := {}, em_imeEnabledCfg := []\<rparr>)"
| ready: "enabled_step E content s (s\<lparr>sd_isDataShareReady := True, em_serviceHandler := h\<rparr>)"

text \<open>The service starts with an empty cache; the tables earlier runs left in the database are well-formed.\<close>

definition enabled_start :: "'d settings_env \<Rightarrow> ('d \<Rightarrow> string \<rightharpoonup> string) \<Rightarrow> 'd enabled_state \<Rightarrow> bool" where
  "enabled_start E content s \<longleftrightarrow> settings_ok E content \<and> em_imeEnabledCfg s = [] \<and>
     (\<forall>u c. content (sd_world s) (user_table u) = Some c \<longrightarrow> table_ok (ec_enabledInfos (decode E c)))"

definition enabled_reachable :: "'d settings_env \<Rightarrow> ('d \<Rightarrow> string \<rightharpoonup> string) \<Rightarrow> 'd enabled_state \<Rightarrow> bool" where
  "enabled_reachable E content = reaches (enabled_start E content) (enabled_step E content)"

lemmas yields_ops = yields_Init_enabled yields_Switch yields_Delete_user yields_Add yields_Delete_bundle yields_Update
  yields_queries yields_OnFullExperienceTableChanged yields_SetCurrentIme yields_SetTmpIme
  yields_Upgrade_UpdateGlobalEnabledTable

lemma serve_inv:
  assumes "settings_ok E content" "enabled_inv E content s"
  shows "enabled_inv E content (snd (run_state (serve E q) s))"
proof -
  have "yields (enabled_inv E content) (serve E q) (\<lambda>_. True)"
    by (cases q) (simp_all add: yields_void yields_ops assms(1))
  from yields_run [OF this assms(2)] show ?thesis by simp
qed

interpretation es: safe_system "enabled_start E content" "enabled_step E content"
  "\<lambda>s. settings_ok E content \<and> enabled_inv E content s"
proof (unfold_locales, goal_cases)
  case (1 s)
  then show ?case by (simp add: enabled_start_def enabled_inv_def)
next
  case (2 s t)
  then show ?case
  proof (induction rule: enabled_step.induct)
    case (request s q)
    then show ?case by (simp add: serve_inv)
  qed (simp_all add: enabled_inv_def)
qed

text \<open>C17. In every reachable state the table of a user names no bundle twice, and has at most one current and at
  most one temporary input method, whatever requests, installations, user switches, restarts and database
  failures came before. This includes the tables that the upgrade from earlier versions builds.\<close>

theorem reachable_tables:
  assumes "enabled_reachable E content s"
  shows "table_ok (ec_enabledInfos (cached u s))"
  using es.inv_reaches [of E content s] assms by (auto simp: enabled_reachable_def intro: cached_ok)

section \<open>Reading the cache\<close>

lemma cached_run:
  assumes "ec_enabledInfos (cached u s) \<noteq> []"
  shows "run_state (GetEnabledCacheWithCorrect E u) s = ((NO_ERROR, cached u s), s)"
  using assms by (simp add: GetEnabledCacheWithCorrect_def GetEnabledCache_def)

lemma cached_run_bundle:
  assumes "find_bundle b (ec_enabledInfos (cached u s)) \<noteq> None"
  shows "run_state (GetEnabledCacheWithCorrect_bundle E u b) s = ((NO_ERROR, cached u s), s)"
  using assms by (simp add: GetEnabledCacheWithCorrect_bundle_def GetEnabledCache_def)

text \<open>What the queries answer from a cached table.\<close>

lemma GetUserCfgIme_run:
  assumes "ec_enabledInfos (cached u s) \<noteq> []"
  shows "run_state (GetUserCfgIme E u) s = (case List.find is_default (ec_enabledInfos (cached u s)) of
     Some i \<Rightarrow> (native_of i)\<lparr>nc_subName := sub_name i\<rparr> | None \<Rightarrow> empty_native_cfg, s)"
  using assms by (simp add: GetUserCfgIme_def cached_run)

lemma IsDefaultImeSet_run:
  assumes "ec_enabledInfos (cached u s) \<noteq> []"
  shows "run_state (IsDefaultImeSet E u) s = (case List.find is_default (ec_enabledInfos (cached u s)) of
     Some i \<Rightarrow> xi_isDefaultImeSet (ei_extraInfo i) | None \<Rightarrow> False, s)"
  using assms by (simp add: IsDefaultImeSet_def cached_run)

lemma GetCurrentImeCfg_run:
  assumes "ec_enabledInfos (cached u s) \<noteq> []"
  shows "run_state (GetCurrentImeCfg E u) s = (case List.find is_tmp (ec_enabledInfos (cached u s)) of
     Some i \<Rightarrow> native_of i | None \<Rightarrow> fst (run_state (GetUserCfgIme E u) s), s)"
  using assms by (auto simp: GetCurrentImeCfg_def GetCurrentImeCfgInner_def cached_run GetUserCfgIme_run split: option.split)

text \<open>Storing a table: on success it is the cached one, and the tables of the other users stay.\<close>

lemma sd_ops_cache:
  "frames em_imeEnabledCfg (outside f)" "frames em_imeEnabledCfg (SetStringValue D u k v)"
proof -
  show o: "frames em_imeEnabledCfg (outside f)" for f by (simp add: frames_def outside_def)
  show "frames em_imeEnabledCfg (SetStringValue D u k v)"
    unfolding SetStringValue_def CreateDataShareHelper_def GetToken_def ReleaseDataShareHelper_def
    by (intro frame_intros o) (simp add: frames_def)
qed

lemma wp_store_cfg:
  "wp (UpdateEnabledCfgCache_cfg E u cfg) (\<lambda>r t. (r = NO_ERROR \<longrightarrow> cached u t = cfg) \<and>
     (r \<noteq> NO_ERROR \<longrightarrow> r = ERROR_ENABLE_IME \<and> cached u t = cached u s) \<and> (\<forall>u'. u' \<noteq> u \<longrightarrow> cached u' t = cached u' s)) s"
proof -
  have "em_imeEnabledCfg (snd (run_state (SetStringValue D a k v) s)) = em_imeEnabledCfg s" for D a k v
    by (rule frames_run [OF sd_ops_cache(2)])
  then show ?thesis
    by (auto simp: UpdateEnabledCfgCache_cfg_def wp_simps wp_run [of "SetStringValue _ _ _ _"] SetEnabledCache_def cached_def
        split: option.split)
qed
section \<open>The tables of the other users\<close>

lemma frames_outside: "(\<And>s w. g (s\<lparr>sd_world := w\<rparr>) = g s) \<Longrightarrow> frames g (outside f)"
  by (simp add: frames_def outside_def)

declare frames_modify [frame_intros]

lemma frames_Create: "frames em_imeEnabledCfg (CreateDataShareHelper D u)"
  unfolding CreateDataShareHelper_def GetToken_def by (intro frame_intros frames_outside) simp_all

lemma frames_GetStringValue: "frames em_imeEnabledCfg (GetStringValue D u k v)"
  unfolding GetStringValue_def ReleaseDataShareHelper_def by (intro frame_intros frames_outside frames_Create) simp_all

lemma frames_final: "frames g (final_ime_infos E u infos)"
  by (simp add: final_ime_infos_def)

lemma frames_Upgrade: "frames em_imeEnabledCfg (Upgrade E u infos)"
  unfolding Upgrade_def Let_def GetUserEnabledTable_content_def MergeTwoTable_def PaddedByBundleMgr_def PaddedByImePersistCfg_def
    SetUserEnabledTable_def GetEnabledTable_def GetEnabledTable_names_def GetEnabledTable_content_def GetFullExperienceTable_def
  by (intro frame_intros frames_GetStringValue sd_ops_cache(2) frames_final; simp)

lemma frames_GetEnabledCfg: "frames em_imeEnabledCfg (GetEnabledCfg E u infos)"
  unfolding GetEnabledCfg_def CorrectByBundleMgr_def Let_def
  by (intro frame_intros frames_GetStringValue frames_Upgrade frames_final; simp)

lemma cached_cong: "em_imeEnabledCfg t = em_imeEnabledCfg s \<Longrightarrow> cached u t = cached u s"
  by (simp add: cached_def)

lemma wp_UpdateEnabledCfgCache:
  "wp (UpdateEnabledCfgCache E u infos) (\<lambda>r t. (\<forall>u'. u' \<noteq> u \<longrightarrow> cached u' t = cached u' s) \<and>
     (r \<noteq> NO_ERROR \<longrightarrow> cached u t = cached u s)) s"
proof -
  have "wp (GetEnabledCfg E u infos) (\<lambda>r t. \<forall>u'. cached u' t = cached u' s) s"
    unfolding wp_run by (intro allI cached_cong frames_run [OF frames_GetEnabledCfg])
  then show ?thesis
    unfolding UpdateEnabledCfgCache_def wp_bind
    by (rule wp_conseq) (auto simp: wp_simps split: prod.split intro!: wp_conseq [OF wp_store_cfg])
qed

text \<open>The table that is read is the cached one afterwards, and no other user's table changes.\<close>

definition reads_table :: "int \<Rightarrow> ('d, 'x) enabled_state_scheme \<Rightarrow> int \<times> ime_enabled_cfg \<Rightarrow> ('d, 'x) enabled_state_scheme \<Rightarrow> bool" where
  "reads_table u s x t \<longleftrightarrow> (\<forall>u'. u' \<noteq> u \<longrightarrow> cached u' t = cached u' s) \<and> (fst x = NO_ERROR \<longrightarrow> snd x = cached u t)"

lemma wp_reads:
  "wp (GetEnabledCacheWithCorrect E u) (reads_table u s) s"
  "wp (GetEnabledCacheWithCorrect_bundle E u b) (reads_table u s) s"
proof -
  have load: "wp (UpdateEnabledCfgCache E u []) (\<lambda>r. wp (if r \<noteq> NO_ERROR then ret (r, cached u s)
       else do { enabledCfg \<leftarrow> GetEnabledCache u;
         ret (if ec_enabledInfos enabledCfg = [] then ERROR_ENABLE_IME else NO_ERROR, enabledCfg) }) (reads_table u s)) s"
    by (rule wp_conseq [OF wp_UpdateEnabledCfgCache]) (auto simp: wp_simps GetEnabledCache_def reads_table_def)
  show "wp (GetEnabledCacheWithCorrect E u) (reads_table u s) s"
    using load by (auto simp: GetEnabledCacheWithCorrect_def GetEnabledCache_def wp_simps reads_table_def)
  show "wp (GetEnabledCacheWithCorrect_bundle E u b) (reads_table u s) s"
    using load by (auto simp: GetEnabledCacheWithCorrect_bundle_def GetEnabledCache_def wp_simps reads_table_def)
qed

section \<open>The current input method\<close>

lemma SplitImeId_join:
  assumes "SplitImeId imeId = (b, e)" "b \<noteq> ''''"
  shows "imeId = b @ ''/'' @ e" "e \<noteq> ''''"
proof -
  let ?n = "length (takeWhile (\<lambda>c. c \<noteq> CHR ''/'') imeId)"
  from assms have n: "?n + 1 < length imeId" and b: "b = takeWhile (\<lambda>c. c \<noteq> CHR ''/'') imeId" and e: "e = drop (?n + 1) imeId"
    by (auto simp: SplitImeId_def Let_def split: if_splits)
  have "imeId ! ?n = CHR ''/''" using n nth_length_takeWhile [of "\<lambda>c. c \<noteq> CHR ''/''" imeId] by simp
  then have "drop ?n imeId = CHR ''/'' # e"
    using n e Cons_nth_drop_Suc [of ?n imeId] by simp
  moreover have "b = take ?n imeId" by (simp add: b takeWhile_eq_take [symmetric])
  ultimately show "imeId = b @ ''/'' @ e" by (metis append_Cons append_Nil append_take_drop_id)
  show "e \<noteq> ''''" using n e by simp
qed

lemma find_mark_current:
  "List.find is_default (map (mark_current b e sn bu) infos) = map_option (mark_current b e sn bu) (find_bundle b infos)"
  by (induction infos) (auto simp: find_bundle_def)

lemma native_mark_current:
  "ei_bundleName i = b \<Longrightarrow> (native_of (mark_current b e sn bu i))\<lparr>nc_subName := sub_name (mark_current b e sn bu i)\<rparr> =
   empty_native_cfg\<lparr>nc_imeId := b @ ''/'' @ e, nc_bundleName := b, nc_subName := sn, nc_extName := e\<rparr>"
  by (simp add: native_of_def mark_current_def Let_def upd_extra_def)

lemma wp_SetCurrentIme:
  "wp (SetCurrentIme E u imeId subName byUser) (\<lambda>r t. (\<forall>u'. u' \<noteq> u \<longrightarrow> cached u' t = cached u' s) \<and>
     (r = NO_ERROR \<longrightarrow> (case SplitImeId imeId of (b, e) \<Rightarrow> b \<noteq> '''' \<and> (\<exists>infos. find_bundle b infos \<noteq> None \<and>
        ec_enabledInfos (cached u t) = map (mark_current b e subName byUser) infos))) \<and>
     r \<in> {NO_ERROR, ERROR_BAD_PARAMETERS, ERROR_ENABLE_IME}) s"
proof -
  obtain b e where be: "SplitImeId imeId = (b, e)" by fastforce
  show ?thesis
    unfolding SetCurrentIme_def Let_def be prod.case
    by (simp add: wp_simps, intro impI wp_conseq [OF wp_reads(2) [of E u b s]])
       (auto simp: reads_table_def wp_simps split: prod.split intro!: wp_conseq [OF wp_store_cfg], metis option.distinct(1))
qed

text \<open>C19. When choosing the current input method reports success, that input method is the user's configured one,
  with the given subtype and with the given origin of the choice; it is the only current one in the table,
  and the tables of the other users are as they were. The other results are the two errors.\<close>

theorem SetCurrentIme_correct:
  assumes "run_state (SetCurrentIme E u imeId subName byUser) s = (r, t)"
  shows "(r = NO_ERROR \<longrightarrow> (case SplitImeId imeId of (b, e) \<Rightarrow>
       fst (run_state (GetUserCfgIme E u) t) = empty_native_cfg\<lparr>nc_imeId := imeId, nc_bundleName := b, nc_subName := subName, nc_extName := e\<rparr> \<and>
       fst (run_state (IsDefaultImeSet E u) t) = byUser \<and>
       (\<forall>i \<in> set (ec_enabledInfos (cached u t)). is_default i \<longleftrightarrow> ei_bundleName i = b))) \<and>
     (\<forall>u'. u' \<noteq> u \<longrightarrow> cached u' t = cached u' s) \<and> r \<in> {NO_ERROR, ERROR_BAD_PARAMETERS, ERROR_ENABLE_IME}"
proof -
  obtain b e where be: "SplitImeId imeId = (b, e)" by fastforce
  from wp_SetCurrentIme [of E u imeId subName byUser s]
  have others: "\<forall>u'. u' \<noteq> u \<longrightarrow> cached u' t = cached u' s" "r \<in> {NO_ERROR, ERROR_BAD_PARAMETERS, ERROR_ENABLE_IME}"
    and set: "r = NO_ERROR \<Longrightarrow> b \<noteq> '''' \<and> (\<exists>infos. find_bundle b infos \<noteq> None \<and>
       ec_enabledInfos (cached u t) = map (mark_current b e subName byUser) infos)"
    by (simp_all add: wp_run assms be)
  have "fst (run_state (GetUserCfgIme E u) t) = empty_native_cfg\<lparr>nc_imeId := imeId, nc_bundleName := b, nc_subName := subName, nc_extName := e\<rparr> \<and>
       fst (run_state (IsDefaultImeSet E u) t) = byUser \<and>
       (\<forall>i \<in> set (ec_enabledInfos (cached u t)). is_default i \<longleftrightarrow> ei_bundleName i = b)" if "r = NO_ERROR"
  proof -
    from set [OF that] obtain infos i where b: "b \<noteq> ''''" and i: "find_bundle b infos = Some i"
      and t: "ec_enabledInfos (cached u t) = map (mark_current b e subName byUser) infos" by auto
    from i have n: "ei_bundleName i = b" and ne: "infos \<noteq> []" by (auto simp: find_bundle_def dest: find_SomeD)
    have bs: "xi_isDefaultImeSet (ei_extraInfo (mark_current b e subName byUser i)) = byUser"
      using n by (simp add: mark_current_def Let_def upd_extra_def)
    have f: "List.find is_default (ec_enabledInfos (cached u t)) = Some (mark_current b e subName byUser i)"
      by (simp add: t find_mark_current i)
    show ?thesis
      using ne by (simp add: GetUserCfgIme_run IsDefaultImeSet_run t f [unfolded t] native_mark_current [OF n]
          SplitImeId_join(1) [OF be b] bs)
  qed
  with others show ?thesis by (simp add: be)
qed

section \<open>The temporary input method\<close>

lemma find_set_tmp: "List.find Q (map (set_tmp P) infos) = map_option (set_tmp P) (List.find (\<lambda>i. Q (set_tmp P i)) infos)"
  by (induction infos) auto

lemma find_False: "List.find (\<lambda>_. False) xs = None"
  by (induction xs) auto

lemma GetUserCfgIme_set_tmp:
  assumes "ec_enabledInfos (cached u t) = map (set_tmp P) (ec_enabledInfos (cached u s))" "ec_enabledInfos (cached u s) \<noteq> []"
  shows "fst (run_state (GetUserCfgIme E u) t) = fst (run_state (GetUserCfgIme E u) s)"
  using assms by (simp add: GetUserCfgIme_run find_set_tmp split: option.split)

lemma wp_store_tmp:
  "wp (store_tmp E u cfg P) (\<lambda>r t. r = NO_ERROR \<longrightarrow> ec_enabledInfos (cached u t) = map (set_tmp P) (ec_enabledInfos cfg)) s"
  unfolding store_tmp_def wp_bind by (rule wp_conseq [OF wp_store_cfg]) (auto simp: wp_simps)

text \<open>The same input method set again changes nothing: in a well-formed table it is the only temporary one.\<close>

lemma at_most_one_find: "at_most_one P xs \<Longrightarrow> y \<in> set xs \<Longrightarrow> P y \<Longrightarrow> List.find P xs = Some y"
  by (induction xs) auto

lemma SetTmpIme_result:
  assumes "table_ok (ec_enabledInfos (cached u s))" "SplitImeId imeId = (b, e)" "b \<noteq> ''''"
    "find_bundle b (ec_enabledInfos (cached u s)) \<noteq> None" "run_state (SetTmpIme E u imeId) s = (NO_ERROR, t)"
  shows "ec_enabledInfos (cached u t) = map (set_tmp (\<lambda>i. ei_bundleName i = b)) (ec_enabledInfos (cached u s))"
proof -
  let ?infos = "ec_enabledInfos (cached u s)"
  have ne: "imeId \<noteq> ''''" using assms(2,3) by (auto simp: SplitImeId_def)
  note run = cached_run_bundle [OF assms(4), of E]
  show ?thesis
  proof (cases "List.find (\<lambda>i. is_tmp i \<and> ei_bundleName i = b) ?infos")
    case None
    with assms(5) ne have "run_state (store_tmp E u (cached u s) (\<lambda>i. ei_bundleName i = b)) s = (NO_ERROR, t)"
      by (simp add: SetTmpIme_def assms(2) run)
    with wp_store_tmp [of E u "cached u s" "\<lambda>i. ei_bundleName i = b" s] show ?thesis by (simp add: wp_run)
  next
    case (Some i)
    with assms(5) ne have t: "t = s" by (simp add: SetTmpIme_def assms(2) run)
    from Some have i: "i \<in> set ?infos" "is_tmp i" "ei_bundleName i = b" by (auto dest: find_SomeD)
    have "is_tmp j \<longleftrightarrow> ei_bundleName j = b" if "j \<in> set ?infos" for j
    proof -
      have "at_most_one is_tmp ?infos" using assms(1) by (simp add: table_ok_def)
      then have "is_tmp j \<Longrightarrow> j = i" using i that at_most_one_find [of is_tmp ?infos] by (metis option.inject)
      moreover have "ei_bundleName j = b \<Longrightarrow> j = i"
        using assms(1) i that by (auto simp: table_ok_def distinct_map dest: inj_onD)
      ultimately show ?thesis using i by auto
    qed
    then have "map (set_tmp (\<lambda>i. ei_bundleName i = b)) ?infos = map id ?infos"
      by (intro map_cong) (auto simp: set_tmp_def upd_extra_def)
    with t show ?thesis by simp
  qed
qed

text \<open>C33. A temporary input method (the one used on the lock screen) takes precedence over the user's choice
  without changing it, and when it is taken back the user's choice is the current input method again.\<close>

theorem SetTmpIme_roundtrip:
  assumes "table_ok (ec_enabledInfos (cached u s))" "SplitImeId imeId = (b, e)" "b \<noteq> ''''"
    "find_bundle b (ec_enabledInfos (cached u s)) \<noteq> None" "run_state (SetTmpIme E u imeId) s = (NO_ERROR, t)"
    "run_state (SetTmpIme E u '''') t = (NO_ERROR, t')"
  shows "nc_bundleName (fst (run_state (GetCurrentImeCfg E u) t)) = b \<and>
    fst (run_state (GetUserCfgIme E u) t) = fst (run_state (GetUserCfgIme E u) s) \<and>
    fst (run_state (GetCurrentImeCfg E u) t') = fst (run_state (GetUserCfgIme E u) s)"
proof -
  let ?infos = "ec_enabledInfos (cached u s)"
  note t = SetTmpIme_result [OF assms(1-5)]
  obtain i where i: "find_bundle b ?infos = Some i" using assms(4) by auto
  then have ib: "ei_bundleName i = b" and ne: "?infos \<noteq> []" by (auto simp: find_bundle_def dest: find_SomeD)
  have tmp: "List.find is_tmp (ec_enabledInfos (cached u t)) = Some (set_tmp (\<lambda>i. ei_bundleName i = b) i)"
    using i by (simp add: t find_set_tmp find_bundle_def)
  have one: "nc_bundleName (fst (run_state (GetCurrentImeCfg E u) t)) = b"
    using ne by (simp add: GetCurrentImeCfg_run t find_set_tmp i [unfolded find_bundle_def]) (simp add: native_of_def ib)
  have net: "ec_enabledInfos (cached u t) \<noteq> []" using ne t by simp
  from assms(6) tmp have "run_state (store_tmp E u (cached u t) (\<lambda>_. False)) t = (NO_ERROR, t')"
    by (simp add: SetTmpIme_def cached_run [OF net])
  with wp_store_tmp [of E u "cached u t" "\<lambda>_. False" t]
  have t': "ec_enabledInfos (cached u t') = map (set_tmp (\<lambda>_. False)) (ec_enabledInfos (cached u t))" by (simp add: wp_run)
  have "fst (run_state (GetCurrentImeCfg E u) t') = fst (run_state (GetUserCfgIme E u) t')"
    using net by (simp add: GetCurrentImeCfg_run t' find_set_tmp find_False split: option.split)
  also have "\<dots> = fst (run_state (GetUserCfgIme E u) t)" by (rule GetUserCfgIme_set_tmp [OF t' net])
  finally show ?thesis using one GetUserCfgIme_set_tmp [OF t ne, of E] by simp
qed

section \<open>Replacing the current input method\<close>

lemma find_position: "List.find P xs = map_option ((!) xs) (position P xs)"
  by (induction xs) (auto simp: option.map_comp comp_def)

abbreviation sys_bundle :: "'d settings_env \<Rightarrow> string" where
  "sys_bundle E \<equiv> nc_bundleName (GetDefaultIme E)"

text \<open>
  The current input method is replaced by that of the system. When it is that of the system itself, the
  entry that was just marked is cleared again, and no input method is current.
\<close>

lemma ModCurrentIme_current:
  assumes ok: "table_ok infos" and cur: "IsCurrentIme b infos" and sys: "find_bundle (sys_bundle E) infos \<noteq> None"
  shows "map_option ei_bundleName (List.find is_default (ModCurrentIme E infos)) = (if b = sys_bundle E then None else Some (sys_bundle E))"
proof -
  from sys obtain n where n: "position (\<lambda>i. ei_bundleName i = sys_bundle E) infos = Some n"
    by (auto simp: find_bundle_def find_position)
  from cur obtain k where k: "position is_default infos = Some k" "ei_bundleName (infos ! k) = b"
    by (auto simp: IsCurrentIme_def find_position split: option.splits)
  note nl = position_Some [OF n] and kl = position_Some [OF k(1)]
  let ?m = "ModCurrentIme E infos"
  let ?infos1 = "infos[n := upd_extra (\<lambda>x. x\<lparr>xi_isDefaultIme := True\<rparr>) (infos ! n)]"
  have m: "?m = ?infos1[k := upd_extra (\<lambda>x. x\<lparr>xi_isDefaultIme := False, xi_isDefaultImeSet := False,
      xi_isTmpIme := False, xi_currentSubName := ''''\<rparr>) (?infos1 ! k)]"
    by (simp add: ModCurrentIme_def n k Let_def)
  have one: "at_most_one is_default infos" using ok by (simp add: table_ok_def)
  have same: "n = k \<longleftrightarrow> b = sys_bundle E"
    using ok nl kl k(2) nth_eq_iff_index_eq [of "map ei_bundleName infos" n k] by (auto simp: table_ok_def)
  show ?thesis
  proof (cases "n = k")
    case True
    have "\<not> is_default (?m ! j)" if "j < length infos" for j
      using that one kl nl by (auto simp: m True nth_list_update upd_extra_def at_most_one_nth)
    then have "List.find is_default ?m = None" by (auto simp: find_None_all in_set_conv_nth m)
    with True same show ?thesis by simp
  next
    case False
    have "is_default (?m ! n)" "ei_bundleName (?m ! n) = sys_bundle E"
      using False nl kl by (simp_all add: m upd_extra_def)
    moreover have "?m ! n \<in> set ?m" using nl by (intro nth_mem) (simp add: m)
    moreover have "at_most_one is_default ?m" using table_ok_ModCurrentIme [OF ok, of E] by (simp add: table_ok_def)
    ultimately have "List.find is_default ?m = Some (?m ! n)" by (simp add: at_most_one_find)
    with False same \<open>ei_bundleName (?m ! n) = sys_bundle E\<close> show ?thesis by simp
  qed
qed

lemma GetUserCfgIme_bundle:
  assumes "ec_enabledInfos (cached u s) \<noteq> []"
  shows "nc_bundleName (fst (run_state (GetUserCfgIme E u) s)) =
    (case map_option ei_bundleName (List.find is_default (ec_enabledInfos (cached u s))) of None \<Rightarrow> '''' | Some b \<Rightarrow> b)"
  using assms by (simp add: GetUserCfgIme_run native_of_def empty_native_cfg_def split: option.split)

lemma IsCurrentIme_nonempty: "IsCurrentIme b infos \<Longrightarrow> infos \<noteq> []"
  by (auto simp: IsCurrentIme_def)

lemma length_upd_first [simp]: "length (upd_first P f xs) = length xs"
  by (induction xs) auto

lemma length_ModCurrentIme [simp]: "length (ModCurrentIme E infos) = length infos"
  by (simp add: ModCurrentIme_def Let_def split: option.split)

text \<open>When the current input method is uninstalled the input method of the system becomes the user's current
  one, unless the table cannot be stored and stays as it was. When the uninstalled input method is that of
  the system itself, no input method is current afterwards.\<close>

theorem Delete_bundle_current:
  assumes "table_ok (ec_enabledInfos (cached u s))" "IsCurrentIme b (ec_enabledInfos (cached u s))"
    "find_bundle (sys_bundle E) (ec_enabledInfos (cached u s)) \<noteq> None" "run_state (Delete_bundle E u b) s = (r, t)"
  shows "r = NO_ERROR \<and> (cached u t = cached u s \<or>
     nc_bundleName (fst (run_state (GetUserCfgIme E u) t)) = (if b = sys_bundle E then '''' else sys_bundle E))"
proof -
  let ?infos = "ec_enabledInfos (cached u s)"
  let ?cfg = "cached u s\<lparr>ec_enabledInfos := ModCurrentIme E ?infos\<rparr>"
  have ne: "?infos \<noteq> []" by (rule IsCurrentIme_nonempty [OF assms(2)])
  obtain r1 t1 where 1: "run_state (UpdateEnabledCfgCache_cfg E u ?cfg) s = (r1, t1)" by fastforce
  have t: "r = NO_ERROR" "em_imeEnabledCfg t = em_imeEnabledCfg t1"
    using assms(2,4) by (auto simp: Delete_bundle_def cached_run [OF ne] 1 NotifyCurrentImeStatusChanged_def split: if_splits)
  have "cached u t1 = ?cfg \<or> cached u t1 = cached u s"
    using wp_store_cfg [of E u ?cfg s] by (auto simp: wp_run 1)
  then consider "cached u t = ?cfg" | "cached u t = cached u s" using cached_cong [OF t(2)] by metis
  then show ?thesis
  proof cases
    case 1
    then have "ec_enabledInfos (cached u t) \<noteq> []" using ne by (metis ime_enabled_cfg.select_convs(2) ime_enabled_cfg.surjective
      ime_enabled_cfg.update_convs(2) length_0_conv length_ModCurrentIme)
    from GetUserCfgIme_bundle [OF this, of E] ModCurrentIme_current [OF assms(1-3)] 1 t(1) show ?thesis by simp
  qed (simp add: t(1))
qed

section \<open>The enabled status\<close>

lemma GetEnabledState_run:
  assumes "find_bundle b (ec_enabledInfos (cached u s)) = Some i" "b \<noteq> ''''"
  shows "fst (run_state (GetEnabledState E u b st) s) =
    (NO_ERROR, if b = sys_bundle E \<and> ei_enabledStatus i = DISABLED then BASIC_MODE else ei_enabledStatus i)"
  using assms by (simp add: GetEnabledState_def GetEnabledStateInner_def cached_run_bundle)

lemma find_bundle_upd:
  assumes "\<And>i. ei_bundleName (f i) = ei_bundleName i"
  shows "find_bundle b (upd_first (\<lambda>i. ei_bundleName i = b) f infos) = map_option f (find_bundle b infos)"
  using assms by (simp add: find_bundle_def find_upd_first)

lemma find_upd_first_default:
  assumes "\<And>i. ei_bundleName (f i) = ei_bundleName i" "\<And>i. ei_extraInfo (f i) = ei_extraInfo i"
  shows "map_option ei_bundleName (List.find is_default (upd_first P f infos)) = map_option ei_bundleName (List.find is_default infos)"
  using assms by (intro find_upd_first_other) auto

lemma find_update_nth:
  assumes "P v = P (xs ! n)" "P (xs ! n) \<Longrightarrow> g v = g (xs ! n)" "n < length xs"
  shows "map_option g (List.find P (xs[n := v])) = map_option g (List.find P xs)"
  using assms by (induction xs arbitrary: n) (auto split: nat.split)

text \<open>Replacing the current input method changes no name and no status.\<close>

lemma find_bundle_ModCurrentIme:
  "map_option ei_enabledStatus (find_bundle b (ModCurrentIme E infos)) = map_option ei_enabledStatus (find_bundle b infos)"
  by (auto simp: ModCurrentIme_def Let_def find_bundle_def upd_extra_def find_update_nth nth_list_update split: option.split
      dest!: position_Some)

lemma find_bundle_Mod_if:
  "map_option ei_enabledStatus (find_bundle b (if c then ModCurrentIme E infos else infos)) = map_option ei_enabledStatus (find_bundle b infos)"
  by (cases c) (simp_all only: find_bundle_ModCurrentIme if_True if_False)

lemma updated_table:
  fixes st :: enabled_status
  assumes ok: "table_ok infos" and i: "find_bundle b infos = Some i" and sys: "find_bundle (sys_bundle E) infos \<noteq> None"
    and b: "b \<noteq> sys_bundle E" and f: "\<And>i. ei_bundleName (f i) = ei_bundleName i" "\<And>i. ei_extraInfo (f i) = ei_extraInfo i"
  defines "upd \<equiv> upd_first (\<lambda>i. ei_bundleName i = b) f infos"
  defines "new \<equiv> if IsCurrentIme b upd \<and> st = DISABLED then ModCurrentIme E upd else upd"
  shows "map_option ei_enabledStatus (find_bundle b new) = Some (ei_enabledStatus (f i))"
    "map_option ei_bundleName (List.find is_default new) =
      (if IsCurrentIme b infos \<and> st = DISABLED then Some (sys_bundle E) else map_option ei_bundleName (List.find is_default infos))"
    "length new = length infos"
proof -
  have names: "map_option ei_bundleName (List.find is_default upd) = map_option ei_bundleName (List.find is_default infos)"
    unfolding upd_def by (rule find_upd_first_default) (simp_all add: f)
  then have cur: "IsCurrentIme b upd \<longleftrightarrow> IsCurrentIme b infos"
    by (auto simp: IsCurrentIme_def split: option.splits)
  show "map_option ei_enabledStatus (find_bundle b new) = Some (ei_enabledStatus (f i))"
    by (simp add: new_def find_bundle_Mod_if upd_def find_bundle_upd f i)
  show "length new = length infos" by (simp add: new_def upd_def)
  have okn: "table_ok upd" unfolding upd_def by (rule table_ok_upd_first [OF ok]) (simp_all add: f)
  have sysn: "find_bundle (sys_bundle E) upd \<noteq> None"
    using find_upd_first_other [of "\<lambda>i. ei_bundleName i = sys_bundle E" f "\<lambda>i. ei_bundleName i = b" ei_bundleName infos] sys
    by (auto simp: find_bundle_def upd_def f)
  show "map_option ei_bundleName (List.find is_default new) =
      (if IsCurrentIme b infos \<and> st = DISABLED then Some (sys_bundle E) else map_option ei_bundleName (List.find is_default infos))"
    using ModCurrentIme_current [OF okn _ sysn, of b] b by (simp add: new_def cur names)
qed

text \<open>C20. When an update of the enabled status succeeds the status is in range, it is the one reported from then on
  and the input method is not that of the system. Disabling the current input method makes that of the
  system the current one; every other update leaves the current input method as it was.\<close>

theorem Update_correct:
  assumes ok: "table_ok (ec_enabledInfos (cached u s))" and i: "find_bundle b (ec_enabledInfos (cached u s)) = Some i"
    and sys: "find_bundle (sys_bundle E) (ec_enabledInfos (cached u s)) \<noteq> None"
    and run: "run_state (Update E u b e st) s = (NO_ERROR, t)"
  shows "DISABLED \<le> st \<and> st \<le> FULL_EXPERIENCE_MODE \<and> b \<noteq> sys_bundle E \<and>
    fst (run_state (GetEnabledState E u b st') t) = (NO_ERROR, st) \<and>
    nc_bundleName (fst (run_state (GetUserCfgIme E u) t)) =
      (if IsCurrentIme b (ec_enabledInfos (cached u s)) \<and> st = DISABLED \<and> ei_enabledStatus i \<noteq> DISABLED then sys_bundle E
       else nc_bundleName (fst (run_state (GetUserCfgIme E u) s)))"
proof -
  let ?infos = "ec_enabledInfos (cached u s)"
  let ?now = "to_string (se_now E (sd_world s))"
  let ?f = "\<lambda>i. i\<lparr>ei_enabledStatus := st, ei_stateUpdateTime := ?now\<rparr>"
  let ?upd = "upd_first (\<lambda>i. ei_bundleName i = b) ?f ?infos"
  let ?new = "if IsCurrentIme b ?upd \<and> st = DISABLED then ModCurrentIme E ?upd else ?upd"
  have tbl: "run_state (GetEnabledCacheWithCorrect_bundle E u b) s = ((NO_ERROR, cached u s), s)"
    by (rule cached_run_bundle) (simp add: i)
  have check: "CheckUpdate E (sd_world s) u b e st = NO_ERROR"
    using run by (auto simp: Update_def Let_def split: if_splits)
  then have st: "DISABLED \<le> st" "st \<le> FULL_EXPERIENCE_MODE" "b \<noteq> ''''" "b \<noteq> sys_bundle E"
    by (auto simp: CheckUpdate_def split: if_splits)
  have ne: "?infos \<noteq> []" using i by (auto simp: find_bundle_def)
  show ?thesis
  proof (cases "ei_enabledStatus i = st")
    case True
    then have "t = s" using run by (simp add: Update_def Let_def check tbl i)
    with True st GetEnabledState_run [OF i st(3)] show ?thesis by auto
  next
    case False
    obtain r1 t1 where 1: "run_state (UpdateEnabledCfgCache_cfg E u (cached u s\<lparr>ec_enabledInfos := ?new\<rparr>)) s = (r1, t1)" by fastforce
    with run False have r1: "r1 = NO_ERROR" and tt: "em_imeEnabledCfg t = em_imeEnabledCfg t1"
      by (auto simp: Update_def Let_def check tbl i NotifyCurrentImeStatusChanged_def split: if_splits)
    with wp_store_cfg [of E u "cached u s\<lparr>ec_enabledInfos := ?new\<rparr>" s]
    have "cached u t1 = cached u s\<lparr>ec_enabledInfos := ?new\<rparr>" by (simp only: wp_run 1 fst_conv snd_conv)
    then have t: "ec_enabledInfos (cached u t) = ?new" by (simp add: cached_cong [OF tt])
    note new = updated_table [OF ok i sys st(4), of ?f st, folded t, simplified]
    from new(3) ne have net: "ec_enabledInfos (cached u t) \<noteq> []" by (metis length_0_conv)
    from new(1) obtain j where j: "find_bundle b (ec_enabledInfos (cached u t)) = Some j" "ei_enabledStatus j = st" by auto
    with False st GetEnabledState_run [OF j(1) st(3), of E st'] j(2) show ?thesis
      by (simp add: GetUserCfgIme_bundle [OF net] GetUserCfgIme_bundle [OF ne] new(2))
  qed
qed

lemma frames_Update_sys: "frames g (Update E u (sys_bundle E) e st)"
  by (simp add: frames_def Update_def Let_def CheckUpdate_def)

text \<open>The handler for a change of the table of full experience input methods never changes a table: it asks for
  an update of the input method of the system, which the update always refuses.\<close>

theorem OnFullExperienceTableChanged_no_effect:
  "em_imeEnabledCfg (snd (run_state (OnFullExperienceTableChanged E u) s)) = em_imeEnabledCfg s \<and>
   em_posted (snd (run_state (OnFullExperienceTableChanged E u) s)) = em_posted s"
proof -
  have "frames (\<lambda>s. (em_imeEnabledCfg s, em_posted s)) (OnFullExperienceTableChanged E u)"
    unfolding OnFullExperienceTableChanged_def Let_def GetFullExperienceTable_def GetStringValue_def CreateDataShareHelper_def
      GetToken_def ReleaseDataShareHelper_def
    by (intro frame_intros frames_outside frames_Update_sys; simp)
  from frames_run [OF this] show ?thesis by simp
qed

section \<open>The properties at a concrete state\<close>

definition chosen0 :: "db enabled_state" where
  "chosen0 = snd (run_state (SetCurrentIme db_env0 100 ''ime/Ime'' ''sub'' True) loaded0)"

lemma chosen0_run: "run_state (SetCurrentIme db_env0 100 ''ime/Ime'' ''sub'' True) loaded0 = (NO_ERROR, chosen0)"
proof -
  have "fst (run_state (SetCurrentIme db_env0 100 ''ime/Ime'' ''sub'' True) loaded0) = NO_ERROR" by code_simp
  then show ?thesis by (simp add: chosen0_def prod_eq_iff)
qed

theorem SetCurrentIme_correct_witness:
  "nc_imeId (fst (run_state (GetUserCfgIme db_env0 100) chosen0)) = ''ime/Ime'' \<and> fst (run_state (IsDefaultImeSet db_env0 100) chosen0)"
proof -
  have "SplitImeId ''ime/Ime'' = (''ime'', ''Ime'')" by code_simp
  with SetCurrentIme_correct [OF chosen0_run] show ?thesis by simp
qed

lemma cached_chosen0: "table_ok (ec_enabledInfos (cached 100 chosen0))"
  "IsCurrentIme ''ime'' (ec_enabledInfos (cached 100 chosen0))" "sys_bundle db_env0 = ''sys''"
  "map ei_bundleName (ec_enabledInfos (cached 100 chosen0)) = [''sys'', ''ime'']"
  "map_option ei_enabledStatus (find_bundle ''ime'' (ec_enabledInfos (cached 100 chosen0))) = Some BASIC_MODE"
  by code_simp+

lemma find_bundle_map: "find_bundle b infos \<noteq> None \<longleftrightarrow> b \<in> set (map ei_bundleName infos)"
  by (auto simp: find_bundle_def find_None_iff)

text \<open>The service starts, and the table of user 100 is built by the upgrade.\<close>

definition upgraded0 :: "db enabled_state" where
  "upgraded0 = snd (run_state (serve db_env0 (InitReq [(100, installed0)])) db_state0)"

theorem reachable_tables_witness:
  "table_ok (ec_enabledInfos (cached 100 upgraded0)) \<and>
   map (\<lambda>i. (ei_bundleName i, is_default i)) (ec_enabledInfos (cached 100 upgraded0)) = [(''sys'', True), (''ime'', False)]"
proof -
  have "enabled_start db_env0 map_of db_state0"
    using settings_ok0 by (simp add: enabled_start_def db_state0_def)
  then have "enabled_reachable db_env0 map_of upgraded0"
    unfolding enabled_reachable_def upgraded0_def by (rule reaches.more [OF reaches.start]) (rule enabled_step.request)
  then have "table_ok (ec_enabledInfos (cached 100 upgraded0))" by (rule reachable_tables)
  moreover have "map (\<lambda>i. (ei_bundleName i, is_default i)) (ec_enabledInfos (cached 100 upgraded0)) = [(''sys'', True), (''ime'', False)]"
    by code_simp
  ultimately show ?thesis by (rule conjI)
qed

theorem SetTmpIme_roundtrip_witness:
  "let t = snd (run_state (SetTmpIme db_env0 100 ''ime/Ime'') loaded0); t' = snd (run_state (SetTmpIme db_env0 100 '''') t)
   in nc_bundleName (fst (run_state (GetCurrentImeCfg db_env0 100) t)) = ''ime'' \<and>
      fst (run_state (GetCurrentImeCfg db_env0 100) t') = fst (run_state (GetUserCfgIme db_env0 100) loaded0)"
proof -
  let ?t = "snd (run_state (SetTmpIme db_env0 100 ''ime/Ime'') loaded0)"
  have 1: "SplitImeId ''ime/Ime'' = (''ime'', ''Ime'')" by code_simp
  have "fst (run_state (SetTmpIme db_env0 100 ''ime/Ime'') loaded0) = NO_ERROR" by code_simp
  then have 2: "run_state (SetTmpIme db_env0 100 ''ime/Ime'') loaded0 = (NO_ERROR, ?t)" by (simp add: prod_eq_iff)
  have "fst (run_state (SetTmpIme db_env0 100 '''') ?t) = NO_ERROR" by code_simp
  then have 3: "run_state (SetTmpIme db_env0 100 '''') ?t = (NO_ERROR, snd (run_state (SetTmpIme db_env0 100 '''') ?t))"
    by (simp add: prod_eq_iff)
  have 4: "table_ok (ec_enabledInfos (cached 100 loaded0))" "find_bundle ''ime'' (ec_enabledInfos (cached 100 loaded0)) \<noteq> None"
    unfolding find_bundle_map cached_loaded0 by (rule table0_ok) code_simp
  from SetTmpIme_roundtrip [OF 4(1) 1 _ 4(2) 2 3] show ?thesis by (simp add: Let_def)
qed

text \<open>The input method of the system is current and is uninstalled: none is current afterwards.\<close>

theorem Delete_bundle_current_witness:
  "nc_bundleName (fst (run_state (GetUserCfgIme db_env0 100) (snd (run_state (Delete_bundle db_env0 100 ''sys'') loaded0)))) = ''''"
proof -
  let ?t = "snd (run_state (Delete_bundle db_env0 100 ''sys'') loaded0)"
  have 1: "table_ok (ec_enabledInfos (cached 100 loaded0))" by (simp add: cached_loaded0 table0_ok)
  have 2: "IsCurrentIme ''sys'' (ec_enabledInfos (cached 100 loaded0))" by code_simp
  have 3: "find_bundle (sys_bundle db_env0) (ec_enabledInfos (cached 100 loaded0)) \<noteq> None"
    unfolding find_bundle_map cached_chosen0(3) cached_loaded0 by code_simp
  have "cached 100 ?t \<noteq> cached 100 loaded0" by code_simp
  with Delete_bundle_current [OF 1 2 3, of "fst (run_state (Delete_bundle db_env0 100 ''sys'') loaded0)" ?t]
  show ?thesis by (simp add: cached_chosen0(3))
qed

theorem Update_correct_witness:
  "nc_bundleName (fst (run_state (GetUserCfgIme db_env0 100) (snd (run_state (Update db_env0 100 ''ime'' ''Ime'' DISABLED) chosen0)))) = ''sys''"
proof -
  let ?t = "snd (run_state (Update db_env0 100 ''ime'' ''Ime'' DISABLED) chosen0)"
  obtain i where i: "find_bundle ''ime'' (ec_enabledInfos (cached 100 chosen0)) = Some i" "ei_enabledStatus i = BASIC_MODE"
    using cached_chosen0(5) by auto
  have 1: "find_bundle (sys_bundle db_env0) (ec_enabledInfos (cached 100 chosen0)) \<noteq> None"
    by (simp only: find_bundle_map cached_chosen0) simp
  have "fst (run_state (Update db_env0 100 ''ime'' ''Ime'' DISABLED) chosen0) = NO_ERROR" by code_simp
  then have "run_state (Update db_env0 100 ''ime'' ''Ime'' DISABLED) chosen0 = (NO_ERROR, ?t)" by (simp add: prod_eq_iff)
  from Update_correct [OF cached_chosen0(1) i(1) 1 this] i(2) show ?thesis by (simp add: cached_chosen0)
qed

end
