(* ===== verification/Enabled_Restart.thy ===== *)
theory Enabled_Restart
  imports Enabled_Correct
begin

text \<open>
  The choice of the current input method survives a restart of the service: it is written to the
  database as JSON text and read back, checked against the installed input methods, when the cache is
  empty. A call of the database may fail at any time, and \<open>SetStringValue\<close> does not look at the result
  of \<open>Insert\<close>, so that a reported success does not say that the text is stored; that it is read back
  is a hypothesis on the run.
\<close>

section \<open>Printed text\<close>

text \<open>A printed object contains the names of its members, if these consist of letters.\<close>

definition is_letter :: "char \<Rightarrow> bool" where
  "is_letter x \<longleftrightarrow> 97 \<le> (of_char (lower x) :: nat) \<and> (of_char (lower x) :: nat) \<le> 122"

definition prints_names :: "cjson \<Rightarrow> bool" where
  "prints_names cj \<longleftrightarrow> (\<forall>ms c k v. cj_print cj (JObject ms) = Some c \<and> (k, v) \<in> set ms \<and> list_all is_letter k \<longrightarrow> contains k c)"

lemma version_printed:
  assumes "prints_names cj" "Marshall cj ImeEnabledCfg_Marshal cfg = Some c"
  shows "contains ''version'' c"
proof -
  have "list_all is_letter ''version''" by code_simp
  moreover have "\<exists>v. (''version'', v) \<in> set (ImeEnabledCfg_Marshal cfg [])"
    by (auto simp: ImeEnabledCfg_Marshal_def Let_def set_value_defs)
  ultimately show ?thesis using assms unfolding prints_names_def Marshall_def by blast
qed

section \<open>The restart\<close>

text \<open>The current input method is kept when the table is checked against the installed input methods.\<close>

lemma find_default_append: "List.find is_default (infos @ [new_ime_enabled_info b e st]) = List.find is_default infos"
  by (induction infos) (auto simp: new_ime_enabled_info_def new_extra_info_def)

lemma find_default_pad:
  assumes "\<forall>i \<in> set infos. is_default i \<longrightarrow> ei_extensionName i \<noteq> ''''"
  shows "List.find is_default (pad_infos (\<lambda>i. ei_extensionName i = '''') st fs infos) = List.find is_default infos"
  using assms
proof (induction fs arbitrary: infos)
  case (Cons f fs)
  let ?n = "\<lambda>i. ei_bundleName i = pr_name (fi_prop f)"
  let ?g = "\<lambda>i. if ei_extensionName i = '''' then i\<lparr>ei_extensionName := pr_id (fi_prop f)\<rparr> else i"
  have f: "List.find is_default (upd_first ?n ?g infos) = List.find is_default infos"
    using Cons.prems by (induction infos) auto
  have p: "\<forall>i \<in> set (upd_first ?n ?g infos). is_default i \<longrightarrow> ei_extensionName i \<noteq> ''''"
    using Cons.prems by (auto dest!: set_upd_first split: if_splits)
  have q: "\<forall>i \<in> set (infos @ [new_ime_enabled_info b e x]). is_default i \<longrightarrow> ei_extensionName i \<noteq> ''''" for b e x
    using Cons.prems by (auto simp: new_ime_enabled_info_def new_extra_info_def)
  show ?case
  proof (cases "find_bundle (pr_name (fi_prop f)) infos")
    case None
    with Cons.IH q show ?thesis by (simp add: Let_def find_default_append)
  next
    case (Some i)
    with Cons.IH p f show ?thesis by (simp add: Let_def)
  qed
qed simp

definition restarted :: "'d enabled_state \<Rightarrow> 'd enabled_state" where
  "restarted s = s\<lparr>sd_remoteObj := False, ug_upgradedUserId := {}, em_imeEnabledCfg := []\<rparr>"

lemma cached_restart: "em_imeEnabledCfg s = [] \<Longrightarrow> ec_enabledInfos (cached u s) = []"
  by (simp add: cached_def new_ime_enabled_cfg_def)

lemma reload:
  assumes q: "\<forall>w. se_queryFullImeInfo E w u = (NO_ERROR, installed)"
    and c: "fst (run_state (GetStringValue (se_ds E) (user_uri u) ENABLE_IME '''') s) = (NO_ERROR, c)" "contains ''version'' c"
    and cur: "\<forall>i \<in> set (ec_enabledInfos (decode E c)). is_default i \<longrightarrow>
        ei_extensionName i \<noteq> '''' \<and> (\<exists>f \<in> set installed. pr_name (fi_prop f) = ei_bundleName i)"
    and i: "List.find is_default (ec_enabledInfos (decode E c)) = Some i" and empty: "ec_enabledInfos (cached u s) = []"
  shows "wp (GetEnabledCacheWithCorrect E u) (\<lambda>x t. fst x \<in> {NO_ERROR, ERROR_ENABLE_IME} \<and>
    (fst x = NO_ERROR \<longrightarrow> List.find is_default (ec_enabledInfos (snd x)) = Some i)) s"
proof -
  let ?infos = "ec_enabledInfos (decode E c)"
  let ?pad = "pad_infos (\<lambda>i. ei_extensionName i = '''') (\<lambda>f. ComputeEnabledStatus E (pr_name (fi_prop f)) (fi_isSystemSpecialIme f)
     (se_initEnabledState E)) installed ?infos"
  have cc: "correct_current E installed ?infos = ?infos" using cur by (auto simp: correct_current_def)
  have p: "List.find is_default ?pad = Some i" using cur i by (simp add: find_default_pad)
  then have ne: "?pad \<noteq> []" by auto
  have corr: "wp (CorrectByBundleMgr E u [] ?infos) (\<lambda>r t. r = (NO_ERROR, ?pad)) s'" for s' :: "('a, 'b) enabled_state_scheme"
    using q by (simp add: CorrectByBundleMgr_def final_ime_infos_def wp_simps cc)
  have "wp (GetStringValue (se_ds E) (user_uri u) ENABLE_IME '''') (\<lambda>r t. r = (NO_ERROR, c)) s" using c(1) by (simp add: wp_run)
  then have "wp (GetEnabledCfg E u []) (\<lambda>r t. r = (NO_ERROR, decode E c\<lparr>ec_enabledInfos := ?pad\<rparr>)) s"
    unfolding GetEnabledCfg_def wp_bind
    by (rule wp_conseq) (auto simp: c(2) Let_def decode_def [symmetric] wp_simps intro!: wp_conseq [OF corr])
  then have "wp (UpdateEnabledCfgCache E u []) (\<lambda>r t. r \<in> {NO_ERROR, ERROR_ENABLE_IME} \<and>
      (r = NO_ERROR \<longrightarrow> ec_enabledInfos (cached u t) = ?pad)) s"
    unfolding UpdateEnabledCfgCache_def wp_bind
    by (rule wp_conseq) (auto simp: wp_simps intro!: wp_conseq [OF wp_store_cfg])
  then show ?thesis
    by (auto simp: GetEnabledCacheWithCorrect_def GetEnabledCache_def wp_simps empty p ne elim!: wp_conseq)
qed

text \<open>What a successful choice leaves in the cache.\<close>

lemma chosen_entry:
  assumes "run_state (SetCurrentIme E u imeId sn bu) s = (NO_ERROR, t)" "SplitImeId imeId = (b, e)"
  obtains i where "List.find is_default (ec_enabledInfos (cached u t)) = Some i"
    "\<forall>j \<in> set (ec_enabledInfos (cached u t)). is_default j \<longrightarrow> ei_bundleName j = b \<and> ei_extensionName j = e" "e \<noteq> ''''"
    "(native_of i)\<lparr>nc_subName := sub_name i\<rparr> = empty_native_cfg\<lparr>nc_imeId := imeId, nc_bundleName := b, nc_subName := sn, nc_extName := e\<rparr>"
    "xi_isDefaultImeSet (ei_extraInfo i) = bu"
proof -
  from wp_SetCurrentIme [of E u imeId sn bu s] assms obtain infos j where b: "b \<noteq> ''''" and j: "find_bundle b infos = Some j"
    and t: "ec_enabledInfos (cached u t) = map (mark_current b e sn bu) infos" by (auto simp: wp_run)
  have n: "ei_bundleName j = b" using j by (auto simp: find_bundle_def dest: find_SomeD)
  have ext: "is_default (mark_current b e sn bu x) \<Longrightarrow> ei_extensionName (mark_current b e sn bu x) = e" for x
    by (simp add: mark_current_def Let_def upd_extra_def split: if_splits)
  show thesis
  proof (rule that [of "mark_current b e sn bu j"])
    show "List.find is_default (ec_enabledInfos (cached u t)) = Some (mark_current b e sn bu j)"
      by (simp add: t find_mark_current j)
    show "\<forall>j \<in> set (ec_enabledInfos (cached u t)). is_default j \<longrightarrow> ei_bundleName j = b \<and> ei_extensionName j = e"
      using ext by (auto simp: t)
    show "xi_isDefaultImeSet (ei_extraInfo (mark_current b e sn bu j)) = bu"
      using n by (simp add: mark_current_def Let_def upd_extra_def)
  qed (simp_all add: SplitImeId_join [OF assms(2) b] native_mark_current [OF n])
qed


section \<open>At a concrete state\<close>

lemma contains_prefix: "contains k (k @ b)"
  by (cases "k @ b") (simp, metis append_eq_conv_conj contains.simps(2))

lemma containsI: "contains k (a @ k @ b)"
  by (induction a) (auto simp: contains_prefix)

lemma containsD: "contains k c \<Longrightarrow> \<exists>a b. c = a @ k @ b"
proof (induction c)
  case (Cons x c)
  then consider "take (length k) (x # c) = k" | a b where "c = a @ k @ b" by auto
  then show ?case
  proof cases
    case 1
    then have "x # c = [] @ k @ drop (length k) (x # c)" by (metis append_Nil append_take_drop_id)
    then show ?thesis by blast
  next
    case (2 a b)
    then have "x # c = (x # a) @ k @ b" by simp
    then show ?thesis by blast
  qed
qed simp

lemma contains_concat: "x \<in> set xs \<Longrightarrow> contains k x \<Longrightarrow> contains k (concat xs)"
  by (metis append.assoc concat.simps(2) concat_append containsD containsI split_list)

lemma json0_names: "prints_names json0"
proof -
  have "contains k (enc (JObject ms))" if "(k, v) \<in> set ms" for k v ms
  proof -
    have "contains k (enc_str k @ enc v)" unfolding enc_str_def append.assoc by (rule containsI)
    then have "contains k (concat (map (\<lambda>(k, v). enc_str k @ enc v) ms))"
      using that by (intro contains_concat [of "enc_str k @ enc v"]) auto
    then obtain a b where "concat (map (\<lambda>(k, v). enc_str k @ enc v) ms) = a @ k @ b" by (auto dest: containsD)
    then have "enc (JObject ms) = (CHR ''o'' # num (length ms) @ a) @ k @ b" by simp
    then show ?thesis by (simp only: containsI)
  qed
  then show ?thesis by (auto simp: prints_names_def json0_def simp del: enc.simps)
qed


end
