(* ===== verification/Imf_Parcel.thy ===== *)
theory Imf_Parcel
  imports Imf_Global "HOL-Library.Monad_Syntax"
begin

text \<open>
  What crosses the process boundary: the structures of \<open>input_method_utils.h\<close>,
  \<open>input_attribute.h\<close>, \<open>input_client_info.h\<close>, \<open>input_method_property.h\<close> and \<open>panel_info.h\<close> with their
  \<open>Marshalling\<close> and \<open>ReadFromParcel\<close>, and the conversions of \<open>input_method_tools.cpp\<close> between a
  structure and its parcelable twin.

  The \<open>Parcel\<close> of the IPC library is a parameter: a record of its write and read operations.
  Writing \<^emph>\<open>None\<close> is a write that returned false, which every \<open>Marshalling\<close> passes on. What the code
  relies on is the locale \<^emph>\<open>parcel_queue\<close>: a parcel is a queue of typed values. \<open>WriteParcelable\<close>
  marks the place (\<open>CParcelable\<close>) and calls the structure's own \<open>Marshalling\<close>; \<open>ReadParcelable\<close> looks
  for the mark and calls \<open>Unmarshalling\<close>.
\<close>

section \<open>Parcels\<close>

datatype cell = CInt32 int | CUint32 u32 | CUint64 u64 | CBool bool | CString string | CString16 u16string
  | CDouble double | CObject robj | CBytes "8 word list" | CParcelable

record 'p parcel_ops =
  pw :: "cell \<Rightarrow> 'p \<Rightarrow> 'p option"
  pr_int32 :: "'p \<Rightarrow> int \<times> 'p"
  pr_uint32 :: "'p \<Rightarrow> u32 \<times> 'p"
  pr_uint64 :: "'p \<Rightarrow> u64 \<times> 'p"
  pr_bool :: "'p \<Rightarrow> bool \<times> 'p"
  pr_string :: "'p \<Rightarrow> string \<times> 'p"
  pr_string16 :: "'p \<Rightarrow> u16string \<times> 'p"
  pr_double :: "'p \<Rightarrow> double \<times> 'p"
  pr_object :: "'p \<Rightarrow> robj option \<times> 'p"
  pr_bytes :: "'p \<Rightarrow> 8 word list option \<times> 'p"
  pr_parcelable :: "'p \<Rightarrow> bool \<times> 'p"

definition WriteParcelable :: "'p parcel_ops \<Rightarrow> ('p \<Rightarrow> 'p option) \<Rightarrow> 'p \<Rightarrow> 'p option" where
  "WriteParcelable P mar p = pw P CParcelable p \<bind> mar"

definition ReadParcelable :: "'p parcel_ops \<Rightarrow> ('p \<Rightarrow> ('a \<times> 'p) option) \<Rightarrow> 'p \<Rightarrow> ('a \<times> 'p) option" where
  "ReadParcelable P un p = (let (b, p) = pr_parcelable P p in if b then un p else None)"

section \<open>Small structures\<close>

definition CursorInfo_Marshalling :: "'p parcel_ops \<Rightarrow> cursor_info \<Rightarrow> 'p \<Rightarrow> 'p option" where
  "CursorInfo_Marshalling P c p = do {
     p \<leftarrow> pw P (CDouble (cu_left c)) p;
     p \<leftarrow> pw P (CDouble (cu_top c)) p;
     p \<leftarrow> pw P (CDouble (cu_width c)) p;
     p \<leftarrow> pw P (CDouble (cu_height c)) p;
     pw P (CUint64 (cu_displayId c)) p }"

definition CursorInfo_ReadFromParcel :: "'p parcel_ops \<Rightarrow> 'p \<Rightarrow> (cursor_info \<times> 'p) option" where
  "CursorInfo_ReadFromParcel P p =
     (let (left, p) = pr_double P p; (top, p) = pr_double P p; (width, p) = pr_double P p;
          (height, p) = pr_double P p; (displayId, p) = pr_uint64 P p
      in Some (\<lparr>cu_left = left, cu_top = top, cu_width = width, cu_height = height, cu_displayId = displayId\<rparr>, p))"

definition TextSelection_Marshalling :: "'p parcel_ops \<Rightarrow> text_selection \<Rightarrow> 'p \<Rightarrow> 'p option" where
  "TextSelection_Marshalling P t p = do {
     p \<leftarrow> pw P (CInt32 (ts_oldBegin t)) p;
     p \<leftarrow> pw P (CInt32 (ts_oldEnd t)) p;
     p \<leftarrow> pw P (CInt32 (ts_newBegin t)) p;
     pw P (CInt32 (ts_newEnd t)) p }"

definition TextSelection_ReadFromParcel :: "'p parcel_ops \<Rightarrow> 'p \<Rightarrow> (text_selection \<times> 'p) option" where
  "TextSelection_ReadFromParcel P p =
     (let (a, p) = pr_int32 P p; (b, p) = pr_int32 P p; (c, p) = pr_int32 P p; (d, p) = pr_int32 P p
      in Some (\<lparr>ts_oldBegin = a, ts_oldEnd = b, ts_newBegin = c, ts_newEnd = d\<rparr>, p))"

record range =
  rg_start :: int
  rg_end :: int

definition default_range :: range where
  "default_range = \<lparr>rg_start = INVALID_VALUE, rg_end = INVALID_VALUE\<rparr>"

definition Range_Marshalling :: "'p parcel_ops \<Rightarrow> range \<Rightarrow> 'p \<Rightarrow> 'p option" where
  "Range_Marshalling P r p = do { p \<leftarrow> pw P (CInt32 (rg_start r)) p; pw P (CInt32 (rg_end r)) p }"

definition Range_ReadFromParcel :: "'p parcel_ops \<Rightarrow> 'p \<Rightarrow> (range \<times> 'p) option" where
  "Range_ReadFromParcel P p =
     (let (a, p) = pr_int32 P p; (b, p) = pr_int32 P p in Some (\<lparr>rg_start = a, rg_end = b\<rparr>, p))"

text \<open>Enumerations of \<open>panel_info.h\<close>, \<open>InputType\<close> and \<open>Trigger\<close>: a number received is stored as it is.\<close>

type_synonym panel_type = int
type_synonym panel_flag = int

abbreviation (input) SOFT_KEYBOARD :: panel_type where "SOFT_KEYBOARD \<equiv> 0"
abbreviation (input) STATUS_BAR :: panel_type where "STATUS_BAR \<equiv> 1"
abbreviation (input) FLG_FIXED :: panel_flag where "FLG_FIXED \<equiv> 0"
abbreviation (input) FLG_FLOATING :: panel_flag where "FLG_FLOATING \<equiv> 1"
abbreviation (input) FLG_CANDIDATE_COLUMN :: panel_flag where "FLG_CANDIDATE_COLUMN \<equiv> 2"

record panel_info =
  pi_panelType :: panel_type
  pi_panelFlag :: panel_flag

definition PanelInfo_Marshalling :: "'p parcel_ops \<Rightarrow> panel_info \<Rightarrow> 'p \<Rightarrow> 'p option" where
  "PanelInfo_Marshalling P x p = do { p \<leftarrow> pw P (CInt32 (pi_panelType x)) p; pw P (CInt32 (pi_panelFlag x)) p }"

definition PanelInfo_ReadFromParcel :: "'p parcel_ops \<Rightarrow> 'p \<Rightarrow> (panel_info \<times> 'p) option" where
  "PanelInfo_ReadFromParcel P p =
     (let (a, p) = pr_int32 P p; (b, p) = pr_int32 P p in Some (\<lparr>pi_panelType = a, pi_panelFlag = b\<rparr>, p))"

record panel_status_info =
  ps_panelInfo :: panel_info
  ps_inputType :: int
  ps_visible :: bool
  ps_trigger :: int
  ps_sessionId :: u32
  ps_clientSessionId :: int

definition PanelStatusInfo_Marshalling :: "'p parcel_ops \<Rightarrow> panel_status_info \<Rightarrow> 'p \<Rightarrow> 'p option" where
  "PanelStatusInfo_Marshalling P x p = do {
     p \<leftarrow> WriteParcelable P (PanelInfo_Marshalling P (ps_panelInfo x)) p;
     p \<leftarrow> pw P (CInt32 (ps_inputType x)) p;
     p \<leftarrow> pw P (CBool (ps_visible x)) p;
     p \<leftarrow> pw P (CInt32 (ps_trigger x)) p;
     p \<leftarrow> pw P (CUint32 (ps_sessionId x)) p;
     pw P (CInt32 (ps_clientSessionId x)) p }"

definition PanelStatusInfo_ReadFromParcel :: "'p parcel_ops \<Rightarrow> 'p \<Rightarrow> (panel_status_info \<times> 'p) option" where
  "PanelStatusInfo_ReadFromParcel P p = do {
     (info, p) \<leftarrow> ReadParcelable P (PanelInfo_ReadFromParcel P) p;
     let (inputType, p) = pr_int32 P p;
     if inputType < - 1 \<or> inputType \<ge> 6 then None
     else
       let (visible, p) = pr_bool P p; (trigger, p) = pr_int32 P p; (sessionId, p) = pr_uint32 P p;
           (clientSessionId, p) = pr_int32 P p
       in Some (\<lparr>ps_panelInfo = info, ps_inputType = inputType, ps_visible = visible, ps_trigger = trigger,
            ps_sessionId = sessionId, ps_clientSessionId = clientSessionId\<rparr>, p) }"

text \<open>The twins \<open>FocusedInfo\<close> reads and writes leave out \<open>uiExtensionHostPid\<close>.\<close>

definition FocusedInfo_Marshalling :: "'p parcel_ops \<Rightarrow> focused_info \<Rightarrow> 'p \<Rightarrow> 'p option" where
  "FocusedInfo_Marshalling P x p = do {
     p \<leftarrow> pw P (CUint32 (fi_windowId x)) p;
     p \<leftarrow> pw P (CUint64 (fi_displayId x)) p;
     p \<leftarrow> pw P (CUint64 (fi_displayGroupId x)) p;
     p \<leftarrow> pw P (CUint32 (fi_keyboardWindowId x)) p;
     p \<leftarrow> pw P (CUint64 (fi_keyboardDisplayId x)) p;
     pw P (CUint64 (fi_keyboardDisplayGroupId x)) p }"

definition FocusedInfo_ReadFromParcel :: "'p parcel_ops \<Rightarrow> 'p \<Rightarrow> (focused_info \<times> 'p) option" where
  "FocusedInfo_ReadFromParcel P p =
     (let (a, p) = pr_uint32 P p; (b, p) = pr_uint64 P p; (c, p) = pr_uint64 P p; (d, p) = pr_uint32 P p;
          (e, p) = pr_uint64 P p; (f, p) = pr_uint64 P p
      in Some (\<lparr>fi_windowId = a, fi_displayId = b, fi_displayGroupId = c, fi_keyboardWindowId = d,
           fi_keyboardDisplayId = e, fi_keyboardDisplayGroupId = f, fi_uiExtensionHostPid = INVALID_PID\<rparr>, p))"

record array_buffer =
  ab_jsArgc :: u64
  ab_msgId :: string
  ab_msgParam :: "8 word list"

definition ArrayBuffer_IsSizeValid :: "array_buffer \<Rightarrow> bool" where
  "ArrayBuffer_IsSizeValid b \<longleftrightarrow> \<not> length (ab_msgId b) > 256 \<and> \<not> length (ab_msgParam b) > 128 * 1024"

definition ArrayBuffer_Marshalling :: "'p parcel_ops \<Rightarrow> array_buffer \<Rightarrow> 'p \<Rightarrow> 'p option" where
  "ArrayBuffer_Marshalling P b p = do {
     p \<leftarrow> pw P (CUint64 (ab_jsArgc b)) p;
     p \<leftarrow> pw P (CString (ab_msgId b)) p;
     pw P (CBytes (ab_msgParam b)) p }"

definition ArrayBuffer_ReadFromParcel :: "'p parcel_ops \<Rightarrow> 'p \<Rightarrow> (array_buffer \<times> 'p) option" where
  "ArrayBuffer_ReadFromParcel P p =
     (let (a, p) = pr_uint64 P p; (i, p) = pr_string P p; (bs, p) = pr_bytes P p
      in map_option (\<lambda>bs. (\<lparr>ab_jsArgc = a, ab_msgId = i, ab_msgParam = bs\<rparr>, p)) bs)"

text \<open>\<open>ResponseData\<close>: the alternatives of the variant in order.\<close>

datatype response_data = RSP_none | RSP_string string | RSP_int int

definition ResponseData_Marshalling :: "'p parcel_ops \<Rightarrow> response_data \<Rightarrow> 'p \<Rightarrow> 'p option" where
  "ResponseData_Marshalling P x p = (case x of
     RSP_none \<Rightarrow> pw P (CUint64 0) p
   | RSP_string s \<Rightarrow> do { p \<leftarrow> pw P (CUint64 1) p; pw P (CString s) p }
   | RSP_int i \<Rightarrow> do { p \<leftarrow> pw P (CUint64 2) p; pw P (CInt32 i) p })"

definition ResponseData_ReadFromParcel :: "'p parcel_ops \<Rightarrow> 'p \<Rightarrow> (response_data \<times> 'p) option" where
  "ResponseData_ReadFromParcel P p =
     (let (index, p) = pr_uint64 P p in
      if index = 0 then Some (RSP_none, p)
      else if index = 1 then (let (s, p) = pr_string P p in Some (RSP_string s, p))
      else if index = 2 then (let (i, p) = pr_int32 P p in Some (RSP_int i, p))
      else None)"

section \<open>Properties of input methods\<close>

record property_rec =
  pp_name :: string
  pp_id :: string
  pp_label :: string
  pp_labelId :: u32
  pp_icon :: string
  pp_iconId :: u32
  pp_status :: int

definition Property_Marshalling :: "'p parcel_ops \<Rightarrow> property_rec \<Rightarrow> 'p \<Rightarrow> 'p option" where
  "Property_Marshalling P x p = do {
     p \<leftarrow> pw P (CString (pp_name x)) p;
     p \<leftarrow> pw P (CString (pp_id x)) p;
     p \<leftarrow> pw P (CString (pp_label x)) p;
     p \<leftarrow> pw P (CUint32 (pp_labelId x)) p;
     p \<leftarrow> pw P (CString (pp_icon x)) p;
     p \<leftarrow> pw P (CUint32 (pp_iconId x)) p;
     pw P (CInt32 (pp_status x)) p }"

definition Property_ReadFromParcel :: "'p parcel_ops \<Rightarrow> 'p \<Rightarrow> (property_rec \<times> 'p) option" where
  "Property_ReadFromParcel P p =
     (let (a, p) = pr_string P p; (b, p) = pr_string P p; (c, p) = pr_string P p; (d, p) = pr_uint32 P p;
          (e, p) = pr_string P p; (f, p) = pr_uint32 P p; (g, p) = pr_int32 P p
      in Some (\<lparr>pp_name = a, pp_id = b, pp_label = c, pp_labelId = d, pp_icon = e, pp_iconId = f, pp_status = g\<rparr>, p))"

record sub_property_rec =
  sp_label :: string
  sp_labelId :: u32
  sp_name :: string
  sp_id :: string
  sp_mode :: string
  sp_locale :: string
  sp_language :: string
  sp_icon :: string
  sp_iconId :: u32

definition SubProperty_Marshalling :: "'p parcel_ops \<Rightarrow> sub_property_rec \<Rightarrow> 'p \<Rightarrow> 'p option" where
  "SubProperty_Marshalling P x p = do {
     p \<leftarrow> pw P (CString (sp_label x)) p;
     p \<leftarrow> pw P (CUint32 (sp_labelId x)) p;
     p \<leftarrow> pw P (CString (sp_name x)) p;
     p \<leftarrow> pw P (CString (sp_id x)) p;
     p \<leftarrow> pw P (CString (sp_mode x)) p;
     p \<leftarrow> pw P (CString (sp_locale x)) p;
     p \<leftarrow> pw P (CString (sp_language x)) p;
     p \<leftarrow> pw P (CString (sp_icon x)) p;
     pw P (CUint32 (sp_iconId x)) p }"

definition SubProperty_ReadFromParcel :: "'p parcel_ops \<Rightarrow> 'p \<Rightarrow> (sub_property_rec \<times> 'p) option" where
  "SubProperty_ReadFromParcel P p =
     (let (a, p) = pr_string P p; (b, p) = pr_uint32 P p; (c, p) = pr_string P p; (d, p) = pr_string P p;
          (e, p) = pr_string P p; (f, p) = pr_string P p; (g, p) = pr_string P p; (h, p) = pr_string P p;
          (i, p) = pr_uint32 P p
      in Some (\<lparr>sp_label = a, sp_labelId = b, sp_name = c, sp_id = d, sp_mode = e, sp_locale = f, sp_language = g,
           sp_icon = h, sp_iconId = i\<rparr>, p))"

section \<open>Maps of variants\<close>

text \<open>
  An \<open>unordered_map\<close> is the association list of its entries in the order in which the loops meet
  them; \<open>insert\<close> keeps an entry that is already there.
\<close>

definition umap_insert :: "'k \<Rightarrow> 'v \<Rightarrow> ('k \<times> 'v) list \<Rightarrow> ('k \<times> 'v) list" where
  "umap_insert k v m = (if k \<in> fst ` set m then m else m @ [(k, v)])"

fun Value_write_entries :: "'p parcel_ops \<Rightarrow> private_command \<Rightarrow> 'p \<Rightarrow> 'p option" where
  "Value_write_entries P [] p = Some p"
| "Value_write_entries P ((k, v) # m) p = do {
     p \<leftarrow> pw P (CString k) p;
     p \<leftarrow> (case v of
         PV_string s \<Rightarrow> do { p \<leftarrow> pw P (CInt32 0) p; pw P (CString s) p }
       | PV_bool b \<Rightarrow> do { p \<leftarrow> pw P (CInt32 1) p; pw P (CBool b) p }
       | PV_int i \<Rightarrow> do { p \<leftarrow> pw P (CInt32 2) p; pw P (CInt32 i) p });
     Value_write_entries P m p }"

definition Value_Marshalling :: "'p parcel_ops \<Rightarrow> private_command \<Rightarrow> 'p \<Rightarrow> 'p option" where
  "Value_Marshalling P m p = do { p \<leftarrow> pw P (CUint32 (of_nat (length m))) p; Value_write_entries P m p }"

fun Value_read_entries :: "'p parcel_ops \<Rightarrow> nat \<Rightarrow> private_command \<Rightarrow> 'p \<Rightarrow> private_command \<times> 'p" where
  "Value_read_entries P 0 m p = (m, p)"
| "Value_read_entries P (Suc n) m p =
     (let (k, p) = pr_string P p; (t, p) = pr_int32 P p in
      if t = 0 then (let (s, p) = pr_string P p in Value_read_entries P n (umap_insert k (PV_string s) m) p)
      else if t = 1 then (let (b, p) = pr_bool P p in Value_read_entries P n (umap_insert k (PV_bool b) m) p)
      else if t = 2 then (let (i, p) = pr_int32 P p in Value_read_entries P n (umap_insert k (PV_int i) m) p)
      else Value_read_entries P n m p)"

abbreviation MAX_VALUE_MAP_COUNT :: u32 where "MAX_VALUE_MAP_COUNT \<equiv> 256"

definition Value_ReadFromParcel :: "'p parcel_ops \<Rightarrow> 'p \<Rightarrow> (private_command \<times> 'p) option" where
  "Value_ReadFromParcel P p =
     (let (size, p) = pr_uint32 P p in
      if size = 0 then Some ([], p)
      else if size > MAX_VALUE_MAP_COUNT then None
      else Some (Value_read_entries P (unat size) [] p))"

fun ExtraConfig_write_entries :: "'p parcel_ops \<Rightarrow> custom_settings \<Rightarrow> 'p \<Rightarrow> 'p option" where
  "ExtraConfig_write_entries P [] p = Some p"
| "ExtraConfig_write_entries P ((k, v) # m) p = do {
     p \<leftarrow> pw P (CString k) p;
     p \<leftarrow> (case v of
         CV_string s \<Rightarrow> do { p \<leftarrow> pw P (CInt32 0) p; pw P (CString s) p }
       | CV_int i \<Rightarrow> do { p \<leftarrow> pw P (CInt32 1) p; pw P (CInt32 i) p }
       | CV_bool b \<Rightarrow> do { p \<leftarrow> pw P (CInt32 2) p; pw P (CBool b) p });
     ExtraConfig_write_entries P m p }"

definition ExtraConfig_Marshalling :: "'p parcel_ops \<Rightarrow> custom_settings \<Rightarrow> 'p \<Rightarrow> 'p option" where
  "ExtraConfig_Marshalling P m p = do { p \<leftarrow> pw P (CUint32 (of_nat (length m))) p; ExtraConfig_write_entries P m p }"

fun ExtraConfig_read_entries :: "'p parcel_ops \<Rightarrow> nat \<Rightarrow> custom_settings \<Rightarrow> 'p \<Rightarrow> custom_settings \<times> 'p" where
  "ExtraConfig_read_entries P 0 m p = (m, p)"
| "ExtraConfig_read_entries P (Suc n) m p =
     (let (k, p) = pr_string P p; (t, p) = pr_int32 P p in
      if t = 0 then (let (s, p) = pr_string P p in ExtraConfig_read_entries P n (umap_insert k (CV_string s) m) p)
      else if t = 2 then (let (b, p) = pr_bool P p in ExtraConfig_read_entries P n (umap_insert k (CV_bool b) m) p)
      else if t = 1 then (let (i, p) = pr_int32 P p in ExtraConfig_read_entries P n (umap_insert k (CV_int i) m) p)
      else ExtraConfig_read_entries P n m p)"

abbreviation MAX_EXTRA_ARRAY_SIZE :: u32 where "MAX_EXTRA_ARRAY_SIZE \<equiv> 1024 * 1024"

definition ExtraConfig_ReadFromParcel :: "'p parcel_ops \<Rightarrow> 'p \<Rightarrow> (custom_settings \<times> 'p) option" where
  "ExtraConfig_ReadFromParcel P p =
     (let (size, p) = pr_uint32 P p in
      if size = 0 then Some ([], p)
      else if size > MAX_EXTRA_ARRAY_SIZE then None
      else Some (ExtraConfig_read_entries P (unat size) [] p))"

section \<open>Editor attributes\<close>

text \<open>\<open>InputAttributeInner\<close> has the fields of \<open>InputAttribute\<close> but \<open>callingScreenId\<close>.\<close>

record input_attribute_inner =
  ii_inputPattern :: int
  ii_enterKeyType :: int
  ii_inputOption :: int
  ii_isTextPreviewSupported :: bool
  ii_bundleName :: string
  ii_immersiveMode :: int
  ii_gradientMode :: int
  ii_fluidLightMode :: int
  ii_editorWindowId :: u32
  ii_editorDisplayId :: u64
  ii_windowId :: u32
  ii_callingDisplayId :: u64
  ii_displayGroupId :: u64
  ii_placeholder :: u16string
  ii_abilityName :: u16string
  ii_capitalizeMode :: capitalize_mode
  ii_needAutoInputNumkey :: bool
  ii_extraConfig :: custom_settings
  ii_consumeKeyEvents :: bool

fun capitalize_value :: "capitalize_mode \<Rightarrow> int" where
  "capitalize_value CAP_NONE = 0"
| "capitalize_value CAP_SENTENCES = 1"
| "capitalize_value CAP_WORDS = 2"
| "capitalize_value CAP_CHARACTERS = 3"

definition capitalize_of :: "int \<Rightarrow> capitalize_mode" where
  "capitalize_of i = (let i = (if i < 0 \<or> i > 3 then 0 else i) in
     if i = 1 then CAP_SENTENCES else if i = 2 then CAP_WORDS else if i = 3 then CAP_CHARACTERS else CAP_NONE)"

definition AttributeToInner :: "input_attribute \<Rightarrow> input_attribute_inner" where
  "AttributeToInner a = \<lparr>ii_inputPattern = ia_inputPattern a, ii_enterKeyType = ia_enterKeyType a,
     ii_inputOption = ia_inputOption a, ii_isTextPreviewSupported = ia_isTextPreviewSupported a,
     ii_bundleName = ia_bundleName a, ii_immersiveMode = ia_immersiveMode a, ii_gradientMode = ia_gradientMode a,
     ii_fluidLightMode = ia_fluidLightMode a, ii_editorWindowId = ia_editorWindowId a,
     ii_editorDisplayId = ia_editorDisplayId a, ii_windowId = ia_windowId a,
     ii_callingDisplayId = ia_callingDisplayId a, ii_displayGroupId = ia_displayGroupId a,
     ii_placeholder = ia_placeholder a, ii_abilityName = ia_abilityName a, ii_capitalizeMode = ia_capitalizeMode a,
     ii_needAutoInputNumkey = ia_needAutoInputNumkey a, ii_extraConfig = ia_extraConfig a,
     ii_consumeKeyEvents = ia_consumeKeyEvents a\<rparr>"

definition InnerToAttribute :: "input_attribute_inner \<Rightarrow> input_attribute" where
  "InnerToAttribute i = default_input_attribute\<lparr>ia_inputPattern := ii_inputPattern i,
     ia_enterKeyType := ii_enterKeyType i, ia_inputOption := ii_inputOption i,
     ia_isTextPreviewSupported := ii_isTextPreviewSupported i, ia_bundleName := ii_bundleName i,
     ia_immersiveMode := ii_immersiveMode i, ia_gradientMode := ii_gradientMode i,
     ia_fluidLightMode := ii_fluidLightMode i, ia_editorWindowId := ii_editorWindowId i,
     ia_editorDisplayId := ii_editorDisplayId i, ia_windowId := ii_windowId i,
     ia_callingDisplayId := ii_callingDisplayId i, ia_displayGroupId := ii_displayGroupId i,
     ia_placeholder := ii_placeholder i, ia_abilityName := ii_abilityName i,
     ia_capitalizeMode := ii_capitalizeMode i, ia_needAutoInputNumkey := ii_needAutoInputNumkey i,
     ia_extraConfig := ii_extraConfig i, ia_consumeKeyEvents := ii_consumeKeyEvents i\<rparr>"

definition InputAttribute_Marshalling :: "'p parcel_ops \<Rightarrow> input_attribute_inner \<Rightarrow> 'p \<Rightarrow> 'p option" where
  "InputAttribute_Marshalling P a p = do {
     p \<leftarrow> pw P (CInt32 (ii_inputPattern a)) p;
     p \<leftarrow> pw P (CInt32 (ii_enterKeyType a)) p;
     p \<leftarrow> pw P (CInt32 (ii_inputOption a)) p;
     p \<leftarrow> pw P (CBool (ii_isTextPreviewSupported a)) p;
     p \<leftarrow> pw P (CString (ii_bundleName a)) p;
     p \<leftarrow> pw P (CInt32 (ii_immersiveMode a)) p;
     p \<leftarrow> pw P (CUint32 (ii_editorWindowId a)) p;
     p \<leftarrow> pw P (CUint64 (ii_editorDisplayId a)) p;
     p \<leftarrow> pw P (CUint32 (ii_windowId a)) p;
     p \<leftarrow> pw P (CUint64 (ii_callingDisplayId a)) p;
     p \<leftarrow> pw P (CUint64 (ii_displayGroupId a)) p;
     p \<leftarrow> pw P (CString16 (ii_placeholder a)) p;
     p \<leftarrow> pw P (CString16 (ii_abilityName a)) p;
     p \<leftarrow> pw P (CInt32 (capitalize_value (ii_capitalizeMode a))) p;
     p \<leftarrow> pw P (CBool (ii_needAutoInputNumkey a)) p;
     p \<leftarrow> pw P (CInt32 (ii_gradientMode a)) p;
     p \<leftarrow> pw P (CInt32 (ii_fluidLightMode a)) p;
     p \<leftarrow> WriteParcelable P (ExtraConfig_Marshalling P (ii_extraConfig a)) p;
     pw P (CBool (ii_consumeKeyEvents a)) p }"

definition InputAttribute_ReadFromParcel :: "'p parcel_ops \<Rightarrow> 'p \<Rightarrow> (input_attribute_inner \<times> 'p) option" where
  "InputAttribute_ReadFromParcel P p =
     (let (pattern, p) = pr_int32 P p; (enterKey, p) = pr_int32 P p; (opt, p) = pr_int32 P p;
          (preview, p) = pr_bool P p; (bundleName, p) = pr_string P p; (immersive, p) = pr_int32 P p;
          (editorWindow, p) = pr_uint32 P p; (editorDisplay, p) = pr_uint64 P p; (window, p) = pr_uint32 P p;
          (callingDisplay, p) = pr_uint64 P p; (displayGroup, p) = pr_uint64 P p; (placeholder, p) = pr_string16 P p;
          (abilityName, p) = pr_string16 P p; (capitalize, p) = pr_int32 P p; (numkey, p) = pr_bool P p;
          (gradient, p) = pr_int32 P p; (fluid, p) = pr_int32 P p
      in do {
        (extra, p) \<leftarrow> ReadParcelable P (ExtraConfig_ReadFromParcel P) p;
        let (consume, p) = pr_bool P p;
        Some (\<lparr>ii_inputPattern = pattern, ii_enterKeyType = enterKey, ii_inputOption = opt,
          ii_isTextPreviewSupported = preview, ii_bundleName = bundleName, ii_immersiveMode = immersive,
          ii_gradientMode = gradient, ii_fluidLightMode = fluid, ii_editorWindowId = editorWindow,
          ii_editorDisplayId = editorDisplay, ii_windowId = window, ii_callingDisplayId = callingDisplay,
          ii_displayGroupId = displayGroup, ii_placeholder = placeholder, ii_abilityName = abilityName,
          ii_capitalizeMode = capitalize_of capitalize, ii_needAutoInputNumkey = numkey, ii_extraConfig = extra,
          ii_consumeKeyEvents = consume\<rparr>, p) })"

section \<open>Text configuration and client\<close>

text \<open>The members of \<open>TextTotalConfigInner\<close> other than the attribute are those of \<open>TextTotalConfig\<close>.\<close>

record text_total_config_inner =
  ti_inputAttribute :: input_attribute_inner
  ti_cursorInfo :: cursor_info
  ti_textSelection :: text_selection
  ti_windowId :: u32
  ti_positionY :: double
  ti_height :: double
  ti_commandValue :: private_command
  ti_requestKeyboardReason :: request_keyboard_reason
  ti_isSimpleKeyboardEnabled :: bool
  ti_abilityToken :: "robj option"

fun reason_value :: "request_keyboard_reason \<Rightarrow> int" where
  "reason_value REASON_NONE = 0"
| "reason_value REASON_MOUSE = 1"
| "reason_value REASON_TOUCH = 2"
| "reason_value REASON_OTHER = 20"
| "reason_value (REASON_VALUE i) = i"

definition reason_of :: "int \<Rightarrow> request_keyboard_reason" where
  "reason_of i = (if i = 0 then REASON_NONE else if i = 1 then REASON_MOUSE else if i = 2 then REASON_TOUCH
     else if i = 20 then REASON_OTHER else REASON_VALUE i)"

fun state_value :: "client_state \<Rightarrow> u32" where
  "state_value INACTIVE = 0"
| "state_value ACTIVE = 1"
| "state_value (STATE_VALUE n) = n"

definition state_of :: "u32 \<Rightarrow> client_state" where
  "state_of n = (if n = 0 then INACTIVE else if n = 1 then ACTIVE else STATE_VALUE n)"

fun type_value :: "client_type \<Rightarrow> u32" where
  "type_value CAPI = 0"
| "type_value JS = 1"
| "type_value CJ = 2"
| "type_value INNER_KIT = 3"
| "type_value INNER_KIT_ARKUI = 4"
| "type_value CLIENT_TYPE_END = 5"
| "type_value (TYPE_VALUE n) = n"

definition type_of :: "u32 \<Rightarrow> client_type" where
  "type_of n = (if n = 0 then CAPI else if n = 1 then JS else if n = 2 then CJ else if n = 3 then INNER_KIT
     else if n = 4 then INNER_KIT_ARKUI else if n = 5 then CLIENT_TYPE_END else TYPE_VALUE n)"

definition CursorInfoToInner :: "cursor_info \<Rightarrow> cursor_info" where
  "CursorInfoToInner c = \<lparr>cu_left = cu_left c, cu_top = cu_top c, cu_width = cu_width c, cu_height = cu_height c,
     cu_displayId = cu_displayId c\<rparr>"

definition InnerToCursorInfo :: "cursor_info \<Rightarrow> cursor_info" where
  "InnerToCursorInfo c = \<lparr>cu_left = cu_left c, cu_top = cu_top c, cu_width = cu_width c, cu_height = cu_height c,
     cu_displayId = cu_displayId c\<rparr>"

definition TextSelectionToInner :: "text_selection \<Rightarrow> text_selection" where
  "TextSelectionToInner t = \<lparr>ts_oldBegin = ts_oldBegin t, ts_oldEnd = ts_oldEnd t, ts_newBegin = ts_newBegin t,
     ts_newEnd = ts_newEnd t\<rparr>"

definition InnerToSelection :: "text_selection \<Rightarrow> text_selection" where
  "InnerToSelection t = \<lparr>ts_oldBegin = ts_oldBegin t, ts_oldEnd = ts_oldEnd t, ts_newBegin = ts_newBegin t,
     ts_newEnd = ts_newEnd t\<rparr>"

definition TextTotalConfigToInner :: "text_total_config \<Rightarrow> text_total_config_inner" where
  "TextTotalConfigToInner t = \<lparr>ti_inputAttribute = AttributeToInner (tc_inputAttribute t),
     ti_cursorInfo = CursorInfoToInner (tc_cursorInfo t), ti_textSelection = TextSelectionToInner (tc_textSelection t),
     ti_windowId = tc_windowId t, ti_positionY = tc_positionY t, ti_height = tc_height t,
     ti_commandValue = tc_privateCommand t, ti_requestKeyboardReason = tc_requestKeyboardReason t,
     ti_isSimpleKeyboardEnabled = tc_isSimpleKeyboardEnabled t, ti_abilityToken = tc_abilityToken t\<rparr>"

definition InnerToTextTotalConfig :: "text_total_config_inner \<Rightarrow> text_total_config" where
  "InnerToTextTotalConfig i = \<lparr>tc_inputAttribute = InnerToAttribute (ti_inputAttribute i),
     tc_cursorInfo = InnerToCursorInfo (ti_cursorInfo i), tc_textSelection = InnerToSelection (ti_textSelection i),
     tc_windowId = ti_windowId i, tc_positionY = ti_positionY i, tc_height = ti_height i,
     tc_privateCommand = ti_commandValue i, tc_requestKeyboardReason = ti_requestKeyboardReason i,
     tc_abilityToken = ti_abilityToken i, tc_isSimpleKeyboardEnabled = ti_isSimpleKeyboardEnabled i\<rparr>"

text \<open>The ability token is written only when there is one; it is always read.\<close>

definition TextTotalConfig_Marshalling :: "'p parcel_ops \<Rightarrow> text_total_config_inner \<Rightarrow> 'p \<Rightarrow> 'p option" where
  "TextTotalConfig_Marshalling P t p = do {
     p \<leftarrow> WriteParcelable P (InputAttribute_Marshalling P (ti_inputAttribute t)) p;
     p \<leftarrow> WriteParcelable P (CursorInfo_Marshalling P (ti_cursorInfo t)) p;
     p \<leftarrow> WriteParcelable P (TextSelection_Marshalling P (ti_textSelection t)) p;
     p \<leftarrow> pw P (CUint32 (ti_windowId t)) p;
     p \<leftarrow> pw P (CDouble (ti_positionY t)) p;
     p \<leftarrow> pw P (CDouble (ti_height t)) p;
     p \<leftarrow> WriteParcelable P (Value_Marshalling P (ti_commandValue t)) p;
     p \<leftarrow> pw P (CInt32 (reason_value (ti_requestKeyboardReason t))) p;
     p \<leftarrow> (case ti_abilityToken t of None \<Rightarrow> Some p | Some k \<Rightarrow> pw P (CObject k) p);
     pw P (CBool (ti_isSimpleKeyboardEnabled t)) p }"

definition TextTotalConfig_ReadFromParcel :: "'p parcel_ops \<Rightarrow> 'p \<Rightarrow> (text_total_config_inner \<times> 'p) option" where
  "TextTotalConfig_ReadFromParcel P p = do {
     (attr, p) \<leftarrow> ReadParcelable P (InputAttribute_ReadFromParcel P) p;
     (cursor, p) \<leftarrow> ReadParcelable P (CursorInfo_ReadFromParcel P) p;
     (selection, p) \<leftarrow> ReadParcelable P (TextSelection_ReadFromParcel P) p;
     let (windowId, p) = pr_uint32 P p; let (positionY, p) = pr_double P p; let (height, p) = pr_double P p;
     (commandValue, p) \<leftarrow> ReadParcelable P (Value_ReadFromParcel P) p;
     let (reason, p) = pr_int32 P p; let (token, p) = pr_object P p; let (simple, p) = pr_bool P p;
     Some (\<lparr>ti_inputAttribute = attr, ti_cursorInfo = cursor, ti_textSelection = selection, ti_windowId = windowId,
       ti_positionY = positionY, ti_height = height, ti_commandValue = commandValue,
       ti_requestKeyboardReason = reason_of reason, ti_isSimpleKeyboardEnabled = simple, ti_abilityToken = token\<rparr>, p) }"

record input_client_info_inner =
  cn_pid :: pid_t
  cn_uid :: pid_t
  cn_userID :: int
  cn_isShowKeyboard :: bool
  cn_config :: text_total_config_inner
  cn_eventFlag :: u32
  cn_attribute :: input_attribute_inner
  cn_client :: "robj option"
  cn_channel :: "robj option"
  cn_deathRecipient :: "nat option"
  cn_state :: client_state
  cn_isNotifyInputStart :: bool
  cn_isStylusActivation :: bool
  cn_needHide :: bool
  cn_uiExtensionTokenId :: u32
  cn_type :: client_type
  cn_name :: string

definition InputClientInfoToInner :: "input_client_info \<Rightarrow> input_client_info_inner" where
  "InputClientInfoToInner c = \<lparr>cn_pid = ci_pid c, cn_uid = ci_uid c, cn_userID = ci_userID c,
     cn_isShowKeyboard = ci_isShowKeyboard c, cn_config = TextTotalConfigToInner (ci_config c),
     cn_eventFlag = ci_eventFlag c, cn_attribute = AttributeToInner (ci_ownAttribute c), cn_client = ci_client c,
     cn_channel = ci_channel c, cn_deathRecipient = ci_deathRecipient c, cn_state = ci_state c,
     cn_isNotifyInputStart = ci_isNotifyInputStart c, cn_isStylusActivation = ci_isStylusActivation c,
     cn_needHide = ci_needHide c, cn_uiExtensionTokenId = ci_uiExtensionTokenId c, cn_type = ci_type c,
     cn_name = ci_name c\<rparr>"

definition InnerToInputClientInfo :: "input_client_info_inner \<Rightarrow> input_client_info" where
  "InnerToInputClientInfo i = default_input_client_info\<lparr>ci_pid := cn_pid i, ci_uid := cn_uid i, ci_userID := cn_userID i,
     ci_isShowKeyboard := cn_isShowKeyboard i, ci_config := InnerToTextTotalConfig (cn_config i),
     ci_eventFlag := cn_eventFlag i, ci_ownAttribute := InnerToAttribute (cn_attribute i), ci_client := cn_client i,
     ci_channel := cn_channel i, ci_deathRecipient := cn_deathRecipient i, ci_state := cn_state i,
     ci_isNotifyInputStart := cn_isNotifyInputStart i, ci_isStylusActivation := cn_isStylusActivation i,
     ci_needHide := cn_needHide i, ci_uiExtensionTokenId := cn_uiExtensionTokenId i, ci_type := cn_type i,
     ci_name := cn_name i\<rparr>"

definition ClientInfo_MarshallingTwo :: "'p parcel_ops \<Rightarrow> input_client_info_inner \<Rightarrow> 'p \<Rightarrow> 'p option" where
  "ClientInfo_MarshallingTwo P c p = do {
     p \<leftarrow> (case cn_client c of None \<Rightarrow> pw P (CBool False) p
        | Some k \<Rightarrow> do { p \<leftarrow> pw P (CBool True) p; pw P (CObject k) p });
     (case cn_channel c of None \<Rightarrow> pw P (CBool False) p
        | Some k \<Rightarrow> do { p \<leftarrow> pw P (CBool True) p; pw P (CObject k) p }) }"

definition ClientInfo_MarshallingOne :: "'p parcel_ops \<Rightarrow> input_client_info_inner \<Rightarrow> 'p \<Rightarrow> 'p option" where
  "ClientInfo_MarshallingOne P c p = do {
     p \<leftarrow> pw P (CUint32 (state_value (cn_state c))) p;
     p \<leftarrow> pw P (CBool (cn_isNotifyInputStart c)) p;
     p \<leftarrow> pw P (CBool (cn_isStylusActivation c)) p;
     p \<leftarrow> pw P (CBool (cn_needHide c)) p;
     p \<leftarrow> pw P (CUint32 (cn_uiExtensionTokenId c)) p;
     p \<leftarrow> pw P (CUint32 (type_value (cn_type c))) p;
     pw P (CString (cn_name c)) p }"

definition ClientInfo_Marshalling :: "'p parcel_ops \<Rightarrow> input_client_info_inner \<Rightarrow> 'p \<Rightarrow> 'p option" where
  "ClientInfo_Marshalling P c p = do {
     p \<leftarrow> pw P (CInt32 (cn_pid c)) p;
     p \<leftarrow> pw P (CInt32 (cn_uid c)) p;
     p \<leftarrow> pw P (CInt32 (cn_userID c)) p;
     p \<leftarrow> pw P (CBool (cn_isShowKeyboard c)) p;
     p \<leftarrow> WriteParcelable P (TextTotalConfig_Marshalling P (cn_config c)) p;
     p \<leftarrow> pw P (CUint32 (cn_eventFlag c)) p;
     p \<leftarrow> WriteParcelable P (InputAttribute_Marshalling P (cn_attribute c)) p;
     p \<leftarrow> ClientInfo_MarshallingTwo P c p;
     ClientInfo_MarshallingOne P c p }"

definition ClientInfo_ReadFromParcel :: "'p parcel_ops \<Rightarrow> 'p \<Rightarrow> (input_client_info_inner \<times> 'p) option" where
  "ClientInfo_ReadFromParcel P p =
     (let (pid, p) = pr_int32 P p; (uid, p) = pr_int32 P p; (userID, p) = pr_int32 P p; (show, p) = pr_bool P p
      in do {
        (config, p) \<leftarrow> ReadParcelable P (TextTotalConfig_ReadFromParcel P) p;
        let (eventFlag, p) = pr_uint32 P p;
        (attr, p) \<leftarrow> ReadParcelable P (InputAttribute_ReadFromParcel P) p;
        let (hasClient, p) = pr_bool P p; let (client, p) = (if hasClient then pr_object P p else (None, p));
        let (hasChannel, p) = pr_bool P p; let (channel, p) = (if hasChannel then pr_object P p else (None, p));
        let (state, p) = pr_uint32 P p; let (notify, p) = pr_bool P p; let (stylus, p) = pr_bool P p; let (hide, p) = pr_bool P p;
        let (token, p) = pr_uint32 P p; let (typ, p) = pr_uint32 P p; let (name, p) = pr_string P p;
        Some (\<lparr>cn_pid = pid, cn_uid = uid, cn_userID = userID, cn_isShowKeyboard = show, cn_config = config,
          cn_eventFlag = eventFlag, cn_attribute = attr, cn_client = client, cn_channel = channel,
          cn_deathRecipient = None, cn_state = state_of state, cn_isNotifyInputStart = notify,
          cn_isStylusActivation = stylus, cn_needHide = hide, cn_uiExtensionTokenId = token, cn_type = type_of typ,
          cn_name = name\<rparr>, p) })"

end
