(* ===== verification/Parcel_Correct.thy ===== *)
theory Parcel_Correct
  imports Imf_Parcel
begin

text \<open>
  What the IPC library promises (locale \<^emph>\<open>parcel_queue\<close>), what a parcelable structure provides
  (locale \<^emph>\<open>parcelable\<close>: writing appends the structure's cells, reading takes exactly them and gives the
  structure back), its interpretation for every structure, and the way of an \<open>InputClientInfo\<close> from the
  client process to the service.
\<close>

section \<open>Interfaces\<close>

locale parcel_queue =
  fixes P :: "'p parcel_ops"
    and content :: "'p \<Rightarrow> cell list"
  assumes writes: "pw P c p = Some q \<Longrightarrow> content q = content p @ [c]"
    and int32_law: "content p = CInt32 i # cs \<Longrightarrow> fst (pr_int32 P p) = i \<and> content (snd (pr_int32 P p)) = cs"
    and uint32_law: "content p = CUint32 w # cs \<Longrightarrow> fst (pr_uint32 P p) = w \<and> content (snd (pr_uint32 P p)) = cs"
    and uint64_law: "content p = CUint64 v # cs \<Longrightarrow> fst (pr_uint64 P p) = v \<and> content (snd (pr_uint64 P p)) = cs"
    and bool_law: "content p = CBool b # cs \<Longrightarrow> fst (pr_bool P p) = b \<and> content (snd (pr_bool P p)) = cs"
    and string_law: "content p = CString s # cs \<Longrightarrow> fst (pr_string P p) = s \<and> content (snd (pr_string P p)) = cs"
    and string16_law: "content p = CString16 u # cs \<Longrightarrow> fst (pr_string16 P p) = u \<and> content (snd (pr_string16 P p)) = cs"
    and double_law: "content p = CDouble d # cs \<Longrightarrow> fst (pr_double P p) = d \<and> content (snd (pr_double P p)) = cs"
    and object_law: "content p = CObject k # cs \<Longrightarrow> fst (pr_object P p) = Some k \<and> content (snd (pr_object P p)) = cs"
    and bytes_law: "content p = CBytes bs # cs \<Longrightarrow> fst (pr_bytes P p) = Some bs \<and> content (snd (pr_bytes P p)) = cs"
    and parcelable_law: "content p = CParcelable # cs \<Longrightarrow> fst (pr_parcelable P p) \<and> content (snd (pr_parcelable P p)) = cs"
    and no_object_law: "content p = CBool b # cs \<Longrightarrow> fst (pr_object P p) = None \<and> content (snd (pr_object P p)) = CBool b # cs"

definition reads_back :: "('p \<Rightarrow> cell list) \<Rightarrow> ('p \<Rightarrow> ('a \<times> 'p) option) \<Rightarrow> cell list \<Rightarrow> 'a \<Rightarrow> bool" where
  "reads_back content rd cs x \<longleftrightarrow>
     (\<forall>p rest. content p = cs @ rest \<longrightarrow> (\<exists>q. rd p = Some (x, q) \<and> content q = rest))"

text \<open>
  A structure: \<open>mar\<close> and \<open>rd\<close> are its \<open>Marshalling\<close> and \<open>ReadFromParcel\<close>, \<open>cells\<close> what it puts into the
  parcel, \<open>norm\<close> what the reader sees of it (fields that are not sent have their initial values), and
  \<open>ok\<close> the values that can be read back.
\<close>

locale parcelable =
  fixes P :: "'p parcel_ops"
    and content :: "'p \<Rightarrow> cell list"
    and mar :: "'a \<Rightarrow> 'p \<Rightarrow> 'p option"
    and rd :: "'p \<Rightarrow> ('a \<times> 'p) option"
    and cells :: "'a \<Rightarrow> cell list"
    and ok :: "'a \<Rightarrow> bool"
    and norm :: "'a \<Rightarrow> 'a"
  assumes mar_cells: "parcel_queue P content \<Longrightarrow> mar x p = Some q \<Longrightarrow> content q = content p @ cells x"
    and rd_cells: "parcel_queue P content \<Longrightarrow> ok x \<Longrightarrow> reads_back content rd (cells x) (norm x)"
begin

lemma roundtrip:
  assumes "parcel_queue P content" "mar x p = Some q" "content p = []" "ok x"
  shows "\<exists>r. rd q = Some (norm x, r) \<and> content r = []"
proof -
  from assms have "content q = cells x @ []" using mar_cells by simp
  with rd_cells [OF assms(1,4)] show ?thesis unfolding reads_back_def by blast
qed

lemma write_nested:
  assumes "parcel_queue P content" "WriteParcelable P (mar x) p = Some q"
  shows "content q = content p @ CParcelable # cells x"
proof -
  from assms(2) obtain p' where "pw P CParcelable p = Some p'" "mar x p' = Some q"
    by (auto simp: WriteParcelable_def bind_eq_Some_conv)
  with assms(1) show ?thesis using parcel_queue.writes mar_cells by fastforce
qed

lemma read_nested:
  assumes "parcel_queue P content" "ok x" "content p = CParcelable # cells x @ rest"
  shows "\<exists>q. ReadParcelable P rd p = Some (norm x, q) \<and> content q = rest"
proof -
  have "fst (pr_parcelable P p)" "content (snd (pr_parcelable P p)) = cells x @ rest"
    using parcel_queue.parcelable_law [OF assms(1,3)] by auto
  with rd_cells [OF assms(1,2)] show ?thesis
    by (auto simp: ReadParcelable_def reads_back_def split: prod.split)
qed

end

section \<open>Reading cell by cell\<close>

text \<open>Each read takes its value from the front; the rewrites carry the rest along.\<close>

context parcel_queue
begin

lemma rd_step:
  "content p = CInt32 i # cs \<Longrightarrow> (case pr_int32 P p of (x, q) \<Rightarrow> f1 x q) = f1 i (snd (pr_int32 P p))"
  "content p = CUint32 w # cs \<Longrightarrow> (case pr_uint32 P p of (x, q) \<Rightarrow> f2 x q) = f2 w (snd (pr_uint32 P p))"
  "content p = CUint64 v # cs \<Longrightarrow> (case pr_uint64 P p of (x, q) \<Rightarrow> f3 x q) = f3 v (snd (pr_uint64 P p))"
  "content p = CBool b # cs \<Longrightarrow> (case pr_bool P p of (x, q) \<Rightarrow> f4 x q) = f4 b (snd (pr_bool P p))"
  "content p = CString s # cs \<Longrightarrow> (case pr_string P p of (x, q) \<Rightarrow> f5 x q) = f5 s (snd (pr_string P p))"
  "content p = CString16 u # cs \<Longrightarrow> (case pr_string16 P p of (x, q) \<Rightarrow> f6 x q) = f6 u (snd (pr_string16 P p))"
  "content p = CDouble d # cs \<Longrightarrow> (case pr_double P p of (x, q) \<Rightarrow> f7 x q) = f7 d (snd (pr_double P p))"
  "content p = CObject k # cs \<Longrightarrow> (case pr_object P p of (x, q) \<Rightarrow> f8 x q) = f8 (Some k) (snd (pr_object P p))"
  "content p = CBytes bs # cs \<Longrightarrow> (case pr_bytes P p of (x, q) \<Rightarrow> f9 x q) = f9 (Some bs) (snd (pr_bytes P p))"
  using int32_law uint32_law uint64_law bool_law string_law string16_law double_law object_law bytes_law by (auto simp: case_prod_beta)

lemma no_object_step:
  "content p = CBool b # cs \<Longrightarrow> (case pr_object P p of (x, q) \<Rightarrow> f x q) = f None (snd (pr_object P p))"
  using no_object_law by (auto simp: case_prod_beta)

lemma rest_step:
  "content p = CInt32 i # cs \<Longrightarrow> content (snd (pr_int32 P p)) = cs"
  "content p = CUint32 w # cs \<Longrightarrow> content (snd (pr_uint32 P p)) = cs"
  "content p = CUint64 v # cs \<Longrightarrow> content (snd (pr_uint64 P p)) = cs"
  "content p = CBool b # cs \<Longrightarrow> content (snd (pr_bool P p)) = cs"
  "content p = CString s # cs \<Longrightarrow> content (snd (pr_string P p)) = cs"
  "content p = CString16 u # cs \<Longrightarrow> content (snd (pr_string16 P p)) = cs"
  "content p = CDouble d # cs \<Longrightarrow> content (snd (pr_double P p)) = cs"
  "content p = CObject k # cs \<Longrightarrow> content (snd (pr_object P p)) = cs"
  "content p = CBytes bs # cs \<Longrightarrow> content (snd (pr_bytes P p)) = cs"
  "content p = CBool b # cs \<Longrightarrow> content (snd (pr_object P p)) = CBool b # cs"
  using int32_law uint32_law uint64_law bool_law string_law string16_law double_law object_law bytes_law no_object_law by auto

lemmas flag_steps = rd_step(4) [where b = True] rd_step(4) [where b = False] rest_step(4) [where b = True]
  rest_step(4) [where b = False]

lemmas parcel_steps = rd_step rest_step no_object_step flag_steps Let_def

end

section \<open>The cells of each structure\<close>

definition CursorInfo_cells :: "cursor_info \<Rightarrow> cell list" where
  "CursorInfo_cells c = [CDouble (cu_left c), CDouble (cu_top c), CDouble (cu_width c), CDouble (cu_height c),
     CUint64 (cu_displayId c)]"

definition TextSelection_cells :: "text_selection \<Rightarrow> cell list" where
  "TextSelection_cells t = [CInt32 (ts_oldBegin t), CInt32 (ts_oldEnd t), CInt32 (ts_newBegin t), CInt32 (ts_newEnd t)]"

definition Range_cells :: "range \<Rightarrow> cell list" where
  "Range_cells r = [CInt32 (rg_start r), CInt32 (rg_end r)]"

definition PanelInfo_cells :: "panel_info \<Rightarrow> cell list" where
  "PanelInfo_cells x = [CInt32 (pi_panelType x), CInt32 (pi_panelFlag x)]"

definition PanelStatusInfo_cells :: "panel_status_info \<Rightarrow> cell list" where
  "PanelStatusInfo_cells x = CParcelable # PanelInfo_cells (ps_panelInfo x) @ [CInt32 (ps_inputType x),
     CBool (ps_visible x), CInt32 (ps_trigger x), CUint32 (ps_sessionId x), CInt32 (ps_clientSessionId x)]"

definition FocusedInfo_cells :: "focused_info \<Rightarrow> cell list" where
  "FocusedInfo_cells x = [CUint32 (fi_windowId x), CUint64 (fi_displayId x), CUint64 (fi_displayGroupId x),
     CUint32 (fi_keyboardWindowId x), CUint64 (fi_keyboardDisplayId x), CUint64 (fi_keyboardDisplayGroupId x)]"

definition ArrayBuffer_cells :: "array_buffer \<Rightarrow> cell list" where
  "ArrayBuffer_cells b = [CUint64 (ab_jsArgc b), CString (ab_msgId b), CBytes (ab_msgParam b)]"

definition ResponseData_cells :: "response_data \<Rightarrow> cell list" where
  "ResponseData_cells x = (case x of RSP_none \<Rightarrow> [CUint64 0] | RSP_string s \<Rightarrow> [CUint64 1, CString s]
     | RSP_int i \<Rightarrow> [CUint64 2, CInt32 i])"

definition Property_cells :: "property_rec \<Rightarrow> cell list" where
  "Property_cells x = [CString (pp_name x), CString (pp_id x), CString (pp_label x), CUint32 (pp_labelId x),
     CString (pp_icon x), CUint32 (pp_iconId x), CInt32 (pp_status x)]"

definition SubProperty_cells :: "sub_property_rec \<Rightarrow> cell list" where
  "SubProperty_cells x = [CString (sp_label x), CUint32 (sp_labelId x), CString (sp_name x), CString (sp_id x),
     CString (sp_mode x), CString (sp_locale x), CString (sp_language x), CString (sp_icon x), CUint32 (sp_iconId x)]"

fun Value_entry :: "string \<times> private_data_value \<Rightarrow> cell list" where
  "Value_entry (k, PV_string s) = [CString k, CInt32 0, CString s]"
| "Value_entry (k, PV_bool b) = [CString k, CInt32 1, CBool b]"
| "Value_entry (k, PV_int i) = [CString k, CInt32 2, CInt32 i]"

definition Value_cells :: "private_command \<Rightarrow> cell list" where
  "Value_cells m = CUint32 (of_nat (length m)) # concat (map Value_entry m)"

fun ExtraConfig_entry :: "string \<times> custom_value \<Rightarrow> cell list" where
  "ExtraConfig_entry (k, CV_string s) = [CString k, CInt32 0, CString s]"
| "ExtraConfig_entry (k, CV_int i) = [CString k, CInt32 1, CInt32 i]"
| "ExtraConfig_entry (k, CV_bool b) = [CString k, CInt32 2, CBool b]"

definition ExtraConfig_cells :: "custom_settings \<Rightarrow> cell list" where
  "ExtraConfig_cells m = CUint32 (of_nat (length m)) # concat (map ExtraConfig_entry m)"

definition InputAttribute_cells :: "input_attribute_inner \<Rightarrow> cell list" where
  "InputAttribute_cells a = [CInt32 (ii_inputPattern a), CInt32 (ii_enterKeyType a), CInt32 (ii_inputOption a),
     CBool (ii_isTextPreviewSupported a), CString (ii_bundleName a), CInt32 (ii_immersiveMode a),
     CUint32 (ii_editorWindowId a), CUint64 (ii_editorDisplayId a), CUint32 (ii_windowId a),
     CUint64 (ii_callingDisplayId a), CUint64 (ii_displayGroupId a), CString16 (ii_placeholder a),
     CString16 (ii_abilityName a), CInt32 (capitalize_value (ii_capitalizeMode a)), CBool (ii_needAutoInputNumkey a),
     CInt32 (ii_gradientMode a), CInt32 (ii_fluidLightMode a), CParcelable]
     @ ExtraConfig_cells (ii_extraConfig a) @ [CBool (ii_consumeKeyEvents a)]"

definition object_cells :: "robj option \<Rightarrow> cell list" where
  "object_cells k = (case k of None \<Rightarrow> [] | Some k \<Rightarrow> [CObject k])"

definition flagged_cells :: "robj option \<Rightarrow> cell list" where
  "flagged_cells k = CBool (k \<noteq> None) # object_cells k"

definition TextTotalConfig_cells :: "text_total_config_inner \<Rightarrow> cell list" where
  "TextTotalConfig_cells t = CParcelable # InputAttribute_cells (ti_inputAttribute t) @ CParcelable #
     CursorInfo_cells (ti_cursorInfo t) @ CParcelable # TextSelection_cells (ti_textSelection t) @
     [CUint32 (ti_windowId t), CDouble (ti_positionY t), CDouble (ti_height t), CParcelable] @
     Value_cells (ti_commandValue t) @ CInt32 (reason_value (ti_requestKeyboardReason t)) #
     object_cells (ti_abilityToken t) @ [CBool (ti_isSimpleKeyboardEnabled t)]"

definition ClientInfo_cells :: "input_client_info_inner \<Rightarrow> cell list" where
  "ClientInfo_cells c = [CInt32 (cn_pid c), CInt32 (cn_uid c), CInt32 (cn_userID c), CBool (cn_isShowKeyboard c),
     CParcelable] @ TextTotalConfig_cells (cn_config c) @ [CUint32 (cn_eventFlag c), CParcelable] @
     InputAttribute_cells (cn_attribute c) @ flagged_cells (cn_client c) @ flagged_cells (cn_channel c) @
     [CUint32 (state_value (cn_state c)), CBool (cn_isNotifyInputStart c), CBool (cn_isStylusActivation c),
      CBool (cn_needHide c), CUint32 (cn_uiExtensionTokenId c), CUint32 (type_value (cn_type c)), CString (cn_name c)]"

section \<open>Writing appends the cells\<close>

context parcel_queue
begin

lemma nested_write:
  assumes "WriteParcelable P m p = Some q" "\<And>p q. m p = Some q \<Longrightarrow> content q = content p @ cs"
  shows "content q = content p @ CParcelable # cs"
  using assms by (auto simp: WriteParcelable_def bind_eq_Some_conv dest!: writes)

lemma small_mar:
  "CursorInfo_Marshalling P c p = Some q \<Longrightarrow> content q = content p @ CursorInfo_cells c"
  "TextSelection_Marshalling P t p = Some q \<Longrightarrow> content q = content p @ TextSelection_cells t"
  "Range_Marshalling P r p = Some q \<Longrightarrow> content q = content p @ Range_cells r"
  "PanelInfo_Marshalling P pin p = Some q \<Longrightarrow> content q = content p @ PanelInfo_cells pin"
  "FocusedInfo_Marshalling P fi p = Some q \<Longrightarrow> content q = content p @ FocusedInfo_cells fi"
  "ArrayBuffer_Marshalling P b p = Some q \<Longrightarrow> content q = content p @ ArrayBuffer_cells b"
  "ResponseData_Marshalling P x p = Some q \<Longrightarrow> content q = content p @ ResponseData_cells x"
  "Property_Marshalling P pr p = Some q \<Longrightarrow> content q = content p @ Property_cells pr"
  "SubProperty_Marshalling P sp p = Some q \<Longrightarrow> content q = content p @ SubProperty_cells sp"
  by (auto simp: CursorInfo_Marshalling_def CursorInfo_cells_def TextSelection_Marshalling_def TextSelection_cells_def
      Range_Marshalling_def Range_cells_def PanelInfo_Marshalling_def PanelInfo_cells_def FocusedInfo_Marshalling_def
      FocusedInfo_cells_def ArrayBuffer_Marshalling_def ArrayBuffer_cells_def ResponseData_Marshalling_def
      ResponseData_cells_def Property_Marshalling_def Property_cells_def SubProperty_Marshalling_def
      SubProperty_cells_def bind_eq_Some_conv dest!: writes split: response_data.splits)

lemma PanelStatusInfo_mar: "PanelStatusInfo_Marshalling P x p = Some q \<Longrightarrow> content q = content p @ PanelStatusInfo_cells x"
  by (auto simp: PanelStatusInfo_Marshalling_def PanelStatusInfo_cells_def bind_eq_Some_conv
      dest!: writes nested_write [OF _ small_mar(4)])

lemma Value_entries_mar:
  "Value_write_entries P m p = Some q \<Longrightarrow> content q = content p @ concat (map Value_entry m)"
proof (induction m arbitrary: p)
  case (Cons e m)
  obtain k v where "e = (k, v)" by (cases e)
  with Cons show ?case by (cases v) (auto simp: bind_eq_Some_conv dest!: writes)
qed simp

lemma Value_mar: "Value_Marshalling P m p = Some q \<Longrightarrow> content q = content p @ Value_cells m"
  by (auto simp: Value_Marshalling_def Value_cells_def bind_eq_Some_conv dest!: writes Value_entries_mar)

lemma ExtraConfig_entries_mar:
  "ExtraConfig_write_entries P m p = Some q \<Longrightarrow> content q = content p @ concat (map ExtraConfig_entry m)"
proof (induction m arbitrary: p)
  case (Cons e m)
  obtain k v where "e = (k, v)" by (cases e)
  with Cons show ?case by (cases v) (auto simp: bind_eq_Some_conv dest!: writes)
qed simp

lemma ExtraConfig_mar: "ExtraConfig_Marshalling P m p = Some q \<Longrightarrow> content q = content p @ ExtraConfig_cells m"
  by (auto simp: ExtraConfig_Marshalling_def ExtraConfig_cells_def bind_eq_Some_conv dest!: writes ExtraConfig_entries_mar)

lemma InputAttribute_mar:
  "InputAttribute_Marshalling P a p = Some q \<Longrightarrow> content q = content p @ InputAttribute_cells a"
  by (auto simp: InputAttribute_Marshalling_def InputAttribute_cells_def bind_eq_Some_conv
      dest!: writes nested_write [OF _ ExtraConfig_mar])

lemmas nested_mar =
  nested_write [where m = "InputAttribute_Marshalling P a" for a, OF _ InputAttribute_mar]
  nested_write [where m = "CursorInfo_Marshalling P c" for c, OF _ small_mar(1)]
  nested_write [where m = "TextSelection_Marshalling P t" for t, OF _ small_mar(2)]
  nested_write [where m = "Value_Marshalling P v" for v, OF _ Value_mar]

lemma TextTotalConfig_mar:
  "TextTotalConfig_Marshalling P t p = Some q \<Longrightarrow> content q = content p @ TextTotalConfig_cells t"
  by (auto simp: TextTotalConfig_Marshalling_def TextTotalConfig_cells_def object_cells_def bind_eq_Some_conv
      dest!: writes nested_mar split: option.splits)

lemma ClientInfo_mar: "ClientInfo_Marshalling P c p = Some q \<Longrightarrow> content q = content p @ ClientInfo_cells c"
  by (auto simp: ClientInfo_Marshalling_def ClientInfo_MarshallingOne_def ClientInfo_MarshallingTwo_def
      ClientInfo_cells_def flagged_cells_def object_cells_def bind_eq_Some_conv
      dest!: writes nested_mar nested_write [where m = "TextTotalConfig_Marshalling P t" for t, OF _ TextTotalConfig_mar]
      split: option.splits)

end

section \<open>Reading gives the structure back\<close>

text \<open>The parcel after a successful read.\<close>

definition after_read :: "('p \<Rightarrow> ('a \<times> 'p) option) \<Rightarrow> 'p \<Rightarrow> 'p" where
  "after_read rd p = snd (the (rd p))"

lemma umap_insert_new: "k \<notin> fst ` set m \<Longrightarrow> umap_insert k v m = m @ [(k, v)]"
  by (simp add: umap_insert_def)

lemma capitalize_of_value [simp]: "capitalize_of (capitalize_value c) = c"
  by (cases c) (simp_all add: capitalize_of_def Let_def)

definition Value_ok :: "private_command \<Rightarrow> bool" where
  "Value_ok m \<longleftrightarrow> distinct (map fst m) \<and> length m \<le> 256"

definition ExtraConfig_ok :: "custom_settings \<Rightarrow> bool" where
  "ExtraConfig_ok m \<longleftrightarrow> distinct (map fst m) \<and> length m \<le> 1024 * 1024"

text \<open>A number that has an enumerator is that enumerator.\<close>

definition enums_ok :: "input_client_info_inner \<Rightarrow> bool" where
  "enums_ok c \<longleftrightarrow> state_of (state_value (cn_state c)) = cn_state c \<and> type_of (type_value (cn_type c)) = cn_type c"

definition TextTotalConfig_ok :: "text_total_config_inner \<Rightarrow> bool" where
  "TextTotalConfig_ok t \<longleftrightarrow> ExtraConfig_ok (ii_extraConfig (ti_inputAttribute t)) \<and> Value_ok (ti_commandValue t)
     \<and> reason_of (reason_value (ti_requestKeyboardReason t)) = ti_requestKeyboardReason t"

definition ClientInfo_ok :: "input_client_info_inner \<Rightarrow> bool" where
  "ClientInfo_ok c \<longleftrightarrow> TextTotalConfig_ok (cn_config c) \<and> ExtraConfig_ok (ii_extraConfig (cn_attribute c)) \<and> enums_ok c"

context parcel_queue
begin

lemma nested_read:
  assumes "reads_back content rd cs x" "content p = CParcelable # cs @ rest"
  shows "ReadParcelable P rd p = Some (x, after_read (ReadParcelable P rd) p)"
    "content (after_read (ReadParcelable P rd) p) = rest"
proof -
  have "fst (pr_parcelable P p)" "content (snd (pr_parcelable P p)) = cs @ rest"
    using parcelable_law [OF assms(2)] by auto
  with assms(1) have "\<exists>q. ReadParcelable P rd p = Some (x, q) \<and> content q = rest"
    by (auto simp: ReadParcelable_def reads_back_def split: prod.split)
  then show "ReadParcelable P rd p = Some (x, after_read (ReadParcelable P rd) p)"
    "content (after_read (ReadParcelable P rd) p) = rest"
    by (auto simp: after_read_def)
qed

lemma CursorInfo_rd: "reads_back content (CursorInfo_ReadFromParcel P) (CursorInfo_cells c) c"
  by (auto simp: reads_back_def CursorInfo_ReadFromParcel_def CursorInfo_cells_def parcel_steps)

lemma TextSelection_rd: "reads_back content (TextSelection_ReadFromParcel P) (TextSelection_cells t) t"
  by (auto simp: reads_back_def TextSelection_ReadFromParcel_def TextSelection_cells_def parcel_steps)

lemma Range_rd: "reads_back content (Range_ReadFromParcel P) (Range_cells r) r"
  by (auto simp: reads_back_def Range_ReadFromParcel_def Range_cells_def parcel_steps)

lemma PanelInfo_rd: "reads_back content (PanelInfo_ReadFromParcel P) (PanelInfo_cells x) x"
  by (auto simp: reads_back_def PanelInfo_ReadFromParcel_def PanelInfo_cells_def parcel_steps)

lemma FocusedInfo_rd:
  "reads_back content (FocusedInfo_ReadFromParcel P) (FocusedInfo_cells x) (x\<lparr>fi_uiExtensionHostPid := INVALID_PID\<rparr>)"
  by (auto simp: reads_back_def FocusedInfo_ReadFromParcel_def FocusedInfo_cells_def parcel_steps)

lemma ArrayBuffer_rd: "reads_back content (ArrayBuffer_ReadFromParcel P) (ArrayBuffer_cells b) b"
  by (auto simp: reads_back_def ArrayBuffer_ReadFromParcel_def ArrayBuffer_cells_def parcel_steps)

lemma ResponseData_rd: "reads_back content (ResponseData_ReadFromParcel P) (ResponseData_cells x) x"
  by (cases x) (auto simp: reads_back_def ResponseData_ReadFromParcel_def ResponseData_cells_def parcel_steps)

lemma Property_rd: "reads_back content (Property_ReadFromParcel P) (Property_cells x) x"
  by (auto simp: reads_back_def Property_ReadFromParcel_def Property_cells_def parcel_steps)

lemma SubProperty_rd: "reads_back content (SubProperty_ReadFromParcel P) (SubProperty_cells x) x"
  by (auto simp: reads_back_def SubProperty_ReadFromParcel_def SubProperty_cells_def parcel_steps)

lemma PanelStatusInfo_rd:
  "- 1 \<le> ps_inputType x \<Longrightarrow> ps_inputType x < 6 \<Longrightarrow>
   reads_back content (PanelStatusInfo_ReadFromParcel P) (PanelStatusInfo_cells x) x"
  by (auto simp: reads_back_def PanelStatusInfo_ReadFromParcel_def PanelStatusInfo_cells_def parcel_steps
      nested_read [OF PanelInfo_rd])

lemma Value_entries_rd:
  "content p = concat (map Value_entry m) @ rest \<Longrightarrow> distinct (map fst (acc @ m)) \<Longrightarrow>
   fst (Value_read_entries P (length m) acc p) = acc @ m \<and>
   content (snd (Value_read_entries P (length m) acc p)) = rest"
proof (induction m arbitrary: acc p)
  case (Cons e m)
  obtain k v where e: "e = (k, v)" by (cases e)
  with Cons.prems(2) have "k \<notin> fst ` set acc" by auto
  then have ins: "umap_insert k v acc = acc @ [(k, v)]" by (rule umap_insert_new)
  show ?case
    using Cons.prems Cons.IH [of _ "acc @ [(k, v)]"] e ins by (cases v) (simp_all add: parcel_steps)
qed simp

lemma Value_rd:
  assumes "Value_ok m"
  shows "reads_back content (Value_ReadFromParcel P) (Value_cells m) m"
  unfolding reads_back_def
proof (intro allI impI)
  fix p rest
  assume p: "content p = Value_cells m @ rest"
  let ?q = "snd (pr_uint32 P p)"
  from assms have len: "length m \<le> 256" "unat (of_nat (length m) :: u32) = length m"
    by (auto simp: Value_ok_def unat_of_nat)
  then have small: "\<not> (of_nat (length m) :: u32) > MAX_VALUE_MAP_COUNT"
    by (simp add: word_less_nat_alt)
  have q: "content ?q = concat (map Value_entry m) @ rest"
    using p by (simp add: Value_cells_def parcel_steps)
  have "Value_ReadFromParcel P p = Some (Value_read_entries P (length m) [] ?q)"
    using p len small by (cases "m = []") (auto simp: Value_ReadFromParcel_def Value_cells_def parcel_steps)
  then show "\<exists>q. Value_ReadFromParcel P p = Some (m, q) \<and> content q = rest"
    using Value_entries_rd [OF q, of "[]"] assms by (auto simp: Value_ok_def prod_eq_iff)
qed

lemma ExtraConfig_entries_rd:
  "content p = concat (map ExtraConfig_entry m) @ rest \<Longrightarrow> distinct (map fst (acc @ m)) \<Longrightarrow>
   fst (ExtraConfig_read_entries P (length m) acc p) = acc @ m \<and>
   content (snd (ExtraConfig_read_entries P (length m) acc p)) = rest"
proof (induction m arbitrary: acc p)
  case (Cons e m)
  obtain k v where e: "e = (k, v)" by (cases e)
  with Cons.prems(2) have "k \<notin> fst ` set acc" by auto
  then have ins: "umap_insert k v acc = acc @ [(k, v)]" by (rule umap_insert_new)
  show ?case
    using Cons.prems Cons.IH [of _ "acc @ [(k, v)]"] e ins by (cases v) (simp_all add: parcel_steps)
qed simp

lemma ExtraConfig_rd:
  assumes "ExtraConfig_ok m"
  shows "reads_back content (ExtraConfig_ReadFromParcel P) (ExtraConfig_cells m) m"
  unfolding reads_back_def
proof (intro allI impI)
  fix p rest
  assume p: "content p = ExtraConfig_cells m @ rest"
  let ?q = "snd (pr_uint32 P p)"
  from assms have len: "length m \<le> 1024 * 1024" "unat (of_nat (length m) :: u32) = length m"
    by (auto simp: ExtraConfig_ok_def unat_of_nat)
  then have small: "\<not> (of_nat (length m) :: u32) > MAX_EXTRA_ARRAY_SIZE"
    by (simp add: word_less_nat_alt)
  have q: "content ?q = concat (map ExtraConfig_entry m) @ rest"
    using p by (simp add: ExtraConfig_cells_def parcel_steps)
  have "ExtraConfig_ReadFromParcel P p = Some (ExtraConfig_read_entries P (length m) [] ?q)"
    using p len small by (cases "m = []") (auto simp: ExtraConfig_ReadFromParcel_def ExtraConfig_cells_def parcel_steps)
  then show "\<exists>q. ExtraConfig_ReadFromParcel P p = Some (m, q) \<and> content q = rest"
    using ExtraConfig_entries_rd [OF q, of "[]"] assms by (auto simp: ExtraConfig_ok_def prod_eq_iff)
qed

lemma InputAttribute_rd:
  assumes "ExtraConfig_ok (ii_extraConfig a)"
  shows "reads_back content (InputAttribute_ReadFromParcel P) (InputAttribute_cells a) a"
  unfolding reads_back_def InputAttribute_ReadFromParcel_def InputAttribute_cells_def
  by (auto simp: parcel_steps nested_read [OF ExtraConfig_rd [OF assms]])

lemma TextTotalConfig_rd:
  assumes "TextTotalConfig_ok t"
  shows "reads_back content (TextTotalConfig_ReadFromParcel P) (TextTotalConfig_cells t) t"
proof -
  have ok: "ExtraConfig_ok (ii_extraConfig (ti_inputAttribute t))" "Value_ok (ti_commandValue t)"
    "reason_of (reason_value (ti_requestKeyboardReason t)) = ti_requestKeyboardReason t"
    using assms by (auto simp: TextTotalConfig_ok_def)
  show ?thesis
    unfolding reads_back_def TextTotalConfig_ReadFromParcel_def TextTotalConfig_cells_def object_cells_def
    by (auto simp: parcel_steps nested_read [OF InputAttribute_rd [OF ok(1)]] nested_read [OF CursorInfo_rd]
        nested_read [OF TextSelection_rd] nested_read [OF Value_rd [OF ok(2)]] ok(3) split: option.splits)
qed

lemma ClientInfo_rd:
  assumes "ClientInfo_ok c"
  shows "reads_back content (ClientInfo_ReadFromParcel P) (ClientInfo_cells c) (c\<lparr>cn_deathRecipient := None\<rparr>)"
proof -
  have ok: "TextTotalConfig_ok (cn_config c)" "ExtraConfig_ok (ii_extraConfig (cn_attribute c))"
    "state_of (state_value (cn_state c)) = cn_state c" "type_of (type_value (cn_type c)) = cn_type c"
    using assms by (auto simp: ClientInfo_ok_def enums_ok_def)
  show ?thesis
    unfolding reads_back_def ClientInfo_ReadFromParcel_def ClientInfo_cells_def flagged_cells_def object_cells_def
    by (auto simp: parcel_steps nested_read [OF TextTotalConfig_rd [OF ok(1)]]
        nested_read [OF InputAttribute_rd [OF ok(2)]] ok(3,4) split: option.splits)
qed

end

section \<open>Every structure is parcelable\<close>

interpretation cursor: parcelable P content "CursorInfo_Marshalling P" "CursorInfo_ReadFromParcel P"
    CursorInfo_cells "\<lambda>_. True" "\<lambda>x. x" for P content
  by unfold_locales (blast intro: parcel_queue.small_mar(1) parcel_queue.CursorInfo_rd)+

interpretation selec: parcelable P content "TextSelection_Marshalling P" "TextSelection_ReadFromParcel P"
    TextSelection_cells "\<lambda>_. True" "\<lambda>x. x" for P content
  by unfold_locales (blast intro: parcel_queue.small_mar(2) parcel_queue.TextSelection_rd)+

interpretation rng: parcelable P content "Range_Marshalling P" "Range_ReadFromParcel P"
    Range_cells "\<lambda>_. True" "\<lambda>x. x" for P content
  by unfold_locales (blast intro: parcel_queue.small_mar(3) parcel_queue.Range_rd)+

interpretation pinfo: parcelable P content "PanelInfo_Marshalling P" "PanelInfo_ReadFromParcel P"
    PanelInfo_cells "\<lambda>_. True" "\<lambda>x. x" for P content
  by unfold_locales (blast intro: parcel_queue.small_mar(4) parcel_queue.PanelInfo_rd)+

interpretation focus: parcelable P content "FocusedInfo_Marshalling P" "FocusedInfo_ReadFromParcel P"
    FocusedInfo_cells "\<lambda>_. True" "\<lambda>x. x\<lparr>fi_uiExtensionHostPid := INVALID_PID\<rparr>" for P content
  by unfold_locales (blast intro: parcel_queue.small_mar(5) parcel_queue.FocusedInfo_rd)+

interpretation abuf: parcelable P content "ArrayBuffer_Marshalling P" "ArrayBuffer_ReadFromParcel P"
    ArrayBuffer_cells "\<lambda>_. True" "\<lambda>x. x" for P content
  by unfold_locales (blast intro: parcel_queue.small_mar(6) parcel_queue.ArrayBuffer_rd)+

interpretation resp: parcelable P content "ResponseData_Marshalling P" "ResponseData_ReadFromParcel P"
    ResponseData_cells "\<lambda>_. True" "\<lambda>x. x" for P content
  by unfold_locales (blast intro: parcel_queue.small_mar(7) parcel_queue.ResponseData_rd)+

interpretation ime_prop: parcelable P content "Property_Marshalling P" "Property_ReadFromParcel P"
    Property_cells "\<lambda>_. True" "\<lambda>x. x" for P content
  by unfold_locales (blast intro: parcel_queue.small_mar(8) parcel_queue.Property_rd)+

interpretation subprop: parcelable P content "SubProperty_Marshalling P" "SubProperty_ReadFromParcel P"
    SubProperty_cells "\<lambda>_. True" "\<lambda>x. x" for P content
  by unfold_locales (blast intro: parcel_queue.small_mar(9) parcel_queue.SubProperty_rd)+

interpretation pstatus: parcelable P content "PanelStatusInfo_Marshalling P" "PanelStatusInfo_ReadFromParcel P"
    PanelStatusInfo_cells "\<lambda>x. - 1 \<le> ps_inputType x \<and> ps_inputType x < 6" "\<lambda>x. x" for P content
  by unfold_locales (blast intro: parcel_queue.PanelStatusInfo_mar parcel_queue.PanelStatusInfo_rd)+

interpretation vmap: parcelable P content "Value_Marshalling P" "Value_ReadFromParcel P" Value_cells Value_ok "\<lambda>x. x"
    for P content
  by unfold_locales (blast intro: parcel_queue.Value_mar parcel_queue.Value_rd)+

interpretation extra: parcelable P content "ExtraConfig_Marshalling P" "ExtraConfig_ReadFromParcel P"
    ExtraConfig_cells ExtraConfig_ok "\<lambda>x. x" for P content
  by unfold_locales (blast intro: parcel_queue.ExtraConfig_mar parcel_queue.ExtraConfig_rd)+

interpretation attr: parcelable P content "InputAttribute_Marshalling P" "InputAttribute_ReadFromParcel P"
    InputAttribute_cells "\<lambda>a. ExtraConfig_ok (ii_extraConfig a)" "\<lambda>x. x" for P content
  by unfold_locales (blast intro: parcel_queue.InputAttribute_mar parcel_queue.InputAttribute_rd)+

interpretation total: parcelable P content "TextTotalConfig_Marshalling P" "TextTotalConfig_ReadFromParcel P"
    TextTotalConfig_cells TextTotalConfig_ok "\<lambda>x. x" for P content
  by unfold_locales (blast intro: parcel_queue.TextTotalConfig_mar parcel_queue.TextTotalConfig_rd)+

interpretation cinfo: parcelable P content "ClientInfo_Marshalling P" "ClientInfo_ReadFromParcel P"
    ClientInfo_cells ClientInfo_ok "\<lambda>c. c\<lparr>cn_deathRecipient := None\<rparr>" for P content
  by unfold_locales (blast intro: parcel_queue.ClientInfo_mar parcel_queue.ClientInfo_rd)+

section \<open>From the client to the service\<close>

text \<open>What the service sees of a client's record: the fields that only the service keeps start afresh.\<close>

definition received_attribute :: "input_attribute \<Rightarrow> input_attribute" where
  "received_attribute a = a\<lparr>ia_callingScreenId := 0\<rparr>"

definition received_client :: "input_client_info \<Rightarrow> input_client_info" where
  "received_client ci = ci\<lparr>ci_config := (ci_config ci)\<lparr>tc_inputAttribute := received_attribute (ci_attribute ci)\<rparr>,
     ci_ownAttribute := received_attribute (ci_ownAttribute ci), ci_deathRecipient := None,
     ci_uiExtensionHostPid := INVALID_PID, ci_bindImeData := None, ci_clientGroupId := 0\<rparr>"

lemma attribute_tools: "InnerToAttribute (AttributeToInner a) = received_attribute a"
  by (simp add: InnerToAttribute_def AttributeToInner_def received_attribute_def default_input_attribute_def)

lemma client_tools:
  "InnerToInputClientInfo ((InputClientInfoToInner ci)\<lparr>cn_deathRecipient := None\<rparr>) = received_client ci"
  by (simp add: InnerToInputClientInfo_def InputClientInfoToInner_def InnerToTextTotalConfig_def
      TextTotalConfigToInner_def attribute_tools InnerToCursorInfo_def CursorInfoToInner_def InnerToSelection_def
      TextSelectionToInner_def received_client_def default_input_client_info_def)

text \<open>A parcel that is a list of cells.\<close>

definition list_parcel :: "cell list parcel_ops" where
  "list_parcel = \<lparr>pw = (\<lambda>c p. Some (p @ [c])),
     pr_int32 = (\<lambda>p. case p of CInt32 i # r \<Rightarrow> (i, r) | _ \<Rightarrow> (0, p)),
     pr_uint32 = (\<lambda>p. case p of CUint32 i # r \<Rightarrow> (i, r) | _ \<Rightarrow> (0, p)),
     pr_uint64 = (\<lambda>p. case p of CUint64 i # r \<Rightarrow> (i, r) | _ \<Rightarrow> (0, p)),
     pr_bool = (\<lambda>p. case p of CBool b # r \<Rightarrow> (b, r) | _ \<Rightarrow> (False, p)),
     pr_string = (\<lambda>p. case p of CString s # r \<Rightarrow> (s, r) | _ \<Rightarrow> ([], p)),
     pr_string16 = (\<lambda>p. case p of CString16 s # r \<Rightarrow> (s, r) | _ \<Rightarrow> ([], p)),
     pr_double = (\<lambda>p. case p of CDouble d # r \<Rightarrow> (d, r) | _ \<Rightarrow> (Fin 0, p)),
     pr_object = (\<lambda>p. case p of CObject k # r \<Rightarrow> (Some k, r) | _ \<Rightarrow> (None, p)),
     pr_bytes = (\<lambda>p. case p of CBytes b # r \<Rightarrow> (Some b, r) | _ \<Rightarrow> (None, p)),
     pr_parcelable = (\<lambda>p. case p of CParcelable # r \<Rightarrow> (True, r) | _ \<Rightarrow> (False, p))\<rparr>"

interpretation lparcel: parcel_queue list_parcel "\<lambda>p. p"
  by unfold_locales (auto simp: list_parcel_def)

text \<open>C16. The record of a client that its process sends with a request (\<open>InputClientInfoToInner\<close>, then
  \<open>Marshalling\<close> into an empty parcel) reaches the service unchanged: \<open>ReadFromParcel\<close> succeeds, uses up
  the parcel, and \<open>InnerToInputClientInfo\<close> gives the record back, but for the fields that are not sent
  (death recipient, host process, bound input method, group, calling screen), which have their initial
  values. This needs the promise of the IPC library that a parcel is a queue, and that the maps in the
  record have at most 256 and 1024 * 1024 entries.
\<close>

theorem client_info_roundtrip:
  assumes "parcel_queue P content" "content p = []"
    and "ClientInfo_Marshalling P (InputClientInfoToInner ci) p = Some q"
    and "ClientInfo_ok (InputClientInfoToInner ci)"
  shows "\<exists>i r. ClientInfo_ReadFromParcel P q = Some (i, r) \<and> content r = [] \<and>
    InnerToInputClientInfo i = received_client ci"
  using cinfo.roundtrip [OF assms(1,3,2,4)] client_tools by blast

theorem client_info_roundtrip_witness:
  "let ci = default_input_client_info\<lparr>ci_pid := 7, ci_client := Some 3, ci_state := ACTIVE,
     ci_config := default_text_total_config\<lparr>tc_privateCommand := [(''k'', PV_bool True), (''l'', PV_int 4)]\<rparr>\<rparr> in
   \<exists>i r. ClientInfo_ReadFromParcel list_parcel (the (ClientInfo_Marshalling list_parcel (InputClientInfoToInner ci) []))
     = Some (i, r) \<and> r = [] \<and> InnerToInputClientInfo i = received_client ci"
proof -
  define ci where "ci = default_input_client_info\<lparr>ci_pid := 7, ci_client := Some 3, ci_state := ACTIVE,
     ci_config := default_text_total_config\<lparr>tc_privateCommand := [(''k'', PV_bool True), (''l'', PV_int 4)]\<rparr>\<rparr>"
  have "ClientInfo_Marshalling list_parcel (InputClientInfoToInner ci) [] \<noteq> None"
    unfolding ci_def by code_simp
  then obtain q where q: "ClientInfo_Marshalling list_parcel (InputClientInfoToInner ci) [] = Some q" by blast
  have "ClientInfo_ok (InputClientInfoToInner ci)"
    unfolding ci_def by (simp add: ClientInfo_ok_def TextTotalConfig_ok_def ExtraConfig_ok_def Value_ok_def enums_ok_def
        InputClientInfoToInner_def TextTotalConfigToInner_def AttributeToInner_def default_input_client_info_def
        default_text_total_config_def default_input_attribute_def state_of_def type_of_def reason_of_def)
  from client_info_roundtrip [OF lparcel.parcel_queue_axioms refl q this] q show ?thesis
    unfolding ci_def [symmetric] Let_def by simp
qed

end
