(* ===== verification/Controller_Base.thy ===== *)
theory Controller_Base
  imports Imf_Parcel
begin

text \<open>
  The client side: the state of an \<open>InputMethodController\<close>
  (\<open>interfaces/inner_api/inputmethod_controller/include/input_method_controller.h\<close>), its environment, the
  editor's listener with its event handler (\<open>OnTextChangedListener\<close>), and the helpers of
  \<open>input_method_controller.cpp\<close> on which the operations rest.

  An operation is a state transformer over \<^emph>\<open>controller\<close>. A call to the service, to an input method's
  agent, to the editor or to another callback is an event of the log (newest first); what comes back is
  taken from the environment, a function of the log and of the call. An operation runs to its end before
  the next one starts, so that the queue \<open>ctrlEventQueue_\<close>, which keeps \<open>Attach\<close> and \<open>Close\<close> apart, is
  empty whenever one of them starts. Logging, tracing and the reports of \<open>HiSysEvent\<close> are left out.
\<close>

section \<open>Return codes\<close>

abbreviation ERROR_EX_NULL_POINTER :: int where "ERROR_EX_NULL_POINTER \<equiv> - 4"
abbreviation ERROR_PARAMETER_CHECK_FAILED :: int where "ERROR_PARAMETER_CHECK_FAILED \<equiv> 14"
abbreviation ERROR_INVALID_PRIVATE_COMMAND_SIZE :: int where "ERROR_INVALID_PRIVATE_COMMAND_SIZE \<equiv> 20"
abbreviation ERROR_MSG_HANDLER_NOT_REGIST :: int where "ERROR_MSG_HANDLER_NOT_REGIST \<equiv> 30"
abbreviation ERROR_INVALID_ARRAY_BUFFER_SIZE :: int where "ERROR_INVALID_ARRAY_BUFFER_SIZE \<equiv> 33"
abbreviation ERROR_SERVICE_START_FAILED :: int where "ERROR_SERVICE_START_FAILED \<equiv> 34"
abbreviation ERROR_IMA_DATA_CHANNEL_ABNORMAL :: int where "ERROR_IMA_DATA_CHANNEL_ABNORMAL \<equiv> 46"
abbreviation ERROR_CLIENT_NOT_EDITABLE :: int where "ERROR_CLIENT_NOT_EDITABLE \<equiv> 51"
abbreviation ERROR_TEXT_PREVIEW_NOT_SUPPORTED :: int where "ERROR_TEXT_PREVIEW_NOT_SUPPORTED \<equiv> 52"
abbreviation ERROR_TEXT_LISTENER_ERROR :: int where "ERROR_TEXT_LISTENER_ERROR \<equiv> 53"
abbreviation ERROR_INVALID_RANGE :: int where "ERROR_INVALID_RANGE \<equiv> 54"
abbreviation ERROR_STATUS_PERMISSION_DENIED :: int where "ERROR_STATUS_PERMISSION_DENIED \<equiv> 61"
abbreviation ERROR_IME_NOT_FOUND :: int where "ERROR_IME_NOT_FOUND \<equiv> 86"

section \<open>Data\<close>

datatype keyboard_status = KBD_NONE | KBD_HIDE | KBD_SHOW | KBD_VALUE int

record text_config =
  xc_inputAttribute :: input_attribute
  xc_cursorInfo :: cursor_info
  xc_range :: range
  xc_windowId :: u32
  xc_positionY :: double
  xc_height :: double
  xc_newEditBox :: bool
  xc_privateCommand :: private_command
  xc_abilityToken :: "robj option"

text \<open>The member initialisers of \<open>TextConfig\<close>.\<close>

definition default_text_config :: text_config where
  "default_text_config = \<lparr>xc_inputAttribute = default_input_attribute, xc_cursorInfo = default_cursor_info,
     xc_range = default_range, xc_windowId = INVALID_WINDOW_ID, xc_positionY = Fin 0, xc_height = Fin 0,
     xc_newEditBox = False, xc_privateCommand = [], xc_abilityToken = None\<rparr>"

abbreviation MAX_PRIVATE_COMMAND_COUNT :: nat where "MAX_PRIVATE_COMMAND_COUNT \<equiv> 5"
abbreviation MAX_SYS_PRIVATE_COMMAND_COUNT :: nat where "MAX_SYS_PRIVATE_COMMAND_COUNT \<equiv> 6"
abbreviation MAX_PRIVATE_COMMAND_SIZE :: nat where "MAX_PRIVATE_COMMAND_SIZE \<equiv> 32 * 1024"

definition IsSystemPrivateCommand :: "private_command \<Rightarrow> bool" where
  "IsSystemPrivateCommand m =
     (if length m = 0 \<or> length m > MAX_PRIVATE_COMMAND_COUNT then False
      else case map_of m ''sys_cmd'' of Some (PV_int i) \<Rightarrow> i = 1 | _ \<Rightarrow> False)"

fun private_value_size :: "private_data_value \<Rightarrow> nat" where
  "private_value_size (PV_string s) = length s"
| "private_value_size (PV_bool _) = 1"
| "private_value_size (PV_int _) = 4"

definition IsPrivateCommandValid :: "private_command \<Rightarrow> bool" where
  "IsPrivateCommandValid m =
     (let maxSize = (if IsSystemPrivateCommand m then MAX_SYS_PRIVATE_COMMAND_COUNT else MAX_PRIVATE_COMMAND_COUNT) in
      if length m = 0 \<or> length m > maxSize then False
      else \<not> (\<Sum>(k, v) \<leftarrow> m. length k + private_value_size v) > MAX_PRIVATE_COMMAND_SIZE)"

record attach_options =
  ao_isShowKeyboard :: bool
  ao_requestKeyboardReason :: request_keyboard_reason

record bind_ime_info =
  bi_pid :: int
  bi_bundleName :: string

record agent_info =
  ag_object :: "robj option"
  ag_agent :: "robj option"
  ag_imeType :: ime_type

text \<open>A key event of the multimodal input library, of which the code reads the key code and the action.\<close>

datatype key_action = ACTION_DOWN | ACTION_UP | ACTION_OTHER

record key_event =
  ke_id :: nat
  ke_isSpace :: bool
  ke_action :: key_action

record key_cb_info =
  kc_keyEvent :: key_event
  kc_callback :: "nat option"

datatype ptt_space_state = PTT_UP | PTT_DOWN | PTT_BLOCKED

datatype attach_failure_reason = CALLER_NOT_FOCUSED | IME_ABNORMAL | SERVICE_ABNORMAL

record immersive_cache =
  ic_isSupportPcModeCached :: bool
  ic_isSupportPcModeQueried :: bool
  ic_isDisablePcModeImmersiveModeCached :: bool
  ic_isDisablePcModeImmersiveModeQueried :: bool
  ic_isDisableImmersiveModeCached :: bool
  ic_isDisableImmersiveModeQueried :: bool

definition ResetQueried :: "immersive_cache \<Rightarrow> immersive_cache" where
  "ResetQueried c = c\<lparr>ic_isDisableImmersiveModeQueried := False, ic_isSupportPcModeQueried := False,
     ic_isDisablePcModeImmersiveModeQueried := False\<rparr>"

section \<open>Calls\<close>

text \<open>The virtual functions of the editor's listener.\<close>

datatype listener_call =
    L_InsertText u16string | L_DeleteForward int | L_DeleteBackward int | L_SendKeyboardStatus keyboard_status
  | L_SendFunctionKey int | L_MoveCursor int | L_HandleExtendAction int
  | L_GetLeftTextOfCursor int | L_GetRightTextOfCursor int | L_GetTextIndexAtCursor
  | L_SendKeyEventFromInputMethod | L_NotifyPanelStatusInfo panel_status_info | L_NotifyKeyboardHeight u32
  | L_SetKeyboardStatus bool | L_HandleSetSelection int int | L_HandleSelect int int
  | L_ReceivePrivateCommand private_command | L_SetPreviewText u16string range | L_FinishTextPreview | L_OnDetach

datatype agent_call =
    A_DiscardTypingText | A_OnCursorUpdate double double double | A_OnSelectionChange string int int int int
  | A_OnAttributeChange input_attribute_inner | A_DispatchKeyEvent key_event u64 robj | A_SetCallingWindow u32
  | A_OnFunctionKey int | A_SendPrivateCommand private_command | A_SendMessage array_buffer
  | A_ResponseDataChannel u64 int response_data

datatype service_call =
    S_UpdateListenEventFlag input_client_info_inner u32 | S_IsCapacitySupport int
  | S_StartInput input_client_info_inner | S_ReleaseInput "robj option" u32 int
  | S_ShowInput "robj option" u32 client_type int bool | S_HideInput "robj option" u32
  | S_ShowCurrentInputDeprecated u32 bool | S_HideCurrentInputDeprecated u32
  | S_ShowCurrentInput "u64 option" client_type bool | S_HideCurrentInput "u64 option"
  | S_StopInputSession u32 | S_SetCallingWindow u32 "robj option" | S_RequestHideInput u32 u64 bool int
  | S_DisplayOptionalInputMethod | S_GetInputStartInfo | S_ListInputMethod int int
  | S_GetDefaultInputMethod int | S_GetInputMethodConfig int | S_GetCurrentInputMethod int
  | S_GetSoftKeyboardInfo int | S_GetCurrentInputMethodSubtype int | S_IsDefaultImeSet int
  | S_EnableIme string string int int | S_ListInputMethodSubtype string int | S_ListCurrentInputMethodSubtype int
  | S_SwitchInputMethod string string u32 int | S_SetEDCDefaultInputMethod string
  | S_IsInputTypeSupported int | S_IsCurrentImeByPid int int | S_StartInputType int bool
  | S_StartInputTypeAsync int bool | S_IsPanelShown "u64 option" panel_info | S_GetInputMethodState
  | S_SendPrivateData private_command | S_ExecTextInteraction string | S_IsKeyboardCallingProcess int u32
  | S_GetCursorInfo int

datatype cevent =
    ListenerEv nat listener_call
  | AgentIpc robj agent_call
  | ServiceIpc service_call
  | SelectByRangeEv nat int int | SelectByMovementEv nat int
  | AttachmentDidFail nat attach_failure_reason
  | KeyCallbackEv nat key_event bool
  | MessageEv nat array_buffer | TerminatedEv nat
  | MonitorInputStop                          \<comment> \<open>\<open>ImeEventMonitorManagerImpl::OnInputStop\<close>, the service died\<close>
  | NotifyInputStopFinished robj
  | SleepEv nat

datatype cquery =
    QSystemAbility bool                       \<comment> \<open>\<open>GetInputMethodSystemAbility\<close> gives an object\<close>
  | QServiceDeathRecipient                    \<comment> \<open>the death recipient is added, or none is needed\<close>
  | QListenerAlive nat                        \<comment> \<open>the weak pointer of a posted task can be promoted\<close>
  | QAnswerInTime nat                         \<comment> \<open>a posted question is answered before the timeout\<close>

text \<open>
  \<open>ce_hasHandler\<close>: the listener's \<open>GetEventHandler\<close> is not null; \<open>ce_u16Next\<close>: the macro \<open>U16_NEXT\<close> of ICU, the
  new offset and whether the character is \<open>U_SENTINEL\<close>; \<open>ce_onDemandSa\<close> is the build switch
  \<open>IMF_ON_DEMAND_START_STOP_SA_ENABLE\<close>.
\<close>

record cenv =
  ce_int :: "cevent list \<Rightarrow> cevent \<Rightarrow> int"
  ce_bool :: "cevent list \<Rightarrow> cquery \<Rightarrow> bool"
  ce_flag :: "cevent list \<Rightarrow> service_call \<Rightarrow> bool"      \<comment> \<open>an output parameter\<close>
  ce_start :: "cevent list \<Rightarrow> robj option list \<times> bind_ime_info list"
  ce_text :: "cevent list \<Rightarrow> nat \<Rightarrow> listener_call \<Rightarrow> u16string"
  ce_cursor :: "cevent list \<Rightarrow> cursor_info"
  ce_scale :: "cevent list \<Rightarrow> u32 \<Rightarrow> cursor_info \<Rightarrow> cursor_info"
  ce_stylus :: "cevent list \<Rightarrow> int"
  ce_time :: "cevent list \<Rightarrow> int"
  ce_hasHandler :: "nat \<Rightarrow> bool"
  ce_isFromTs :: "nat \<Rightarrow> bool"
  ce_u16Next :: "u16string \<Rightarrow> nat \<Rightarrow> nat \<times> bool"
  ce_str8to16 :: "string \<Rightarrow> u16string"
  ce_str16to8 :: "u16string \<Rightarrow> string"
  ce_onDemandSa :: bool
  ce_mainHandler :: bool

datatype main_task = RestoreListenTask | AttachTask

record controller =
  ct_service :: bool                                  \<comment> \<open>\<open>abilityManager_\<close> is not null\<close>
  ct_deathRecipient :: bool
  ct_agents :: "agent_info list"
  ct_listener :: "nat option"
  ct_controllerListener :: "nat option"
  ct_innerListener :: "nat option"
  ct_clientInfo :: input_client_info
  ct_textConfig :: text_config
  ct_cursorInfo :: cursor_info
  ct_isTextNotified :: bool
  ct_textString :: u16string
  ct_selectOldBegin :: int
  ct_selectOldEnd :: int
  ct_selectNewBegin :: int
  ct_selectNewEnd :: int
  ct_isEditable :: bool
  ct_isBound :: bool
  ct_sessionId :: u32
  ct_isDiedAttached :: bool
  ct_isDiedRestoreListen :: bool
  ct_immersive :: immersive_cache
  ct_ptt :: ptt_space_state
  ct_keyCbs :: "(u64 \<times> key_cb_info) list"
  ct_maxCbId :: u64
  ct_entryCount :: u32
  ct_toImeCount :: u32
  ct_toImeFailCount :: u32
  ct_toImeSuccessCount :: u32
  ct_msgHandler :: "nat option"
  ct_bindImeInfo :: "int \<times> string"
  ct_windowScale :: bool                              \<comment> \<open>\<open>windowScaleCallback_\<close> is set\<close>
  ct_stylus :: bool                                   \<comment> \<open>\<open>stylusActivationCallback_\<close> is set\<close>
  ct_posted :: "(nat \<times> listener_call) list"            \<comment> \<open>tasks of the listeners' event handler\<close>
  ct_tasks :: "main_task list"                        \<comment> \<open>delayed tasks of \<open>handler_\<close>\<close>
  ct_log :: "cevent list"

type_synonym 'a ctl = "(controller, 'a) state"

section \<open>Effects\<close>

definition cemit :: "cevent \<Rightarrow> unit ctl" where
  "cemit ev = modify (\<lambda>s. s\<lparr>ct_log := ev # ct_log s\<rparr>)"

definition ccall :: "cenv \<Rightarrow> cevent \<Rightarrow> int ctl" where
  "ccall E ev = do { r \<leftarrow> gets (\<lambda>s. ce_int E (ct_log s) ev); cemit ev; ret r }"

definition cask :: "cenv \<Rightarrow> cquery \<Rightarrow> bool ctl" where
  "cask E q = gets (\<lambda>s. ce_bool E (ct_log s) q)"

definition upd_client_info :: "(input_client_info \<Rightarrow> input_client_info) \<Rightarrow> unit ctl" where
  "upd_client_info f = modify (\<lambda>s. s\<lparr>ct_clientInfo := f (ct_clientInfo s)\<rparr>)"

definition upd_text_config :: "(text_config \<Rightarrow> text_config) \<Rightarrow> unit ctl" where
  "upd_text_config f = modify (\<lambda>s. s\<lparr>ct_textConfig := f (ct_textConfig s)\<rparr>)"

section \<open>The service's proxy\<close>

definition GetSystemAbilityProxy :: "cenv \<Rightarrow> bool \<Rightarrow> bool ctl" where
  "GetSystemAbilityProxy E ifRetry = do {
     present \<leftarrow> gets ct_service;
     if present then ret True
     else do {
       found \<leftarrow> cask E (QSystemAbility ifRetry);
       if \<not> found then ret False
       else do {
         modify (\<lambda>s. s\<lparr>ct_deathRecipient := True\<rparr>);
         added \<leftarrow> cask E QServiceDeathRecipient;
         if \<not> added then ret False
         else do { modify (\<lambda>s. s\<lparr>ct_service := True\<rparr>); ret True } } } }"

definition TryGetSystemAbilityProxy :: "cenv \<Rightarrow> bool ctl" where
  "TryGetSystemAbilityProxy E = GetSystemAbilityProxy E (\<not> ce_onDemandSa E)"

definition RemoveDeathRecipient :: "unit ctl" where
  "RemoveDeathRecipient = modify (\<lambda>s. s\<lparr>ct_deathRecipient := False, ct_service := False\<rparr>)"

text \<open>A request that needs the service: \<open>err\<close> when there is none.\<close>

definition with_service :: "cenv \<Rightarrow> 'a \<Rightarrow> 'a ctl \<Rightarrow> 'a ctl" where
  "with_service E err m = do { p \<leftarrow> GetSystemAbilityProxy E True; if p then m else ret err }"

definition try_service :: "cenv \<Rightarrow> 'a \<Rightarrow> 'a ctl \<Rightarrow> 'a ctl" where
  "try_service E err m = do { p \<leftarrow> TryGetSystemAbilityProxy E; if p then m else ret err }"

section \<open>The editor's listener\<close>

text \<open>
  The functions \<open>...V2\<close> of \<open>OnTextChangedListener\<close>: without an event handler the virtual function is
  called at once, otherwise a task is posted that calls it when the listener still exists.
\<close>

definition listener_run :: "nat \<Rightarrow> listener_call \<Rightarrow> unit ctl" where
  "listener_run l c = cemit (ListenerEv l c)"

definition listener_dispatch :: "cenv \<Rightarrow> nat \<Rightarrow> listener_call \<Rightarrow> unit ctl" where
  "listener_dispatch E l c =
     (if \<not> ce_hasHandler E l then listener_run l c
      else modify (\<lambda>s. s\<lparr>ct_posted := ct_posted s @ [(l, c)]\<rparr>))"

definition run_posted_task :: "cenv \<Rightarrow> nat \<times> listener_call \<Rightarrow> unit ctl" where
  "run_posted_task E t = do {
     alive \<leftarrow> cask E (QListenerAlive (fst t));
     when_do alive (listener_run (fst t) (snd t)) }"

text \<open>The event handler's thread runs everything that was posted, in order.\<close>

definition run_posted :: "cenv \<Rightarrow> unit ctl" where
  "run_posted E = do {
     ts \<leftarrow> gets ct_posted;
     modify (\<lambda>s. s\<lparr>ct_posted := []\<rparr>);
     for_each ts (run_posted_task E) }"

definition InsertTextV2 :: "cenv \<Rightarrow> nat \<Rightarrow> u16string \<Rightarrow> unit ctl" where
  "InsertTextV2 E l text = listener_dispatch E l (L_InsertText text)"

definition DeleteForwardV2 :: "cenv \<Rightarrow> nat \<Rightarrow> int \<Rightarrow> unit ctl" where
  "DeleteForwardV2 E l len = listener_dispatch E l (L_DeleteForward len)"

definition DeleteBackwardV2 :: "cenv \<Rightarrow> nat \<Rightarrow> int \<Rightarrow> unit ctl" where
  "DeleteBackwardV2 E l len = listener_dispatch E l (L_DeleteBackward len)"

text \<open>Without a handler this one promotes a weak pointer to itself as well.\<close>

definition SendKeyboardStatusV2 :: "cenv \<Rightarrow> nat \<Rightarrow> keyboard_status \<Rightarrow> unit ctl" where
  "SendKeyboardStatusV2 E l st =
     (if \<not> ce_hasHandler E l then run_posted_task E (l, L_SendKeyboardStatus st)
      else modify (\<lambda>s. s\<lparr>ct_posted := ct_posted s @ [(l, L_SendKeyboardStatus st)]\<rparr>))"

definition SendFunctionKeyV2 :: "cenv \<Rightarrow> nat \<Rightarrow> int \<Rightarrow> unit ctl" where
  "SendFunctionKeyV2 E l key = listener_dispatch E l (L_SendFunctionKey key)"

definition MoveCursorV2 :: "cenv \<Rightarrow> nat \<Rightarrow> int \<Rightarrow> unit ctl" where
  "MoveCursorV2 E l direction = listener_dispatch E l (L_MoveCursor direction)"

definition HandleExtendActionV2 :: "cenv \<Rightarrow> nat \<Rightarrow> int \<Rightarrow> unit ctl" where
  "HandleExtendActionV2 E l action = listener_dispatch E l (L_HandleExtendAction action)"

definition SendKeyEventFromInputMethodV2 :: "cenv \<Rightarrow> nat \<Rightarrow> unit ctl" where
  "SendKeyEventFromInputMethodV2 E l = listener_dispatch E l L_SendKeyEventFromInputMethod"

definition NotifyPanelStatusInfoV2 :: "cenv \<Rightarrow> nat \<Rightarrow> panel_status_info \<Rightarrow> unit ctl" where
  "NotifyPanelStatusInfoV2 E l info = listener_dispatch E l (L_NotifyPanelStatusInfo info)"

definition NotifyKeyboardHeightV2 :: "cenv \<Rightarrow> nat \<Rightarrow> u32 \<Rightarrow> unit ctl" where
  "NotifyKeyboardHeightV2 E l h = listener_dispatch E l (L_NotifyKeyboardHeight h)"

definition SetKeyboardStatusV2 :: "cenv \<Rightarrow> nat \<Rightarrow> bool \<Rightarrow> unit ctl" where
  "SetKeyboardStatusV2 E l status = listener_dispatch E l (L_SetKeyboardStatus status)"

definition HandleSetSelectionV2 :: "cenv \<Rightarrow> nat \<Rightarrow> int \<Rightarrow> int \<Rightarrow> unit ctl" where
  "HandleSetSelectionV2 E l a b = listener_dispatch E l (L_HandleSetSelection a b)"

definition HandleSelectV2 :: "cenv \<Rightarrow> nat \<Rightarrow> int \<Rightarrow> int \<Rightarrow> unit ctl" where
  "HandleSelectV2 E l keyCode skip = listener_dispatch E l (L_HandleSelect keyCode skip)"

definition FinishTextPreviewV2 :: "cenv \<Rightarrow> nat \<Rightarrow> unit ctl" where
  "FinishTextPreviewV2 E l = listener_dispatch E l L_FinishTextPreview"

definition OnDetachV2 :: "cenv \<Rightarrow> nat \<Rightarrow> unit ctl" where
  "OnDetachV2 E l = listener_dispatch E l L_OnDetach"

text \<open>The result of a posted command is not waited for.\<close>

definition ReceivePrivateCommandV2 :: "cenv \<Rightarrow> nat \<Rightarrow> private_command \<Rightarrow> int ctl" where
  "ReceivePrivateCommandV2 E l m =
     (if \<not> ce_hasHandler E l then ccall E (ListenerEv l (L_ReceivePrivateCommand m))
      else do { modify (\<lambda>s. s\<lparr>ct_posted := ct_posted s @ [(l, L_ReceivePrivateCommand m)]\<rparr>); ret NO_ERROR })"

definition SetPreviewTextV2 :: "cenv \<Rightarrow> nat \<Rightarrow> u16string \<Rightarrow> range \<Rightarrow> int ctl" where
  "SetPreviewTextV2 E l text r =
     (if \<not> ce_hasHandler E l then ccall E (ListenerEv l (L_SetPreviewText text r))
      else do { modify (\<lambda>s. s\<lparr>ct_posted := ct_posted s @ [(l, L_SetPreviewText text r)]\<rparr>); ret NO_ERROR })"

text \<open>
  A posted question is waited for: the handler runs what was posted before it, then the question. After
  the timeout the default value is returned and the task stays posted. \<open>answer\<close> reads the listener's
  result, \<open>dflt\<close> is what a vanished listener and a timeout give.
\<close>

definition listener_question :: "cenv \<Rightarrow> nat \<Rightarrow> listener_call \<Rightarrow> (controller \<Rightarrow> 'a) \<Rightarrow> 'a \<Rightarrow> 'a ctl" where
  "listener_question E l c answer dflt =
     (if \<not> ce_hasHandler E l then do { r \<leftarrow> gets answer; listener_run l c; ret r }
      else do {
        inTime \<leftarrow> cask E (QAnswerInTime l);
        if \<not> inTime then do { modify (\<lambda>s. s\<lparr>ct_posted := ct_posted s @ [(l, c)]\<rparr>); ret dflt }
        else do {
          run_posted E;
          alive \<leftarrow> cask E (QListenerAlive l);
          if \<not> alive then ret dflt
          else do { r \<leftarrow> gets answer; listener_run l c; ret r } } })"

definition GetLeftTextOfCursorV2 :: "cenv \<Rightarrow> nat \<Rightarrow> int \<Rightarrow> u16string ctl" where
  "GetLeftTextOfCursorV2 E l number = listener_question E l (L_GetLeftTextOfCursor number)
     (\<lambda>s. ce_text E (ct_log s) l (L_GetLeftTextOfCursor number)) []"

definition GetRightTextOfCursorV2 :: "cenv \<Rightarrow> nat \<Rightarrow> int \<Rightarrow> u16string ctl" where
  "GetRightTextOfCursorV2 E l number = listener_question E l (L_GetRightTextOfCursor number)
     (\<lambda>s. ce_text E (ct_log s) l (L_GetRightTextOfCursor number)) []"

definition GetTextIndexAtCursorV2 :: "cenv \<Rightarrow> nat \<Rightarrow> int ctl" where
  "GetTextIndexAtCursorV2 E l = listener_question E l L_GetTextIndexAtCursor
     (\<lambda>s. ce_int E (ct_log s) (ListenerEv l L_GetTextIndexAtCursor)) (- 1)"

section \<open>Small helpers\<close>

definition IsEditable :: "controller \<Rightarrow> bool" where
  "IsEditable s = (if ci_state (ct_clientInfo s) \<noteq> ACTIVE then False else ct_isEditable s)"

definition IsBound :: "controller \<Rightarrow> bool" where
  "IsBound s = (if ci_state (ct_clientInfo s) \<noteq> ACTIVE then False else ct_isBound s)"

definition WasAttached :: "controller \<Rightarrow> bool" where
  "WasAttached s = ct_isBound s"

definition SetTextListener :: "nat option \<Rightarrow> unit ctl" where
  "SetTextListener l = modify (\<lambda>s. s\<lparr>ct_listener := l\<rparr>)"

definition SetControllerListener :: "nat option \<Rightarrow> unit ctl" where
  "SetControllerListener l = modify (\<lambda>s. s\<lparr>ct_controllerListener := l\<rparr>)"

definition SetImcInnerListener :: "nat option \<Rightarrow> unit ctl" where
  "SetImcInnerListener l = modify (\<lambda>s. if ct_innerListener s \<noteq> None then s else s\<lparr>ct_innerListener := l\<rparr>)"

definition RegisterWindowScaleCallbackHandler :: "bool \<Rightarrow> int ctl" where
  "RegisterWindowScaleCallbackHandler set_it = do { modify (\<lambda>s. s\<lparr>ct_windowScale := set_it\<rparr>); ret NO_ERROR }"

definition RegisterStylusActivationCallbackHandler :: "bool \<Rightarrow> int ctl" where
  "RegisterStylusActivationCallbackHandler set_it = do { modify (\<lambda>s. s\<lparr>ct_stylus := set_it\<rparr>); ret NO_ERROR }"

text \<open>\<open>GetStylusActivationType() == StylusActivationType::STYLUS\<close>\<close>

definition IsStylusActivation :: "cenv \<Rightarrow> controller \<Rightarrow> bool" where
  "IsStylusActivation E s = (if \<not> ct_stylus s then False else ce_stylus E (ct_log s) = 1)"

definition GetWindowScaleCoordinate :: "cenv \<Rightarrow> u32 \<Rightarrow> cursor_info \<Rightarrow> controller \<Rightarrow> cursor_info" where
  "GetWindowScaleCoordinate E w cur s = (if \<not> ct_windowScale s then cur else ce_scale E (ct_log s) w cur)"

definition ResetKeyEventCount :: "unit ctl" where
  "ResetKeyEventCount = modify (\<lambda>s. s\<lparr>ct_entryCount := 0, ct_toImeCount := 0, ct_toImeFailCount := 0,
     ct_toImeSuccessCount := 0\<rparr>)"

definition ResetPttSpaceKeyEventState :: "unit ctl" where
  "ResetPttSpaceKeyEventState = modify (\<lambda>s. s\<lparr>ct_ptt := PTT_UP\<rparr>)"

definition SetBindImeInfo :: "int \<times> string \<Rightarrow> unit ctl" where
  "SetBindImeInfo i = modify (\<lambda>s. s\<lparr>ct_bindImeInfo := i\<rparr>)"

text \<open>\<open>StringUtils::TruncateUtf16String\<close>: the loop over the characters, at most \<open>n\<close> of them.\<close>

fun truncate_offset :: "(u16string \<Rightarrow> nat \<Rightarrow> nat \<times> bool) \<Rightarrow> u16string \<Rightarrow> nat \<Rightarrow> nat \<Rightarrow> nat" where
  "truncate_offset nx s offset 0 = offset"
| "truncate_offset nx s offset (Suc n) =
     (if offset < length s then
        (case nx s offset of (offset', sentinel) \<Rightarrow> if sentinel then offset' else truncate_offset nx s offset' n)
      else offset)"

definition TruncateUtf16String :: "(u16string \<Rightarrow> nat \<Rightarrow> nat \<times> bool) \<Rightarrow> u16string \<Rightarrow> int \<Rightarrow> u16string" where
  "TruncateUtf16String nx s maxChars =
     (if maxChars < 0 \<or> int (length s) \<le> maxChars then s
      else let offset = truncate_offset nx s 0 (nat maxChars) in if offset < length s then take offset s else s)"

section \<open>Agents\<close>

abbreviation IME_MIRROR_NAME :: string where "IME_MIRROR_NAME \<equiv> ''proxyIme_IME_MIRROR''"

definition SetAgent :: "robj option \<Rightarrow> string \<Rightarrow> unit ctl" where
  "SetAgent agentObject bundleName = modify (\<lambda>s.
     if \<exists>a \<in> set (ct_agents s). ag_agent a \<noteq> None \<and> ag_object a = agentObject then s
     else s\<lparr>ct_agents := ct_agents s @ [\<lparr>ag_object = agentObject, ag_agent = agentObject,
       ag_imeType = (if bundleName = IME_MIRROR_NAME then IME_MIRROR else IME_NONE)\<rparr>]\<rparr>)"

definition GetAgent :: "controller \<Rightarrow> robj option" where
  "GetAgent s = (case List.find (\<lambda>a. ag_agent a \<noteq> None \<and> ag_imeType a \<noteq> IME_MIRROR) (ct_agents s) of
     None \<Rightarrow> None | Some a \<Rightarrow> ag_agent a)"

definition ClearAgentInfo :: "unit ctl" where
  "ClearAgentInfo = modify (\<lambda>s. s\<lparr>ct_agents := []\<rparr>)"

text \<open>The loop over the agents; \<open>task\<close> is the request to one agent.\<close>

fun send_to_agents :: "bool \<Rightarrow> (robj \<Rightarrow> int ctl) \<Rightarrow> agent_info list \<Rightarrow> int \<Rightarrow> int ctl" where
  "send_to_agents secure task [] finalRet = ret finalRet"
| "send_to_agents secure task (a # as) finalRet =
     (if ag_imeType a = IME_MIRROR \<and> secure then send_to_agents secure task as finalRet
      else case ag_agent a of
          None \<Rightarrow> if ag_imeType a = IME_MIRROR then send_to_agents secure task as finalRet
                  else ret ERROR_CLIENT_NULL_POINTER
        | Some k \<Rightarrow> do {
            r \<leftarrow> task k;
            send_to_agents secure task as (if ag_imeType a \<noteq> IME_MIRROR then r else finalRet) })"

definition SendRequestToAllAgents :: "(robj \<Rightarrow> int ctl) \<Rightarrow> int ctl" where
  "SendRequestToAllAgents task = do {
     as \<leftarrow> gets ct_agents;
     secure \<leftarrow> gets (\<lambda>s. IsSecurityImeFlag (xc_inputAttribute (ct_textConfig s)));
     send_to_agents secure task as NO_ERROR }"

text \<open>An entry of the list always has an agent; the code does not test for a null one here.\<close>

definition SendRequestToImeMirrorAgent :: "(robj \<Rightarrow> int ctl) \<Rightarrow> int ctl" where
  "SendRequestToImeMirrorAgent task = do {
     s \<leftarrow> State_Monad.get;
     (case List.find (\<lambda>a. ag_imeType a = IME_MIRROR) (ct_agents s) of
        None \<Rightarrow> ret ERROR_IME_NOT_FOUND
      | Some a \<Rightarrow>
          if IsSecurityImeFlag (xc_inputAttribute (ct_textConfig s)) then ret ERROR_STATUS_PERMISSION_DENIED
          else (case ag_agent a of None \<Rightarrow> ret ERROR_CLIENT_NULL_POINTER | Some k \<Rightarrow> task k)) }"

end
