(* ===== verification/Controller_Ops.thy ===== *)
theory Controller_Ops
  imports Controller_Base
begin

text \<open>
  The session between an editor and the service, on the client side: attaching and detaching, showing and
  hiding the keyboard, what the service tells the client (\<open>input_client_service_impl.cpp\<close>), and the
  recovery when the service dies. Operations in the order of \<open>input_method_controller.cpp\<close>.
\<close>

section \<open>Start\<close>

text \<open>The fields of a controller before \<open>Initialize\<close>.\<close>

definition blank_controller :: controller where
  "blank_controller = \<lparr>ct_service = False, ct_deathRecipient = False, ct_agents = [], ct_listener = None,
     ct_controllerListener = None, ct_innerListener = None, ct_clientInfo = default_input_client_info,
     ct_textConfig = default_text_config, ct_cursorInfo = default_cursor_info, ct_isTextNotified = False,
     ct_textString = [], ct_selectOldBegin = 0, ct_selectOldEnd = 0, ct_selectNewBegin = 0, ct_selectNewEnd = 0,
     ct_isEditable = False, ct_isBound = False, ct_sessionId = 0, ct_isDiedAttached = False,
     ct_isDiedRestoreListen = False, ct_immersive = \<lparr>ic_isSupportPcModeCached = False,
       ic_isSupportPcModeQueried = False, ic_isDisablePcModeImmersiveModeCached = False,
       ic_isDisablePcModeImmersiveModeQueried = False, ic_isDisableImmersiveModeCached = False,
       ic_isDisableImmersiveModeQueried = False\<rparr>,
     ct_ptt = PTT_UP, ct_keyCbs = [], ct_maxCbId = 1, ct_entryCount = 0, ct_toImeCount = 0, ct_toImeFailCount = 0,
     ct_toImeSuccessCount = 0, ct_msgHandler = None, ct_bindImeInfo = (0, ''''), ct_windowScale = False,
     ct_stylus = False, ct_posted = [], ct_tasks = [], ct_log = []\<rparr>"

abbreviation PATTERN_TEXT :: int where "PATTERN_TEXT \<equiv> 1"

text \<open>\<open>client\<close> and \<open>channel\<close> are the stubs that the two allocations give, or null.\<close>

definition Initialize :: "robj option \<Rightarrow> robj option \<Rightarrow> int ctl" where
  "Initialize client channel = (case client of None \<Rightarrow> ret ERROR_NULL_POINTER
     | Some c \<Rightarrow> (case channel of None \<Rightarrow> ret ERROR_NULL_POINTER
       | Some ch \<Rightarrow> do {
           upd_client_info (\<lambda>ci. ci\<lparr>ci_ownAttribute := default_input_attribute\<lparr>ia_inputPattern := PATTERN_TEXT\<rparr>,
             ci_client := Some c, ci_channel := Some ch\<rparr>);
           ret NO_ERROR }))"

section \<open>Event flags\<close>

definition RestoreListenEventFlag :: "cenv \<Rightarrow> int ctl" where
  "RestoreListenEventFlag E = with_service E ERROR_SERVICE_START_FAILED (do {
     ci \<leftarrow> gets ct_clientInfo;
     ccall E (ServiceIpc (S_UpdateListenEventFlag (InputClientInfoToInner ci) 0)) })"

definition UpdateListenEventFlag :: "cenv \<Rightarrow> u32 \<Rightarrow> u32 \<Rightarrow> bool \<Rightarrow> int ctl" where
  "UpdateListenEventFlag E finalEventFlag eventFlag isOn = do {
     old \<leftarrow> gets (\<lambda>s. ci_eventFlag (ct_clientInfo s));
     upd_client_info (\<lambda>ci. ci\<lparr>ci_eventFlag := finalEventFlag\<rparr>);
     up \<leftarrow> (if isOn then ret True else TryGetSystemAbilityProxy E);
     if \<not> up then ret NO_ERROR
     else do {
       p \<leftarrow> GetSystemAbilityProxy E True;
       if \<not> p then do {
         when_do isOn (upd_client_info (\<lambda>ci. ci\<lparr>ci_eventFlag := old\<rparr>));
         ret ERROR_SERVICE_START_FAILED }
       else do {
         ci \<leftarrow> gets ct_clientInfo;
         r \<leftarrow> ccall E (ServiceIpc (S_UpdateListenEventFlag (InputClientInfoToInner ci) eventFlag));
         when_do (r \<noteq> NO_ERROR \<and> isOn) (upd_client_info (\<lambda>ci. ci\<lparr>ci_eventFlag := old\<rparr>));
         ret r } } }"

section \<open>Keyboard status\<close>

definition SendKeyboardStatus :: "cenv \<Rightarrow> keyboard_status \<Rightarrow> unit ctl" where
  "SendKeyboardStatus E status = do {
     l \<leftarrow> gets ct_listener;
     (case l of None \<Rightarrow> ret ()
      | Some k \<Rightarrow> do {
          SendKeyboardStatusV2 E k status;
          when_do (status = KBD_HIDE) (upd_client_info (\<lambda>ci. ci\<lparr>ci_isShowKeyboard := False\<rparr>)) }) }"

definition DeactivateClient :: "cenv \<Rightarrow> unit ctl" where
  "DeactivateClient E = do {
     ResetPttSpaceKeyEventState;
     upd_client_info (\<lambda>ci. ci\<lparr>ci_state := INACTIVE\<rparr>);
     SendKeyboardStatus E KBD_NONE }"

section \<open>Immersive mode\<close>

definition CalibrateImmersiveParam :: "bool \<Rightarrow> input_attribute \<Rightarrow> input_attribute" where
  "CalibrateImmersiveParam shouldOverride a =
     (let a = (if shouldOverride then a\<lparr>ia_immersiveMode := 0\<rparr> else a) in
      if ia_immersiveMode a = 0 then
        (if ia_gradientMode a \<noteq> 0 \<or> ia_fluidLightMode a \<noteq> 0 then a\<lparr>ia_gradientMode := 0, ia_fluidLightMode := 0\<rparr> else a)
      else if ia_gradientMode a = 0 \<and> ia_fluidLightMode a \<noteq> 0 then a\<lparr>ia_fluidLightMode := 0\<rparr>
      else a)"

text \<open>A capability of the device: from the cache, or from the service, whose answer is then cached.\<close>

definition cached_capacity :: "cenv \<Rightarrow> int \<Rightarrow> (immersive_cache \<Rightarrow> bool) \<Rightarrow> (immersive_cache \<Rightarrow> bool)
    \<Rightarrow> (bool \<Rightarrow> immersive_cache \<Rightarrow> immersive_cache) \<Rightarrow> bool ctl" where
  "cached_capacity E cap queried cached store = do {
     c \<leftarrow> gets ct_immersive;
     if queried c then ret (cached c)
     else try_service E False (do {
       b \<leftarrow> gets (\<lambda>s. ce_flag E (ct_log s) (S_IsCapacitySupport cap));
       r \<leftarrow> ccall E (ServiceIpc (S_IsCapacitySupport cap));
       if r \<noteq> NO_ERROR then ret False
       else do { modify (\<lambda>s. s\<lparr>ct_immersive := store b (ct_immersive s)\<rparr>); ret b } }) }"

definition IsDisableImmersiveMode :: "cenv \<Rightarrow> bool ctl" where
  "IsDisableImmersiveMode E = cached_capacity E 2 ic_isDisableImmersiveModeQueried ic_isDisableImmersiveModeCached
     (\<lambda>b c. c\<lparr>ic_isDisableImmersiveModeCached := b, ic_isDisableImmersiveModeQueried := True\<rparr>)"

definition IsSupportPcMode :: "cenv \<Rightarrow> bool ctl" where
  "IsSupportPcMode E = cached_capacity E 3 ic_isSupportPcModeQueried ic_isSupportPcModeCached
     (\<lambda>b c. c\<lparr>ic_isSupportPcModeCached := b, ic_isSupportPcModeQueried := True\<rparr>)"

definition IsDisablePcModeImmersiveMode :: "cenv \<Rightarrow> bool ctl" where
  "IsDisablePcModeImmersiveMode E =
     cached_capacity E 4 ic_isDisablePcModeImmersiveModeQueried ic_isDisablePcModeImmersiveModeCached
       (\<lambda>b c. c\<lparr>ic_isDisablePcModeImmersiveModeCached := b, ic_isDisablePcModeImmersiveModeQueried := True\<rparr>)"

definition IsPcMode :: "cenv \<Rightarrow> bool ctl" where
  "IsPcMode E = try_service E False (do {
     b \<leftarrow> gets (\<lambda>s. ce_flag E (ct_log s) (S_IsCapacitySupport 5));
     r \<leftarrow> ccall E (ServiceIpc (S_IsCapacitySupport 5));
     ret (if r \<noteq> NO_ERROR then False else b) })"

definition ShouldOverrideImmersiveMode :: "cenv \<Rightarrow> text_config \<Rightarrow> bool ctl" where
  "ShouldOverrideImmersiveMode E t =
     (if ia_immersiveMode (xc_inputAttribute t) = 0 then ret False
      else do {
        pc \<leftarrow> IsSupportPcMode E;
        if pc then do {
          m \<leftarrow> IsPcMode E;
          if m then IsDisablePcModeImmersiveMode E else IsDisableImmersiveMode E }
        else IsDisableImmersiveMode E })"

section \<open>The editor's configuration\<close>

abbreviation MAX_PLACEHOLDER_SIZE :: int where "MAX_PLACEHOLDER_SIZE \<equiv> 255"
abbreviation MAX_ABILITY_NAME_SIZE :: int where "MAX_ABILITY_NAME_SIZE \<equiv> 127"

definition truncate_names :: "cenv \<Rightarrow> input_attribute \<Rightarrow> input_attribute" where
  "truncate_names E a =
     a\<lparr>ia_placeholder := TruncateUtf16String (ce_u16Next E) (ia_placeholder a) MAX_PLACEHOLDER_SIZE,
       ia_abilityName := TruncateUtf16String (ce_u16Next E) (ia_abilityName a) MAX_ABILITY_NAME_SIZE\<rparr>"

definition SaveTextConfig :: "cenv \<Rightarrow> text_config \<Rightarrow> unit ctl" where
  "SaveTextConfig E t = do {
     cursorInfo \<leftarrow> gets (GetWindowScaleCoordinate E (xc_windowId t) (xc_cursorInfo t));
     upd_text_config (\<lambda>_. t);
     shouldOverride \<leftarrow> ShouldOverrideImmersiveMode E t;
     upd_text_config (\<lambda>c. c\<lparr>xc_inputAttribute :=
         truncate_names E (CalibrateImmersiveParam shouldOverride (xc_inputAttribute c)),
       xc_cursorInfo := cursorInfo\<rparr>);
     when_do (rg_start (xc_range t) \<noteq> INVALID_VALUE)
       (modify (\<lambda>s. s\<lparr>ct_selectOldBegin := ct_selectNewBegin s, ct_selectOldEnd := ct_selectNewEnd s,
          ct_selectNewBegin := rg_start (xc_range t), ct_selectNewEnd := rg_end (xc_range t)\<rparr>)) }"

definition GetTextConfig :: "controller \<Rightarrow> text_total_config \<Rightarrow> text_total_config" where
  "GetTextConfig s c =
     (let t = ct_textConfig s;
          c = c\<lparr>tc_inputAttribute := xc_inputAttribute t, tc_cursorInfo := xc_cursorInfo t, tc_windowId := xc_windowId t,
            tc_positionY := xc_positionY t, tc_height := xc_height t, tc_privateCommand := xc_privateCommand t,
            tc_abilityToken := xc_abilityToken t\<rparr> in
      if rg_start (xc_range t) = INVALID_VALUE then c
      else c\<lparr>tc_textSelection := \<lparr>ts_oldBegin = ct_selectOldBegin s, ts_oldEnd = ct_selectOldEnd s,
        ts_newBegin = rg_start (xc_range t), ts_newEnd = rg_end (xc_range t)\<rparr>\<rparr>)"

definition clear_editor :: "controller \<Rightarrow> controller" where
  "clear_editor s = s\<lparr>ct_textString := [], ct_selectOldBegin := INVALID_VALUE, ct_selectOldEnd := INVALID_VALUE,
     ct_selectNewBegin := INVALID_VALUE, ct_selectNewEnd := INVALID_VALUE\<rparr>"

definition ClearEditorCache :: "cenv \<Rightarrow> bool \<Rightarrow> nat option \<Rightarrow> unit ctl" where
  "ClearEditorCache E isNewEditor lastListener = do {
     s \<leftarrow> State_Monad.get;
     (case lastListener of None \<Rightarrow> ret ()
      | Some l \<Rightarrow> when_do (isNewEditor \<and> ct_isBound s \<and> ia_isTextPreviewSupported (xc_inputAttribute (ct_textConfig s)))
          (FinishTextPreviewV2 E l));
     when_do (isNewEditor \<or> \<not> ct_isBound s) (modify (\<lambda>s. (clear_editor s)\<lparr>ct_isTextNotified := False\<rparr>));
     upd_text_config (\<lambda>_. default_text_config);
     modify (\<lambda>s. s\<lparr>ct_cursorInfo := default_cursor_info\<rparr>);
     upd_client_info (\<lambda>ci. ci\<lparr>ci_config := default_text_total_config\<lparr>tc_isSimpleKeyboardEnabled :=
       tc_isSimpleKeyboardEnabled (ci_config ci)\<rparr>\<rparr>) }"

section \<open>Input ready and input stop\<close>

definition OnInputReady :: "robj option \<Rightarrow> bind_ime_info \<Rightarrow> unit ctl" where
  "OnInputReady agentObject imeInfo = do {
     when_do (bi_bundleName imeInfo \<noteq> IME_MIRROR_NAME) (do {
       SetBindImeInfo (bi_pid imeInfo, bi_bundleName imeInfo);
       modify (\<lambda>s. s\<lparr>ct_isBound := True, ct_isEditable := True\<rparr>) });
     (case agentObject of None \<Rightarrow> ret () | Some k \<Rightarrow> SetAgent (Some k) (bi_bundleName imeInfo)) }"

definition SetInputReady :: "robj option list \<Rightarrow> bind_ime_info list \<Rightarrow> unit ctl" where
  "SetInputReady agentObjects imeInfos =
     (if length agentObjects \<noteq> length imeInfos then ret ()
      else for_each (zip agentObjects imeInfos) (\<lambda>ai. OnInputReady (fst ai) (snd ai)))"

definition notify_stop_finished :: "robj option \<Rightarrow> unit ctl" where
  "notify_stop_finished proxy = (case proxy of None \<Rightarrow> ret () | Some p \<Rightarrow> cemit (NotifyInputStopFinished p))"

text \<open>The steps that both ways of stopping share.\<close>

definition leave_input :: "unit ctl" where
  "leave_input = do {
     modify (\<lambda>s. s\<lparr>ct_isBound := False\<rparr>);
     ed \<leftarrow> gets ct_isEditable;
     when_do ed ResetKeyEventCount;
     modify (\<lambda>s. s\<lparr>ct_isEditable := False, ct_isTextNotified := False, ct_keyCbs := []\<rparr>) }"

definition OnTmpInputStop :: "cenv \<Rightarrow> robj option \<Rightarrow> unit ctl" where
  "OnTmpInputStop E proxy = do {
     ClearAgentInfo;
     s \<leftarrow> State_Monad.get;
     (case ct_listener s of None \<Rightarrow> ret ()
      | Some l \<Rightarrow> when_do (\<not> ci_isNotifyInputStart (ct_clientInfo s)
            \<and> ia_isTextPreviewSupported (xc_inputAttribute (ct_textConfig s))) (FinishTextPreviewV2 E l));
     leave_input;
     notify_stop_finished proxy }"

definition OnInputStop :: "cenv \<Rightarrow> bool \<Rightarrow> robj option \<Rightarrow> bool \<Rightarrow> bool \<Rightarrow> unit ctl" where
  "OnInputStop E isStopInactiveClient proxy isSendKeyboardStatus isStopByMultiPreemptInProc =
     (if isStopByMultiPreemptInProc then OnTmpInputStop E proxy
      else do {
        ClearAgentInfo;
        s \<leftarrow> State_Monad.get;
        (case ct_listener s of None \<Rightarrow> ret ()
         | Some l \<Rightarrow> do {
             when_do (ia_isTextPreviewSupported (xc_inputAttribute (ct_textConfig s))) (FinishTextPreviewV2 E l);
             when_do (isSendKeyboardStatus \<and> (\<not> isStopInactiveClient \<or> \<not> ce_isFromTs E l))
               (SendKeyboardStatusV2 E l KBD_HIDE) });
        leave_input;
        modify clear_editor;
        notify_stop_finished proxy })"

definition OnImeMirrorStop :: "robj option \<Rightarrow> unit ctl" where
  "OnImeMirrorStop obj = modify (\<lambda>s. s\<lparr>ct_agents :=
     (case List.extract (\<lambda>a. ag_object a = obj) (ct_agents s) of
        None \<Rightarrow> ct_agents s | Some (before, _, after) \<Rightarrow> before @ after)\<rparr>)"

section \<open>Attach\<close>

definition StartInput_c :: "cenv \<Rightarrow> (int \<times> robj option list \<times> bind_ime_info list) ctl" where
  "StartInput_c E = do {
     ResetPttSpaceKeyEventState;
     with_service E (ERROR_SERVICE_START_FAILED, [], []) (do {
       ci \<leftarrow> gets ct_clientInfo;
       out \<leftarrow> gets (\<lambda>s. ce_start E (ct_log s));
       r \<leftarrow> ccall E (ServiceIpc (S_StartInput (InputClientInfoToInner ci)));
       ret (r, out) }) }"

definition IsValidTextConfig :: "text_config \<Rightarrow> int" where
  "IsValidTextConfig t =
     (if ia_immersiveMode (xc_inputAttribute t) < 0 \<or> ia_immersiveMode (xc_inputAttribute t) \<ge> 4
      then ERROR_PARAMETER_CHECK_FAILED else NO_ERROR)"

definition PrepareAttach :: "cenv \<Rightarrow> nat option \<Rightarrow> attach_options \<Rightarrow> text_config \<Rightarrow> client_type \<Rightarrow> unit ctl" where
  "PrepareAttach E listener opts t type = do {
     lastListener \<leftarrow> gets ct_listener;
     let isNew = (lastListener \<noteq> listener);
     upd_client_info (\<lambda>ci. ci\<lparr>ci_isNotifyInputStart := isNew\<rparr>);
     when_do isNew (modify (\<lambda>s. s\<lparr>ct_sessionId := ct_sessionId s + 1\<rparr>));
     (case lastListener of None \<Rightarrow> ret () | Some l \<Rightarrow> when_do isNew (OnDetachV2 E l));
     ClearEditorCache E isNew lastListener;
     SetTextListener listener;
     SaveTextConfig E t;
     stylus \<leftarrow> gets (IsStylusActivation E);
     modify (\<lambda>s. s\<lparr>ct_clientInfo := (ct_clientInfo s)\<lparr>ci_config := GetTextConfig s (ci_config (ct_clientInfo s))\<rparr>\<rparr>);
     upd_client_info (\<lambda>ci. ci\<lparr>ci_isShowKeyboard := ao_isShowKeyboard opts, ci_type := type,
       ci_config := (ci_config ci)\<lparr>tc_requestKeyboardReason := ao_requestKeyboardReason opts\<rparr>,
       ci_isStylusActivation := stylus\<rparr>) }"

definition attach_failure_reason_of :: "int \<Rightarrow> attach_failure_reason" where
  "attach_failure_reason_of e =
     (if e = ERROR_CLIENT_NOT_FOCUSED then CALLER_NOT_FOCUSED
      else if e \<in> {ERROR_IME_NOT_STARTED, ERROR_IMSA_REBOOT_OLD_IME_NOT_STOP, ERROR_IMSA_IME_CONNECT_FAILED,
        ERROR_IMSA_IME_DISCONNECT_FAILED, ERROR_IMSA_IME_START_TIMEOUT, ERROR_IMSA_IME_START_MORE_THAN_EIGHT_SECOND,
        ERROR_IMSA_FORCE_STOP_IME_TIMEOUT, ERROR_IME_NOT_FOUND, ERROR_TRY_IME_START_FAILED,
        ERROR_IME_START_INPUT_FAILED} then IME_ABNORMAL
      else SERVICE_ABNORMAL)"

definition NotifyAttachFailure :: "int \<Rightarrow> unit ctl" where
  "NotifyAttachFailure errCode = do {
     l \<leftarrow> gets ct_innerListener;
     (case l of None \<Rightarrow> ret () | Some k \<Rightarrow> cemit (AttachmentDidFail k (attach_failure_reason_of errCode))) }"

definition AttachExec :: "cenv \<Rightarrow> nat option \<Rightarrow> attach_options \<Rightarrow> text_config \<Rightarrow> client_type \<Rightarrow> int ctl" where
  "AttachExec E listener opts t type =
     (if IsValidTextConfig t \<noteq> NO_ERROR then ret ERROR_PARAMETER_CHECK_FAILED
      else do {
        PrepareAttach E listener opts t type;
        (r, agents, imeInfos) \<leftarrow> StartInput_c E;
        if r \<noteq> NO_ERROR then do { SetTextListener None; NotifyAttachFailure r; ret r }
        else do {
          upd_client_info (\<lambda>ci. ci\<lparr>ci_state := ACTIVE\<rparr>);
          SetInputReady agents imeInfos;
          ResetKeyEventCount;
          ret NO_ERROR } })"

text \<open>
  \<open>BlockRetry\<close> with a result: at most \<open>n\<close> attempts (at least one), a sleep after each that failed; the
  last result stays in \<open>ret\<close>.
\<close>

fun BlockRetry_ret :: "nat \<Rightarrow> nat \<Rightarrow> (bool \<times> int) ctl \<Rightarrow> int ctl" where
  "BlockRetry_ret interval 0 func = do { (b, r) \<leftarrow> func; when_do (\<not> b) (cemit (SleepEv interval)); ret r }"
| "BlockRetry_ret interval (Suc n) func = do {
     (b, r) \<leftarrow> func;
     if b then ret r
     else do { cemit (SleepEv interval); if n = 0 then ret r else BlockRetry_ret interval n func } }"

abbreviation ATTACH_RETRY_INTERVAL :: nat where "ATTACH_RETRY_INTERVAL \<equiv> 50"
abbreviation ATTACH_MAX_RETRY_TIMES :: nat where "ATTACH_MAX_RETRY_TIMES \<equiv> 30"

definition Attach :: "cenv \<Rightarrow> nat option \<Rightarrow> attach_options \<Rightarrow> text_config \<Rightarrow> client_type \<Rightarrow> int ctl" where
  "Attach E listener opts t type = BlockRetry_ret ATTACH_RETRY_INTERVAL ATTACH_MAX_RETRY_TIMES (do {
     r \<leftarrow> AttachExec E listener opts t type;
     ret (r \<noteq> ERROR_TRY_IME_START_FAILED, r) })"

definition Attach_config :: "cenv \<Rightarrow> nat option \<Rightarrow> bool \<Rightarrow> text_config \<Rightarrow> client_type \<Rightarrow> int ctl" where
  "Attach_config E listener isShowKeyboard t type =
     Attach E listener \<lparr>ao_isShowKeyboard = isShowKeyboard, ao_requestKeyboardReason = REASON_NONE\<rparr> t type"

definition Attach_attribute :: "cenv \<Rightarrow> nat option \<Rightarrow> bool \<Rightarrow> input_attribute \<Rightarrow> client_type \<Rightarrow> int ctl" where
  "Attach_attribute E listener isShowKeyboard a type =
     Attach_config E listener isShowKeyboard (default_text_config\<lparr>xc_inputAttribute := a\<rparr>) type"

definition Attach_show :: "cenv \<Rightarrow> nat option \<Rightarrow> bool \<Rightarrow> client_type \<Rightarrow> int ctl" where
  "Attach_show E listener isShowKeyboard type =
     Attach_attribute E listener isShowKeyboard (default_input_attribute\<lparr>ia_inputPattern := PATTERN_TEXT\<rparr>) type"

definition Attach_default :: "cenv \<Rightarrow> nat option \<Rightarrow> client_type \<Rightarrow> int ctl" where
  "Attach_default E listener type = Attach_show E listener True type"

section \<open>Close\<close>

definition ReleaseInput_c :: "cenv \<Rightarrow> int \<Rightarrow> int ctl" where
  "ReleaseInput_c E clientSessionId = do {
     ResetPttSpaceKeyEventState;
     try_service E ERROR_SERVICE_START_FAILED (do {
       s \<leftarrow> State_Monad.get;
       r \<leftarrow> ccall E (ServiceIpc (S_ReleaseInput (ci_client (ct_clientInfo s)) (ct_sessionId s) clientSessionId));
       when_do (r = NO_ERROR) (OnInputStop E False None True False);
       SetTextListener None;
       ret r }) }"

definition Close_session :: "cenv \<Rightarrow> int \<Rightarrow> int ctl" where
  "Close_session E clientSessionId = do {
     l \<leftarrow> gets ct_listener;
     (case l of None \<Rightarrow> ret () | Some k \<Rightarrow> OnDetachV2 E k);
     ReleaseInput_c E clientSessionId }"

definition Close :: "cenv \<Rightarrow> int ctl" where
  "Close E = Close_session E (- 1)"

definition Reset :: "cenv \<Rightarrow> unit ctl" where
  "Reset E = do { Close E; RemoveDeathRecipient }"

section \<open>Showing and hiding\<close>

definition ShowInput_c :: "cenv \<Rightarrow> client_type \<Rightarrow> int \<Rightarrow> int ctl" where
  "ShowInput_c E type reason = with_service E ERROR_SERVICE_START_FAILED (do {
     stylus \<leftarrow> gets (IsStylusActivation E);
     upd_client_info (\<lambda>ci. ci\<lparr>ci_isStylusActivation := stylus\<rparr>);
     ci \<leftarrow> gets ct_clientInfo;
     ccall E (ServiceIpc (S_ShowInput (ci_client ci) (tc_windowId (ci_config ci)) type reason stylus)) })"

definition HideInput_c :: "cenv \<Rightarrow> int ctl" where
  "HideInput_c E = with_service E ERROR_SERVICE_START_FAILED (do {
     ci \<leftarrow> gets ct_clientInfo;
     ccall E (ServiceIpc (S_HideInput (ci_client ci) (tc_windowId (ci_config ci)))) })"

definition ShowTextInputInner :: "cenv \<Rightarrow> attach_options \<Rightarrow> client_type \<Rightarrow> int ctl" where
  "ShowTextInputInner E opts type = do {
     bound \<leftarrow> gets IsBound;
     if \<not> bound then ret ERROR_CLIENT_NOT_BOUND
     else do {
       upd_client_info (\<lambda>ci. ci\<lparr>ci_isShowKeyboard := True\<rparr>);
       r \<leftarrow> ShowInput_c E type (reason_value (ao_requestKeyboardReason opts));
       if r \<noteq> NO_ERROR then ret r
       else do { modify (\<lambda>s. s\<lparr>ct_isEditable := True\<rparr>); ret r } } }"

definition ShowTextInput :: "cenv \<Rightarrow> client_type \<Rightarrow> int ctl" where
  "ShowTextInput E type = ShowTextInputInner E \<lparr>ao_isShowKeyboard = False, ao_requestKeyboardReason = REASON_NONE\<rparr> type"

definition HideTextInput :: "cenv \<Rightarrow> int ctl" where
  "HideTextInput E = do {
     bound \<leftarrow> gets IsBound;
     if \<not> bound then ret ERROR_CLIENT_NOT_BOUND
     else do { modify (\<lambda>s. s\<lparr>ct_isEditable := False\<rparr>); HideInput_c E } }"

definition HideCurrentInput_c :: "cenv \<Rightarrow> int ctl" where
  "HideCurrentInput_c E = do {
     ed \<leftarrow> gets IsEditable;
     if \<not> ed then ret ERROR_CLIENT_NOT_EDITABLE
     else with_service E ERROR_EX_NULL_POINTER (do {
       upd_client_info (\<lambda>ci. ci\<lparr>ci_isShowKeyboard := False\<rparr>);
       ci \<leftarrow> gets ct_clientInfo;
       ccall E (ServiceIpc (S_HideCurrentInputDeprecated (tc_windowId (ci_config ci)))) }) }"

definition ShowCurrentInput_c :: "cenv \<Rightarrow> int ctl" where
  "ShowCurrentInput_c E = do {
     ed \<leftarrow> gets IsEditable;
     if \<not> ed then ret ERROR_CLIENT_NOT_EDITABLE
     else with_service E ERROR_EX_NULL_POINTER (do {
       stylus \<leftarrow> gets (IsStylusActivation E);
       upd_client_info (\<lambda>ci. ci\<lparr>ci_isShowKeyboard := True, ci_isStylusActivation := stylus\<rparr>);
       ci \<leftarrow> gets ct_clientInfo;
       ccall E (ServiceIpc (S_ShowCurrentInputDeprecated (tc_windowId (ci_config ci)) stylus)) }) }"

definition ShowSoftKeyboard_c :: "cenv \<Rightarrow> u64 option \<Rightarrow> client_type \<Rightarrow> int ctl" where
  "ShowSoftKeyboard_c E displayId type = with_service E ERROR_SERVICE_START_FAILED (do {
     stylus \<leftarrow> gets (IsStylusActivation E);
     upd_client_info (\<lambda>ci. ci\<lparr>ci_isShowKeyboard := True, ci_isStylusActivation := stylus\<rparr>);
     ccall E (ServiceIpc (S_ShowCurrentInput displayId type stylus)) })"

definition HideSoftKeyboard :: "cenv \<Rightarrow> int ctl" where
  "HideSoftKeyboard E = with_service E ERROR_EX_NULL_POINTER (do {
     upd_client_info (\<lambda>ci. ci\<lparr>ci_isShowKeyboard := False\<rparr>);
     ccall E (ServiceIpc (S_HideCurrentInput None)) })"

definition HideSoftKeyboard_display :: "cenv \<Rightarrow> u64 \<Rightarrow> int ctl" where
  "HideSoftKeyboard_display E displayId = with_service E ERROR_EX_NULL_POINTER
     (ccall E (ServiceIpc (S_HideCurrentInput (Some displayId))))"

definition StopInputSession :: "cenv \<Rightarrow> int ctl" where
  "StopInputSession E = do {
     modify (\<lambda>s. s\<lparr>ct_isEditable := False\<rparr>);
     with_service E ERROR_EX_NULL_POINTER (do {
       s \<leftarrow> State_Monad.get;
       ccall E (ServiceIpc (S_StopInputSession
         (if IsBound s then tc_windowId (ci_config (ct_clientInfo s)) else INVALID_WINDOW_ID))) }) }"

definition SetSimpleKeyboardEnabled :: "bool \<Rightarrow> int ctl" where
  "SetSimpleKeyboardEnabled enable = do {
     upd_client_info (\<lambda>ci. ci\<lparr>ci_config := (ci_config ci)\<lparr>tc_isSimpleKeyboardEnabled := enable\<rparr>\<rparr>);
     ret NO_ERROR }"

section \<open>The service dies\<close>

text \<open>The configuration with which the editor is attached again.\<close>

definition restored_config :: "controller \<Rightarrow> text_config" where
  "restored_config s = (ct_textConfig s)\<lparr>xc_range := \<lparr>rg_start = ct_selectNewBegin s, rg_end = ct_selectNewEnd s\<rparr>,
     xc_cursorInfo := ct_cursorInfo s\<rparr>"

definition restore_attach :: "cenv \<Rightarrow> bool ctl" where
  "restore_attach E = do {
     s \<leftarrow> State_Monad.get;
     r \<leftarrow> Attach_config E (ct_listener s) (ci_isShowKeyboard (ct_clientInfo s)) (restored_config s) INNER_KIT;
     ret (r = NO_ERROR) }"

abbreviation LOOP_COUNT :: nat where "LOOP_COUNT \<equiv> 5"

definition RestoreClientInfoInSaDied :: "cenv \<Rightarrow> unit ctl" where
  "RestoreClientInfoInSaDied E = do {
     ed \<leftarrow> gets IsEditable;
     if \<not> ed then ret ()
     else do {
       ok \<leftarrow> restore_attach E;
       if ok then ret ()
       else modify (\<lambda>s. s\<lparr>ct_isDiedAttached := False,
         ct_tasks := ct_tasks s @ replicate LOOP_COUNT AttachTask\<rparr>) } }"

definition RestoreListenInfoInSaDied :: "unit ctl" where
  "RestoreListenInfoInSaDied = modify (\<lambda>s.
     if ci_eventFlag (ct_clientInfo s) = 0 then s
     else s\<lparr>ct_isDiedRestoreListen := False, ct_tasks := ct_tasks s @ replicate LOOP_COUNT RestoreListenTask\<rparr>)"

definition OnRemoteSaDied :: "cenv \<Rightarrow> unit ctl" where
  "OnRemoteSaDied E = do {
     ResetPttSpaceKeyEventState;
     cemit MonitorInputStop;
     s \<leftarrow> State_Monad.get;
     (case ct_listener s of None \<Rightarrow> ret ()
      | Some l \<Rightarrow> when_do (ia_isTextPreviewSupported (xc_inputAttribute (ct_textConfig s))) (FinishTextPreviewV2 E l));
     modify (\<lambda>s. s\<lparr>ct_service := False\<rparr>);
     ClearAgentInfo;
     if \<not> ce_mainHandler E then ret () else RestoreClientInfoInSaDied E }"

text \<open>The service's start notification (\<open>SaMgrListener\<close>), and a delayed task of the main handler.\<close>

definition OnSaStart :: "unit ctl" where
  "OnSaStart = do {
     RestoreListenInfoInSaDied;
     modify (\<lambda>s. s\<lparr>ct_immersive := ResetQueried (ct_immersive s)\<rparr>) }"

definition run_main_task :: "cenv \<Rightarrow> main_task \<Rightarrow> unit ctl" where
  "run_main_task E t = (case t of
     RestoreListenTask \<Rightarrow> do {
       finished \<leftarrow> gets ct_isDiedRestoreListen;
       if finished then ret ()
       else do {
         r \<leftarrow> RestoreListenEventFlag E;
         when_do (r = NO_ERROR) (modify (\<lambda>s. s\<lparr>ct_isDiedRestoreListen := True\<rparr>)) } }
   | AttachTask \<Rightarrow> do {
       finished \<leftarrow> gets ct_isDiedAttached;
       if finished then ret () else void (restore_attach E) })"

definition run_next_task :: "cenv \<Rightarrow> unit ctl" where
  "run_next_task E = do {
     ts \<leftarrow> gets ct_tasks;
     (case ts of [] \<Rightarrow> ret ()
      | t # ts' \<Rightarrow> do { modify (\<lambda>s. s\<lparr>ct_tasks := ts'\<rparr>); run_main_task E t }) }"

end
