(* ===== verification/Controller_Text.thy ===== *)
theory Controller_Text
  imports Controller_Ops
begin

text \<open>
  Editing, on the client side: what the editor tells the input method (cursor, selection, attributes, key
  events, messages), what the input method asks of the editor through the data channel
  (\<open>input_data_channel_service_impl.cpp\<close>), the bookkeeping of key events
  (\<open>key_event_result_handler.cpp\<close>), and the requests that are passed on to the service.
\<close>

section \<open>From the editor to the input method\<close>

definition DiscardTypingText :: "cenv \<Rightarrow> int ctl" where
  "DiscardTypingText E = do {
     bound \<leftarrow> gets IsBound;
     if \<not> bound then ret ERROR_CLIENT_NOT_BOUND
     else SendRequestToAllAgents (\<lambda>k. ccall E (AgentIpc k A_DiscardTypingText)) }"

definition OnCursorUpdate :: "cenv \<Rightarrow> cursor_info \<Rightarrow> int ctl" where
  "OnCursorUpdate E cursorInfo = do {
     s \<leftarrow> State_Monad.get;
     if \<not> IsBound s then ret ERROR_CLIENT_NOT_BOUND
     else if \<not> IsEditable s then ret ERROR_CLIENT_NOT_EDITABLE
     else do {
       let cur = GetWindowScaleCoordinate E (xc_windowId (ct_textConfig s)) cursorInfo s;
       upd_text_config (\<lambda>t. t\<lparr>xc_cursorInfo := cur\<rparr>);
       if CursorInfo_eq (ct_cursorInfo s) cur then ret NO_ERROR
       else do {
         modify (\<lambda>s. s\<lparr>ct_cursorInfo := cur\<rparr>);
         SendRequestToAllAgents (\<lambda>k. do {
           cemit (AgentIpc k (A_OnCursorUpdate (cu_left cur) (cu_top cur) (cu_height cur))); ret NO_ERROR }) } } }"

definition OnSelectionChange :: "cenv \<Rightarrow> u16string \<Rightarrow> int \<Rightarrow> int \<Rightarrow> int ctl" where
  "OnSelectionChange E text start end = do {
     s \<leftarrow> State_Monad.get;
     if \<not> IsBound s then ret ERROR_CLIENT_NOT_BOUND
     else if \<not> IsEditable s then ret ERROR_CLIENT_NOT_EDITABLE
     else do {
       upd_text_config (\<lambda>t. t\<lparr>xc_range := \<lparr>rg_start = start, rg_end = end\<rparr>\<rparr>);
       modify (\<lambda>s. s\<lparr>ct_isTextNotified := True\<rparr>);
       if ct_isTextNotified s \<and> ct_textString s = text \<and> ct_selectNewBegin s = start \<and> ct_selectNewEnd s = end
       then ret NO_ERROR
       else do {
         modify (\<lambda>s. s\<lparr>ct_textString := text, ct_selectOldBegin := ct_selectNewBegin s,
           ct_selectOldEnd := ct_selectNewEnd s, ct_selectNewBegin := start, ct_selectNewEnd := end\<rparr>);
         s \<leftarrow> State_Monad.get;
         SendRequestToAllAgents (\<lambda>k. do {
           cemit (AgentIpc k (A_OnSelectionChange (ce_str16to8 E text) (ct_selectOldBegin s) (ct_selectOldEnd s)
             (ct_selectNewBegin s) (ct_selectNewEnd s)));
           ret NO_ERROR }) } } }"

record configuration =
  cf_enterKeyType :: int
  cf_textInputType :: int
  cf_consumeKeyEvents :: "bool option"     \<comment> \<open>\<open>None\<close>: not set (\<open>HasConsumeKeyEvents\<close> is false)\<close>

definition OnConfigurationChange :: "cenv \<Rightarrow> configuration \<Rightarrow> int ctl" where
  "OnConfigurationChange E info = do {
     s \<leftarrow> State_Monad.get;
     if \<not> IsBound s then ret ERROR_CLIENT_NOT_BOUND
     else do {
       let oldSecurityFlag = GetSecurityFlag (xc_inputAttribute (ct_textConfig s));
       upd_text_config (\<lambda>t. t\<lparr>xc_inputAttribute := (xc_inputAttribute t)\<lparr>ia_enterKeyType := cf_enterKeyType info,
         ia_inputPattern := cf_textInputType info, ia_consumeKeyEvents := (case cf_consumeKeyEvents info of
           None \<Rightarrow> ia_consumeKeyEvents (xc_inputAttribute t) | Some b \<Rightarrow> b)\<rparr>\<rparr>);
       attr \<leftarrow> gets (\<lambda>s. xc_inputAttribute (ct_textConfig s));
       ed \<leftarrow> gets IsEditable;
       if \<not> ed then ret ERROR_CLIENT_NOT_EDITABLE
       else do {
         r \<leftarrow> (if oldSecurityFlag \<noteq> GetSecurityFlag attr then do {
             modify (\<lambda>s. s\<lparr>ct_clientInfo :=
               (ct_clientInfo s)\<lparr>ci_config := GetTextConfig s (ci_config (ct_clientInfo s))\<rparr>\<rparr>);
             (r, agents, imeInfos) \<leftarrow> StartInput_c E;
             when_do (r = NO_ERROR) (SetInputReady agents imeInfos);
             ret r }
           else ret NO_ERROR);
         if r \<noteq> NO_ERROR then ret r
         else do {
           agent \<leftarrow> gets GetAgent;
           (case agent of None \<Rightarrow> ret ERROR_IME_NOT_STARTED
            | Some k \<Rightarrow> do { cemit (AgentIpc k (A_OnAttributeChange (AttributeToInner attr))); ret NO_ERROR }) } } } }"

definition SetCallingWindowByIMSA :: "cenv \<Rightarrow> u32 \<Rightarrow> int ctl" where
  "SetCallingWindowByIMSA E windowId = with_service E ERROR_SERVICE_START_FAILED (do {
     ci \<leftarrow> gets ct_clientInfo;
     ccall E (ServiceIpc (S_SetCallingWindow windowId (ci_client ci))) })"

definition SetCallingWindow_c :: "cenv \<Rightarrow> u32 \<Rightarrow> int ctl" where
  "SetCallingWindow_c E windowId = do {
     s \<leftarrow> State_Monad.get;
     if \<not> IsBound s then ret ERROR_CLIENT_NOT_BOUND
     else if \<not> IsEditable s then ret ERROR_CLIENT_NOT_EDITABLE
     else do {
       upd_text_config (\<lambda>t. t\<lparr>xc_windowId := windowId\<rparr>);
       r \<leftarrow> SetCallingWindowByIMSA E windowId;
       if r = NO_ERROR then ret r
       else do {
         agent \<leftarrow> gets GetAgent;
         (case agent of None \<Rightarrow> ret ERROR_IME_NOT_STARTED
          | Some k \<Rightarrow> do { cemit (AgentIpc k (A_SetCallingWindow windowId)); ret NO_ERROR }) } } }"

definition UpdateTextPreviewState :: "cenv \<Rightarrow> bool \<Rightarrow> unit ctl" where
  "UpdateTextPreviewState E isSupport = do {
     same \<leftarrow> gets (\<lambda>s. ia_isTextPreviewSupported (xc_inputAttribute (ct_textConfig s)) = isSupport);
     if same then ret ()
     else do {
       upd_text_config (\<lambda>t. t\<lparr>xc_inputAttribute := (xc_inputAttribute t)\<lparr>ia_isTextPreviewSupported := isSupport\<rparr>\<rparr>);
       s \<leftarrow> State_Monad.get;
       (case GetAgent s of None \<Rightarrow> ret ()
        | Some k \<Rightarrow> cemit (AgentIpc k (A_OnAttributeChange (AttributeToInner (xc_inputAttribute (ct_textConfig s)))))) } }"

definition SendPrivateCommand_c :: "cenv \<Rightarrow> private_command \<Rightarrow> int ctl" where
  "SendPrivateCommand_c E m = do {
     s \<leftarrow> State_Monad.get;
     if \<not> IsBound s then ret ERROR_CLIENT_NOT_BOUND
     else if \<not> IsEditable s then ret ERROR_CLIENT_NOT_EDITABLE
     else if \<not> IsPrivateCommandValid m then ret ERROR_INVALID_PRIVATE_COMMAND_SIZE
     else (case GetAgent s of None \<Rightarrow> ret ERROR_IME_NOT_STARTED
       | Some k \<Rightarrow> ccall E (AgentIpc k (A_SendPrivateCommand m))) }"

definition SendMessage_c :: "cenv \<Rightarrow> array_buffer \<Rightarrow> int ctl" where
  "SendMessage_c E b = do {
     s \<leftarrow> State_Monad.get;
     if \<not> IsBound s then ret ERROR_CLIENT_NOT_BOUND
     else if \<not> IsEditable s then ret ERROR_CLIENT_NOT_EDITABLE
     else if \<not> ArrayBuffer_IsSizeValid b then ret ERROR_INVALID_ARRAY_BUFFER_SIZE
     else (case GetAgent s of None \<Rightarrow> ret ERROR_CLIENT_NULL_POINTER
       | Some k \<Rightarrow> ccall E (AgentIpc k (A_SendMessage b))) }"

definition RecvMessage :: "cenv \<Rightarrow> array_buffer \<Rightarrow> int ctl" where
  "RecvMessage E b = do {
     s \<leftarrow> State_Monad.get;
     if \<not> IsBound s then ret ERROR_CLIENT_NOT_BOUND
     else if \<not> IsEditable s then ret ERROR_CLIENT_NOT_EDITABLE
     else (case ct_msgHandler s of None \<Rightarrow> ret ERROR_MSG_HANDLER_NOT_REGIST
       | Some h \<Rightarrow> ccall E (MessageEv h b)) }"

definition RegisterMsgHandler :: "nat option \<Rightarrow> int ctl" where
  "RegisterMsgHandler h = do {
     old \<leftarrow> gets ct_msgHandler;
     modify (\<lambda>s. s\<lparr>ct_msgHandler := h\<rparr>);
     (case old of None \<Rightarrow> ret () | Some k \<Rightarrow> cemit (TerminatedEv k));
     ret NO_ERROR }"

section \<open>Key events\<close>

definition AddKeyEventCbInfo :: "key_cb_info \<Rightarrow> u64 ctl" where
  "AddKeyEventCbInfo cb = do {
     cbId \<leftarrow> gets ct_maxCbId;
     modify (\<lambda>s. s\<lparr>ct_maxCbId := cbId + 1, ct_keyCbs := omap_assign cbId cb (ct_keyCbs s)\<rparr>);
     ret cbId }"

definition RemoveKeyEventCbInfo :: "u64 \<Rightarrow> unit ctl" where
  "RemoveKeyEventCbInfo cbId = modify (\<lambda>s. s\<lparr>ct_keyCbs := AList.delete cbId (ct_keyCbs s)\<rparr>)"

definition HandleKeyEventResult :: "u64 \<Rightarrow> bool \<Rightarrow> unit ctl" where
  "HandleKeyEventResult cbId consumeResult = do {
     info \<leftarrow> gets (\<lambda>s. map_of (ct_keyCbs s) cbId);
     (case info of None \<Rightarrow> ret ()
      | Some i \<Rightarrow> do {
          (case kc_callback i of None \<Rightarrow> ret () | Some cb \<Rightarrow> cemit (KeyCallbackEv cb (kc_keyEvent i) consumeResult));
          RemoveKeyEventCbInfo cbId }) }"

abbreviation KEY_EVENT_LOG_COUNT_THRESHOLD :: u32 where "KEY_EVENT_LOG_COUNT_THRESHOLD \<equiv> 100"

definition count_dispatch :: "bool \<Rightarrow> controller \<Rightarrow> controller" where
  "count_dispatch failed s =
     (let f = (if failed then ct_toImeFailCount s + 1 else ct_toImeFailCount s);
          g = (if failed then ct_toImeSuccessCount s else ct_toImeSuccessCount s + 1) in
      if f + g \<ge> KEY_EVENT_LOG_COUNT_THRESHOLD
      then s\<lparr>ct_toImeCount := 0, ct_toImeFailCount := 0, ct_toImeSuccessCount := 0\<rparr>
      else s\<lparr>ct_toImeCount := f + g, ct_toImeFailCount := f, ct_toImeSuccessCount := g\<rparr>)"

definition DispatchKeyEventInner :: "cenv \<Rightarrow> key_event option \<Rightarrow> nat option \<Rightarrow> int ctl" where
  "DispatchKeyEventInner E keyEvent callback = do {
     s \<leftarrow> State_Monad.get;
     if \<not> IsEditable s then ret ERROR_CLIENT_NOT_EDITABLE
     else (case keyEvent of None \<Rightarrow> ret ERROR_EX_NULL_POINTER
       | Some ke \<Rightarrow> (case GetAgent s of None \<Rightarrow> ret ERROR_IME_NOT_STARTED
         | Some k \<Rightarrow> (case ci_channel (ct_clientInfo s) of None \<Rightarrow> ret ERROR_EX_NULL_POINTER
           | Some ch \<Rightarrow> do {
               cbId \<leftarrow> AddKeyEventCbInfo \<lparr>kc_keyEvent = ke, kc_callback = callback\<rparr>;
               r \<leftarrow> ccall E (AgentIpc k (A_DispatchKeyEvent ke cbId ch));
               when_do (r \<noteq> NO_ERROR) (RemoveKeyEventCbInfo cbId);
               modify (count_dispatch (r \<noteq> NO_ERROR));
               ret r }))) }"

text \<open>
  The latch for the space key of push to talk: \<open>True\<close> when the event is a repeated \<open>DOWN\<close> that is to be
  consumed here.
\<close>

definition HandlePttSpaceKeyEventBlock :: "key_event option \<Rightarrow> nat option \<Rightarrow> bool ctl" where
  "HandlePttSpaceKeyEventBlock keyEvent callback = (case keyEvent of None \<Rightarrow> ret False
     | Some ke \<Rightarrow>
         if \<not> ke_isSpace ke then ret False
         else if ke_action ke = ACTION_UP then do { ResetPttSpaceKeyEventState; ret False }
         else if ke_action ke \<noteq> ACTION_DOWN then ret False
         else do {
           st \<leftarrow> gets ct_ptt;
           if st = PTT_UP then do { modify (\<lambda>s. s\<lparr>ct_ptt := PTT_DOWN\<rparr>); ret False }
           else if st \<noteq> PTT_BLOCKED then ret False
           else ret (callback \<noteq> None) })"

definition StartPttSpaceKeyEventBlock :: "bool ctl" where
  "StartPttSpaceKeyEventBlock = do {
     s \<leftarrow> State_Monad.get;
     if \<not> ct_isEditable s \<or> \<not> ct_isBound s then ret False
     else if ct_ptt s \<noteq> PTT_DOWN then ret False
     else do { modify (\<lambda>s. s\<lparr>ct_ptt := PTT_BLOCKED\<rparr>); ret True } }"

definition DispatchKeyEvent :: "cenv \<Rightarrow> key_event option \<Rightarrow> nat option \<Rightarrow> int ctl" where
  "DispatchKeyEvent E keyEvent callback = do {
     modify (\<lambda>s. let n = ct_entryCount s + 1 in s\<lparr>ct_entryCount := (if n \<ge> KEY_EVENT_LOG_COUNT_THRESHOLD then 0 else n)\<rparr>);
     blocked \<leftarrow> HandlePttSpaceKeyEventBlock keyEvent callback;
     if blocked then do {
       (case (keyEvent, callback) of (Some ke, Some cb) \<Rightarrow> cemit (KeyCallbackEv cb ke True) | _ \<Rightarrow> ret ());
       ret NO_ERROR }
     else DispatchKeyEventInner E keyEvent callback }"

section \<open>From the input method to the editor\<close>

text \<open>The guard of the editing operations.\<close>

definition with_editor :: "(nat \<Rightarrow> int ctl) \<Rightarrow> int ctl" where
  "with_editor f = do {
     s \<leftarrow> State_Monad.get;
     (case ct_listener s of None \<Rightarrow> ret ERROR_CLIENT_NOT_EDITABLE
      | Some l \<Rightarrow> if \<not> IsEditable s then ret ERROR_CLIENT_NOT_EDITABLE else f l) }"

definition InsertText :: "cenv \<Rightarrow> u16string \<Rightarrow> int ctl" where
  "InsertText E text = with_editor (\<lambda>l. do { InsertTextV2 E l text; ret NO_ERROR })"

text \<open>The two directions are exchanged: a comment of the code gives compatibility as the reason.\<close>

definition DeleteForward :: "cenv \<Rightarrow> int \<Rightarrow> int ctl" where
  "DeleteForward E len = with_editor (\<lambda>l. do { DeleteBackwardV2 E l len; ret NO_ERROR })"

definition DeleteBackward :: "cenv \<Rightarrow> int \<Rightarrow> int ctl" where
  "DeleteBackward E len = with_editor (\<lambda>l. do { DeleteForwardV2 E l len; ret NO_ERROR })"

definition MoveCursor :: "cenv \<Rightarrow> int \<Rightarrow> int ctl" where
  "MoveCursor E direction = with_editor (\<lambda>l. do { MoveCursorV2 E l direction; ret NO_ERROR })"

definition HandleExtendAction :: "cenv \<Rightarrow> int \<Rightarrow> int ctl" where
  "HandleExtendAction E action = with_editor (\<lambda>l. do { HandleExtendActionV2 E l action; ret NO_ERROR })"

definition SendFunctionKey :: "cenv \<Rightarrow> int \<Rightarrow> int ctl" where
  "SendFunctionKey E key = with_editor (\<lambda>l. do {
     SendFunctionKeyV2 E l key;
     SendRequestToImeMirrorAgent (\<lambda>k. ccall E (AgentIpc k (A_OnFunctionKey key)));
     ret NO_ERROR })"

text \<open>The operations that read the editor return the text or the index as well.\<close>

definition GetLeft :: "cenv \<Rightarrow> int \<Rightarrow> u16string \<Rightarrow> (int \<times> u16string) ctl" where
  "GetLeft E len text = do {
     s \<leftarrow> State_Monad.get;
     (case ct_listener s of None \<Rightarrow> ret (ERROR_CLIENT_NOT_EDITABLE, text)
      | Some l \<Rightarrow> if \<not> IsEditable s then ret (ERROR_CLIENT_NOT_EDITABLE, text)
          else do { t \<leftarrow> GetLeftTextOfCursorV2 E l len; ret (NO_ERROR, t) }) }"

definition GetRight :: "cenv \<Rightarrow> int \<Rightarrow> u16string \<Rightarrow> (int \<times> u16string) ctl" where
  "GetRight E len text = do {
     s \<leftarrow> State_Monad.get;
     (case ct_listener s of None \<Rightarrow> ret (ERROR_CLIENT_NOT_EDITABLE, text)
      | Some l \<Rightarrow> if \<not> IsEditable s then ret (ERROR_CLIENT_NOT_EDITABLE, text)
          else do { t \<leftarrow> GetRightTextOfCursorV2 E l len; ret (NO_ERROR, t) }) }"

definition GetTextIndexAtCursor :: "cenv \<Rightarrow> int \<Rightarrow> (int \<times> int) ctl" where
  "GetTextIndexAtCursor E index = do {
     s \<leftarrow> State_Monad.get;
     (case ct_listener s of None \<Rightarrow> ret (ERROR_CLIENT_NOT_EDITABLE, index)
      | Some l \<Rightarrow> if \<not> IsEditable s then ret (ERROR_CLIENT_NOT_EDITABLE, index)
          else do { i \<leftarrow> GetTextIndexAtCursorV2 E l; ret (NO_ERROR, i) }) }"

text \<open>\<open>SetPreviewText\<close> wraps \<open>SetPreviewTextInner\<close> in a report of the operation, which is left out.\<close>

definition SetPreviewText :: "cenv \<Rightarrow> string \<Rightarrow> range \<Rightarrow> int ctl" where
  "SetPreviewText E text r = do {
     supported \<leftarrow> gets (\<lambda>s. ia_isTextPreviewSupported (xc_inputAttribute (ct_textConfig s)));
     if \<not> supported then ret ERROR_TEXT_PREVIEW_NOT_SUPPORTED
     else with_editor (\<lambda>l. do {
       x \<leftarrow> SetPreviewTextV2 E l (ce_str8to16 E text) r;
       ret (if x \<noteq> NO_ERROR then if x = - 1 then ERROR_INVALID_RANGE else ERROR_TEXT_LISTENER_ERROR else NO_ERROR) }) }"

definition FinishTextPreview :: "cenv \<Rightarrow> int ctl" where
  "FinishTextPreview E = do {
     s \<leftarrow> State_Monad.get;
     if \<not> ia_isTextPreviewSupported (xc_inputAttribute (ct_textConfig s)) then ret ERROR_TEXT_PREVIEW_NOT_SUPPORTED
     else (case ct_listener s of None \<Rightarrow> ret ERROR_CLIENT_NOT_EDITABLE
       | Some l \<Rightarrow> if \<not> ct_isBound s then ret ERROR_CLIENT_NOT_EDITABLE
           else do { FinishTextPreviewV2 E l; ret NO_ERROR }) }"

definition OnExecTextInteraction :: "cenv \<Rightarrow> string \<Rightarrow> int ctl" where
  "OnExecTextInteraction E text = do { FinishTextPreview E; InsertText E (ce_str8to16 E text) }"

definition SelectByRange :: "cenv \<Rightarrow> int \<Rightarrow> int \<Rightarrow> unit ctl" where
  "SelectByRange E a b = do {
     with_editor (\<lambda>l. do { HandleSetSelectionV2 E l a b; ret NO_ERROR });
     c \<leftarrow> gets ct_controllerListener;
     (case c of None \<Rightarrow> ret () | Some k \<Rightarrow> cemit (SelectByRangeEv k a b)) }"

abbreviation CURSOR_DIRECTION_BASE_VALUE :: int where "CURSOR_DIRECTION_BASE_VALUE \<equiv> 2011"

definition SelectByMovement :: "cenv \<Rightarrow> int \<Rightarrow> int \<Rightarrow> unit ctl" where
  "SelectByMovement E direction skip = do {
     with_editor (\<lambda>l. do { HandleSelectV2 E l (CURSOR_DIRECTION_BASE_VALUE + direction) skip; ret NO_ERROR });
     c \<leftarrow> gets ct_controllerListener;
     (case c of None \<Rightarrow> ret () | Some k \<Rightarrow> cemit (SelectByMovementEv k direction)) }"

definition ReceivePrivateCommand :: "cenv \<Rightarrow> private_command \<Rightarrow> int ctl" where
  "ReceivePrivateCommand E m = do {
     l \<leftarrow> gets ct_listener;
     (case l of None \<Rightarrow> ret ERROR_EX_NULL_POINTER
      | Some k \<Rightarrow> do {
          r \<leftarrow> ReceivePrivateCommandV2 E k m;
          ret (if r \<noteq> NO_ERROR then ERROR_TEXT_LISTENER_ERROR else NO_ERROR) }) }"

definition NotifyPanelStatusInfo :: "cenv \<Rightarrow> panel_status_info \<Rightarrow> unit ctl" where
  "NotifyPanelStatusInfo E info = do {
     l \<leftarrow> gets ct_listener;
     (case l of None \<Rightarrow> ret ()
      | Some k \<Rightarrow> do {
          let keyboard = (pi_panelType (ps_panelInfo info) = SOFT_KEYBOARD
            \<and> pi_panelFlag (ps_panelInfo info) \<noteq> FLG_CANDIDATE_COLUMN);
          when_do keyboard (SendKeyboardStatus E (if ps_visible info then KBD_SHOW else KBD_HIDE));
          sid \<leftarrow> gets ct_sessionId;
          when_do (ps_visible info \<or> ps_sessionId info = 0 \<or> ps_sessionId info = sid) (NotifyPanelStatusInfoV2 E k info);
          when_do (keyboard \<and> \<not> ps_visible info) (upd_client_info (\<lambda>ci. ci\<lparr>ci_isShowKeyboard := False\<rparr>)) }) }"

definition NotifyKeyboardHeight :: "cenv \<Rightarrow> u32 \<Rightarrow> unit ctl" where
  "NotifyKeyboardHeight E h = do {
     l \<leftarrow> gets ct_listener;
     (case l of None \<Rightarrow> ret () | Some k \<Rightarrow> NotifyKeyboardHeightV2 E k h) }"

section \<open>The data channel\<close>

text \<open>
  A request of an input method arrives with a message id and the agent that is to have the answer.
\<close>

datatype channel_request =
    CH_InsertText string | CH_DeleteForward int | CH_DeleteBackward int
  | CH_GetTextBeforeCursor int | CH_GetTextAfterCursor int | CH_GetTextIndexAtCursor
  | CH_SendFunctionKey int | CH_MoveCursor int | CH_SelectByRange int int | CH_SelectByMovement int int
  | CH_HandleExtendAction int | CH_SetPreviewText string range | CH_FinishTextPreview

definition ResponseDataChannel :: "cenv \<Rightarrow> robj option \<Rightarrow> u64 \<Rightarrow> int \<Rightarrow> response_data \<Rightarrow> int ctl" where
  "ResponseDataChannel E agentObject msgId code data = (case agentObject of None \<Rightarrow> ret ERROR_IME_NOT_STARTED
     | Some k \<Rightarrow> ccall E (AgentIpc k (A_ResponseDataChannel msgId code data)))"

definition run_channel_request :: "cenv \<Rightarrow> channel_request \<Rightarrow> (int \<times> response_data) ctl" where
  "run_channel_request E q = (case q of
     CH_InsertText t \<Rightarrow> do { r \<leftarrow> InsertText E (ce_str8to16 E t); ret (r, RSP_none) }
   | CH_DeleteForward n \<Rightarrow> do { r \<leftarrow> DeleteForward E n; ret (r, RSP_none) }
   | CH_DeleteBackward n \<Rightarrow> do { r \<leftarrow> DeleteBackward E n; ret (r, RSP_none) }
   | CH_GetTextBeforeCursor n \<Rightarrow> do { (r, t) \<leftarrow> GetLeft E n []; ret (r, RSP_string (ce_str16to8 E t)) }
   | CH_GetTextAfterCursor n \<Rightarrow> do { (r, t) \<leftarrow> GetRight E n []; ret (r, RSP_string (ce_str16to8 E t)) }
   | CH_GetTextIndexAtCursor \<Rightarrow> do { (r, i) \<leftarrow> GetTextIndexAtCursor E 0; ret (r, RSP_int i) }
   | CH_SendFunctionKey k \<Rightarrow> do { r \<leftarrow> SendFunctionKey E k; ret (r, RSP_none) }
   | CH_MoveCursor k \<Rightarrow> do { r \<leftarrow> MoveCursor E k; ret (r, RSP_none) }
   | CH_SelectByRange a b \<Rightarrow> do { SelectByRange E a b; ret (NO_ERROR, RSP_none) }
   | CH_SelectByMovement d n \<Rightarrow> do { SelectByMovement E d n; ret (NO_ERROR, RSP_none) }
   | CH_HandleExtendAction a \<Rightarrow> do { r \<leftarrow> HandleExtendAction E a; ret (r, RSP_none) }
   | CH_SetPreviewText t rg \<Rightarrow> do { r \<leftarrow> SetPreviewText E t rg; ret (r, RSP_none) }
   | CH_FinishTextPreview \<Rightarrow> do { r \<leftarrow> FinishTextPreview E; ret (r, RSP_none) })"

definition channel_handle :: "cenv \<Rightarrow> channel_request \<Rightarrow> u64 \<Rightarrow> robj option \<Rightarrow> int ctl" where
  "channel_handle E q msgId agent = do {
     (r, data) \<leftarrow> run_channel_request E q;
     ResponseDataChannel E agent msgId r data;
     ret r }"

section \<open>Requests passed on to the service\<close>

text \<open>The value of an \<open>int32_t\<close> or \<open>bool\<close> expression that C++ converts to the other type.\<close>

definition int_to_bool :: "int \<Rightarrow> bool" where
  "int_to_bool i \<longleftrightarrow> i \<noteq> 0"

definition bool_to_int :: "bool \<Rightarrow> int" where
  "bool_to_int b = (if b then 1 else 0)"

definition forward :: "cenv \<Rightarrow> int \<Rightarrow> service_call \<Rightarrow> int ctl" where
  "forward E err c = with_service E err (ccall E (ServiceIpc c))"

definition forward_flag :: "cenv \<Rightarrow> bool \<Rightarrow> service_call \<Rightarrow> bool ctl" where
  "forward_flag E err c = with_service E err (do {
     b \<leftarrow> gets (\<lambda>s. ce_flag E (ct_log s) c);
     ccall E (ServiceIpc c);
     ret b })"

definition RequestHideInput_c :: "cenv \<Rightarrow> u32 \<Rightarrow> bool \<Rightarrow> u64 \<Rightarrow> int \<Rightarrow> int ctl" where
  "RequestHideInput_c E callingWndId isFocusTriggered displayId userId = try_service E ERROR_EX_NULL_POINTER
     (ccall E (ServiceIpc (S_RequestHideInput callingWndId displayId isFocusTriggered userId)))"

definition DisplayOptionalInputMethod :: "cenv \<Rightarrow> int ctl" where
  "DisplayOptionalInputMethod E = forward E ERROR_EX_NULL_POINTER S_DisplayOptionalInputMethod"

definition ShowOptionalInputMethod :: "cenv \<Rightarrow> int ctl" where
  "ShowOptionalInputMethod E = forward E ERROR_EX_NULL_POINTER S_DisplayOptionalInputMethod"

definition GetInputStartInfo :: "cenv \<Rightarrow> int ctl" where
  "GetInputStartInfo E = forward E (bool_to_int False) S_GetInputStartInfo"

definition ListInputMethodCommon :: "cenv \<Rightarrow> int \<Rightarrow> int \<Rightarrow> int ctl" where
  "ListInputMethodCommon E status userId = forward E ERROR_EX_NULL_POINTER (S_ListInputMethod status userId)"

definition ListInputMethod :: "cenv \<Rightarrow> int \<Rightarrow> int ctl" where
  "ListInputMethod E userId = ListInputMethodCommon E 2 userId"

definition ListInputMethod_status :: "cenv \<Rightarrow> bool \<Rightarrow> int \<Rightarrow> int ctl" where
  "ListInputMethod_status E enable userId = ListInputMethodCommon E (if enable then 1 else 0) userId"

definition GetDefaultInputMethod :: "cenv \<Rightarrow> int \<Rightarrow> int ctl" where
  "GetDefaultInputMethod E userId = forward E ERROR_SERVICE_START_FAILED (S_GetDefaultInputMethod userId)"

definition GetInputMethodConfig :: "cenv \<Rightarrow> int \<Rightarrow> int ctl" where
  "GetInputMethodConfig E userId = forward E ERROR_SERVICE_START_FAILED (S_GetInputMethodConfig userId)"

definition GetSoftKeyboardInfo :: "cenv \<Rightarrow> int \<Rightarrow> int ctl" where
  "GetSoftKeyboardInfo E userId = forward E ERROR_SERVICE_START_FAILED (S_GetSoftKeyboardInfo userId)"

definition IsDefaultImeSet :: "cenv \<Rightarrow> int \<Rightarrow> bool ctl" where
  "IsDefaultImeSet E userId = forward_flag E False (S_IsDefaultImeSet userId)"

definition EnableIme_c :: "cenv \<Rightarrow> string \<Rightarrow> string \<Rightarrow> int \<Rightarrow> int \<Rightarrow> int ctl" where
  "EnableIme_c E bundleName extensionName status userId =
     forward E (bool_to_int False) (S_EnableIme bundleName extensionName status userId)"

definition ListInputMethodSubtype :: "cenv \<Rightarrow> string \<Rightarrow> int \<Rightarrow> int ctl" where
  "ListInputMethodSubtype E name userId = forward E ERROR_EX_NULL_POINTER (S_ListInputMethodSubtype name userId)"

definition ListCurrentInputMethodSubtype :: "cenv \<Rightarrow> int \<Rightarrow> int ctl" where
  "ListCurrentInputMethodSubtype E userId = forward E ERROR_EX_NULL_POINTER (S_ListCurrentInputMethodSubtype userId)"

definition SwitchInputMethod_c :: "cenv \<Rightarrow> u32 \<Rightarrow> string \<Rightarrow> string \<Rightarrow> int \<Rightarrow> int ctl" where
  "SwitchInputMethod_c E trigger name subName userId =
     forward E ERROR_EX_NULL_POINTER (S_SwitchInputMethod name subName trigger userId)"

definition SetEDCDefaultInputMethod :: "cenv \<Rightarrow> string \<Rightarrow> int ctl" where
  "SetEDCDefaultInputMethod E name =
     (if name = '''' then ret ERROR_PARAMETER_CHECK_FAILED
      else forward E ERROR_EX_NULL_POINTER (S_SetEDCDefaultInputMethod name))"

definition IsInputTypeSupported :: "cenv \<Rightarrow> int \<Rightarrow> bool ctl" where
  "IsInputTypeSupported E type = forward_flag E (int_to_bool ERROR_NULL_POINTER) (S_IsInputTypeSupported type)"

definition IsCurrentImeByPid :: "cenv \<Rightarrow> int \<Rightarrow> int \<Rightarrow> bool ctl" where
  "IsCurrentImeByPid E pid userId = forward_flag E False (S_IsCurrentImeByPid pid userId)"

definition StartInputType_c :: "cenv \<Rightarrow> int \<Rightarrow> bool \<Rightarrow> int ctl" where
  "StartInputType_c E type isPersistence = forward E ERROR_NULL_POINTER (S_StartInputType type isPersistence)"

definition StartInputTypeAsync :: "cenv \<Rightarrow> int \<Rightarrow> bool \<Rightarrow> int ctl" where
  "StartInputTypeAsync E type isPersistence = forward E ERROR_NULL_POINTER (S_StartInputTypeAsync type isPersistence)"

definition IsPanelShown :: "cenv \<Rightarrow> u64 option \<Rightarrow> panel_info \<Rightarrow> int ctl" where
  "IsPanelShown E displayId info = forward E ERROR_NULL_POINTER (S_IsPanelShown displayId info)"

definition GetInputMethodState :: "cenv \<Rightarrow> int ctl" where
  "GetInputMethodState E = forward E ERROR_NULL_POINTER S_GetInputMethodState"

definition SendPrivateData_c :: "cenv \<Rightarrow> private_command \<Rightarrow> int ctl" where
  "SendPrivateData_c E m = forward E ERROR_NULL_POINTER (S_SendPrivateData m)"

definition ExecTextInteraction_c :: "cenv \<Rightarrow> string \<Rightarrow> int ctl" where
  "ExecTextInteraction_c E text = forward E ERROR_SERVICE_START_FAILED (S_ExecTextInteraction text)"

definition IsKeyboardCallingProcess :: "cenv \<Rightarrow> int \<Rightarrow> u32 \<Rightarrow> bool ctl" where
  "IsKeyboardCallingProcess E pid windowId = with_service E False (do {
     b \<leftarrow> gets (\<lambda>s. ce_flag E (ct_log s) (S_IsKeyboardCallingProcess pid windowId));
     r \<leftarrow> ccall E (ServiceIpc (S_IsKeyboardCallingProcess pid windowId));
     ret (if r \<noteq> NO_ERROR then False else b) })"

definition GetClientType :: "client_type \<Rightarrow> controller \<Rightarrow> int \<times> client_type" where
  "GetClientType type s = (if \<not> IsBound s then (ERROR_CLIENT_NOT_BOUND, type) else (NO_ERROR, ci_type (ct_clientInfo s)))"

definition GetEnterKeyType :: "controller \<Rightarrow> int \<times> int" where
  "GetEnterKeyType s = (NO_ERROR, ia_enterKeyType (xc_inputAttribute (ct_textConfig s)))"

definition GetInputPattern :: "controller \<Rightarrow> int \<times> int" where
  "GetInputPattern s = (NO_ERROR, ia_inputPattern (xc_inputAttribute (ct_textConfig s)))"

definition GetCurrentCursorInfo :: "controller \<Rightarrow> cursor_info \<Rightarrow> cursor_info" where
  "GetCurrentCursorInfo s cur = (let c = xc_cursorInfo (ct_textConfig s) in
     cur\<lparr>cu_left := cu_left c, cu_top := cu_top c, cu_width := cu_width c, cu_height := cu_height c\<rparr>)"

definition GetCursorInfo :: "cenv \<Rightarrow> cursor_info \<Rightarrow> int \<Rightarrow> (int \<times> cursor_info) ctl" where
  "GetCursorInfo E cur userId = with_service E (ERROR_SERVICE_START_FAILED, cur) (do {
     out \<leftarrow> gets (\<lambda>s. ce_cursor E (ct_log s));
     r \<leftarrow> ccall E (ServiceIpc (S_GetCursorInfo userId));
     if r \<noteq> NO_ERROR then ret (r, cur)
     else do {
       s \<leftarrow> State_Monad.get;
       let cur = InnerToCursorInfo out;
       let cur = (if IsEditable s then GetCurrentCursorInfo s cur else cur);
       ret (NO_ERROR, if CursorInfo_eq cur default_cursor_info
         then \<lparr>cu_left = Fin 0, cu_top = Fin 0, cu_width = Fin 0, cu_height = Fin 0, cu_displayId = 0\<rparr> else cur) } })"

end
