(* ===== verification/Controller_Machine.thy ===== *)
theory Controller_Machine
  imports Controller_Text
begin

text \<open>
  A controller as a state machine: it starts initialised and serves the calls of the application, the
  callbacks of the service, the requests of input methods and the tasks of its event handlers, one after
  the other. Its invariant, and the proof that every operation keeps it.
\<close>

datatype client_request =
    AttachReq "nat option" attach_options text_config client_type | CloseReq int | ResetReq
  | ShowTextInputReq attach_options client_type | HideTextInputReq | ShowCurrentReq | HideCurrentReq
  | ShowSoftKeyboardReq "u64 option" client_type | HideSoftKeyboardReq "u64 option" | StopInputSessionReq
  | SimpleKeyboardReq bool | UpdateListenReq u32 u32 bool
  | CursorReq cursor_info | SelectionReq u16string int int | ConfigurationReq configuration | CallingWindowReq u32
  | PreviewStateReq bool | DiscardReq | PrivateCommandReq private_command | MessageReq array_buffer
  | KeyEventReq "key_event option" "nat option" | MsgHandlerReq "nat option"
  | ControllerListenerReq "nat option" | InnerListenerReq "nat option" | WindowScaleReq bool | StylusReq bool
  | ForwardReq int service_call
  | InputReadyCb "robj option" bind_ime_info | InputStopCb bool "robj option" bool bool | MirrorStopCb "robj option"
  | DeactivateCb | ExecTextCb string | PttBlockCb
  | ChannelReq channel_request u64 "robj option" | PanelStatusReq panel_status_info | KeyboardHeightReq u32
  | KeyboardStatusReq keyboard_status | ReceivePrivateCommandReq private_command | RecvMessageReq array_buffer
  | KeyResultReq u64 bool
  | ServiceDied | ServiceStarted | MainTask | HandlerTasks

text \<open>Requests that are passed on and change nothing but the log; \<open>StartInput\<close> is not one of them.\<close>

fun passes_on :: "service_call \<Rightarrow> bool" where
  "passes_on (S_StartInput _) = False"
| "passes_on _ = True"

definition chandle :: "cenv \<Rightarrow> client_request \<Rightarrow> unit ctl" where
  "chandle E q = (case q of
     AttachReq l opts t type \<Rightarrow> void (Attach E l opts t type)
   | CloseReq sid \<Rightarrow> void (Close_session E sid)
   | ResetReq \<Rightarrow> Reset E
   | ShowTextInputReq opts type \<Rightarrow> void (ShowTextInputInner E opts type)
   | HideTextInputReq \<Rightarrow> void (HideTextInput E)
   | ShowCurrentReq \<Rightarrow> void (ShowCurrentInput_c E)
   | HideCurrentReq \<Rightarrow> void (HideCurrentInput_c E)
   | ShowSoftKeyboardReq d type \<Rightarrow> void (ShowSoftKeyboard_c E d type)
   | HideSoftKeyboardReq d \<Rightarrow> void (case d of None \<Rightarrow> HideSoftKeyboard E | Some d \<Rightarrow> HideSoftKeyboard_display E d)
   | StopInputSessionReq \<Rightarrow> void (StopInputSession E)
   | SimpleKeyboardReq b \<Rightarrow> void (SetSimpleKeyboardEnabled b)
   | UpdateListenReq f g b \<Rightarrow> void (UpdateListenEventFlag E f g b)
   | CursorReq c \<Rightarrow> void (OnCursorUpdate E c)
   | SelectionReq t a b \<Rightarrow> void (OnSelectionChange E t a b)
   | ConfigurationReq c \<Rightarrow> void (OnConfigurationChange E c)
   | CallingWindowReq w \<Rightarrow> void (SetCallingWindow_c E w)
   | PreviewStateReq b \<Rightarrow> UpdateTextPreviewState E b
   | DiscardReq \<Rightarrow> void (DiscardTypingText E)
   | PrivateCommandReq m \<Rightarrow> void (SendPrivateCommand_c E m)
   | MessageReq b \<Rightarrow> void (SendMessage_c E b)
   | KeyEventReq k cb \<Rightarrow> void (DispatchKeyEvent E k cb)
   | MsgHandlerReq h \<Rightarrow> void (RegisterMsgHandler h)
   | ControllerListenerReq l \<Rightarrow> SetControllerListener l
   | InnerListenerReq l \<Rightarrow> SetImcInnerListener l
   | WindowScaleReq b \<Rightarrow> void (RegisterWindowScaleCallbackHandler b)
   | StylusReq b \<Rightarrow> void (RegisterStylusActivationCallbackHandler b)
   | ForwardReq err c \<Rightarrow> when_do (passes_on c) (void (forward E err c))
   | InputReadyCb a i \<Rightarrow> OnInputReady a i
   | InputStopCb a p b c \<Rightarrow> OnInputStop E a p b c
   | MirrorStopCb a \<Rightarrow> OnImeMirrorStop a
   | DeactivateCb \<Rightarrow> DeactivateClient E
   | ExecTextCb t \<Rightarrow> void (OnExecTextInteraction E t)
   | PttBlockCb \<Rightarrow> void StartPttSpaceKeyEventBlock
   | ChannelReq r i a \<Rightarrow> void (channel_handle E r i a)
   | PanelStatusReq i \<Rightarrow> NotifyPanelStatusInfo E i
   | KeyboardHeightReq h \<Rightarrow> NotifyKeyboardHeight E h
   | KeyboardStatusReq k \<Rightarrow> SendKeyboardStatus E k
   | ReceivePrivateCommandReq m \<Rightarrow> void (ReceivePrivateCommand E m)
   | RecvMessageReq b \<Rightarrow> void (RecvMessage E b)
   | KeyResultReq i b \<Rightarrow> HandleKeyEventResult i b
   | ServiceDied \<Rightarrow> OnRemoteSaDied E
   | ServiceStarted \<Rightarrow> OnSaStart
   | MainTask \<Rightarrow> run_next_task E
   | HandlerTasks \<Rightarrow> run_posted E)"

inductive controller_step :: "cenv \<Rightarrow> controller \<Rightarrow> controller \<Rightarrow> bool" for E where
  step: "run_state (chandle E q) s = ((), t) \<Longrightarrow> controller_step E s t"

inductive_simps controller_step_iff: "controller_step E s t"

definition controller_start :: "robj \<Rightarrow> robj \<Rightarrow> controller \<Rightarrow> bool" where
  "controller_start c ch s \<longleftrightarrow> s = snd (run_state (Initialize (Some c) (Some ch)) blank_controller)"

definition controller_reachable :: "cenv \<Rightarrow> robj \<Rightarrow> robj \<Rightarrow> controller \<Rightarrow> bool" where
  "controller_reachable E c ch = reaches (controller_start c ch) (controller_step E)"

section \<open>Invariant\<close>

text \<open>What the immersive parameters must satisfy, and the range of the immersive mode.\<close>

definition calibrated :: "input_attribute \<Rightarrow> bool" where
  "calibrated a \<longleftrightarrow> 0 \<le> ia_immersiveMode a \<and> ia_immersiveMode a < 4
     \<and> (ia_immersiveMode a = 0 \<longrightarrow> ia_gradientMode a = 0) \<and> (ia_gradientMode a = 0 \<longrightarrow> ia_fluidLightMode a = 0)"

definition agents_ok :: "agent_info list \<Rightarrow> bool" where
  "agents_ok as \<longleftrightarrow> distinct (map ag_object as) \<and> (\<forall>a \<in> set as. ag_object a \<noteq> None \<and> ag_agent a = ag_object a)"

definition info_ok :: "robj \<Rightarrow> robj \<Rightarrow> input_client_info \<Rightarrow> bool" where
  "info_ok c ch ci \<longleftrightarrow> ci_client ci = Some c \<and> ci_channel ci = Some ch \<and> calibrated (ci_attribute ci)"

definition cevent_ok :: "robj \<Rightarrow> robj \<Rightarrow> cevent \<Rightarrow> bool" where
  "cevent_ok c ch ev = (case ev of ServiceIpc (S_StartInput i) \<Rightarrow>
     (\<exists>ci. i = InputClientInfoToInner ci \<and> info_ok c ch ci) | _ \<Rightarrow> True)"

definition controller_inv :: "robj \<Rightarrow> robj \<Rightarrow> controller \<Rightarrow> bool" where
  "controller_inv c ch s \<longleftrightarrow> (ct_isEditable s \<longrightarrow> ct_isBound s) \<and> calibrated (xc_inputAttribute (ct_textConfig s))
     \<and> agents_ok (ct_agents s) \<and> info_ok c ch (ct_clientInfo s) \<and> omap_ok (ct_keyCbs s)
     \<and> \<not> ct_isDiedAttached s \<and> (\<forall>ev \<in> set (ct_log s). cevent_ok c ch ev)"

lemma calibrated_default [simp]: "calibrated default_input_attribute"
  by (simp add: calibrated_def default_input_attribute_def)

lemma calibrated_default_config [simp]: "calibrated (tc_inputAttribute default_text_total_config)"
  by (simp add: default_text_total_config_def)

lemma calibrated_default_text [simp]: "calibrated (xc_inputAttribute default_text_config)"
  by (simp add: default_text_config_def)

lemma calibrated_Calibrate:
  "0 \<le> ia_immersiveMode a \<Longrightarrow> ia_immersiveMode a < 4 \<Longrightarrow> calibrated (CalibrateImmersiveParam b a)"
  by (auto simp: CalibrateImmersiveParam_def calibrated_def Let_def)

lemma calibrated_truncate [simp]: "calibrated (truncate_names E a) = calibrated a"
  by (simp add: calibrated_def truncate_names_def)

section \<open>Operations that leave the session alone\<close>

text \<open>
  Most operations change neither the flags nor the configuration: they keep the \<^emph>\<open>core\<close> of the state and
  only add events that are not \<open>StartInput\<close>.
\<close>

lemma cevent_ok_simps [simp]:
  "cevent_ok c ch (ListenerEv l lc)" "cevent_ok c ch (AgentIpc k ac)" "cevent_ok c ch (SelectByRangeEv k a b)"
  "cevent_ok c ch (SelectByMovementEv k a)" "cevent_ok c ch (AttachmentDidFail k r)" "cevent_ok c ch (KeyCallbackEv cb ke cr)"
  "cevent_ok c ch (MessageEv h ab)" "cevent_ok c ch (TerminatedEv h)" "cevent_ok c ch MonitorInputStop"
  "cevent_ok c ch (NotifyInputStopFinished p)" "cevent_ok c ch (SleepEv n)"
  "passes_on sc \<Longrightarrow> cevent_ok c ch (ServiceIpc sc)"
  by (auto simp: cevent_ok_def split: service_call.split)

lemma inv_cemit [pres_intros]: "cevent_ok c ch ev \<Longrightarrow> preserves (controller_inv c ch) (cemit ev)"
  unfolding cemit_def by (rule preserves_modify) (auto simp: controller_inv_def)

lemma inv_ccall [pres_intros]: "cevent_ok c ch ev \<Longrightarrow> preserves (controller_inv c ch) (ccall E ev)"
  unfolding ccall_def by (intro pres_intros)

lemma inv_cask [pres_intros]: "preserves (controller_inv c ch) (cask E q)"
  by (simp add: cask_def)

lemma preserves_get [pres_intros]: "preserves I State_Monad.get"
  by (simp add: preserves_def)

lemma inv_upd_client_info:
  "(\<And>ci. info_ok c ch ci \<Longrightarrow> info_ok c ch (f ci)) \<Longrightarrow> preserves (controller_inv c ch) (upd_client_info f)"
  unfolding upd_client_info_def by (rule preserves_modify) (auto simp: controller_inv_def)

lemma inv_upd_text_config:
  "(\<And>t. calibrated (xc_inputAttribute t) \<Longrightarrow> calibrated (xc_inputAttribute (f t))) \<Longrightarrow>
   preserves (controller_inv c ch) (upd_text_config f)"
  unfolding upd_text_config_def by (rule preserves_modify) (auto simp: controller_inv_def)

lemma inv_GetSystemAbilityProxy [pres_intros]: "preserves (controller_inv c ch) (GetSystemAbilityProxy E b)"
  unfolding GetSystemAbilityProxy_def
  by (intro pres_intros preserves_modify) (auto simp: controller_inv_def)

lemma inv_with_service [pres_intros]:
  "preserves (controller_inv c ch) m \<Longrightarrow> preserves (controller_inv c ch) (with_service E err m)"
  "preserves (controller_inv c ch) m \<Longrightarrow> preserves (controller_inv c ch) (try_service E err m)"
  unfolding with_service_def try_service_def TryGetSystemAbilityProxy_def by (intro pres_intros; assumption)+

lemma inv_modify_idle:
  "(\<And>s. (ct_isEditable (f s) \<longrightarrow> ct_isBound (f s)) = (ct_isEditable s \<longrightarrow> ct_isBound s) \<and> ct_textConfig (f s) = ct_textConfig s
      \<and> ct_agents (f s) = ct_agents s \<and> ct_clientInfo (f s) = ct_clientInfo s \<and> ct_keyCbs (f s) = ct_keyCbs s
      \<and> ct_log (f s) = ct_log s \<and> (ct_isDiedAttached (f s) \<longrightarrow> ct_isDiedAttached s)) \<Longrightarrow> preserves (controller_inv c ch) (modify f)"
  by (rule preserves_modify) (auto simp: controller_inv_def)

lemma inv_listener [pres_intros]:
  "preserves (controller_inv c ch) (listener_run l lc)"
  "preserves (controller_inv c ch) (listener_dispatch E l lc)"
  "preserves (controller_inv c ch) (run_posted_task E tk)"
  "preserves (controller_inv c ch) (run_posted E)"
  unfolding run_posted_def run_posted_task_def listener_dispatch_def listener_run_def
  by (intro pres_intros inv_modify_idle; simp)+

section \<open>Every operation keeps the invariant\<close>

lemmas V2_defs = InsertTextV2_def DeleteForwardV2_def DeleteBackwardV2_def SendFunctionKeyV2_def MoveCursorV2_def
  HandleExtendActionV2_def SendKeyEventFromInputMethodV2_def NotifyPanelStatusInfoV2_def NotifyKeyboardHeightV2_def
  SetKeyboardStatusV2_def HandleSetSelectionV2_def HandleSelectV2_def FinishTextPreviewV2_def OnDetachV2_def

lemma inv_SendKeyboardStatusV2 [pres_intros]: "preserves (controller_inv c ch) (SendKeyboardStatusV2 E l st)"
  unfolding SendKeyboardStatusV2_def by (intro pres_intros inv_modify_idle; simp)

lemma inv_results_V2 [pres_intros]:
  "preserves (controller_inv c ch) (ReceivePrivateCommandV2 E l m)"
  "preserves (controller_inv c ch) (SetPreviewTextV2 E l t r)"
  unfolding ReceivePrivateCommandV2_def SetPreviewTextV2_def by (intro pres_intros inv_modify_idle; simp)+

lemma inv_question [pres_intros]: "preserves (controller_inv c ch) (listener_question E l lc f d)"
  unfolding listener_question_def by (intro pres_intros inv_modify_idle; simp)

lemma inv_send_to_agents [pres_intros]:
  "(\<And>k. preserves (controller_inv c ch) (task k)) \<Longrightarrow> preserves (controller_inv c ch) (send_to_agents sec task as r)"
  by (induction sec task as r rule: send_to_agents.induct) (auto intro!: pres_intros)

lemma inv_agents [pres_intros]:
  "(\<And>k. preserves (controller_inv c ch) (task k)) \<Longrightarrow> preserves (controller_inv c ch) (SendRequestToAllAgents task)"
  "(\<And>k. preserves (controller_inv c ch) (task k)) \<Longrightarrow> preserves (controller_inv c ch) (SendRequestToImeMirrorAgent task)"
  unfolding SendRequestToAllAgents_def SendRequestToImeMirrorAgent_def by (intro pres_intros; simp)+

lemma inv_with_editor [pres_intros]:
  "(\<And>l. preserves (controller_inv c ch) (f l)) \<Longrightarrow> preserves (controller_inv c ch) (with_editor f)"
  unfolding with_editor_def by (intro pres_intros; simp)

lemma inv_idle_setters [pres_intros]:
  "preserves (controller_inv c ch) RemoveDeathRecipient" "preserves (controller_inv c ch) (SetTextListener l)"
  "preserves (controller_inv c ch) (SetControllerListener l)" "preserves (controller_inv c ch) (SetImcInnerListener l)"
  "preserves (controller_inv c ch) (RegisterWindowScaleCallbackHandler b)"
  "preserves (controller_inv c ch) (RegisterStylusActivationCallbackHandler b)"
  "preserves (controller_inv c ch) ResetKeyEventCount" "preserves (controller_inv c ch) ResetPttSpaceKeyEventState"
  "preserves (controller_inv c ch) (SetBindImeInfo i)"
  unfolding RemoveDeathRecipient_def SetTextListener_def SetControllerListener_def SetImcInnerListener_def
    RegisterWindowScaleCallbackHandler_def RegisterStylusActivationCallbackHandler_def ResetKeyEventCount_def
    ResetPttSpaceKeyEventState_def SetBindImeInfo_def
  by (intro pres_intros inv_modify_idle; simp)+

lemma inv_ClearAgentInfo [pres_intros]: "preserves (controller_inv c ch) ClearAgentInfo"
  unfolding ClearAgentInfo_def by (rule preserves_modify) (simp add: controller_inv_def agents_ok_def)

lemma inv_SetAgent [pres_intros]: "preserves (controller_inv c ch) (SetAgent (Some k) b)"
  unfolding SetAgent_def
  by (rule preserves_modify) (auto simp: controller_inv_def agents_ok_def)

lemma agents_ok_erase: "agents_ok (as @ a # bs) \<Longrightarrow> agents_ok (as @ bs)"
  by (auto simp: agents_ok_def)

lemma inv_OnImeMirrorStop [pres_intros]: "preserves (controller_inv c ch) (OnImeMirrorStop obj)"
  unfolding OnImeMirrorStop_def
  by (rule preserves_modify)
    (auto simp: controller_inv_def extract_Some_iff split: option.split intro: agents_ok_erase)

lemma inv_modify_flags: "preserves (controller_inv c ch) (modify (\<lambda>s. s\<lparr>ct_isBound := True, ct_isEditable := True\<rparr>))"
  "preserves (controller_inv c ch) (modify (\<lambda>s. s\<lparr>ct_isEditable := False\<rparr>))"
  by (rule preserves_modify; simp add: controller_inv_def)+

lemma inv_ready [pres_intros]:
  "preserves (controller_inv c ch) (OnInputReady a i)" "preserves (controller_inv c ch) (SetInputReady as is)"
  unfolding SetInputReady_def OnInputReady_def by (intro pres_intros inv_modify_flags)+

lemma inv_leave_input [pres_intros]: "preserves (controller_inv c ch) leave_input"
  unfolding leave_input_def preserves_wp
  by (auto simp: wp_simps ResetKeyEventCount_def controller_inv_def)

lemma inv_clear_editor [pres_intros]: "preserves (controller_inv c ch) (modify clear_editor)"
  "preserves (controller_inv c ch) (modify (\<lambda>s. (clear_editor s)\<lparr>ct_isTextNotified := False\<rparr>))"
  by (rule inv_modify_idle, simp add: clear_editor_def)+

lemma inv_input_stop [pres_intros]:
  "preserves (controller_inv c ch) (OnTmpInputStop E p)" "preserves (controller_inv c ch) (OnInputStop E x p y z)"
  unfolding OnInputStop_def OnTmpInputStop_def notify_stop_finished_def V2_defs by (intro pres_intros; simp)+

lemma inv_client_info_rules [pres_intros]:
  "preserves (controller_inv c ch) (upd_client_info (\<lambda>ci. ci\<lparr>ci_isNotifyInputStart := b\<rparr>))"
  "preserves (controller_inv c ch) (upd_client_info (\<lambda>ci. ci\<lparr>ci_isShowKeyboard := b\<rparr>))"
  "preserves (controller_inv c ch) (upd_client_info (\<lambda>ci. ci\<lparr>ci_isStylusActivation := b\<rparr>))"
  "preserves (controller_inv c ch) (upd_client_info (\<lambda>ci. ci\<lparr>ci_isShowKeyboard := b, ci_isStylusActivation := b'\<rparr>))"
  "preserves (controller_inv c ch) (upd_client_info (\<lambda>ci. ci\<lparr>ci_state := st\<rparr>))"
  "preserves (controller_inv c ch) (upd_client_info (\<lambda>ci. ci\<lparr>ci_eventFlag := fl\<rparr>))"
  "preserves (controller_inv c ch) (upd_client_info (\<lambda>ci. ci\<lparr>ci_config :=
     (ci_config ci)\<lparr>tc_isSimpleKeyboardEnabled := b\<rparr>\<rparr>))"
  "preserves (controller_inv c ch) (upd_client_info (\<lambda>ci. ci\<lparr>ci_config :=
     default_text_total_config\<lparr>tc_isSimpleKeyboardEnabled := tc_isSimpleKeyboardEnabled (ci_config ci)\<rparr>\<rparr>))"
  by (rule inv_upd_client_info; simp add: info_ok_def)+

lemma inv_SendKeyboardStatus [pres_intros]: "preserves (controller_inv c ch) (SendKeyboardStatus E st)"
  unfolding SendKeyboardStatus_def by (intro pres_intros)

lemma inv_DeactivateClient [pres_intros]: "preserves (controller_inv c ch) (DeactivateClient E)"
  unfolding DeactivateClient_def by (intro pres_intros)

lemma inv_capacity [pres_intros]:
  "preserves (controller_inv c ch) (cached_capacity E cap q g f)" "preserves (controller_inv c ch) (IsPcMode E)"
  "preserves (controller_inv c ch) (ShouldOverrideImmersiveMode E t)"
  unfolding ShouldOverrideImmersiveMode_def IsSupportPcMode_def IsDisableImmersiveMode_def
    IsDisablePcModeImmersiveMode_def IsPcMode_def cached_capacity_def
  by (intro pres_intros inv_modify_idle; simp)+

lemma inv_ClearEditorCache [pres_intros]: "preserves (controller_inv c ch) (ClearEditorCache E b l)"
  unfolding ClearEditorCache_def V2_defs
  by (intro pres_intros inv_upd_text_config inv_modify_idle; simp)

text \<open>The configuration is stored before it is calibrated; the checks in between do not look at it.\<close>

definition inv_but_config :: "robj \<Rightarrow> robj \<Rightarrow> text_config \<Rightarrow> controller \<Rightarrow> bool" where
  "inv_but_config c ch t s \<longleftrightarrow> controller_inv c ch (s\<lparr>ct_textConfig := default_text_config\<rparr>) \<and> ct_textConfig s = t"

lemma inv_but_config_override: "preserves (inv_but_config c ch t) (ShouldOverrideImmersiveMode E t')"
  unfolding ShouldOverrideImmersiveMode_def IsSupportPcMode_def IsDisableImmersiveMode_def
    IsDisablePcModeImmersiveMode_def IsPcMode_def cached_capacity_def try_service_def TryGetSystemAbilityProxy_def
    GetSystemAbilityProxy_def ccall_def cemit_def cask_def
  by (intro pres_intros preserves_modify; simp add: inv_but_config_def controller_inv_def)

lemma inv_SaveTextConfig [pres_intros]:
  assumes "IsValidTextConfig t = NO_ERROR"
  shows "preserves (controller_inv c ch) (SaveTextConfig E t)"
proof -
  have t: "calibrated (CalibrateImmersiveParam b (xc_inputAttribute t))" for b
    using assms by (intro calibrated_Calibrate) (auto simp: IsValidTextConfig_def split: if_splits)
  show ?thesis
    unfolding preserves_wp
  proof (intro allI impI)
    fix s assume s: "controller_inv c ch s"
    then have "inv_but_config c ch t (s\<lparr>ct_textConfig := t\<rparr>)"
      by (simp add: inv_but_config_def controller_inv_def)
    then have *: "wp (ShouldOverrideImmersiveMode E t) (\<lambda>_. inv_but_config c ch t) (s\<lparr>ct_textConfig := t\<rparr>)"
      by (rule preservesD [OF inv_but_config_override])
    show "wp (SaveTextConfig E t) (\<lambda>_. controller_inv c ch) s"
      unfolding SaveTextConfig_def upd_text_config_def wp_simps
      by (rule wp_conseq [OF *]) (use t in \<open>auto simp: inv_but_config_def controller_inv_def\<close>)
  qed
qed

lemma info_ok_GetTextConfig:
  "controller_inv c ch s \<Longrightarrow> info_ok c ch ((ct_clientInfo s)\<lparr>ci_config := GetTextConfig s x\<rparr>)"
  by (simp add: controller_inv_def info_ok_def GetTextConfig_def Let_def)

lemma inv_take_config [pres_intros]:
  "preserves (controller_inv c ch)
     (modify (\<lambda>s. s\<lparr>ct_clientInfo := (ct_clientInfo s)\<lparr>ci_config := GetTextConfig s (ci_config (ct_clientInfo s))\<rparr>\<rparr>))"
  by (rule preserves_modify) (use info_ok_GetTextConfig in \<open>auto simp: controller_inv_def\<close>)

lemma inv_PrepareAttach [pres_intros]:
  "IsValidTextConfig t = NO_ERROR \<Longrightarrow> preserves (controller_inv c ch) (PrepareAttach E l opts t type)"
  unfolding PrepareAttach_def V2_defs
  by (intro pres_intros inv_modify_idle inv_upd_client_info; simp add: info_ok_def)

lemma inv_StartInput_c [pres_intros]: "preserves (controller_inv c ch) (StartInput_c E)"
proof -
  have "preserves (controller_inv c ch) (do {
       ci \<leftarrow> gets ct_clientInfo;
       out \<leftarrow> gets (\<lambda>s. ce_start E (ct_log s));
       r \<leftarrow> ccall E (ServiceIpc (S_StartInput (InputClientInfoToInner ci)));
       ret (r, out) })"
    unfolding preserves_wp by (auto simp: wp_simps ccall_def cemit_def controller_inv_def cevent_ok_def)
  from preserves_bind [OF inv_idle_setters(8) inv_with_service(1) [OF this]] show ?thesis
    unfolding StartInput_c_def .
qed

lemma inv_AttachExec [pres_intros]: "preserves (controller_inv c ch) (AttachExec E l opts t type)"
  unfolding AttachExec_def NotifyAttachFailure_def by (intro pres_intros; simp)

lemma inv_BlockRetry_ret [pres_intros]:
  "preserves (controller_inv c ch) m \<Longrightarrow> preserves (controller_inv c ch) (BlockRetry_ret iv n m)"
  by (induction n) (auto intro!: pres_intros)

lemma inv_attach [pres_intros]:
  "preserves (controller_inv c ch) (Attach E l opts t type)" "preserves (controller_inv c ch) (restore_attach E)"
  unfolding restore_attach_def Attach_config_def Attach_def by (intro pres_intros)+

lemma inv_close [pres_intros]:
  "preserves (controller_inv c ch) (ReleaseInput_c E sid)" "preserves (controller_inv c ch) (Close_session E sid)"
  "preserves (controller_inv c ch) (Reset E)"
  unfolding Reset_def Close_def Close_session_def ReleaseInput_c_def V2_defs by (intro pres_intros; simp)+

text \<open>\<open>ShowTextInput\<close> makes the editor editable only when it is bound, and the request changes no flag.\<close>

lemma frames_bound_ShowInput: "frames ct_isBound (ShowInput_c E type r)"
  unfolding ShowInput_c_def with_service_def GetSystemAbilityProxy_def ccall_def cemit_def cask_def upd_client_info_def
  by (intro frame_intros; simp add: frames_def)

lemma inv_ShowInput_c [pres_intros]: "preserves (controller_inv c ch) (ShowInput_c E type r)"
  "preserves (controller_inv c ch) (HideInput_c E)"
  unfolding ShowInput_c_def HideInput_c_def by (intro pres_intros; simp)+

lemma inv_ShowTextInputInner [pres_intros]: "preserves (controller_inv c ch) (ShowTextInputInner E opts type)"
  unfolding preserves_wp
proof (intro allI impI)
  fix s assume s: "controller_inv c ch s"
  let ?s = "s\<lparr>ct_clientInfo := (ct_clientInfo s)\<lparr>ci_isShowKeyboard := True\<rparr>\<rparr>"
  have "wp (ShowInput_c E type (reason_value (ao_requestKeyboardReason opts)))
    (\<lambda>_ u. controller_inv c ch u \<and> ct_isBound u = ct_isBound s) ?s"
  proof (intro wp_conj)
    have "controller_inv c ch ?s" using s by (simp add: controller_inv_def info_ok_def)
    then show "wp (ShowInput_c E type (reason_value (ao_requestKeyboardReason opts))) (\<lambda>_. controller_inv c ch) ?s"
      by (rule preservesD [OF inv_ShowInput_c(1)])
    show "wp (ShowInput_c E type (reason_value (ao_requestKeyboardReason opts))) (\<lambda>_ u. ct_isBound u = ct_isBound s) ?s"
      using frames_run [OF frames_bound_ShowInput, of E type _ ?s] by (simp add: wp_run)
  qed
  with s show "wp (ShowTextInputInner E opts type) (\<lambda>_. controller_inv c ch) s"
    unfolding ShowTextInputInner_def
    by (auto simp: wp_simps upd_client_info_def IsBound_def controller_inv_def elim!: wp_conseq split: if_splits)
qed

lemma inv_show_hide [pres_intros]:
  "preserves (controller_inv c ch) (HideTextInput E)" "preserves (controller_inv c ch) (ShowCurrentInput_c E)"
  "preserves (controller_inv c ch) (HideCurrentInput_c E)" "preserves (controller_inv c ch) (ShowSoftKeyboard_c E d type)"
  "preserves (controller_inv c ch) (HideSoftKeyboard E)" "preserves (controller_inv c ch) (HideSoftKeyboard_display E d')"
  "preserves (controller_inv c ch) (StopInputSession E)" "preserves (controller_inv c ch) (SetSimpleKeyboardEnabled b)"
  unfolding HideTextInput_def ShowCurrentInput_c_def HideCurrentInput_c_def ShowSoftKeyboard_c_def HideSoftKeyboard_def
    HideSoftKeyboard_display_def StopInputSession_def SetSimpleKeyboardEnabled_def
  by (intro pres_intros inv_modify_flags; simp)+

lemma inv_listen [pres_intros]:
  "preserves (controller_inv c ch) (UpdateListenEventFlag E f g b)" "preserves (controller_inv c ch) (RestoreListenEventFlag E)"
  unfolding UpdateListenEventFlag_def RestoreListenEventFlag_def TryGetSystemAbilityProxy_def
  by (intro pres_intros; simp)+

lemma inv_main_tasks [pres_intros]:
  "preserves (controller_inv c ch) RestoreListenInfoInSaDied" "preserves (controller_inv c ch) (RestoreClientInfoInSaDied E)"
  "preserves (controller_inv c ch) OnSaStart" "preserves (controller_inv c ch) (run_main_task E t)"
  "preserves (controller_inv c ch) (run_next_task E)" "preserves (controller_inv c ch) (OnRemoteSaDied E)"
proof -
  show r: "preserves (controller_inv c ch) RestoreListenInfoInSaDied"
    unfolding RestoreListenInfoInSaDied_def by (rule inv_modify_idle) simp
  then show "preserves (controller_inv c ch) OnSaStart"
    unfolding OnSaStart_def by (intro pres_intros inv_modify_idle) simp_all
  show d: "preserves (controller_inv c ch) (RestoreClientInfoInSaDied E)"
    unfolding RestoreClientInfoInSaDied_def by (intro pres_intros inv_modify_idle) simp_all
  then show "preserves (controller_inv c ch) (OnRemoteSaDied E)"
    unfolding OnRemoteSaDied_def V2_defs by (intro pres_intros inv_modify_idle) simp_all
  show m: "preserves (controller_inv c ch) (run_main_task E t)" for t
    unfolding run_main_task_def by (cases t) (simp_all, (intro pres_intros inv_modify_idle; simp)+)
  then show "preserves (controller_inv c ch) (run_next_task E)"
    unfolding run_next_task_def
    by (intro preserves_bind preserves_gets) (auto split: list.split intro!: pres_intros inv_modify_idle)
qed

lemma inv_upd_text_rules [pres_intros]:
  "preserves (controller_inv c ch) (upd_text_config (\<lambda>t. t\<lparr>xc_cursorInfo := cur\<rparr>))"
  "preserves (controller_inv c ch) (upd_text_config (\<lambda>t. t\<lparr>xc_range := r\<rparr>))"
  "preserves (controller_inv c ch) (upd_text_config (\<lambda>t. t\<lparr>xc_windowId := w\<rparr>))"
  "preserves (controller_inv c ch) (upd_text_config (\<lambda>t. t\<lparr>xc_inputAttribute :=
     (xc_inputAttribute t)\<lparr>ia_isTextPreviewSupported := b\<rparr>\<rparr>))"
  "preserves (controller_inv c ch) (upd_text_config (\<lambda>t. t\<lparr>xc_inputAttribute := (xc_inputAttribute t)
     \<lparr>ia_enterKeyType := a, ia_inputPattern := b', ia_consumeKeyEvents := f t\<rparr>\<rparr>))"
  by (rule inv_upd_text_config; simp add: calibrated_def)+

lemma inv_editor [pres_intros]:
  "preserves (controller_inv c ch) (DiscardTypingText E)" "preserves (controller_inv c ch) (OnCursorUpdate E cur)"
  "preserves (controller_inv c ch) (OnSelectionChange E t a b)" "preserves (controller_inv c ch) (OnConfigurationChange E cf)"
  "preserves (controller_inv c ch) (SetCallingWindow_c E w)" "preserves (controller_inv c ch) (UpdateTextPreviewState E p)"
  "preserves (controller_inv c ch) (SendPrivateCommand_c E m)" "preserves (controller_inv c ch) (SendMessage_c E ab)"
  "preserves (controller_inv c ch) (RecvMessage E ab)" "preserves (controller_inv c ch) (RegisterMsgHandler h)"
  unfolding DiscardTypingText_def OnCursorUpdate_def OnSelectionChange_def OnConfigurationChange_def SetCallingWindow_c_def
    SetCallingWindowByIMSA_def UpdateTextPreviewState_def SendPrivateCommand_c_def SendMessage_c_def RecvMessage_def
    RegisterMsgHandler_def
  by (intro pres_intros inv_modify_idle; simp)+

lemma inv_keys [pres_intros]:
  "preserves (controller_inv c ch) (AddKeyEventCbInfo cb)" "preserves (controller_inv c ch) (RemoveKeyEventCbInfo i)"
  "preserves (controller_inv c ch) (HandleKeyEventResult i b)" "preserves (controller_inv c ch) (modify (count_dispatch b))"
  "preserves (controller_inv c ch) (HandlePttSpaceKeyEventBlock ke k)" "preserves (controller_inv c ch) StartPttSpaceKeyEventBlock"
proof -
  show "preserves (controller_inv c ch) (AddKeyEventCbInfo cb)"
    unfolding AddKeyEventCbInfo_def by (intro pres_intros preserves_modify) (simp add: controller_inv_def)
  show r: "preserves (controller_inv c ch) (RemoveKeyEventCbInfo i)"
    unfolding RemoveKeyEventCbInfo_def by (rule preserves_modify) (simp add: controller_inv_def)
  then show "preserves (controller_inv c ch) (HandleKeyEventResult i b)"
    unfolding HandleKeyEventResult_def by (intro pres_intros) simp_all
  show "preserves (controller_inv c ch) (modify (count_dispatch b))"
    by (rule inv_modify_idle) (simp add: count_dispatch_def Let_def)
  show "preserves (controller_inv c ch) (HandlePttSpaceKeyEventBlock ke k)"
    unfolding HandlePttSpaceKeyEventBlock_def by (intro pres_intros inv_modify_idle) simp_all
  show "preserves (controller_inv c ch) StartPttSpaceKeyEventBlock"
    unfolding StartPttSpaceKeyEventBlock_def by (intro pres_intros inv_modify_idle) simp_all
qed

lemma inv_DispatchKeyEvent [pres_intros]: "preserves (controller_inv c ch) (DispatchKeyEvent E ke k)"
  unfolding DispatchKeyEvent_def DispatchKeyEventInner_def
  by (intro pres_intros inv_modify_idle; (simp add: Let_def split: option.split)?; (intro pres_intros impI allI)?; simp?)

lemma inv_text [pres_intros]:
  "preserves (controller_inv c ch) (InsertText E t)" "preserves (controller_inv c ch) (FinishTextPreview E)"
  "preserves (controller_inv c ch) (OnExecTextInteraction E str)" "preserves (controller_inv c ch) (SelectByRange E a b)"
  "preserves (controller_inv c ch) (SelectByMovement E a b)" "preserves (controller_inv c ch) (SendFunctionKey E a)"
  "preserves (controller_inv c ch) (SetPreviewText E str rg)" "preserves (controller_inv c ch) (GetLeft E a t)"
  "preserves (controller_inv c ch) (GetRight E a t)" "preserves (controller_inv c ch) (GetTextIndexAtCursor E a)"
  "preserves (controller_inv c ch) (ReceivePrivateCommand E m)" "preserves (controller_inv c ch) (NotifyPanelStatusInfo E pin)"
  "preserves (controller_inv c ch) (NotifyKeyboardHeight E hh)"
  unfolding OnExecTextInteraction_def InsertText_def FinishTextPreview_def SelectByRange_def SelectByMovement_def
    SendFunctionKey_def SetPreviewText_def GetLeft_def GetRight_def GetTextIndexAtCursor_def ReceivePrivateCommand_def
    NotifyPanelStatusInfo_def NotifyKeyboardHeight_def GetLeftTextOfCursorV2_def GetRightTextOfCursorV2_def
    GetTextIndexAtCursorV2_def V2_defs
  by (intro pres_intros; simp)+

lemma inv_channel [pres_intros]: "preserves (controller_inv c ch) (channel_handle E q i a)"
proof -
  have "preserves (controller_inv c ch) (run_channel_request E q)"
    unfolding run_channel_request_def DeleteForward_def DeleteBackward_def MoveCursor_def HandleExtendAction_def V2_defs
    by (cases q; simp; intro pres_intros)
  then show ?thesis
    unfolding channel_handle_def ResponseDataChannel_def by (intro pres_intros) simp_all
qed

lemma inv_chandle: "preserves (controller_inv c ch) (chandle E q)"
  by (cases q; simp only: chandle_def client_request.case forward_def) (intro pres_intros; simp)+

lemma inv_controller_start: "controller_start c ch s \<Longrightarrow> controller_inv c ch s"
  by (simp add: controller_start_def Initialize_def blank_controller_def upd_client_info_def controller_inv_def info_ok_def
      agents_ok_def default_input_client_info_def)

interpretation ctl: safe_system "controller_start c ch" "controller_step E" "controller_inv c ch" for E c ch
proof (unfold_locales, goal_cases)
  case (1 s)
  then show ?case by (rule inv_controller_start)
next
  case (2 s t)
  then show ?case unfolding controller_step_iff using preserves_run [OF inv_chandle] by (metis snd_conv)
qed

lemma controller_inv_reachable: "controller_reachable E c ch s \<Longrightarrow> controller_inv c ch s"
  unfolding controller_reachable_def by (rule ctl.inv_reaches)

end
