(* ===== verification/Controller_Correct.thy ===== *)
theory Controller_Correct
  imports Controller_Machine
begin

text \<open>
  The session on the client side: what holds in every reachable controller, what \<open>Attach\<close> and \<open>Close\<close> do,
  how often \<open>Attach\<close> tries, and what becomes of an editor when the service dies.
\<close>

section \<open>Frames\<close>

lemma wp_frames: "frames g m \<Longrightarrow> (\<And>r t. g t = g s \<Longrightarrow> Q r t) \<Longrightarrow> wp m Q s"
  by (simp add: frames_def wp_run)

lemma wp_get [wp_simps]: "wp State_Monad.get Q s = Q s s"
  by (simp add: wp_def)

lemma frames_get [frame_intros]: "frames g State_Monad.get"
  by (simp add: frames_def)

definition not_service :: "cevent \<Rightarrow> bool" where
  "not_service ev = (case ev of ServiceIpc _ \<Rightarrow> False | _ \<Rightarrow> True)"

text \<open>What requests to the service leave as it is.\<close>

definition editor_view :: "controller \<Rightarrow> nat option \<times> u32 \<times> bool \<times> bool \<times> agent_info list \<times> input_client_info
    \<times> nat option \<times> cevent list \<times> (nat \<times> listener_call) list" where
  "editor_view s = (ct_listener s, ct_sessionId s, ct_isBound s, ct_isEditable s, ct_agents s, ct_clientInfo s,
     ct_innerListener s, filter not_service (ct_log s), ct_posted s)"

lemma view_cemit: "\<not> not_service ev \<Longrightarrow> frames editor_view (cemit ev)"
  unfolding cemit_def by (rule frames_modify) (simp add: editor_view_def)

lemma view_service [frame_intros]:
  "frames editor_view (ccall E (ServiceIpc sc))" "frames editor_view (cask E q)"
  "frames editor_view (GetSystemAbilityProxy E b)" "frames editor_view (TryGetSystemAbilityProxy E)"
  unfolding ccall_def cask_def TryGetSystemAbilityProxy_def GetSystemAbilityProxy_def
  by (intro frame_intros view_cemit frames_modify; simp add: not_service_def editor_view_def)+

lemma view_with_service [frame_intros]:
  "frames editor_view m \<Longrightarrow> frames editor_view (with_service E err m)"
  "frames editor_view m \<Longrightarrow> frames editor_view (try_service E err m)"
  unfolding with_service_def try_service_def by (intro frame_intros; assumption)+

lemma view_override [frame_intros]: "frames editor_view (ShouldOverrideImmersiveMode E t)"
  unfolding ShouldOverrideImmersiveMode_def IsSupportPcMode_def IsDisableImmersiveMode_def IsDisablePcModeImmersiveMode_def
    IsPcMode_def cached_capacity_def
  by (intro frame_intros frames_modify; simp add: editor_view_def)

lemma view_SaveTextConfig [frame_intros]: "frames editor_view (SaveTextConfig E t)"
  unfolding SaveTextConfig_def upd_text_config_def
  by (intro frame_intros frames_modify; simp add: editor_view_def)

lemma view_StartInput_c [frame_intros]: "frames editor_view (StartInput_c E)"
  unfolding StartInput_c_def ResetPttSpaceKeyEventState_def
  by (intro frame_intros frames_modify; simp add: editor_view_def)

section \<open>Every reachable controller\<close>

text \<open>C11. In every state that a controller can reach, an editor in the editable state is bound; the
  immersive parameters of the editor's attributes are in range and consistent (no gradient without an
  immersive mode, no fluid light without a gradient); the agents have different, non-null objects; and
  every \<open>StartInput\<close> request that was ever sent carried the controller's own callback objects and
  consistent parameters. The flag \<open>isDiedAttached_\<close> is never set, so that after the death of the service
  all delayed tasks attach again, also when an earlier one succeeded.
\<close>

theorem reachable_controller:
  assumes "controller_reachable E c ch s"
  shows "(ct_isEditable s \<longrightarrow> ct_isBound s) \<and> calibrated (xc_inputAttribute (ct_textConfig s)) \<and> agents_ok (ct_agents s) \<and>
    (\<forall>i. ServiceIpc (S_StartInput i) \<in> set (ct_log s) \<longrightarrow> cn_client i = Some c \<and> cn_channel i = Some ch \<and>
       calibrated (InnerToAttribute (ti_inputAttribute (cn_config i)))) \<and> \<not> ct_isDiedAttached s"
proof -
  have inv: "controller_inv c ch s" using assms by (rule controller_inv_reachable)
  have "cn_client i = Some c \<and> cn_channel i = Some ch \<and> calibrated (InnerToAttribute (ti_inputAttribute (cn_config i)))"
    if "ServiceIpc (S_StartInput i) \<in> set (ct_log s)" for i
  proof -
    from inv that obtain ci where "i = InputClientInfoToInner ci" "info_ok c ch ci"
      by (force simp: controller_inv_def cevent_ok_def)
    then show ?thesis
      by (simp add: InputClientInfoToInner_def TextTotalConfigToInner_def InnerToAttribute_def AttributeToInner_def
          info_ok_def calibrated_def)
  qed
  with inv show ?thesis by (auto simp: controller_inv_def)
qed

section \<open>Attach\<close>

text \<open>The editor was called, or a task for the call is posted.\<close>

definition told :: "controller \<Rightarrow> nat \<Rightarrow> listener_call \<Rightarrow> bool" where
  "told s l c \<longleftrightarrow> ListenerEv l c \<in> set (ct_log s) \<or> (l, c) \<in> set (ct_posted s)"

lemma told_view: "editor_view s = editor_view t \<Longrightarrow> told s l c = told t l c"
proof -
  assume "editor_view s = editor_view t"
  then have "filter not_service (ct_log s) = filter not_service (ct_log t)" "ct_posted s = ct_posted t"
    by (auto simp: editor_view_def)
  moreover have "ListenerEv l c \<in> set xs \<longleftrightarrow> ListenerEv l c \<in> set (filter not_service xs)" for xs
    by (simp add: not_service_def)
  ultimately show ?thesis unfolding told_def by metis
qed

lemma told_dispatch: "wp (listener_dispatch E l c) (\<lambda>_ t. told t l c) s"
  by (simp add: listener_dispatch_def listener_run_def cemit_def wp_simps told_def)

text \<open>What the client knows about its input session, before and after an operation.\<close>

definition same_session :: "controller \<Rightarrow> controller \<Rightarrow> bool" where
  "same_session s t \<longleftrightarrow> ct_isBound t = ct_isBound s \<and> ct_isEditable t = ct_isEditable s \<and> ct_agents t = ct_agents s
     \<and> ci_state (ct_clientInfo t) = ci_state (ct_clientInfo s) \<and> ct_innerListener t = ct_innerListener s"

definition prepared :: "nat option \<Rightarrow> controller \<Rightarrow> controller \<Rightarrow> bool" where
  "prepared l s t \<longleftrightarrow> same_session s t \<and> ct_listener t = l
     \<and> ct_sessionId t = (if ct_listener s = l then ct_sessionId s else ct_sessionId s + 1)
     \<and> (\<forall>k. ct_listener s = Some k \<and> l \<noteq> Some k \<longrightarrow> told t k L_OnDetach)"

lemma prepared_view: "prepared l s t \<Longrightarrow> editor_view u = editor_view t \<Longrightarrow> prepared l s u"
  using told_view [of u t] by (auto simp: prepared_def same_session_def editor_view_def)

lemma prepared_client_info:
  "prepared l s t \<Longrightarrow> ci_state ci = ci_state (ct_clientInfo t) \<Longrightarrow> prepared l s (t\<lparr>ct_clientInfo := ci\<rparr>)"
  by (simp add: prepared_def same_session_def told_def)

lemma prepared_before_save:
  "wp (do {
     lastListener \<leftarrow> gets ct_listener;
     let isNew = (lastListener \<noteq> l);
     upd_client_info (\<lambda>ci. ci\<lparr>ci_isNotifyInputStart := isNew\<rparr>);
     when_do isNew (modify (\<lambda>s. s\<lparr>ct_sessionId := ct_sessionId s + 1\<rparr>));
     (case lastListener of None \<Rightarrow> ret () | Some l \<Rightarrow> when_do isNew (OnDetachV2 E l));
     ClearEditorCache E isNew lastListener;
     SetTextListener l }) (\<lambda>_. prepared l s) s"
  by (cases "ct_listener s")
    (auto simp: wp_simps Let_def ClearEditorCache_def upd_text_config_def upd_client_info_def SetTextListener_def
      OnDetachV2_def FinishTextPreviewV2_def listener_dispatch_def listener_run_def cemit_def clear_editor_def
      prepared_def same_session_def told_def wp_def)

lemma PrepareAttach_wp:
  "wp (PrepareAttach E l opts t type) (\<lambda>_ u. prepared l s u \<and> ci_isShowKeyboard (ct_clientInfo u) = ao_isShowKeyboard opts
     \<and> ci_type (ct_clientInfo u) = type) s"
proof -
  let ?m = "do {
     lastListener \<leftarrow> gets ct_listener;
     let isNew = (lastListener \<noteq> l);
     upd_client_info (\<lambda>ci. ci\<lparr>ci_isNotifyInputStart := isNew\<rparr>);
     when_do isNew (modify (\<lambda>s. s\<lparr>ct_sessionId := ct_sessionId s + 1\<rparr>));
     (case lastListener of None \<Rightarrow> ret () | Some l \<Rightarrow> when_do isNew (OnDetachV2 E l));
     ClearEditorCache E isNew lastListener;
     SetTextListener l }"
  let ?n = "do {
     SaveTextConfig E t;
     stylus \<leftarrow> gets (IsStylusActivation E);
     modify (\<lambda>s. s\<lparr>ct_clientInfo := (ct_clientInfo s)\<lparr>ci_config := GetTextConfig s (ci_config (ct_clientInfo s))\<rparr>\<rparr>);
     upd_client_info (\<lambda>ci. ci\<lparr>ci_isShowKeyboard := ao_isShowKeyboard opts, ci_type := type,
       ci_config := (ci_config ci)\<lparr>tc_requestKeyboardReason := ao_requestKeyboardReason opts\<rparr>,
       ci_isStylusActivation := stylus\<rparr>) }"
  have "PrepareAttach E l opts t type = do { ?m; ?n }"
    by (simp add: PrepareAttach_def Let_def)
  moreover have "wp ?n (\<lambda>_ u. prepared l s u \<and> ci_isShowKeyboard (ct_clientInfo u) = ao_isShowKeyboard opts
     \<and> ci_type (ct_clientInfo u) = type) v" if "prepared l s v" for v
    unfolding wp_simps upd_client_info_def
    by (rule wp_frames [OF view_SaveTextConfig])
      (use prepared_view [OF that] in \<open>auto intro: prepared_client_info\<close>)
  ultimately show ?thesis
    using prepared_before_save [of l E s] by (auto simp: wp_bind elim!: wp_conseq)
qed

lemma zip_partner:
  assumes "length xs = length ys"
  shows "y \<in> set ys \<Longrightarrow> \<exists>x. (x, y) \<in> set (zip xs ys)" and "x \<in> set xs \<Longrightarrow> \<exists>y. (x, y) \<in> set (zip xs ys)"
  using assms by (metis in_set_impl_in_set_zip2 in_set_impl_in_set_zip1)+

text \<open>What \<open>OnInputReady\<close> does for one agent, and for all of them.\<close>

definition session_kept :: "controller \<Rightarrow> controller \<Rightarrow> bool" where
  "session_kept s t \<longleftrightarrow> ct_listener t = ct_listener s \<and> ct_sessionId t = ct_sessionId s \<and> ct_clientInfo t = ct_clientInfo s
     \<and> ct_log t = ct_log s \<and> ct_posted t = ct_posted s \<and> (ct_isBound s \<longrightarrow> ct_isBound t) \<and> (ct_isEditable s \<longrightarrow> ct_isEditable t)
     \<and> ag_object ` set (ct_agents s) \<subseteq> ag_object ` set (ct_agents t)"

lemma OnInputReady_wp:
  "wp (OnInputReady a i) (\<lambda>_ t. session_kept s t \<and> (bi_bundleName i \<noteq> IME_MIRROR_NAME \<longrightarrow> ct_isBound t \<and> ct_isEditable t)
     \<and> (a \<noteq> None \<longrightarrow> a \<in> ag_object ` set (ct_agents t))) s"
  by (cases a)
    (auto simp: OnInputReady_def SetBindImeInfo_def SetAgent_def wp_simps session_kept_def intro: rev_image_eqI)

lemma session_kept_trans: "session_kept s t \<Longrightarrow> session_kept t u \<Longrightarrow> session_kept s u"
  by (auto simp: session_kept_def)

lemma SetInputReady_wp:
  "wp (for_each ais (\<lambda>ai. OnInputReady (fst ai) (snd ai)))
     (\<lambda>_ t. session_kept s t \<and> (\<forall>(a, i) \<in> set ais.
        (bi_bundleName i \<noteq> IME_MIRROR_NAME \<longrightarrow> ct_isBound t \<and> ct_isEditable t)
        \<and> (a \<noteq> None \<longrightarrow> a \<in> ag_object ` set (ct_agents t)))) s"
proof (induction ais arbitrary: s)
  case Nil
  show ?case by (simp add: wp_simps session_kept_def)
next
  case (Cons ai ais)
  have "wp (for_each ais (\<lambda>ai. OnInputReady (fst ai) (snd ai))) (\<lambda>_ t. session_kept s t \<and> (\<forall>(a, i) \<in> set (ai # ais).
        (bi_bundleName i \<noteq> IME_MIRROR_NAME \<longrightarrow> ct_isBound t \<and> ct_isEditable t)
        \<and> (a \<noteq> None \<longrightarrow> a \<in> ag_object ` set (ct_agents t)))) u"
    if "session_kept s u" "bi_bundleName (snd ai) \<noteq> IME_MIRROR_NAME \<longrightarrow> ct_isBound u \<and> ct_isEditable u"
      "fst ai \<noteq> None \<longrightarrow> fst ai \<in> ag_object ` set (ct_agents u)" for u
    by (rule wp_conseq [OF Cons.IH [of u]]) (use that in \<open>auto simp: session_kept_def\<close>)
  then show ?case
    unfolding for_each.simps wp_bind by (intro wp_conseq [OF OnInputReady_wp]) blast
qed

lemma AttachExec_post:
  assumes "IsValidTextConfig t = NO_ERROR" and "\<And>lg. ce_start E lg = (ags, infos)"
    and "run_state (AttachExec E (Some l) opts t type) s = (r, s')"
  shows "(\<forall>k. ct_listener s = Some k \<and> k \<noteq> l \<longrightarrow> told s' k L_OnDetach) \<and>
    ct_sessionId s' = (if ct_listener s = Some l then ct_sessionId s else ct_sessionId s + 1) \<and>
    (r = NO_ERROR \<longrightarrow> ct_listener s' = Some l \<and> ci_state (ct_clientInfo s') = ACTIVE \<and>
       ci_isShowKeyboard (ct_clientInfo s') = ao_isShowKeyboard opts \<and> ci_type (ct_clientInfo s') = type \<and>
       (length ags = length infos \<longrightarrow>
         ((\<exists>i \<in> set infos. bi_bundleName i \<noteq> IME_MIRROR_NAME) \<longrightarrow> ct_isBound s' \<and> ct_isEditable s') \<and>
         (\<forall>k. Some k \<in> set ags \<longrightarrow> Some k \<in> ag_object ` set (ct_agents s')))) \<and>
    (r \<noteq> NO_ERROR \<longrightarrow> ct_listener s' = None \<and> same_session s s')"
    (is "?post r s'")
proof -
  let ?P = "\<lambda>u. prepared (Some l) s u \<and> ci_isShowKeyboard (ct_clientInfo u) = ao_isShowKeyboard opts
     \<and> ci_type (ct_clientInfo u) = type"
  define fin where "fin = (\<lambda>(r, agents, imeInfos). if r \<noteq> NO_ERROR then do { SetTextListener None; NotifyAttachFailure r; ret r }
        else do {
          upd_client_info (\<lambda>ci. ci\<lparr>ci_state := ACTIVE\<rparr>);
          SetInputReady agents imeInfos;
          ResetKeyEventCount;
          ret NO_ERROR })"
  have start: "wp (StartInput_c E) (\<lambda>(r, out) v. ?P v \<and> (r = NO_ERROR \<longrightarrow> out = (ags, infos))) u" if "?P u" for u
  proof -
    have "wp (StartInput_c E) (\<lambda>_ v. ?P v) u"
      by (rule wp_frames [OF view_StartInput_c]) (use that prepared_view in \<open>auto simp: editor_view_def\<close>)
    moreover have "wp (StartInput_c E) (\<lambda>(r, out) v. r = NO_ERROR \<longrightarrow> out = (ags, infos)) u"
      by (auto simp: StartInput_c_def with_service_def wp_simps wp_def assms(2) split: prod.split)
    ultimately show ?thesis by (auto simp: wp_run split: prod.splits)
  qed
  have final: "wp (fin (r, out)) ?post v" if v: "?P v" "r = NO_ERROR \<longrightarrow> out = (ags, infos)" for r out v
  proof (cases "r = NO_ERROR")
    case False
    with v show ?thesis
      by (auto simp: fin_def NotifyAttachFailure_def SetTextListener_def cemit_def wp_simps prepared_def same_session_def
          told_def split: option.split)
  next
    case True
    let ?v = "v\<lparr>ct_clientInfo := (ct_clientInfo v)\<lparr>ci_state := ACTIVE\<rparr>\<rparr>"
    have *: "wp (SetInputReady ags infos) (\<lambda>_ t. session_kept ?v t \<and> (length ags = length infos \<longrightarrow>
         ((\<exists>i \<in> set infos. bi_bundleName i \<noteq> IME_MIRROR_NAME) \<longrightarrow> ct_isBound t \<and> ct_isEditable t) \<and>
         (\<forall>k. Some k \<in> set ags \<longrightarrow> Some k \<in> ag_object ` set (ct_agents t)))) ?v"
    proof (cases "length ags = length infos")
      case True
      have "wp (for_each (zip ags infos) (\<lambda>ai. OnInputReady (fst ai) (snd ai))) (\<lambda>_ t. session_kept ?v t \<and>
         ((\<exists>i \<in> set infos. bi_bundleName i \<noteq> IME_MIRROR_NAME) \<longrightarrow> ct_isBound t \<and> ct_isEditable t) \<and>
         (\<forall>k. Some k \<in> set ags \<longrightarrow> Some k \<in> ag_object ` set (ct_agents t))) ?v"
      proof (rule wp_conseq [OF SetInputReady_wp], elim conjE, intro conjI impI allI)
        fix t
        assume all: "\<forall>(a, i) \<in> set (zip ags infos). (bi_bundleName i \<noteq> IME_MIRROR_NAME \<longrightarrow> ct_isBound t \<and> ct_isEditable t)
          \<and> (a \<noteq> None \<longrightarrow> a \<in> ag_object ` set (ct_agents t))"
        show "ct_isBound t" "ct_isEditable t" if "\<exists>i \<in> set infos. bi_bundleName i \<noteq> IME_MIRROR_NAME"
          using that all zip_partner(1) [OF True] by blast+
        show "Some k \<in> ag_object ` set (ct_agents t)" if "Some k \<in> set ags" for k
          using that all zip_partner(2) [OF True] by blast
      qed
      with True show ?thesis by (simp add: SetInputReady_def)
    qed (simp add: SetInputReady_def wp_simps session_kept_def)
    have "fin (r, out) = do { upd_client_info (\<lambda>ci. ci\<lparr>ci_state := ACTIVE\<rparr>); SetInputReady ags infos; ResetKeyEventCount; ret NO_ERROR }"
      using v True by (simp add: fin_def)
    then show ?thesis
      unfolding upd_client_info_def
      by (simp only: wp_bind wp_modify, intro wp_conseq [OF *])
        (use v in \<open>simp add: ResetKeyEventCount_def wp_simps prepared_def told_def session_kept_def\<close>)
  qed
  have "AttachExec E (Some l) opts t type = do { PrepareAttach E (Some l) opts t type; x \<leftarrow> StartInput_c E; fin x }"
    using assms(1) by (simp add: AttachExec_def fin_def case_prod_beta')
  moreover have "wp (StartInput_c E) (\<lambda>x. wp (fin x) ?post) u" if "?P u" for u
    by (rule wp_conseq [OF start [OF that]]) (use final in \<open>auto split: prod.splits\<close>)
  ultimately have "wp (AttachExec E (Some l) opts t type) ?post s"
    by (auto simp: wp_bind intro: wp_conseq [OF PrepareAttach_wp])
  then show ?thesis using assms(3) by (simp add: wp_run)
qed

text \<open>C12. \<open>AttachExec\<close>, one attempt to attach an editor with a valid configuration. In every case an editor
  that was attached before and is another one is told to detach, and the session id grows by one exactly
  when the editor changes. On success the new editor is the listener, the client is active and shows the
  keyboard as asked, and, when the service named an input method that is not a mirror, the client is bound
  and editable and all agents that came back are registered. On failure there is no listener, and
  bound and editable state, agents and client state are as before.
\<close>

theorem AttachExec_correct:
  assumes "IsValidTextConfig t = NO_ERROR" and "\<And>lg. ce_start E lg = (ags, infos)"
    and "run_state (AttachExec E (Some l) opts t type) s = (r, s')"
  shows "(\<forall>k. ct_listener s = Some k \<and> k \<noteq> l \<longrightarrow> told s' k L_OnDetach) \<and>
    ct_sessionId s' = (if ct_listener s = Some l then ct_sessionId s else ct_sessionId s + 1) \<and>
    (r = NO_ERROR \<longrightarrow> ct_listener s' = Some l \<and> ci_state (ct_clientInfo s') = ACTIVE \<and>
       ci_isShowKeyboard (ct_clientInfo s') = ao_isShowKeyboard opts \<and> ci_type (ct_clientInfo s') = type \<and>
       (length ags = length infos \<longrightarrow>
         ((\<exists>i \<in> set infos. bi_bundleName i \<noteq> IME_MIRROR_NAME) \<longrightarrow> ct_isBound s' \<and> ct_isEditable s') \<and>
         (\<forall>k. Some k \<in> set ags \<longrightarrow> Some k \<in> ag_object ` set (ct_agents s')))) \<and>
    (r \<noteq> NO_ERROR \<longrightarrow> ct_listener s' = None \<and> same_session s s')"
  using assms by (rule AttachExec_post)

section \<open>How often \<open>Attach\<close> tries\<close>

definition cnt :: "(cevent \<Rightarrow> bool) \<Rightarrow> controller \<Rightarrow> nat" where
  "cnt P s = length (filter P (ct_log s))"

definition is_sleep :: "cevent \<Rightarrow> bool" where
  "is_sleep ev = (case ev of SleepEv _ \<Rightarrow> True | _ \<Rightarrow> False)"

definition is_start :: "cevent \<Rightarrow> bool" where
  "is_start ev = (case ev of ServiceIpc (S_StartInput _) \<Rightarrow> True | _ \<Rightarrow> False)"

lemma is_start_passed [simp]: "passes_on sc \<Longrightarrow> \<not> is_start (ServiceIpc sc)"
  by (cases sc) (simp_all add: is_start_def)

lemma not_counted [simp]:
  "\<not> is_sleep (ListenerEv l c)" "\<not> is_sleep (ServiceIpc sc)" "\<not> is_sleep (AttachmentDidFail k x)"
  "\<not> is_start (ListenerEv l c)" "\<not> is_start (AttachmentDidFail k x)" "\<not> is_start (SleepEv n)" "is_sleep (SleepEv n)"
  by (simp_all add: is_sleep_def is_start_def)

lemma cnt_cemit [frame_intros]: "\<not> P ev \<Longrightarrow> frames (cnt P) (cemit ev)"
  unfolding cemit_def by (rule frames_modify) (simp add: cnt_def)

lemma cnt_ccall [frame_intros]: "\<not> P ev \<Longrightarrow> frames (cnt P) (ccall E ev)"
  unfolding ccall_def by (intro frame_intros)

lemma cnt_modify: "(\<And>s. ct_log (f s) = ct_log s) \<Longrightarrow> frames (cnt P) (modify f)"
  by (rule frames_modify) (simp add: cnt_def)

lemma cnt_service [frame_intros]:
  "frames (cnt P) (cask E q)" "frames (cnt P) (GetSystemAbilityProxy E b)" "frames (cnt P) (TryGetSystemAbilityProxy E)"
  unfolding cask_def TryGetSystemAbilityProxy_def GetSystemAbilityProxy_def by (intro frame_intros cnt_modify; simp)+

lemma cnt_with_service [frame_intros]:
  "frames (cnt P) m \<Longrightarrow> frames (cnt P) (with_service E err m)" "frames (cnt P) m \<Longrightarrow> frames (cnt P) (try_service E err m)"
  unfolding with_service_def try_service_def by (intro frame_intros; assumption)+

lemma cnt_setters [frame_intros]:
  "frames (cnt P) (upd_client_info f)" "frames (cnt P) (upd_text_config g)" "frames (cnt P) (SetTextListener l)"
  "frames (cnt P) ResetKeyEventCount" "frames (cnt P) ResetPttSpaceKeyEventState" "frames (cnt P) (SetInputReady as is)"
  unfolding upd_client_info_def upd_text_config_def SetTextListener_def ResetKeyEventCount_def ResetPttSpaceKeyEventState_def
    SetInputReady_def OnInputReady_def SetBindImeInfo_def SetAgent_def
  by (intro frame_intros cnt_modify; simp)+

lemma cnt_dispatch [frame_intros]: "(\<And>l c. \<not> P (ListenerEv l c)) \<Longrightarrow> frames (cnt P) (listener_dispatch E l c)"
  unfolding listener_dispatch_def listener_run_def by (intro frame_intros cnt_modify; simp)

lemma cnt_override [frame_intros]:
  "(\<And>sc. passes_on sc \<Longrightarrow> \<not> P (ServiceIpc sc)) \<Longrightarrow> frames (cnt P) (ShouldOverrideImmersiveMode E t)"
  unfolding ShouldOverrideImmersiveMode_def IsSupportPcMode_def IsDisableImmersiveMode_def IsDisablePcModeImmersiveMode_def
    IsPcMode_def cached_capacity_def
  by (intro frame_intros cnt_modify; simp)

lemma cnt_PrepareAttach [frame_intros]:
  assumes "\<And>l c. \<not> P (ListenerEv l c)" "\<And>sc. passes_on sc \<Longrightarrow> \<not> P (ServiceIpc sc)"
  shows "frames (cnt P) (PrepareAttach E l opts t type)"
  unfolding PrepareAttach_def ClearEditorCache_def SaveTextConfig_def OnDetachV2_def FinishTextPreviewV2_def
  by (intro frame_intros cnt_modify assms; simp add: clear_editor_def)

text \<open>One attempt: at most one request, and no pause.\<close>

lemma AttachExec_counts:
  "wp (AttachExec E l opts t type) (\<lambda>_ u. cnt is_sleep u = cnt is_sleep s \<and> cnt is_start u \<le> cnt is_start s + 1) s"
proof -
  have sleep: "frames (cnt is_sleep) (AttachExec E l opts t type)"
    unfolding AttachExec_def StartInput_c_def NotifyAttachFailure_def by (intro frame_intros) simp_all
  have start: "wp (StartInput_c E) (\<lambda>_ u. cnt is_start u \<le> cnt is_start s + 1) v" if "cnt is_start v = cnt is_start s" for v
    unfolding StartInput_c_def with_service_def wp_bind
    by (intro wp_frames [OF cnt_setters(5) [of is_start]] wp_frames [OF cnt_service(2) [of is_start]])
      (use that in \<open>auto simp: wp_simps ccall_def cemit_def cnt_def\<close>)
  have rest: "frames (cnt is_start) (do { SetTextListener None; NotifyAttachFailure r; ret r })"
    "frames (cnt is_start) (do { upd_client_info (\<lambda>ci. ci\<lparr>ci_state := ACTIVE\<rparr>); SetInputReady as is; ResetKeyEventCount; ret NO_ERROR })"
    for r as "is"
    unfolding NotifyAttachFailure_def by (intro frame_intros; simp)+
  have "wp (PrepareAttach E l opts t type) (\<lambda>_ u. cnt is_start u = cnt is_start s) s"
    by (rule wp_frames [OF cnt_PrepareAttach [of is_start]]) simp_all
  then have "wp (AttachExec E l opts t type) (\<lambda>_ u. cnt is_start u \<le> cnt is_start s + 1) s"
    unfolding AttachExec_def wp_if wp_bind wp_return
    by (auto elim!: wp_conseq intro!: wp_conseq [OF start] wp_frames [OF rest(1)] wp_frames [OF rest(2)])
  then show ?thesis using sleep by (simp add: wp_run frames_def)
qed

lemma retry_counts:
  assumes "\<And>s. wp m (\<lambda>_ u. cnt is_sleep u = cnt is_sleep s \<and> cnt is_start u \<le> cnt is_start s + 1) s" and "n > 0"
  shows "wp (BlockRetry_ret iv n (do { r \<leftarrow> m; ret (r \<noteq> e, r) }))
    (\<lambda>r u. cnt is_sleep u \<le> cnt is_sleep s + n \<and> (r = e \<longleftrightarrow> cnt is_sleep u = cnt is_sleep s + n)
       \<and> cnt is_start u + cnt is_sleep s \<le> cnt is_start s + cnt is_sleep u + (if r = e then 0 else 1)) s"
  using assms(2)
proof (induction n arbitrary: s)
  case (Suc n)
  have one: "wp m (\<lambda>r u. cnt is_sleep u = cnt is_sleep s \<and> cnt is_start u \<le> cnt is_start s + 1) s"
    by (rule assms(1))
  have pause: "cnt is_sleep (u\<lparr>ct_log := SleepEv iv # ct_log u\<rparr>) = cnt is_sleep u + 1"
    "cnt is_start (u\<lparr>ct_log := SleepEv iv # ct_log u\<rparr>) = cnt is_start u" for u
    by (simp_all add: cnt_def)
  show ?case
  proof (cases "n = 0")
    case True
    with one show ?thesis
      by (auto simp: wp_simps cemit_def pause elim!: wp_conseq split: if_splits)
  next
    case False
    have "wp (BlockRetry_ret iv n (do { r \<leftarrow> m; ret (r \<noteq> e, r) })) (\<lambda>r u. cnt is_sleep u \<le> cnt is_sleep s + Suc n
        \<and> (r = e \<longleftrightarrow> cnt is_sleep u = cnt is_sleep s + Suc n)
        \<and> cnt is_start u + cnt is_sleep s \<le> cnt is_start s + cnt is_sleep u + (if r = e then 0 else 1)) (v\<lparr>ct_log := SleepEv iv # ct_log v\<rparr>)"
      if "cnt is_sleep v = cnt is_sleep s" "cnt is_start v \<le> cnt is_start s + 1" for v
      by (rule wp_conseq [OF Suc.IH]) (use that False in \<open>auto simp: pause\<close>)
    with one False show ?thesis
      by (auto simp: wp_simps cemit_def elim!: wp_conseq)
  qed
qed simp

text \<open>C30. \<open>Attach\<close> ends: it pauses at most 30 times and sends at most 30 \<open>StartInput\<close> requests; it pauses 30
  times exactly when it gives up with \<open>ERROR_TRY_IME_START_FAILED\<close>, whatever the service answers.
\<close>

theorem Attach_bounded:
  assumes "run_state (Attach E l opts t type) s = (r, s')"
  shows "cnt is_sleep s' \<le> cnt is_sleep s + 30 \<and> cnt is_start s' \<le> cnt is_start s + 30 \<and>
    (r = ERROR_TRY_IME_START_FAILED \<longleftrightarrow> cnt is_sleep s' = cnt is_sleep s + 30)"
proof -
  have "wp (Attach E l opts t type) (\<lambda>r u. cnt is_sleep u \<le> cnt is_sleep s + 30
     \<and> (r = ERROR_TRY_IME_START_FAILED \<longleftrightarrow> cnt is_sleep u = cnt is_sleep s + 30)
     \<and> cnt is_start u + cnt is_sleep s \<le> cnt is_start s + cnt is_sleep u + (if r = ERROR_TRY_IME_START_FAILED then 0 else 1)) s"
    unfolding Attach_def by (rule retry_counts [OF AttachExec_counts]) simp
  with assms show ?thesis by (auto simp: wp_run split: if_splits)
qed

section \<open>When the service dies\<close>

text \<open>The service cannot be reached: the client has no proxy and gets none.\<close>

definition unreachable :: "cenv \<Rightarrow> bool" where
  "unreachable E \<longleftrightarrow> (\<forall>lg b. \<not> ce_bool E lg (QSystemAbility b))"

lemma no_proxy_wp: "unreachable E \<Longrightarrow> \<not> ct_service s \<Longrightarrow> wp (GetSystemAbilityProxy E b) (\<lambda>r t. \<not> r \<and> t = s) s"
  by (simp add: GetSystemAbilityProxy_def cask_def wp_simps unreachable_def)

lemma no_service_wp:
  assumes "unreachable E" "\<not> ct_service s"
  shows "wp (with_service E err m) (\<lambda>r t. r = err \<and> t = s) s" "wp (try_service E err m) (\<lambda>r t. r = err \<and> t = s) s"
  unfolding with_service_def try_service_def TryGetSystemAbilityProxy_def wp_bind
  by (auto intro: wp_conseq [OF no_proxy_wp [OF assms]] simp: wp_return)

lemma no_service_kept:
  assumes "unreachable E"
  shows "preserves (\<lambda>s. \<not> ct_service s) (with_service E err m)" "preserves (\<lambda>s. \<not> ct_service s) (try_service E err m)"
  by (auto simp: preserves_wp intro: wp_conseq [OF no_service_wp(1) [OF assms]] wp_conseq [OF no_service_wp(2) [OF assms]])

lemma no_service_PrepareAttach:
  assumes "unreachable E"
  shows "preserves (\<lambda>s. \<not> ct_service s) (PrepareAttach E l opts t type)"
  unfolding PrepareAttach_def ClearEditorCache_def SaveTextConfig_def OnDetachV2_def FinishTextPreviewV2_def listener_dispatch_def
    listener_run_def cemit_def upd_client_info_def upd_text_config_def SetTextListener_def ShouldOverrideImmersiveMode_def
    IsSupportPcMode_def IsDisableImmersiveMode_def IsDisablePcModeImmersiveMode_def IsPcMode_def cached_capacity_def
  by (intro pres_intros no_service_kept [OF assms] preserves_modify; simp add: clear_editor_def)

lemma tasks_PrepareAttach: "frames ct_tasks (PrepareAttach E l opts t type)"
  unfolding PrepareAttach_def ClearEditorCache_def SaveTextConfig_def OnDetachV2_def FinishTextPreviewV2_def listener_dispatch_def
    listener_run_def cemit_def upd_client_info_def upd_text_config_def SetTextListener_def ShouldOverrideImmersiveMode_def
    IsSupportPcMode_def IsDisableImmersiveMode_def IsDisablePcModeImmersiveMode_def IsPcMode_def cached_capacity_def try_service_def
    TryGetSystemAbilityProxy_def GetSystemAbilityProxy_def cask_def ccall_def
  by (intro frame_intros frames_modify; simp add: clear_editor_def)

lemma no_service_AttachExec:
  assumes "unreachable E" "\<not> ct_service s" "IsValidTextConfig t = NO_ERROR"
  shows "wp (AttachExec E l opts t type) (\<lambda>r u. r = ERROR_SERVICE_START_FAILED \<and> ct_listener u = None \<and> same_session s u
     \<and> ct_tasks u = ct_tasks s) s"
proof -
  let ?P = "\<lambda>u. \<not> ct_service u \<and> same_session s u \<and> ct_tasks u = ct_tasks s"
  have "wp (PrepareAttach E l opts t type) (\<lambda>_ u. ?P u) s"
    using preservesD [OF no_service_PrepareAttach [OF assms(1)] assms(2), of l opts t type]
      PrepareAttach_wp [of E l opts t type s] tasks_PrepareAttach [of E l opts t type]
    by (simp add: wp_run prepared_def frames_def)
  moreover have fails: "wp (StartInput_c E) (\<lambda>x u. fst x = ERROR_SERVICE_START_FAILED \<and> ?P u) v" if "?P v" for v
    unfolding StartInput_c_def ResetPttSpaceKeyEventState_def wp_bind wp_modify
    by (rule wp_conseq [OF no_service_wp(1) [OF assms(1)]]) (use that in \<open>auto simp: same_session_def\<close>)
  ultimately show ?thesis
    using assms(3) unfolding AttachExec_def
    by (auto simp: wp_simps SetTextListener_def NotifyAttachFailure_def cemit_def same_session_def split: option.split elim!: wp_conseq
        intro!: wp_conseq [OF fails])
qed

lemma retry_once: "wp func (\<lambda>x u. fst x \<and> Q (snd x) u) s \<Longrightarrow> wp (BlockRetry_ret iv (Suc n) func) Q s"
  by (auto simp: wp_bind wp_return elim!: wp_conseq)

lemma Attach_once:
  assumes "wp (AttachExec E l opts t type) (\<lambda>r u. r \<noteq> ERROR_TRY_IME_START_FAILED \<and> Q r u) s"
  shows "wp (Attach E l opts t type) Q s"
proof -
  have tries: "ATTACH_MAX_RETRY_TIMES = Suc 29" by simp
  show ?thesis
    unfolding Attach_def tries
    by (rule retry_once, unfold wp_bind, rule wp_conseq [OF assms]) (simp add: wp_return)
qed

lemma calibrated_valid: "calibrated (xc_inputAttribute (ct_textConfig s)) \<Longrightarrow> IsValidTextConfig (restored_config s) = NO_ERROR"
  by (simp add: IsValidTextConfig_def restored_config_def calibrated_def)

text \<open>Without an editor no attempt gives the client one.\<close>

lemma listener_SetInputReady: "frames ct_listener (SetInputReady as is)"
  unfolding SetInputReady_def OnInputReady_def SetBindImeInfo_def SetAgent_def by (intro frame_intros frames_modify; simp)

definition no_editor :: "controller \<Rightarrow> bool" where
  "no_editor s \<longleftrightarrow> ct_listener s = None"

lemma no_editor_modify [pres_intros]: "(\<And>s. no_editor s \<Longrightarrow> no_editor (f s)) \<Longrightarrow> preserves no_editor (modify f)"
  by (rule preserves_modify)

lemma no_editor_parts [pres_intros]:
  "preserves no_editor (SetInputReady as is)" "preserves no_editor (StartInput_c E)"
  "preserves no_editor (PrepareAttach E None opts t type)"
proof -
  show "preserves no_editor (SetInputReady as is)"
    using frames_inv [OF listener_SetInputReady, of "\<lambda>l. l = None"] by (simp add: no_editor_def [abs_def])
  show "preserves no_editor (StartInput_c E)"
    using frames_inv [OF view_StartInput_c, of "\<lambda>v. fst v = None"] by (simp add: no_editor_def [abs_def] editor_view_def)
  show "preserves no_editor (PrepareAttach E None opts t type)"
    unfolding preserves_wp by (auto simp: no_editor_def prepared_def intro!: wp_conseq [OF PrepareAttach_wp])
qed

lemma no_editor_attach: "preserves no_editor (AttachExec E None opts t type)" "preserves no_editor (Attach E None opts t type)"
proof -
  show x: "preserves no_editor (AttachExec E None opts t type)"
    unfolding AttachExec_def upd_client_info_def ResetKeyEventCount_def SetTextListener_def NotifyAttachFailure_def cemit_def
    by (intro pres_intros) (simp_all add: no_editor_def)
  have retry: "preserves no_editor m \<Longrightarrow> preserves no_editor (BlockRetry_ret iv n m)" for iv n m
    by (induction n) (auto simp: cemit_def no_editor_def intro!: pres_intros)
  show "preserves no_editor (Attach E None opts t type)"
    unfolding Attach_def by (intro retry pres_intros x)
qed

lemma no_editor_task: "preserves no_editor (run_main_task E t)"
  unfolding preserves_wp
proof (intro allI impI)
  fix s assume s: "no_editor s"
  show "wp (run_main_task E t) (\<lambda>_. no_editor) s"
  proof (cases t)
    case RestoreListenTask
    have "frames ct_listener (run_main_task E RestoreListenTask)"
      unfolding run_main_task_def main_task.case RestoreListenEventFlag_def with_service_def GetSystemAbilityProxy_def ccall_def
        cemit_def cask_def
      by (intro frame_intros frames_modify; simp)
    then show ?thesis using s RestoreListenTask by (simp add: wp_run frames_def no_editor_def)
  next
    case AttachTask
    with s show ?thesis
      using preservesD [OF no_editor_attach(2) s]
      by (simp add: run_main_task_def restore_attach_def Attach_config_def wp_simps no_editor_def wp_run split: prod.split) (metis snd_conv)
  qed
qed

text \<open>C32. When the service dies while an editor is edited, and the service is not back yet when the client
  attaches again at once, that attempt fails and takes the editor's listener away; five attempts are
  scheduled, and whatever the service answers then, none of them brings the listener back: they attach a
  client without an editor, which keeps its bound and editable state but refuses every editing request.
\<close>

theorem death_loses_editor:
  assumes "controller_reachable E c ch s" "ct_listener s = Some l" "IsEditable s"
    and "unreachable E'" "ce_mainHandler E'" and "run_state (OnRemoteSaDied E') s = ((), t)"
  shows "ct_listener t = None \<and> ct_isBound t \<and> ct_isEditable t \<and> ct_tasks t = ct_tasks s @ replicate 5 AttachTask \<and>
    (\<forall>E'' u. run_state (run_main_task E'' AttachTask) t = ((), u) \<longrightarrow> ct_listener u = None \<and>
       (\<forall>txt v r. run_state (InsertText E'' txt) u = (r, v) \<longrightarrow> r = ERROR_CLIENT_NOT_EDITABLE \<and> v = u))"
proof -
  have inv: "controller_inv c ch s" using assms(1) by (rule controller_inv_reachable)
  let ?before = "\<lambda>u. \<not> ct_service u \<and> ct_listener u = Some l \<and> ct_isBound u \<and> IsEditable u \<and> ct_tasks u = ct_tasks s
    \<and> calibrated (xc_inputAttribute (ct_textConfig u))"
  have restore: "wp (RestoreClientInfoInSaDied E') (\<lambda>_ t. ct_listener t = None \<and> ct_isBound t \<and> ct_isEditable t
     \<and> ct_tasks t = ct_tasks s @ replicate 5 AttachTask) u" if u: "?before u" for u
  proof -
    have "wp (Attach_config E' (ct_listener u) (ci_isShowKeyboard (ct_clientInfo u)) (restored_config u) INNER_KIT)
       (\<lambda>r v. r \<noteq> NO_ERROR \<and> ct_listener v = None \<and> same_session u v \<and> ct_tasks v = ct_tasks u) u"
      unfolding Attach_config_def
      by (rule Attach_once, rule wp_conseq [OF no_service_AttachExec [OF assms(4)]])
        (use u calibrated_valid [of u] in simp_all)
    then show ?thesis
      using u unfolding RestoreClientInfoInSaDied_def restore_attach_def
      by (auto simp: wp_simps same_session_def IsEditable_def elim!: wp_conseq split: if_splits)
  qed
  have t: "ct_listener t = None \<and> ct_isBound t \<and> ct_isEditable t \<and> ct_tasks t = ct_tasks s @ replicate 5 AttachTask"
  proof -
    have "wp (OnRemoteSaDied E') (\<lambda>_ t. ct_listener t = None \<and> ct_isBound t \<and> ct_isEditable t
        \<and> ct_tasks t = ct_tasks s @ replicate 5 AttachTask) s"
      using assms(2,3,5) inv unfolding OnRemoteSaDied_def
      by (auto simp: wp_simps ResetPttSpaceKeyEventState_def cemit_def FinishTextPreviewV2_def listener_dispatch_def listener_run_def
          ClearAgentInfo_def IsEditable_def controller_inv_def intro!: restore split: if_splits)
    then show ?thesis using assms(6) by (simp add: wp_run)
  qed
  moreover have "no_editor u" if "run_state (run_main_task E'' AttachTask) t = ((), u)" for E'' u
    using preserves_run [OF no_editor_task, of t E'' AttachTask] t that by (simp add: no_editor_def)
  ultimately show ?thesis by (auto simp: no_editor_def InsertText_def with_editor_def)
qed

section \<open>Close\<close>

lemma OnInputStop_wp:
  "wp (OnInputStop E a p b False) (\<lambda>_ t. ct_agents t = [] \<and> ct_keyCbs t = [] \<and> \<not> ct_isBound t \<and> \<not> ct_isEditable t
     \<and> (\<forall>l c. told s l c \<longrightarrow> told t l c)) s"
  by (cases "ct_listener s"; cases p)
    (auto simp: OnInputStop_def ClearAgentInfo_def leave_input_def notify_stop_finished_def FinishTextPreviewV2_def
      SendKeyboardStatusV2_def listener_dispatch_def run_posted_task_def listener_run_def cemit_def cask_def ResetKeyEventCount_def
      clear_editor_def wp_simps told_def)

definition released :: "cenv \<Rightarrow> controller \<Rightarrow> int \<Rightarrow> controller \<Rightarrow> bool" where
  "released E s r t \<longleftrightarrow> (\<forall>l c. told s l c \<longrightarrow> told t l c) \<and>
     (r = NO_ERROR \<longrightarrow> ct_listener t = None \<and> ct_agents t = [] \<and> ct_keyCbs t = [] \<and> \<not> ct_isBound t \<and> \<not> ct_isEditable t) \<and>
     (r \<noteq> NO_ERROR \<longrightarrow> same_session s t \<and> (unreachable E \<and> \<not> ct_service s \<longrightarrow> ct_listener t = ct_listener s))"

lemma ReleaseInput_wp: "wp (ReleaseInput_c E sid) (released E s) s"
proof -
  let ?s = "s\<lparr>ct_ptt := PTT_UP\<rparr>"
  have start: "wp (TryGetSystemAbilityProxy E) (\<lambda>p t. editor_view t = editor_view s \<and> (unreachable E \<and> \<not> ct_service s \<longrightarrow> \<not> p)) ?s"
  proof (rule wp_conj)
    show "wp (TryGetSystemAbilityProxy E) (\<lambda>_ t. editor_view t = editor_view s) ?s"
      by (rule wp_frames [OF view_service(4)]) (simp add: editor_view_def)
    show "wp (TryGetSystemAbilityProxy E) (\<lambda>p _. unreachable E \<and> \<not> ct_service s \<longrightarrow> \<not> p) ?s"
      by (auto simp: TryGetSystemAbilityProxy_def GetSystemAbilityProxy_def cask_def wp_simps unreachable_def)
  qed
  have kept: "released E s r t" if "editor_view t = editor_view s" "r \<noteq> NO_ERROR" for r t
    using that told_view [OF that(1)] by (auto simp: released_def same_session_def editor_view_def)
  have release: "wp (do {
       s \<leftarrow> State_Monad.get;
       r \<leftarrow> ccall E (ServiceIpc (S_ReleaseInput (ci_client (ct_clientInfo s)) (ct_sessionId s) sid));
       when_do (r = NO_ERROR) (OnInputStop E False None True False);
       SetTextListener None;
       ret r }) (released E s) t" (is "wp ?m _ _") if t: "editor_view t = editor_view s" "\<not> (unreachable E \<and> \<not> ct_service s)" for t
  proof -
    have "told (t\<lparr>ct_log := ServiceIpc sc # ct_log t\<rparr>) l c = told s l c" for sc l c
      using told_view [OF t(1)] by (simp add: told_def)
    moreover have "same_session s (t\<lparr>ct_log := ev # ct_log t, ct_listener := None\<rparr>)" for ev
      using t(1) by (auto simp: same_session_def editor_view_def)
    ultimately show ?thesis
      using t(2) by (auto simp: wp_simps ccall_def cemit_def SetTextListener_def released_def told_def elim!: wp_conseq
          intro!: wp_conseq [OF OnInputStop_wp])
  qed
  show ?thesis
    unfolding ReleaseInput_c_def ResetPttSpaceKeyEventState_def try_service_def wp_bind [of "modify _"] wp_modify
      wp_bind [of "TryGetSystemAbilityProxy _"]
  proof (rule wp_conseq [OF start])
    fix p t
    assume "editor_view t = editor_view s \<and> (unreachable E \<and> \<not> ct_service s \<longrightarrow> \<not> p)"
    then show "wp (if p then ?m else ret ERROR_SERVICE_START_FAILED) (released E s) t"
      using release [of t] kept [of t ERROR_SERVICE_START_FAILED] by (cases p) (simp_all add: wp_return)
  qed
qed


end
