(* ===== verification/Controller_Edit.thy ===== *)
theory Controller_Edit
  imports Controller_Correct
begin

text \<open>
  Editing on the client side: which agents hear of a change in a password editor, that repeated selection
  changes are sent once, that every request of an input method is answered once, the callbacks of key
  events, the latch of the push-to-talk key, and what the client answers when the service is away.
\<close>

section \<open>Password editors\<close>

text \<open>The agents that are not an input method mirror.\<close>

definition typing_agents :: "agent_info list \<Rightarrow> robj set" where
  "typing_agents as = {k. \<exists>a \<in> set as. ag_agent a = Some k \<and> ag_imeType a \<noteq> IME_MIRROR}"

definition secure_log :: "cevent list \<Rightarrow> agent_info list \<Rightarrow> controller \<Rightarrow> bool" where
  "secure_log lg as s \<longleftrightarrow> ct_agents s = as \<and> IsSecurityImeFlag (xc_inputAttribute (ct_textConfig s)) \<and>
     (\<exists>new. ct_log s = new @ lg \<and> (\<forall>k c. AgentIpc k c \<in> set new \<longrightarrow> k \<in> typing_agents as))"

lemma secure_cemit:
  "(\<And>k c. ev = AgentIpc k c \<Longrightarrow> k \<in> typing_agents as) \<Longrightarrow> preserves (secure_log lg as) (cemit ev)"
  unfolding cemit_def
proof (rule preserves_modify)
  fix s
  assume ev: "\<And>k c. ev = AgentIpc k c \<Longrightarrow> k \<in> typing_agents as" and "secure_log lg as s"
  then obtain new where "ct_log s = new @ lg" "\<forall>k c. AgentIpc k c \<in> set new \<longrightarrow> k \<in> typing_agents as"
    and s: "ct_agents s = as" "IsSecurityImeFlag (xc_inputAttribute (ct_textConfig s))"
    by (auto simp: secure_log_def)
  with ev have "ev # ct_log s = (ev # new) @ lg \<and> (\<forall>k c. AgentIpc k c \<in> set (ev # new) \<longrightarrow> k \<in> typing_agents as)" by auto
  with s show "secure_log lg as (s\<lparr>ct_log := ev # ct_log s\<rparr>)" unfolding secure_log_def by fastforce
qed

lemma secure_quiet [pres_intros]:
  "(\<And>k c. ev \<noteq> AgentIpc k c) \<Longrightarrow> preserves (secure_log lg as) (cemit ev)"
  "(\<And>k c. ev \<noteq> AgentIpc k c) \<Longrightarrow> preserves (secure_log lg as) (ccall E ev)"
  unfolding ccall_def by (intro pres_intros secure_cemit; blast)+

lemma secure_agent [pres_intros]:
  "k \<in> typing_agents as \<Longrightarrow> preserves (secure_log lg as) (cemit (AgentIpc k c))"
  "k \<in> typing_agents as \<Longrightarrow> preserves (secure_log lg as) (ccall E (AgentIpc k c))"
  unfolding ccall_def by (intro pres_intros secure_cemit; simp)+

lemma secure_modify:
  "(\<And>s. ct_log (f s) = ct_log s \<and> ct_agents (f s) = ct_agents s
     \<and> ia_inputPattern (xc_inputAttribute (ct_textConfig (f s))) = ia_inputPattern (xc_inputAttribute (ct_textConfig s))) \<Longrightarrow>
   preserves (secure_log lg as) (modify f)"
  by (rule preserves_modify) (auto simp: secure_log_def IsSecurityImeFlag_def GetSecurityFlag_def)

lemma secure_service [pres_intros]:
  "preserves (secure_log lg as) (cask E q)" "preserves (secure_log lg as) (GetSystemAbilityProxy E b)"
  "preserves (secure_log lg as) m \<Longrightarrow> preserves (secure_log lg as) (with_service E err m)"
  unfolding cask_def with_service_def GetSystemAbilityProxy_def by (intro pres_intros secure_modify; simp)+

lemma GetAgent_typing: "GetAgent s = Some k \<Longrightarrow> k \<in> typing_agents (ct_agents s)"
  by (auto simp: GetAgent_def typing_agents_def split: option.splits dest!: find_SomeD)

lemma secure_send:
  "set bs \<subseteq> set as \<Longrightarrow> (\<And>k. k \<in> typing_agents as \<Longrightarrow> preserves (secure_log lg as) (task k)) \<Longrightarrow>
   preserves (secure_log lg as) (send_to_agents True task bs r)"
  by (induction bs arbitrary: r) (auto simp: typing_agents_def intro!: pres_intros split: option.split)

lemma secure_all_agents [pres_intros]:
  assumes "\<And>k. k \<in> typing_agents as \<Longrightarrow> preserves (secure_log lg as) (task k)"
  shows "preserves (secure_log lg as) (SendRequestToAllAgents task)"
    "preserves (secure_log lg as) (SendRequestToImeMirrorAgent task)"
proof -
  show "preserves (secure_log lg as) (SendRequestToAllAgents task)"
    unfolding preserves_wp SendRequestToAllAgents_def
    using secure_send [of as as lg task] assms by (auto simp: wp_simps secure_log_def preserves_wp)
  show "preserves (secure_log lg as) (SendRequestToImeMirrorAgent task)"
    unfolding preserves_wp SendRequestToImeMirrorAgent_def
    by (auto simp: wp_simps secure_log_def split: option.split)
qed

text \<open>The operations that read the state first: the invariant holds of what was read.\<close>

lemma preserves_get_bind:
  "(\<And>s. I s \<Longrightarrow> preserves I (f s)) \<Longrightarrow> preserves I (State_Monad.get \<bind> f)"
  by (auto simp: preserves_wp wp_simps)

lemma preserves_gets_bind:
  "(\<And>s. I s \<Longrightarrow> preserves I (f (g s))) \<Longrightarrow> preserves I (gets g \<bind> f)"
  by (auto simp: preserves_wp wp_simps)

lemma secure_with_editor [pres_intros]:
  "(\<And>l. preserves (secure_log lg as) (f l)) \<Longrightarrow> preserves (secure_log lg as) (with_editor f)"
  unfolding with_editor_def by (intro pres_intros; simp)

lemma secure_listener [pres_intros]: "preserves (secure_log lg as) (listener_dispatch E l c)"
  unfolding listener_dispatch_def listener_run_def by (intro pres_intros secure_modify; simp)

lemma secure_typing: "secure_log lg as s \<Longrightarrow> GetAgent s = Some k \<Longrightarrow> k \<in> typing_agents as"
  using GetAgent_typing [of s k] by (simp add: secure_log_def)

lemma secure_get_agent:
  "(\<And>k. k \<in> typing_agents as \<Longrightarrow> preserves (secure_log lg as) (f k)) \<Longrightarrow> preserves (secure_log lg as) n \<Longrightarrow>
   secure_log lg as s \<Longrightarrow> preserves (secure_log lg as) (case GetAgent s of None \<Rightarrow> n | Some k \<Rightarrow> f k)"
  by (auto intro: secure_typing split: option.split)

lemma secure_gets_agent [pres_intros]:
  "(\<And>k. k \<in> typing_agents as \<Longrightarrow> preserves (secure_log lg as) (f k)) \<Longrightarrow> preserves (secure_log lg as) n \<Longrightarrow>
   preserves (secure_log lg as) (do { a \<leftarrow> gets GetAgent; case a of None \<Rightarrow> n | Some k \<Rightarrow> f k })"
  by (rule preserves_gets_bind) (rule secure_get_agent)

text \<open>What an editor tells its input method, or the input method the mirror.\<close>

fun editor_notice :: "client_request \<Rightarrow> bool" where
  "editor_notice (CursorReq _) = True"
| "editor_notice (SelectionReq _ _ _) = True"
| "editor_notice DiscardReq = True"
| "editor_notice (PrivateCommandReq _) = True"
| "editor_notice (MessageReq _) = True"
| "editor_notice (KeyEventReq _ _) = True"
| "editor_notice (CallingWindowReq _) = True"
| "editor_notice (PreviewStateReq _) = True"
| "editor_notice (ChannelReq (CH_SendFunctionKey _) _ None) = True"
| "editor_notice _ = False"

lemma secure_notices:
  "preserves (secure_log lg as) (OnCursorUpdate E cur)" "preserves (secure_log lg as) (OnSelectionChange E t a b)"
  "preserves (secure_log lg as) (DiscardTypingText E)" "preserves (secure_log lg as) (SendFunctionKey E key)"
  unfolding OnCursorUpdate_def OnSelectionChange_def DiscardTypingText_def SendFunctionKey_def SendFunctionKeyV2_def upd_text_config_def
  by (intro pres_intros secure_modify; simp)+

lemma secure_single_notices:
  "preserves (secure_log lg as) (SendPrivateCommand_c E m)" "preserves (secure_log lg as) (SendMessage_c E ab)"
  unfolding SendPrivateCommand_c_def SendMessage_c_def
  by (intro preserves_get_bind preserves_if preserves_return secure_get_agent secure_agent; assumption)+

lemma secure_window: "preserves (secure_log lg as) (SetCallingWindow_c E w)"
  unfolding SetCallingWindow_c_def SetCallingWindowByIMSA_def upd_text_config_def by (intro pres_intros secure_modify; simp)

lemma secure_preview: "preserves (secure_log lg as) (UpdateTextPreviewState E p)"
  unfolding UpdateTextPreviewState_def upd_text_config_def
  by (intro preserves_gets_bind preserves_if preserves_return preserves_bind secure_modify preserves_get_bind secure_get_agent secure_agent;
      simp)

lemma secure_key_helpers [pres_intros]:
  "preserves (secure_log lg as) (AddKeyEventCbInfo info)" "preserves (secure_log lg as) (RemoveKeyEventCbInfo i)"
  "preserves (secure_log lg as) (HandlePttSpaceKeyEventBlock ke cb)" "preserves (secure_log lg as) (modify (count_dispatch x))"
  unfolding AddKeyEventCbInfo_def RemoveKeyEventCbInfo_def HandlePttSpaceKeyEventBlock_def ResetPttSpaceKeyEventState_def
  by (intro pres_intros secure_modify; simp add: count_dispatch_def Let_def)+

lemma secure_keys: "preserves (secure_log lg as) (DispatchKeyEvent E ke cb)"
proof -
  have "preserves (secure_log lg as) (DispatchKeyEventInner E ke cb)"
    unfolding DispatchKeyEventInner_def
    by (rule preserves_get_bind, intro preserves_if preserves_option preserves_return secure_get_agent preserves_bind preserves_when_do
        secure_agent secure_key_helpers) simp_all
  then show ?thesis
    unfolding DispatchKeyEvent_def by (intro pres_intros secure_modify) (auto simp: Let_def intro!: pres_intros split: option.split)
qed

text \<open>C15. What an editor's own notices say of a password editor does not reach an input method mirror: in every
  reachable state whose editor has a security pattern, all messages that such a notice sends go to agents that are
  no mirror. The notices are those of cursor, selection and discarded text, of private commands and messages, of key
  events and function keys, of the calling window and of the preview state. Requests that an agent makes on the data
  channel are not notices: the client answers a mirror that asks like any other agent, and it is the engine library
  of the mirror that refuses to ask.
\<close>

theorem password_not_mirrored:
  assumes "controller_reachable E c ch s" "IsSecurityImeFlag (xc_inputAttribute (ct_textConfig s))"
    and "editor_notice q" "run_state (chandle E q) s = ((), t)"
  shows "\<exists>new. ct_log t = new @ ct_log s \<and>
    (\<forall>k call m. AgentIpc k call \<in> set new \<and> m \<in> set (ct_agents s) \<and> ag_agent m = Some k \<longrightarrow> ag_imeType m \<noteq> IME_MIRROR)"
proof -
  have "preserves (secure_log (ct_log s) (ct_agents s)) (chandle E q)"
    using assms(3) by (cases q rule: editor_notice.cases)
      (auto simp: chandle_def channel_handle_def run_channel_request_def ResponseDataChannel_def
        intro!: preserves_void preserves_bind secure_notices secure_single_notices secure_window secure_preview secure_keys)
  moreover have "secure_log (ct_log s) (ct_agents s) s" using assms(2) by (simp add: secure_log_def)
  ultimately have "secure_log (ct_log s) (ct_agents s) t"
    using preserves_run assms(4) by (metis snd_conv)
  then obtain new where new: "ct_log t = new @ ct_log s" "\<And>k call. AgentIpc k call \<in> set new \<Longrightarrow> k \<in> typing_agents (ct_agents s)"
    by (auto simp: secure_log_def)
  have "distinct (map ag_object (ct_agents s))" "\<And>a. a \<in> set (ct_agents s) \<Longrightarrow> ag_agent a = ag_object a"
    using controller_inv_reachable [OF assms(1)] by (auto simp: controller_inv_def agents_ok_def)
  then have same: "m = n" if "m \<in> set (ct_agents s)" "n \<in> set (ct_agents s)" "ag_agent m = ag_agent n" for m n
    using that by (auto simp: distinct_map dest: inj_onD)
  have "ag_imeType m \<noteq> IME_MIRROR" if "k \<in> typing_agents (ct_agents s)" "m \<in> set (ct_agents s)" "ag_agent m = Some k" for k m
  proof -
    from that(1) obtain a where "a \<in> set (ct_agents s)" "ag_agent a = Some k" "ag_imeType a \<noteq> IME_MIRROR"
      by (auto simp: typing_agents_def)
    then show ?thesis using same [of m a] that(2,3) by simp
  qed
  with new show ?thesis by blast
qed

section \<open>Selection changes\<close>

text \<open>The agents that hear of a change, in the order of the list.\<close>

definition receivers :: "controller \<Rightarrow> robj list" where
  "receivers s = map (\<lambda>a. the (ag_agent a)) (filter (\<lambda>a. \<not> (ag_imeType a = IME_MIRROR
     \<and> IsSecurityImeFlag (xc_inputAttribute (ct_textConfig s)))) (ct_agents s))"

text \<open>
  The reference: each change is announced with the selection that the previous one left; \<open>changes cur xs\<close>
  are the changes of \<open>xs\<close> that differ from the one before, of which the first is \<open>cur\<close>.
\<close>

type_synonym selection = "u16string \<times> int \<times> int"

fun announce :: "cenv \<Rightarrow> robj list \<Rightarrow> int \<times> int \<Rightarrow> selection list \<Rightarrow> cevent list" where
  "announce E ks old [] = []"
| "announce E ks old ((t, b, e) # xs) = announce E ks (b, e) xs
     @ rev (map (\<lambda>k. AgentIpc k (A_OnSelectionChange (ce_str16to8 E t) (fst old) (snd old) b e)) ks)"

fun changes :: "selection option \<Rightarrow> selection list \<Rightarrow> selection list" where
  "changes cur [] = []"
| "changes cur (x # xs) = (if cur = Some x then changes cur xs else x # changes (Some x) xs)"

lemma changes_Some: "x # changes (Some x) xs = remdups_adj (x # xs)"
  by (induction xs arbitrary: x) auto

lemma changes_None: "changes None xs = remdups_adj xs"
  by (cases xs) (simp_all add: changes_Some)

definition current_selection :: "controller \<Rightarrow> selection option" where
  "current_selection s = (if ct_isTextNotified s then Some (ct_textString s, ct_selectNewBegin s, ct_selectNewEnd s) else None)"

lemma current_selectionD:
  "current_selection s = Some (t, b, e) \<Longrightarrow> ct_selectNewBegin s = b \<and> ct_selectNewEnd s = e"
  by (simp add: current_selection_def split: if_splits)

lemma send_announce:
  "\<forall>a \<in> set as. ag_agent a \<noteq> None \<Longrightarrow>
   run_state (send_to_agents sec (\<lambda>k. do { cemit (AgentIpc k c); ret NO_ERROR }) as NO_ERROR) s = (NO_ERROR,
     s\<lparr>ct_log := rev (map (\<lambda>k. AgentIpc k c) (map (\<lambda>a. the (ag_agent a)) (filter (\<lambda>a. \<not> (ag_imeType a = IME_MIRROR \<and> sec)) as))) @ ct_log s\<rparr>)"
  by (induction as arbitrary: s) (auto simp: cemit_def split: option.split)

definition selecting :: "controller \<Rightarrow> bool" where
  "selecting s \<longleftrightarrow> IsBound s \<and> IsEditable s \<and> (\<forall>a \<in> set (ct_agents s). ag_agent a \<noteq> None)"

lemma OnSelectionChange_step:
  assumes "selecting s" "run_state (OnSelectionChange E t b e) s = (r, s')"
  shows "r = NO_ERROR" "selecting s'" "receivers s' = receivers s" "current_selection s' = Some (t, b, e)"
    "ct_log s' = (if current_selection s = Some (t, b, e) then []
       else announce E (receivers s) (ct_selectNewBegin s, ct_selectNewEnd s) [(t, b, e)]) @ ct_log s"
    "(ct_selectNewBegin s', ct_selectNewEnd s') = (b, e)"
  using assms(2) assms(1)
  by (auto simp: OnSelectionChange_def SendRequestToAllAgents_def upd_text_config_def selecting_def IsBound_def IsEditable_def
      receivers_def current_selection_def send_announce split: if_splits)

lemma selections_run:
  assumes "selecting s" "run_state (for_each xs (\<lambda>(t, b, e). void (OnSelectionChange E t b e))) s = ((), s')"
  shows "ct_log s' = announce E (receivers s) (ct_selectNewBegin s, ct_selectNewEnd s) (changes (current_selection s) xs) @ ct_log s"
  using assms
proof (induction xs arbitrary: s)
  case (Cons x xs)
  obtain t b e where x: "x = (t, b, e)" by (cases x)
  obtain r u where u: "run_state (OnSelectionChange E t b e) s = (r, u)" by fastforce
  note one = OnSelectionChange_step [OF Cons.prems(1) u]
  have "run_state (for_each xs (\<lambda>(t, b, e). void (OnSelectionChange E t b e))) u = ((), s')"
    using Cons.prems(2) u x by simp
  from Cons.IH [OF one(2) this] one x show ?case by (auto split: if_splits dest: current_selectionD)
qed simp

text \<open>C28. \<open>OnSelectionChange\<close> against its reference: for an editor that is bound and editable and has not
  announced a selection yet, a sequence of changes sends to every agent exactly the changes that differ from
  their predecessor, in order, each with the selection that the one before it left.
\<close>

theorem OnSelectionChange_sequence:
  assumes "controller_reachable E c ch s" "IsBound s" "IsEditable s" "\<not> ct_isTextNotified s"
    and "run_state (for_each xs (\<lambda>(t, b, e). void (OnSelectionChange E t b e))) s = ((), s')"
  shows "ct_log s' = announce E (receivers s) (ct_selectNewBegin s, ct_selectNewEnd s) (remdups_adj xs) @ ct_log s"
proof -
  have "selecting s"
    using assms(2,3) controller_inv_reachable [OF assms(1)] by (auto simp: selecting_def controller_inv_def agents_ok_def)
  from selections_run [OF this assms(5)] assms(4) show ?thesis
    by (simp add: current_selection_def changes_None)
qed

section \<open>The data channel\<close>

definition is_answer :: "cevent \<Rightarrow> bool" where
  "is_answer ev = (case ev of AgentIpc _ (A_ResponseDataChannel _ _ _) \<Rightarrow> True | _ \<Rightarrow> False)"

definition is_edit :: "cevent \<Rightarrow> bool" where
  "is_edit ev = (case ev of ListenerEv _ _ \<Rightarrow> True | _ \<Rightarrow> False)"

lemma answer_simps [simp]:
  "\<not> is_answer (ListenerEv l lc)" "\<not> is_answer (SelectByRangeEv k a b)" "\<not> is_answer (SelectByMovementEv k a)"
  "\<not> is_answer (AgentIpc k (A_OnFunctionKey key))" "is_answer (AgentIpc k (A_ResponseDataChannel i r d))"
  "\<not> is_edit (SelectByRangeEv k a b)" "\<not> is_edit (SelectByMovementEv k a)" "\<not> is_edit (AgentIpc k ac)"
  by (simp_all add: is_answer_def is_edit_def)

lemma cnt_question [frame_intros]:
  "(\<And>l c. \<not> P (ListenerEv l c)) \<Longrightarrow> frames (cnt P) (listener_question E l c f d)"
  unfolding listener_question_def run_posted_def run_posted_task_def listener_run_def
  by (intro frame_intros cnt_modify; simp)

lemma cnt_with_editor [frame_intros]: "(\<And>l. frames (cnt P) (f l)) \<Longrightarrow> frames (cnt P) (with_editor f)"
  unfolding with_editor_def by (intro frame_intros; simp)

lemma run_request_no_answer: "frames (cnt is_answer) (run_channel_request E q)"
  unfolding run_channel_request_def InsertText_def DeleteForward_def DeleteBackward_def MoveCursor_def HandleExtendAction_def
    GetLeft_def GetRight_def GetTextIndexAtCursor_def SendFunctionKey_def SelectByRange_def SelectByMovement_def SetPreviewText_def
    FinishTextPreview_def GetLeftTextOfCursorV2_def GetRightTextOfCursorV2_def GetTextIndexAtCursorV2_def SetPreviewTextV2_def
    SendRequestToImeMirrorAgent_def V2_defs
  by (cases q; simp only: channel_request.case; intro frame_intros cnt_modify; simp)

text \<open>The requests that report success although the editor is not editable: they only move the selection.\<close>

fun always_done :: "channel_request \<Rightarrow> bool" where
  "always_done (CH_SelectByRange _ _) = True"
| "always_done (CH_SelectByMovement _ _) = True"
| "always_done _ = False"

text \<open>When the editor is out of reach of a request. Finishing a preview asks only whether the editor is bound.\<close>

definition out_of_reach :: "channel_request \<Rightarrow> controller \<Rightarrow> bool" where
  "out_of_reach q s \<longleftrightarrow> (if q = CH_FinishTextPreview then \<not> ct_isBound s else \<not> IsEditable s)"

text \<open>C31. Every request of an input method on the data channel is answered exactly once, to the agent that asked,
  with the request's message id and result as the last thing that happens. When the editor is not editable, it is
  neither called nor is a call of it posted, and the answer is an error unless the request only moves the
  selection, which the controller's own listener hears of all the same. The one exception is the request to finish a
  preview: a bound editor is called for it even when it is not editable, and only an editor that is not bound is
  not.
\<close>

theorem channel_answered_once:
  assumes "run_state (channel_handle E q i (Some k)) s = (r, t)"
  shows "(\<exists>d. hd (ct_log t) = AgentIpc k (A_ResponseDataChannel i r d)) \<and> cnt is_answer t = cnt is_answer s + 1 \<and>
    (out_of_reach q s \<longrightarrow> cnt is_edit t = cnt is_edit s \<and> ct_posted t = ct_posted s \<and>
       (always_done q \<or> r = ERROR_CLIENT_NOT_EDITABLE \<or> r = ERROR_TEXT_PREVIEW_NOT_SUPPORTED))"
proof -
  obtain x d u where u: "run_state (run_channel_request E q) s = ((x, d), u)" by (metis surj_pair)
  with assms have t: "r = x" "t = u\<lparr>ct_log := AgentIpc k (A_ResponseDataChannel i x d) # ct_log u\<rparr>"
    by (auto simp: channel_handle_def ResponseDataChannel_def ccall_def cemit_def)
  have "cnt is_answer u = cnt is_answer s" using frames_run [OF run_request_no_answer, of E q s] u by simp
  then have "cnt is_answer t = cnt is_answer s + 1" using t by (simp add: cnt_def)
  moreover have "cnt is_edit u = cnt is_edit s \<and> ct_posted u = ct_posted s \<and>
      (always_done q \<or> x = ERROR_CLIENT_NOT_EDITABLE \<or> x = ERROR_TEXT_PREVIEW_NOT_SUPPORTED)"
    if "out_of_reach q s"
    using u that by (cases q; cases "ct_listener s"; cases "ct_controllerListener s")
      (auto simp: out_of_reach_def run_channel_request_def InsertText_def DeleteForward_def DeleteBackward_def MoveCursor_def
    HandleExtendAction_def GetLeft_def GetRight_def GetTextIndexAtCursor_def SendFunctionKey_def SelectByRange_def
    SelectByMovement_def SetPreviewText_def FinishTextPreview_def with_editor_def cemit_def cnt_def split: if_splits)
  ultimately show ?thesis using t by (auto simp: cnt_def)
qed

section \<open>Key events\<close>

text \<open>A space key that goes down again while push to talk holds it.\<close>

definition held_space :: "controller \<Rightarrow> key_event \<Rightarrow> bool" where
  "held_space s ke \<longleftrightarrow> ct_ptt s = PTT_BLOCKED \<and> ke_isSpace ke \<and> ke_action ke = ACTION_DOWN"

lemma count_dispatch_simps [simp]:
  "ct_log (count_dispatch f s) = ct_log s" "ct_keyCbs (count_dispatch f s) = ct_keyCbs s" "ct_ptt (count_dispatch f s) = ct_ptt s"
  by (simp_all add: count_dispatch_def Let_def)

lemma HandlePtt_run:
  "run_state (HandlePttSpaceKeyEventBlock (Some ke) (Some cb)) s =
     (if held_space s ke then (True, s)
      else (False, if \<not> ke_isSpace ke then s else if ke_action ke = ACTION_UP then s\<lparr>ct_ptt := PTT_UP\<rparr>
        else if ke_action ke = ACTION_DOWN \<and> ct_ptt s = PTT_UP then s\<lparr>ct_ptt := PTT_DOWN\<rparr> else s))"
  by (auto simp: HandlePttSpaceKeyEventBlock_def ResetPttSpaceKeyEventState_def held_space_def)

lemma held_space_run:
  "held_space s ke \<Longrightarrow> \<exists>u. run_state (DispatchKeyEvent E (Some ke) (Some cb)) s = (NO_ERROR, u) \<and> ct_ptt u = PTT_BLOCKED
     \<and> ct_log u = KeyCallbackEv cb ke True # ct_log s"
  by (simp add: DispatchKeyEvent_def HandlePtt_run held_space_def cemit_def Let_def)

lemma held_spaces_run:
  assumes "ct_ptt s = PTT_BLOCKED" "\<forall>(ke, cb) \<in> set kes. ke_isSpace ke \<and> ke_action ke = ACTION_DOWN"
    "run_state (for_each kes (\<lambda>(ke, cb). void (DispatchKeyEvent E (Some ke) (Some cb)))) s = ((), u)"
  shows "ct_log u = rev (map (\<lambda>(ke, cb). KeyCallbackEv cb ke True) kes) @ ct_log s \<and> ct_ptt u = PTT_BLOCKED"
  using assms
proof (induction kes arbitrary: s)
  case (Cons x kes)
  obtain ke cb where x: "x = (ke, cb)" by (cases x)
  then have "held_space s ke" using Cons.prems by (auto simp: held_space_def)
  from held_space_run [OF this, of E cb] obtain v where
    v: "run_state (DispatchKeyEvent E (Some ke) (Some cb)) s = (NO_ERROR, v)" "ct_ptt v = PTT_BLOCKED"
      "ct_log v = KeyCallbackEv cb ke True # ct_log s" by blast
  have "run_state (for_each kes (\<lambda>(ke, cb). void (DispatchKeyEvent E (Some ke) (Some cb)))) v = ((), u)"
    using Cons.prems(3) v(1) x by simp
  from Cons.IH [OF v(2) _ this] Cons.prems(2) v(3) x show ?case by simp
qed simp

text \<open>A key event that is passed to the input method and its result: the agent gets it with a fresh
  callback id; when the input method reports the result under this id the editor's callback is called with
  it, exactly once, and the table of waiting events is as before; a second report changes nothing.
\<close>

theorem key_result_once:
  assumes "controller_reachable E c ch s" "\<not> held_space s ke" "map_of (ct_keyCbs s) (ct_maxCbId s) = None"
    and "run_state (DispatchKeyEvent E (Some ke) (Some cb)) s = (NO_ERROR, t)"
    and "run_state (HandleKeyEventResult (ct_maxCbId s) b) t = ((), u)"
    and "run_state (HandleKeyEventResult (ct_maxCbId s) b') u = ((), v)"
  shows "(\<exists>k. GetAgent s = Some k \<and> ct_log u = [KeyCallbackEv cb ke b, AgentIpc k (A_DispatchKeyEvent ke (ct_maxCbId s) ch)] @ ct_log s)
    \<and> map_of (ct_keyCbs u) = map_of (ct_keyCbs s) \<and> v = u"
proof -
  have ok: "omap_ok (ct_keyCbs s)" and ch: "ci_channel (ct_clientInfo s) = Some ch"
    using controller_inv_reachable [OF assms(1)] by (auto simp: controller_inv_def info_ok_def)
  define m where "m = omap_assign (ct_maxCbId s) \<lparr>kc_keyEvent = ke, kc_callback = Some cb\<rparr> (ct_keyCbs s)"
  have m: "map_of m (ct_maxCbId s) = Some \<lparr>kc_keyEvent = ke, kc_callback = Some cb\<rparr>" "map_of (AList.delete (ct_maxCbId s) m) = map_of (ct_keyCbs s)"
    using assms(3) by (auto simp: m_def map_of_omap_assign [OF ok] AList.delete_conv fun_eq_iff)
  from assms(2,4) ch obtain k where k: "GetAgent s = Some k" and t: "ct_keyCbs t = m"
    "ct_log t = AgentIpc k (A_DispatchKeyEvent ke (ct_maxCbId s) ch) # ct_log s"
    by (auto simp: DispatchKeyEvent_def HandlePtt_run held_space_def DispatchKeyEventInner_def AddKeyEventCbInfo_def RemoveKeyEventCbInfo_def ccall_def cemit_def
        Let_def IsEditable_def GetAgent_def m_def split: if_splits option.splits)
  from assms(5) m(1) have u: "ct_keyCbs u = AList.delete (ct_maxCbId s) m" "ct_log u = KeyCallbackEv cb ke b # ct_log t"
    by (auto simp: HandleKeyEventResult_def RemoveKeyEventCbInfo_def cemit_def t)
  moreover have "v = u" using assms(6) by (simp add: HandleKeyEventResult_def u(1))
  ultimately show ?thesis using k t m(2) by simp
qed

text \<open>The latch of push to talk: once the service has started the block, every repeated press of the space
  key is answered to the editor as consumed and none reaches an input method, until the key comes up; then
  the latch is open again.
\<close>

theorem ptt_latch:
  assumes "run_state StartPttSpaceKeyEventBlock s = (True, t)"
    and "\<forall>(ke, cb) \<in> set kes. ke_isSpace ke \<and> ke_action ke = ACTION_DOWN"
    and "run_state (for_each kes (\<lambda>(ke, cb). void (DispatchKeyEvent E (Some ke) (Some cb)))) t = ((), u)"
    and "ke_isSpace up" "ke_action up = ACTION_UP" "run_state (DispatchKeyEvent E (Some up) (Some cb')) u = (r, v)"
  shows "ct_log u = rev (map (\<lambda>(ke, cb). KeyCallbackEv cb ke True) kes) @ ct_log s \<and> ct_ptt u = PTT_BLOCKED \<and> ct_ptt v = PTT_UP"
proof -
  have t: "ct_ptt t = PTT_BLOCKED" "ct_log t = ct_log s"
    using assms(1) by (auto simp: StartPttSpaceKeyEventBlock_def split: if_splits)
  have "ct_ptt v = PTT_UP"
    using assms(4-6)
    by (auto simp: DispatchKeyEvent_def HandlePtt_run held_space_def DispatchKeyEventInner_def AddKeyEventCbInfo_def RemoveKeyEventCbInfo_def
        ccall_def cemit_def Let_def split: if_splits option.splits)
  with held_spaces_run [OF t(1) assms(2,3)] t(2) show ?thesis by simp
qed

section \<open>Private commands, and the service away\<close>

text \<open>C36. Which private commands are valid: one to five entries of at most 32 KiB together. The larger limit
  that the code has for system commands never applies, since a command counts as one of the system only
  when it has at most five entries.
\<close>

theorem IsPrivateCommandValid_iff:
  "IsPrivateCommandValid m \<longleftrightarrow> 1 \<le> length m \<and> length m \<le> 5 \<and> (\<Sum>(k, v) \<leftarrow> m. length k + private_value_size v) \<le> 32768"
proof (cases "length m \<le> 5")
  case True
  then show ?thesis by (cases m) (auto simp: IsPrivateCommandValid_def Let_def not_less)
next
  case False
  then show ?thesis by (simp add: IsPrivateCommandValid_def IsSystemPrivateCommand_def)
qed

text \<open>C35. What a client answers while the service cannot be reached: most requests give an error code and leave
  the client as it was, but \<open>IsInputTypeSupported\<close> says that every type is supported, and \<open>EnableIme\<close> and
  \<open>GetInputStartInfo\<close> report success.
\<close>

theorem unreachable_answers:
  assumes "unreachable E" "\<not> ct_service s"
  shows "run_state (IsInputTypeSupported E type) s = (True, s) \<and> run_state (EnableIme_c E bn en st user) s = (NO_ERROR, s) \<and>
    run_state (GetInputStartInfo E) s = (NO_ERROR, s) \<and> run_state (IsDefaultImeSet E user) s = (False, s) \<and>
    run_state (ListInputMethod E user) s = (ERROR_EX_NULL_POINTER, s) \<and>
    run_state (SwitchInputMethod_c E tr name sub user) s = (ERROR_EX_NULL_POINTER, s) \<and>
    run_state (GetDefaultInputMethod E user) s = (ERROR_SERVICE_START_FAILED, s) \<and>
    run_state (ExecTextInteraction_c E txt) s = (ERROR_SERVICE_START_FAILED, s)"
proof -
  have "run_state (with_service E err m) s = (err, s)" for err :: bool and m
    using no_service_wp(1) [OF assms, of err m] by (simp add: wp_run prod_eq_iff)
  moreover have "run_state (with_service E err m) s = (err, s)" for err :: int and m
    using no_service_wp(1) [OF assms, of err m] by (simp add: wp_run prod_eq_iff)
  ultimately show ?thesis
    by (simp add: IsInputTypeSupported_def EnableIme_c_def GetInputStartInfo_def IsDefaultImeSet_def ListInputMethod_def
        ListInputMethodCommon_def SwitchInputMethod_c_def GetDefaultInputMethod_def ExecTextInteraction_c_def forward_def
        forward_flag_def int_to_bool_def bool_to_int_def)
qed

end
