(* ===== verification/Controller_Example.thy ===== *)
theory Controller_Example
  imports Controller_Edit
begin

text \<open>
  A small world for the client side: a service that grants every request and names one input method, an
  editor that is called directly, and the states of a session in it. The properties of the client are
  applied there.
\<close>

definition calm_env :: cenv where
  "calm_env = \<lparr>ce_int = (\<lambda>_ _. 0), ce_bool = (\<lambda>_ _. True), ce_flag = (\<lambda>_ _. False),
     ce_start = (\<lambda>_. ([Some 7], [\<lparr>bi_pid = 5, bi_bundleName = ''ime''\<rparr>])), ce_text = (\<lambda>_ _ _. []),
     ce_cursor = (\<lambda>_. default_cursor_info), ce_scale = (\<lambda>_ _ cur. cur), ce_stylus = (\<lambda>_. 0), ce_time = (\<lambda>_. 0),
     ce_hasHandler = (\<lambda>_. False), ce_isFromTs = (\<lambda>_. False), ce_u16Next = (\<lambda>_ i. (i + 1, False)),
     ce_str8to16 = (\<lambda>_. []), ce_str16to8 = (\<lambda>_. ''''), ce_onDemandSa = False, ce_mainHandler = True\<rparr>"

definition silent_env :: cenv where
  "silent_env = calm_env\<lparr>ce_bool := (\<lambda>_ _. False)\<rparr>"

definition fresh_controller :: controller where
  "fresh_controller = snd (run_state (Initialize (Some 1) (Some 2)) blank_controller)"

abbreviation show_options :: attach_options where
  "show_options \<equiv> \<lparr>ao_isShowKeyboard = True, ao_requestKeyboardReason = REASON_NONE\<rparr>"

definition mirror_env :: cenv where
  "mirror_env = calm_env\<lparr>ce_start := (\<lambda>_. ([Some 7, Some 8],
     [\<lparr>bi_pid = 5, bi_bundleName = ''ime''\<rparr>, \<lparr>bi_pid = 6, bi_bundleName = IME_MIRROR_NAME\<rparr>]))\<rparr>"

definition password_config :: text_config where
  "password_config = default_text_config\<lparr>xc_inputAttribute := default_input_attribute\<lparr>ia_inputPattern := PATTERN_PASSWORD\<rparr>\<rparr>"

text \<open>The client after editor 3 was attached.\<close>

definition editing :: "cenv \<Rightarrow> text_config \<Rightarrow> controller" where
  "editing E t = snd (run_state (AttachExec E (Some 3) show_options t INNER_KIT) fresh_controller)"

lemma editing_calm_eval:
  "(\<lambda>(r, s). (r, ct_isTextNotified s, ct_ptt s, ct_keyCbs s, GetAgent s))
     (run_state (AttachExec calm_env (Some 3) show_options default_text_config INNER_KIT) fresh_controller)
   = (0, False, PTT_UP, [], Some 7)"
  by code_simp

lemma editing_calm_run:
  "fst (run_state (AttachExec calm_env (Some 3) show_options default_text_config INNER_KIT) fresh_controller) = 0"
  using editing_calm_eval by (simp add: case_prod_beta)

lemma editing_calm_text: "\<not> ct_isTextNotified (editing calm_env default_text_config)"
  using editing_calm_eval by (simp add: editing_def case_prod_beta)

lemma editing_calm:
  "ct_listener (editing calm_env default_text_config) = Some 3" "IsBound (editing calm_env default_text_config)"
  "IsEditable (editing calm_env default_text_config)"
proof -
  have "run_state (AttachExec calm_env (Some 3) show_options default_text_config INNER_KIT) fresh_controller
      = (0, editing calm_env default_text_config)"
    using editing_calm_run by (simp add: editing_def prod_eq_iff)
  from AttachExec_post [OF _ _ this, of "[Some 7]" "[\<lparr>bi_pid = 5, bi_bundleName = ''ime''\<rparr>]"]
  show "ct_listener (editing calm_env default_text_config) = Some 3" "IsBound (editing calm_env default_text_config)"
    "IsEditable (editing calm_env default_text_config)"
    by (auto simp: IsValidTextConfig_def default_text_config_def default_input_attribute_def calm_env_def IsBound_def IsEditable_def)
qed

lemma editing_mirror_eval:
  "(\<lambda>(r, s). (r, map (\<lambda>a. (ag_agent a, ag_imeType a)) (ct_agents s), ia_inputPattern (xc_inputAttribute (ct_textConfig s))))
     (run_state (AttachExec mirror_env (Some 3) show_options password_config INNER_KIT) fresh_controller)
   = (0, [(Some 7, IME_NONE), (Some 8, IME_MIRROR)], PATTERN_PASSWORD)"
  by code_simp

lemma editing_mirror_run:
  "fst (run_state (AttachExec mirror_env (Some 3) show_options password_config INNER_KIT) fresh_controller) = 0"
  using editing_mirror_eval by (simp add: case_prod_beta)

lemma editing_mirror_agents:
  "map (\<lambda>a. (ag_agent a, ag_imeType a)) (ct_agents (editing mirror_env password_config)) = [(Some 7, IME_NONE), (Some 8, IME_MIRROR)]"
  using editing_mirror_eval by (simp add: editing_def case_prod_beta)

lemma editing_mirror_pattern:
  "ia_inputPattern (xc_inputAttribute (ct_textConfig (editing mirror_env password_config))) = PATTERN_PASSWORD"
  using editing_mirror_eval by (simp add: editing_def case_prod_beta)

lemma editing_reachable:
  assumes "fst (run_state (AttachExec E (Some 3) show_options t INNER_KIT) fresh_controller) = 0"
  shows "run_state (Attach E (Some 3) show_options t INNER_KIT) fresh_controller = (0, editing E t)"
    "controller_reachable E 1 2 (editing E t)"
proof -
  have "wp (Attach E (Some 3) show_options t INNER_KIT) (\<lambda>r u. r = 0 \<and> u = editing E t) fresh_controller"
    by (rule Attach_once) (use assms in \<open>simp add: wp_run editing_def\<close>)
  then show run: "run_state (Attach E (Some 3) show_options t INNER_KIT) fresh_controller = (0, editing E t)"
    by (simp add: wp_run prod_eq_iff)
  have "controller_step E fresh_controller (editing E t)"
    unfolding controller_step_iff
    by (rule exI [of _ "AttachReq (Some 3) show_options t INNER_KIT"]) (simp add: chandle_def run)
  moreover have "reaches (controller_start 1 2) (controller_step E) fresh_controller"
    by (rule reaches.start) (simp add: controller_start_def fresh_controller_def)
  ultimately show "controller_reachable E 1 2 (editing E t)"
    unfolding controller_reachable_def by (blast intro: reaches.more)
qed

section \<open>The properties in this world\<close>

lemma run_pair: "run_state m s = (fst (run_state m s), snd (run_state m s))" "run_state n s = ((), snd (run_state n s))"
  by (simp_all add: prod_eq_iff)

theorem reachable_controller_witness:
  "ct_isEditable (editing calm_env default_text_config) \<and> ct_isBound (editing calm_env default_text_config) \<and>
   calibrated (xc_inputAttribute (ct_textConfig (editing calm_env default_text_config)))"
  using reachable_controller [OF editing_reachable(2) [OF editing_calm_run]] editing_calm(3)
  by (simp add: IsEditable_def split: if_splits)

theorem AttachExec_correct_witness:
  "ct_listener (editing calm_env default_text_config) = Some 3 \<and> ct_sessionId (editing calm_env default_text_config) = 1 \<and>
   ct_isBound (editing calm_env default_text_config) \<and> ct_isEditable (editing calm_env default_text_config) \<and>
   Some 7 \<in> ag_object ` set (ct_agents (editing calm_env default_text_config))"
proof -
  have run: "run_state (AttachExec calm_env (Some 3) show_options default_text_config INNER_KIT) fresh_controller
      = (0, editing calm_env default_text_config)"
    using editing_calm_run by (simp add: editing_def prod_eq_iff)
  have valid: "IsValidTextConfig default_text_config = NO_ERROR"
    by (simp add: IsValidTextConfig_def default_text_config_def default_input_attribute_def)
  have start: "ce_start calm_env lg = ([Some 7], [\<lparr>bi_pid = 5, bi_bundleName = ''ime''\<rparr>])" for lg
    by (simp add: calm_env_def)
  have "ct_listener fresh_controller = None" "ct_sessionId fresh_controller = 0"
    by (simp_all add: fresh_controller_def Initialize_def blank_controller_def upd_client_info_def)
  with AttachExec_correct [OF valid start run] show ?thesis by simp
qed

theorem Attach_bounded_witness:
  "cnt is_sleep (editing calm_env default_text_config) \<le> cnt is_sleep fresh_controller + 30 \<and>
   cnt is_start (editing calm_env default_text_config) \<le> cnt is_start fresh_controller + 30"
  using Attach_bounded [OF editing_reachable(1) [OF editing_calm_run]] by simp

lemma silent_unreachable: "unreachable silent_env"
  by (simp add: unreachable_def silent_env_def)

theorem death_loses_editor_witness:
  "ct_listener (editing calm_env default_text_config) = Some 3 \<and>
   ct_listener (snd (run_state (OnRemoteSaDied silent_env) (editing calm_env default_text_config))) = None"
proof -
  have handler: "ce_mainHandler silent_env" by (simp add: silent_env_def calm_env_def)
  show ?thesis
    using death_loses_editor [OF editing_reachable(2) [OF editing_calm_run] editing_calm(1,3) silent_unreachable handler run_pair(2)]
      editing_calm(1) by simp
qed


theorem password_not_mirrored_witness:
  "Some 8 \<in> ag_agent ` set (ct_agents (editing mirror_env password_config)) \<and>
   (\<exists>new. ct_log (snd (run_state (chandle mirror_env (SelectionReq [] 0 1)) (editing mirror_env password_config)))
       = new @ ct_log (editing mirror_env password_config) \<and>
     (\<forall>k call m. AgentIpc k call \<in> set new \<and> m \<in> set (ct_agents (editing mirror_env password_config)) \<and> ag_agent m = Some k
        \<longrightarrow> ag_imeType m \<noteq> IME_MIRROR))"
proof
  have "Some 8 \<in> fst ` set (map (\<lambda>a. (ag_agent a, ag_imeType a)) (ct_agents (editing mirror_env password_config)))"
    unfolding editing_mirror_agents by simp
  then show "Some 8 \<in> ag_agent ` set (ct_agents (editing mirror_env password_config))" by (simp add: image_image)
  have "IsSecurityImeFlag (xc_inputAttribute (ct_textConfig (editing mirror_env password_config)))"
    by (simp add: IsSecurityImeFlag_def GetSecurityFlag_def editing_mirror_pattern)
  from password_not_mirrored [OF editing_reachable(2) [OF editing_mirror_run] this _ run_pair(2), of "SelectionReq [] 0 1"]
  show "\<exists>new. ct_log (snd (run_state (chandle mirror_env (SelectionReq [] 0 1)) (editing mirror_env password_config)))
       = new @ ct_log (editing mirror_env password_config) \<and>
     (\<forall>k call m. AgentIpc k call \<in> set new \<and> m \<in> set (ct_agents (editing mirror_env password_config)) \<and> ag_agent m = Some k
        \<longrightarrow> ag_imeType m \<noteq> IME_MIRROR)"
    by simp
qed

abbreviation three_changes :: "selection list" where
  "three_changes \<equiv> [([], 0, 1), ([], 0, 1), ([], 1, 1)]"

theorem OnSelectionChange_sequence_witness:
  "ct_log (snd (run_state (for_each three_changes (\<lambda>(t, b, e). void (OnSelectionChange calm_env t b e))) (editing calm_env default_text_config)))
   = announce calm_env (receivers (editing calm_env default_text_config))
       (ct_selectNewBegin (editing calm_env default_text_config), ct_selectNewEnd (editing calm_env default_text_config)) [([], 0, 1), ([], 1, 1)]
     @ ct_log (editing calm_env default_text_config)"
  using OnSelectionChange_sequence [OF editing_reachable(2) [OF editing_calm_run] editing_calm(2,3) editing_calm_text run_pair(2),
    of three_changes] by simp

theorem channel_answered_once_witness:
  "cnt is_answer (snd (run_state (channel_handle calm_env (CH_InsertText ''a'') 9 (Some 7)) fresh_controller)) = cnt is_answer fresh_controller + 1 \<and>
   fst (run_state (channel_handle calm_env (CH_InsertText ''a'') 9 (Some 7)) fresh_controller) = ERROR_CLIENT_NOT_EDITABLE"
proof -
  have "\<not> IsEditable fresh_controller"
    by (simp add: IsEditable_def fresh_controller_def Initialize_def blank_controller_def upd_client_info_def)
  with channel_answered_once [of calm_env "CH_InsertText ''a''" 9 7 fresh_controller, OF run_pair(1)] show ?thesis
    by (auto simp: channel_handle_def run_channel_request_def InsertText_def with_editor_def ResponseDataChannel_def ccall_def cemit_def
        split: option.splits)
qed

abbreviation space_down :: key_event where
  "space_down \<equiv> \<lparr>ke_id = 0, ke_isSpace = True, ke_action = ACTION_DOWN\<rparr>"

abbreviation space_up :: key_event where
  "space_up \<equiv> \<lparr>ke_id = 1, ke_isSpace = True, ke_action = ACTION_UP\<rparr>"

lemma editing_key_state:
  "(ct_ptt (editing calm_env default_text_config), ct_keyCbs (editing calm_env default_text_config)) = (PTT_UP, [])"
  using editing_calm_eval by (simp add: editing_def case_prod_beta)

lemma editing_key_sent:
  "fst (run_state (DispatchKeyEvent calm_env (Some space_down) (Some 4)) (editing calm_env default_text_config)) = NO_ERROR"
proof -
  have "GetAgent (editing calm_env default_text_config) = Some 7"
    using editing_calm_eval by (simp add: editing_def case_prod_beta)
  moreover have "ci_channel (ct_clientInfo (editing calm_env default_text_config)) = Some 2"
    using controller_inv_reachable [OF editing_reachable(2) [OF editing_calm_run]] by (simp add: controller_inv_def info_ok_def)
  ultimately show ?thesis
    using editing_calm(3) editing_key_state
    by (simp add: DispatchKeyEvent_def HandlePtt_run held_space_def DispatchKeyEventInner_def IsEditable_def GetAgent_def
        AddKeyEventCbInfo_def ccall_def cemit_def calm_env_def Let_def split: if_splits)
qed

definition after_key :: controller where
  "after_key = snd (run_state (DispatchKeyEvent calm_env (Some space_down) (Some 4)) (editing calm_env default_text_config))"

definition after_result :: controller where
  "after_result = snd (run_state (HandleKeyEventResult (ct_maxCbId (editing calm_env default_text_config)) True) after_key)"

theorem key_result_once_witness:
  "hd (ct_log after_result) = KeyCallbackEv 4 space_down True \<and>
   run_state (HandleKeyEventResult (ct_maxCbId (editing calm_env default_text_config)) True) after_result = ((), after_result)"
proof -
  have "\<not> held_space (editing calm_env default_text_config) space_down"
    "map_of (ct_keyCbs (editing calm_env default_text_config)) (ct_maxCbId (editing calm_env default_text_config)) = None"
    using editing_key_state by (simp_all add: held_space_def)
  moreover have "run_state (DispatchKeyEvent calm_env (Some space_down) (Some 4)) (editing calm_env default_text_config) = (NO_ERROR, after_key)"
    using editing_key_sent by (simp add: after_key_def prod_eq_iff)
  moreover have "run_state (HandleKeyEventResult (ct_maxCbId (editing calm_env default_text_config)) True) after_key = ((), after_result)"
    by (simp add: after_result_def prod_eq_iff)
  ultimately have "(\<exists>k. ct_log after_result = [KeyCallbackEv 4 space_down True, AgentIpc k (A_DispatchKeyEvent space_down
        (ct_maxCbId (editing calm_env default_text_config)) 2)] @ ct_log (editing calm_env default_text_config)) \<and>
      snd (run_state (HandleKeyEventResult (ct_maxCbId (editing calm_env default_text_config)) True) after_result) = after_result"
    using key_result_once [OF editing_reachable(2) [OF editing_calm_run] _ _ _ _ run_pair(2)] by blast
  then show ?thesis by (auto simp: prod_eq_iff)
qed

definition talking :: controller where
  "talking = fresh_controller\<lparr>ct_isBound := True, ct_isEditable := True, ct_ptt := PTT_DOWN\<rparr>"

theorem ptt_latch_witness:
  "ct_log (snd (run_state (for_each [(space_down, 4), (space_down, 5)] (\<lambda>(ke, cb). void (DispatchKeyEvent calm_env (Some ke) (Some cb))))
     (talking\<lparr>ct_ptt := PTT_BLOCKED\<rparr>))) = [KeyCallbackEv 5 space_down True, KeyCallbackEv 4 space_down True] @ ct_log talking"
proof -
  have start: "run_state StartPttSpaceKeyEventBlock talking = (True, talking\<lparr>ct_ptt := PTT_BLOCKED\<rparr>)"
    by (simp add: StartPttSpaceKeyEventBlock_def talking_def)
  have keys: "\<forall>(ke, cb) \<in> set [(space_down, 4), (space_down, 5)]. ke_isSpace ke \<and> ke_action ke = ACTION_DOWN"
    by simp
  have up: "ke_isSpace space_up" "ke_action space_up = ACTION_UP" by simp_all
  show ?thesis using ptt_latch [OF start keys run_pair(2) up run_pair(1), of calm_env] by simp
qed

theorem unreachable_answers_witness:
  "run_state (IsInputTypeSupported silent_env 0) fresh_controller = (True, fresh_controller) \<and>
   run_state (EnableIme_c silent_env ''b'' ''e'' 1 100) fresh_controller = (NO_ERROR, fresh_controller)"
proof -
  have "\<not> ct_service fresh_controller"
    by (simp add: fresh_controller_def Initialize_def blank_controller_def upd_client_info_def)
  from unreachable_answers [OF silent_unreachable this] show ?thesis by simp
qed

end
