(* ===== verification/Exam_Mode.thy ===== *)
theory Exam_Mode
  imports Ime_Enabled_Manager
begin

text \<open>
  \<open>services/src/exam_mode_manager.cpp\<close>: whether the device is in exam mode and which input method was in use
  before, kept in the settings database as JSON text. The state extends that of the settings components.
\<close>

record 'd exam_state = "'d enabled_state" +
  ex_isExamMode :: bool
  ex_previousBundleName :: string
  ex_previousSubName :: string

type_synonym ('d, 'x, 'a) exam_op = "(('d, 'x) exam_state_scheme, 'a) state"

abbreviation EXAM_MODE_KEY :: string where "EXAM_MODE_KEY \<equiv> ''settings.inputmethod.exam_mode''"

text \<open>A member that is not of the expected type leaves the field as it is.\<close>

definition LoadFromPersistedData :: "'d settings_env \<Rightarrow> ('d, 'x, bool) exam_op" where
  "LoadFromPersistedData E = do {
     (r, value) \<leftarrow> GetStringValue (se_ds E) SETTING_URI_PROXY EXAM_MODE_KEY '''';
     if r \<noteq> NO_ERROR \<or> value = '''' then ret False
     else case cj_parse (se_cj E) value of
         None \<Rightarrow> ret False
       | Some rt \<Rightarrow> do {
           modify (\<lambda>s. s\<lparr>ex_isExamMode := snd (GetValue_bool (se_cj E) rt ''isExamMode'' (ex_isExamMode s)),
             ex_previousBundleName := snd (GetValue_string (se_cj E) rt ''previousBundleName'' (ex_previousBundleName s)),
             ex_previousSubName := snd (GetValue_string (se_cj E) rt ''previousSubName'' (ex_previousSubName s))\<rparr>);
           ret True } }"

definition InitFromPersistedData :: "'d settings_env \<Rightarrow> ('d, 'x, unit) exam_op" where
  "InitFromPersistedData E = do {
     ok \<leftarrow> LoadFromPersistedData E;
     when_do (\<not> ok) (modify (\<lambda>s. s\<lparr>ex_isExamMode := False, ex_previousBundleName := '''', ex_previousSubName := ''''\<rparr>)) }"

text \<open>The text that is stored, if it can be printed.\<close>

definition exam_members :: "('d, 'x) exam_state_scheme \<Rightarrow> members" where
  "exam_members s = [(''isExamMode'', JBool (ex_isExamMode s)), (''previousBundleName'', JString (ex_previousBundleName s)),
     (''previousSubName'', JString (ex_previousSubName s))]"

definition Persist :: "'d settings_env \<Rightarrow> ('d, 'x, unit) exam_op" where
  "Persist E = do {
     s \<leftarrow> State_Monad.get;
     (case cj_print (se_cj E) (JObject (exam_members s)) of None \<Rightarrow> ret ()
      | Some value \<Rightarrow> void (SetStringValue (se_ds E) SETTING_URI_PROXY EXAM_MODE_KEY value)) }"

definition IsExamMode :: "('d, 'x) exam_state_scheme \<Rightarrow> bool" where
  "IsExamMode s = ex_isExamMode s"

definition SetExamMode :: "'d settings_env \<Rightarrow> bool \<Rightarrow> ('d, 'x, unit) exam_op" where
  "SetExamMode E isExamMode = do { modify (\<lambda>s. s\<lparr>ex_isExamMode := isExamMode\<rparr>); Persist E }"

definition SavePreviousIme :: "'d settings_env \<Rightarrow> string \<Rightarrow> string \<Rightarrow> ('d, 'x, unit) exam_op" where
  "SavePreviousIme E bundleName subName = do {
     modify (\<lambda>s. s\<lparr>ex_previousBundleName := bundleName, ex_previousSubName := subName\<rparr>); Persist E }"

definition GetPreviousIme :: "('d, 'x) exam_state_scheme \<Rightarrow> string \<times> string" where
  "GetPreviousIme s = (ex_previousBundleName s, ex_previousSubName s)"

definition GetPreviousImeBundleName :: "('d, 'x) exam_state_scheme \<Rightarrow> string" where
  "GetPreviousImeBundleName s = ex_previousBundleName s"

definition GetPreviousImeSubName :: "('d, 'x) exam_state_scheme \<Rightarrow> string" where
  "GetPreviousImeSubName s = ex_previousSubName s"

definition ClearPreviousIme :: "'d settings_env \<Rightarrow> ('d, 'x, unit) exam_op" where
  "ClearPreviousIme E = do {
     modify (\<lambda>s. s\<lparr>ex_previousBundleName := '''', ex_previousSubName := ''''\<rparr>); Persist E }"

end
