(* ===== verification/Full_Ime_Info.thy ===== *)
theory Full_Ime_Info
  imports Exam_Mode Imf_Parcel
begin

text \<open>
  \<open>services/src/full_ime_info_manager.cpp\<close>: the cache of the installed input methods of every user, filled
  from the bundle manager, whose operations also keep the tables of enabled input methods up to date. The
  queries of the \<open>ImeInfoInquirer\<close> are the record \<^emph>\<open>inquirer\<close>; they may depend on the outside world.
\<close>

abbreviation ERROR_PACKAGE_MANAGER :: int where "ERROR_PACKAGE_MANAGER \<equiv> 7"

record cached_ime_info = full_ime_info +
  fu_isNewIme :: bool
  fu_tokenId :: u32
  fu_appId :: string
  fu_versionCode :: u32
  fu_versionName :: string
  fu_subProps :: "sub_property_rec list"

record 'd inquirer =
  iq_queryAll :: "'d \<Rightarrow> int \<times> (int \<times> cached_ime_info list) list"
  iq_queryUser :: "'d \<Rightarrow> int \<Rightarrow> int \<times> cached_ime_info list"
  iq_get :: "'d \<Rightarrow> int \<Rightarrow> string \<Rightarrow> cached_ime_info option"

record 'd full_state = "'d exam_state" +
  fu_fullImeInfos :: "(int \<times> cached_ime_info list) list"

type_synonym ('d, 'x, 'a) full_op = "(('d, 'x) full_state_scheme, 'a) state"

abbreviation bundle_of :: "('x) full_ime_info_scheme \<Rightarrow> string" where
  "bundle_of i \<equiv> pr_name (fi_prop i)"

definition cached_imes :: "int \<Rightarrow> ('d, 'x) full_state_scheme \<Rightarrow> cached_ime_info list option" where
  "cached_imes userId s = map_of (fu_fullImeInfos s) userId"

definition put_infos :: "int \<Rightarrow> cached_ime_info list \<Rightarrow> ('d, 'x, unit) full_op" where
  "put_infos userId infos = modify (\<lambda>s. s\<lparr>fu_fullImeInfos := omap_assign userId infos (fu_fullImeInfos s)\<rparr>)"

definition fill_infos :: "(int \<times> cached_ime_info list) list \<Rightarrow> ('d, 'x, unit) full_op" where
  "fill_infos all = modify (\<lambda>s. s\<lparr>fu_fullImeInfos := fold (\<lambda>(u, is). omap_assign u is) all (fu_fullImeInfos s)\<rparr>)"

definition clear_infos :: "('d, 'x, unit) full_op" where
  "clear_infos = modify (\<lambda>s. s\<lparr>fu_fullImeInfos := []\<rparr>)"

definition erase_bundle :: "string \<Rightarrow> cached_ime_info list \<Rightarrow> cached_ime_info list" where
  "erase_bundle b = erase_first (\<lambda>i. bundle_of i = b)"

section \<open>Operations\<close>

definition RegularInit :: "'d inquirer \<Rightarrow> ('d, 'x, int) full_op" where
  "RegularInit Q = do {
     (r, all) \<leftarrow> gets (\<lambda>s. iq_queryAll Q (sd_world s));
     if r \<noteq> NO_ERROR then ret r else do { clear_infos; fill_infos all; ret NO_ERROR } }"

definition AddUser :: "'d inquirer \<Rightarrow> int \<Rightarrow> ('d, 'x, int \<times> cached_ime_info list) full_op" where
  "AddUser Q userId = do {
     c \<leftarrow> gets (cached_imes userId);
     (case c of Some infos \<Rightarrow> ret (NO_ERROR, infos)
      | None \<Rightarrow> do {
          (r, infos) \<leftarrow> gets (\<lambda>s. iq_queryUser Q (sd_world s) userId);
          if r \<noteq> NO_ERROR then ret (r, infos) else do { put_infos userId infos; ret (NO_ERROR, infos) } }) }"

definition Switch_full :: "'d settings_env \<Rightarrow> 'd inquirer \<Rightarrow> int \<Rightarrow> u64 \<Rightarrow> ('d, 'x, int) full_op" where
  "Switch_full E Q userId displayId = do {
     (r, infos) \<leftarrow> AddUser Q userId;
     when_do (displayId = 0) (void (Switch E userId (map full_ime_info.truncate infos)));
     ret r }"

definition Update_all :: "'d inquirer \<Rightarrow> ('d, 'x, int) full_op" where
  "Update_all Q = do {
     clear_infos;
     (r, all) \<leftarrow> gets (\<lambda>s. iq_queryAll Q (sd_world s));
     if r \<noteq> NO_ERROR then ret r else do { fill_infos all; ret NO_ERROR } }"

definition Delete_user_full :: "int \<Rightarrow> ('d, 'x, int) full_op" where
  "Delete_user_full userId = do {
     modify (\<lambda>s. s\<lparr>fu_fullImeInfos := AList.delete userId (fu_fullImeInfos s)\<rparr>);
     Delete_user userId;
     ret NO_ERROR }"

text \<open>The two operations share the part that puts a queried package into the cache.\<close>

definition AddPackage :: "'d inquirer \<Rightarrow> int \<Rightarrow> string \<Rightarrow> ('d, 'x, cached_ime_info option) full_op" where
  "AddPackage Q userId bundleName = do {
     q \<leftarrow> gets (\<lambda>s. iq_get Q (sd_world s) userId bundleName);
     (case q of None \<Rightarrow> ret None
      | Some info \<Rightarrow> do {
          c \<leftarrow> gets (cached_imes userId);
          put_infos userId (case c of None \<Rightarrow> [info] | Some infos \<Rightarrow> erase_bundle bundleName infos @ [info]);
          ret (Some info) }) }"

definition Add_full :: "'d settings_env \<Rightarrow> 'd inquirer \<Rightarrow> int \<Rightarrow> string \<Rightarrow> ('d, 'x, int) full_op" where
  "Add_full E Q userId bundleName = do {
     r \<leftarrow> AddPackage Q userId bundleName;
     (case r of None \<Rightarrow> ret ERROR_PACKAGE_MANAGER
      | Some info \<Rightarrow> do { Add E userId (full_ime_info.truncate info); ret NO_ERROR }) }"

definition Update_package :: "'d inquirer \<Rightarrow> int \<Rightarrow> string \<Rightarrow> ('d, 'x, int) full_op" where
  "Update_package Q userId bundleName = do {
     r \<leftarrow> AddPackage Q userId bundleName;
     ret (if r = None then ERROR_PACKAGE_MANAGER else NO_ERROR) }"

definition DeletePackage :: "int \<Rightarrow> string \<Rightarrow> ('d, 'x, int) full_op" where
  "DeletePackage userId bundleName = do {
     c \<leftarrow> gets (cached_imes userId);
     (case c of None \<Rightarrow> ret NO_ERROR
      | Some infos \<Rightarrow> do {
          let rest = erase_bundle bundleName infos;
          (if List.find (\<lambda>i. bundleName = bundle_of i) infos = None then ret ()
           else if rest = [] then modify (\<lambda>s. s\<lparr>fu_fullImeInfos := AList.delete userId (fu_fullImeInfos s)\<rparr>)
           else put_infos userId rest);
          ret NO_ERROR }) }"

definition Delete_package_full :: "'d settings_env \<Rightarrow> int \<Rightarrow> string \<Rightarrow> ('d, 'x, int) full_op" where
  "Delete_package_full E userId bundleName = do {
     r \<leftarrow> DeletePackage userId bundleName;
     Delete_bundle E userId bundleName;
     ret r }"

definition Get_props :: "'d settings_env \<Rightarrow> int \<Rightarrow> bool \<Rightarrow> ('d, 'x, int \<times> ime_property list) full_op" where
  "Get_props E userId containSysSpecialIme = do {
     c \<leftarrow> gets (cached_imes userId);
     (case c of None \<Rightarrow> ret (ERROR_IMSA_GET_IME_INFO_FAILED, [])
      | Some infos \<Rightarrow> do {
          let props = map fi_prop (filter (\<lambda>i. containSysSpecialIme \<or> \<not> fi_isSystemSpecialIme i) infos);
          (r, props) \<leftarrow> GetEnabledStates E userId props;
          ret (if r \<noteq> NO_ERROR then ERROR_ENABLE_IME else NO_ERROR, props) }) }"

definition Get_info :: "'d settings_env \<Rightarrow> int \<Rightarrow> string \<Rightarrow> ('d, 'x, cached_ime_info option) full_op" where
  "Get_info E userId bundleName = do {
     c \<leftarrow> gets (cached_imes userId);
     (case List.find (\<lambda>i. bundleName = bundle_of i) (case c of None \<Rightarrow> [] | Some infos \<Rightarrow> infos) of
        None \<Rightarrow> ret None
      | Some i \<Rightarrow> do {
          (_, st) \<leftarrow> GetEnabledState E userId (bundle_of i) (pr_status (fi_prop i));
          ret (Some (i\<lparr>fi_prop := (fi_prop i)\<lparr>pr_status := st\<rparr>\<rparr>)) }) }"

definition Has :: "int \<Rightarrow> string \<Rightarrow> ('d, 'x) full_state_scheme \<Rightarrow> bool" where
  "Has userId bundleName s = (case cached_imes userId s of None \<Rightarrow> False
     | Some infos \<Rightarrow> List.find (\<lambda>i. bundleName = bundle_of i) infos \<noteq> None)"

definition Get_token :: "int \<Rightarrow> u32 \<Rightarrow> ('d, 'x) full_state_scheme \<Rightarrow> string" where
  "Get_token userId tokenId s = (case cached_imes userId s of None \<Rightarrow> ''''
     | Some infos \<Rightarrow> (case List.find (\<lambda>i. tokenId = fu_tokenId i) infos of None \<Rightarrow> '''' | Some i \<Rightarrow> bundle_of i))"

definition Init_full :: "'d settings_env \<Rightarrow> 'd inquirer \<Rightarrow> ('d, 'x, int) full_op" where
  "Init_full E Q = do {
     empty \<leftarrow> gets (\<lambda>s. fu_fullImeInfos s = []);
     r \<leftarrow> (if \<not> empty then ret NO_ERROR else RegularInit Q);
     if r \<noteq> NO_ERROR then ret r
     else do {
       infos \<leftarrow> gets fu_fullImeInfos;
       Init_enabled E (map (\<lambda>(u, is). (u, map full_ime_info.truncate is)) infos);
       ret NO_ERROR } }"

section \<open>Invariant\<close>

text \<open>The cache names no package of a user twice, as long as the queries of a user or of all do not.\<close>

definition infos_ok :: "(int \<times> cached_ime_info list) list \<Rightarrow> bool" where
  "infos_ok m \<longleftrightarrow> omap_ok m \<and> (\<forall>u is. map_of m u = Some is \<longrightarrow> distinct (map bundle_of is))"

lemma infos_ok_assign: "infos_ok m \<Longrightarrow> distinct (map bundle_of is) \<Longrightarrow> infos_ok (omap_assign u is m)"
  by (auto simp: infos_ok_def map_of_omap_assign)

lemma infos_ok_delete: "infos_ok m \<Longrightarrow> infos_ok (AList.delete u m)"
  by (auto simp: infos_ok_def AList.delete_conv split: if_splits)

lemma distinct_erase_bundle:
  "distinct (map bundle_of is) \<Longrightarrow> distinct (map bundle_of (erase_bundle b is)) \<and> b \<notin> bundle_of ` set (erase_bundle b is)"
  by (auto simp: erase_bundle_def distinct_erase_first erase_first_gone)

text \<open>A package that was added is found under its name and under its token, and nowhere else twice.\<close>

lemma AddPackage_infos:
  assumes "infos_ok (fu_fullImeInfos s)" "\<And>i. iq_get Q (sd_world s) u b = Some i \<Longrightarrow> bundle_of i = b"
    and "run_state (AddPackage Q u b) s = (r, s')"
  shows "infos_ok (fu_fullImeInfos s') \<and> (case r of None \<Rightarrow> s' = s | Some i \<Rightarrow> Has u b s')"
proof (cases "iq_get Q (sd_world s) u b")
  case (Some i)
  define infos where "infos = (case cached_imes u s of None \<Rightarrow> [i] | Some is \<Rightarrow> erase_bundle b is @ [i])"
  have "distinct (map bundle_of infos)" "i \<in> set infos" "bundle_of i = b"
    using assms(1,2) Some distinct_erase_bundle [of _ b]
    by (auto simp: infos_def cached_imes_def infos_ok_def split: option.split)
  moreover from Some assms(3) have "r = Some i" "s' = s\<lparr>fu_fullImeInfos := omap_assign u infos (fu_fullImeInfos s)\<rparr>"
    by (auto simp: AddPackage_def put_infos_def infos_def)
  moreover have "omap_ok (fu_fullImeInfos s)" using assms(1) by (simp add: infos_ok_def)
  ultimately show ?thesis
    using assms(1) infos_ok_assign by (auto simp: Has_def cached_imes_def map_of_omap_assign find_None_iff)
qed (use assms in \<open>auto simp: AddPackage_def\<close>)

end
