(* ===== verification/Window_Adapter.thy ===== *)
theory Window_Adapter
  imports Imf_Global
begin

text \<open>
  \<open>services/adapter/window_adapter\<close>: what the service learns from the window manager. The adapter keeps,
  for every user, the table from displays to display groups (\<open>displayGroupIds_\<close>), which is filled by a query
  and by the notices of the window manager. The window manager itself is a parameter: the record
  \<^emph>\<open>window_manager\<close> holds what it answers at one moment.
\<close>

abbreviation ERROR_USER_NOT_EXIST :: int where "ERROR_USER_NOT_EXIST \<equiv> 38"
abbreviation ERROR_INVALID_DISPLAYID :: int where "ERROR_INVALID_DISPLAYID \<equiv> 92"

abbreviation DEFAULT_DISPLAY_ID :: u64 where "DEFAULT_DISPLAY_ID \<equiv> 0"
abbreviation DEFAULT_DISPLAY_GROUP_ID :: u64 where "DEFAULT_DISPLAY_GROUP_ID \<equiv> 0"
abbreviation DEFAULT_WINDOW_ID :: int where "DEFAULT_WINDOW_ID \<equiv> 0"
abbreviation SCB_ROOT_WINDOW_ID :: int where "SCB_ROOT_WINDOW_ID \<equiv> 1"

section \<open>The window manager\<close>

text \<open>The fields of \<open>FocusChangeInfo\<close> and \<open>WindowInfo\<close> that are read.\<close>

record focus_change_info =
  fc_windowId :: int
  fc_pid :: pid_t
  fc_realDisplayId :: u64
  fc_displayGroupId :: u64

record window_info =
  wi_windowId :: int
  wi_pid :: pid_t
  wi_displayId :: u64

text \<open>
  The first argument is the user whose window manager is asked. \<open>wm_list\<close> is \<open>None\<close> when the query fails, a
  null pointer in a result is \<open>None\<close>. \<open>wm_sceneBoard\<close> is the build switch \<open>SCENE_BOARD_ENABLE\<close>.
\<close>

record display_info =
  dp_name :: string
  dp_supportsInput :: bool
  dp_bundleName :: string

record window_manager =
  wm_focus :: "int \<Rightarrow> u64 \<Rightarrow> focus_change_info"
  wm_list :: "int \<Rightarrow> window_info option list option"
  wm_mainWindow :: "int \<Rightarrow> robj option \<Rightarrow> u64 option"
  wm_allGroups :: "int \<Rightarrow> (u64 \<times> u64) list \<times> focus_change_info option list"
  wm_display :: "u64 \<Rightarrow> display_info option"      \<comment> \<open>\<open>GetDisplayById\<close> and then \<open>GetDisplayInfo\<close>\<close>
  wm_defaultDisplay :: u64
  wm_sceneBoard :: bool

type_synonym group_table = "(int \<times> (u64 \<times> u64) list) list"
type_synonym 'a wad = "(group_table, 'a) state"

section \<open>Windows\<close>

definition GetFocusInfo :: "window_manager \<Rightarrow> int \<Rightarrow> u64 \<Rightarrow> focus_change_info" where
  "GetFocusInfo W userId displayId = wm_focus W userId displayId"

definition ListWindowInfo :: "window_manager \<Rightarrow> int \<Rightarrow> window_info option list option" where
  "ListWindowInfo W userId = (if wm_sceneBoard W then wm_list W userId else None)"

text \<open>The first window with a property.\<close>

definition find_window :: "(window_info \<Rightarrow> bool) \<Rightarrow> window_info option list \<Rightarrow> window_info option" where
  "find_window P ws = (case List.find (\<lambda>w. case w of None \<Rightarrow> False | Some i \<Rightarrow> P i) ws of None \<Rightarrow> None | Some w \<Rightarrow> w)"

definition GetDisplayIdByToken :: "window_manager \<Rightarrow> robj option \<Rightarrow> int \<Rightarrow> u64" where
  "GetDisplayIdByToken W abilityToken userId =
     (if wm_sceneBoard W
      then (case wm_mainWindow W userId abilityToken of None \<Rightarrow> DEFAULT_DISPLAY_ID | Some d \<Rightarrow> d)
      else DEFAULT_DISPLAY_ID)"

definition GetDisplayIdByWindowId :: "window_manager \<Rightarrow> int \<Rightarrow> int \<Rightarrow> u64" where
  "GetDisplayIdByWindowId W callingWindowId userId =
     (if \<not> wm_sceneBoard W then DEFAULT_DISPLAY_ID
      else let window = (if callingWindowId = 0 then fc_windowId (wm_focus W userId DEFAULT_DISPLAY_ID) else callingWindowId) in
        case ListWindowInfo W userId of
          None \<Rightarrow> DEFAULT_DISPLAY_ID
        | Some ws \<Rightarrow> (case find_window (\<lambda>i. wi_windowId i = window) ws of
              None \<Rightarrow> DEFAULT_DISPLAY_ID | Some i \<Rightarrow> wi_displayId i))"

definition GetDisplayIdWithCorrect :: "window_manager \<Rightarrow> int \<Rightarrow> u64 \<Rightarrow> int \<Rightarrow> u64" where
  "GetDisplayIdWithCorrect W windowId displayId userId =
     (if \<not> wm_sceneBoard W \<or> windowId = DEFAULT_WINDOW_ID then DEFAULT_DISPLAY_ID
      else case ListWindowInfo W userId of
          None \<Rightarrow> DEFAULT_DISPLAY_ID
        | Some ws \<Rightarrow> (case find_window (\<lambda>i. wi_windowId i = windowId) ws of
              None \<Rightarrow> if windowId = SCB_ROOT_WINDOW_ID then displayId else DEFAULT_DISPLAY_ID
            | Some i \<Rightarrow> wi_displayId i))"

definition GetDisplayIdByPid :: "window_manager \<Rightarrow> pid_t \<Rightarrow> int \<Rightarrow> u64" where
  "GetDisplayIdByPid W callingPid userId =
     (if \<not> wm_sceneBoard W then DEFAULT_DISPLAY_ID
      else case ListWindowInfo W userId of
          None \<Rightarrow> DEFAULT_DISPLAY_ID
        | Some ws \<Rightarrow> (case find_window (\<lambda>i. wi_pid i = callingPid) ws of
              None \<Rightarrow> DEFAULT_DISPLAY_ID | Some i \<Rightarrow> wi_displayId i))"

definition GetDisplayId :: "window_manager \<Rightarrow> pid_t \<Rightarrow> int \<Rightarrow> bool \<times> u64" where
  "GetDisplayId W callingPid userId =
     (if \<not> wm_sceneBoard W then (True, DEFAULT_DISPLAY_ID)
      else case ListWindowInfo W userId of
          None \<Rightarrow> (False, DEFAULT_DISPLAY_ID)
        | Some ws \<Rightarrow> (case find_window (\<lambda>i. wi_pid i = callingPid) ws of
              None \<Rightarrow> (False, DEFAULT_DISPLAY_ID) | Some i \<Rightarrow> (True, wi_displayId i)))"

section \<open>Display groups\<close>

definition SetDisplayGroupIds :: "(u64 \<times> u64) list \<Rightarrow> int \<Rightarrow> unit wad" where
  "SetDisplayGroupIds ids userId = modify (AList.update userId ids)"

text \<open>
  \<open>GetAllDisplayGroupInfos\<close>: both results. Windows on the same display stay in the order of the window
  manager; \<open>std::sort\<close> may exchange them.
\<close>

definition GetAllDisplayGroupInfos :: "window_manager \<Rightarrow> int \<Rightarrow> ((u64 \<times> u64) list \<times> focus_change_info list) wad" where
  "GetAllDisplayGroupInfos W userId =
     (if \<not> wm_sceneBoard W then ret ([], [])
      else do {
        let (ids, ptrs) = wm_allGroups W userId;
        SetDisplayGroupIds ids userId;
        ret (ids, sort_key fc_realDisplayId (map the (filter (\<lambda>p. p \<noteq> None) ptrs))) })"

definition StoreAllDisplayGroupInfos :: "window_manager \<Rightarrow> int \<Rightarrow> int wad" where
  "StoreAllDisplayGroupInfos W userId = do {
     when_do (wm_sceneBoard W) (void (GetAllDisplayGroupInfos W userId));
     ret NO_ERROR }"

definition GetAllFocusWindowInfos :: "window_manager \<Rightarrow> int \<Rightarrow> focus_change_info list wad" where
  "GetAllFocusWindowInfos W userId = do { (_, infos) \<leftarrow> GetAllDisplayGroupInfos W userId; ret infos }"

text \<open>The output parameter keeps its initial value when there is an error.\<close>

definition GetDisplayGroupId :: "u64 \<Rightarrow> int \<Rightarrow> u64 \<Rightarrow> group_table \<Rightarrow> int \<times> u64" where
  "GetDisplayGroupId displayId userId out t = (case map_of t userId of
     None \<Rightarrow> (ERROR_USER_NOT_EXIST, out)
   | Some ids \<Rightarrow> (case map_of ids displayId of None \<Rightarrow> (ERROR_INVALID_DISPLAYID, out) | Some g \<Rightarrow> (NO_ERROR, g)))"

definition GetDisplayGroupIdWithRetry :: "window_manager \<Rightarrow> u64 \<Rightarrow> int \<Rightarrow> u64 \<Rightarrow> (int \<times> u64) wad" where
  "GetDisplayGroupIdWithRetry W displayId userId out = do {
     (r, g) \<leftarrow> gets (GetDisplayGroupId displayId userId out);
     if r = NO_ERROR then ret (r, g)
     else if displayId = DEFAULT_DISPLAY_ID then ret (NO_ERROR, DEFAULT_DISPLAY_GROUP_ID)
     else do {
       GetAllDisplayGroupInfos W userId;
       gets (GetDisplayGroupId displayId userId out) } }"

definition IsDisplayGroupIdExist :: "u64 \<Rightarrow> int \<Rightarrow> group_table \<Rightarrow> bool" where
  "IsDisplayGroupIdExist displayGroupId userId t =
     (displayGroupId = DEFAULT_DISPLAY_GROUP_ID \<or>
      (case map_of t userId of None \<Rightarrow> False | Some ids \<Rightarrow> displayGroupId \<in> set (map snd ids)))"

definition IsDisplayIdExist :: "u64 \<Rightarrow> int \<Rightarrow> group_table \<Rightarrow> bool" where
  "IsDisplayIdExist displayId userId t =
     (displayId = DEFAULT_DISPLAY_ID \<or>
      (case map_of t userId of None \<Rightarrow> False | Some ids \<Rightarrow> map_of ids displayId \<noteq> None))"

definition IsDefaultDisplayGroup :: "window_manager \<Rightarrow> u64 \<Rightarrow> int \<Rightarrow> bool wad" where
  "IsDefaultDisplayGroup W displayId userId = do {
     (r, g) \<leftarrow> GetDisplayGroupIdWithRetry W displayId userId DEFAULT_DISPLAY_GROUP_ID;
     ret (r = NO_ERROR \<and> g = DEFAULT_DISPLAY_GROUP_ID) }"

text \<open>The overload for a window returns the code of the query, not the group it found.\<close>

definition GetDisplayGroupId_window :: "window_manager \<Rightarrow> u32 \<Rightarrow> int \<Rightarrow> int wad" where
  "GetDisplayGroupId_window W windowId userId = do {
     (r, _) \<leftarrow> GetDisplayGroupIdWithRetry W (GetDisplayIdByWindowId W (sint windowId) userId) userId DEFAULT_DISPLAY_GROUP_ID;
     ret r }"

definition OnDisplayGroupInfoChanged :: "u64 \<Rightarrow> u64 \<Rightarrow> bool \<Rightarrow> int \<Rightarrow> unit wad" where
  "OnDisplayGroupInfoChanged displayId displayGroupId isAdd userId = modify (\<lambda>t.
     let ids = (case map_of t userId of None \<Rightarrow> [] | Some ids \<Rightarrow> ids) in
     if isAdd then AList.update userId (AList.update displayId displayGroupId ids) t
     else AList.map_entry userId (AList.delete displayId) t)"

section \<open>Displays\<close>

text \<open>\<open>display_adapter.cpp\<close>.\<close>

definition GetDisplayInfo :: "window_manager \<Rightarrow> u64 \<Rightarrow> display_info option" where
  "GetDisplayInfo W displayId = wm_display W displayId"

definition GetDisplayName :: "window_manager \<Rightarrow> u64 \<Rightarrow> string" where
  "GetDisplayName W displayId = (case GetDisplayInfo W displayId of None \<Rightarrow> '''' | Some i \<Rightarrow> dp_name i)"

definition GetDefaultDisplayId :: "window_manager \<Rightarrow> u64" where
  "GetDefaultDisplayId W = wm_defaultDisplay W"

definition IsImeShowable :: "window_manager \<Rightarrow> u64 \<Rightarrow> bool" where
  "IsImeShowable W displayId = (case GetDisplayInfo W displayId of None \<Rightarrow> True | Some i \<Rightarrow> dp_supportsInput i)"

definition IsRestrictedMainDisplayId :: "window_manager \<Rightarrow> u64 \<Rightarrow> bool" where
  "IsRestrictedMainDisplayId W displayId \<longleftrightarrow> displayId \<noteq> DEFAULT_DISPLAY_ID \<and> \<not> IsImeShowable W displayId"

definition GetRestrictedMainDisplayInfo :: "window_manager \<Rightarrow> u64 \<Rightarrow> bool \<times> string" where
  "GetRestrictedMainDisplayInfo W displayId =
     (if displayId = DEFAULT_DISPLAY_ID then (False, '''')
      else case GetDisplayInfo W displayId of
          None \<Rightarrow> (False, '''')
        | Some i \<Rightarrow> if dp_supportsInput i then (False, '''') else (True, dp_bundleName i))"

section \<open>The window manager's monitors\<close>

text \<open>\<open>window_monitors_manager.cpp\<close>: the users whose monitors are registered and the user in front of each screen.\<close>

record scb_info =
  sb_userId :: int
  sb_pid :: pid_t

record window_monitors =
  mo_initedUserList :: "int list"
  mo_foregroundScbs :: "(int \<times> scb_info) list"

definition Reset_monitors :: "window_monitors \<Rightarrow> window_monitors" where
  "Reset_monitors m = m\<lparr>mo_initedUserList := [], mo_foregroundScbs := []\<rparr>"

definition SetInited :: "int \<Rightarrow> window_monitors \<Rightarrow> window_monitors" where
  "SetInited userId m = m\<lparr>mo_initedUserList := List.insert userId (mo_initedUserList m)\<rparr>"

definition IsInited :: "int \<Rightarrow> window_monitors \<Rightarrow> bool" where
  "IsInited userId m \<longleftrightarrow> userId \<in> set (mo_initedUserList m)"

definition UpdateForegroundUser :: "int \<Rightarrow> int \<Rightarrow> pid_t \<Rightarrow> window_monitors \<Rightarrow> window_monitors" where
  "UpdateForegroundUser userId screenId pid m =
     m\<lparr>mo_foregroundScbs := AList.update screenId \<lparr>sb_userId = userId, sb_pid = pid\<rparr> (mo_foregroundScbs m)\<rparr>"

definition GetForegroundUser :: "int \<Rightarrow> window_monitors \<Rightarrow> scb_info" where
  "GetForegroundUser screenId m = (case map_of (mo_foregroundScbs m) screenId of
     None \<Rightarrow> \<lparr>sb_userId = 0, sb_pid = 0\<rparr> | Some i \<Rightarrow> i)"

section \<open>Lemmas\<close>

lemma GetRestrictedMainDisplayInfo_fst: "fst (GetRestrictedMainDisplayInfo W d) = IsRestrictedMainDisplayId W d"
  by (simp add: GetRestrictedMainDisplayInfo_def IsRestrictedMainDisplayId_def IsImeShowable_def split: option.split)

lemma map_of_update [simp]: "map_of (AList.update k v m) k' = (if k' = k then Some v else map_of m k')"
  by (simp add: update_conv)

lemma find_window_SomeD: "find_window P ws = Some i \<Longrightarrow> Some i \<in> set ws \<and> P i"
  by (auto simp: find_window_def split: option.splits dest!: find_SomeD)

text \<open>A query fills the table; a display the window manager names is found afterwards.\<close>

lemma GetDisplayGroupIdWithRetry_correct:
  assumes "wm_sceneBoard W" "run_state (GetDisplayGroupIdWithRetry W d u out) t = ((r, g), t')"
  shows "(\<forall>g'. (\<exists>ids. map_of t u = Some ids \<and> map_of ids d = Some g') \<longrightarrow> r = NO_ERROR \<and> g = g' \<and> t' = t)"
    and "(\<forall>ids. map_of t u = Some ids \<longrightarrow> map_of ids d = None) \<longrightarrow> d \<noteq> DEFAULT_DISPLAY_ID \<longrightarrow>
      (case map_of (fst (wm_allGroups W u)) d of None \<Rightarrow> r = ERROR_INVALID_DISPLAYID | Some g' \<Rightarrow> r = NO_ERROR \<and> g = g')"
  using assms
  by (auto simp: GetDisplayGroupIdWithRetry_def GetDisplayGroupId_def GetAllDisplayGroupInfos_def SetDisplayGroupIds_def
      split: option.splits prod.splits if_splits)

lemma OnDisplayGroupInfoChanged_lookup:
  assumes "run_state (OnDisplayGroupInfoChanged d g add u) t = ((), t')"
  shows "map_of t' u' = (if u' \<noteq> u then map_of t u'
     else if add then Some (AList.update d g (case map_of t u of None \<Rightarrow> [] | Some ids \<Rightarrow> ids))
     else map_option (AList.delete d) (map_of t u))"
  using assms by (auto simp: OnDisplayGroupInfoChanged_def Let_def map_of_map_entry)

end
