(* ===== verification/Ime_Info_Inquirer.thy ===== *)
theory Ime_Info_Inquirer
  imports Full_Ime_Info Input_Type_Manager Window_Adapter
begin

text \<open>
  \<open>services/src/ime_info_inquirer.cpp\<close>: what the service knows of the installed input methods, read from the
  cache of \<^emph>\<open>Full_Ime_Info\<close> or, where the cache has nothing, from the bundle manager. The bundle manager, the
  resource manager and the application manager are the record \<^emph>\<open>bundle_mgr\<close>, what they answer in a state of the
  outside world. Of \<open>Property\<close> the name, the id and the status are kept; its label and its icon, which nothing
  but the user interface reads, are not.
\<close>

section \<open>The bundle manager\<close>

record metadata =
  md_name :: string
  md_value :: string
  md_resource :: string

text \<open>The fields of \<open>ExtensionAbilityInfo\<close> that are read, with the token of its application.\<close>

record ext_info =
  xt_bundleName :: string
  xt_name :: string
  xt_moduleName :: string
  xt_labelId :: u32
  xt_iconId :: u32
  xt_metadata :: "metadata list"
  xt_hapPath :: string
  xt_resourcePath :: string
  xt_accessTokenId :: u32

record bundle_info =
  bn_appIdentifier :: string
  bn_versionCode :: u32
  bn_versionName :: string

record process_info =
  pn_isInputMethod :: bool       \<comment> \<open>the extension's type\<close>
  pn_bundleNames :: "string list"
  pn_isPreloadModule :: bool

text \<open>
  \<open>bm_profile\<close> reads a profile of a package: it is compressed or not, the path of the resources, the profile's
  name. \<open>bm_extensions\<close> is the list of a package's extensions, of each whether it is an input method.
  \<open>bm_indeterminate\<close> is what the member \<open>versionCode\<close>, which has no initialiser, happens to hold.
\<close>

record 'd bundle_mgr =
  bm_available :: "'d \<Rightarrow> bool"
  bm_query :: "'d \<Rightarrow> int \<Rightarrow> ext_info list option"
  bm_string :: "'d \<Rightarrow> string \<Rightarrow> string \<Rightarrow> u32 \<Rightarrow> int \<Rightarrow> string"
  bm_strings :: "'d \<Rightarrow> string \<Rightarrow> string \<Rightarrow> u32 list \<Rightarrow> int \<Rightarrow> int \<times> string list"
  bm_bundleInfo :: "'d \<Rightarrow> int \<Rightarrow> string \<Rightarrow> bundle_info option"
  bm_extensions :: "'d \<Rightarrow> int \<Rightarrow> string \<Rightarrow> bool list option"
  bm_profile :: "'d \<Rightarrow> bool \<Rightarrow> string \<Rightarrow> string \<Rightarrow> string option"
  bm_processes :: "'d \<Rightarrow> int \<Rightarrow> process_info list option"
  bm_activeUsers :: "'d \<Rightarrow> int list"
  bm_indeterminate :: u32

text \<open>What the inquirer needs from outside, and the members of the configuration it reads.\<close>

record 'd inq_env =
  nv_settings :: "'d settings_env"
  nv_bundles :: "'d bundle_mgr"
  nv_types :: input_type_cfg
  nv_capacities :: "string list"            \<comment> \<open>\<open>supportedCapacityList\<close>\<close>
  nv_enableAppAgent :: bool
  nv_enablePushToTalk :: bool
  nv_disableImmersiveMode :: bool
  nv_isSupportPcMode :: bool
  nv_disablePcModeImmersiveMode :: bool
  nv_isPcMode :: bool
  nv_configAbility :: string                \<comment> \<open>\<open>systemInputMethodConfigAbility\<close>\<close>
  nv_panelAppIdentifier :: string           \<comment> \<open>\<open>systemPanelAppIdentifier\<close>\<close>
  nv_imeScreens :: "string list"            \<comment> \<open>\<open>defaultImeScreenList\<close>\<close>

abbreviation ime_id :: "string \<Rightarrow> string \<Rightarrow> ime_identification" where
  "ime_id b sub \<equiv> \<lparr>ii_bundleName = b, ii_subName = sub\<rparr>"

abbreviation nv_cj :: "('d, 'x) inq_env_scheme \<Rightarrow> cjson" where "nv_cj V \<equiv> se_cj (nv_settings V)"

record 'd inq_state = "'d full_state" +
  nq_itm :: input_type_manager              \<comment> \<open>the \<open>InputTypeManager\<close> singleton\<close>

type_synonym ('d, 'x, 'a) inq_op = "(('d, 'x) inq_state_scheme, 'a) state"

abbreviation SUBTYPE_PROFILE_METADATA_NAME :: string where "SUBTYPE_PROFILE_METADATA_NAME \<equiv> ''ohos.extension.input_method''"
abbreviation TEMPORARY_INPUT_METHOD_METADATA_NAME :: string where
  "TEMPORARY_INPUT_METHOD_METADATA_NAME \<equiv> ''ohos.extension.temporary_input_method''"
abbreviation PROFILE_FILE_PREFIX :: string where "PROFILE_FILE_PREFIX \<equiv> ''$profile:''"
abbreviation ERROR_OS_ACCOUNT :: int where "ERROR_OS_ACCOUNT \<equiv> 26"

section \<open>Packages\<close>

definition QueryImeExtInfos :: "'d bundle_mgr \<Rightarrow> 'd \<Rightarrow> int \<Rightarrow> ext_info list option" where
  "QueryImeExtInfos B w userId = (if \<not> bm_available B w then None else bm_query B w userId)"

definition GetExtInfosByBundleName :: "'d bundle_mgr \<Rightarrow> 'd \<Rightarrow> int \<Rightarrow> string \<Rightarrow> int \<times> ext_info list" where
  "GetExtInfosByBundleName B w userId bundleName = (case QueryImeExtInfos B w userId of
     None \<Rightarrow> (ERROR_BAD_PARAMETERS, [])
   | Some tempExtInfos \<Rightarrow> (let es = filter (\<lambda>e. xt_bundleName e = bundleName) tempExtInfos in
       (if es = [] then ERROR_BAD_PARAMETERS else NO_ERROR, es)))"

definition GetBundleInfoByBundleName :: "'d bundle_mgr \<Rightarrow> 'd \<Rightarrow> int \<Rightarrow> string \<Rightarrow> bundle_info option" where
  "GetBundleInfoByBundleName B w userId bundleName =
     (if \<not> bm_available B w then None else bm_bundleInfo B w userId bundleName)"

definition has_metadata :: "string \<Rightarrow> ext_info \<Rightarrow> bool" where
  "has_metadata name e \<longleftrightarrow> List.find (\<lambda>m. md_name m = name) (xt_metadata e) \<noteq> None"

definition IsNewExtInfos :: "ext_info list \<Rightarrow> bool" where
  "IsNewExtInfos es = (case es of [] \<Rightarrow> False | e # _ \<Rightarrow> has_metadata SUBTYPE_PROFILE_METADATA_NAME e)"

definition IsSystemSpecialIme :: "ext_info \<Rightarrow> bool" where
  "IsSystemSpecialIme e = has_metadata TEMPORARY_INPUT_METHOD_METADATA_NAME e"

definition IsInputMethod :: "'d bundle_mgr \<Rightarrow> 'd \<Rightarrow> int \<Rightarrow> string \<Rightarrow> bool" where
  "IsInputMethod B w userId bundleName =
     (bm_available B w \<and> (case bm_extensions B w userId bundleName of None \<Rightarrow> False | Some ts \<Rightarrow> True \<in> set ts))"

definition GetStringById :: "'d bundle_mgr \<Rightarrow> 'd \<Rightarrow> string \<Rightarrow> string \<Rightarrow> u32 \<Rightarrow> int \<Rightarrow> string" where
  "GetStringById B w bundleName moduleName labelId userId =
     (if \<not> bm_available B w then '''' else bm_string B w bundleName moduleName labelId userId)"

definition GetStringByIdList :: "'d bundle_mgr \<Rightarrow> 'd \<Rightarrow> string \<Rightarrow> string \<Rightarrow> u32 list \<Rightarrow> int \<Rightarrow> int \<times> string list" where
  "GetStringByIdList B w bundleName moduleName labelIds userId =
     (if \<not> bm_available B w then (ERROR_NULL_POINTER, []) else bm_strings B w bundleName moduleName labelIds userId)"

definition GetRunningIme :: "'d bundle_mgr \<Rightarrow> 'd \<Rightarrow> int \<Rightarrow> string list" where
  "GetRunningIme B w userId = (case bm_processes B w userId of None \<Rightarrow> []
     | Some ps \<Rightarrow> map (\<lambda>p. hd (pn_bundleNames p))
         (filter (\<lambda>p. pn_isInputMethod p \<and> pn_bundleNames p \<noteq> [] \<and> \<not> pn_isPreloadModule p) ps))"

definition IsRunningIme :: "'d bundle_mgr \<Rightarrow> 'd \<Rightarrow> int \<Rightarrow> string \<Rightarrow> bool" where
  "IsRunningIme B w userId bundleName \<longleftrightarrow> bundleName \<in> set (GetRunningIme B w userId)"

section \<open>Sub types\<close>

definition default_sub_property :: sub_property_rec where
  "default_sub_property = \<lparr>sp_label = '''', sp_labelId = 0, sp_name = '''', sp_id = '''', sp_mode = '''', sp_locale = '''',
     sp_language = '''', sp_icon = '''', sp_iconId = 0\<rparr>"

text \<open>The loop of \<open>GetExtends\<close>: a later entry of the same name overwrites an earlier one.\<close>

fun GetExtends :: "metadata list \<Rightarrow> sub_property_rec \<Rightarrow> sub_property_rec" where
  "GetExtends [] p = p"
| "GetExtends (d # ds) p = GetExtends ds
     (if md_name d = ''language'' then p\<lparr>sp_language := md_value d\<rparr>
      else if md_name d = ''mode'' then p\<lparr>sp_mode := md_value d\<rparr>
      else if md_name d = ''locale'' then p\<lparr>sp_locale := md_value d\<rparr>
      else if md_name d = ''icon'' then p\<lparr>sp_icon := md_value d\<rparr> else p)"

text \<open>An old input method has one extension for each sub type.\<close>

definition old_sub_property :: "'d bundle_mgr \<Rightarrow> 'd \<Rightarrow> int \<Rightarrow> ext_info \<Rightarrow> sub_property_rec" where
  "old_sub_property B w userId e = (GetExtends (xt_metadata e) default_sub_property)\<lparr>
     sp_labelId := xt_labelId e, sp_label := GetStringById B w (xt_bundleName e) (xt_moduleName e) (xt_labelId e) userId,
     sp_id := xt_name e, sp_name := xt_bundleName e, sp_iconId := xt_iconId e\<rparr>"

definition ListInputMethodSubtype_old :: "'d bundle_mgr \<Rightarrow> 'd \<Rightarrow> int \<Rightarrow> ext_info list \<Rightarrow> int \<times> sub_property_rec list" where
  "ListInputMethodSubtype_old B w userId es = (NO_ERROR, map (old_sub_property B w userId) es)"

definition GetSubProperty_old :: "'d bundle_mgr \<Rightarrow> 'd \<Rightarrow> int \<Rightarrow> string \<Rightarrow> ext_info list \<Rightarrow> int \<times> sub_property_rec" where
  "GetSubProperty_old B w userId subName es = (case es of [] \<Rightarrow> (ERROR_PACKAGE_MANAGER, default_sub_property)
     | e # _ \<Rightarrow> (NO_ERROR, old_sub_property B w userId
         (case List.find (\<lambda>e. xt_name e = subName) es of None \<Rightarrow> e | Some x \<Rightarrow> x)))"

text \<open>A new one names them in a profile (\<open>Subtype\<close> and \<open>SubtypeCfg\<close> of the header).\<close>

record subtype =
  su_label :: string
  su_id :: string
  su_icon :: string
  su_mode :: string
  su_locale :: string

definition default_subtype :: subtype where
  "default_subtype = \<lparr>su_label = '''', su_id = '''', su_icon = '''', su_mode = '''', su_locale = ''''\<rparr>"

definition Subtype_Unmarshal :: "cjson \<Rightarrow> json \<Rightarrow> subtype \<Rightarrow> bool \<times> subtype" where
  "Subtype_Unmarshal cj node v =
     (fst (GetValue_string cj node ''id'' (su_id v)),
      \<lparr>su_label = snd (GetValue_string cj node ''label'' (su_label v)), su_id = snd (GetValue_string cj node ''id'' (su_id v)),
       su_icon = snd (GetValue_string cj node ''icon'' (su_icon v)), su_mode = snd (GetValue_string cj node ''mode'' (su_mode v)),
       su_locale = snd (GetValue_string cj node ''locale'' (su_locale v))\<rparr>)"

abbreviation MAX_SUBTYPE_NUM :: nat where "MAX_SUBTYPE_NUM \<equiv> 256"

definition SubtypeCfg_Unmarshal :: "cjson \<Rightarrow> json \<Rightarrow> subtype list \<Rightarrow> bool \<times> subtype list" where
  "SubtypeCfg_Unmarshal cj node v = GetValue_vector cj (Subtype_Unmarshal cj) default_subtype node ''subtypes'' MAX_SUBTYPE_NUM v"

definition ParseSubtypeProfile :: "cjson \<Rightarrow> string list \<Rightarrow> bool \<times> subtype list" where
  "ParseSubtypeProfile cj profiles = (case profiles of [p] \<Rightarrow> Unmarshall cj (SubtypeCfg_Unmarshal cj) p [] | _ \<Rightarrow> (False, []))"

text \<open>What follows the last occurrence of a text.\<close>

fun after_last :: "string \<Rightarrow> string \<Rightarrow> string option" where
  "after_last pat [] = (if pat = [] then Some [] else None)"
| "after_last pat (c # cs) = (case after_last pat cs of Some r \<Rightarrow> Some r
     | None \<Rightarrow> if take (length pat) (c # cs) = pat then Some (drop (length pat) (c # cs)) else None)"

definition GetResFromResMgr :: "'d bundle_mgr \<Rightarrow> 'd \<Rightarrow> string \<Rightarrow> bool \<Rightarrow> string \<Rightarrow> string option" where
  "GetResFromResMgr B w resName isCompressed path =
     (if resName = '''' then None
      else case after_last PROFILE_FILE_PREFIX resName of
          None \<Rightarrow> None
        | Some profileName \<Rightarrow> if profileName = '''' then None else bm_profile B w isCompressed path profileName)"

definition GetResConfigFileLite :: "'d bundle_mgr \<Rightarrow> 'd \<Rightarrow> ext_info \<Rightarrow> string \<Rightarrow> string list option" where
  "GetResConfigFileLite B w e metadataName =
     (let isCompressed = (xt_hapPath e \<noteq> ''''); path = (if isCompressed then xt_hapPath e else xt_resourcePath e) in
      if xt_metadata e = [] \<or> path = '''' then None
      else case List.find (\<lambda>m. md_name m = metadataName) (xt_metadata e) of
          None \<Rightarrow> None
        | Some m \<Rightarrow> (case GetResFromResMgr B w (md_resource m) isCompressed path of None \<Rightarrow> None | Some p \<Rightarrow> Some [p]))"

definition ParseSubtype :: "'d bundle_mgr \<Rightarrow> cjson \<Rightarrow> 'd \<Rightarrow> ext_info \<Rightarrow> int \<times> subtype list" where
  "ParseSubtype B cj w e =
     (if \<not> has_metadata SUBTYPE_PROFILE_METADATA_NAME e then (ERROR_BAD_PARAMETERS, [])
      else case GetResConfigFileLite B w e SUBTYPE_PROFILE_METADATA_NAME of
          None \<Rightarrow> (ERROR_PACKAGE_MANAGER, [])
        | Some profiles \<Rightarrow> (case ParseSubtypeProfile cj profiles of (ok, ts) \<Rightarrow>
            if ok then (NO_ERROR, ts) else (ERROR_BAD_PARAMETERS, [])))"

definition before_char :: "char \<Rightarrow> string \<Rightarrow> string" where
  "before_char c s = takeWhile (\<lambda>x. x \<noteq> c) s"

definition CovertToLanguage :: "string \<Rightarrow> string" where
  "CovertToLanguage locale =
     (let l = (if CHR ''_'' \<in> set locale then before_char (CHR ''_'') locale else before_char (CHR ''-'') locale) in
      if l = ''en'' then ''english'' else if l = ''zh'' then ''chinese'' else l)"

text \<open>The number behind a colon, if it is positive.\<close>

definition resource_id :: "string \<Rightarrow> u32 option" where
  "resource_id s = (let p = before_char (CHR '':'') s in
     if length p + 1 < length s \<and> atoi (drop (length p + 1) s) > 0 then Some (word_of_int (atoi (drop (length p + 1) s))) else None)"

definition CollectLabelIds :: "(ime_identification \<Rightarrow> bool) \<Rightarrow> string \<Rightarrow> subtype list \<Rightarrow> u32 list" where
  "CollectLabelIds isType bundleName ts =
     [i. t \<leftarrow> ts, \<not> isType \<lparr>ii_bundleName = bundleName, ii_subName = su_id t\<rparr>,
         i \<leftarrow> (case resource_id (su_label t) of None \<Rightarrow> [] | Some i \<Rightarrow> [i])]"

definition ParseLabelId :: "string \<Rightarrow> string list \<Rightarrow> nat \<Rightarrow> sub_property_rec \<Rightarrow> sub_property_rec \<times> nat" where
  "ParseLabelId label labels idx p = (case resource_id label of None \<Rightarrow> (p, idx)
     | Some i \<Rightarrow> if idx < length labels then (p\<lparr>sp_labelId := i, sp_label := labels ! idx\<rparr>, idx + 1)
         else (p\<lparr>sp_labelId := i\<rparr>, idx))"

definition ParseIconId :: "string \<Rightarrow> sub_property_rec \<Rightarrow> sub_property_rec" where
  "ParseIconId icon p = (case resource_id icon of None \<Rightarrow> p | Some i \<Rightarrow> p\<lparr>sp_iconId := i\<rparr>)"

definition FillSubProperty :: "subtype \<Rightarrow> string \<Rightarrow> string list \<Rightarrow> nat \<Rightarrow> sub_property_rec \<times> nat" where
  "FillSubProperty t bundleName labels idx =
     (let p = default_sub_property\<lparr>sp_label := su_label t, sp_name := bundleName, sp_id := su_id t, sp_mode := su_mode t,
                sp_locale := su_locale t, sp_icon := su_icon t\<rparr>;
          (p, idx) = ParseLabelId (su_label t) labels idx p
      in ((ParseIconId (su_icon t) p)\<lparr>sp_language := CovertToLanguage (su_locale t)\<rparr>, idx))"

fun fill_all :: "(ime_identification \<Rightarrow> bool) \<Rightarrow> string \<Rightarrow> string list \<Rightarrow> nat \<Rightarrow> subtype list \<Rightarrow> sub_property_rec list" where
  "fill_all isType bundleName labels idx [] = []"
| "fill_all isType bundleName labels idx (t # ts) =
     (if isType \<lparr>ii_bundleName = bundleName, ii_subName = su_id t\<rparr> then fill_all isType bundleName labels idx ts
      else let (p, idx) = FillSubProperty t bundleName labels idx in p # fill_all isType bundleName labels idx ts)"

definition ListInputMethodSubtype_new ::
  "'d bundle_mgr \<Rightarrow> cjson \<Rightarrow> (ime_identification \<Rightarrow> bool) \<Rightarrow> 'd \<Rightarrow> int \<Rightarrow> ext_info \<Rightarrow> int \<times> sub_property_rec list" where
  "ListInputMethodSubtype_new B cj isType w userId e = (case ParseSubtype B cj w e of (r, ts) \<Rightarrow>
     if r \<noteq> NO_ERROR then (r, [])
     else let ids = CollectLabelIds isType (xt_bundleName e) ts;
              (r, labels) = (if ids = [] then (NO_ERROR, []) else GetStringByIdList B w (xt_bundleName e) (xt_moduleName e) ids userId)
          in if r \<noteq> NO_ERROR then (r, []) else (NO_ERROR, fill_all isType (xt_bundleName e) labels 0 ts))"

text \<open>The two overloads on a package's extensions.\<close>

definition list_subtypes ::
  "'d bundle_mgr \<Rightarrow> cjson \<Rightarrow> (ime_identification \<Rightarrow> bool) \<Rightarrow> 'd \<Rightarrow> int \<Rightarrow> ext_info list \<Rightarrow> int \<times> sub_property_rec list" where
  "list_subtypes B cj isType w userId es =
     (if IsNewExtInfos es then ListInputMethodSubtype_new B cj isType w userId (hd es)
      else ListInputMethodSubtype_old B w userId es)"

definition GetSubProperty_new :: "'d bundle_mgr \<Rightarrow> cjson \<Rightarrow> 'd \<Rightarrow> int \<Rightarrow> string \<Rightarrow> ext_info \<Rightarrow> int \<times> sub_property_rec" where
  "GetSubProperty_new B cj w userId subName e = (case ParseSubtype B cj w e of (r, ts) \<Rightarrow>
     if r \<noteq> NO_ERROR then (r, default_sub_property)
     else case ts of [] \<Rightarrow> (ERROR_PACKAGE_MANAGER, default_sub_property)
       | t0 # _ \<Rightarrow>
         (let t = (case List.find (\<lambda>t. su_id t = subName) ts of None \<Rightarrow> t0 | Some t \<Rightarrow> t);
              p = default_sub_property\<lparr>sp_label := su_label t, sp_name := xt_bundleName e, sp_id := su_id t, sp_mode := su_mode t,
                    sp_locale := su_locale t, sp_icon := su_icon t\<rparr>;
              p = (case resource_id (su_label t) of None \<Rightarrow> p
                   | Some i \<Rightarrow> p\<lparr>sp_labelId := i, sp_label := GetStringById B w (xt_bundleName e) (xt_moduleName e) i userId\<rparr>)
          in (NO_ERROR, (ParseIconId (su_icon t) p)\<lparr>sp_language := CovertToLanguage (su_locale t)\<rparr>)))"

datatype condition = UPPER | LOWER | ENGLISH | CHINESE

definition FindTargetSubtypeByCondition :: "sub_property_rec list \<Rightarrow> condition \<Rightarrow> sub_property_rec option" where
  "FindTargetSubtypeByCondition subProps c = List.find (case c of
       UPPER \<Rightarrow> (\<lambda>p. sp_mode p = ''upper'')
     | LOWER \<Rightarrow> (\<lambda>p. sp_mode p = ''lower'')
     | ENGLISH \<Rightarrow> (\<lambda>p. sp_language p = ''english'' \<and> sp_mode p = ''lower'')
     | CHINESE \<Rightarrow> (\<lambda>p. sp_language p = ''chinese'')) subProps"

section \<open>Filling the cache\<close>

definition new_cached_info :: "u32 \<Rightarrow> cached_ime_info" where
  "new_cached_info versionCode = \<lparr>fi_prop = \<lparr>pr_name = '''', pr_id = '''', pr_status = DISABLED\<rparr>, fi_isSystemSpecialIme = False,
     fu_isNewIme = False, fu_tokenId = 0, fu_appId = '''', fu_versionCode = versionCode, fu_versionName = '''', fu_subProps = []\<rparr>"

definition GetFullImeInfo_exts ::
  "'d bundle_mgr \<Rightarrow> cjson \<Rightarrow> (ime_identification \<Rightarrow> bool) \<Rightarrow> 'd \<Rightarrow> int \<Rightarrow> ext_info list \<Rightarrow> bool \<Rightarrow> int \<times> cached_ime_info" where
  "GetFullImeInfo_exts B cj isType w userId es needBrief = (case es of
     [] \<Rightarrow> (ERROR_PACKAGE_MANAGER, new_cached_info (bm_indeterminate B))
   | e # _ \<Rightarrow>
       (let i = (new_cached_info (bm_indeterminate B))\<lparr>
              fi_prop := \<lparr>pr_name = xt_bundleName e, pr_id = xt_name e, pr_status = DISABLED\<rparr>,
              fi_isSystemSpecialIme := IsSystemSpecialIme e\<rparr>
        in if needBrief then (NO_ERROR, i)
           else let i = i\<lparr>fu_tokenId := xt_accessTokenId e, fu_isNewIme := IsNewExtInfos es\<rparr>;
                    (r, subs) = list_subtypes B cj isType w userId es;
                    i = i\<lparr>fu_subProps := subs\<rparr>
             in if r \<noteq> NO_ERROR then (r, i)
                else case GetBundleInfoByBundleName B w userId (xt_bundleName e) of
                    None \<Rightarrow> (NO_ERROR, i)
                  | Some b \<Rightarrow> (NO_ERROR, i\<lparr>fu_appId := bn_appIdentifier b, fu_versionCode := bn_versionCode b,
                      fu_versionName := bn_versionName b\<rparr>)))"

definition GetFullImeInfo ::
  "'d bundle_mgr \<Rightarrow> cjson \<Rightarrow> (ime_identification \<Rightarrow> bool) \<Rightarrow> 'd \<Rightarrow> int \<Rightarrow> string \<Rightarrow> int \<times> cached_ime_info" where
  "GetFullImeInfo B cj isType w userId bundleName = (case QueryImeExtInfos B w userId of
     None \<Rightarrow> (ERROR_PACKAGE_MANAGER, new_cached_info (bm_indeterminate B))
   | Some es \<Rightarrow> if es = [] then (ERROR_PACKAGE_MANAGER, new_cached_info (bm_indeterminate B))
       else GetFullImeInfo_exts B cj isType w userId (filter (\<lambda>e. xt_bundleName e = bundleName) es) False)"

text \<open>The extensions by package, in the order of the packages' names; an extension joins those of its package.\<close>

fun strings_le :: "string \<Rightarrow> string \<Rightarrow> bool" where
  "strings_le [] ys \<longleftrightarrow> True"
| "strings_le (x # xs) [] \<longleftrightarrow> False"
| "strings_le (x # xs) (y # ys) \<longleftrightarrow> (of_char x :: nat) < of_char y \<or> x = y \<and> strings_le xs ys"

definition group_exts :: "ext_info list \<Rightarrow> ext_info list list" where
  "group_exts es = map (\<lambda>b. filter (\<lambda>e. xt_bundleName e = b) es)
     (fold (\<lambda>b bs. filter (\<lambda>x. strings_le x b) bs @ [b] @ filter (\<lambda>x. \<not> strings_le x b) bs)
        (remdups (map xt_bundleName es)) [])"

fun full_each ::
  "'d bundle_mgr \<Rightarrow> cjson \<Rightarrow> (ime_identification \<Rightarrow> bool) \<Rightarrow> 'd \<Rightarrow> int \<Rightarrow> bool \<Rightarrow> ext_info list list \<Rightarrow> cached_ime_info list
     \<Rightarrow> int \<times> cached_ime_info list" where
  "full_each B cj isType w userId needBrief [] infos = (NO_ERROR, infos)"
| "full_each B cj isType w userId needBrief (es # ess) infos =
     (case GetFullImeInfo_exts B cj isType w userId es needBrief of (r, i) \<Rightarrow>
        if r \<noteq> NO_ERROR then (r, infos) else full_each B cj isType w userId needBrief ess (infos @ [i]))"

definition QueryFullImeInfo_user ::
  "'d bundle_mgr \<Rightarrow> cjson \<Rightarrow> (ime_identification \<Rightarrow> bool) \<Rightarrow> 'd \<Rightarrow> int \<Rightarrow> bool \<Rightarrow> int \<times> cached_ime_info list" where
  "QueryFullImeInfo_user B cj isType w userId needBrief = (case QueryImeExtInfos B w userId of
     None \<Rightarrow> (ERROR_PACKAGE_MANAGER, [])
   | Some es \<Rightarrow> if es = [] then (ERROR_PACKAGE_MANAGER, [])
       else full_each B cj isType w userId needBrief (group_exts es) [])"

definition QueryFullImeInfo ::
  "'d bundle_mgr \<Rightarrow> cjson \<Rightarrow> (ime_identification \<Rightarrow> bool) \<Rightarrow> 'd \<Rightarrow> int \<times> (int \<times> cached_ime_info list) list" where
  "QueryFullImeInfo B cj isType w =
     (let us = bm_activeUsers B w;
          all = [(u, snd (QueryFullImeInfo_user B cj isType w u False)).
                  u \<leftarrow> us, fst (QueryFullImeInfo_user B cj isType w u False) = NO_ERROR]
      in if us = [] then (ERROR_OS_ACCOUNT, []) else if all = [] then (ERROR_PACKAGE_MANAGER, []) else (NO_ERROR, all))"

text \<open>The queries that \<^emph>\<open>Full_Ime_Info\<close> takes as its parameter.\<close>

definition inquirer_of :: "'d bundle_mgr \<Rightarrow> cjson \<Rightarrow> (ime_identification \<Rightarrow> bool) \<Rightarrow> 'd inquirer" where
  "inquirer_of B cj isType = \<lparr>iq_queryAll = QueryFullImeInfo B cj isType,
     iq_queryUser = (\<lambda>w u. QueryFullImeInfo_user B cj isType w u False),
     iq_get = (\<lambda>w u b. case GetFullImeInfo B cj isType w u b of (r, i) \<Rightarrow> if r = NO_ERROR then Some i else None)\<rparr>"

text \<open>
  \<open>InputTypeManager::IsInputType\<close> as it is asked by the queries: the configuration of the input types is read
  first if it has not been.
\<close>

definition load_types :: "input_type_cfg \<Rightarrow> ('d, 'x, ime_identification \<Rightarrow> bool) inq_op" where
  "load_types cfg = do {
     m \<leftarrow> gets nq_itm;
     modify (\<lambda>s. s\<lparr>nq_itm := snd (cfg_ready cfg m)\<rparr>);
     ret (\<lambda>ime. fst (IsInputType cfg ime m)) }"

definition the_inquirer :: "('d, 'y) inq_env_scheme \<Rightarrow> ('d, 'x, 'd inquirer) inq_op" where
  "the_inquirer V = do { isType \<leftarrow> load_types (nv_types V); ret (inquirer_of (nv_bundles V) (nv_cj V) isType) }"

section \<open>Queries\<close>

definition gets_world :: "('d \<Rightarrow> 'a) \<Rightarrow> ('d, 'x, 'a) inq_op" where
  "gets_world f = gets (\<lambda>s. f (sd_world s))"

record ime_info = cached_ime_info +
  in_subProp :: sub_property_rec
  in_isSpecificSubName :: bool

definition make_ime_info :: "u32 \<Rightarrow> ime_property \<Rightarrow> bool \<Rightarrow> sub_property_rec list \<Rightarrow> sub_property_rec \<Rightarrow> bool \<Rightarrow> ime_info" where
  "make_ime_info v p isNewIme subs sub specific = cached_ime_info.extend
     ((new_cached_info v)\<lparr>fi_prop := (if isNewIme then p else p\<lparr>pr_id := sp_id sub\<rparr>), fu_isNewIme := isNewIme, fu_subProps := subs\<rparr>)
     \<lparr>in_subProp = sub, in_isSpecificSubName = specific\<rparr>"

definition GetImeInfoFromCache :: "('d, 'y) inq_env_scheme \<Rightarrow> int \<Rightarrow> string \<Rightarrow> string \<Rightarrow> ('d, 'x, ime_info option) inq_op" where
  "GetImeInfoFromCache V userId bundleName subName = do {
     c \<leftarrow> Get_info (nv_settings V) userId bundleName;
     ret (case c of None \<Rightarrow> None
       | Some i \<Rightarrow> (case (if subName = '''' \<and> fu_subProps i \<noteq> [] then Some (hd (fu_subProps i))
                         else List.find (\<lambda>p. sp_id p = subName) (fu_subProps i)) of
           None \<Rightarrow> None
         | Some sub \<Rightarrow> Some (make_ime_info (bm_indeterminate (nv_bundles V)) (fi_prop i) (fu_isNewIme i) (fu_subProps i) sub
             (subName \<noteq> '''')))) }"

definition GetImeInfoFromBundleMgr :: "('d, 'y) inq_env_scheme \<Rightarrow> int \<Rightarrow> string \<Rightarrow> string \<Rightarrow> ('d, 'x, ime_info option) inq_op" where
  "GetImeInfoFromBundleMgr V userId bundleName subName = do {
     (r, es) \<leftarrow> gets_world (\<lambda>w. GetExtInfosByBundleName (nv_bundles V) w userId bundleName);
     if r \<noteq> NO_ERROR \<or> es = [] then ret None
     else do {
       isType \<leftarrow> load_types (nv_types V);
       (r, subs) \<leftarrow> gets_world (\<lambda>w. list_subtypes (nv_bundles V) (nv_cj V) isType w userId es);
       ret (if r \<noteq> NO_ERROR \<or> subs = [] then None
         else case (if subName = '''' then Some (hd subs) else List.find (\<lambda>p. sp_id p = subName) subs) of
             None \<Rightarrow> None
           | Some sub \<Rightarrow> Some (make_ime_info (bm_indeterminate (nv_bundles V))
               \<lparr>pr_name = xt_bundleName (hd es), pr_id = xt_name (hd es), pr_status = DISABLED\<rparr>
               (IsNewExtInfos es) subs sub (subName \<noteq> ''''))) } }"

definition GetImeInfo :: "('d, 'y) inq_env_scheme \<Rightarrow> int \<Rightarrow> string \<Rightarrow> string \<Rightarrow> ('d, 'x, ime_info option) inq_op" where
  "GetImeInfo V userId bundleName subName = do {
     info \<leftarrow> GetImeInfoFromCache V userId bundleName subName;
     if info = None then GetImeInfoFromBundleMgr V userId bundleName subName else ret info }"

definition ListInputMethod_props :: "('d, 'y) inq_env_scheme \<Rightarrow> int \<Rightarrow> ('d, 'x, int \<times> ime_property list) inq_op" where
  "ListInputMethod_props V userId = do {
     (r, props) \<leftarrow> Get_props (nv_settings V) userId False;
     if props \<noteq> [] then ret (r, props)
     else do {
       es \<leftarrow> gets_world (\<lambda>w. QueryImeExtInfos (nv_bundles V) w userId);
       (case es of None \<Rightarrow> ret (ERROR_BAD_PARAMETERS, [])
        | Some es \<Rightarrow> do {
            let props = fold (\<lambda>e ps. if xt_bundleName e \<in> pr_name ` set ps \<or> IsSystemSpecialIme e then ps
                  else ps @ [\<lparr>pr_name = xt_bundleName e, pr_id = xt_name e, pr_status = DISABLED\<rparr>]) es [];
            (r, props) \<leftarrow> GetEnabledStates (nv_settings V) userId props;
            ret (if r \<noteq> NO_ERROR then ERROR_ENABLE_IME else NO_ERROR, props) }) } }"

definition ListAllInputMethod :: "('d, 'y) inq_env_scheme \<Rightarrow> int \<Rightarrow> ('d, 'x, int \<times> ime_property list) inq_op" where
  "ListAllInputMethod V userId = do {
     (r, props) \<leftarrow> ListInputMethod_props V userId;
     ret (if r = ERROR_ENABLE_IME then NO_ERROR else r, props) }"

definition list_by_status :: "(enabled_status \<Rightarrow> bool) \<Rightarrow> ('d, 'y) inq_env_scheme \<Rightarrow> int \<Rightarrow> ('d, 'x, int \<times> ime_property list) inq_op" where
  "list_by_status keep V userId = do {
     (r, props) \<leftarrow> ListInputMethod_props V userId;
     ret (if r \<noteq> NO_ERROR then (r, props) else (NO_ERROR, filter (\<lambda>p. keep (pr_status p)) props)) }"

definition ListEnabledInputMethod :: "('d, 'y) inq_env_scheme \<Rightarrow> int \<Rightarrow> ('d, 'x, int \<times> ime_property list) inq_op" where
  "ListEnabledInputMethod V userId = list_by_status (\<lambda>st. st \<noteq> DISABLED) V userId"

definition ListDisabledInputMethod :: "('d, 'y) inq_env_scheme \<Rightarrow> int \<Rightarrow> ('d, 'x, int \<times> ime_property list) inq_op" where
  "ListDisabledInputMethod V userId = list_by_status (\<lambda>st. st = DISABLED) V userId"

text \<open>\<open>InputMethodStatus\<close>: a value of the enumeration or another number.\<close>

datatype input_method_status = DISABLE | ENABLE | ALL_IMES | STATUS_VALUE u32

definition ListInputMethod :: "('d, 'y) inq_env_scheme \<Rightarrow> int \<Rightarrow> input_method_status \<Rightarrow> ('d, 'x, int \<times> ime_property list) inq_op" where
  "ListInputMethod V userId status = (case status of
     ALL_IMES \<Rightarrow> ListAllInputMethod V userId
   | ENABLE \<Rightarrow> ListEnabledInputMethod V userId
   | DISABLE \<Rightarrow> ListDisabledInputMethod V userId
   | STATUS_VALUE _ \<Rightarrow> ret (ERROR_BAD_PARAMETERS, []))"

definition ListInputMethodSubtype :: "('d, 'y) inq_env_scheme \<Rightarrow> int \<Rightarrow> string \<Rightarrow> ('d, 'x, int \<times> sub_property_rec list) inq_op" where
  "ListInputMethodSubtype V userId bundleName = do {
     c \<leftarrow> Get_info (nv_settings V) userId bundleName;
     (case c of Some i \<Rightarrow> ret (NO_ERROR, fu_subProps i)
      | None \<Rightarrow> do {
          (r, es) \<leftarrow> gets_world (\<lambda>w. GetExtInfosByBundleName (nv_bundles V) w userId bundleName);
          if r \<noteq> NO_ERROR then ret (r, [])
          else do {
            isType \<leftarrow> load_types (nv_types V);
            gets_world (\<lambda>w. list_subtypes (nv_bundles V) (nv_cj V) isType w userId es) } }) }"

definition ListCurrentInputMethodSubtype :: "('d, 'y) inq_env_scheme \<Rightarrow> int \<Rightarrow> ('d, 'x, int \<times> sub_property_rec list) inq_op" where
  "ListCurrentInputMethodSubtype V userId = do {
     cur \<leftarrow> GetCurrentImeCfg (nv_settings V) userId;
     ListInputMethodSubtype V userId (nc_bundleName cur) }"

definition GetImeProperty :: "('d, 'y) inq_env_scheme \<Rightarrow> int \<Rightarrow> string \<Rightarrow> string \<Rightarrow> ('d, 'x, ime_property option) inq_op" where
  "GetImeProperty V userId bundleName extName = do {
     (r, es) \<leftarrow> gets_world (\<lambda>w. GetExtInfosByBundleName (nv_bundles V) w userId bundleName);
     if r \<noteq> NO_ERROR \<or> es = [] then ret None
     else do {
       let n = xt_bundleName (hd es);
       (_, st) \<leftarrow> GetEnabledState (nv_settings V) userId n DISABLED;
       ret (Some \<lparr>pr_name = n, pr_id = (if extName = '''' then xt_name (hd es) else extName), pr_status = st\<rparr>) } }"

definition GetCurrentInputMethod :: "('d, 'y) inq_env_scheme \<Rightarrow> int \<Rightarrow> ('d, 'x, ime_property option) inq_op" where
  "GetCurrentInputMethod V userId = do {
     cur \<leftarrow> GetCurrentImeCfgWithCorrect (nv_settings V) userId;
     (case cur of None \<Rightarrow> ret None
      | Some cur \<Rightarrow> do {
          c \<leftarrow> Get_info (nv_settings V) userId (nc_bundleName cur);
          (case c of Some i \<Rightarrow> ret (Some ((fi_prop i)\<lparr>pr_id := nc_extName cur\<rparr>))
           | None \<Rightarrow> GetImeProperty V userId (nc_bundleName cur) (nc_extName cur)) }) }"

definition GetCurrentSubtype :: "('d, 'y) inq_env_scheme \<Rightarrow> int \<Rightarrow> ('d, 'x, sub_property_rec option) inq_op" where
  "GetCurrentSubtype V userId = do {
     cur \<leftarrow> GetCurrentImeCfgWithCorrect (nv_settings V) userId;
     (case cur of None \<Rightarrow> ret None
      | Some cur \<Rightarrow> do {
          c \<leftarrow> Get_info (nv_settings V) userId (nc_bundleName cur);
          let subs = (case c of None \<Rightarrow> [] | Some i \<Rightarrow> fu_subProps i);
          if subs \<noteq> [] then ret (Some (case List.find (\<lambda>p. sp_id p = nc_subName cur) subs of None \<Rightarrow> hd subs | Some p \<Rightarrow> p))
          else do {
            (r, es) \<leftarrow> gets_world (\<lambda>w. GetExtInfosByBundleName (nv_bundles V) w userId (nc_bundleName cur));
            if r \<noteq> NO_ERROR then ret None
            else do {
              (r, p) \<leftarrow> gets_world (\<lambda>w.
                if IsNewExtInfos es then GetSubProperty_new (nv_bundles V) (nv_cj V) w userId (nc_subName cur) (hd es)
                else GetSubProperty_old (nv_bundles V) w userId (nc_subName cur) es);
              ret (if r \<noteq> NO_ERROR then None else Some p) } } }) }"

definition IsImeInstalled :: "'d bundle_mgr \<Rightarrow> int \<Rightarrow> string \<Rightarrow> string \<Rightarrow> ('d, 'x) inq_state_scheme \<Rightarrow> bool" where
  "IsImeInstalled B userId bundleName extName s \<longleftrightarrow> Has userId bundleName s \<or>
     List.find (\<lambda>e. xt_bundleName e = bundleName \<and> extName = xt_name e)
       (snd (GetExtInfosByBundleName B (sd_world s) userId bundleName)) \<noteq> None"

definition GetImeToStart :: "('d, 'y) inq_env_scheme \<Rightarrow> int \<Rightarrow> ('d, 'x, ime_native_cfg) inq_op" where
  "GetImeToStart V userId = do {
     cur \<leftarrow> GetCurrentImeCfg (nv_settings V) userId;
     installed \<leftarrow> gets (IsImeInstalled (nv_bundles V) userId (nc_bundleName cur) (nc_extName cur));
     if nc_imeId cur = '''' \<or> \<not> installed
     then do {
       let newIme = (GetDefaultIme (nv_settings V))\<lparr>nc_subName := ''''\<rparr>;
       SetCurrentIme (nv_settings V) userId (nc_imeId newIme) '''' False;
       ret newIme }
     else ret cur }"

text \<open>\<open>GetInputMethodConfig\<close>: the package, the module and the ability; nothing is stored if none is configured.\<close>

definition after_char :: "char \<Rightarrow> string \<Rightarrow> string" where
  "after_char c s = drop (length (before_char c s) + 1) s"

definition GetInputMethodConfig :: "('d, 'y) inq_env_scheme \<Rightarrow> (string \<times> string \<times> string) option" where
  "GetInputMethodConfig V = (let cfg = nv_configAbility V in
     if cfg = '''' then None
     else let rest = after_char (CHR ''/'') cfg in
       Some (before_char (CHR ''/'') cfg,
         if CHR ''/'' \<in> set rest then (before_char (CHR ''/'') rest, after_char (CHR ''/'') rest) else ('''', rest)))"

definition GetDefaultInputMethod :: "('d, 'y) inq_env_scheme \<Rightarrow> int \<Rightarrow> ime_property \<Rightarrow> bool \<Rightarrow> ('d, 'x, int \<times> ime_property option) inq_op" where
  "GetDefaultInputMethod V userId prp isBrief = (case GetDefaultImeCfgProp (nv_settings V) of
     None \<Rightarrow> ret (ERROR_NULL_POINTER, Some prp)
   | Some dflt \<Rightarrow> do {
       c \<leftarrow> Get_info (nv_settings V) userId (pr_name dflt);
       (case c of Some i \<Rightarrow> ret (NO_ERROR, Some ((fi_prop i)\<lparr>pr_id := pr_id dflt\<rparr>))
        | None \<Rightarrow>
          if isBrief then ret (NO_ERROR, Some (prp\<lparr>pr_name := pr_name dflt, pr_id := pr_id dflt\<rparr>))
          else do {
            p \<leftarrow> GetImeProperty V userId (pr_name dflt) (pr_id dflt);
            ret (if p = None then ERROR_NULL_POINTER else NO_ERROR, p) }) })"

definition GetDefaultImeInfo :: "('d, 'y) inq_env_scheme \<Rightarrow> int \<Rightarrow> ('d, 'x, ime_info option) inq_op" where
  "GetDefaultImeInfo V userId = (case GetDefaultImeCfgProp (nv_settings V) of
     None \<Rightarrow> ret None
   | Some dflt \<Rightarrow> do {
       info \<leftarrow> GetImeInfo V userId (pr_name dflt) '''';
       ret (map_option (\<lambda>i. if fu_isNewIme i then i
         else i\<lparr>fi_prop := (fi_prop i)\<lparr>pr_id := pr_id dflt\<rparr>,
                in_subProp := (case List.find (\<lambda>p. sp_id p = pr_id dflt) (fu_subProps i) of None \<Rightarrow> in_subProp i | Some p \<Rightarrow> p)\<rparr>) info) })"

text \<open>
  \<open>GetSwitchInfoBySwitchCount\<close>: the input method that is \<open>cacheCount\<close> places after the user's in the list of
  the enabled ones. The name stays empty when that is the same one. The sum is one of 32-bit words.
\<close>

definition next_index :: "u32 \<Rightarrow> nat \<Rightarrow> nat \<Rightarrow> nat" where
  "next_index cacheCount currentIndex n = unat (cacheCount + of_nat currentIndex) mod n"

definition GetSwitchInfoBySwitchCount :: "('d, 'y) inq_env_scheme \<Rightarrow> int \<Rightarrow> u32 \<Rightarrow> ('d, 'x, int \<times> string) inq_op" where
  "GetSwitchInfoBySwitchCount V userId cacheCount = do {
     (r, props) \<leftarrow> ListEnabledInputMethod V userId;
     if r \<noteq> NO_ERROR then ret (r, '''')
     else do {
       cur \<leftarrow> GetUserCfgIme (nv_settings V) userId;
       (case position (\<lambda>p. pr_name p = nc_bundleName cur) props of
          None \<Rightarrow> do {
            info \<leftarrow> GetDefaultImeInfo V userId;
            ret (case info of None \<Rightarrow> (ERROR_PACKAGE_MANAGER, '''') | Some i \<Rightarrow> (NO_ERROR, bundle_of i)) }
        | Some currentIndex \<Rightarrow> do {
            let nextIndex = next_index cacheCount currentIndex (length props);
            ret (NO_ERROR, if nextIndex = currentIndex then '''' else pr_name (props ! nextIndex)) }) } }"

definition IsSysIme :: "'d settings_env \<Rightarrow> string \<Rightarrow> bool" where
  "IsSysIme E bundleName \<longleftrightarrow> bundleName \<noteq> '''' \<and> bundleName = nc_bundleName (GetDefaultIme E)"

definition IsRestrictedDefaultImeByDisplay :: "window_manager \<Rightarrow> ('d, 'y) inq_env_scheme \<Rightarrow> u64 \<Rightarrow> bool" where
  "IsRestrictedDefaultImeByDisplay W V displayId \<longleftrightarrow> GetDisplayName W displayId \<in> set (nv_imeScreens V)"

definition IsCapacitySupport :: "('d, 'y) inq_env_scheme \<Rightarrow> string \<Rightarrow> bool" where
  "IsCapacitySupport V capacityName \<longleftrightarrow> capacityName \<in> set (nv_capacities V)"

definition GetSystemPanelAppIdentifier :: "('d, 'y) inq_env_scheme \<Rightarrow> string" where
  "GetSystemPanelAppIdentifier V = nv_panelAppIdentifier V"

definition GetImeAppId :: "('d, 'y) inq_env_scheme \<Rightarrow> int \<Rightarrow> string \<Rightarrow> ('d, 'x, string option) inq_op" where
  "GetImeAppId V userId bundleName = do {
     c \<leftarrow> Get_info (nv_settings V) userId bundleName;
     (case c of
        Some i \<Rightarrow> if fu_appId i \<noteq> '''' then ret (Some (fu_appId i)) else
          gets_world (\<lambda>w. case GetBundleInfoByBundleName (nv_bundles V) w userId bundleName of None \<Rightarrow> None
            | Some b \<Rightarrow> if bn_appIdentifier b = '''' then None else Some (bn_appIdentifier b))
      | None \<Rightarrow> gets_world (\<lambda>w. case GetBundleInfoByBundleName (nv_bundles V) w userId bundleName of None \<Rightarrow> None
            | Some b \<Rightarrow> if bn_appIdentifier b = '''' then None else Some (bn_appIdentifier b))) }"

definition GetImeVersionCode :: "('d, 'y) inq_env_scheme \<Rightarrow> int \<Rightarrow> string \<Rightarrow> ('d, 'x, u32 option) inq_op" where
  "GetImeVersionCode V userId bundleName = do {
     c \<leftarrow> Get_info (nv_settings V) userId bundleName;
     (case c of Some i \<Rightarrow> ret (Some (fu_versionCode i))
      | None \<Rightarrow> gets_world (\<lambda>w. map_option bn_versionCode (GetBundleInfoByBundleName (nv_bundles V) w userId bundleName))) }"

definition GetImeVersionName :: "('d, 'y) inq_env_scheme \<Rightarrow> int \<Rightarrow> string \<Rightarrow> ('d, 'x, string) inq_op" where
  "GetImeVersionName V userId bundleName = do {
     c \<leftarrow> Get_info (nv_settings V) userId bundleName;
     (case c of Some i \<Rightarrow> ret (fu_versionName i)
      | None \<Rightarrow> gets_world (\<lambda>w. case GetBundleInfoByBundleName (nv_bundles V) w userId bundleName of None \<Rightarrow> ''''
          | Some b \<Rightarrow> bn_versionName b)) }"

section \<open>Lemmas\<close>

text \<open>As long as the sum does not overflow, the index is that of \<open>cacheCount\<close> single steps to the right.\<close>

lemma next_index_no_overflow:
  assumes "unat c + i < 2 ^ 32"
  shows "next_index c i n = (unat c + i) mod n"
  using assms by (simp add: next_index_def unat_word_ariths unat_of_nat take_bit_eq_mod)

definition step_index :: "nat \<Rightarrow> nat \<Rightarrow> nat" where
  "step_index n i = Suc i mod n"

lemma step_index_pow: "(step_index n ^^ k) i = (if k = 0 then i else (k + i) mod n)"
  by (induction k) (auto simp: step_index_def mod_Suc_eq)

lemma next_index_steps:
  assumes "unat c + i < 2 ^ 32" "i < n"
  shows "next_index c i n = (step_index n ^^ unat c) i"
  using assms next_index_no_overflow [OF assms(1), of n] by (auto simp: step_index_pow)

lemma position_first: "position P xs = Some i \<Longrightarrow> i < length xs \<and> P (xs ! i) \<and> (\<forall>j < i. \<not> P (xs ! j))"
proof (induction xs arbitrary: i)
  case (Cons x xs)
  then show ?case by (cases "P x") (auto simp: nth_Cons split: nat.split option.splits)
qed simp

end
