(* ===== verification/Identity_Checker.thy ===== *)
theory Identity_Checker
  imports Window_Adapter
begin

text \<open>
  \<open>services/identity_checker\<close>: who the caller of a request is, and whether its window has the focus. The
  window manager is that of \<^emph>\<open>Window_Adapter\<close>; access tokens, the ability manager and the queries of the
  \<open>ImeInfoInquirer\<close> on processes are the record \<^emph>\<open>caller_facts\<close>, what these answer at one moment.
\<close>

datatype token_type = TOKEN_HAP | TOKEN_NATIVE | TOKEN_SHELL | TOKEN_OTHER

text \<open>
  \<open>cf_sessionInfo\<close> is \<open>GetUIExtensionSessionInfo\<close>: the code and the host window it leaves in the output
  parameter; \<open>cf_extensionFocused\<close> is \<open>CheckUIExtensionIsFocused\<close> for a display or for the default one, the
  code and the output parameter.
\<close>

record caller_facts =
  cf_verify :: "u32 \<Rightarrow> string \<Rightarrow> bool"
  cf_tokenType :: "u32 \<Rightarrow> token_type"
  cf_processName :: "u32 \<Rightarrow> string"
  cf_hapBundle :: "u32 \<Rightarrow> string option"
  cf_systemApp :: "u64 \<Rightarrow> bool"
  cf_abilityManager :: bool
  cf_sessionInfo :: "robj \<Rightarrow> int \<times> u32"
  cf_extensionFocused :: "u32 \<Rightarrow> u64 option \<Rightarrow> int \<times> bool"
  cf_inputMethodExtension :: "pid_t \<Rightarrow> bool"
  cf_uiExtension :: "pid_t \<Rightarrow> bool"
  cf_proxyIme :: "pid_t \<Rightarrow> bool"
  cf_specialSa :: "pid_t \<Rightarrow> bool"
  cf_superFold :: bool

text \<open>The member initialisers of \<open>FocusedInfo\<close>.\<close>

definition default_focused_info :: focused_info where
  "default_focused_info = \<lparr>fi_windowId = INVALID_WINDOW_ID, fi_displayId = DEFAULT_DISPLAY_ID,
     fi_displayGroupId = DEFAULT_DISPLAY_GROUP_ID, fi_keyboardWindowId = INVALID_WINDOW_ID,
     fi_keyboardDisplayId = DEFAULT_DISPLAY_ID, fi_keyboardDisplayGroupId = DEFAULT_DISPLAY_GROUP_ID,
     fi_uiExtensionHostPid = INVALID_PID\<rparr>"

abbreviation not_focused :: "bool \<times> focused_info" where
  "not_focused \<equiv> (False, default_focused_info)"

section \<open>Tokens\<close>

definition IsSystemApp :: "caller_facts \<Rightarrow> u64 \<Rightarrow> bool" where
  "IsSystemApp F fullTokenId = cf_systemApp F fullTokenId"

definition HasPermission :: "caller_facts \<Rightarrow> u32 \<Rightarrow> string \<Rightarrow> bool" where
  "HasPermission F tokenId permission = cf_verify F tokenId permission"

definition GetBundleNameByToken :: "caller_facts \<Rightarrow> u32 \<Rightarrow> string" where
  "GetBundleNameByToken F tokenId =
     (if cf_tokenType F tokenId \<noteq> TOKEN_HAP then ''''
      else case cf_hapBundle F tokenId of None \<Rightarrow> '''' | Some b \<Rightarrow> b)"

definition IsBundleNameValid :: "caller_facts \<Rightarrow> u32 \<Rightarrow> string \<Rightarrow> bool" where
  "IsBundleNameValid F tokenId validBundleName =
     (let b = GetBundleNameByToken F tokenId in b \<noteq> '''' \<and> b = validBundleName)"

definition IsNativeSa :: "caller_facts \<Rightarrow> u32 \<Rightarrow> bool" where
  "IsNativeSa F tokenId \<longleftrightarrow> cf_tokenType F tokenId = TOKEN_NATIVE"

definition IsFormShell :: "caller_facts \<Rightarrow> u32 \<Rightarrow> bool" where
  "IsFormShell F tokenId \<longleftrightarrow> cf_tokenType F tokenId = TOKEN_SHELL"

definition IsBrokerInner :: "caller_facts \<Rightarrow> u32 \<Rightarrow> bool" where
  "IsBrokerInner F tokenId \<longleftrightarrow> IsNativeSa F tokenId \<and> cf_processName F tokenId = ''broker''"

definition IsBroker :: "caller_facts \<Rightarrow> u32 \<Rightarrow> bool" where
  "IsBroker F tokenId = IsBrokerInner F tokenId"

definition IsValidVirtualIme :: "caller_facts \<Rightarrow> pid_t \<Rightarrow> bool" where
  "IsValidVirtualIme F callingUid = cf_proxyIme F callingUid"

definition IsSpecialSaUid :: "caller_facts \<Rightarrow> pid_t \<Rightarrow> bool" where
  "IsSpecialSaUid F callingUid = cf_specialSa F callingUid"

definition IsUIExtension :: "caller_facts \<Rightarrow> pid_t \<Rightarrow> bool" where
  "IsUIExtension F pid = cf_uiExtension F pid"

section \<open>Focus\<close>

definition GenerateFocusCheckRet :: "window_manager \<Rightarrow> focus_change_info \<Rightarrow> focus_change_info list \<Rightarrow> bool \<times> focused_info" where
  "GenerateFocusCheckRet W f infos =
     (let i = default_focused_info\<lparr>fi_displayId := fc_realDisplayId f, fi_windowId := word_of_int (fc_windowId f),
              fi_displayGroupId := fc_displayGroupId f, fi_keyboardDisplayId := fc_realDisplayId f,
              fi_keyboardWindowId := word_of_int (fc_windowId f), fi_keyboardDisplayGroupId := fc_displayGroupId f\<rparr>;
          (restricted, bundleName) = GetRestrictedMainDisplayInfo W (fc_realDisplayId f)
      in if \<not> restricted then (True, i)
         else case List.find (\<lambda>g. fc_realDisplayId g = DEFAULT_DISPLAY_ID \<and> fc_displayGroupId g = DEFAULT_DISPLAY_GROUP_ID) infos of
             None \<Rightarrow> not_focused
           | Some g \<Rightarrow> (True, i\<lparr>fi_keyboardDisplayId := DEFAULT_DISPLAY_ID,
               fi_keyboardDisplayGroupId := DEFAULT_DISPLAY_GROUP_ID, fi_keyboardWindowId := word_of_int (fc_windowId g)\<rparr>))"

text \<open>On a super-foldable device the main display is replaced by the display of the window.\<close>

definition super_fold_display :: "window_manager \<Rightarrow> caller_facts \<Rightarrow> int \<Rightarrow> bool \<times> focused_info \<Rightarrow> bool \<times> focused_info" where
  "super_fold_display W F userId res = (case res of (b, i) \<Rightarrow>
     if fi_displayId i = 0 \<and> cf_superFold F
     then let d = GetDisplayIdByWindowId W (sint (fi_windowId i)) userId in
       (b, i\<lparr>fi_displayId := d, fi_keyboardDisplayId := d\<rparr>)
     else (b, i))"

definition IsFocusedUIAbility_pid :: "window_manager \<Rightarrow> pid_t \<Rightarrow> focus_change_info list \<Rightarrow> bool \<times> focused_info" where
  "IsFocusedUIAbility_pid W callingPid infos = (case List.find (\<lambda>f. fc_pid f = callingPid) infos of
     None \<Rightarrow> not_focused | Some f \<Rightarrow> GenerateFocusCheckRet W f infos)"

definition IsFocusedUIAbility_display ::
  "window_manager \<Rightarrow> caller_facts \<Rightarrow> pid_t \<Rightarrow> u64 \<Rightarrow> focus_change_info list \<Rightarrow> int \<Rightarrow> (bool \<times> focused_info) wad" where
  "IsFocusedUIAbility_display W F callingPid displayId infos userId = do {
     (r, g) \<leftarrow> GetDisplayGroupIdWithRetry W displayId userId DEFAULT_DISPLAY_GROUP_ID;
     ret (if r \<noteq> NO_ERROR then not_focused
       else case List.find (\<lambda>f. fc_pid f = callingPid \<and> fc_displayGroupId f = g) infos of
           None \<Rightarrow> not_focused
         | Some f \<Rightarrow> super_fold_display W F userId (GenerateFocusCheckRet W f infos)) }"

definition IsFocusedUIAbility ::
  "window_manager \<Rightarrow> caller_facts \<Rightarrow> pid_t \<Rightarrow> u32 \<Rightarrow> focus_change_info list \<Rightarrow> int \<Rightarrow> (bool \<times> focused_info) wad" where
  "IsFocusedUIAbility W F callingPid windowId infos userId =
     (if windowId = INVALID_WINDOW_ID then ret (IsFocusedUIAbility_pid W callingPid infos)
      else do {
        res \<leftarrow> IsFocusedUIAbility_display W F callingPid (GetDisplayIdByWindowId W (sint windowId) userId) infos userId;
        ret (if fst res then res else IsFocusedUIAbility_pid W callingPid infos) })"

definition GetUIExtensionWindowId :: "caller_facts \<Rightarrow> robj option \<Rightarrow> u32" where
  "GetUIExtensionWindowId F abilityToken = (case abilityToken of
     None \<Rightarrow> INVALID_WINDOW_ID
   | Some t \<Rightarrow> (case cf_sessionInfo F t of (r, w) \<Rightarrow> if r \<noteq> NO_ERROR then INVALID_WINDOW_ID else w))"

definition IsFocusedUIExtension_window ::
  "window_manager \<Rightarrow> caller_facts \<Rightarrow> u32 \<Rightarrow> u64 \<Rightarrow> focus_change_info list \<Rightarrow> int \<Rightarrow> (bool \<times> focused_info) wad" where
  "IsFocusedUIExtension_window W F windowId displayId infos userId = do {
     (r, g) \<leftarrow> GetDisplayGroupIdWithRetry W displayId userId DEFAULT_DISPLAY_GROUP_ID;
     ret (if r \<noteq> NO_ERROR then not_focused
       else case List.find (\<lambda>f. fc_displayGroupId f = g \<and> windowId = word_of_int (fc_windowId f)) infos of
           None \<Rightarrow> not_focused
         | Some f \<Rightarrow> (case super_fold_display W F userId (GenerateFocusCheckRet W f infos) of
             (b, i) \<Rightarrow> (b, i\<lparr>fi_uiExtensionHostPid := fc_pid f\<rparr>))) }"

definition IsFocusedUIExtension_display ::
  "window_manager \<Rightarrow> caller_facts \<Rightarrow> u64 \<Rightarrow> u32 \<Rightarrow> focus_change_info list \<Rightarrow> int \<Rightarrow> (bool \<times> focused_info) wad" where
  "IsFocusedUIExtension_display W F displayId callingTokenId infos userId =
     (if \<not> cf_abilityManager F then ret not_focused
      else case cf_extensionFocused F callingTokenId (Some displayId) of (r, focused) \<Rightarrow>
        if r \<noteq> NO_ERROR \<or> \<not> focused then ret not_focused
        else do {
          (r, g) \<leftarrow> GetDisplayGroupIdWithRetry W displayId userId DEFAULT_DISPLAY_GROUP_ID;
          ret (if r \<noteq> NO_ERROR then not_focused
            else case List.find (\<lambda>f. fc_displayGroupId f = g) infos of
                None \<Rightarrow> not_focused
              | Some f \<Rightarrow> (case GenerateFocusCheckRet W f infos of (b, i) \<Rightarrow> (b, i\<lparr>fi_uiExtensionHostPid := fc_pid f\<rparr>))) })"

abbreviation MAX_FOCUS_UI_EXTENSION_CHECK_LOOP :: nat where "MAX_FOCUS_UI_EXTENSION_CHECK_LOOP \<equiv> 3"

text \<open>The loop over the first displays; its last result stays when none is focused.\<close>

fun check_displays ::
  "window_manager \<Rightarrow> caller_facts \<Rightarrow> u32 \<Rightarrow> focus_change_info list \<Rightarrow> int \<Rightarrow> focus_change_info list \<Rightarrow> bool \<times> focused_info
     \<Rightarrow> (bool \<times> focused_info) wad" where
  "check_displays W F token infos userId [] res = ret res"
| "check_displays W F token infos userId (f # fs) res = do {
     res \<leftarrow> IsFocusedUIExtension_display W F (fc_realDisplayId f) token infos userId;
     if fst res then ret res else check_displays W F token infos userId fs res }"

definition IsFocusedUIExtension ::
  "window_manager \<Rightarrow> caller_facts \<Rightarrow> u32 \<Rightarrow> robj option \<Rightarrow> focus_change_info list \<Rightarrow> int \<Rightarrow> (bool \<times> focused_info) wad" where
  "IsFocusedUIExtension W F callingTokenId abilityToken infos userId =
     (let w = GetUIExtensionWindowId F abilityToken; d = GetDisplayIdByWindowId W (sint w) userId in
      if w \<noteq> INVALID_WINDOW_ID \<and> d \<noteq> DEFAULT_DISPLAY_ID then IsFocusedUIExtension_window W F w d infos userId
      else check_displays W F callingTokenId infos userId (take MAX_FOCUS_UI_EXTENSION_CHECK_LOOP infos) not_focused)"

definition IsFocusedUIExtension_token :: "window_manager \<Rightarrow> caller_facts \<Rightarrow> u32 \<Rightarrow> int \<Rightarrow> bool wad" where
  "IsFocusedUIExtension_token W F callingTokenId userId = do {
     infos \<leftarrow> GetAllFocusWindowInfos W userId;
     res \<leftarrow> IsFocusedUIExtension W F callingTokenId None infos userId;
     ret (fst res) }"

text \<open>The overload without scene board.\<close>

definition IsFocusedUIExtension_noScb :: "window_manager \<Rightarrow> caller_facts \<Rightarrow> u32 \<Rightarrow> robj option \<Rightarrow> int \<Rightarrow> bool" where
  "IsFocusedUIExtension_noScb W F callingTokenId abilityToken userId =
     (let w = GetUIExtensionWindowId F abilityToken; d = GetDisplayIdByWindowId W (sint w) userId in
      if w \<noteq> INVALID_WINDOW_ID \<and> d \<noteq> DEFAULT_DISPLAY_ID then w = word_of_int (fc_windowId (GetFocusInfo W userId d))
      else cf_abilityManager F \<and> (case cf_extensionFocused F callingTokenId None of (r, b) \<Rightarrow> r = NO_ERROR \<and> b))"

text \<open>
  Without scene board. The display is passed to \<open>GetFocusInfo\<close> in the place of the user, so that the focus
  of the default display in the window manager of this \<open>user\<close> is asked for.
\<close>

definition IsFocusedScbNotEnable ::
  "window_manager \<Rightarrow> caller_facts \<Rightarrow> pid_t \<Rightarrow> u32 \<Rightarrow> u32 \<Rightarrow> robj option \<Rightarrow> int \<Rightarrow> bool \<times> focused_info" where
  "IsFocusedScbNotEnable W F callingPid callingTokenId windowId abilityToken userId =
     (let d = (if abilityToken \<noteq> None then GetDisplayIdByToken W abilityToken userId else GetDisplayIdByPid W callingPid userId);
          f = GetFocusInfo W (sint (ucast d :: u32)) DEFAULT_DISPLAY_ID;
          i = default_focused_info\<lparr>fi_windowId := windowId\<rparr>
      in if callingPid = fc_pid f then (True, i)
         else if cf_inputMethodExtension F callingPid then (False, i)
         else (IsFocusedUIExtension_noScb W F callingTokenId abilityToken userId, i))"

definition IsFocused ::
  "window_manager \<Rightarrow> caller_facts \<Rightarrow> pid_t \<Rightarrow> u32 \<Rightarrow> int \<Rightarrow> u32 \<Rightarrow> robj option \<Rightarrow> (bool \<times> focused_info) wad" where
  "IsFocused W F callingPid callingTokenId userId windowId abilityToken =
     (if \<not> wm_sceneBoard W then ret (IsFocusedScbNotEnable W F callingPid callingTokenId windowId abilityToken userId)
      else do {
        infos \<leftarrow> GetAllFocusWindowInfos W userId;
        res \<leftarrow> IsFocusedUIAbility W F callingPid windowId infos userId;
        if fst res \<or> cf_inputMethodExtension F callingPid then ret res
        else IsFocusedUIExtension W F callingTokenId abilityToken infos userId })"

definition CheckBroker :: "window_manager \<Rightarrow> caller_facts \<Rightarrow> u32 \<Rightarrow> int \<Rightarrow> bool \<times> focused_info" where
  "CheckBroker W F tokenId userId =
     (if \<not> IsBrokerInner F tokenId then not_focused
      else let f = GetFocusInfo W userId DEFAULT_DISPLAY_ID in GenerateFocusCheckRet W f [f])"

definition GetDisplayIdByPid_checker :: "window_manager \<Rightarrow> caller_facts \<Rightarrow> pid_t \<Rightarrow> int \<Rightarrow> robj option \<Rightarrow> u64" where
  "GetDisplayIdByPid_checker W F callingPid userId abilityToken = (case GetDisplayId W callingPid userId of (b, d) \<Rightarrow>
     (case abilityToken of None \<Rightarrow> d
      | Some t \<Rightarrow> if b then d else GetDisplayIdByWindowId W (sint (snd (cf_sessionInfo F t))) userId))"

end
