(* ===== verification/Ime_Event_Listeners.thy ===== *)
theory Ime_Event_Listeners
  imports Imf_Global
begin

unbundle bit_operations_syntax

text \<open>
  \<open>services/src/ime_event_listener_manager.cpp\<close>: the processes that listen to the events of the service, by
  user. A registration is kept per process; user 0 hears of the events of all users. A notice is the list of
  the calls it makes, a client with what it is told; their results are ignored by the code.
\<close>

abbreviation NO_EVENT_ON :: u32 where "NO_EVENT_ON \<equiv> 0"
abbreviation EVENT_IME_CHANGE_MASK :: u32 where "EVENT_IME_CHANGE_MASK \<equiv> 1"
abbreviation EVENT_IME_SHOW_MASK :: u32 where "EVENT_IME_SHOW_MASK \<equiv> 2"
abbreviation EVENT_IME_HIDE_MASK :: u32 where "EVENT_IME_HIDE_MASK \<equiv> 4"
abbreviation EVENT_INPUT_STATUS_CHANGED_MASK :: u32 where "EVENT_INPUT_STATUS_CHANGED_MASK \<equiv> 8"
abbreviation EVENT_SOFT_KEYBOARD_INFO_CHANGED_MASK :: u32 where "EVENT_SOFT_KEYBOARD_INFO_CHANGED_MASK \<equiv> 16"

definition IsImeShowOn :: "u32 \<Rightarrow> bool" where
  "IsImeShowOn eventFlag \<longleftrightarrow> eventFlag AND EVENT_IME_SHOW_MASK = EVENT_IME_SHOW_MASK"

definition IsImeChangeOn :: "u32 \<Rightarrow> bool" where
  "IsImeChangeOn eventFlag \<longleftrightarrow> eventFlag AND EVENT_IME_CHANGE_MASK = EVENT_IME_CHANGE_MASK"

definition IsImeHideOn :: "u32 \<Rightarrow> bool" where
  "IsImeHideOn eventFlag \<longleftrightarrow> eventFlag AND EVENT_IME_HIDE_MASK = EVENT_IME_HIDE_MASK"

definition IsSoftKeyboardInfoChangedOn :: "u32 \<Rightarrow> bool" where
  "IsSoftKeyboardInfoChangedOn eventFlag \<longleftrightarrow>
     eventFlag AND EVENT_SOFT_KEYBOARD_INFO_CHANGED_MASK = EVENT_SOFT_KEYBOARD_INFO_CHANGED_MASK"

definition IsInputStatusChangedOn :: "u32 \<Rightarrow> bool" where
  "IsInputStatusChangedOn eventFlag \<longleftrightarrow> eventFlag AND EVENT_INPUT_STATUS_CHANGED_MASK = EVENT_INPUT_STATUS_CHANGED_MASK"

section \<open>Registrations\<close>

record event_listener =
  el_eventFlag :: u32
  el_client :: "robj option"
  el_pid :: pid_t
  el_deathRecipient :: bool

type_synonym listeners = "(int \<times> event_listener list) list"

text \<open>
  \<open>AddDeathRecipient\<close>: \<open>alloc\<close> says whether the recipient could be allocated, \<open>add\<close> whether it could be added
  to the client's object (an object in the same process needs none). The caller ignores the code.
\<close>

definition AddDeathRecipient :: "bool \<Rightarrow> (robj \<Rightarrow> bool) \<Rightarrow> event_listener \<Rightarrow> int \<times> event_listener" where
  "AddDeathRecipient alloc add i = (case el_client i of
     None \<Rightarrow> (ERROR_CLIENT_NULL_POINTER, i)
   | Some c \<Rightarrow> if \<not> alloc then (ERROR_IMSA_MALLOC_FAILED, i\<lparr>el_deathRecipient := False\<rparr>)
       else if \<not> add c then (ERROR_ADD_DEATH_RECIPIENT_FAILED, i\<lparr>el_deathRecipient := True\<rparr>)
       else (NO_ERROR, i\<lparr>el_deathRecipient := True\<rparr>))"

definition listeners_of :: "int \<Rightarrow> listeners \<Rightarrow> event_listener list" where
  "listeners_of userId L = (case map_of L userId of None \<Rightarrow> [] | Some ls \<Rightarrow> ls)"

text \<open>An entry without listeners is erased.\<close>

definition put_listeners :: "int \<Rightarrow> event_listener list \<Rightarrow> listeners \<Rightarrow> listeners" where
  "put_listeners userId ls L = (if ls = [] then AList.delete userId L else omap_assign userId ls L)"

fun set_flag :: "pid_t \<Rightarrow> u32 \<Rightarrow> event_listener list \<Rightarrow> event_listener list" where
  "set_flag pid flag [] = []"
| "set_flag pid flag (l # ls) =
     (if el_pid l = pid then (if flag = NO_EVENT_ON then ls else l\<lparr>el_eventFlag := flag\<rparr> # ls)
      else l # set_flag pid flag ls)"

definition UpdateListenerInfo :: "bool \<Rightarrow> (robj \<Rightarrow> bool) \<Rightarrow> int \<Rightarrow> event_listener \<Rightarrow> listeners \<Rightarrow> int \<times> listeners" where
  "UpdateListenerInfo alloc add userId info L =
     (let ls = listeners_of userId L in
      if List.find (\<lambda>l. el_pid l = el_pid info) ls = None
      then (NO_ERROR, omap_assign userId (ls @ [snd (AddDeathRecipient alloc add info)]) L)
      else (NO_ERROR, put_listeners userId (set_flag (el_pid info) (el_eventFlag info) ls) L))"

definition GetListenerInfo :: "int \<Rightarrow> listeners \<Rightarrow> event_listener list" where
  "GetListenerInfo userId L = (if userId = 0 then listeners_of 0 L else listeners_of userId L @ listeners_of 0 L)"

definition OnListenerDied :: "int \<Rightarrow> robj option \<Rightarrow> listeners \<Rightarrow> listeners" where
  "OnListenerDied userId remote L =
     (if remote = None \<or> map_of L userId = None then L
      else let ls = listeners_of userId L in
        if List.find (\<lambda>l. el_client l = remote) ls = None then L
        else put_listeners userId (erase_first (\<lambda>l. el_client l = remote) ls) L)"

section \<open>Notices\<close>

datatype window_status = SHOW_STATUS | HIDE_STATUS | OTHER_STATUS

text \<open>The clients that are told: those whose flag passes, in the order of registration.\<close>

definition told_clients :: "(u32 \<Rightarrow> bool) \<Rightarrow> event_listener list \<Rightarrow> robj list" where
  "told_clients on ls = [c. l \<leftarrow> ls, on (el_eventFlag l), c \<leftarrow> (case el_client l of None \<Rightarrow> [] | Some c \<Rightarrow> [c])]"

definition NotifySoftKeyBoardInfoChanged :: "int \<Rightarrow> 'a \<Rightarrow> listeners \<Rightarrow> (robj \<times> 'a) list" where
  "NotifySoftKeyBoardInfoChanged userId info L =
     map (\<lambda>c. (c, info)) (told_clients IsSoftKeyboardInfoChangedOn (GetListenerInfo userId L))"

definition NotifyInputStart :: "int \<Rightarrow> 'a \<Rightarrow> listeners \<Rightarrow> (robj \<times> 'a) list" where
  "NotifyInputStart userId info L = map (\<lambda>c. (c, info)) (told_clients IsInputStatusChangedOn (GetListenerInfo userId L))"

definition NotifyInputStop_l :: "int \<Rightarrow> 'a \<Rightarrow> listeners \<Rightarrow> (robj \<times> 'a) list" where
  "NotifyInputStop_l userId info L = map (\<lambda>c. (c, info)) (told_clients IsInputStatusChangedOn (GetListenerInfo userId L))"

text \<open>The information is sent with the user's id put into it.\<close>

definition NotifyPanelStatusChange :: "int \<Rightarrow> window_status \<Rightarrow> 'a \<Rightarrow> listeners \<Rightarrow> (robj \<times> window_status \<times> 'a \<times> int) list" where
  "NotifyPanelStatusChange userId status info L =
     map (\<lambda>c. (c, status, info, userId)) (told_clients (\<lambda>flag.
       \<not> (status = SHOW_STATUS \<and> \<not> IsImeShowOn flag) \<and> \<not> (status = HIDE_STATUS \<and> \<not> IsImeHideOn flag))
       (GetListenerInfo userId L))"

definition NotifyImeChange :: "int \<Rightarrow> 'a \<Rightarrow> listeners \<Rightarrow> (robj \<times> 'a \<times> int) list" where
  "NotifyImeChange userId info L = map (\<lambda>c. (c, info, userId)) (told_clients IsImeChangeOn (GetListenerInfo userId L))"

section \<open>Invariant\<close>

definition listeners_ok :: "listeners \<Rightarrow> bool" where
  "listeners_ok L \<longleftrightarrow> omap_ok L \<and> (\<forall>(u, ls) \<in> set L. ls \<noteq> [] \<and> distinct (map el_pid ls))"

lemma listeners_of_ok: "listeners_ok L \<Longrightarrow> distinct (map el_pid (listeners_of u L))"
  by (auto simp: listeners_ok_def listeners_of_def split: option.split dest!: map_of_SomeD)

lemma pids_set_flag: "set (map el_pid (set_flag p f ls)) \<subseteq> set (map el_pid ls)"
  by (induction ls) auto

lemma distinct_set_flag: "distinct (map el_pid ls) \<Longrightarrow> distinct (map el_pid (set_flag p f ls))"
  using pids_set_flag by (induction ls) fastforce+

lemma set_omap_assign: "set (omap_assign k v m) \<subseteq> insert (k, v) (set m)"
  by (induction m rule: omap_assign.induct) auto

lemma set_delete_alist: "set (AList.delete k m) \<subseteq> set m"
  by (auto simp: AList.delete_eq)

lemma listeners_ok_assign:
  "listeners_ok L \<Longrightarrow> ls \<noteq> [] \<Longrightarrow> distinct (map el_pid ls) \<Longrightarrow> listeners_ok (omap_assign u ls L)"
  using set_omap_assign [of u ls L] by (auto simp: listeners_ok_def)

lemma listeners_ok_put: "listeners_ok L \<Longrightarrow> distinct (map el_pid ls) \<Longrightarrow> listeners_ok (put_listeners u ls L)"
  using set_delete_alist [of u L] listeners_ok_assign [of L ls u]
  by (auto simp: put_listeners_def listeners_ok_def)

lemma map_of_put: "listeners_ok L \<Longrightarrow> listeners_of u' (put_listeners u ls L) = (if u' = u then ls else listeners_of u' L)"
  by (auto simp: put_listeners_def listeners_of_def listeners_ok_def map_of_omap_assign)

lemma find_pid_None: "List.find (\<lambda>l. el_pid l = p) ls = None \<longleftrightarrow> p \<notin> el_pid ` set ls"
  by (auto simp: find_None_iff)

lemma AddDeath_fields [simp]: "el_pid (snd (AddDeathRecipient alloc add i)) = el_pid i"
  "el_eventFlag (snd (AddDeathRecipient alloc add i)) = el_eventFlag i"
  "el_client (snd (AddDeathRecipient alloc add i)) = el_client i"
  by (auto simp: AddDeathRecipient_def split: option.split)

lemma listeners_ok_Update: "listeners_ok L \<Longrightarrow> listeners_ok (snd (UpdateListenerInfo alloc add u i L))"
  using listeners_of_ok [of L u]
  by (auto simp: UpdateListenerInfo_def Let_def find_pid_None intro!: listeners_ok_assign listeners_ok_put distinct_set_flag)

lemma listeners_ok_Died: "listeners_ok L \<Longrightarrow> listeners_ok (OnListenerDied u c L)"
  using listeners_of_ok [of L u]
  by (auto simp: OnListenerDied_def Let_def intro!: listeners_ok_put distinct_erase_first)

text \<open>The registration of a process is its own alone, and that of others stays.\<close>

lemma find_set_flag:
  "distinct (map el_pid ls) \<Longrightarrow> List.find (\<lambda>l. el_pid l = p) (set_flag q f ls) =
     (if p = q then (case List.find (\<lambda>l. el_pid l = p) ls of None \<Rightarrow> None
        | Some l \<Rightarrow> if f = NO_EVENT_ON then None else Some (l\<lparr>el_eventFlag := f\<rparr>))
      else List.find (\<lambda>l. el_pid l = p) ls)"
proof (induction ls)
  case (Cons a ls)
  moreover from Cons.prems have "List.find (\<lambda>l. el_pid l = el_pid a) ls = None" by (simp add: find_pid_None)
  ultimately show ?case by (cases "el_pid a = q") auto
qed simp

lemma find_snoc: "List.find P (xs @ [x]) = (case List.find P xs of None \<Rightarrow> if P x then Some x else None | Some y \<Rightarrow> Some y)"
  by (induction xs) auto

definition registered :: "int \<Rightarrow> pid_t \<Rightarrow> listeners \<Rightarrow> event_listener option" where
  "registered u p L = List.find (\<lambda>l. el_pid l = p) (listeners_of u L)"

lemma registered_Update:
  assumes "listeners_ok L"
  shows "registered u' p (snd (UpdateListenerInfo alloc add u i L)) =
    (if u' = u \<and> p = el_pid i
     then (case registered u p L of None \<Rightarrow> Some (snd (AddDeathRecipient alloc add i))
       | Some l \<Rightarrow> if el_eventFlag i = NO_EVENT_ON then None else Some (l\<lparr>el_eventFlag := el_eventFlag i\<rparr>))
     else registered u' p L)"
proof (cases "registered u (el_pid i) L")
  case None
  with assms show ?thesis
    by (auto simp: UpdateListenerInfo_def registered_def Let_def listeners_of_def listeners_ok_def map_of_omap_assign
        find_snoc split: option.splits)
next
  case (Some l)
  with assms listeners_of_ok [OF assms, of u] show ?thesis
    by (auto simp: UpdateListenerInfo_def registered_def Let_def map_of_put find_set_flag split: option.splits)
qed

end
