(* ===== verification/Sa_Base.thy ===== *)
theory Sa_Base
  imports Session_Machine Ime_Info_Inquirer Identity_Checker Ime_Event_Listeners
begin

text \<open>
  The state of the system ability (\<open>services/src/input_method_system_ability.cpp\<close>) and how it works with its
  parts: the settings, the enabled input methods, exam mode, the installed input methods and the inquirer, whose
  states its own extends; the sessions of the users (\<open>user_session_manager.cpp\<close>); the tables of the window
  adapter; the listeners.

  An operation runs to its end before the next one starts. The environment answers for the systems outside; it
  sees the outside world \<open>sd_world\<close> of the moment.
\<close>

section \<open>Accounts\<close>

text \<open>
  \<open>os_account_adapter.cpp\<close>. What the account manager answers: \<open>ac_current\<close> is \<open>None\<close> when no attempt succeeds,
  the others when the call fails.
\<close>

record 'd account_mgr =
  ac_isForeground :: "'d \<Rightarrow> int \<Rightarrow> bool"
  ac_current :: "'d \<Rightarrow> int option"
  ac_currentOn :: "'d \<Rightarrow> u64 \<Rightarrow> int option"
  ac_foregrounds :: "'d \<Rightarrow> (int \<times> u64) list option"
  ac_localId :: "pid_t \<Rightarrow> int option"
  ac_exists :: "'d \<Rightarrow> int \<Rightarrow> bool option"

abbreviation MAIN_USER_ID :: int where "MAIN_USER_ID \<equiv> 100"
abbreviation INVALID_USER_ID :: int where "INVALID_USER_ID \<equiv> - 1"
abbreviation START_USER_ID :: int where "START_USER_ID \<equiv> 100"

definition IsOsAccountForeground :: "'d account_mgr \<Rightarrow> 'd \<Rightarrow> int \<Rightarrow> bool" where
  "IsOsAccountForeground A w userId = ac_isForeground A w userId"

definition GetForegroundOsAccountLocalId :: "'d account_mgr \<Rightarrow> 'd \<Rightarrow> int" where
  "GetForegroundOsAccountLocalId A w = (case ac_current A w of None \<Rightarrow> MAIN_USER_ID | Some u \<Rightarrow> u)"

definition GetForegroundOsAccountIds :: "'d account_mgr \<Rightarrow> 'd \<Rightarrow> int list" where
  "GetForegroundOsAccountIds A w = (case ac_foregrounds A w of None \<Rightarrow> [MAIN_USER_ID] | Some us \<Rightarrow> map fst us)"

definition GetForegroundOsAccounts :: "'d account_mgr \<Rightarrow> 'd \<Rightarrow> (int \<times> u64) list" where
  "GetForegroundOsAccounts A w = (case ac_foregrounds A w of None \<Rightarrow> [(MAIN_USER_ID, 0)] | Some us \<Rightarrow> us)"

definition GetOsAccountLocalIdFromUid :: "'d account_mgr \<Rightarrow> pid_t \<Rightarrow> int" where
  "GetOsAccountLocalIdFromUid A uid = (case ac_localId A uid of None \<Rightarrow> INVALID_USER_ID | Some u \<Rightarrow> u)"

definition GetMainAccountId :: "'d account_mgr \<Rightarrow> 'd \<Rightarrow> int" where
  "GetMainAccountId A w = (case ac_currentOn A w DEFAULT_DISPLAY_ID of None \<Rightarrow> MAIN_USER_ID | Some u \<Rightarrow> u)"

section \<open>Environment\<close>

text \<open>Who calls: what \<open>IPCSkeleton\<close> reports during a request.\<close>

record caller =
  cl_pid :: pid_t
  cl_uid :: pid_t
  cl_tokenId :: u32
  cl_fullTokenId :: u64

datatype monitor = FOCUS_MONITOR | GROUP_MONITOR | WMS_MONITOR | WINDOW_DISPLAY_MONITOR

text \<open>
  \<open>sx_raw\<close> is a user's session environment without the answers that the parts of this service give;
  \<open>sx_register\<close> is the code with which a monitor is registered. \<open>sx_self\<close> is what \<open>IPCSkeleton\<close> reports outside
  of a request. \<open>sx_imeUsage\<close> and \<open>sx_onDemand\<close> are the build switches \<open>IME_USAGE_ENABLE\<close> and
  \<open>IMF_ON_DEMAND_START_STOP_SA_ENABLE\<close>; \<open>sx_cpuUsage\<close> is \<open>None\<close> without \<open>IMF_RESTORE_IN_HIGH_CPU_USAGE\<close>.
\<close>

record 'd sa_env = "'d inq_env" +
  sx_raw :: "'d \<Rightarrow> int \<Rightarrow> senv"
  sx_wm :: "'d \<Rightarrow> window_manager"
  sx_facts :: "'d \<Rightarrow> caller_facts"
  sx_accounts :: "'d account_mgr"
  sx_saReady :: "'d \<Rightarrow> string \<Rightarrow> bool"
  sx_appName :: "'d \<Rightarrow> u32 \<Rightarrow> string"
  sx_numkeyApp :: "'d \<Rightarrow> int \<Rightarrow> string \<Rightarrow> bool"
  sx_capsLock :: "'d \<Rightarrow> bool option"
  sx_lowMem :: "'d \<Rightarrow> bool"
  sx_cpuUsage :: "'d \<Rightarrow> int option"
  sx_register :: "'d \<Rightarrow> int \<Rightarrow> monitor \<Rightarrow> int"
  sx_startDialog :: "'d \<Rightarrow> int"
  sx_activating :: int                          \<comment> \<open>\<open>START_SERVICE_ABILITY_ACTIVATING\<close>\<close>
  sx_runningIme :: "'d \<Rightarrow> int \<Rightarrow> string"      \<comment> \<open>what a new session finds running\<close>
  sx_deathRecipient :: "'d \<Rightarrow> nat option"      \<comment> \<open>\<open>None\<close>: it cannot be allocated\<close>
  sx_listenerAlloc :: "'d \<Rightarrow> bool"
  sx_listenerAdd :: "'d \<Rightarrow> robj \<Rightarrow> bool"
  sx_self :: caller
  sx_imeUsage :: bool
  sx_onDemand :: bool
  sx_dynamicStart :: bool

section \<open>State\<close>

datatype sa_task = SwitchImeTask int | StopBackgroundTask | FullExperienceTask | PttDialogTask int
  | RegisterTask monitor int

datatype notice =
    ImeChangeNotice string string int | InputStopNotice u64 input_stop_scene int | InputStartNotice int
  | InputStoppedNotice int | PanelNotice window_status int | KeyboardInfoNotice int

datatype sa_event =
    ListenerTold robj notice
  | PublishPanelStatus int window_status | NotifyPanelStatusToRss bool
  | RecordChangeIme | ImeFault int string int
  | ReportAttach int string | ReportShow int string
  | StartSelectDialog | MemMgrNotified | NumkeyUserSwitched int | NumkeyUserRemoved int | NumkeyInit int

record 'd sa = "'d inq_state" +
  sa_sessions :: "(int \<times> session) list"           \<comment> \<open>\<open>userSessions_\<close>\<close>
  sa_groups :: group_table                           \<comment> \<open>of the window adapter\<close>
  sa_monitors :: window_monitors
  sa_listeners :: listeners
  sa_switchTaskExecuting :: bool
  sa_targetSwitchCount :: u32
  sa_isBundleScanFinished :: bool
  sa_isAccountSaFirstStart :: bool
  sa_waitAccountReadyToInit :: bool
  sa_serviceHandler :: bool                          \<comment> \<open>\<open>serviceHandler_\<close> is not null\<close>
  sa_tasks :: "sa_task list"                         \<comment> \<open>posted and not yet run\<close>
  sa_log :: "sa_event list"

type_synonym ('d, 'a) sao = "('d sa, 'a) state"

definition sa_emit :: "sa_event \<Rightarrow> ('d, unit) sao" where
  "sa_emit ev = modify (\<lambda>s. s\<lparr>sa_log := ev # sa_log s\<rparr>)"

definition post :: "sa_task \<Rightarrow> ('d, unit) sao" where
  "post t = modify (\<lambda>s. if sa_serviceHandler s then s\<lparr>sa_tasks := sa_tasks s @ [t]\<rparr> else s)"

text \<open>Operations of the window adapter and of the input type manager.\<close>

definition window_op :: "'a wad \<Rightarrow> ('d, 'a) sao" where
  "window_op m = do {
     t \<leftarrow> gets sa_groups;
     modify (\<lambda>s. s\<lparr>sa_groups := snd (run_state m t)\<rparr>);
     ret (fst (run_state m t)) }"

definition set_type :: "bool \<Rightarrow> ime_identification \<Rightarrow> ('d, unit) sao" where
  "set_type started ime = modify (\<lambda>s. s\<lparr>nq_itm := Set started ime (nq_itm s)\<rparr>)"

definition type_query :: "(input_type_manager \<Rightarrow> 'a \<times> input_type_manager) \<Rightarrow> ('d, 'a) sao" where
  "type_query f = do {
     r \<leftarrow> gets (\<lambda>s. fst (f (nq_itm s)));
     modify (\<lambda>s. s\<lparr>nq_itm := snd (f (nq_itm s))\<rparr>);
     ret r }"

definition on_world :: "('d \<Rightarrow> 'a) \<Rightarrow> ('d, 'a) sao" where
  "on_world f = gets (\<lambda>s. f (sd_world s))"

section \<open>Sessions\<close>

text \<open>The input type manager is one for all sessions; a session that is looked up sees it as it is.\<close>

definition GetUserSession :: "int \<Rightarrow> 'd sa \<Rightarrow> session option" where
  "GetUserSession userId s = map_option (\<lambda>ss. ss\<lparr>ss_itm := nq_itm s\<rparr>) (map_of (sa_sessions s) userId)"

definition AddUserSession :: "'d sa_env \<Rightarrow> int \<Rightarrow> ('d, unit) sao" where
  "AddUserSession X userId = modify (\<lambda>s. if map_of (sa_sessions s) userId \<noteq> None then s
     else s\<lparr>sa_sessions := sa_sessions s @ [(userId, new_session userId (sx_runningIme X (sd_world s) userId))]\<rparr>)"

definition RemoveUserSession :: "int \<Rightarrow> ('d, unit) sao" where
  "RemoveUserSession userId = modify (\<lambda>s. s\<lparr>sa_sessions := AList.delete userId (sa_sessions s)\<rparr>)"

text \<open>
  What a session's operation did to other parts of the service, by the events it logged: the temporary input
  method, the correction of the current one, and what the listeners are told.
\<close>

definition tell :: "(robj \<times> 'b) list \<Rightarrow> notice \<Rightarrow> ('d, unit) sao" where
  "tell calls n = for_each calls (\<lambda>c. sa_emit (ListenerTold (fst c) n))"

definition settle_event :: "'d sa_env \<Rightarrow> int \<Rightarrow> event \<Rightarrow> ('d, unit) sao" where
  "settle_event X userId ev = (case ev of
     SetTmpImeEv imeId \<Rightarrow> void (SetTmpIme (nv_settings X) userId imeId)
   | GetImeToStartEv \<Rightarrow> void (GetImeToStart X userId)
   | NotifyImeChangeEv b sub \<Rightarrow> do {
       calls \<leftarrow> gets (\<lambda>s. NotifyImeChange userId () (sa_listeners s));
       tell calls (ImeChangeNotice b sub userId) }
   | NotifyInputStopEv d scene \<Rightarrow> do {
       calls \<leftarrow> gets (\<lambda>s. NotifyInputStop_l userId () (sa_listeners s));
       tell calls (InputStopNotice d scene userId) }
   | _ \<Rightarrow> ret ())"

definition new_events :: "event list \<Rightarrow> event list \<Rightarrow> event list" where
  "new_events old lg = rev (take (length lg - length old) lg)"

definition settle :: "'d sa_env \<Rightarrow> int \<Rightarrow> event list \<Rightarrow> ('d, unit) sao" where
  "settle X userId evs = for_each evs (settle_event X userId)"

text \<open>
  The environment of a session, as the parts of the service answer it: after the events that the running
  operation has logged so far, starting from the state \<open>s\<close> and the log \<open>old\<close>. The table of the display groups,
  which such a query may fill, stays as it is.
\<close>

definition answer :: "('s, 'a) state \<Rightarrow> 's \<Rightarrow> 'a" where
  "answer m s = fst (run_state m s)"

definition session_cfg :: "'d sa_env \<Rightarrow> int \<Rightarrow> cfg_query \<Rightarrow> 'd sa \<Rightarrow> ime_native_cfg option" where
  "session_cfg X userId q s = (case q of
     CurrentImeCfg \<Rightarrow> Some (answer (GetCurrentImeCfg (nv_settings X) userId) s)
   | ImeToStart \<Rightarrow> Some (answer (GetImeToStart X userId) s)
   | DefaultImeCfg \<Rightarrow> GetDefaultImeCfg (nv_settings X)
   | DefaultImeCfgProp \<Rightarrow> map_option (\<lambda>p. empty_native_cfg\<lparr>nc_bundleName := pr_name p, nc_extName := pr_id p\<rparr>)
       (GetDefaultImeCfgProp (nv_settings X)))"

definition session_bool :: "'d sa_env \<Rightarrow> int \<Rightarrow> bool_query \<Rightarrow> bool \<Rightarrow> 'd sa \<Rightarrow> bool" where
  "session_bool X userId q raw s = (let w = sd_world s; E = nv_settings X in case q of
     QDisplayGroupIdExist g \<Rightarrow> IsDisplayGroupIdExist g userId (sa_groups s)
   | QIsFocusedUIExtension tok u \<Rightarrow> answer (IsFocusedUIExtension_token (sx_wm X w) (sx_facts X w) tok u) (sa_groups s)
   | QIsSysIme b \<Rightarrow> IsSysIme E b
   | QIsUserCfgIme b \<Rightarrow> answer (IsUserCfgIme E userId b) s
   | QIsImeInstalled b e \<Rightarrow> IsImeInstalled (nv_bundles X) userId b e s
   | QIsRunningIme b \<Rightarrow> IsRunningIme (nv_bundles X) w userId b
   | QIsDefaultFullMode b \<Rightarrow> IsDefaultFullMode E w userId b
   | QFullExperience b \<Rightarrow> answer (GetEnabledState E userId b DISABLED) s = (NO_ERROR, FULL_EXPERIENCE_MODE)
   | QImeInfo b sub \<Rightarrow> answer (GetImeInfo X userId b sub) s \<noteq> None
   | QRestrictedDefaultIme d \<Rightarrow> IsRestrictedDefaultImeByDisplay (sx_wm X w) X d
   | _ \<Rightarrow> raw)"

definition session_env :: "'d sa_env \<Rightarrow> int \<Rightarrow> event list \<Rightarrow> 'd sa \<Rightarrow> senv" where
  "session_env X userId old s =
     (let raw = sx_raw X (sd_world s) userId;
          now = (\<lambda>lg. snd (run_state (settle X userId (new_events old lg)) s))
      in raw\<lparr>e_cfg := (\<lambda>lg q. session_cfg X userId q (now lg)),
             e_bool := (\<lambda>lg q. session_bool X userId q (e_bool raw lg q) (now lg)),
             e_defaultIme := (\<lambda>lg. GetDefaultIme (nv_settings X)),
             e_displayGroup := (\<lambda>lg d. answer (GetDisplayGroupIdWithRetry (sx_wm X (sd_world s)) d userId DEFAULT_DISPLAY_GROUP_ID)
                (sa_groups s)),
             e_subProp := (\<lambda>lg b sub. map_option (\<lambda>i. (sp_name (in_subProp i), sp_id (in_subProp i)))
                (answer (GetImeInfo X userId b sub) (now lg))),
             e_imeProperty := (\<lambda>lg b. map_option pr_id (answer (GetImeProperty X userId b '''') (now lg))),
             e_inputTypeCfg := nv_types X\<rparr>)"

text \<open>An operation of a session, and what follows from it in the other parts.\<close>

definition run_session :: "'d sa_env \<Rightarrow> int \<Rightarrow> session \<Rightarrow> (senv \<Rightarrow> 'a sess) \<Rightarrow> ('d, 'a) sao" where
  "run_session X userId ss m = do {
     res \<leftarrow> gets (\<lambda>s. run_state (m (session_env X userId (ss_log ss) s)) ss);
     modify (\<lambda>s. s\<lparr>sa_sessions := AList.update userId (snd res) (sa_sessions s), nq_itm := ss_itm (snd res)\<rparr>);
     settle X userId (new_events (ss_log ss) (ss_log (snd res)));
     ret (fst res) }"

definition in_session :: "'d sa_env \<Rightarrow> int \<Rightarrow> 'a \<Rightarrow> (senv \<Rightarrow> 'a sess) \<Rightarrow> ('d, 'a) sao" where
  "in_session X userId none m = do {
     session \<leftarrow> gets (GetUserSession userId);
     (case session of None \<Rightarrow> ret none | Some ss \<Rightarrow> run_session X userId ss m) }"

text \<open>A query of a session that exists; it changes nothing.\<close>

definition ask_session :: "'d sa_env \<Rightarrow> int \<Rightarrow> (senv \<Rightarrow> session \<Rightarrow> 'a) \<Rightarrow> 'd sa \<Rightarrow> 'a option" where
  "ask_session X userId f s = map_option (\<lambda>ss. f (session_env X userId (ss_log ss) s) ss) (GetUserSession userId s)"

definition has_session :: "int \<Rightarrow> 'd sa \<Rightarrow> bool" where
  "has_session userId s \<longleftrightarrow> GetUserSession userId s \<noteq> None"

definition SetupImeUsageCallbacks :: "'d sa_env \<Rightarrow> int \<Rightarrow> ('d, unit) sao" where
  "SetupImeUsageCallbacks X userId = when_do (sx_imeUsage X) (in_session X userId () (\<lambda>_. SetImeUsageCallbacks True))"

text \<open>The sequence with which the handlers make sure that there is a session.\<close>

definition ensure_session :: "'d sa_env \<Rightarrow> int \<Rightarrow> ('d, unit) sao" where
  "ensure_session X userId = do {
     b \<leftarrow> gets (has_session userId);
     when_do (\<not> b) (do { AddUserSession X userId; SetupImeUsageCallbacks X userId }) }"

section \<open>Users and callers\<close>

abbreviation PERMISSION_CONNECT_IME_ABILITY :: string where "PERMISSION_CONNECT_IME_ABILITY \<equiv> ''ohos.permission.CONNECT_IME_ABILITY''"
abbreviation PERMISSION_CONTROL_DEVICE :: string where "PERMISSION_CONTROL_DEVICE \<equiv> ''ohos.permission.CONTROL_DEVICE''"

abbreviation ERROR_NOT_CURRENT_IME :: int where "ERROR_NOT_CURRENT_IME \<equiv> 9"
abbreviation ERROR_NOT_IME :: int where "ERROR_NOT_IME \<equiv> 10"
abbreviation ERROR_NOT_AI_APP_IME :: int where "ERROR_NOT_AI_APP_IME \<equiv> 11"
abbreviation ERROR_STATUS_SYSTEM_PERMISSION :: int where "ERROR_STATUS_SYSTEM_PERMISSION \<equiv> 13"
abbreviation ERROR_PARAMETER_CHECK_FAILED :: int where "ERROR_PARAMETER_CHECK_FAILED \<equiv> 14"
abbreviation ERROR_NOT_DEFAULT_IME :: int where "ERROR_NOT_DEFAULT_IME \<equiv> 17"
abbreviation ERROR_USER_NOT_IN_FOREGROUND :: int where "ERROR_USER_NOT_IN_FOREGROUND \<equiv> 39"
abbreviation ERROR_CROSS_USER_OPERATION_DENIED :: int where "ERROR_CROSS_USER_OPERATION_DENIED \<equiv> 40"
abbreviation ERROR_STATUS_PERMISSION_DENIED :: int where "ERROR_STATUS_PERMISSION_DENIED \<equiv> 61"
abbreviation ERROR_IMSA_USER_SESSION_NOT_FOUND :: int where "ERROR_IMSA_USER_SESSION_NOT_FOUND \<equiv> 73"
abbreviation ERROR_PRIVATE_COMMAND_IS_EMPTY :: int where "ERROR_PRIVATE_COMMAND_IS_EMPTY \<equiv> 85"
abbreviation ERROR_SYSTEM_PANEL_ERROR :: int where "ERROR_SYSTEM_PANEL_ERROR \<equiv> 95"
abbreviation ERROR_ACCOUNT_LOCALID_FAILED :: int where "ERROR_ACCOUNT_LOCALID_FAILED \<equiv> 96"
abbreviation ERROR_EX_SERVICE_SPECIFIC :: int where "ERROR_EX_SERVICE_SPECIFIC \<equiv> - 8"
abbreviation ERROR_EX_UNSUPPORTED_OPERATION :: int where "ERROR_EX_UNSUPPORTED_OPERATION \<equiv> - 7"

definition facts :: "'d sa_env \<Rightarrow> (caller_facts \<Rightarrow> 'a) \<Rightarrow> ('d, 'a) sao" where
  "facts X f = gets (\<lambda>s. f (sx_facts X (sd_world s)))"

text \<open>\<open>IsNativeSa\<close> and \<open>IsFormShell\<close> take a 32-bit token: a full token id is cut.\<close>

definition is_native :: "caller \<Rightarrow> caller_facts \<Rightarrow> bool" where
  "is_native C F = IsNativeSa F (cl_tokenId C)"

definition is_native_full :: "caller \<Rightarrow> caller_facts \<Rightarrow> bool" where
  "is_native_full C F = IsNativeSa F (ucast (cl_fullTokenId C))"

definition is_shell :: "caller \<Rightarrow> caller_facts \<Rightarrow> bool" where
  "is_shell C F = IsFormShell F (ucast (cl_fullTokenId C))"

definition is_system :: "caller \<Rightarrow> caller_facts \<Rightarrow> bool" where
  "is_system C F = IsSystemApp F (cl_fullTokenId C)"

definition may_connect :: "caller \<Rightarrow> caller_facts \<Rightarrow> bool" where
  "may_connect C F = HasPermission F (cl_tokenId C) PERMISSION_CONNECT_IME_ABILITY"

definition GetUserId :: "'d sa_env \<Rightarrow> pid_t \<Rightarrow> 'd sa \<Rightarrow> int" where
  "GetUserId X uid s = (let u = GetOsAccountLocalIdFromUid (sx_accounts X) uid in
     if u = 0 then GetMainAccountId (sx_accounts X) (sd_world s) else u)"

definition GetCallingUserId :: "'d sa_env \<Rightarrow> caller \<Rightarrow> 'd sa \<Rightarrow> int" where
  "GetCallingUserId X C s = (let u = GetOsAccountLocalIdFromUid (sx_accounts X) (cl_uid C) in
     if u = 0 then GetForegroundOsAccountLocalId (sx_accounts X) (sd_world s) else u)"

text \<open>The overload for a user that is given: the code, or the user.\<close>

definition GetCallingUserId_for :: "'d sa_env \<Rightarrow> caller \<Rightarrow> int \<Rightarrow> 'd sa \<Rightarrow> int + int" where
  "GetCallingUserId_for X C userId s =
     (let A = sx_accounts X; w = sd_world s; F = sx_facts X w; callerUserId = GetOsAccountLocalIdFromUid A (cl_uid C) in
      if userId \<noteq> - 1 \<and> ac_exists A w userId \<noteq> Some True then Inl ERROR_USER_NOT_EXIST
      else if callerUserId = 0
        then if userId = - 1 then Inr (GetForegroundOsAccountLocalId A w)
          else if \<not> IsOsAccountForeground A w userId then Inl ERROR_USER_NOT_IN_FOREGROUND
          else if \<not> is_system C F \<and> \<not> is_native C F \<and> \<not> is_shell C F then Inl ERROR_STATUS_SYSTEM_PERMISSION
          else Inr userId
      else if userId \<noteq> - 1 \<and> userId \<noteq> callerUserId then Inl ERROR_CROSS_USER_OPERATION_DENIED
      else Inr callerUserId)"

text \<open>The package of a token: from the cache of the user's input methods, else from the token itself.\<close>

definition ime_bundle :: "'d sa_env \<Rightarrow> int \<Rightarrow> u32 \<Rightarrow> 'd sa \<Rightarrow> string" where
  "ime_bundle X userId tokenId s = (let b = Get_token userId tokenId s in
     if b = '''' then GetBundleNameByToken (sx_facts X (sd_world s)) tokenId else b)"

definition IsCurrentIme_sa :: "'d sa_env \<Rightarrow> int \<Rightarrow> u32 \<Rightarrow> 'd sa \<Rightarrow> bool" where
  "IsCurrentIme_sa X userId tokenId s = (case GetUserSession userId s of None \<Rightarrow> False
     | Some ss \<Rightarrow> (case GetRealImeData False ss of None \<Rightarrow> False | Some d \<Rightarrow> ime_bundle X userId tokenId s = fst (im_ime d)))"

definition IsFocusedOrBroker :: "'d sa_env \<Rightarrow> caller \<Rightarrow> int \<Rightarrow> u32 \<Rightarrow> robj option \<Rightarrow> ('d, bool \<times> focused_info) sao" where
  "IsFocusedOrBroker X C userId windowId abilityToken = do {
     W \<leftarrow> on_world (sx_wm X);
     F \<leftarrow> on_world (sx_facts X);
     res \<leftarrow> window_op (IsFocused W F (cl_pid C) (cl_tokenId C) userId windowId abilityToken);
     ret (if fst res then res else CheckBroker W F (cl_tokenId C) userId) }"

definition GetCallingDisplayId :: "'d sa_env \<Rightarrow> caller \<Rightarrow> int \<Rightarrow> 'd sa \<Rightarrow> u64" where
  "GetCallingDisplayId X C userId s =
     GetDisplayIdByPid_checker (sx_wm X (sd_world s)) (sx_facts X (sd_world s)) (cl_pid C) userId None"

text \<open>The code of \<open>PrepareForOperateKeyboard\<close>; the session it finds is that of the caller's user.\<close>

definition PrepareForOperateKeyboard :: "'d sa_env \<Rightarrow> caller \<Rightarrow> u32 \<Rightarrow> ('d, int) sao" where
  "PrepareForOperateKeyboard X C windowId = do {
     userId \<leftarrow> gets (GetCallingUserId X C);
     b \<leftarrow> gets (has_session userId);
     if \<not> b then ret ERROR_IMSA_USER_SESSION_NOT_FOUND
     else do {
       W \<leftarrow> on_world (sx_wm X);
       F \<leftarrow> on_world (sx_facts X);
       res \<leftarrow> window_op (IsFocused W F (cl_pid C) (cl_tokenId C) userId windowId None);
       ret (if fst res \<or> IsBroker F (cl_tokenId C) then NO_ERROR else ERROR_CLIENT_NOT_FOCUSED) } }"

end
