(* ===== verification/Sa_Switch.thy ===== *)
theory Sa_Switch
  imports Sa_Base
begin

text \<open>
  The system ability's operations that change the input method in use: switching by request, by key, by exam
  mode and by the enterprise's backup input method, the special input types, enabling and restoring.

  A switch waits for its turn in the session's queue (\<open>SwitchQueue\<close>) and leaves it at its end; as operations run
  one after the other, it is always its turn. The time stamps that order the queue are left out.
\<close>

record switch_info =
  sw_bundleName :: string
  sw_subName :: string
  sw_isTmpImeSwitchSubtype :: bool

text \<open>\<open>SwitchTrigger\<close>: a value of the enumeration or another number.\<close>

datatype switch_trigger = CURRENT_IME | SYSTEM_APP | IMSA | NATIVE_SA | TRIGGER_VALUE u32

abbreviation switch_to :: "string \<Rightarrow> string \<Rightarrow> switch_info" where
  "switch_to b sub \<equiv> \<lparr>sw_bundleName = b, sw_subName = sub, sw_isTmpImeSwitchSubtype = False\<rparr>"

section \<open>Permissions\<close>

definition CheckEnableAndSwitchPermission :: "caller \<Rightarrow> caller_facts \<Rightarrow> int" where
  "CheckEnableAndSwitchPermission C F =
     (if is_shell C F then NO_ERROR
      else if \<not> is_native_full C F \<and> \<not> is_system C F then ERROR_STATUS_SYSTEM_PERMISSION
      else if \<not> may_connect C F then ERROR_STATUS_PERMISSION_DENIED
      else NO_ERROR)"

definition real_bundle :: "int \<Rightarrow> 'd sa \<Rightarrow> string option" where
  "real_bundle userId s = (case GetUserSession userId s of None \<Rightarrow> None
     | Some ss \<Rightarrow> map_option (\<lambda>d. fst (im_ime d)) (GetRealImeData False ss))"

definition IsTmpIme :: "'d sa_env \<Rightarrow> int \<Rightarrow> u32 \<Rightarrow> ('d, bool) sao" where
  "IsTmpIme X userId tokenId = do {
     b \<leftarrow> gets (has_session userId);
     if \<not> b then ret False
     else do {
       cur \<leftarrow> GetUserCfgIme (nv_settings X) userId;
       ime \<leftarrow> gets (real_bundle userId);
       bundleName \<leftarrow> gets (ime_bundle X userId tokenId);
       ret (nc_bundleName cur \<noteq> '''' \<and> (case ime of None \<Rightarrow> False
         | Some i \<Rightarrow> bundleName \<noteq> '''' \<and> i \<noteq> nc_bundleName cur \<and> i = bundleName)) } }"

definition IsTmpImeSwitchSubtype :: "'d sa_env \<Rightarrow> int \<Rightarrow> u32 \<Rightarrow> string \<Rightarrow> ('d, bool) sao" where
  "IsTmpImeSwitchSubtype X userId tokenId target = do {
     t \<leftarrow> IsTmpIme X userId tokenId;
     bundleName \<leftarrow> gets (ime_bundle X userId tokenId);
     ret (t \<and> bundleName \<noteq> '''' \<and> bundleName = target) }"

definition CheckSwitchPermission :: "'d sa_env \<Rightarrow> caller \<Rightarrow> int \<Rightarrow> switch_trigger \<Rightarrow> ('d, int) sao" where
  "CheckSwitchPermission X C userId trigger = do {
     F \<leftarrow> on_world (sx_facts X);
     (case trigger of
        IMSA \<Rightarrow> ret NO_ERROR
      | NATIVE_SA \<Rightarrow> ret (CheckEnableAndSwitchPermission C F)
      | SYSTEM_APP \<Rightarrow> ret (if \<not> is_system C F then ERROR_STATUS_SYSTEM_PERMISSION
          else if \<not> may_connect C F then ERROR_STATUS_PERMISSION_DENIED else NO_ERROR)
      | CURRENT_IME \<Rightarrow>
          if may_connect C F then ret NO_ERROR
          else do {
            cur \<leftarrow> GetCurrentImeCfg (nv_settings X) userId;
            if IsBundleNameValid F (cl_tokenId C) (nc_bundleName cur) then ret NO_ERROR
            else do {
              t \<leftarrow> IsTmpIme X userId (cl_tokenId C);
              ret (if t then NO_ERROR else ERROR_STATUS_PERMISSION_DENIED) } }
      | TRIGGER_VALUE _ \<Rightarrow> ret ERROR_BAD_PARAMETERS) }"

definition IsStartInputTypePermitted :: "'d sa_env \<Rightarrow> caller \<Rightarrow> int \<Rightarrow> ('d, bool) sao" where
  "IsStartInputTypePermitted X C userId = do {
     defaultIme \<leftarrow> GetDefaultImeInfo X userId;
     (case defaultIme of None \<Rightarrow> ret False
      | Some i \<Rightarrow> do {
          F \<leftarrow> on_world (sx_facts X);
          if IsBundleNameValid F (cl_tokenId C) (bundle_of i) then ret True
          else if may_connect C F then ret True
          else do {
            b \<leftarrow> gets (has_session userId);
            if \<not> b then ret False
            else do {
              W \<leftarrow> on_world (sx_wm X);
              res \<leftarrow> window_op (IsFocused W F (cl_pid C) (cl_tokenId C) userId INVALID_WINDOW_ID None);
              d \<leftarrow> gets (GetCallingDisplayId X C userId);
              bound \<leftarrow> gets (ask_session X userId (\<lambda>E. IsBoundToClient E d));
              ret (fst res \<and> bound = Some True) } } }) }"

section \<open>Exam mode\<close>

definition IsSwitchingAllow :: "'d sa_env \<Rightarrow> string \<Rightarrow> 'd sa \<Rightarrow> bool" where
  "IsSwitchingAllow X targetBundleName s \<longleftrightarrow> \<not> IsExamMode s \<or> IsSysIme (nv_settings X) targetBundleName"

section \<open>Switching\<close>

definition GetValidSubtype :: "string \<Rightarrow> ime_info \<Rightarrow> ime_info" where
  "GetValidSubtype subName info = (if subName = ''''
     then info\<lparr>in_subProp := (in_subProp info)\<lparr>sp_id := UNDEFINED, sp_name := UNDEFINED\<rparr>\<rparr> else info)"

abbreviation sub_prop :: "ime_info \<Rightarrow> sub_property" where
  "sub_prop i \<equiv> (sp_name (in_subProp i), sp_id (in_subProp i))"

definition StartSwitch :: "'d sa_env \<Rightarrow> int \<Rightarrow> switch_info \<Rightarrow> ('d, int) sao" where
  "StartSwitch X userId sw = do {
     info \<leftarrow> GetImeInfo X userId (sw_bundleName sw) (sw_subName sw);
     (case info of None \<Rightarrow> ret ERROR_IMSA_GET_IME_INFO_FAILED
      | Some i \<Rightarrow> do {
          set_type False no_ime;
          let target = bundle_of i @ ''/'' @ pr_id (fi_prop i);
          r \<leftarrow> (if sw_isTmpImeSwitchSubtype sw then ret NO_ERROR
                else SetCurrentIme (nv_settings X) userId target (sw_subName sw) True);
          if r \<noteq> NO_ERROR then ret r
          else do {
            when_do (\<not> sw_isTmpImeSwitchSubtype sw) (void (in_session X userId 0 NotifyImeChangedToClients));
            let i = GetValidSubtype (sw_subName sw) i;
            forbidden \<leftarrow> gets (ask_session X userId IsImeSwitchForbidden);
            if forbidden = Some True then do {
              ime \<leftarrow> gets (real_bundle userId);
              when_do (ime = Some (sw_bundleName sw)) (void (in_session X userId 0 (\<lambda>E. SwitchSubtype E (sub_prop i))));
              ret NO_ERROR }
            else do {
              r \<leftarrow> in_session X userId ERROR_NULL_POINTER (\<lambda>E. StartIme E (Some (empty_native_cfg\<lparr>nc_imeId := target,
                     nc_bundleName := bundle_of i, nc_subName := sw_subName sw, nc_extName := pr_id (fi_prop i)\<rparr>)) False);
              if r \<noteq> NO_ERROR then do { sa_emit (ImeFault r (sw_bundleName sw) userId); ret r }
              else do {
                r \<leftarrow> in_session X userId ERROR_NULL_POINTER (\<lambda>E. SwitchSubtype E (sub_prop i));
                let r = (if in_isSpecificSubName i then r else NO_ERROR);
                when_do (r \<noteq> NO_ERROR) (sa_emit (ImeFault r (sw_bundleName sw) userId));
                ret r } } } }) }"

definition OnSwitchInputMethod :: "'d sa_env \<Rightarrow> caller \<Rightarrow> int \<Rightarrow> switch_info \<Rightarrow> switch_trigger \<Rightarrow> ('d, int) sao" where
  "OnSwitchInputMethod X C userId sw trigger = do {
     sa_emit RecordChangeIme;
     b \<leftarrow> gets (has_session userId);
     if \<not> b then ret ERROR_NULL_POINTER
     else do {
       r \<leftarrow> CheckSwitchPermission X C userId trigger;
       if r \<noteq> NO_ERROR
       then do { sa_emit (ImeFault ERROR_STATUS_PERMISSION_DENIED (sw_bundleName sw) userId); ret r }
       else StartSwitch X userId sw } }"

section \<open>Input types\<close>

definition IsNeedSwitch :: "'d sa_env \<Rightarrow> int \<Rightarrow> string \<Rightarrow> string \<Rightarrow> ('d, bool) sao" where
  "IsNeedSwitch X userId bundleName subName = do {
     itm \<leftarrow> gets nq_itm;
     if it_isStarted itm then ret (ime_id bundleName subName \<noteq> it_currentTypeIme itm)
     else do {
       cur \<leftarrow> GetCurrentImeCfg (nv_settings X) userId;
       ret (\<not> (subName = '''' \<and> bundleName = nc_bundleName cur \<or>
                subName \<noteq> '''' \<and> subName = nc_subName cur \<and> nc_bundleName cur = bundleName)) } }"

definition SwitchInputType :: "'d sa_env \<Rightarrow> int \<Rightarrow> switch_info \<Rightarrow> bool \<Rightarrow> ('d, int) sao" where
  "SwitchInputType X userId sw isPersistence = do {
     b \<leftarrow> gets (has_session userId);
     if \<not> b then ret ERROR_IMSA_USER_SESSION_NOT_FOUND
     else do {
       let ime = ime_id (sw_bundleName sw) (sw_subName sw);
       target \<leftarrow> gets (ask_session X userId (\<lambda>E. GetImeNativeCfg E (sw_bundleName sw) (sw_subName sw)));
       (case target of
          Some (Some t) \<Rightarrow> do {
            r \<leftarrow> in_session X userId ERROR_NULL_POINTER (\<lambda>E. StartIme E (Some t) False);
            if r \<noteq> NO_ERROR then ret r
            else do {
              voice \<leftarrow> type_query (IsVoiceKbIme (nv_types X) ime);
              r \<leftarrow> (if voice \<and> \<not> isPersistence then in_session X userId ERROR_NULL_POINTER SendVoicePrivateCommand
                    else in_session X userId ERROR_NULL_POINTER (\<lambda>E. SwitchSubtype E (sw_bundleName sw, sw_subName sw)));
              if r \<noteq> NO_ERROR then ret r
              else do {
                set_type True ime;
                in_session X userId 0 (\<lambda>E. SetInputType E None);
                ret NO_ERROR } } }
        | _ \<Rightarrow> ret ERROR_IMSA_GET_IME_INFO_FAILED) } }"

definition OnStartInputType :: "'d sa_env \<Rightarrow> caller \<Rightarrow> int \<Rightarrow> switch_info \<Rightarrow> bool \<Rightarrow> bool \<Rightarrow> ('d, int) sao" where
  "OnStartInputType X C userId sw isCheckPermission isPersistence = do {
     b \<leftarrow> gets (has_session userId);
     if \<not> b then ret ERROR_IMSA_USER_SESSION_NOT_FOUND
     else do {
       ok \<leftarrow> (if isCheckPermission then IsStartInputTypePermitted X C userId else ret True);
       if \<not> ok then ret ERROR_STATUS_PERMISSION_DENIED
       else do {
         need \<leftarrow> IsNeedSwitch X userId (sw_bundleName sw) (sw_subName sw);
         if \<not> need then ret NO_ERROR else SwitchInputType X userId sw isPersistence } } }"

text \<open>\<open>static_cast<InputType>\<close>: a number that is none of the types is found in no configuration.\<close>

definition input_type_of :: "int \<Rightarrow> input_type option" where
  "input_type_of i = List.find (\<lambda>t. input_type_value t = i)
     [NONE, CAMERA_INPUT, SECURITY_INPUT, VOICE_INPUT, VOICEKB_INPUT, PUSH_TO_TALK_INPUT, STYLUS_INPUT]"

definition type_ime :: "'d sa_env \<Rightarrow> input_type option \<Rightarrow> ('d, int \<times> ime_identification) sao" where
  "type_ime X t = type_query (\<lambda>m. case t of
     Some t \<Rightarrow> (case GetImeByInputType (nv_types X) t no_ime m of (r, i, m') \<Rightarrow> ((r, i), m'))
   | None \<Rightarrow> (case cfg_ready (nv_types X) m of (ok, m') \<Rightarrow>
       ((if ok then ERROR_IMSA_INPUT_TYPE_NOT_FOUND else ERROR_PARSE_CONFIG_FILE, no_ime), m')))"

definition StartInputType_user :: "'d sa_env \<Rightarrow> caller \<Rightarrow> int \<Rightarrow> input_type option \<Rightarrow> bool \<Rightarrow> ('d, int) sao" where
  "StartInputType_user X C userId type isPersistence = do {
     b \<leftarrow> gets (has_session userId);
     if \<not> b then ret ERROR_IMSA_USER_SESSION_NOT_FOUND
     else do {
       (r, ime) \<leftarrow> type_ime X type;
       if r \<noteq> NO_ERROR then
         (if type = Some SECURITY_INPUT \<or> type = Some STYLUS_INPUT
          then in_session X userId ERROR_NULL_POINTER StartUserSpecifiedIme else ret r)
       else do {
         allow \<leftarrow> gets (IsSwitchingAllow X (ime_identification.ii_bundleName ime));
         if type \<noteq> Some SECURITY_INPUT \<and> \<not> allow then ret NO_ERROR
         else let sw = switch_to (ime_identification.ii_bundleName ime) (ime_identification.ii_subName ime) in
           if type = Some PUSH_TO_TALK_INPUT then OnStartInputType X C userId sw False isPersistence
           else if type = Some SECURITY_INPUT \<or> type = Some STYLUS_INPUT then OnStartInputType X C userId sw False True
           else OnStartInputType X C userId sw True isPersistence } } }"

definition StartInputType :: "'d sa_env \<Rightarrow> caller \<Rightarrow> int \<Rightarrow> bool \<Rightarrow> ('d, int) sao" where
  "StartInputType X C type isPersistence = do {
     userId \<leftarrow> gets (GetCallingUserId X C);
     StartInputType_user X C userId (input_type_of type) isPersistence }"

definition StartInputTypeAsync :: "'d sa_env \<Rightarrow> caller \<Rightarrow> int \<Rightarrow> bool \<Rightarrow> ('d, int) sao" where
  "StartInputTypeAsync X C type isPersistence = do {
     userId \<leftarrow> gets (GetCallingUserId X C);
     StartInputType_user X C userId (input_type_of type) isPersistence }"

section \<open>Requests to switch\<close>

definition SwitchInputMethodInner :: "'d sa_env \<Rightarrow> caller \<Rightarrow> int \<Rightarrow> string \<Rightarrow> string \<Rightarrow> switch_trigger \<Rightarrow> ('d, int) sao" where
  "SwitchInputMethodInner X C userId bundleName subName trigger = do {
     b \<leftarrow> gets (has_session userId);
     if \<not> b then ret ERROR_NULL_POINTER
     else do {
       (r, status) \<leftarrow> GetEnabledState (nv_settings X) userId bundleName DISABLED;
       if r \<noteq> NO_ERROR \<or> status = DISABLED then ret ERROR_ENABLE_IME
       else do {
         cur \<leftarrow> GetCurrentImeCfg (nv_settings X) userId;
         allow \<leftarrow> gets (IsSwitchingAllow X bundleName);
         if \<not> allow then ret NO_ERROR
         else do {
           let sub = (if subName = '''' \<and> bundleName = nc_bundleName cur then nc_subName cur else subName);
           tmp \<leftarrow> IsTmpImeSwitchSubtype X userId (cl_tokenId C) bundleName;
           let sw = (switch_to bundleName sub)\<lparr>sw_isTmpImeSwitchSubtype := tmp\<rparr>;
           isType \<leftarrow> type_query (IsInputType (nv_types X) (ime_id bundleName subName));
           if isType then OnStartInputType X C userId sw True True else OnSwitchInputMethod X C userId sw trigger } } } }"

definition SwitchInputMethod :: "'d sa_env \<Rightarrow> caller \<Rightarrow> string \<Rightarrow> string \<Rightarrow> switch_trigger \<Rightarrow> int \<Rightarrow> ('d, int) sao" where
  "SwitchInputMethod X C bundleName subName trigger userId =
     (if trigger = IMSA then ret ERROR_BAD_PARAMETERS
      else do {
        u \<leftarrow> gets (GetCallingUserId_for X C userId);
        (case u of Inl e \<Rightarrow> ret e | Inr u \<Rightarrow> SwitchInputMethodInner X C u bundleName subName trigger) })"

definition EnableIme_user :: "'d sa_env \<Rightarrow> int \<Rightarrow> string \<Rightarrow> string \<Rightarrow> enabled_status \<Rightarrow> ('d, int) sao" where
  "EnableIme_user X userId bundleName extensionName status = Update (nv_settings X) userId bundleName extensionName status"

definition EnableIme :: "'d sa_env \<Rightarrow> caller \<Rightarrow> string \<Rightarrow> string \<Rightarrow> enabled_status \<Rightarrow> int \<Rightarrow> ('d, int) sao" where
  "EnableIme X C bundleName extensionName status userId = do {
     u \<leftarrow> gets (GetCallingUserId_for X C userId);
     (case u of Inl e \<Rightarrow> ret e
      | Inr u \<Rightarrow> do {
          r \<leftarrow> facts X (CheckEnableAndSwitchPermission C);
          if r \<noteq> NO_ERROR then ret r else EnableIme_user X u bundleName extensionName status }) }"

text \<open>The places that put a switch into the queue of the user's session.\<close>

definition queue_switch :: "'d sa_env \<Rightarrow> caller \<Rightarrow> int \<Rightarrow> switch_info \<Rightarrow> ('d, int) sao" where
  "queue_switch X C userId sw = do {
     b \<leftarrow> gets (has_session userId);
     if \<not> b then ret ERROR_NULL_POINTER else OnSwitchInputMethod X C userId sw IMSA }"

definition SwitchByCondition :: "'d sa_env \<Rightarrow> condition \<Rightarrow> ime_info option \<Rightarrow> int \<Rightarrow> ('d, int) sao" where
  "SwitchByCondition X condition info userId = (case info of None \<Rightarrow> ret ERROR_NULL_POINTER
     | Some i \<Rightarrow> (case FindTargetSubtypeByCondition (fu_subProps i) condition of None \<Rightarrow> ret ERROR_BAD_PARAMETERS
         | Some t \<Rightarrow> queue_switch X (sx_self X) userId (switch_to (sp_name t) (sp_id t))))"

definition SwitchMode :: "'d sa_env \<Rightarrow> int \<Rightarrow> ('d, int) sao" where
  "SwitchMode X userId = do {
     cur \<leftarrow> GetCurrentImeCfg (nv_settings X) userId;
     info \<leftarrow> GetImeInfo X userId (nc_bundleName cur) (nc_subName cur);
     (case info of None \<Rightarrow> ret ERROR_BAD_PARAMETERS
      | Some i \<Rightarrow> if fu_isNewIme i then ret NO_ERROR
          else SwitchByCondition X (if sp_mode (in_subProp i) = ''upper'' then LOWER else UPPER) info userId) }"

definition SwitchLanguage :: "'d sa_env \<Rightarrow> int \<Rightarrow> ('d, int) sao" where
  "SwitchLanguage X userId = do {
     cur \<leftarrow> GetCurrentImeCfg (nv_settings X) userId;
     info \<leftarrow> GetImeInfo X userId (nc_bundleName cur) (nc_subName cur);
     (case info of None \<Rightarrow> ret ERROR_BAD_PARAMETERS
      | Some i \<Rightarrow> if fu_isNewIme i then ret NO_ERROR
          else let l = sp_language (in_subProp i) in
            if l \<noteq> ''chinese'' \<and> l \<noteq> ''english'' then ret NO_ERROR
            else SwitchByCondition X (if l = ''chinese'' then ENGLISH else CHINESE) info userId) }"

definition SwitchType :: "'d sa_env \<Rightarrow> int \<Rightarrow> ('d, int) sao" where
  "SwitchType X userId = do {
     cacheCount \<leftarrow> gets sa_targetSwitchCount;
     modify (\<lambda>s. s\<lparr>sa_targetSwitchCount := 0\<rparr>);
     (r, target) \<leftarrow> GetSwitchInfoBySwitchCount X userId cacheCount;
     if r \<noteq> NO_ERROR then ret r
     else if target = '''' then ret NO_ERROR
     else do {
       allow \<leftarrow> gets (IsSwitchingAllow X target);
       if \<not> allow then ret NO_ERROR else queue_switch X (sx_self X) userId (switch_to target '''') } }"

text \<open>The presses of the combination are counted while a task is at work, and else a task is posted.\<close>

definition DealSwitchRequest :: "int \<Rightarrow> ('d, unit) sao" where
  "DealSwitchRequest userId = do {
     executing \<leftarrow> gets sa_switchTaskExecuting;
     modify (\<lambda>s. s\<lparr>sa_switchTaskExecuting := True, sa_targetSwitchCount := sa_targetSwitchCount s + 1\<rparr>);
     when_do (\<not> executing) (post (SwitchImeTask userId)) }"

text \<open>
  The task: it switches until no press is left. \<open>arrivals\<close> are the numbers of the presses that come in while
  the turns of the loop run, as another thread handles them; after those none comes.
\<close>

fun switch_task :: "'d sa_env \<Rightarrow> int \<Rightarrow> nat list \<Rightarrow> ('d, unit) sao" where
  "switch_task X userId [] = do {
     SwitchType X userId;
     modify (\<lambda>s. if sa_targetSwitchCount s > 0 then s else s\<lparr>sa_switchTaskExecuting := False\<rparr>) }"
| "switch_task X userId (n # ns) = do {
     SwitchType X userId;
     for_each (replicate n ()) (\<lambda>_. DealSwitchRequest userId);
     more \<leftarrow> gets (\<lambda>s. sa_targetSwitchCount s > 0);
     if more then switch_task X userId ns else modify (\<lambda>s. s\<lparr>sa_switchTaskExecuting := False\<rparr>) }"

text \<open>\<open>combination_key.cpp\<close>: the keys that are down, as a mask. The sets hold bytes, so the mask is cut to one.\<close>

datatype combination_key = SWITCH_LANGUAGE | SWITCH_MODE | SWITCH_IME

definition IsMatch :: "combination_key \<Rightarrow> u32 \<Rightarrow> bool" where
  "IsMatch key state = (let keys = (ucast state :: 8 word) in case key of
     SWITCH_LANGUAGE \<Rightarrow> keys \<in> {1, 2}
   | SWITCH_IME \<Rightarrow> keys \<in> {1 + 4, 2 + 8, 1 + 8, 2 + 4, 32 + 64}
   | SWITCH_MODE \<Rightarrow> keys \<in> {16})"

definition SwitchByCombinationKey :: "'d sa_env \<Rightarrow> u32 \<Rightarrow> ('d, int) sao" where
  "SwitchByCombinationKey X state = do {
     userId \<leftarrow> on_world (GetMainAccountId (sx_accounts X));
     if IsMatch SWITCH_MODE state then SwitchMode X userId
     else if IsMatch SWITCH_LANGUAGE state then SwitchLanguage X userId
     else if IsMatch SWITCH_IME state then do { DealSwitchRequest userId; ret NO_ERROR }
     else ret ERROR_EX_UNSUPPORTED_OPERATION }"

section \<open>Exam mode, continued\<close>

definition SwitchToDefaultIme :: "'d sa_env \<Rightarrow> int \<Rightarrow> ('d, int) sao" where
  "SwitchToDefaultIme X userId = (let b = nc_bundleName (GetDefaultIme (nv_settings X)) in
     if b = '''' then ret ERROR_IMSA_GET_IME_INFO_FAILED else queue_switch X (sx_self X) userId (switch_to b ''''))"

definition SwitchToPreviousIme :: "'d sa_env \<Rightarrow> int \<Rightarrow> ('d, int) sao" where
  "SwitchToPreviousIme X userId = do {
     (b, sub) \<leftarrow> gets GetPreviousIme;
     if b = '''' then ret NO_ERROR
     else do {
       has \<leftarrow> gets (has_session userId);
       if \<not> has then ret ERROR_NULL_POINTER
       else do {
         (r, status) \<leftarrow> GetEnabledState (nv_settings X) userId b DISABLED;
         if r \<noteq> NO_ERROR \<or> status = DISABLED then ret ERROR_ENABLE_IME
         else OnSwitchInputMethod X (sx_self X) userId (switch_to b sub) IMSA } } }"

text \<open>A message that cannot be read is \<open>None\<close>.\<close>

definition OnExamModeOn :: "'d sa_env \<Rightarrow> int option \<Rightarrow> ('d, unit) sao" where
  "OnExamModeOn X msg = (case msg of None \<Rightarrow> ret ()
     | Some userId \<Rightarrow>
       if userId = INVALID_USER_ID then ret ()
       else do {
         cur \<leftarrow> GetCurrentImeCfg (nv_settings X) userId;
         if nc_bundleName cur = '''' then ret ()
         else do {
           SetExamMode (nv_settings X) True;
           if IsSysIme (nv_settings X) (nc_bundleName cur) then ClearPreviousIme (nv_settings X)
           else do {
             SavePreviousIme (nv_settings X) (nc_bundleName cur) (nc_subName cur);
             void (SwitchToDefaultIme X userId) } } })"

definition OnExamModeOff :: "'d sa_env \<Rightarrow> int option \<Rightarrow> ('d, unit) sao" where
  "OnExamModeOff X msg = (case msg of None \<Rightarrow> ret ()
     | Some userId \<Rightarrow>
       if userId = INVALID_USER_ID then ret ()
       else do {
         (b, _) \<leftarrow> gets GetPreviousIme;
         when_do (b \<noteq> '''') (do {
           r \<leftarrow> SwitchToPreviousIme X userId;
           when_do (r = NO_ERROR) (ClearPreviousIme (nv_settings X)) });
         SetExamMode (nv_settings X) False })"

section \<open>The enterprise's backup input method\<close>

definition HandleEDCInputMethodAutoSwitch :: "'d sa_env \<Rightarrow> caller \<Rightarrow> int \<Rightarrow> string \<Rightarrow> ('d, int) sao" where
  "HandleEDCInputMethodAutoSwitch X C userId backup = do {
     info \<leftarrow> GetImeInfo X userId backup '''';
     if info = None then ret NO_ERROR
     else do {
       cur \<leftarrow> GetCurrentInputMethod X userId;
       (case cur of None \<Rightarrow> ret ERROR_NULL_POINTER
        | Some p \<Rightarrow> if pr_name p = '''' then ret ERROR_NULL_POINTER
            else if pr_name p = nc_bundleName (GetDefaultIme (nv_settings X))
            then SwitchInputMethodInner X C userId backup '''' IMSA else ret NO_ERROR) } }"

definition SetEDCDefaultInputMethod :: "'d sa_env \<Rightarrow> caller \<Rightarrow> string \<Rightarrow> ('d, int) sao" where
  "SetEDCDefaultInputMethod X C backup =
     (if backup = '''' then ret ERROR_PARAMETER_CHECK_FAILED
      else do {
        native \<leftarrow> facts X (is_native C);
        if \<not> native then ret ERROR_STATUS_SYSTEM_PERMISSION
        else do {
          userId \<leftarrow> gets (GetCallingUserId X C);
          if userId < 0 then ret ERROR_IME_NOT_FOUND
          else do {
            ok \<leftarrow> SetEDCBackupInputMethod (se_ds (nv_settings X)) userId backup;
            if \<not> ok then ret ERROR_EX_SERVICE_SPECIFIC else HandleEDCInputMethodAutoSwitch X C userId backup } } })"

text \<open>The current input method's name, if there is one.\<close>

definition current_name :: "'d sa_env \<Rightarrow> int \<Rightarrow> ('d, string) sao" where
  "current_name X userId = do {
     cur \<leftarrow> GetCurrentInputMethod X userId;
     ret (case cur of None \<Rightarrow> '''' | Some p \<Rightarrow> pr_name p) }"

definition HandleEDCInputMethodInstall :: "'d sa_env \<Rightarrow> int \<Rightarrow> string \<Rightarrow> ('d, unit) sao" where
  "HandleEDCInputMethodInstall X userId installed = (let dflt = nc_bundleName (GetDefaultIme (nv_settings X)) in
     if dflt = '''' then ret ()
     else do {
       (ok, backup) \<leftarrow> GetEDCBackupInputMethod (se_ds (nv_settings X)) userId '''';
       if \<not> ok \<or> installed \<noteq> backup then ret ()
       else do {
         cur \<leftarrow> current_name X userId;
         when_do (cur \<noteq> '''' \<and> cur = dflt)
           (void (SwitchInputMethodInner X (sx_self X) userId backup '''' IMSA)) } })"

definition HandleEDCInputMethodRemove :: "'d sa_env \<Rightarrow> int \<Rightarrow> string \<Rightarrow> ('d, unit) sao" where
  "HandleEDCInputMethodRemove X userId removed = (let dflt = nc_bundleName (GetDefaultIme (nv_settings X)) in
     if dflt = '''' then ret ()
     else do {
       (ok, backup) \<leftarrow> GetEDCBackupInputMethod (se_ds (nv_settings X)) userId '''';
       if \<not> ok then ret ()
       else do {
         cur \<leftarrow> current_name X userId;
         if cur = '''' then ret ()
         else if removed = backup \<and> cur = backup
           then void (SwitchInputMethodInner X (sx_self X) userId dflt '''' IMSA)
         else if removed = cur \<and> removed \<noteq> backup then do {
           info \<leftarrow> GetImeInfo X userId backup '''';
           void (SwitchInputMethodInner X (sx_self X) userId (if info \<noteq> None then backup else dflt) '''' IMSA) }
         else ret () } })"

section \<open>Restoring\<close>

fun restore_item :: "cjson \<Rightarrow> json list \<Rightarrow> string" where
  "restore_item cj [] = ''''"
| "restore_item cj (item # items) =
     (case (GetSubNode cj item ''type'', GetSubNode cj item ''detail'') of
        (Some (JString t), Some (JString d)) \<Rightarrow> if t = ''default_input_method'' then d else restore_item cj items
      | _ \<Rightarrow> restore_item cj items)"

definition GetRestoreBundleName :: "cjson \<Rightarrow> string \<Rightarrow> string" where
  "GetRestoreBundleName cj jsonString =
     (if jsonString = '''' then ''''
      else case cj_parse cj jsonString of
          None \<Rightarrow> '''' | Some (JArray items) \<Rightarrow> restore_item cj items
        | Some (JObject ms) \<Rightarrow> restore_item cj (map snd ms) | Some _ \<Rightarrow> '''')"

definition IsValidBundleName :: "'d sa_env \<Rightarrow> caller \<Rightarrow> string \<Rightarrow> ('d, bool) sao" where
  "IsValidBundleName X C bundleName =
     (if bundleName = '''' then ret False
      else do {
        u \<leftarrow> gets (GetCallingUserId_for X C (- 1));
        (case u of Inl _ \<Rightarrow> ret False
         | Inr u \<Rightarrow> do {
             (r, props) \<leftarrow> ListInputMethod X u ALL_IMES;
             ret (r = NO_ERROR \<and> bundleName \<in> pr_name ` set props) }) })"

definition RestoreInputmethod :: "'d sa_env \<Rightarrow> caller \<Rightarrow> string \<Rightarrow> ('d, int) sao" where
  "RestoreInputmethod X C bundleName = do {
     userId \<leftarrow> gets (GetCallingUserId X C);
     u \<leftarrow> gets (GetCallingUserId_for X C userId);
     cur \<leftarrow> (case u of Inl _ \<Rightarrow> ret '''' | Inr u \<Rightarrow> current_name X u);
     if cur = bundleName then ret NO_ERROR
     else do {
       r \<leftarrow> (if nc_bundleName (GetDefaultIme (nv_settings X)) \<noteq> bundleName
             then EnableIme_user X userId bundleName '''' BASIC_MODE else ret NO_ERROR);
       if r \<noteq> NO_ERROR then ret ERROR_ENABLE_IME
       else queue_switch X C userId (switch_to bundleName '''') } }"

definition OnExtension :: "'d sa_env \<Rightarrow> caller \<Rightarrow> string \<Rightarrow> string \<Rightarrow> ('d, int) sao" where
  "OnExtension X C extension jsonString =
     (if extension = ''restore'' then do {
        let bundleName = GetRestoreBundleName (nv_cj X) jsonString;
        valid \<leftarrow> IsValidBundleName X C bundleName;
        if \<not> valid then ret ERROR_BAD_PARAMETERS else RestoreInputmethod X C bundleName }
      else ret 0)"

end
