(* ===== verification/Sa_Requests.thy ===== *)
theory Sa_Requests
  imports Sa_Switch
begin

text \<open>
  The requests of clients, of input methods and of system applications to the system ability
  (\<open>input_method_system_ability.cpp\<close>): each with the checks of its caller and the operation of the caller's
  session that it leads to. The argument \<open>C\<close> is the caller.
\<close>

section \<open>Attaching a client\<close>

definition GenerateClientInfo ::
  "'d sa_env \<Rightarrow> caller \<Rightarrow> int \<Rightarrow> input_client_info \<Rightarrow> focused_info \<Rightarrow> ('d, int \<times> input_client_info) sao" where
  "GenerateClientInfo X C userId ci focused =
     (if ci_client ci = None \<or> ci_channel ci = None then ret (ERROR_IMSA_NULLPTR, ci)
      else do {
        w \<leftarrow> gets sd_world;
        has \<leftarrow> gets (has_session userId);
        (case sx_deathRecipient X w of None \<Rightarrow> ret (ERROR_IMSA_MALLOC_FAILED, ci)
         | Some dr \<Rightarrow> do {
             let F = sx_facts X w;
             let hosted = (fi_uiExtensionHostPid focused \<noteq> INVALID_PID);
             let bundleName = GetBundleNameByToken F (cl_tokenId C);
             let cfg = ci_config ci;
             let attr = (tc_inputAttribute cfg)\<lparr>ia_bundleName := bundleName,
                   ia_editorWindowId := fi_windowId focused, ia_editorDisplayId := fi_displayId focused,
                   ia_windowId := fi_keyboardWindowId focused, ia_callingDisplayId := fi_keyboardDisplayId focused,
                   ia_displayGroupId := fi_keyboardDisplayGroupId focused,
                   ia_needAutoInputNumkey := (if has then sx_numkeyApp X w userId bundleName
                      else ia_needAutoInputNumkey (tc_inputAttribute cfg))\<rparr>;
             ret (NO_ERROR, ci\<lparr>ci_pid := cl_pid C, ci_uid := cl_uid C, ci_userID := userId, ci_deathRecipient := Some dr,
               ci_uiExtensionTokenId := (if hosted then cl_tokenId C else IMF_INVALID_TOKENID),
               ci_uiExtensionHostPid := (if hosted then fi_uiExtensionHostPid focused else INVALID_PID),
               ci_config := cfg\<lparr>tc_privateCommand := AList.update ''displayId''
                   (display_id_value (GetDisplayIdByWindowId (sx_wm X w) (sint (tc_windowId cfg)) userId)) (tc_privateCommand cfg),
                 tc_inputAttribute := attr\<rparr>,
               ci_name := sx_appName X w (cl_tokenId C), ci_clientGroupId := fi_displayGroupId focused\<rparr>) }) })"

definition PrepareInput_sa ::
  "'d sa_env \<Rightarrow> caller \<Rightarrow> int \<Rightarrow> input_client_info \<Rightarrow> focused_info \<Rightarrow> ('d, int \<times> input_client_info) sao" where
  "PrepareInput_sa X C userId ci focused = do {
     (r, ci) \<leftarrow> GenerateClientInfo X C userId ci focused;
     if r \<noteq> NO_ERROR then ret (r, ci)
     else do {
       r \<leftarrow> in_session X userId ERROR_IMSA_USER_SESSION_NOT_FOUND (\<lambda>E. OnPrepareInput E ci);
       ret (r, ci) } }"

text \<open>The package of the user's running input method, for the event reports.\<close>

definition GetCurrentImeInfoForHiSysEvent :: "'d sa_env \<Rightarrow> int \<Rightarrow> ('d, pid_t \<times> string) sao" where
  "GetCurrentImeInfoForHiSysEvent X userId = do {
     session \<leftarrow> gets (GetUserSession userId);
     (case session of None \<Rightarrow> do {
          cur \<leftarrow> GetCurrentImeCfg (nv_settings X) userId;
          ret (0, nc_bundleName cur) }
      | Some ss \<Rightarrow> ret (case GetRealImeData False ss of None \<Rightarrow> (0, '''') | Some d \<Rightarrow> (im_pid d, fst (im_ime d)))) }"

definition GetSecurityInputType :: "input_client_info \<Rightarrow> input_type" where
  "GetSecurityInputType ci = (if GetSecurityFlag (ci_attribute ci) then SECURITY_INPUT else NONE)"

definition NeedHideWhenSwitchInputType :: "'d sa_env \<Rightarrow> int \<Rightarrow> input_type \<Rightarrow> bool \<Rightarrow> ('d, bool) sao" where
  "NeedHideWhenSwitchInputType X userId type needHide =
     (if \<not> needHide then ret False
      else do {
        (_, ime) \<leftarrow> type_ime X (Some type);
        session \<leftarrow> gets (GetUserSession userId);
        ret (case session of None \<Rightarrow> False
          | Some ss \<Rightarrow> (case GetRealImeData True ss of None \<Rightarrow> False
              | Some d \<Rightarrow> fst (im_ime d) = ime_identification.ii_bundleName ime)) })"

text \<open>The part that the two operations share: hide first only if the input method stays the same.\<close>

definition start_special :: "'d sa_env \<Rightarrow> caller \<Rightarrow> int \<Rightarrow> input_type \<Rightarrow> input_client_info \<Rightarrow> ('d, int \<times> input_client_info) sao" where
  "start_special X C userId type ci = do {
     hide \<leftarrow> NeedHideWhenSwitchInputType X userId type (ci_needHide ci);
     r \<leftarrow> StartInputType_user X C userId (Some type) True;
     ret (r, ci\<lparr>ci_needHide := hide\<rparr>) }"

definition StartSecurityIme :: "'d sa_env \<Rightarrow> caller \<Rightarrow> int \<Rightarrow> input_client_info \<Rightarrow> ('d, int \<times> input_client_info) sao" where
  "StartSecurityIme X C userId ci = do {
     let type = GetSecurityInputType ci;
     itm \<leftarrow> gets nq_itm;
     if \<not> it_isStarted itm then start_special X C userId type ci
     else if \<not> ci_isNotifyInputStart ci then ret (NO_ERROR, ci)
     else if \<not> IsInputTypeImeStarted type itm then start_special X C userId type ci
     else ret (NO_ERROR, ci) }"

definition StartStylusIme :: "'d sa_env \<Rightarrow> caller \<Rightarrow> int \<Rightarrow> input_client_info \<Rightarrow> ('d, int \<times> input_client_info) sao" where
  "StartStylusIme X C userId ci = do {
     itm \<leftarrow> gets nq_itm;
     if \<not> it_isStarted itm then start_special X C userId STYLUS_INPUT ci
     else if \<not> ci_isNotifyInputStart ci \<and> GetCurrentInputType itm = STYLUS_INPUT then ret (NO_ERROR, ci)
     else if \<not> IsInputTypeImeStarted STYLUS_INPUT itm then start_special X C userId STYLUS_INPUT ci
     else ret (NO_ERROR, ci) }"

definition IsOneTimeCodeInput :: "input_client_info \<Rightarrow> bool" where
  "IsOneTimeCodeInput ci \<longleftrightarrow> IsOneTimeCodeFlag (ci_attribute ci) \<or> IsSecurityImeFlag (ci_attribute ci)"

definition GetAlternativeIme :: "'d sa_env \<Rightarrow> int \<Rightarrow> ('d, int \<times> string) sao" where
  "GetAlternativeIme X userId = do {
     (r, props) \<leftarrow> ListInputMethod X userId ENABLE;
     if r = NO_ERROR \<and> props \<noteq> [] then ret (NO_ERROR, pr_name (hd props) @ ''/'' @ pr_id (hd props))
     else do {
       (r, props) \<leftarrow> ListInputMethod X userId DISABLE;
       if r \<noteq> NO_ERROR \<or> props = [] then ret (ERROR_NOT_IME, '''')
       else do {
         r \<leftarrow> EnableIme_user X userId (pr_name (hd props)) '''' BASIC_MODE;
         ret (if r = NO_ERROR then (NO_ERROR, pr_name (hd props) @ ''/'' @ pr_id (hd props)) else (ERROR_NOT_IME, '''')) } } }"

text \<open>The current configuration always exists, so that the alternative is never asked for.\<close>

definition GetScreenLockIme :: "'d sa_env \<Rightarrow> int \<Rightarrow> ('d, int \<times> string) sao" where
  "GetScreenLockIme X userId = (case GetDefaultImeCfg (nv_settings X) of
     Some i \<Rightarrow> ret (NO_ERROR, nc_imeId i)
   | None \<Rightarrow> do { cur \<leftarrow> GetCurrentImeCfg (nv_settings X) userId; ret (NO_ERROR, nc_imeId cur) })"

definition EnsureImeAvailable :: "'d sa_env \<Rightarrow> caller \<Rightarrow> int \<Rightarrow> input_client_info \<Rightarrow> ('d, int \<times> input_client_info) sao" where
  "EnsureImeAvailable X C userId ci =
     (if IsSecurityImeFlag (ci_attribute ci) then StartSecurityIme X C userId ci
      else do {
        has \<leftarrow> gets (has_session userId);
        itm \<leftarrow> gets nq_itm;
        if \<not> has then ret (ERROR_IMSA_USER_SESSION_NOT_FOUND, ci)
        else if \<not> ci_isNotifyInputStart ci \<and> it_isStarted itm \<and> GetCurrentInputType itm \<noteq> STYLUS_INPUT then ret (NO_ERROR, ci)
        else do {
          when_do (ci_isNotifyInputStart ci \<and> it_isStarted itm) (void (in_session X userId 0 RestoreCurrentImeSubType));
          lock \<leftarrow> gets (ask_session X userId (\<lambda>E _. e_screenLockMgr E));
          locked \<leftarrow> gets (ask_session X userId IsDeviceLockAndScreenLocked);
          if lock = Some True \<and> locked = Some True then do {
            (r, ime) \<leftarrow> GetScreenLockIme X userId;
            if r \<noteq> NO_ERROR then ret (ERROR_IMSA_IME_TO_START_NULLPTR, ci)
            else do {
              SetTmpIme (nv_settings X) userId ime;
              r \<leftarrow> in_session X userId ERROR_NULL_POINTER StartUserSpecifiedIme;
              ret (r, ci) } }
          else do {
            when_do (lock = Some True) (void (SetTmpIme (nv_settings X) userId ''''));
            specified \<leftarrow> gets (ask_session X userId (\<lambda>E. IsPreconfiguredDefaultImeSpecified E ci));
            if specified = Some True then do {
              r \<leftarrow> in_session X userId (ERROR_NULL_POINTER, NO_NEED) (\<lambda>E. StartPreconfiguredDefaultIme E [] False);
              ret (fst r, ci) }
            else if ci_isStylusActivation ci then StartStylusIme X C userId ci
            else do {
              stylus \<leftarrow> gets (\<lambda>s. IsStylusImeStarted (nq_itm s));
              when_do stylus (set_type False no_ime);
              r \<leftarrow> in_session X userId ERROR_NULL_POINTER StartUserSpecifiedIme;
              ret (r, ci) } } } })"

definition PostPttDialogTask :: "'d sa_env \<Rightarrow> int \<Rightarrow> ('d, unit) sao" where
  "PostPttDialogTask X userId = modify (\<lambda>s. if \<not> nv_enablePushToTalk X \<or> \<not> sa_serviceHandler s then s
     else s\<lparr>sa_tasks := filter (\<lambda>t. case t of PttDialogTask _ \<Rightarrow> False | _ \<Rightarrow> True) (sa_tasks s) @ [PttDialogTask userId]\<rparr>)"

text \<open>The code, what the client is told of the input methods it is bound to, and \<open>failedByUnavailableIme\<close>.\<close>

definition StartInputInner ::
  "'d sa_env \<Rightarrow> caller \<Rightarrow> input_client_info \<Rightarrow> ('d, int \<times> (robj \<times> pid_t \<times> string) list \<times> bool) sao" where
  "StartInputInner X C ci = do {
     userId \<leftarrow> gets (GetCallingUserId X C);
     (focused, info) \<leftarrow> IsFocusedOrBroker X C userId (tc_windowId (ci_config ci)) (tc_abilityToken (ci_config ci));
     if \<not> focused then ret (ERROR_CLIENT_NOT_FOCUSED, [], False)
     else do {
       has \<leftarrow> gets (has_session userId);
       if \<not> has then ret (ERROR_IMSA_USER_SESSION_NOT_FOUND, [], False)
       else do {
         let displayId = fi_displayId info;
         known \<leftarrow> gets (ask_session X userId (\<lambda>E ss. GetCurrentClientPid_s E displayId ss = cl_pid C \<or>
                GetInactiveClientPid_s E displayId ss = cl_pid C));
         let ci = (if known = Some True then ci else ci\<lparr>ci_isNotifyInputStart := True\<rparr>);
         conv \<leftarrow> gets (ask_session X userId (\<lambda>E. CheckPwdInputPatternConv E ci displayId));
         let ci = (if conv = Some True then ci\<lparr>ci_needHide := True, ci_isNotifyInputStart := True\<rparr> else ci);
         (r, ci) \<leftarrow> PrepareInput_sa X C userId ci info;
         if r \<noteq> NO_ERROR then ret (r, [], False)
         else do {
           toBind \<leftarrow> gets (ask_session X userId (\<lambda>E. GetReadyImeDataToBind E displayId));
           (r, ci) \<leftarrow> (case toBind of
                Some (Some d) \<Rightarrow> if IsRealIme d then EnsureImeAvailable X C userId ci else ret (NO_ERROR, ci)
              | _ \<Rightarrow> do { set_type False no_ime; EnsureImeAvailable X C userId ci });
           if r \<noteq> NO_ERROR then ret (r, [], True)
           else do {
             (r, infos) \<leftarrow> in_session X userId (ERROR_NULL_POINTER, []) (\<lambda>E. OnStartInput E ci);
             when_do (r = NO_ERROR) (PostPttDialogTask X userId);
             ret (r, infos, False) } } } } }"

definition IncreaseAttachCount_sa :: "'d sa_env \<Rightarrow> caller \<Rightarrow> ('d, unit) sao" where
  "IncreaseAttachCount_sa X C = do { u \<leftarrow> gets (GetCallingUserId X C); in_session X u () (\<lambda>_. IncreaseAttachCount) }"

definition DecreaseAttachCount_sa :: "'d sa_env \<Rightarrow> caller \<Rightarrow> ('d, unit) sao" where
  "DecreaseAttachCount_sa X C = do { u \<leftarrow> gets (GetCallingUserId X C); in_session X u () (\<lambda>_. DecreaseAttachCount) }"

definition StartInput_sa ::
  "'d sa_env \<Rightarrow> caller \<Rightarrow> input_client_info_inner \<Rightarrow> ('d, int \<times> (robj \<times> pid_t \<times> string) list) sao" where
  "StartInput_sa X C inner = do {
     IncreaseAttachCount_sa X C;
     userId \<leftarrow> gets (GetCallingUserId X C);
     (r, infos, failed) \<leftarrow> StartInputInner X C (InnerToInputClientInfo inner);
     in_session X userId () (\<lambda>_. SetAttachFailedByUnavailableImeFlag failed);
     name \<leftarrow> (case infos of i # _ \<Rightarrow> ret (snd (snd i))
        | [] \<Rightarrow> do { u \<leftarrow> gets (GetCallingUserId X C); (_, n) \<leftarrow> GetCurrentImeInfoForHiSysEvent X u; ret n });
     sa_emit (ReportAttach r name);
     DecreaseAttachCount_sa X C;
     ret (r, infos) }"

section \<open>Clients\<close>

definition ReleaseInput_sa :: "'d sa_env \<Rightarrow> caller \<Rightarrow> robj option \<Rightarrow> u32 \<Rightarrow> int \<Rightarrow> ('d, int) sao" where
  "ReleaseInput_sa X C client sessionId clientSessionId =
     (if client = None then ret ERROR_CLIENT_NULL_POINTER
      else do {
        userId \<leftarrow> gets (GetCallingUserId X C);
        in_session X userId ERROR_NULL_POINTER (\<lambda>E. OnReleaseInput E client sessionId clientSessionId) })"

text \<open>
  A stylus starts its input method for the client of the calling process; without one, an input method that a
  stylus started is left. The client's record in the session keeps what \<open>StartStylusIme\<close> stores in it.
\<close>

definition stylus_client :: "'d sa_env \<Rightarrow> caller \<Rightarrow> int \<Rightarrow> (u64 \<times> input_client_info) option \<Rightarrow> ('d, int) sao" where
  "stylus_client X C userId found = (case found of None \<Rightarrow> ret NO_ERROR
     | Some (gid, ci) \<Rightarrow>
       if IsOneTimeCodeInput ci then ret NO_ERROR
       else do {
         (r, ci') \<leftarrow> StartStylusIme X C userId ci;
         in_session X userId () (\<lambda>_. upd_client gid (ci_client ci) (\<lambda>x. x\<lparr>ci_needHide := ci_needHide ci'\<rparr>));
         ret r })"

definition leave_stylus :: "'d sa_env \<Rightarrow> int \<Rightarrow> ('d, unit) sao" where
  "leave_stylus X userId = do {
     stylus \<leftarrow> gets (\<lambda>s. IsStylusImeStarted (nq_itm s));
     when_do stylus (do {
       set_type False no_ime;
       void (in_session X userId 0 StartUserSpecifiedIme) }) }"

definition find_client :: "int \<Rightarrow> (session \<Rightarrow> (u64 \<times> input_client_info) option) \<Rightarrow> 'd sa \<Rightarrow> (u64 \<times> input_client_info) option" where
  "find_client userId f s = (case GetUserSession userId s of None \<Rightarrow> None | Some ss \<Rightarrow> f ss)"

definition stylus_part :: "'d sa_env \<Rightarrow> caller \<Rightarrow> int \<Rightarrow> bool \<Rightarrow> ('d, int) sao" where
  "stylus_part X C userId isStylusActivation =
     (if isStylusActivation then do {
        found \<leftarrow> gets (find_client userId (GetClientBySelfPidOrHostPid (cl_pid C)));
        stylus_client X C userId found }
      else do { leave_stylus X userId; ret NO_ERROR })"

definition ShowInputInner :: "'d sa_env \<Rightarrow> caller \<Rightarrow> robj option \<Rightarrow> u32 \<Rightarrow> int \<Rightarrow> bool \<Rightarrow> ('d, int) sao" where
  "ShowInputInner X C client windowId requestKeyboardReason isStylusActivation = do {
     r \<leftarrow> PrepareForOperateKeyboard X C windowId;
     if r \<noteq> NO_ERROR then ret r
     else if client = None then ret ERROR_CLIENT_NULL_POINTER
     else do {
       userId \<leftarrow> gets (GetCallingUserId X C);
       r \<leftarrow> stylus_part X C userId isStylusActivation;
       if r \<noteq> NO_ERROR then ret r
       else in_session X userId ERROR_NULL_POINTER (\<lambda>E. OnShowInput E client requestKeyboardReason) } }"

text \<open>The three requests to show report what they did, with the input method of before.\<close>

definition reported_show :: "'d sa_env \<Rightarrow> caller \<Rightarrow> ('d, int) sao \<Rightarrow> ('d, int) sao" where
  "reported_show X C m = do {
     userId \<leftarrow> gets (GetCallingUserId X C);
     (_, name) \<leftarrow> GetCurrentImeInfoForHiSysEvent X userId;
     r \<leftarrow> m;
     sa_emit (ReportShow r name);
     ret r }"

definition ShowInput_sa :: "'d sa_env \<Rightarrow> caller \<Rightarrow> robj option \<Rightarrow> u32 \<Rightarrow> int \<Rightarrow> bool \<Rightarrow> ('d, int) sao" where
  "ShowInput_sa X C client windowId reason isStylusActivation =
     reported_show X C (ShowInputInner X C client windowId reason isStylusActivation)"

definition HideInput_sa :: "'d sa_env \<Rightarrow> caller \<Rightarrow> robj option \<Rightarrow> u32 \<Rightarrow> ('d, int) sao" where
  "HideInput_sa X C client windowId = do {
     r \<leftarrow> PrepareForOperateKeyboard X C windowId;
     if r \<noteq> NO_ERROR then ret r
     else if client = None then ret ERROR_CLIENT_NULL_POINTER
     else do { userId \<leftarrow> gets (GetCallingUserId X C); in_session X userId ERROR_NULL_POINTER (\<lambda>E. OnHideInput E client) } }"

definition StopInputSession :: "'d sa_env \<Rightarrow> caller \<Rightarrow> u32 \<Rightarrow> ('d, int) sao" where
  "StopInputSession X C windowId = do {
     r \<leftarrow> PrepareForOperateKeyboard X C windowId;
     if r \<noteq> NO_ERROR then ret r
     else do {
       userId \<leftarrow> gets (GetCallingUserId X C);
       found \<leftarrow> gets (find_client userId (GetClientBySelfPidOrHostPid (cl_pid C)));
       (case found of None \<Rightarrow> ret ERROR_CLIENT_NOT_FOUND
        | Some (_, ci) \<Rightarrow> in_session X userId ERROR_NULL_POINTER (\<lambda>E. OnHideCurrentInput E (ci_clientGroupId ci))) } }"

definition RequestHideInput_sa :: "'d sa_env \<Rightarrow> caller \<Rightarrow> u32 \<Rightarrow> u64 \<Rightarrow> bool \<Rightarrow> int \<Rightarrow> ('d, int) sao" where
  "RequestHideInput_sa X C windowId displayId isFocusTriggered userId = do {
     u \<leftarrow> gets (GetCallingUserId_for X C userId);
     (case u of Inl e \<Rightarrow> ret e
      | Inr u \<Rightarrow> do {
          has \<leftarrow> gets (has_session u);
          if \<not> has then ret ERROR_NULL_POINTER
          else do {
            W \<leftarrow> on_world (sx_wm X);
            F \<leftarrow> on_world (sx_facts X);
            (focused, _) \<leftarrow> window_op (IsFocused W F (cl_pid C) (cl_tokenId C) u windowId None);
            if \<not> focused \<and> (isFocusTriggered \<or> \<not> may_connect C F) then ret ERROR_STATUS_PERMISSION_DENIED
            else in_session X u ERROR_NULL_POINTER (\<lambda>E. OnRequestHideInput E (GetDisplayIdWithCorrect W (sint windowId) displayId u)
                   (if focused then GetBundleNameByToken F (cl_tokenId C) else '''')) } }) }"

definition SetCallingWindow_sa :: "'d sa_env \<Rightarrow> caller \<Rightarrow> u32 \<Rightarrow> robj option \<Rightarrow> ('d, int) sao" where
  "SetCallingWindow_sa X C windowId client = do {
     userId \<leftarrow> gets (GetCallingUserId X C);
     (focused, info) \<leftarrow> IsFocusedOrBroker X C userId windowId None;
     if \<not> focused then ret ERROR_CLIENT_NOT_FOCUSED
     else in_session X userId ERROR_IMSA_USER_SESSION_NOT_FOUND (\<lambda>E. OnSetCallingWindow E info client windowId) }"

definition HideCurrentInput_sa :: "'d sa_env \<Rightarrow> caller \<Rightarrow> ('d, int) sao" where
  "HideCurrentInput_sa X C = do {
     userId \<leftarrow> gets (GetCallingUserId X C);
     has \<leftarrow> gets (has_session userId);
     F \<leftarrow> on_world (sx_facts X);
     if \<not> has then ret ERROR_NULL_POINTER
     else if \<not> IsBroker F (cl_tokenId C) \<and> \<not> may_connect C F then ret ERROR_STATUS_PERMISSION_DENIED
     else in_session X userId ERROR_NULL_POINTER (\<lambda>E. OnHideCurrentInput E DEFAULT_DISPLAY_GROUP_ID) }"

text \<open>The checks of the two requests for a display, after those on the session and the display.\<close>

definition display_permission :: "caller \<Rightarrow> caller_facts \<Rightarrow> int" where
  "display_permission C F =
     (if IsBroker F (cl_tokenId C) then NO_ERROR
      else if \<not> is_system C F then ERROR_STATUS_SYSTEM_PERMISSION
      else if \<not> may_connect C F then ERROR_STATUS_PERMISSION_DENIED else NO_ERROR)"

definition HideCurrentInput_display :: "'d sa_env \<Rightarrow> caller \<Rightarrow> u64 \<Rightarrow> ('d, int) sao" where
  "HideCurrentInput_display X C displayId = do {
     userId \<leftarrow> gets (GetCallingUserId X C);
     has \<leftarrow> gets (has_session userId);
     there \<leftarrow> gets (\<lambda>s. IsDisplayIdExist displayId userId (sa_groups s));
     r \<leftarrow> facts X (display_permission C);
     if \<not> has then ret ERROR_IMSA_USER_SESSION_NOT_FOUND
     else if \<not> there then ret ERROR_PARAMETER_CHECK_FAILED
     else if r \<noteq> NO_ERROR then ret r
     else in_session X userId ERROR_NULL_POINTER (\<lambda>E. OnHideCurrentInputInTargetDisplay E displayId) }"

definition ShowCurrentInputInner :: "'d sa_env \<Rightarrow> caller \<Rightarrow> bool \<Rightarrow> ('d, int) sao" where
  "ShowCurrentInputInner X C isStylusActivation = do {
     userId \<leftarrow> gets (GetCallingUserId X C);
     has \<leftarrow> gets (has_session userId);
     F \<leftarrow> on_world (sx_facts X);
     if \<not> has then ret ERROR_IMSA_USER_SESSION_NOT_FOUND
     else if \<not> IsBroker F (cl_tokenId C) \<and> \<not> may_connect C F then ret ERROR_STATUS_PERMISSION_DENIED
     else do {
       r \<leftarrow> stylus_part X C userId isStylusActivation;
       if r \<noteq> NO_ERROR then ret r
       else in_session X userId ERROR_NULL_POINTER (\<lambda>E. OnShowCurrentInput E DEFAULT_DISPLAY_GROUP_ID) } }"

text \<open>Here the stylus comes before the check of the permission.\<close>

definition ShowCurrentInputInner_display :: "'d sa_env \<Rightarrow> caller \<Rightarrow> u64 \<Rightarrow> bool \<Rightarrow> ('d, int) sao" where
  "ShowCurrentInputInner_display X C displayId isStylusActivation = do {
     userId \<leftarrow> gets (GetCallingUserId X C);
     has \<leftarrow> gets (has_session userId);
     there \<leftarrow> gets (\<lambda>s. IsDisplayIdExist displayId userId (sa_groups s));
     if \<not> has then ret ERROR_IMSA_USER_SESSION_NOT_FOUND
     else if \<not> there then ret ERROR_PARAMETER_CHECK_FAILED
     else do {
       r \<leftarrow> stylus_part X C userId isStylusActivation;
       if r \<noteq> NO_ERROR then ret r
       else do {
         r \<leftarrow> facts X (display_permission C);
         if r \<noteq> NO_ERROR then ret r
         else in_session X userId ERROR_NULL_POINTER (\<lambda>E. OnShowCurrentInputInTargetDisplay E displayId) } } }"

definition ShowCurrentInput_sa :: "'d sa_env \<Rightarrow> caller \<Rightarrow> bool \<Rightarrow> ('d, int) sao" where
  "ShowCurrentInput_sa X C isStylusActivation = reported_show X C (ShowCurrentInputInner X C isStylusActivation)"

definition ShowCurrentInput_display :: "'d sa_env \<Rightarrow> caller \<Rightarrow> u64 \<Rightarrow> bool \<Rightarrow> ('d, int) sao" where
  "ShowCurrentInput_display X C displayId isStylusActivation =
     reported_show X C (ShowCurrentInputInner_display X C displayId isStylusActivation)"

definition HideCurrentInputDeprecated :: "'d sa_env \<Rightarrow> caller \<Rightarrow> u32 \<Rightarrow> ('d, int) sao" where
  "HideCurrentInputDeprecated X C windowId = do {
     r \<leftarrow> PrepareForOperateKeyboard X C windowId;
     if r \<noteq> NO_ERROR then ret r
     else do {
       userId \<leftarrow> gets (GetCallingUserId X C);
       found \<leftarrow> gets (find_client userId (GetClientBySelfPid (cl_pid C)));
       (case found of None \<Rightarrow> ret ERROR_CLIENT_NOT_FOUND
        | Some (_, ci) \<Rightarrow> in_session X userId ERROR_NULL_POINTER (\<lambda>E. OnHideCurrentInput E (ci_clientGroupId ci))) } }"

definition ShowCurrentInputDeprecated :: "'d sa_env \<Rightarrow> caller \<Rightarrow> u32 \<Rightarrow> bool \<Rightarrow> ('d, int) sao" where
  "ShowCurrentInputDeprecated X C windowId isStylusActivation = do {
     r \<leftarrow> PrepareForOperateKeyboard X C windowId;
     if r \<noteq> NO_ERROR then ret r
     else do {
       userId \<leftarrow> gets (GetCallingUserId X C);
       found \<leftarrow> gets (find_client userId (GetClientBySelfPid (cl_pid C)));
       (case found of None \<Rightarrow> ret ERROR_CLIENT_NOT_FOUND
        | Some (_, ci) \<Rightarrow> do {
            r \<leftarrow> (if isStylusActivation \<and> \<not> IsOneTimeCodeInput ci then stylus_client X C userId found
                  else do { leave_stylus X userId; ret NO_ERROR });
            if r \<noteq> NO_ERROR then ret r
            else in_session X userId ERROR_NULL_POINTER (\<lambda>E. OnShowCurrentInput E (ci_clientGroupId ci)) }) } }"

end
