(* ===== verification/Sa_Queries.thy ===== *)
theory Sa_Queries
  imports Sa_Requests
begin

text \<open>
  The requests of input methods to the system ability, the queries, and the registration of listeners
  (\<open>input_method_system_ability.cpp\<close>).
\<close>

section \<open>Input methods\<close>

definition SetCoreAndAgent_sa :: "'d sa_env \<Rightarrow> caller \<Rightarrow> robj option \<Rightarrow> robj option \<Rightarrow> ('d, int) sao" where
  "SetCoreAndAgent_sa X C core agent = do {
     userId \<leftarrow> gets (GetCallingUserId X C);
     has \<leftarrow> gets (has_session userId);
     cur \<leftarrow> gets (IsCurrentIme_sa X userId (cl_tokenId C));
     if \<not> has then ret ERROR_NULL_POINTER
     else if \<not> cur then ret ERROR_NOT_CURRENT_IME
     else in_session X userId ERROR_NULL_POINTER (\<lambda>E. OnSetCoreAndAgent E core agent (cl_pid C) (cl_uid C)) }"

definition InitConnect_sa :: "'d sa_env \<Rightarrow> caller \<Rightarrow> ('d, int) sao" where
  "InitConnect_sa X C = do {
     userId \<leftarrow> gets (GetCallingUserId X C);
     has \<leftarrow> gets (has_session userId);
     cur \<leftarrow> gets (IsCurrentIme_sa X userId (cl_tokenId C));
     if \<not> has then ret ERROR_NULL_POINTER
     else if \<not> cur then ret ERROR_NOT_CURRENT_IME
     else in_session X userId ERROR_NULL_POINTER (\<lambda>_. InitConnect (cl_pid C)) }"

abbreviation AI_PROXY_IME :: int where "AI_PROXY_IME \<equiv> 7101"

definition proxy_permission :: "'d sa_env \<Rightarrow> caller \<Rightarrow> caller_facts \<Rightarrow> int" where
  "proxy_permission X C F =
     (if cl_uid C = AI_PROXY_IME \<and> \<not> nv_enableAppAgent X then ERROR_DEVICE_UNSUPPORTED
      else if \<not> IsValidVirtualIme F (cl_uid C) then ERROR_NOT_AI_APP_IME else NO_ERROR)"

definition RegisterProxyIme_sa :: "'d sa_env \<Rightarrow> caller \<Rightarrow> u64 \<Rightarrow> robj option \<Rightarrow> robj option \<Rightarrow> ('d, int) sao" where
  "RegisterProxyIme_sa X C displayId core agent = do {
     r \<leftarrow> facts X (proxy_permission X C);
     if r \<noteq> NO_ERROR then ret r
     else do {
       userId \<leftarrow> gets (GetCallingUserId X C);
       in_session X userId ERROR_NULL_POINTER (\<lambda>E. OnRegisterProxyIme E displayId core agent (cl_pid C) (cl_uid C)) } }"

definition UnregisterProxyIme_sa :: "'d sa_env \<Rightarrow> caller \<Rightarrow> u64 \<Rightarrow> int \<Rightarrow> ('d, int) sao" where
  "UnregisterProxyIme_sa X C displayId type =
     (if type < 0 \<or> type > 1 then ret ERROR_BAD_PARAMETERS
      else do {
        r \<leftarrow> facts X (proxy_permission X C);
        if r \<noteq> NO_ERROR then ret r
        else do {
          userId \<leftarrow> gets (GetCallingUserId X C);
          in_session X userId ERROR_NULL_POINTER (\<lambda>E. OnUnregisterProxyIme E displayId (cl_pid C)
            (if type = 0 then REMOVE_PROXY_IME else SWITCH_PROXY_IME_TO_IME)) } })"

definition mirror_permission :: "'d sa_env \<Rightarrow> caller \<Rightarrow> caller_facts \<Rightarrow> int" where
  "mirror_permission X C F =
     (if \<not> IsCapacitySupport X ''ime_mirror'' then ERROR_DEVICE_UNSUPPORTED
      else if \<not> IsValidVirtualIme F (cl_uid C) then ERROR_NOT_AI_APP_IME else NO_ERROR)"

definition BindImeMirror_sa :: "'d sa_env \<Rightarrow> caller \<Rightarrow> robj option \<Rightarrow> robj option \<Rightarrow> ('d, int) sao" where
  "BindImeMirror_sa X C core agent = do {
     r \<leftarrow> facts X (mirror_permission X C);
     if r \<noteq> NO_ERROR then ret r
     else do {
       userId \<leftarrow> gets (GetCallingUserId X C);
       in_session X userId ERROR_IMSA_USER_SESSION_NOT_FOUND (\<lambda>E. OnBindImeMirror E core agent (cl_pid C) (cl_uid C)) } }"

definition UnbindImeMirror_sa :: "'d sa_env \<Rightarrow> caller \<Rightarrow> ('d, int) sao" where
  "UnbindImeMirror_sa X C = do {
     r \<leftarrow> facts X (mirror_permission X C);
     if r \<noteq> NO_ERROR then ret r
     else do {
       userId \<leftarrow> gets (GetCallingUserId X C);
       in_session X userId ERROR_NULL_POINTER (\<lambda>E. OnUnbindImeMirror E (cl_pid C)) } }"

text \<open>What the input method in use tells the listeners; from any other process it is refused.\<close>

definition as_current_ime :: "'d sa_env \<Rightarrow> caller \<Rightarrow> (int \<Rightarrow> ('d, unit) sao) \<Rightarrow> ('d, int) sao" where
  "as_current_ime X C f = do {
     userId \<leftarrow> gets (GetCallingUserId X C);
     cur \<leftarrow> gets (IsCurrentIme_sa X userId (cl_tokenId C));
     if \<not> cur then ret ERROR_NOT_CURRENT_IME else do { f userId; ret NO_ERROR } }"

definition PanelStatusChange :: "'d sa_env \<Rightarrow> caller \<Rightarrow> window_status \<Rightarrow> ('d, int) sao" where
  "PanelStatusChange X C status = as_current_ime X C (\<lambda>userId. do {
     sa_emit (PublishPanelStatus userId status);
     sa_emit (NotifyPanelStatusToRss (status = SHOW_STATUS));
     calls \<leftarrow> gets (\<lambda>s. NotifyPanelStatusChange userId status () (sa_listeners s));
     tell calls (PanelNotice status userId) })"

definition NotifyInputStart_sa :: "'d sa_env \<Rightarrow> caller \<Rightarrow> ('d, int) sao" where
  "NotifyInputStart_sa X C = as_current_ime X C (\<lambda>userId. do {
     calls \<leftarrow> gets (\<lambda>s. NotifyInputStart userId () (sa_listeners s));
     tell calls (InputStartNotice userId) })"

definition NotifyInputStop_sa :: "'d sa_env \<Rightarrow> caller \<Rightarrow> ('d, int) sao" where
  "NotifyInputStop_sa X C = as_current_ime X C (\<lambda>userId. do {
     calls \<leftarrow> gets (\<lambda>s. NotifyInputStop_l userId () (sa_listeners s));
     tell calls (InputStoppedNotice userId) })"

definition NotifySoftKeyBoardInfoChanged_sa :: "'d sa_env \<Rightarrow> caller \<Rightarrow> ('d, int) sao" where
  "NotifySoftKeyBoardInfoChanged_sa X C = as_current_ime X C (\<lambda>userId. do {
     calls \<leftarrow> gets (\<lambda>s. NotifySoftKeyBoardInfoChanged userId () (sa_listeners s));
     tell calls (KeyboardInfoNotice userId) })"

text \<open>The flag whose permission is checked is the argument; the one that is registered is that of the client.\<close>

definition UpdateListenEventFlag :: "'d sa_env \<Rightarrow> caller \<Rightarrow> input_client_info_inner \<Rightarrow> u32 \<Rightarrow> ('d, int) sao" where
  "UpdateListenEventFlag X C inner eventFlag = do {
     let ci = InnerToInputClientInfo inner;
     F \<leftarrow> on_world (sx_facts X);
     if (IsImeHideOn eventFlag \<or> IsImeShowOn eventFlag \<or> IsInputStatusChangedOn eventFlag \<or> IsSoftKeyboardInfoChangedOn eventFlag) \<and>
        \<not> is_system C F \<and> \<not> is_native C F
     then ret ERROR_STATUS_SYSTEM_PERMISSION
     else do {
       w \<leftarrow> gets sd_world;
       let userId = GetOsAccountLocalIdFromUid (sx_accounts X) (cl_uid C);
       res \<leftarrow> gets (\<lambda>s. UpdateListenerInfo (sx_listenerAlloc X w) (sx_listenerAdd X w) userId
         \<lparr>el_eventFlag = ci_eventFlag ci, el_client = ci_client ci, el_pid = cl_pid C, el_deathRecipient = False\<rparr> (sa_listeners s));
       modify (\<lambda>s. s\<lparr>sa_listeners := snd res\<rparr>);
       ret (fst res) } }"

section \<open>Special input types\<close>

definition IsInputTypeSupported :: "'d sa_env \<Rightarrow> int \<Rightarrow> ('d, bool) sao" where
  "IsInputTypeSupported X type = (case input_type_of type of
     Some t \<Rightarrow> type_query (IsSupported (nv_types X) t)
   | None \<Rightarrow> type_query (\<lambda>m. (False, snd (cfg_ready (nv_types X) m))))"

definition IsDefaultImeFromTokenId :: "'d sa_env \<Rightarrow> int \<Rightarrow> u32 \<Rightarrow> ('d, int) sao" where
  "IsDefaultImeFromTokenId X userId tokenId = do {
     (r, p) \<leftarrow> GetDefaultInputMethod X userId \<lparr>pr_name = '''', pr_id = '''', pr_status = DISABLED\<rparr> True;
     F \<leftarrow> on_world (sx_facts X);
     ret (case p of None \<Rightarrow> ERROR_PERSIST_CONFIG
       | Some p \<Rightarrow> if r \<noteq> NO_ERROR then ERROR_PERSIST_CONFIG
           else if \<not> IsBundleNameValid F tokenId (pr_name p) then ERROR_NOT_DEFAULT_IME else NO_ERROR) }"

definition IsDefaultIme :: "'d sa_env \<Rightarrow> caller \<Rightarrow> ('d, int) sao" where
  "IsDefaultIme X C = do { userId \<leftarrow> gets (GetCallingUserId X C); IsDefaultImeFromTokenId X userId (cl_tokenId C) }"

definition IsInputTypeCaller :: "'d sa_env \<Rightarrow> string \<Rightarrow> ('d, bool) sao" where
  "IsInputTypeCaller X bundleName =
     (if bundleName = '''' then ret False else type_query (IsInputTypeBundle (nv_types X) bundleName))"

definition ExitCurrentInputType :: "'d sa_env \<Rightarrow> caller \<Rightarrow> ('d, int) sao" where
  "ExitCurrentInputType X C = do {
     userId \<leftarrow> gets (GetCallingUserId X C);
     r \<leftarrow> IsDefaultImeFromTokenId X userId (cl_tokenId C);
     F \<leftarrow> on_world (sx_facts X);
     ok \<leftarrow> (if r = NO_ERROR \<or> is_native C F then ret True else IsInputTypeCaller X (GetBundleNameByToken F (cl_tokenId C)));
     if \<not> ok then ret ERROR_NOT_DEFAULT_IME
     else do {
       has \<leftarrow> gets (has_session userId);
       if \<not> has then ret ERROR_NULL_POINTER
       else do {
         set_type False no_ime;
         in_session X userId ERROR_NULL_POINTER (\<lambda>E. StartCurrentIme E False DEFAULT_START) } } }"

section \<open>Queries\<close>

text \<open>A query for a user that the caller may name.\<close>

definition for_user :: "'d sa_env \<Rightarrow> caller \<Rightarrow> int \<Rightarrow> (int \<Rightarrow> ('d, int \<times> 'a) sao) \<Rightarrow> 'a \<Rightarrow> ('d, int \<times> 'a) sao" where
  "for_user X C userId f none = do {
     u \<leftarrow> gets (GetCallingUserId_for X C userId);
     (case u of Inl e \<Rightarrow> ret (e, none) | Inr u \<Rightarrow> f u) }"

definition GetCurrentInputMethod_sa :: "'d sa_env \<Rightarrow> caller \<Rightarrow> int \<Rightarrow> ('d, int \<times> ime_property option) sao" where
  "GetCurrentInputMethod_sa X C userId = for_user X C userId (\<lambda>u. do {
     p \<leftarrow> GetCurrentInputMethod X u;
     ret (if p = None then ERROR_NULL_POINTER else NO_ERROR, p) }) None"

definition GetCurrentInputMethodSubtype :: "'d sa_env \<Rightarrow> caller \<Rightarrow> int \<Rightarrow> ('d, int \<times> sub_property_rec option) sao" where
  "GetCurrentInputMethodSubtype X C userId = for_user X C userId (\<lambda>u. do {
     p \<leftarrow> GetCurrentSubtype X u;
     ret (if p = None then ERROR_NULL_POINTER else NO_ERROR, p) }) None"

definition GetDefaultInputMethod_sa :: "'d sa_env \<Rightarrow> caller \<Rightarrow> ime_property \<Rightarrow> bool \<Rightarrow> int \<Rightarrow> ('d, int \<times> ime_property) sao" where
  "GetDefaultInputMethod_sa X C prp isBrief userId = for_user X C userId (\<lambda>u. do {
     (r, p) \<leftarrow> GetDefaultInputMethod X u prp isBrief;
     ret (r, case p of Some q \<Rightarrow> if r = NO_ERROR then q else prp | None \<Rightarrow> prp) }) prp"

definition GetInputMethodConfig_sa :: "'d sa_env \<Rightarrow> caller \<Rightarrow> int \<Rightarrow> ('d, int \<times> (string \<times> string \<times> string) option) sao" where
  "GetInputMethodConfig_sa X C userId = for_user X C userId (\<lambda>_. ret (NO_ERROR, GetInputMethodConfig X)) None"

definition IsDefaultImeSet_sa :: "'d sa_env \<Rightarrow> caller \<Rightarrow> int \<Rightarrow> ('d, int \<times> bool) sao" where
  "IsDefaultImeSet_sa X C userId = for_user X C userId (\<lambda>u. do {
     b \<leftarrow> IsDefaultImeSet (nv_settings X) u; ret (NO_ERROR, b) }) False"

definition ListInputMethod_sa :: "'d sa_env \<Rightarrow> caller \<Rightarrow> input_method_status \<Rightarrow> int \<Rightarrow> ('d, int \<times> ime_property list) sao" where
  "ListInputMethod_sa X C status userId = for_user X C userId (\<lambda>u. ListInputMethod X u status) []"

definition ListCurrentInputMethodSubtype_sa :: "'d sa_env \<Rightarrow> caller \<Rightarrow> int \<Rightarrow> ('d, int \<times> sub_property_rec list) sao" where
  "ListCurrentInputMethodSubtype_sa X C userId = for_user X C userId (ListCurrentInputMethodSubtype X) []"

definition ListInputMethodSubtype_sa :: "'d sa_env \<Rightarrow> caller \<Rightarrow> string \<Rightarrow> int \<Rightarrow> ('d, int \<times> sub_property_rec list) sao" where
  "ListInputMethodSubtype_sa X C bundleName userId = for_user X C userId (\<lambda>u. ListInputMethodSubtype X u bundleName) []"

definition GetSoftKeyboardInfo_sa :: "'d sa_env \<Rightarrow> caller \<Rightarrow> int \<Rightarrow> ('d, int \<times> bool) sao" where
  "GetSoftKeyboardInfo_sa X C userId = do {
     F \<leftarrow> on_world (sx_facts X);
     if \<not> is_system C F \<and> \<not> is_native C F then ret (ERROR_STATUS_SYSTEM_PERMISSION, False)
     else for_user X C userId (\<lambda>u. in_session X u (ERROR_IMSA_USER_SESSION_NOT_FOUND, False) GetSoftKeyboardInfo_s) False }"

definition GetInputStartInfo_sa ::
  "'d sa_env \<Rightarrow> caller \<Rightarrow> ('d, int \<times> (bool \<times> u32 \<times> u64 \<times> request_keyboard_reason) option) sao" where
  "GetInputStartInfo_sa X C = do {
     native \<leftarrow> facts X (is_native C);
     if \<not> native then ret (ERROR_STATUS_SYSTEM_PERMISSION, None)
     else do {
       userId \<leftarrow> gets (GetCallingUserId X C);
       in_session X userId (ERROR_IMSA_USER_SESSION_NOT_FOUND, None) GetInputStartInfo_s } }"

definition GetCursorInfo_sa :: "'d sa_env \<Rightarrow> caller \<Rightarrow> int \<Rightarrow> ('d, int \<times> u64 option) sao" where
  "GetCursorInfo_sa X C userId = do {
     system \<leftarrow> facts X (is_system C);
     if \<not> system then ret (ERROR_STATUS_SYSTEM_PERMISSION, None)
     else for_user X C userId (\<lambda>u. in_session X u (ERROR_IMSA_USER_SESSION_NOT_FOUND, None) (\<lambda>E. GetCursorInfo_s E (cl_pid C))) None }"

definition IsPanelShown_sa :: "'d sa_env \<Rightarrow> caller \<Rightarrow> panel_info \<Rightarrow> ('d, int \<times> bool) sao" where
  "IsPanelShown_sa X C info = do {
     system \<leftarrow> facts X (is_system C);
     if \<not> system then ret (ERROR_STATUS_SYSTEM_PERMISSION, False)
     else do {
       userId \<leftarrow> gets (GetCallingUserId X C);
       in_session X userId (ERROR_IMSA_USER_SESSION_NOT_FOUND, False) (\<lambda>E. IsPanelShown_s E (pi_panelType info) (pi_panelFlag info)) } }"

definition IsPanelShown_on :: "'d sa_env \<Rightarrow> caller \<Rightarrow> u64 \<Rightarrow> panel_info \<Rightarrow> ('d, int \<times> bool) sao" where
  "IsPanelShown_on X C displayId info = do {
     system \<leftarrow> facts X (is_system C);
     if \<not> system then ret (ERROR_STATUS_SYSTEM_PERMISSION, False)
     else do {
       u \<leftarrow> on_world (\<lambda>w. ac_currentOn (sx_accounts X) w displayId);
       (case u of None \<Rightarrow> ret (ERROR_ACCOUNT_LOCALID_FAILED, False)
        | Some u \<Rightarrow> in_session X u (ERROR_IMSA_USER_SESSION_NOT_FOUND, False)
            (\<lambda>E. IsPanelShown_display E displayId (pi_panelType info) (pi_panelFlag info))) } }"

definition IsCurrentImeByPid_sa :: "'d sa_env \<Rightarrow> caller \<Rightarrow> pid_t \<Rightarrow> int \<Rightarrow> ('d, int \<times> bool) sao" where
  "IsCurrentImeByPid_sa X C pid userId = do {
     F \<leftarrow> on_world (sx_facts X);
     if \<not> is_system C F \<and> \<not> is_native C F then ret (ERROR_STATUS_SYSTEM_PERMISSION, False)
     else for_user X C userId (\<lambda>u. do {
       r \<leftarrow> gets (ask_session X u (\<lambda>_. IsCurrentImeByPid pid));
       ret (case r of None \<Rightarrow> (ERROR_NULL_POINTER, False) | Some b \<Rightarrow> (NO_ERROR, b)) }) False }"

definition IsKeyboardCallingProcess_sa :: "'d sa_env \<Rightarrow> caller \<Rightarrow> pid_t \<Rightarrow> u32 \<Rightarrow> ('d, int \<times> bool) sao" where
  "IsKeyboardCallingProcess_sa X C pid windowId = do {
     userId \<leftarrow> gets (GetCallingUserId X C);
     r \<leftarrow> gets (ask_session X userId (\<lambda>_. IsKeyboardCallingProcess pid windowId));
     ret (case r of None \<Rightarrow> (ERROR_NULL_POINTER, False) | Some b \<Rightarrow> (NO_ERROR, b)) }"

definition IsCapacitySupport_sa :: "'d sa_env \<Rightarrow> int \<Rightarrow> bool \<Rightarrow> int \<times> bool" where
  "IsCapacitySupport_sa X capacity isSupport =
     (if capacity < 0 \<or> capacity \<ge> 6 then (ERROR_PARAMETER_CHECK_FAILED, isSupport)
      else (NO_ERROR,
        if capacity = 0 then IsCapacitySupport X ''immersive_effect''
        else if capacity = 1 then IsCapacitySupport X ''system_panel''
        else if capacity = 2 then nv_disableImmersiveMode X
        else if capacity = 3 then nv_isSupportPcMode X
        else if capacity = 4 then nv_disablePcModeImmersiveMode X
        else nv_isPcMode X))"

definition OnDisplayOptionalInputMethod :: "'d sa_env \<Rightarrow> ('d, int) sao" where
  "OnDisplayOptionalInputMethod X = do {
     r \<leftarrow> on_world (sx_startDialog X);
     sa_emit StartSelectDialog;
     ret (if r \<noteq> NO_ERROR \<and> r \<noteq> sx_activating X then ERROR_EX_SERVICE_SPECIFIC else NO_ERROR) }"

abbreviation SECURITY_BASIC :: int where "SECURITY_BASIC \<equiv> 0"
abbreviation SECURITY_FULL :: int where "SECURITY_FULL \<equiv> 1"

text \<open>The package that asks for its own state: it must be an input method.\<close>

definition own_ime :: "'d sa_env \<Rightarrow> caller \<Rightarrow> int \<Rightarrow> 'd sa \<Rightarrow> string option" where
  "own_ime X C userId s = (let b = Get_token userId (cl_tokenId C) s in
     if b \<noteq> '''' then Some b
     else let b = GetBundleNameByToken (sx_facts X (sd_world s)) (cl_tokenId C) in
       if IsInputMethod (nv_bundles X) (sd_world s) userId b then Some b else None)"

definition GetSecurityMode :: "'d sa_env \<Rightarrow> caller \<Rightarrow> int \<Rightarrow> ('d, int \<times> int) sao" where
  "GetSecurityMode X C security = do {
     userId \<leftarrow> gets (GetCallingUserId X C);
     own \<leftarrow> gets (own_ime X C userId);
     (case own of None \<Rightarrow> ret (ERROR_NOT_IME, security)
      | Some b \<Rightarrow> do {
          (_, status) \<leftarrow> GetEnabledState (nv_settings X) userId b BASIC_MODE;
          ret (NO_ERROR, if status = FULL_EXPERIENCE_MODE then SECURITY_FULL else SECURITY_BASIC) }) }"

definition GetInputMethodState :: "'d sa_env \<Rightarrow> caller \<Rightarrow> enabled_status \<Rightarrow> ('d, int \<times> enabled_status) sao" where
  "GetInputMethodState X C status = do {
     userId \<leftarrow> gets (GetCallingUserId X C);
     own \<leftarrow> gets (own_ime X C userId);
     (case own of None \<Rightarrow> ret (ERROR_NOT_IME, status)
      | Some b \<Rightarrow> do {
          (r, st) \<leftarrow> GetEnabledState (nv_settings X) userId b DISABLED;
          ret (r, if r \<noteq> NO_ERROR then status else st) }) }"

section \<open>Commands\<close>

definition ConnectSystemCmd_sa :: "'d sa_env \<Rightarrow> caller \<Rightarrow> robj option \<Rightarrow> ('d, int \<times> robj option) sao" where
  "ConnectSystemCmd_sa X C channel = do {
     F \<leftarrow> on_world (sx_facts X);
     if \<not> is_system C F then ret (ERROR_STATUS_SYSTEM_PERMISSION, None)
     else if \<not> may_connect C F then ret (ERROR_STATUS_PERMISSION_DENIED, None)
     else do {
       userId \<leftarrow> gets (GetCallingUserId X C);
       let b = GetBundleNameByToken F (cl_tokenId C);
       info \<leftarrow> on_world (\<lambda>w. GetBundleInfoByBundleName (nv_bundles X) w userId b);
       (case info of None \<Rightarrow> ret (ERROR_NULL_POINTER, None)
        | Some i \<Rightarrow>
          if b = '''' then ret (ERROR_NULL_POINTER, None)
          else if bn_appIdentifier i \<noteq> GetSystemPanelAppIdentifier X then ret (ERROR_SYSTEM_PANEL_ERROR, None)
          else in_session X userId (ERROR_NULL_POINTER, None) (\<lambda>E. OnConnectSystemCmd E channel)) } }"

definition SendPrivateData_sa :: "'d sa_env \<Rightarrow> caller \<Rightarrow> private_command \<Rightarrow> ('d, int) sao" where
  "SendPrivateData_sa X C privateCommand =
     (if privateCommand = [] then ret ERROR_PRIVATE_COMMAND_IS_EMPTY
      else do {
        special \<leftarrow> facts X (\<lambda>F. IsSpecialSaUid F (cl_uid C));
        if \<not> special then ret ERROR_STATUS_PERMISSION_DENIED
        else do {
          userId \<leftarrow> on_world (GetMainAccountId (sx_accounts X));
          scene \<leftarrow> gets (ask_session X userId SpecialScenarioCheck);
          (case scene of None \<Rightarrow> ret ERROR_IMSA_USER_SESSION_NOT_FOUND
           | Some ok \<Rightarrow> if \<not> ok then ret ERROR_SCENE_UNSUPPORTED
               else in_session X userId ERROR_NULL_POINTER (\<lambda>E. SpecialSendPrivateData E privateCommand)) } })"

definition ExecTextInteraction_sa :: "'d sa_env \<Rightarrow> caller \<Rightarrow> string \<Rightarrow> ('d, int) sao" where
  "ExecTextInteraction_sa X C txt = do {
     ok \<leftarrow> facts X (\<lambda>F. HasPermission F (cl_tokenId C) PERMISSION_CONTROL_DEVICE);
     if \<not> ok then ret ERROR_STATUS_PERMISSION_DENIED
     else do {
       userId \<leftarrow> gets (GetCallingUserId X C);
       in_session X userId ERROR_IMSA_USER_SESSION_NOT_FOUND (\<lambda>E. ExecTextInteraction E txt) } }"

end
