(* ===== verification/Sa_Events.thy ===== *)
theory Sa_Events
  imports Sa_Queries
begin

text \<open>
  What the system ability does on the events of the system (\<open>input_method_system_ability.cpp\<close>): users, packages,
  the screen, the window manager, the accounts, memory; and the tasks it posts to its event handler. The messages
  of the work thread carry their content, or none, or one that cannot be read.
\<close>

datatype 'a message = NoContent | Unreadable | Content 'a

abbreviation ERROR_EX_PARCELABLE :: int where "ERROR_EX_PARCELABLE \<equiv> - 6"

section \<open>Window monitors\<close>

definition register_monitor :: "'d sa_env \<Rightarrow> monitor \<Rightarrow> int \<Rightarrow> ('d, bool) sao" where
  "register_monitor X m userId = do {
     r \<leftarrow> on_world (\<lambda>w. sx_register X w userId m);
     if r \<noteq> NO_ERROR then do { post (RegisterTask m userId); ret False } else ret True }"

definition InitFocusChangedMonitor :: "'d sa_env \<Rightarrow> int \<Rightarrow> ('d, bool) sao" where
  "InitFocusChangedMonitor X = register_monitor X FOCUS_MONITOR"

definition InitWmsConnectionMonitor :: "'d sa_env \<Rightarrow> int \<Rightarrow> ('d, bool) sao" where
  "InitWmsConnectionMonitor X = register_monitor X WMS_MONITOR"

definition InitWindowDisplayChangedMonitor :: "'d sa_env \<Rightarrow> int \<Rightarrow> ('d, bool) sao" where
  "InitWindowDisplayChangedMonitor X = register_monitor X WINDOW_DISPLAY_MONITOR"

definition store_groups :: "'d sa_env \<Rightarrow> int \<Rightarrow> ('d, unit) sao" where
  "store_groups X userId = do { W \<leftarrow> on_world (sx_wm X); void (window_op (StoreAllDisplayGroupInfos W userId)) }"

definition InitDisplayGroupMonitor :: "'d sa_env \<Rightarrow> int \<Rightarrow> ('d, bool) sao" where
  "InitDisplayGroupMonitor X userId = do {
     ok \<leftarrow> register_monitor X GROUP_MONITOR userId;
     when_do ok (store_groups X userId);
     ret ok }"

definition InitWindowMonitors :: "'d sa_env \<Rightarrow> int \<Rightarrow> ('d, bool) sao" where
  "InitWindowMonitors X userId = do {
     InitFocusChangedMonitor X userId;
     InitDisplayGroupMonitor X userId;
     InitWmsConnectionMonitor X userId;
     InitWindowDisplayChangedMonitor X userId }"

text \<open>The test and the two calls that the callers share.\<close>

definition init_user_monitors :: "'d sa_env \<Rightarrow> int \<Rightarrow> ('d, unit) sao" where
  "init_user_monitors X userId = do {
     inited \<leftarrow> gets (\<lambda>s. IsInited userId (sa_monitors s));
     when_do (\<not> inited) (do {
       ok \<leftarrow> InitWindowMonitors X userId;
       when_do ok (modify (\<lambda>s. s\<lparr>sa_monitors := SetInited userId (sa_monitors s)\<rparr>)) }) }"

definition InitAllUsersWindowMonitors :: "'d sa_env \<Rightarrow> ('d, unit) sao" where
  "InitAllUsersWindowMonitors X = do {
     account \<leftarrow> on_world (\<lambda>w. sx_saReady X w ''account'');
     modify (\<lambda>s. s\<lparr>sa_waitAccountReadyToInit := \<not> account\<rparr>);
     wms \<leftarrow> on_world (\<lambda>w. sx_saReady X w ''window_manager'');
     if \<not> account \<or> \<not> wms then ret ()
     else do {
       accounts \<leftarrow> on_world (GetForegroundOsAccountIds (sx_accounts X));
       for_each accounts (init_user_monitors X) } }"

definition RemoveWindowMonitors :: "int \<Rightarrow> ('d, unit) sao" where
  "RemoveWindowMonitors userId = modify (\<lambda>s. s\<lparr>sa_monitors := Reset_monitors (sa_monitors s)\<rparr>)"

section \<open>Starting and stopping the input methods of all users\<close>

definition RestartAllForegroundImes :: "'d sa_env \<Rightarrow> ('d, unit) sao" where
  "RestartAllForegroundImes X =
     (if sx_onDemand X \<or> sx_dynamicStart X then ret ()
      else do {
        accounts \<leftarrow> on_world (GetForegroundOsAccountIds (sx_accounts X));
        for_each accounts (\<lambda>account. do { ensure_session X account; in_session X account () AddRestartIme }) })"

definition StopAllBackgroundImes :: "('d, unit) sao" where
  "StopAllBackgroundImes = post StopBackgroundTask"

definition user_ids :: "'d sa \<Rightarrow> int list" where
  "user_ids s = map fst (sa_sessions s)"

text \<open>The body of the task that \<open>StopAllBackgroundImes\<close> posts.\<close>

definition stop_background :: "'d sa_env \<Rightarrow> ('d, unit) sao" where
  "stop_background X = do {
     users \<leftarrow> gets user_ids;
     for_each users (\<lambda>u. do {
       front \<leftarrow> on_world (\<lambda>w. IsOsAccountForeground (sx_accounts X) w u);
       when_do (\<not> front) (void (in_session X u 0 StopCurrentIme)) }) }"

definition ResetAllImes :: "'d sa_env \<Rightarrow> ('d, unit) sao" where
  "ResetAllImes X = do { RestartAllForegroundImes X; StopAllBackgroundImes }"

definition StartNewUserIme :: "'d sa_env \<Rightarrow> int \<Rightarrow> ('d, unit) sao" where
  "StartNewUserIme X userId = do {
     ensure_session X userId;
     in_session X userId () (\<lambda>E. do {
       data \<leftarrow> gets (GetRealImeData True);
       wms \<leftarrow> gets (IsWmsReady E);
       when_do (data = None \<and> wms) (void (StartCurrentIme E False DEFAULT_START)) }) }"

definition RemoveAllCurrentClient_of :: "'d sa_env \<Rightarrow> int \<Rightarrow> ('d, unit) sao" where
  "RemoveAllCurrentClient_of X u = void (in_session X u 0 RemoveAllCurrentClient)"

section \<open>Users\<close>

definition tell_numkey :: "'d sa_env \<Rightarrow> int \<Rightarrow> u64 \<Rightarrow> ('d, unit) sao" where
  "tell_numkey X userId displayId = do {
     W \<leftarrow> on_world (sx_wm X);
     (r, g) \<leftarrow> window_op (GetDisplayGroupIdWithRetry W displayId userId DEFAULT_DISPLAY_GROUP_ID);
     when_do (r = NO_ERROR \<and> g = DEFAULT_DISPLAY_GROUP_ID) (sa_emit (NumkeyUserSwitched userId)) }"

definition InitUserInfo :: "'d sa_env \<Rightarrow> int \<Rightarrow> u64 \<Rightarrow> ('d, unit) sao" where
  "InitUserInfo X userId displayId = do {
     AddUserSession X userId;
     SetupImeUsageCallbacks X userId;
     tell_numkey X userId displayId }"

definition UpdateUserInfo :: "'d sa_env \<Rightarrow> int \<Rightarrow> u64 \<Rightarrow> ('d, unit) sao" where
  "UpdateUserInfo X userId displayId = do {
     Q \<leftarrow> the_inquirer X;
     Switch_full (nv_settings X) Q userId displayId;
     AddUserSession X userId;
     SetupImeUsageCallbacks X userId;
     tell_numkey X userId displayId }"

definition HandleUserSwitchedOut :: "'d sa_env \<Rightarrow> int \<Rightarrow> ('d, unit) sao" where
  "HandleUserSwitchedOut X userId = do {
     scb \<leftarrow> on_world (\<lambda>w. wm_sceneBoard (sx_wm X w));
     when_do (\<not> scb) (RemoveAllCurrentClient_of X userId) }"

definition HandleUserSwitchedIn :: "'d sa_env \<Rightarrow> int \<Rightarrow> u64 \<Rightarrow> ('d, unit) sao" where
  "HandleUserSwitchedIn X userId displayId = do { UpdateUserInfo X userId displayId; init_user_monitors X userId }"

definition OnUserSwitched :: "'d sa_env \<Rightarrow> (int \<times> int \<times> u64) message \<Rightarrow> ('d, int) sao" where
  "OnUserSwitched X msg = (case msg of NoContent \<Rightarrow> ret ERROR_NULL_POINTER | Unreadable \<Rightarrow> ret ERROR_EX_PARCELABLE
     | Content (fromUserId, toUserId, displayId) \<Rightarrow> do {
         HandleUserSwitchedOut X fromUserId;
         HandleUserSwitchedIn X toUserId displayId;
         scb \<leftarrow> on_world (\<lambda>w. wm_sceneBoard (sx_wm X w));
         when_do (\<not> scb) (StartNewUserIme X toUserId);
         ret NO_ERROR })"

definition OnUserRemoved :: "'d sa_env \<Rightarrow> int message \<Rightarrow> ('d, int) sao" where
  "OnUserRemoved X msg = (case msg of NoContent \<Rightarrow> ret ERROR_NULL_POINTER | Unreadable \<Rightarrow> ret ERROR_EX_PARCELABLE
     | Content userId \<Rightarrow> do {
         in_session X userId 0 StopCurrentIme;
         RemoveUserSession userId;
         Delete_user_full userId;
         sa_emit (NumkeyUserRemoved userId);
         ret NO_ERROR })"

text \<open>\<open>GetSessionFromMsg\<close>: a number that cannot be read is 0.\<close>

definition GetSessionFromMsg :: "int message \<Rightarrow> int option" where
  "GetSessionFromMsg msg = (case msg of NoContent \<Rightarrow> None | Unreadable \<Rightarrow> Some 0 | Content u \<Rightarrow> Some u)"

definition with_msg_session :: "'d sa_env \<Rightarrow> int message \<Rightarrow> (senv \<Rightarrow> unit sess) \<Rightarrow> ('d, int) sao" where
  "with_msg_session X msg m = (case GetSessionFromMsg msg of None \<Rightarrow> ret ERROR_NULL_POINTER
     | Some u \<Rightarrow> in_session X u ERROR_NULL_POINTER (\<lambda>E. do { m E; ret NO_ERROR }))"

definition OnUserStop :: "'d sa_env \<Rightarrow> int message \<Rightarrow> ('d, int) sao" where
  "OnUserStop X msg = with_msg_session X msg (\<lambda>E. void (StopCurrentIme E))"

definition OnHideKeyboardSelf :: "'d sa_env \<Rightarrow> int message \<Rightarrow> ('d, int) sao" where
  "OnHideKeyboardSelf X msg = with_msg_session X msg OnHideSoftKeyBoardSelf"

definition HandleUpdateLargeMemoryState :: "'d sa_env \<Rightarrow> (pid_t \<times> int) message \<Rightarrow> ('d, int) sao" where
  "HandleUpdateLargeMemoryState X msg = (case msg of NoContent \<Rightarrow> ret ERROR_NULL_POINTER
     | Unreadable \<Rightarrow> ret ERROR_BAD_PARAMETERS
     | Content (uid, memoryState) \<Rightarrow>
         if memoryState \<noteq> LARGE_MEMORY_NEED \<and> memoryState \<noteq> LARGE_MEMORY_NOT_NEED then ret ERROR_BAD_PARAMETERS
         else do {
           userId \<leftarrow> gets (GetUserId X uid);
           in_session X userId ERROR_NULL_POINTER (\<lambda>E. UpdateLargeMemorySceneState E memoryState) })"

section \<open>Packages\<close>

definition OnPackageUpdated_sa :: "'d sa_env \<Rightarrow> int \<Rightarrow> string \<Rightarrow> ('d, int) sao" where
  "OnPackageUpdated_sa X userId packageName = do {
     Q \<leftarrow> the_inquirer X;
     r \<leftarrow> Update_package Q userId packageName;
     if r \<noteq> NO_ERROR then ret r
     else do {
       front \<leftarrow> on_world (\<lambda>w. IsOsAccountForeground (sx_accounts X) w userId);
       if \<not> front then ret NO_ERROR
       else do {
         ensure_session X userId;
         in_session X userId ERROR_NULL_POINTER (\<lambda>E. do { OnPackageUpdated E packageName; ret NO_ERROR }) } } }"

definition OnPackageAdded_sa :: "'d sa_env \<Rightarrow> int \<Rightarrow> string \<Rightarrow> ('d, int) sao" where
  "OnPackageAdded_sa X userId packageName = do {
     Q \<leftarrow> the_inquirer X;
     r \<leftarrow> Add_full (nv_settings X) Q userId packageName;
     when_do (r = NO_ERROR) (HandleEDCInputMethodInstall X userId packageName);
     ret r }"

definition OnPackageRemoved_sa :: "'d sa_env \<Rightarrow> int \<Rightarrow> string \<Rightarrow> ('d, int) sao" where
  "OnPackageRemoved_sa X userId packageName = do {
     HandleEDCInputMethodRemove X userId packageName;
     Delete_package_full (nv_settings X) userId packageName;
     ret NO_ERROR }"

datatype package_event = PACKAGE_ADDED | PACKAGE_CHANGED | PACKAGE_REMOVED

definition HandlePackageEvent :: "'d sa_env \<Rightarrow> package_event \<Rightarrow> (int \<times> string) message \<Rightarrow> ('d, int) sao" where
  "HandlePackageEvent X ev msg = (case msg of NoContent \<Rightarrow> ret ERROR_NULL_POINTER | Unreadable \<Rightarrow> ret ERROR_EX_PARCELABLE
     | Content (userId, packageName) \<Rightarrow> (case ev of
         PACKAGE_CHANGED \<Rightarrow> OnPackageUpdated_sa X userId packageName
       | PACKAGE_ADDED \<Rightarrow> OnPackageAdded_sa X userId packageName
       | PACKAGE_REMOVED \<Rightarrow> OnPackageRemoved_sa X userId packageName))"

section \<open>The screen\<close>

definition OnScreenUnlock_sa :: "'d sa_env \<Rightarrow> int message \<Rightarrow> ('d, unit) sao" where
  "OnScreenUnlock_sa X msg = (case msg of Content userId \<Rightarrow> do {
         front \<leftarrow> on_world (\<lambda>w. IsOsAccountForeground (sx_accounts X) w userId);
         if \<not> front then ret ()
         else do { ensure_session X userId; in_session X userId () OnScreenUnlock } }
     | _ \<Rightarrow> ret ())"

definition OnScreenLock_sa :: "'d sa_env \<Rightarrow> int message \<Rightarrow> ('d, unit) sao" where
  "OnScreenLock_sa X msg = (case msg of
       Content userId \<Rightarrow> do { ensure_session X userId; in_session X userId () (\<lambda>_. OnScreenLock) }
     | _ \<Rightarrow> ret ())"

section \<open>The window manager\<close>

definition HandleWmsConnected :: "'d sa_env \<Rightarrow> int \<Rightarrow> int \<Rightarrow> pid_t \<Rightarrow> ('d, unit) sao" where
  "HandleWmsConnected X userId screenId pid = do {
     front \<leftarrow> on_world (\<lambda>w. IsOsAccountForeground (sx_accounts X) w userId);
     info \<leftarrow> gets (\<lambda>s. GetForegroundUser screenId (sa_monitors s));
     if \<not> front \<or> sb_userId info = userId \<and> sb_pid info = pid then ret ()
     else do {
       let isScbReboot = sb_userId info = userId;
       when_do (\<not> isScbReboot) (modify (\<lambda>s. s\<lparr>sa_monitors := UpdateForegroundUser userId screenId pid (sa_monitors s)\<rparr>));
       ensure_session X userId;
       in_session X userId () (\<lambda>E. OnScbStarted E isScbReboot) } }"

definition HandleWmsDisconnected :: "'d sa_env \<Rightarrow> int \<Rightarrow> int \<Rightarrow> pid_t \<Rightarrow> ('d, unit) sao" where
  "HandleWmsDisconnected X userId screenId pid = in_session X userId () OnScbStopped"

text \<open>The sessions are visited in the order in which they were added; the code's map has no order.\<close>

definition HandleWmsStarted :: "'d sa_env \<Rightarrow> ('d, unit) sao" where
  "HandleWmsStarted X = do {
     InitAllUsersWindowMonitors X;
     scb \<leftarrow> on_world (\<lambda>w. wm_sceneBoard (sx_wm X w));
     when_do (\<not> scb) (do {
       users \<leftarrow> gets user_ids;
       for_each users (RemoveAllCurrentClient_of X);
       ResetAllImes X }) }"

definition HandleFocusChanged :: "'d sa_env \<Rightarrow> bool \<Rightarrow> u64 \<Rightarrow> pid_t \<Rightarrow> pid_t \<Rightarrow> ('d, unit) sao" where
  "HandleFocusChanged X isFocused displayId pid uid = do {
     userId \<leftarrow> gets (GetUserId X uid);
     in_session X userId () (\<lambda>E. if isFocused then OnFocused E displayId pid uid else OnUnfocused E displayId pid uid) }"

text \<open>The listener of \<open>InitWindowDisplayChangedMonitor\<close>.\<close>

definition window_display_changed :: "'d sa_env \<Rightarrow> int \<Rightarrow> u32 \<Rightarrow> u64 \<Rightarrow> ('d, unit) sao" where
  "window_display_changed X userId windowId displayId = in_session X userId () (\<lambda>E. OnWindowDisplayIdChanged E windowId displayId)"

definition display_group_changed :: "u64 \<Rightarrow> u64 \<Rightarrow> bool \<Rightarrow> int \<Rightarrow> ('d, unit) sao" where
  "display_group_changed d g isAdd userId = window_op (OnDisplayGroupInfoChanged d g isAdd userId)"

section \<open>Other services of the system\<close>

definition HandleMemStarted :: "'d sa_env \<Rightarrow> ('d, unit) sao" where
  "HandleMemStarted X = do { sa_emit MemMgrNotified; ResetAllImes X }"

definition HandleOsAccountStarted :: "'d sa_env \<Rightarrow> ('d, unit) sao" where
  "HandleOsAccountStarted X = do {
     Q \<leftarrow> the_inquirer X;
     Init_full (nv_settings X) Q;
     again \<leftarrow> gets (\<lambda>s. \<not> sa_isAccountSaFirstStart s \<or> sa_waitAccountReadyToInit s);
     when_do again (InitAllUsersWindowMonitors X);
     modify (\<lambda>s. s\<lparr>sa_isAccountSaFirstStart := False\<rparr>);
     accounts \<leftarrow> on_world (GetForegroundOsAccounts (sx_accounts X));
     for_each accounts (\<lambda>(u, d). InitUserInfo X u d) }"

definition HandlePasteboardStarted :: "'d sa_env \<Rightarrow> ('d, unit) sao" where
  "HandlePasteboardStarted X = do {
     accounts \<leftarrow> on_world (GetForegroundOsAccountIds (sx_accounts X));
     for_each accounts (\<lambda>u. in_session X u () (\<lambda>E. do {
       data \<leftarrow> gets (GetRealImeData True);
       (case data of None \<Rightarrow> ret () | Some d \<Rightarrow> (case im_stateManager d of None \<Rightarrow> ret ()
          | Some m \<Rightarrow> act_all (TemporaryActiveIme m))) })) }"

definition RegisterSecurityModeObserver :: "'d sa_env \<Rightarrow> ('d, unit) sao" where
  "RegisterSecurityModeObserver X = void (RegisterObserver (se_ds (nv_settings X)) SETTING_URI_PROXY SECURITY_MODE)"

definition DataShareCallback :: "string \<Rightarrow> ('d, unit) sao" where
  "DataShareCallback key = when_do (key = SECURITY_MODE) (post FullExperienceTask)"

definition HandleDataShareReady :: "'d sa_env \<Rightarrow> ('d, unit) sao" where
  "HandleDataShareReady X = do {
     when_do (se_enableFullExperienceFeature (nv_settings X)) (RegisterSecurityModeObserver X);
     ready \<leftarrow> gets sd_isDataShareReady;
     when_do (\<not> ready) (do {
       NotifyDataShareReady;
       InitFromPersistedData (nv_settings X);
       Q \<leftarrow> the_inquirer X;
       Init_full (nv_settings X) Q;
       u \<leftarrow> on_world (GetMainAccountId (sx_accounts X));
       sa_emit (NumkeyInit u) }) }"

definition OnCurrentImeStatusChanged :: "'d sa_env \<Rightarrow> int \<Rightarrow> string \<Rightarrow> enabled_status \<Rightarrow> ('d, unit) sao" where
  "OnCurrentImeStatusChanged X userId bundleName newStatus = in_session X userId () (\<lambda>E. do {
     data \<leftarrow> gets (GetRealImeData False);
     if (case data of None \<Rightarrow> False | Some d \<Rightarrow> bundleName \<noteq> fst (im_ime d)) then ret ()
     else do {
       when_do (newStatus = BASIC_MODE) (OnSecurityChange E SECURITY_BASIC);
       when_do (newStatus = FULL_EXPERIENCE_MODE) (OnSecurityChange E SECURITY_FULL);
       AddRestartIme E } })"

section \<open>The caps lock key\<close>

definition ModifyImeCfgWithWrongCaps :: "'d sa_env \<Rightarrow> int \<Rightarrow> ('d, bool) sao" where
  "ModifyImeCfgWithWrongCaps X userId = do {
     caps \<leftarrow> on_world (sx_capsLock X);
     (case caps of None \<Rightarrow> ret False
      | Some isCapsEnable \<Rightarrow> do {
          cur \<leftarrow> GetCurrentImeCfg (nv_settings X) userId;
          info \<leftarrow> GetImeInfo X userId (nc_bundleName cur) (nc_subName cur);
          (case info of None \<Rightarrow> ret False
           | Some i \<Rightarrow>
             if (sp_mode (in_subProp i) = ''upper'') = isCapsEnable then ret True
             else (case FindTargetSubtypeByCondition (fu_subProps i) (if isCapsEnable then UPPER else LOWER) of
                 None \<Rightarrow> ret False
               | Some p \<Rightarrow> do {
                   SetCurrentIme (nv_settings X) userId (pr_name (fi_prop i) @ ''/'' @ pr_id (fi_prop i)) (sp_id p) False;
                   ret True })) }) }"

definition HandleImeCfgCapsState :: "'d sa_env \<Rightarrow> int \<Rightarrow> ('d, unit) sao" where
  "HandleImeCfgCapsState X userId = do {
     scanned \<leftarrow> gets sa_isBundleScanFinished;
     mmi \<leftarrow> on_world (\<lambda>w. sx_saReady X w ''multimodal_input'');
     when_do (scanned \<and> mmi) (void (ModifyImeCfgWithWrongCaps X userId)) }"

definition HandleBundleScanFinished :: "'d sa_env \<Rightarrow> ('d, unit) sao" where
  "HandleBundleScanFinished X = do {
     modify (\<lambda>s. s\<lparr>sa_isBundleScanFinished := True\<rparr>);
     u \<leftarrow> on_world (GetMainAccountId (sx_accounts X));
     HandleImeCfgCapsState X u }"

section \<open>Memory\<close>

definition OnSysImeImageCreated_sa :: "'d sa_env \<Rightarrow> pid_t message \<Rightarrow> ('d, int) sao" where
  "OnSysImeImageCreated_sa X msg = (case msg of NoContent \<Rightarrow> ret ERROR_NULL_POINTER | Unreadable \<Rightarrow> ret ERROR_BAD_PARAMETERS
     | Content uid \<Rightarrow> do {
         userId \<leftarrow> gets (GetUserId X uid);
         in_session X userId ERROR_IMSA_USER_SESSION_NOT_FOUND (\<lambda>E. do { OnSysImeImageCreated E; ret NO_ERROR }) })"

definition OnMakeSysImeImage_sa :: "'d sa_env \<Rightarrow> ('d, int) sao" where
  "OnMakeSysImeImage_sa X = do {
     users \<leftarrow> gets user_ids;
     for_each users (\<lambda>u. void (in_session X u 0 OnMakeSysImeImage));
     ret NO_ERROR }"

abbreviation CPU_USAGE_HIGH_PERCENT :: int where "CPU_USAGE_HIGH_PERCENT \<equiv> 70"

definition OnSysMemChanged :: "'d sa_env \<Rightarrow> ('d, unit) sao" where
  "OnSysMemChanged X = do {
     isInLowMem \<leftarrow> on_world (sx_lowMem X);
     cpu \<leftarrow> on_world (sx_cpuUsage X);
     let isCpuUsageHigh = (\<not> isInLowMem \<and> (case cpu of None \<Rightarrow> False | Some c \<Rightarrow> c > CPU_USAGE_HIGH_PERCENT));
     users \<leftarrow> gets user_ids;
     for_each users (\<lambda>u. do {
       front \<leftarrow> on_world (\<lambda>w. IsOsAccountForeground (sx_accounts X) w u);
       if isInLowMem then void (in_session X u 0 TryDisconnectIme)
       else when_do (front \<and> \<not> isCpuUsageHigh) (void (in_session X u 0 TryStartIme)) }) }"

section \<open>Posted tasks\<close>

text \<open>
  The body of a task of the system ability. What \<open>StartDialogAbility\<close> of the push-to-talk manager does is added
  to it with the manager. \<open>arrivals\<close> are the presses that come in while a task switches the input method.
\<close>

definition run_task :: "'d sa_env \<Rightarrow> nat list \<Rightarrow> sa_task \<Rightarrow> ('d, unit) sao" where
  "run_task X arrivals t = (case t of
     SwitchImeTask u \<Rightarrow> switch_task X u arrivals
   | StopBackgroundTask \<Rightarrow> stop_background X
   | FullExperienceTask \<Rightarrow> do {
       u \<leftarrow> on_world (GetMainAccountId (sx_accounts X));
       OnFullExperienceTableChanged (nv_settings X) u }
   | PttDialogTask u \<Rightarrow> ret ()
   | RegisterTask m u \<Rightarrow> when_do (m = GROUP_MONITOR) (store_groups X u))"

text \<open>The handler takes a task from its queue; a delayed task may be overtaken by later ones.\<close>

definition take_task :: "'d sa_env \<Rightarrow> nat \<Rightarrow> nat list \<Rightarrow> ('d, unit) sao" where
  "take_task X i arrivals = do {
     ts \<leftarrow> gets sa_tasks;
     if i \<ge> length ts then ret ()
     else do {
       modify (\<lambda>s. s\<lparr>sa_tasks := take i ts @ drop (Suc i) ts\<rparr>);
       run_task X arrivals (ts ! i) } }"

text \<open>The tasks that the manager of the enabled input methods posts.\<close>

definition run_posted :: "'d sa_env \<Rightarrow> posted \<Rightarrow> ('d, unit) sao" where
  "run_posted X t = (case t of
     NotifyStatus u b st \<Rightarrow> do {
       h \<leftarrow> gets em_statusHandler;
       when_do (h \<noteq> None) (OnCurrentImeStatusChanged X u b st) }
   | UpdateGlobal u cfg \<Rightarrow> Upgrade_UpdateGlobalEnabledTable (nv_settings X) u cfg)"

definition take_posted :: "'d sa_env \<Rightarrow> nat \<Rightarrow> ('d, unit) sao" where
  "take_posted X i = do {
     ts \<leftarrow> gets em_posted;
     if i \<ge> length ts then ret ()
     else do {
       modify (\<lambda>s. s\<lparr>em_posted := take i ts @ drop (Suc i) ts\<rparr>);
       run_posted X (ts ! i) } }"

section \<open>Start and stop of the service\<close>

definition InitServiceHandler :: "('d, unit) sao" where
  "InitServiceHandler = do {
     h \<leftarrow> gets sa_serviceHandler;
     if h then ret ()
     else do { modify (\<lambda>s. s\<lparr>sa_serviceHandler := True\<rparr>); SetEventHandler True } }"

definition Initialize :: "'d sa_env \<Rightarrow> ('d, unit) sao" where
  "Initialize X = do {
     AddUserSession X START_USER_ID;
     SetupImeUsageCallbacks X START_USER_ID;
     SetCurrentImeStatusChangedHandler 0 }"

definition OnStop :: "'d sa_env \<Rightarrow> ('d, unit) sao" where
  "OnStop X = do {
     SetEventHandler False;
     modify (\<lambda>s. s\<lparr>sa_serviceHandler := False\<rparr>);
     Release_settings (se_ds (nv_settings X)) }"

text \<open>What the work thread and the listeners react to.\<close>

datatype sa_system_event =
    UserSwitched "(int \<times> int \<times> u64) message" | UserRemoved "int message" | UserStopped "int message"
  | HideKeyboardSelf "int message" | BundleScanFinished | DataShareReady
  | PackageEvent package_event "(int \<times> string) message" | LanguageChanged | BootCompleted | OsAccountStarted
  | ScreenUnlocked "int message" | ScreenLocked "int message" | RegularUpdate
  | LargeMemoryState "(pid_t \<times> int) message" | SysMemoryChanged | WmsStarted | TriggerMakeSysImeImage
  | SysImeImageMade "pid_t message" | ExamModeOn "int option" | ExamModeOff "int option"
  | WmsConnected int int pid_t | WmsDisconnected int int pid_t | FocusChanged bool u64 pid_t pid_t
  | WindowDisplayChanged int u32 u64 | DisplayGroupChanged u64 u64 bool int
  | MemStarted | PasteboardStarted | SettingChanged string | KeyMonitorReady | KeyCombination u32
  | TaskRuns nat "nat list" | PostedRuns nat | RestartTaskRuns int
  | SessionClientDied int "robj option" | SessionImeDied int "robj option" ime_type pid_t | ListenerDied int "robj option"
  | ServiceStarts | ServiceStops

definition on_system_event :: "'d sa_env \<Rightarrow> sa_system_event \<Rightarrow> ('d, unit) sao" where
  "on_system_event X ev = (case ev of
     UserSwitched m \<Rightarrow> void (OnUserSwitched X m)
   | UserRemoved m \<Rightarrow> void (OnUserRemoved X m)
   | UserStopped m \<Rightarrow> void (OnUserStop X m)
   | HideKeyboardSelf m \<Rightarrow> void (OnHideKeyboardSelf X m)
   | BundleScanFinished \<Rightarrow> HandleBundleScanFinished X
   | DataShareReady \<Rightarrow> HandleDataShareReady X
   | PackageEvent k m \<Rightarrow> void (HandlePackageEvent X k m)
   | LanguageChanged \<Rightarrow> do { Q \<leftarrow> the_inquirer X; void (Update_all Q) }
   | BootCompleted \<Rightarrow> do { Q \<leftarrow> the_inquirer X; void (Init_full (nv_settings X) Q) }
   | OsAccountStarted \<Rightarrow> HandleOsAccountStarted X
   | ScreenUnlocked m \<Rightarrow> OnScreenUnlock_sa X m
   | ScreenLocked m \<Rightarrow> OnScreenLock_sa X m
   | RegularUpdate \<Rightarrow> do { Q \<leftarrow> the_inquirer X; void (RegularInit Q) }
   | LargeMemoryState m \<Rightarrow> void (HandleUpdateLargeMemoryState X m)
   | SysMemoryChanged \<Rightarrow> OnSysMemChanged X
   | WmsStarted \<Rightarrow> HandleWmsStarted X
   | TriggerMakeSysImeImage \<Rightarrow> void (OnMakeSysImeImage_sa X)
   | SysImeImageMade m \<Rightarrow> void (OnSysImeImageCreated_sa X m)
   | ExamModeOn m \<Rightarrow> OnExamModeOn X m
   | ExamModeOff m \<Rightarrow> OnExamModeOff X m
   | WmsConnected u sc p \<Rightarrow> HandleWmsConnected X u sc p
   | WmsDisconnected u sc p \<Rightarrow> HandleWmsDisconnected X u sc p
   | FocusChanged b d p u \<Rightarrow> HandleFocusChanged X b d p u
   | WindowDisplayChanged u w d \<Rightarrow> window_display_changed X u w d
   | DisplayGroupChanged d g a u \<Rightarrow> display_group_changed d g a u
   | MemStarted \<Rightarrow> HandleMemStarted X
   | PasteboardStarted \<Rightarrow> HandlePasteboardStarted X
   | SettingChanged k \<Rightarrow> DataShareCallback k
   | KeyMonitorReady \<Rightarrow> do { u \<leftarrow> on_world (GetMainAccountId (sx_accounts X)); HandleImeCfgCapsState X u }
   | KeyCombination k \<Rightarrow> void (SwitchByCombinationKey X k)
   | TaskRuns i arrivals \<Rightarrow> take_task X i arrivals
   | PostedRuns i \<Rightarrow> take_posted X i
   | RestartTaskRuns u \<Rightarrow> in_session X u () restart_task
   | SessionClientDied u c \<Rightarrow> in_session X u () (\<lambda>E. OnClientDied E c)
   | SessionImeDied u c t p \<Rightarrow> in_session X u () (\<lambda>E. OnImeDied E c t p)
   | ListenerDied u c \<Rightarrow> modify (\<lambda>s. s\<lparr>sa_listeners := OnListenerDied u c (sa_listeners s)\<rparr>)
   | ServiceStarts \<Rightarrow> do { InitServiceHandler; Initialize X }
   | ServiceStops \<Rightarrow> OnStop X)"

end
