(* ===== verification/Sa_Frame.thy ===== *)
theory Sa_Frame
  imports Sa_Events
begin

text \<open>
  The operations of the settings, the enabled input methods, exam mode, the cache and the inquirer work on the
  part of the service's state that is theirs: what the state of the system ability adds, they leave as it is.
\<close>

abbreviation low :: "(('d, 'x) inq_state_scheme, 'a) state \<Rightarrow> bool" where
  "low m \<equiv> frames inq_state.more m"

text \<open>Those of the settings and of the enabled input methods leave also the rest as it is.\<close>

abbreviation tables :: "(('d, 'x) enabled_state_scheme, 'a) state \<Rightarrow> bool" where
  "tables m \<equiv> frames enabled_state.more m"

lemma enabled_more_inq: "enabled_state.more t = enabled_state.more s \<Longrightarrow> inq_state.more t = inq_state.more s"
  by (cases s; cases t; simp)

lemma tables_low: "tables m \<Longrightarrow> low m"
  unfolding frames_def using enabled_more_inq by blast

lemma low_get [frame_intros]: "low State_Monad.get"
  by (simp add: frames_def)

lemma low_status [frame_intros]:
  assumes "low f" "low g" "low h" "\<And>n. low (k n)"
  shows "low (case (st :: input_method_status) of DISABLE \<Rightarrow> f | ENABLE \<Rightarrow> g | ALL_IMES \<Rightarrow> h | STATUS_VALUE n \<Rightarrow> k n)"
  using assms by (cases st) auto

lemma tables_settings [frame_intros]:
  "tables (outside x1)" "tables NotifyDataShareReady"
  unfolding outside_def NotifyDataShareReady_def
  by (intro frame_intros frames_modify; simp)+

lemma tables_settings1 [frame_intros]:
  "tables (GetToken D)" "tables (ReleaseDataShareHelper D)"
  unfolding GetToken_def ReleaseDataShareHelper_def
  by (intro frame_intros frames_modify; simp)+

lemma tables_settings2 [frame_intros]:
  "tables (CreateDataShareHelper D b)"
  unfolding CreateDataShareHelper_def
  by (intro frame_intros frames_modify; simp)+

lemma tables_settings3 [frame_intros]:
  "tables (SetStringValue D b b' b'')" "tables (GetStringValue D b b' b'')" "tables (register_observer D ob)"
  "tables (UnregisterObserver D ob)"
  unfolding SetStringValue_def GetStringValue_def register_observer_def UnregisterObserver_def
  by (intro frame_intros frames_modify; simp)+

lemma tables_settings4 [frame_intros]:
  "tables (RegisterObserver D b b')" "tables (Release_settings D)" "tables (SetEDCBackupInputMethod D u b)"
  "tables (GetEDCBackupInputMethod D u b)"
  unfolding RegisterObserver_def Release_settings_def SetEDCBackupInputMethod_def GetEDCBackupInputMethod_def
  by (intro frame_intros frames_modify; simp)+

lemma tables_upgrade [frame_intros]:
  "tables (GetEnabledTable_content E b b')" "tables (GetFullExperienceTable E u)"
  "tables (final_ime_infos E u is)" "tables (PaddedByImePersistCfg E u ei)"
  "tables (SetGlobalEnabledTable E b)" "tables (SetUserEnabledTable E u b)"
  unfolding GetEnabledTable_content_def GetFullExperienceTable_def final_ime_infos_def PaddedByImePersistCfg_def
    SetGlobalEnabledTable_def SetUserEnabledTable_def
  by (intro frame_intros frames_modify; simp)+

lemma tables_upgrade1 [frame_intros]:
  "tables (GetGlobalEnabledTable_content E b)" "tables (GetUserEnabledTable_content E u b)"
  "tables (GetEnabledTable_names E u b)" "tables (PaddedByBundleMgr E u is ei)"
  unfolding GetGlobalEnabledTable_content_def GetUserEnabledTable_content_def GetEnabledTable_names_def
    PaddedByBundleMgr_def
  by (intro frame_intros frames_modify; simp)+

lemma tables_upgrade2 [frame_intros]:
  "tables (GetEnabledTable E u)"
  unfolding GetEnabledTable_def
  by (intro frame_intros frames_modify; simp)+

lemma tables_upgrade3 [frame_intros]:
  "tables (MergeTwoTable E u)"
  unfolding MergeTwoTable_def
  by (intro frame_intros frames_modify; simp)+

lemma tables_upgrade4 [frame_intros]:
  "tables (Upgrade E u is)"
  unfolding Upgrade_def
  by (intro frame_intros frames_modify; simp)+

lemma tables_upgrade5 [frame_intros]:
  "tables (Upgrade_UpdateGlobalEnabledTable E u cfg)"
  unfolding Upgrade_UpdateGlobalEnabledTable_def
  by (intro frame_intros frames_modify; simp)+

lemma tables_enabled [frame_intros]:
  "tables (SetCurrentImeStatusChangedHandler h)" "tables (SetEventHandler t)"
  "tables (SetEnabledCache u cfg)" "tables (GetEnabledCache u)" "tables (ClearEnabledCache u)"
  "tables (NotifyCurrentImeStatusChanged u b st)" "tables (UpdateGlobalEnabledTable u cfg)"
  "tables (CorrectByBundleMgr E u is ei)"
  unfolding SetCurrentImeStatusChangedHandler_def SetEventHandler_def SetEnabledCache_def GetEnabledCache_def
    ClearEnabledCache_def NotifyCurrentImeStatusChanged_def UpdateGlobalEnabledTable_def CorrectByBundleMgr_def
  by (intro frame_intros frames_modify; simp)+

lemma tables_enabled1 [frame_intros]:
  "tables (UpdateEnabledCfgCache_cfg E u cfg)" "tables (GetEnabledCfg E u is)" "tables (Delete_user u)"
  unfolding UpdateEnabledCfgCache_cfg_def GetEnabledCfg_def Delete_user_def
  by (intro frame_intros frames_modify; simp)+

lemma tables_enabled2 [frame_intros]:
  "tables (UpdateEnabledCfgCache E u is)" "tables (store_tmp E u cfg x1)"
  unfolding UpdateEnabledCfgCache_def store_tmp_def
  by (intro frame_intros frames_modify; simp)+

lemma tables_enabled3 [frame_intros]:
  "tables (GetEnabledCacheWithCorrect E u)" "tables (GetEnabledCacheWithCorrect_bundle E u b)"
  "tables (Init_enabled E x1)" "tables (Switch E u is)" "tables (GetEnabledStatesInner E u ps)"
  unfolding GetEnabledCacheWithCorrect_def GetEnabledCacheWithCorrect_bundle_def Init_enabled_def Switch_def
    GetEnabledStatesInner_def
  by (intro frame_intros frames_modify; simp)+

lemma tables_enabled4 [frame_intros]:
  "tables (Add E u i)" "tables (Delete_bundle E u b)" "tables (Update E u b b' st)"
  "tables (GetEnabledStateInner E u b st)" "tables (GetEnabledStates E u ps)"
  "tables (SetCurrentIme E u b b' t)" "tables (SetTmpIme E u b)" "tables (GetCurrentImeCfgInner E u)"
  "tables (GetUserCfgIme E u)" "tables (IsDefaultImeSet E u)"
  unfolding Add_def Delete_bundle_def Update_def GetEnabledStateInner_def GetEnabledStates_def SetCurrentIme_def
    SetTmpIme_def GetCurrentImeCfgInner_def GetUserCfgIme_def IsDefaultImeSet_def
  by (intro frame_intros frames_modify; simp)+

lemma tables_enabled5 [frame_intros]:
  "tables (GetEnabledState E u b st)" "tables (OnFullExperienceTableChanged E u)"
  "tables (GetCurrentImeCfg E u)" "tables (GetCurrentImeCfgWithCorrect E u)" "tables (IsUserCfgIme E u b)"
  unfolding GetEnabledState_def OnFullExperienceTableChanged_def GetCurrentImeCfg_def
    GetCurrentImeCfgWithCorrect_def IsUserCfgIme_def
  by (intro frame_intros frames_modify; simp)+

lemmas low_tables [frame_intros] = tables_settings [THEN tables_low] tables_settings1 [THEN tables_low]
  tables_settings2 [THEN tables_low] tables_settings3 [THEN tables_low] tables_settings4 [THEN tables_low]
  tables_upgrade [THEN tables_low] tables_upgrade1 [THEN tables_low] tables_upgrade2 [THEN tables_low]
  tables_upgrade3 [THEN tables_low] tables_upgrade4 [THEN tables_low] tables_upgrade5 [THEN tables_low]
  tables_enabled [THEN tables_low] tables_enabled1 [THEN tables_low] tables_enabled2 [THEN tables_low]
  tables_enabled3 [THEN tables_low] tables_enabled4 [THEN tables_low] tables_enabled5 [THEN tables_low]

lemma low_exam [frame_intros]:
  "low (LoadFromPersistedData E)" "low (Persist E)"
  unfolding LoadFromPersistedData_def Persist_def
  by (intro frame_intros frames_modify; simp)+

lemma low_exam1 [frame_intros]:
  "low (InitFromPersistedData E)" "low (SetExamMode E t)" "low (SavePreviousIme E b b')"
  "low (ClearPreviousIme E)"
  unfolding InitFromPersistedData_def SetExamMode_def SavePreviousIme_def ClearPreviousIme_def
  by (intro frame_intros frames_modify; simp)+

lemma low_full [frame_intros]:
  "low (put_infos u ci)" "low (fill_infos x1)" "low clear_infos" "low (Delete_user_full u)"
  "low (Get_props E u t)" "low (Get_info E u b)"
  unfolding put_infos_def fill_infos_def clear_infos_def Delete_user_full_def Get_props_def Get_info_def
  by (intro frame_intros frames_modify; simp)+

lemma low_full1 [frame_intros]:
  "low (RegularInit Q)" "low (AddUser Q u)" "low (Update_all Q)" "low (AddPackage Q u b)"
  "low (DeletePackage u b)"
  unfolding RegularInit_def AddUser_def Update_all_def AddPackage_def DeletePackage_def
  by (intro frame_intros frames_modify; simp)+

lemma low_full2 [frame_intros]:
  "low (Switch_full E Q u d)" "low (Add_full E Q u b)" "low (Update_package Q u b)"
  "low (Delete_package_full E u b)" "low (Init_full E Q)"
  unfolding Switch_full_def Add_full_def Update_package_def Delete_package_full_def Init_full_def
  by (intro frame_intros frames_modify; simp)+

lemma low_inquirer [frame_intros]:
  "low (load_types ic)" "low (gets_world x1)" "low (GetImeInfoFromCache V u b b')" "low (GetImeToStart V u)"
  unfolding load_types_def gets_world_def GetImeInfoFromCache_def GetImeToStart_def
  by (intro frame_intros frames_modify; simp)+

lemma low_inquirer1 [frame_intros]:
  "low (the_inquirer V)" "low (GetImeInfoFromBundleMgr V u b b')" "low (ListInputMethod_props V u)"
  "low (ListInputMethodSubtype V u b)" "low (GetImeProperty V u b b')" "low (GetCurrentSubtype V u)"
  unfolding the_inquirer_def GetImeInfoFromBundleMgr_def ListInputMethod_props_def ListInputMethodSubtype_def
    GetImeProperty_def GetCurrentSubtype_def
  by (intro frame_intros frames_modify; simp)+

lemma low_inquirer2 [frame_intros]:
  "low (GetImeInfo V u b b')" "low (ListAllInputMethod V u)" "low (list_by_status x1 V u)"
  "low (ListCurrentInputMethodSubtype V u)" "low (GetCurrentInputMethod V u)"
  "low (GetDefaultInputMethod V u p t)"
  unfolding GetImeInfo_def ListAllInputMethod_def list_by_status_def ListCurrentInputMethodSubtype_def
    GetCurrentInputMethod_def GetDefaultInputMethod_def
  by (intro frame_intros frames_modify; simp)+

lemma low_inquirer3 [frame_intros]:
  "low (ListEnabledInputMethod V u)" "low (ListDisabledInputMethod V u)" "low (GetDefaultImeInfo V u)"
  unfolding ListEnabledInputMethod_def ListDisabledInputMethod_def GetDefaultImeInfo_def
  by (intro frame_intros frames_modify; simp)+

lemma low_inquirer4 [frame_intros]:
  "low (ListInputMethod V u ms)" "low (GetSwitchInfoBySwitchCount V u n)"
  unfolding ListInputMethod_def GetSwitchInfoBySwitchCount_def
  by (intro frame_intros frames_modify; simp)+


end
