(* ===== verification/Sa_Inv.thy ===== *)
theory Sa_Inv
  imports Sa_Frame
begin

text \<open>
  The invariant of the service as a whole, and that every operation of the system ability keeps it: a user has one
  session, every session is as the theory of sessions promises, and a process is registered once as a listener.
\<close>

definition sessions_ok :: "(int \<times> session) list \<Rightarrow> bool" where
  "sessions_ok m \<longleftrightarrow> distinct (map fst m) \<and> (\<forall>(u, ss) \<in> set m. session_inv ss)"

definition sa_inv :: "'d sa \<Rightarrow> bool" where
  "sa_inv s \<longleftrightarrow> sessions_ok (sa_sessions s) \<and> listeners_ok (sa_listeners s)"

text \<open>What other threads do to a session while one of its operations waits keeps the session's invariant.\<close>

definition sa_env_ok :: "'d sa_env \<Rightarrow> bool" where
  "sa_env_ok X \<longleftrightarrow> (\<forall>w u. env_ok (sx_raw X w u))"

abbreviation keeps :: "('d, 'a) sao \<Rightarrow> bool" where
  "keeps m \<equiv> preserves sa_inv m"

section \<open>Parts\<close>

lemma low_fields:
  assumes "low (m :: ('d, 'a) sao)"
  shows "sa_sessions (snd (run_state m s)) = sa_sessions s" "sa_listeners (snd (run_state m s)) = sa_listeners s"
    "sa_tasks (snd (run_state m s)) = sa_tasks s" "sa_groups (snd (run_state m s)) = sa_groups s"
    "sa_targetSwitchCount (snd (run_state m s)) = sa_targetSwitchCount s"
    "sa_switchTaskExecuting (snd (run_state m s)) = sa_switchTaskExecuting s"
  using frames_run [OF assms, of s] by (cases "snd (run_state m s)"; cases s; simp)+

lemma low_keeps: "low m \<Longrightarrow> keeps m"
  by (simp add: preserves_def sa_inv_def low_fields)

lemmas keeps_low [pres_intros] =
  low_tables [THEN low_keeps] low_exam [THEN low_keeps] low_exam1 [THEN low_keeps] low_full [THEN
  low_keeps] low_full1 [THEN low_keeps] low_full2 [THEN low_keeps] low_inquirer [THEN low_keeps]
  low_inquirer1 [THEN low_keeps] low_inquirer2 [THEN low_keeps] low_inquirer3 [THEN low_keeps]
  low_inquirer4 [THEN low_keeps]

lemma keeps_basic [pres_intros]:
  "keeps (gets f)" "keeps (sa_emit ev)" "keeps (post t)" "keeps (window_op w)" "keeps (set_type b im)"
  "keeps (type_query q)" "keeps (on_world g)" "keeps (facts X k)"
  unfolding sa_emit_def post_def window_op_def set_type_def type_query_def on_world_def facts_def
  by (intro pres_intros preserves_modify; simp add: sa_inv_def preserves_def)+

lemma keeps_modify:
  "(\<And>s. sa_sessions (f s) = sa_sessions s) \<Longrightarrow> (\<And>s. sa_listeners (f s) = sa_listeners s) \<Longrightarrow> keeps (modify f)"
  by (simp add: preserves_def sa_inv_def)

lemma env_ok_session [simp]: "sa_env_ok X \<Longrightarrow> env_ok (session_env X u old s)"
  by (simp add: sa_env_ok_def env_ok_def session_env_def Let_def)

lemma session_inv_itm [simp]: "session_inv (ss\<lparr>ss_itm := m\<rparr>) = session_inv ss"
  by (simp add: session_inv_def session_ok_def imes_ok_def counters_ok_def)

lemma set_update_assoc: "set (AList.update k v m) \<subseteq> insert (k, v) (set m)"
  by (induction m) auto

lemma sessions_ok_update: "sessions_ok m \<Longrightarrow> session_inv ss \<Longrightarrow> sessions_ok (AList.update u ss m)"
  using set_update_assoc [of u ss m] by (auto simp: sessions_ok_def AList.distinct_update)

lemma GetUserSession_inv: "sa_inv s \<Longrightarrow> GetUserSession u s = Some ss \<Longrightarrow> session_inv ss"
  by (auto simp: GetUserSession_def sa_inv_def sessions_ok_def dest!: map_of_SomeD)

lemma keeps_AddUserSession [pres_intros]: "keeps (AddUserSession X u)"
  unfolding AddUserSession_def
  by (intro preserves_modify) (auto simp: sa_inv_def sessions_ok_def inv_new_session map_of_eq_None_iff)

lemma keeps_RemoveUserSession [pres_intros]: "keeps (RemoveUserSession u)"
  unfolding RemoveUserSession_def
  by (intro preserves_modify) (use set_delete_alist in \<open>fastforce simp: sa_inv_def sessions_ok_def AList.distinct_delete\<close>)

lemma keeps_settle [pres_intros]: "keeps (settle X u evs)"
proof -
  have "keeps (settle_event X u ev)" for ev
    by (cases ev; simp add: settle_event_def tell_def; intro pres_intros)
  then show ?thesis unfolding settle_def by (intro pres_intros)
qed

lemma keeps_in_session [pres_intros]:
  assumes "sa_env_ok X" "\<And>E. env_ok E \<Longrightarrow> preserves session_inv (m E)"
  shows "keeps (in_session X u none m)"
proof -
  have "wp (run_session X u ss m) (\<lambda>_. sa_inv) s" if "sa_inv s" "session_inv ss" for s ss
  proof -
    let ?r = "run_state (m (session_env X u (ss_log ss) s)) ss"
    have "session_inv (snd ?r)" using assms that by (auto intro: preserves_run)
    with that have "sa_inv (s\<lparr>sa_sessions := AList.update u (snd ?r) (sa_sessions s), nq_itm := ss_itm (snd ?r)\<rparr>)"
      by (simp add: sa_inv_def sessions_ok_update)
    then have "wp (settle X u (new_events (ss_log ss) (ss_log (snd ?r)))) (\<lambda>_. sa_inv)
        (s\<lparr>sa_sessions := AList.update u (snd ?r) (sa_sessions s), nq_itm := ss_itm (snd ?r)\<rparr>)"
      by (rule preserves_wp [THEN iffD1, rule_format, OF keeps_settle])
    then show ?thesis by (simp add: run_session_def wp_simps) (erule wp_conseq, simp add: wp_simps)
  qed
  then show ?thesis
    by (auto simp: in_session_def preserves_wp wp_simps split: option.split intro: GetUserSession_inv)
qed

lemma inv_AddRestartIme [pres_intros]: "preserves session_inv (AddRestartIme E)"
proof -
  have "preserves session_inv (modify (\<lambda>s. s\<lparr>ss_restartTasks := max n 0 + 1\<rparr>))" if "\<not> MAX_RESTART_TASKS \<le> n" for n
    using that by (intro preserves_modify) (simp add: session_inv_def session_ok_def imes_ok_def counters_ok_def)
  then show ?thesis unfolding AddRestartIme_def by (intro pres_intros)
qed

lemmas inv_session_ops = inv_OnSetCoreAndAgent inv_lifecycle inv_tasks inv_proxy

lemma preserves_sum [pres_intros]:
  "(\<And>a. x = Inl a \<Longrightarrow> preserves I (f a)) \<Longrightarrow> (\<And>b. x = Inr b \<Longrightarrow> preserves I (g b)) \<Longrightarrow>
   preserves I (case x of Inl a \<Rightarrow> f a | Inr b \<Rightarrow> g b)"
  by (cases x) simp_all

lemma preserves_trigger [pres_intros]:
  assumes "preserves I a" "preserves I b" "preserves I c" "preserves I d" "\<And>n. preserves I (e n)"
  shows "preserves I (case t of CURRENT_IME \<Rightarrow> a | SYSTEM_APP \<Rightarrow> b | IMSA \<Rightarrow> c | NATIVE_SA \<Rightarrow> d | TRIGGER_VALUE n \<Rightarrow> e n)"
  using assms by (cases t) auto

lemma preserves_list [pres_intros]:
  assumes "preserves I a" "\<And>x xs. preserves I (f x xs)"
  shows "preserves I (case l of [] \<Rightarrow> a | x # xs \<Rightarrow> f x xs)"
  using assms by (cases l) auto

lemma sa_base [pres_intros]:
  assumes "sa_env_ok X"
  shows "keeps (SetupImeUsageCallbacks X u)" "keeps (IsFocusedOrBroker X C u n ob)"
    "keeps (PrepareForOperateKeyboard X C n)"
  unfolding SetupImeUsageCallbacks_def IsFocusedOrBroker_def PrepareForOperateKeyboard_def
  by (intro pres_intros inv_session_ops keeps_modify assms; simp?)+

lemma sa_base1 [pres_intros]:
  assumes "sa_env_ok X"
  shows "keeps (ensure_session X u)"
  unfolding ensure_session_def
  by (intro pres_intros inv_session_ops keeps_modify assms; simp?)+


lemma inv_SetInputType [pres_intros]: "preserves session_inv (SetInputType E t)"
  by (rule quiet_inv, unfold SetInputType_def) (intro frame_intros)

lemma sa_switch_plain [pres_intros]:
  "keeps (DealSwitchRequest u)"
  unfolding DealSwitchRequest_def
  by (intro pres_intros keeps_modify; simp)+

lemma sa_switch [pres_intros]:
  assumes "sa_env_ok X"
  shows "keeps (IsTmpIme X u n)" "keeps (IsStartInputTypePermitted X C u)" "keeps (StartSwitch X u x1)"
    "keeps (IsNeedSwitch X u b b')" "keeps (SwitchInputType X u x1 t)" "keeps (type_ime X x2)"
    "keeps (EnableIme_user X u b b' x3)" "keeps (current_name X u)" "keeps (IsValidBundleName X C b)"
  unfolding IsTmpIme_def IsStartInputTypePermitted_def StartSwitch_def IsNeedSwitch_def SwitchInputType_def
    type_ime_def EnableIme_user_def current_name_def IsValidBundleName_def
  by (intro pres_intros inv_session_ops keeps_modify assms; simp?)+

lemma sa_switch1 [pres_intros]:
  assumes "sa_env_ok X"
  shows "keeps (IsTmpImeSwitchSubtype X u n b)" "keeps (CheckSwitchPermission X C u x1)"
    "keeps (OnStartInputType X C u x2 t t')" "keeps (EnableIme X C b b' x3 u)"
  unfolding IsTmpImeSwitchSubtype_def CheckSwitchPermission_def OnStartInputType_def EnableIme_def
  by (intro pres_intros inv_session_ops keeps_modify assms; simp?)+

lemma sa_switch2 [pres_intros]:
  assumes "sa_env_ok X"
  shows "keeps (OnSwitchInputMethod X C u x1 x2)" "keeps (StartInputType_user X C u x3 t)"
  unfolding OnSwitchInputMethod_def StartInputType_user_def
  by (intro pres_intros inv_session_ops keeps_modify assms; simp?)+

lemma sa_switch3 [pres_intros]:
  assumes "sa_env_ok X"
  shows "keeps (StartInputType X C u t)" "keeps (StartInputTypeAsync X C u t)"
    "keeps (SwitchInputMethodInner X C u b b' x1)" "keeps (queue_switch X C u x2)"
    "keeps (SwitchToPreviousIme X u)"
  unfolding StartInputType_def StartInputTypeAsync_def SwitchInputMethodInner_def queue_switch_def
    SwitchToPreviousIme_def
  by (intro pres_intros inv_session_ops keeps_modify assms; simp?)+

lemma sa_switch4 [pres_intros]:
  assumes "sa_env_ok X"
  shows "keeps (SwitchInputMethod X C b b' x1 u)" "keeps (SwitchByCondition X x2 x3 u)"
    "keeps (SwitchType X u)" "keeps (SwitchToDefaultIme X u)" "keeps (OnExamModeOff X x4)"
    "keeps (HandleEDCInputMethodAutoSwitch X C u b)" "keeps (HandleEDCInputMethodInstall X u b)"
    "keeps (HandleEDCInputMethodRemove X u b)" "keeps (RestoreInputmethod X C b)"
  unfolding SwitchInputMethod_def SwitchByCondition_def SwitchType_def SwitchToDefaultIme_def OnExamModeOff_def
    HandleEDCInputMethodAutoSwitch_def HandleEDCInputMethodInstall_def HandleEDCInputMethodRemove_def
    RestoreInputmethod_def
  by (intro pres_intros inv_session_ops keeps_modify assms; simp?)+

lemma sa_switch5 [pres_intros]:
  assumes "sa_env_ok X"
  shows "keeps (SwitchMode X u)" "keeps (SwitchLanguage X u)" "keeps (OnExamModeOn X x1)"
    "keeps (SetEDCDefaultInputMethod X C b)" "keeps (OnExtension X C b b')"
  unfolding SwitchMode_def SwitchLanguage_def OnExamModeOn_def SetEDCDefaultInputMethod_def OnExtension_def
  by (intro pres_intros inv_session_ops keeps_modify assms; simp?)+

lemma sa_switch6 [pres_intros]:
  assumes "sa_env_ok X"
  shows "keeps (SwitchByCombinationKey X n)"
  unfolding SwitchByCombinationKey_def
  by (intro pres_intros inv_session_ops keeps_modify assms; simp?)+


lemma keeps_PostPttDialogTask [pres_intros]: "keeps (PostPttDialogTask X u)"
  unfolding PostPttDialogTask_def by (rule keeps_modify) auto

lemmas inv_restore_subtype [pres_intros] = quiet_inv [OF quiet_RestoreSubType]

lemma inv_need_hide [pres_intros]:
  "preserves session_inv (upd_client gid c (\<lambda>ci. ci\<lparr>ci_needHide := b\<rparr>))"
  by (rule other_frame_inv [OF other_upd_client preserves_upd_client]) simp_all

lemma keeps_ime_info [pres_intros]: "sa_env_ok X \<Longrightarrow> keeps (GetCurrentImeInfoForHiSysEvent X u)"
  unfolding GetCurrentImeInfoForHiSysEvent_def by (intro pres_intros inv_session_ops)

lemma keeps_reported_show [pres_intros]: "sa_env_ok X \<Longrightarrow> keeps m \<Longrightarrow> keeps (reported_show X C m)"
  unfolding reported_show_def by (intro pres_intros inv_session_ops)

lemma sa_requests [pres_intros]:
  assumes "sa_env_ok X"
  shows "keeps (GenerateClientInfo X C u i x1)" "keeps (NeedHideWhenSwitchInputType X u x2 t)"
    "keeps (GetAlternativeIme X u)" "keeps (GetScreenLockIme X u)" "keeps (IncreaseAttachCount_sa X C)"
    "keeps (DecreaseAttachCount_sa X C)" "keeps (ReleaseInput_sa X C ob n u)" "keeps (leave_stylus X u)"
    "keeps (HideInput_sa X C ob n)" "keeps (StopInputSession X C n)"
    "keeps (RequestHideInput_sa X C n d t u)" "keeps (SetCallingWindow_sa X C n ob)"
    "keeps (HideCurrentInput_sa X C)" "keeps (HideCurrentInput_display X C d)"
    "keeps (HideCurrentInputDeprecated X C n)"
  unfolding GenerateClientInfo_def NeedHideWhenSwitchInputType_def GetAlternativeIme_def GetScreenLockIme_def
    IncreaseAttachCount_sa_def DecreaseAttachCount_sa_def ReleaseInput_sa_def leave_stylus_def HideInput_sa_def
    StopInputSession_def RequestHideInput_sa_def SetCallingWindow_sa_def HideCurrentInput_sa_def
    HideCurrentInput_display_def HideCurrentInputDeprecated_def
  by (intro pres_intros inv_session_ops keeps_modify assms; simp?)+

lemma sa_requests1 [pres_intros]:
  assumes "sa_env_ok X"
  shows "keeps (PrepareInput_sa X C u i x1)" "keeps (start_special X C u x2 i)"
  unfolding PrepareInput_sa_def start_special_def
  by (intro pres_intros inv_session_ops keeps_modify assms; simp?)+

lemma sa_requests2 [pres_intros]:
  assumes "sa_env_ok X"
  shows "keeps (StartSecurityIme X C u i)" "keeps (StartStylusIme X C u i)"
  unfolding StartSecurityIme_def StartStylusIme_def
  by (intro pres_intros inv_session_ops keeps_modify assms; simp?)+

lemma sa_requests3 [pres_intros]:
  assumes "sa_env_ok X"
  shows "keeps (EnsureImeAvailable X C u i)" "keeps (stylus_client X C u x1)"
  unfolding EnsureImeAvailable_def stylus_client_def
  by (intro pres_intros inv_session_ops keeps_modify assms; simp?)+

lemma sa_requests4 [pres_intros]:
  assumes "sa_env_ok X"
  shows "keeps (StartInputInner X C i)" "keeps (stylus_part X C u t)"
    "keeps (ShowCurrentInputDeprecated X C n t)"
  unfolding StartInputInner_def stylus_part_def ShowCurrentInputDeprecated_def
  by (intro pres_intros inv_session_ops keeps_modify assms; simp?)+

lemma sa_requests5 [pres_intros]:
  assumes "sa_env_ok X"
  shows "keeps (StartInput_sa X C x1)" "keeps (ShowInputInner X C ob n u t)"
    "keeps (ShowCurrentInputInner X C t)" "keeps (ShowCurrentInputInner_display X C d t)"
  unfolding StartInput_sa_def ShowInputInner_def ShowCurrentInputInner_def ShowCurrentInputInner_display_def
  by (intro pres_intros inv_session_ops keeps_modify assms; simp?)+

lemma sa_requests6 [pres_intros]:
  assumes "sa_env_ok X"
  shows "keeps (ShowInput_sa X C ob n u t)" "keeps (ShowCurrentInput_sa X C t)"
    "keeps (ShowCurrentInput_display X C d t)"
  unfolding ShowInput_sa_def ShowCurrentInput_sa_def ShowCurrentInput_display_def
  by (intro pres_intros inv_session_ops keeps_modify assms; simp?)+


lemma keeps_tell [pres_intros]: "keeps (tell calls notice)"
  unfolding tell_def by (intro pres_intros)

lemma keeps_as_current_ime [pres_intros]: "(\<And>u. keeps (f u)) \<Longrightarrow> keeps (as_current_ime X C f)"
  unfolding as_current_ime_def by (intro pres_intros)

lemma keeps_for_user [pres_intros]: "(\<And>u. keeps (f u)) \<Longrightarrow> keeps (for_user X C u f d)"
  unfolding for_user_def by (intro pres_intros)

lemma keeps_UpdateListenEventFlag [pres_intros]: "keeps (UpdateListenEventFlag X C i n)"
  unfolding UpdateListenEventFlag_def
  by (auto simp: preserves_wp Let_def wp_simps on_world_def facts_def sa_inv_def listeners_ok_Update split: sum.split)

lemma sa_queries [pres_intros]:
  assumes "sa_env_ok X"
  shows "keeps (SetCoreAndAgent_sa X C ob ob')" "keeps (InitConnect_sa X C)"
    "keeps (RegisterProxyIme_sa X C d ob ob')" "keeps (UnregisterProxyIme_sa X C d u)"
    "keeps (BindImeMirror_sa X C ob ob')" "keeps (UnbindImeMirror_sa X C)" "keeps (PanelStatusChange X C x1)"
    "keeps (NotifyInputStart_sa X C)" "keeps (NotifyInputStop_sa X C)"
    "keeps (NotifySoftKeyBoardInfoChanged_sa X C)" "keeps (IsInputTypeSupported X u)"
    "keeps (IsDefaultImeFromTokenId X u n)" "keeps (IsInputTypeCaller X b)"
    "keeps (GetCurrentInputMethod_sa X C u)" "keeps (GetCurrentInputMethodSubtype X C u)"
    "keeps (GetDefaultInputMethod_sa X C x2 t u)" "keeps (GetInputMethodConfig_sa X C u)"
    "keeps (IsDefaultImeSet_sa X C u)" "keeps (ListInputMethod_sa X C x3 u)"
    "keeps (ListCurrentInputMethodSubtype_sa X C u)" "keeps (ListInputMethodSubtype_sa X C b u)"
    "keeps (GetSoftKeyboardInfo_sa X C u)" "keeps (GetInputStartInfo_sa X C)"
    "keeps (GetCursorInfo_sa X C u)" "keeps (IsPanelShown_sa X C x4)" "keeps (IsPanelShown_on X C d x4)"
    "keeps (IsCurrentImeByPid_sa X C p u)" "keeps (IsKeyboardCallingProcess_sa X C p n)"
    "keeps (OnDisplayOptionalInputMethod X)" "keeps (GetSecurityMode X C u)"
    "keeps (GetInputMethodState X C x5)" "keeps (ConnectSystemCmd_sa X C ob)"
    "keeps (SendPrivateData_sa X C x6)" "keeps (ExecTextInteraction_sa X C b)"
  unfolding SetCoreAndAgent_sa_def InitConnect_sa_def RegisterProxyIme_sa_def UnregisterProxyIme_sa_def
    BindImeMirror_sa_def UnbindImeMirror_sa_def PanelStatusChange_def NotifyInputStart_sa_def
    NotifyInputStop_sa_def NotifySoftKeyBoardInfoChanged_sa_def IsInputTypeSupported_def
    IsDefaultImeFromTokenId_def IsInputTypeCaller_def GetCurrentInputMethod_sa_def
    GetCurrentInputMethodSubtype_def GetDefaultInputMethod_sa_def GetInputMethodConfig_sa_def
    IsDefaultImeSet_sa_def ListInputMethod_sa_def ListCurrentInputMethodSubtype_sa_def
    ListInputMethodSubtype_sa_def GetSoftKeyboardInfo_sa_def GetInputStartInfo_sa_def GetCursorInfo_sa_def
    IsPanelShown_sa_def IsPanelShown_on_def IsCurrentImeByPid_sa_def IsKeyboardCallingProcess_sa_def
    OnDisplayOptionalInputMethod_def GetSecurityMode_def GetInputMethodState_def ConnectSystemCmd_sa_def
    SendPrivateData_sa_def ExecTextInteraction_sa_def
  by (intro pres_intros inv_session_ops keeps_modify assms; simp?)+

lemma sa_queries1 [pres_intros]:
  assumes "sa_env_ok X"
  shows "keeps (IsDefaultIme X C)" "keeps (ExitCurrentInputType X C)"
  unfolding IsDefaultIme_def ExitCurrentInputType_def
  by (intro pres_intros inv_session_ops keeps_modify assms; simp?)+


lemmas inv_act_all [pres_intros] = quiet_inv [OF quiet_act_all]

lemma keeps_with_msg_session [pres_intros]:
  "sa_env_ok X \<Longrightarrow> (\<And>E. env_ok E \<Longrightarrow> preserves session_inv (m E)) \<Longrightarrow> keeps (with_msg_session X msg m)"
  unfolding with_msg_session_def by (intro pres_intros)

lemma preserves_message [pres_intros]:
  assumes "preserves I a" "preserves I b" "\<And>x. preserves I (f x)"
  shows "preserves I (case msg of NoContent \<Rightarrow> a | Unreadable \<Rightarrow> b | Content x \<Rightarrow> f x)"
  using assms by (cases msg) auto

lemma preserves_package [pres_intros]:
  assumes "preserves I a" "preserves I b" "preserves I c"
  shows "preserves I (case ev of PACKAGE_ADDED \<Rightarrow> a | PACKAGE_CHANGED \<Rightarrow> b | PACKAGE_REMOVED \<Rightarrow> c)"
  using assms by (cases ev) auto

lemma sa_events_plain [pres_intros]:
  "keeps (RemoveWindowMonitors u)" "keeps StopAllBackgroundImes" "keeps (display_group_changed d d' t u)"
    "keeps (DataShareCallback b)" "keeps InitServiceHandler"
  unfolding RemoveWindowMonitors_def StopAllBackgroundImes_def display_group_changed_def DataShareCallback_def
    InitServiceHandler_def
  by (intro pres_intros keeps_modify; simp)+

lemma sa_events [pres_intros]:
  assumes "sa_env_ok X"
  shows "keeps (register_monitor X x1 u)" "keeps (store_groups X u)" "keeps (RestartAllForegroundImes X)"
    "keeps (stop_background X)" "keeps (StartNewUserIme X u)" "keeps (RemoveAllCurrentClient_of X u)"
    "keeps (tell_numkey X u d)" "keeps (OnUserRemoved X x2)" "keeps (OnUserStop X x2)"
    "keeps (OnHideKeyboardSelf X x2)" "keeps (HandleUpdateLargeMemoryState X x3)"
    "keeps (OnPackageUpdated_sa X u b)" "keeps (OnPackageAdded_sa X u b)" "keeps (OnPackageRemoved_sa X u b)"
    "keeps (OnScreenUnlock_sa X x2)" "keeps (OnScreenLock_sa X x2)" "keeps (HandleWmsConnected X u u' p)"
    "keeps (HandleWmsDisconnected X u u' p)" "keeps (HandleFocusChanged X t d p p')"
    "keeps (window_display_changed X u n d)" "keeps (HandlePasteboardStarted X)"
    "keeps (RegisterSecurityModeObserver X)" "keeps (OnCurrentImeStatusChanged X u b x4)"
    "keeps (ModifyImeCfgWithWrongCaps X u)" "keeps (OnSysImeImageCreated_sa X x5)"
    "keeps (OnMakeSysImeImage_sa X)" "keeps (OnSysMemChanged X)" "keeps (Initialize X)" "keeps (OnStop X)"
  unfolding register_monitor_def store_groups_def RestartAllForegroundImes_def stop_background_def
    StartNewUserIme_def RemoveAllCurrentClient_of_def tell_numkey_def OnUserRemoved_def OnUserStop_def
    OnHideKeyboardSelf_def HandleUpdateLargeMemoryState_def OnPackageUpdated_sa_def OnPackageAdded_sa_def
    OnPackageRemoved_sa_def OnScreenUnlock_sa_def OnScreenLock_sa_def HandleWmsConnected_def
    HandleWmsDisconnected_def HandleFocusChanged_def window_display_changed_def HandlePasteboardStarted_def
    RegisterSecurityModeObserver_def OnCurrentImeStatusChanged_def ModifyImeCfgWithWrongCaps_def
    OnSysImeImageCreated_sa_def OnMakeSysImeImage_sa_def OnSysMemChanged_def Initialize_def OnStop_def
  by (intro pres_intros inv_session_ops keeps_modify assms; simp?)+

lemma sa_events1 [pres_intros]:
  assumes "sa_env_ok X"
  shows "keeps (InitFocusChangedMonitor X u)" "keeps (InitWmsConnectionMonitor X u)"
    "keeps (InitWindowDisplayChangedMonitor X u)" "keeps (InitDisplayGroupMonitor X u)"
    "keeps (ResetAllImes X)" "keeps (InitUserInfo X u d)" "keeps (UpdateUserInfo X u d)"
    "keeps (HandleUserSwitchedOut X u)" "keeps (HandlePackageEvent X x1 x2)" "keeps (HandleDataShareReady X)"
    "keeps (HandleImeCfgCapsState X u)"
  unfolding InitFocusChangedMonitor_def InitWmsConnectionMonitor_def InitWindowDisplayChangedMonitor_def
    InitDisplayGroupMonitor_def ResetAllImes_def InitUserInfo_def UpdateUserInfo_def HandleUserSwitchedOut_def
    HandlePackageEvent_def HandleDataShareReady_def HandleImeCfgCapsState_def
  by (intro pres_intros inv_session_ops keeps_modify assms; simp?)+

lemma sa_events2 [pres_intros]:
  assumes "sa_env_ok X"
  shows "keeps (InitWindowMonitors X u)" "keeps (HandleMemStarted X)" "keeps (HandleBundleScanFinished X)"
  unfolding InitWindowMonitors_def HandleMemStarted_def HandleBundleScanFinished_def
  by (intro pres_intros inv_session_ops keeps_modify assms; simp?)+

lemma sa_events3 [pres_intros]:
  assumes "sa_env_ok X"
  shows "keeps (init_user_monitors X u)"
  unfolding init_user_monitors_def
  by (intro pres_intros inv_session_ops keeps_modify assms; simp?)+

lemma sa_events4 [pres_intros]:
  assumes "sa_env_ok X"
  shows "keeps (InitAllUsersWindowMonitors X)" "keeps (HandleUserSwitchedIn X u d)"
  unfolding InitAllUsersWindowMonitors_def HandleUserSwitchedIn_def
  by (intro pres_intros inv_session_ops keeps_modify assms; simp?)+

lemma sa_events5 [pres_intros]:
  assumes "sa_env_ok X"
  shows "keeps (OnUserSwitched X x1)" "keeps (HandleWmsStarted X)" "keeps (HandleOsAccountStarted X)"
  unfolding OnUserSwitched_def HandleWmsStarted_def HandleOsAccountStarted_def
  by (intro pres_intros inv_session_ops keeps_modify assms; simp?)+


end
