(* ===== verification/Sa_Machine.thy ===== *)
theory Sa_Machine
  imports Sa_Inv
begin

text \<open>
  The service as a state machine: a step is a request of some caller or an event of the system. The invariant of
  the service holds in every reachable state, and a caller that belongs to a user acts on that user's session only.
\<close>

datatype sa_call =
    StartInputCall input_client_info_inner | ReleaseInputCall "robj option" u32 int
  | ShowInputCall "robj option" u32 int bool | HideInputCall "robj option" u32 | StopInputSessionCall u32
  | RequestHideInputCall u32 u64 bool int | SetCallingWindowCall u32 "robj option"
  | HideCurrentInputCall | HideCurrentInputOn u64 | ShowCurrentInputCall bool | ShowCurrentInputOn u64 bool
  | HideDeprecated u32 | ShowDeprecated u32 bool
  | SetCoreAndAgentCall "robj option" "robj option" | InitConnectCall
  | RegisterProxyCall u64 "robj option" "robj option" | UnregisterProxyCall u64 int
  | BindMirrorCall "robj option" "robj option" | UnbindMirrorCall
  | PanelStatusCall window_status | InputStartedCall | InputStoppedCall | KeyboardInfoCall
  | ListenEventCall input_client_info_inner u32
  | StartInputTypeCall int bool | ExitInputTypeCall
  | SwitchCall string string switch_trigger int | EnableCall string string enabled_status int
  | SetEDCDefaultCall string | ExtensionCall string string
  | CurrentImeCall int | CurrentSubtypeCall int | DefaultImeCall ime_property bool int | DefaultImeSetCall int
  | ListCall input_method_status int | ListSubtypesCall int | ListSubtypesOfCall string int
  | KeyboardQuery int | StartInfoQuery | CursorQuery int | PanelShownCall panel_info | PanelShownOnCall u64 panel_info
  | KeyboardCallerQuery pid_t u32 | DefaultImeQuery | TypeSupportedQuery int | DisplayOptional | SecurityModeQuery int
  | ImeStateQuery enabled_status
  | ConnectSystemCmdCall "robj option" | SendPrivateDataCall private_command | ExecTextCall string

definition on_call :: "'d sa_env \<Rightarrow> caller \<Rightarrow> sa_call \<Rightarrow> ('d, unit) sao" where
  "on_call X C q = (case q of
     StartInputCall i \<Rightarrow> void (StartInput_sa X C i)
   | ReleaseInputCall c n m \<Rightarrow> void (ReleaseInput_sa X C c n m)
   | ShowInputCall c w r st \<Rightarrow> void (ShowInput_sa X C c w r st)
   | HideInputCall c w \<Rightarrow> void (HideInput_sa X C c w)
   | StopInputSessionCall w \<Rightarrow> void (StopInputSession X C w)
   | RequestHideInputCall w d f u \<Rightarrow> void (RequestHideInput_sa X C w d f u)
   | SetCallingWindowCall w c \<Rightarrow> void (SetCallingWindow_sa X C w c)
   | HideCurrentInputCall \<Rightarrow> void (HideCurrentInput_sa X C)
   | HideCurrentInputOn d \<Rightarrow> void (HideCurrentInput_display X C d)
   | ShowCurrentInputCall st \<Rightarrow> void (ShowCurrentInput_sa X C st)
   | ShowCurrentInputOn d st \<Rightarrow> void (ShowCurrentInput_display X C d st)
   | HideDeprecated w \<Rightarrow> void (HideCurrentInputDeprecated X C w)
   | ShowDeprecated w st \<Rightarrow> void (ShowCurrentInputDeprecated X C w st)
   | SetCoreAndAgentCall c a \<Rightarrow> void (SetCoreAndAgent_sa X C c a)
   | InitConnectCall \<Rightarrow> void (InitConnect_sa X C)
   | RegisterProxyCall d c a \<Rightarrow> void (RegisterProxyIme_sa X C d c a)
   | UnregisterProxyCall d t \<Rightarrow> void (UnregisterProxyIme_sa X C d t)
   | BindMirrorCall c a \<Rightarrow> void (BindImeMirror_sa X C c a)
   | UnbindMirrorCall \<Rightarrow> void (UnbindImeMirror_sa X C)
   | PanelStatusCall st \<Rightarrow> void (PanelStatusChange X C st)
   | InputStartedCall \<Rightarrow> void (NotifyInputStart_sa X C)
   | InputStoppedCall \<Rightarrow> void (NotifyInputStop_sa X C)
   | KeyboardInfoCall \<Rightarrow> void (NotifySoftKeyBoardInfoChanged_sa X C)
   | ListenEventCall i n \<Rightarrow> void (UpdateListenEventFlag X C i n)
   | StartInputTypeCall t p \<Rightarrow> void (StartInputType X C t p)
   | ExitInputTypeCall \<Rightarrow> void (ExitCurrentInputType X C)
   | SwitchCall b sub t u \<Rightarrow> void (SwitchInputMethod X C b sub t u)
   | EnableCall b e st u \<Rightarrow> void (EnableIme X C b e st u)
   | SetEDCDefaultCall b \<Rightarrow> void (SetEDCDefaultInputMethod X C b)
   | ExtensionCall e j \<Rightarrow> void (OnExtension X C e j)
   | CurrentImeCall u \<Rightarrow> void (GetCurrentInputMethod_sa X C u)
   | CurrentSubtypeCall u \<Rightarrow> void (GetCurrentInputMethodSubtype X C u)
   | DefaultImeCall p b u \<Rightarrow> void (GetDefaultInputMethod_sa X C p b u)
   | DefaultImeSetCall u \<Rightarrow> void (IsDefaultImeSet_sa X C u)
   | ListCall st u \<Rightarrow> void (ListInputMethod_sa X C st u)
   | ListSubtypesCall u \<Rightarrow> void (ListCurrentInputMethodSubtype_sa X C u)
   | ListSubtypesOfCall b u \<Rightarrow> void (ListInputMethodSubtype_sa X C b u)
   | KeyboardQuery u \<Rightarrow> void (GetSoftKeyboardInfo_sa X C u)
   | StartInfoQuery \<Rightarrow> void (GetInputStartInfo_sa X C)
   | CursorQuery u \<Rightarrow> void (GetCursorInfo_sa X C u)
   | PanelShownCall i \<Rightarrow> void (IsPanelShown_sa X C i)
   | PanelShownOnCall d i \<Rightarrow> void (IsPanelShown_on X C d i)
   | KeyboardCallerQuery p w \<Rightarrow> void (IsKeyboardCallingProcess_sa X C p w)
   | DefaultImeQuery \<Rightarrow> void (IsDefaultIme X C)
   | TypeSupportedQuery t \<Rightarrow> void (IsInputTypeSupported X t)
   | DisplayOptional \<Rightarrow> void (OnDisplayOptionalInputMethod X)
   | SecurityModeQuery n \<Rightarrow> void (GetSecurityMode X C n)
   | ImeStateQuery st \<Rightarrow> void (GetInputMethodState X C st)
   | ConnectSystemCmdCall c \<Rightarrow> void (ConnectSystemCmd_sa X C c)
   | SendPrivateDataCall c \<Rightarrow> void (SendPrivateData_sa X C c)
   | ExecTextCall t \<Rightarrow> void (ExecTextInteraction_sa X C t))"

text \<open>Before the first start of the service: no session, no listener, nothing cached.\<close>

definition sa_start :: "'d sa \<Rightarrow> bool" where
  "sa_start s \<longleftrightarrow> sa_sessions s = [] \<and> sa_listeners s = [] \<and> sa_tasks s = []"

inductive sa_step :: "'d sa_env \<Rightarrow> 'd sa \<Rightarrow> 'd sa \<Rightarrow> bool" for X where
  call: "run_state (on_call X C q) s = ((), t) \<Longrightarrow> sa_step X s t"
| event: "run_state (on_system_event X ev) s = ((), t) \<Longrightarrow> sa_step X s t"
| outside_world: "sa_step X s (s\<lparr>sd_world := w\<rparr>)"

inductive_cases sa_step_cases: "sa_step X s t"

definition sa_reachable :: "'d sa_env \<Rightarrow> 'd sa \<Rightarrow> bool" where
  "sa_reachable X = reaches sa_start (sa_step X)"

section \<open>The invariant\<close>

lemma keeps_switch_task [pres_intros]: "sa_env_ok X \<Longrightarrow> keeps (switch_task X u ns)"
proof (induction ns)
  case Nil
  then show ?case by (simp, intro pres_intros keeps_modify; simp)
next
  case (Cons n ns)
  then show ?case by (simp del: for_each.simps, intro pres_intros keeps_modify; simp)
qed

lemma keeps_tasks [pres_intros]:
  assumes "sa_env_ok X"
  shows "keeps (run_task X ns t)" "keeps (run_posted X p)"
  using assms by (cases t; simp add: run_task_def; intro pres_intros; simp)
    (use assms in \<open>cases p; simp add: run_posted_def; intro pres_intros; simp\<close>)

lemma keeps_take [pres_intros]:
  assumes "sa_env_ok X"
  shows "keeps (take_task X i ns)" "keeps (take_posted X i)"
  unfolding take_task_def take_posted_def by (intro pres_intros keeps_modify assms; simp)+

lemma keeps_event: "sa_env_ok X \<Longrightarrow> keeps (on_system_event X ev)"
  by (cases ev; simp only: on_system_event_def sa_system_event.case)
    (intro pres_intros inv_session_ops preserves_modify; simp add: sa_inv_def listeners_ok_Died)+

lemma keeps_call: "sa_env_ok X \<Longrightarrow> keeps (on_call X C q)"
  by (cases q; simp only: on_call_def sa_call.case) (intro pres_intros; assumption)+

lemma keeps_step: "sa_env_ok X \<Longrightarrow> sa_step X s t \<Longrightarrow> sa_inv s \<Longrightarrow> sa_inv t"
  by (erule sa_step_cases) (metis keeps_call preserves_run snd_conv, metis keeps_event preserves_run snd_conv, simp add: sa_inv_def)

interpretation service: safe_system sa_start "sa_step X" "\<lambda>s. sa_env_ok X \<longrightarrow> sa_inv s"
proof (unfold_locales, goal_cases)
  case (1 s)
  then show ?case by (simp add: sa_start_def sa_inv_def sessions_ok_def listeners_ok_def)
next
  case (2 s t)
  then show ?case by (auto intro: keeps_step)
qed

end
