(* ===== verification/Sa_Isolation.thy ===== *)
theory Sa_Isolation
  imports Sa_Machine
begin

text \<open>
  A caller that belongs to a user other than the system's user 0 acts on the session of its own user: whatever
  it asks for, the sessions of the other users stay as they are.
\<close>

definition others :: "int \<Rightarrow> 'd sa \<Rightarrow> int \<rightharpoonup> session" where
  "others u s = (map_of (sa_sessions s))(u := None)"

abbreviation alone :: "int \<Rightarrow> ('d, 'a) sao \<Rightarrow> bool" where
  "alone u m \<equiv> frames (others u) m"

definition own :: "'d sa_env \<Rightarrow> caller \<Rightarrow> int \<Rightarrow> bool" where
  "own X C u \<longleftrightarrow> ac_localId (sx_accounts X) (cl_uid C) = Some u \<and> u \<noteq> 0"

lemma own_calling: "own X C u \<Longrightarrow> gets (GetCallingUserId X C) = ret u"
  by (rule state.expand) (auto simp: own_def GetCallingUserId_def GetOsAccountLocalIdFromUid_def Let_def gets_def
      State_Monad.return_def State_Monad.bind_def State_Monad.get_def)

lemma own_for: "own X C u \<Longrightarrow> GetCallingUserId_for X C v s = Inr w \<Longrightarrow> w = u"
  by (auto simp: own_def GetCallingUserId_for_def GetOsAccountLocalIdFromUid_def Let_def split: if_splits)

lemma alone_user:
  assumes "own X C u" "\<And>e. alone u (f e)" "alone u (g u)"
  shows "alone u (gets (GetCallingUserId_for X C v) \<bind> (\<lambda>r. case r of Inl e \<Rightarrow> f e | Inr w \<Rightarrow> g w))"
proof -
  have "wp (gets (GetCallingUserId_for X C v) \<bind> (\<lambda>r. case r of Inl e \<Rightarrow> f e | Inr w \<Rightarrow> g w)) (\<lambda>_ t. others u t = others u s) s" for s
    using assms own_for [OF assms(1)] by (auto simp: wp_simps wp_run frames_def split: sum.split)
  then show ?thesis by (simp add: frames_def wp_run)
qed

lemma low_alone: "low m \<Longrightarrow> alone u m"
  by (simp add: frames_def others_def low_fields)

lemmas alone_low [frame_intros] =
  low_tables [THEN low_alone] low_exam [THEN low_alone] low_exam1 [THEN low_alone] low_full [THEN
  low_alone] low_full1 [THEN low_alone] low_full2 [THEN low_alone] low_inquirer [THEN low_alone]
  low_inquirer1 [THEN low_alone] low_inquirer2 [THEN low_alone] low_inquirer3 [THEN low_alone]
  low_inquirer4 [THEN low_alone]

lemma alone_basic [frame_intros]:
  "alone u (sa_emit ev)" "alone u (post t)" "alone u (window_op w)" "alone u (set_type b im)"
  "alone u (type_query q)" "alone u (on_world g)" "alone u (facts X k)"
  unfolding sa_emit_def post_def window_op_def set_type_def type_query_def on_world_def facts_def
  by (intro frame_intros frames_modify; simp add: others_def)+

lemma alone_settle [frame_intros]: "alone u (settle X v evs)"
proof -
  have "alone u (settle_event X v ev)" for ev
    by (cases ev; simp add: settle_event_def tell_def; intro frame_intros)
  then show ?thesis unfolding settle_def by (intro frame_intros)
qed

lemma alone_in_session [frame_intros]: "alone u (in_session X u none m)"
  unfolding in_session_def run_session_def
  by (intro frame_intros frames_modify) (auto simp: others_def map_of_update fun_eq_iff)

lemma frames_sum [frame_intros]:
  "(\<And>a. x = Inl a \<Longrightarrow> frames g (f a)) \<Longrightarrow> (\<And>b. x = Inr b \<Longrightarrow> frames g (h b)) \<Longrightarrow>
   frames g (case x of Inl a \<Rightarrow> f a | Inr b \<Rightarrow> h b)"
  by (cases x) simp_all

lemma frames_trigger [frame_intros]:
  assumes "frames I a" "frames I b" "frames I c" "frames I d" "\<And>n. frames I (e n)"
  shows "frames I (case t of CURRENT_IME \<Rightarrow> a | SYSTEM_APP \<Rightarrow> b | IMSA \<Rightarrow> c | NATIVE_SA \<Rightarrow> d | TRIGGER_VALUE n \<Rightarrow> e n)"
  using assms by (cases t) auto

lemma frames_list [frame_intros]:
  assumes "frames I a" "\<And>x xs. frames I (f x xs)"
  shows "frames I (case l of [] \<Rightarrow> a | x # xs \<Rightarrow> f x xs)"
  using assms by (cases l) auto

lemma alone_base [frame_intros]:
  "alone u (IsFocusedOrBroker X C u windowId abilityToken)"
  unfolding IsFocusedOrBroker_def
  by (intro frame_intros frames_modify; simp add: others_def)+

lemma alone_call_base [frame_intros]:
  assumes "own X C u"
  shows "alone u (PrepareForOperateKeyboard X C windowId)"
  unfolding PrepareForOperateKeyboard_def
    own_calling [OF assms] bind_left_identity
  by (intro frame_intros frames_modify assms; simp add: others_def)+


lemma alone_current_name [frame_intros]: "alone u (current_name X v)"
  unfolding current_name_def by (intro frame_intros)

lemma alone_switch [frame_intros]:
  "alone u (IsTmpIme X u tokenId)" "alone u (IsStartInputTypePermitted X C u)" "alone u (StartSwitch X u sw)"
    "alone u (IsNeedSwitch X u bundleName subName)" "alone u (SwitchInputType X u sw isPersistence)"
    "alone u (type_ime X t)" "alone u (EnableIme_user X u bundleName extensionName status)"
  unfolding IsTmpIme_def IsStartInputTypePermitted_def StartSwitch_def IsNeedSwitch_def SwitchInputType_def
    type_ime_def EnableIme_user_def
  by (intro frame_intros frames_modify; simp add: others_def)+

lemma alone_call_switch [frame_intros]:
  assumes "own X C u"
  shows "alone u (IsValidBundleName X C bundleName)"
  unfolding IsValidBundleName_def
    own_calling [OF assms] bind_left_identity
  by (intro frame_intros frames_modify assms; simp add: others_def)+

lemma alone_switch1 [frame_intros]:
  "alone u (IsTmpImeSwitchSubtype X u tokenId target)" "alone u (CheckSwitchPermission X C u trg)"
    "alone u (OnStartInputType X C u sw isCheckPermission isPersistence)"
  unfolding IsTmpImeSwitchSubtype_def CheckSwitchPermission_def OnStartInputType_def
  by (intro frame_intros frames_modify; simp add: others_def)+

lemma alone_call_switch1 [frame_intros]:
  assumes "own X C u"
  shows "alone u (EnableIme X C bundleName extensionName status v)"
  unfolding EnableIme_def
    own_calling [OF assms] bind_left_identity
  by (intro alone_user frame_intros frames_modify assms; simp add: others_def)+

lemma alone_switch2 [frame_intros]:
  "alone u (OnSwitchInputMethod X C u sw trg)" "alone u (StartInputType_user X C u ty isPersistence)"
  unfolding OnSwitchInputMethod_def StartInputType_user_def
  by (intro frame_intros frames_modify; simp add: others_def)+

lemma alone_switch3 [frame_intros]:
  "alone u (SwitchInputMethodInner X C u bundleName subName trg)" "alone u (queue_switch X C u sw)"
  unfolding SwitchInputMethodInner_def queue_switch_def
  by (intro frame_intros frames_modify; simp add: others_def)+

lemma alone_call_switch3 [frame_intros]:
  assumes "own X C u"
  shows "alone u (StartInputType X C ty isPersistence)"
  unfolding StartInputType_def
    own_calling [OF assms] bind_left_identity
  by (intro frame_intros frames_modify assms; simp add: others_def)+

lemma alone_switch4 [frame_intros]:
  "alone u (HandleEDCInputMethodAutoSwitch X C u backup)"
  unfolding HandleEDCInputMethodAutoSwitch_def
  by (intro frame_intros frames_modify; simp add: others_def)+

lemma alone_call_switch4 [frame_intros]:
  assumes "own X C u"
  shows "alone u (SwitchInputMethod X C bundleName subName trg v)"
    "alone u (RestoreInputmethod X C bundleName)"
  unfolding SwitchInputMethod_def RestoreInputmethod_def
    own_calling [OF assms] bind_left_identity
  by (intro alone_user frame_intros frames_modify assms; simp add: others_def)+

lemma alone_call_switch5 [frame_intros]:
  assumes "own X C u"
  shows "alone u (SetEDCDefaultInputMethod X C backup)" "alone u (OnExtension X C extension jsonString)"
  unfolding SetEDCDefaultInputMethod_def OnExtension_def
    own_calling [OF assms] bind_left_identity
  by (intro frame_intros frames_modify assms; simp add: others_def)+


lemma alone_reported_show [frame_intros]: "alone u m \<Longrightarrow> alone u (reported_show X C m)"
  unfolding reported_show_def GetCurrentImeInfoForHiSysEvent_def by (intro frame_intros)

lemma alone_requests [frame_intros]:
  "alone u (GenerateClientInfo X C u ci focused)" "alone u (GetCurrentImeInfoForHiSysEvent X u)"
    "alone u (NeedHideWhenSwitchInputType X u ty needHide)" "alone u (GetScreenLockIme X u)"
    "alone u (PostPttDialogTask X u)" "alone u (leave_stylus X u)"
  unfolding GenerateClientInfo_def GetCurrentImeInfoForHiSysEvent_def NeedHideWhenSwitchInputType_def
    GetScreenLockIme_def PostPttDialogTask_def leave_stylus_def
  by (intro frame_intros frames_modify; simp add: others_def)+

lemma alone_call_requests [frame_intros]:
  assumes "own X C u"
  shows "alone u (IncreaseAttachCount_sa X C)" "alone u (DecreaseAttachCount_sa X C)"
    "alone u (ReleaseInput_sa X C client sessionId clientSessionId)"
    "alone u (HideInput_sa X C client windowId)" "alone u (StopInputSession X C windowId)"
    "alone u (RequestHideInput_sa X C windowId displayId isFocusTriggered v)"
    "alone u (SetCallingWindow_sa X C windowId client)" "alone u (HideCurrentInput_sa X C)"
    "alone u (HideCurrentInput_display X C displayId)" "alone u (HideCurrentInputDeprecated X C windowId)"
  unfolding IncreaseAttachCount_sa_def DecreaseAttachCount_sa_def ReleaseInput_sa_def HideInput_sa_def
    StopInputSession_def RequestHideInput_sa_def SetCallingWindow_sa_def HideCurrentInput_sa_def
    HideCurrentInput_display_def HideCurrentInputDeprecated_def
    own_calling [OF assms] bind_left_identity
  by (intro alone_user frame_intros frames_modify assms; simp add: others_def)+

lemma alone_requests1 [frame_intros]:
  "alone u (PrepareInput_sa X C u ci focused)" "alone u (start_special X C u ty ci)"
  unfolding PrepareInput_sa_def start_special_def
  by (intro frame_intros frames_modify; simp add: others_def)+

lemma alone_requests2 [frame_intros]:
  "alone u (StartSecurityIme X C u ci)" "alone u (StartStylusIme X C u ci)"
  unfolding StartSecurityIme_def StartStylusIme_def
  by (intro frame_intros frames_modify; simp add: others_def)+

lemma alone_requests3 [frame_intros]:
  "alone u (EnsureImeAvailable X C u ci)" "alone u (stylus_client X C u found)"
  unfolding EnsureImeAvailable_def stylus_client_def
  by (intro frame_intros frames_modify; simp add: others_def)+

lemma alone_requests4 [frame_intros]:
  "alone u (stylus_part X C u isStylusActivation)"
  unfolding stylus_part_def
  by (intro frame_intros frames_modify; simp add: others_def)+

lemma alone_call_requests4 [frame_intros]:
  assumes "own X C u"
  shows "alone u (StartInputInner X C ci)"
    "alone u (ShowCurrentInputDeprecated X C windowId isStylusActivation)"
  unfolding StartInputInner_def ShowCurrentInputDeprecated_def
    own_calling [OF assms] bind_left_identity
  by (intro frame_intros frames_modify assms; simp add: others_def)+

lemma alone_call_requests5 [frame_intros]:
  assumes "own X C u"
  shows "alone u (StartInput_sa X C inn)"
    "alone u (ShowInputInner X C client windowId requestKeyboardReason isStylusActivation)"
    "alone u (ShowCurrentInputInner X C isStylusActivation)"
    "alone u (ShowCurrentInputInner_display X C displayId isStylusActivation)"
  unfolding StartInput_sa_def ShowInputInner_def ShowCurrentInputInner_def ShowCurrentInputInner_display_def
    own_calling [OF assms] bind_left_identity
  by (intro frame_intros frames_modify assms; simp add: others_def)+

lemma alone_call_requests6 [frame_intros]:
  assumes "own X C u"
  shows "alone u (ShowInput_sa X C client windowId reason isStylusActivation)"
    "alone u (ShowCurrentInput_sa X C isStylusActivation)"
    "alone u (ShowCurrentInput_display X C displayId isStylusActivation)"
  unfolding ShowInput_sa_def ShowCurrentInput_sa_def ShowCurrentInput_display_def
    own_calling [OF assms] bind_left_identity
  by (intro frame_intros frames_modify assms; simp add: others_def)+


lemma alone_tell [frame_intros]: "alone u (tell calls notice)"
  unfolding tell_def by (intro frame_intros)

lemma alone_as_current_ime [frame_intros]:
  assumes "own X C u" "alone u (f u)"
  shows "alone u (as_current_ime X C f)"
  unfolding as_current_ime_def own_calling [OF assms(1)] bind_left_identity by (intro frame_intros assms)

lemma alone_for_user [frame_intros]: "own X C u \<Longrightarrow> alone u (f u) \<Longrightarrow> alone u (for_user X C v f d)"
  unfolding for_user_def by (intro alone_user frame_intros)

lemma alone_queries [frame_intros]:
  "alone u (IsInputTypeSupported X ty)" "alone u (IsDefaultImeFromTokenId X u tokenId)"
    "alone u (IsInputTypeCaller X bundleName)" "alone u (OnDisplayOptionalInputMethod X)"
  unfolding IsInputTypeSupported_def IsDefaultImeFromTokenId_def IsInputTypeCaller_def
    OnDisplayOptionalInputMethod_def
  by (intro frame_intros frames_modify; simp add: others_def)+

lemma alone_call_queries [frame_intros]:
  assumes "own X C u"
  shows "alone u (SetCoreAndAgent_sa X C core agent)" "alone u (InitConnect_sa X C)"
    "alone u (RegisterProxyIme_sa X C displayId core agent)"
    "alone u (UnregisterProxyIme_sa X C displayId ty)" "alone u (BindImeMirror_sa X C core agent)"
    "alone u (UnbindImeMirror_sa X C)" "alone u (PanelStatusChange X C ws)"
    "alone u (NotifyInputStart_sa X C)" "alone u (NotifyInputStop_sa X C)"
    "alone u (NotifySoftKeyBoardInfoChanged_sa X C)" "alone u (UpdateListenEventFlag X C inn eventFlag)"
    "alone u (GetCurrentInputMethod_sa X C v)" "alone u (GetCurrentInputMethodSubtype X C v)"
    "alone u (GetDefaultInputMethod_sa X C prp isBrief v)" "alone u (IsDefaultImeSet_sa X C v)"
    "alone u (ListInputMethod_sa X C status v)" "alone u (ListCurrentInputMethodSubtype_sa X C v)"
    "alone u (ListInputMethodSubtype_sa X C bundleName v)" "alone u (GetSoftKeyboardInfo_sa X C v)"
    "alone u (GetInputStartInfo_sa X C)" "alone u (GetCursorInfo_sa X C v)"
    "alone u (IsPanelShown_sa X C info)" "alone u (IsKeyboardCallingProcess_sa X C pid windowId)"
    "alone u (GetSecurityMode X C security)" "alone u (GetInputMethodState X C es)"
    "alone u (ConnectSystemCmd_sa X C channel)" "alone u (ExecTextInteraction_sa X C txt)"
  unfolding SetCoreAndAgent_sa_def InitConnect_sa_def RegisterProxyIme_sa_def UnregisterProxyIme_sa_def
    BindImeMirror_sa_def UnbindImeMirror_sa_def PanelStatusChange_def NotifyInputStart_sa_def
    NotifyInputStop_sa_def NotifySoftKeyBoardInfoChanged_sa_def UpdateListenEventFlag_def
    GetCurrentInputMethod_sa_def GetCurrentInputMethodSubtype_def GetDefaultInputMethod_sa_def
    IsDefaultImeSet_sa_def ListInputMethod_sa_def ListCurrentInputMethodSubtype_sa_def
    ListInputMethodSubtype_sa_def GetSoftKeyboardInfo_sa_def GetInputStartInfo_sa_def GetCursorInfo_sa_def
    IsPanelShown_sa_def IsKeyboardCallingProcess_sa_def GetSecurityMode_def GetInputMethodState_def
    ConnectSystemCmd_sa_def ExecTextInteraction_sa_def
    own_calling [OF assms] bind_left_identity
  by (intro frame_intros frames_modify assms; simp add: others_def)+

lemma alone_call_queries1 [frame_intros]:
  assumes "own X C u"
  shows "alone u (IsDefaultIme X C)" "alone u (ExitCurrentInputType X C)"
  unfolding IsDefaultIme_def ExitCurrentInputType_def
    own_calling [OF assms] bind_left_identity
  by (intro frame_intros frames_modify assms; simp add: others_def)+


text \<open>The two requests that name another user's display, or the user in front.\<close>

definition names_user :: "sa_call \<Rightarrow> bool" where
  "names_user q = (case q of PanelShownOnCall _ _ \<Rightarrow> True | SendPrivateDataCall _ \<Rightarrow> True | _ \<Rightarrow> False)"

lemma alone_call: "own X C u \<Longrightarrow> \<not> names_user q \<Longrightarrow> alone u (on_call X C q)"
  by (cases q; simp only: on_call_def sa_call.case names_user_def) (intro frame_intros; simp)+

end
