(* ===== verification/Sa_Example.thy ===== *)
theory Sa_Example
  imports Sa_Isolation Session_Examples Settings_Example
begin

text \<open>
  A concrete device: the user 100 is in front, the two input methods \<open>sys\<close> and \<open>ime\<close> are installed and enabled,
  no special input types. The caller \<open>app0\<close> is an application of the user 100 without permissions.
\<close>

definition ext0 :: "string \<Rightarrow> string \<Rightarrow> u32 \<Rightarrow> ext_info" where
  "ext0 b e tok = \<lparr>xt_bundleName = b, xt_name = e, xt_moduleName = ''m'', xt_labelId = 0, xt_iconId = 0, xt_metadata = [],
     xt_hapPath = '''', xt_resourcePath = '''', xt_accessTokenId = tok\<rparr>"

definition bundles0 :: "db bundle_mgr" where
  "bundles0 = \<lparr>bm_available = (\<lambda>_. True), bm_query = (\<lambda>_ _. Some [ext0 ''sys'' ''Sys'' 1, ext0 ''ime'' ''Ime'' 2]),
     bm_string = (\<lambda>_ _ _ _ _. ''label''), bm_strings = (\<lambda>_ _ _ ids _. (NO_ERROR, map (\<lambda>_. ''label'') ids)),
     bm_bundleInfo = (\<lambda>_ _ _. None), bm_extensions = (\<lambda>_ _ b. Some [b \<in> {''sys'', ''ime''}]), bm_profile = (\<lambda>_ _ _ _. None),
     bm_processes = (\<lambda>_ _. Some []), bm_activeUsers = (\<lambda>_. [100]), bm_indeterminate = 0\<rparr>"

definition wm0 :: window_manager where
  "wm0 = \<lparr>wm_focus = (\<lambda>_ _. \<lparr>fc_windowId = 1, fc_pid = 11, fc_realDisplayId = 0, fc_displayGroupId = 0\<rparr>),
     wm_list = (\<lambda>_. Some []), wm_mainWindow = (\<lambda>_ _. None), wm_allGroups = (\<lambda>_. ([(0, 0)], [])), wm_display = (\<lambda>_. None),
     wm_defaultDisplay = 0, wm_sceneBoard = True\<rparr>"

definition facts0 :: caller_facts where
  "facts0 = \<lparr>cf_verify = (\<lambda>_ _. False), cf_tokenType = (\<lambda>_. TOKEN_HAP), cf_processName = (\<lambda>_. ''''),
     cf_hapBundle = (\<lambda>_. Some ''app''), cf_systemApp = (\<lambda>_. False), cf_abilityManager = True,
     cf_sessionInfo = (\<lambda>_. (1, 0)), cf_extensionFocused = (\<lambda>_ _. (1, False)), cf_inputMethodExtension = (\<lambda>_. False),
     cf_uiExtension = (\<lambda>_. False), cf_proxyIme = (\<lambda>_. False), cf_specialSa = (\<lambda>_. False), cf_superFold = False\<rparr>"

definition accounts0 :: "db account_mgr" where
  "accounts0 = \<lparr>ac_isForeground = (\<lambda>_ u. u = 100), ac_current = (\<lambda>_. Some 100), ac_currentOn = (\<lambda>_ _. Some 100),
     ac_foregrounds = (\<lambda>_. Some [(100, 0)]), ac_localId = (\<lambda>uid. Some (uid div 200000)), ac_exists = (\<lambda>_ u. Some (u \<in> {100, 101}))\<rparr>"

definition app0 :: caller where
  "app0 = \<lparr>cl_pid = 11, cl_uid = 20000011, cl_tokenId = 9, cl_fullTokenId = 9\<rparr>"

definition sa_env0 :: "db sa_env" where
  "sa_env0 = \<lparr>nv_settings = db_env0, nv_bundles = bundles0, nv_types = None, nv_capacities = [], nv_enableAppAgent = False,
     nv_enablePushToTalk = False, nv_disableImmersiveMode = False, nv_isSupportPcMode = False,
     nv_disablePcModeImmersiveMode = False, nv_isPcMode = False, nv_configAbility = '''', nv_panelAppIdentifier = '''',
     nv_imeScreens = [], sx_raw = (\<lambda>_ _. env0), sx_wm = (\<lambda>_. wm0), sx_facts = (\<lambda>_. facts0), sx_accounts = accounts0,
     sx_saReady = (\<lambda>_ _. True), sx_appName = (\<lambda>_ _. ''app''), sx_numkeyApp = (\<lambda>_ _ _. False), sx_capsLock = (\<lambda>_. None),
     sx_lowMem = (\<lambda>_. False), sx_cpuUsage = (\<lambda>_. None), sx_register = (\<lambda>_ _ _. NO_ERROR), sx_startDialog = (\<lambda>_. 0),
     sx_activating = 1, sx_runningIme = (\<lambda>_ _. ''''), sx_deathRecipient = (\<lambda>_. Some 1), sx_listenerAlloc = (\<lambda>_. True),
     sx_listenerAdd = (\<lambda>_ _. True), sx_self = \<lparr>cl_pid = 1, cl_uid = 0, cl_tokenId = 0, cl_fullTokenId = 0\<rparr>,
     sx_imeUsage = False, sx_onDemand = False, sx_dynamicStart = False\<rparr>"

definition sa0 :: "db sa" where
  "sa0 = enabled_state.extend loaded0
     \<lparr>ex_isExamMode = False, ex_previousBundleName = '''', ex_previousSubName = '''', fu_fullImeInfos = [],
      nq_itm = new_input_type_manager, sa_sessions = [], sa_groups = [],
      sa_monitors = \<lparr>mo_initedUserList = [], mo_foregroundScbs = []\<rparr>, sa_listeners = [], sa_switchTaskExecuting = False,
      sa_targetSwitchCount = 0, sa_isBundleScanFinished = False, sa_isAccountSaFirstStart = True,
      sa_waitAccountReadyToInit = False, sa_serviceHandler = False, sa_tasks = [], sa_log = []\<rparr>"

text \<open>After the start of the service: it has the session of the user 100.\<close>

definition sa1 :: "db sa" where
  "sa1 = snd (run_state (on_system_event sa_env0 ServiceStarts) sa0)"

lemma sa1_code [code]:
  "sa1 = sa0\<lparr>sa_serviceHandler := True, em_serviceHandler := True, em_statusHandler := Some 0,
     sa_sessions := [(100, new_session 100 '''')]\<rparr>"
  by (simp add: sa1_def on_system_event_def InitServiceHandler_def Initialize_def AddUserSession_def
      SetupImeUsageCallbacks_def SetEventHandler_def SetCurrentImeStatusChangedHandler_def sa_env0_def sa0_def
      enabled_state.extend_def loaded0_def db_state0_def)

lemma sa_env0_ok: "sa_env_ok sa_env0"
  using env_ok_env0 by (simp add: sa_env_ok_def sa_env0_def)

lemma app0_own: "own sa_env0 app0 100"
  by (simp add: own_def sa_env0_def accounts0_def app0_def)

lemma sa0_start: "sa_start sa0"
  by (simp add: sa_start_def sa0_def enabled_state.extend_def)

lemma sa1_reachable: "sa_reachable sa_env0 sa1"
proof -
  have "sa_step sa_env0 sa0 sa1"
    by (rule sa_step.event [where ev = ServiceStarts]) (simp add: sa1_def prod_eq_iff)
  then show ?thesis using sa0_start by (auto simp: sa_reachable_def intro: reaches.intros)
qed

lemma service_inv_sa1: "sa_inv sa1"
  using service.inv_reaches sa1_reachable sa_env0_ok by (auto simp: sa_reachable_def)

lemma sa1_sessions: "has_session 100 sa1"
  by code_simp

end
