(* ===== verification/Sa_Correct.thy ===== *)
theory Sa_Correct
  imports Sa_Example
begin

text \<open>Properties of the service as a whole: what a caller may do, switching by key, exam mode, users.\<close>

section \<open>Callers\<close>

lemma run_let [simp]: "run_state (let y = x in f y) s = run_state (f x) s"
  by (simp add: Let_def)

text \<open>C2. In every state that the service can reach, by requests of any callers and by events of the system in
  any order, a user has one session, every session satisfies the invariant of sessions, and a process is registered
  once as a listener of a user.\<close>

theorem service_invariant:
  assumes "sa_reachable X s" "sa_env_ok X"
  shows "sa_inv s"
  using service.inv_reaches assms by (auto simp: sa_reachable_def)

theorem service_invariant_witness: "sa_reachable sa_env0 sa1 \<and> has_session 100 sa1 \<and> sa_inv sa1"
  using service_invariant [OF sa1_reachable sa_env0_ok] sa1_reachable sa1_sessions by simp

text \<open>C3. A caller that belongs to a user (not to the system's user 0) leaves the sessions of all other users
  as they are, whatever it asks for. The two requests that name the user in another way are excepted.\<close>

theorem user_isolation:
  assumes "own X C u" "\<not> names_user q" "v \<noteq> u"
  shows "map_of (sa_sessions (snd (run_state (on_call X C q) s))) v = map_of (sa_sessions s) v"
proof -
  have "others u (snd (run_state (on_call X C q) s)) v = others u s v"
    using frames_run [OF alone_call [OF assms(1,2)], of s] by simp
  with assms(3) show ?thesis by (simp add: others_def)
qed

theorem user_isolation_witness:
  "own sa_env0 app0 100 \<and> map_of (sa_sessions (snd (run_state (on_call sa_env0 app0 HideCurrentInputCall) sa1))) 101 =
     map_of (sa_sessions sa1) 101"
  using user_isolation [OF app0_own, of HideCurrentInputCall 101 sa1] app0_own by (simp add: names_user_def)

text \<open>C21. A request that names a user acts for the caller's own user, or, for a caller of user 0, for the user in
  front or for a named user that exists and is in front, and for that only if the caller is a system application, a
  native service or a shell.\<close>

theorem acting_user:
  assumes "GetCallingUserId_for X C v s = Inr u"
  shows "u = GetOsAccountLocalIdFromUid (sx_accounts X) (cl_uid C) \<and> (v = - 1 \<or> v = u) \<or>
    GetOsAccountLocalIdFromUid (sx_accounts X) (cl_uid C) = 0 \<and>
      (v = - 1 \<and> u = GetForegroundOsAccountLocalId (sx_accounts X) (sd_world s) \<or>
       v = u \<and> IsOsAccountForeground (sx_accounts X) (sd_world s) u \<and> ac_exists (sx_accounts X) (sd_world s) u = Some True \<and>
         (let F = sx_facts X (sd_world s) in is_system C F \<or> is_native C F \<or> is_shell C F))"
  using assms by (auto simp: GetCallingUserId_for_def Let_def split: if_splits)

theorem acting_user_witness:
  "GetCallingUserId_for sa_env0 app0 100 sa1 = Inr 100 \<and> GetOsAccountLocalIdFromUid (sx_accounts sa_env0) (cl_uid app0) = 100"
  using acting_user [of sa_env0 app0 100 sa1 100]
  by (auto simp: GetCallingUserId_for_def GetOsAccountLocalIdFromUid_def sa_env0_def accounts0_def app0_def)

text \<open>C25. Only the input method in use may register its core and report its state: any other caller is refused
  and the state of the service does not change.\<close>

theorem only_current_ime:
  assumes "\<not> IsCurrentIme_sa X (GetCallingUserId X C s) (cl_tokenId C) s"
  shows "run_state (SetCoreAndAgent_sa X C core agent) s =
      (if has_session (GetCallingUserId X C s) s then ERROR_NOT_CURRENT_IME else ERROR_NULL_POINTER, s) \<and>
    run_state (PanelStatusChange X C st) s = (ERROR_NOT_CURRENT_IME, s) \<and>
    run_state (NotifyInputStart_sa X C) s = (ERROR_NOT_CURRENT_IME, s) \<and>
    run_state (NotifyInputStop_sa X C) s = (ERROR_NOT_CURRENT_IME, s) \<and>
    run_state (NotifySoftKeyBoardInfoChanged_sa X C) s = (ERROR_NOT_CURRENT_IME, s)"
  using assms by (simp add: SetCoreAndAgent_sa_def as_current_ime_def PanelStatusChange_def NotifyInputStart_sa_def
      NotifyInputStop_sa_def NotifySoftKeyBoardInfoChanged_sa_def)

theorem only_current_ime_witness:
  "\<not> IsCurrentIme_sa sa_env0 (GetCallingUserId sa_env0 app0 sa1) (cl_tokenId app0) sa1 \<and>
   run_state (SetCoreAndAgent_sa sa_env0 app0 (Some 1) (Some 2)) sa1 = (ERROR_NOT_CURRENT_IME, sa1)"
proof -
  have "\<not> IsCurrentIme_sa sa_env0 (GetCallingUserId sa_env0 app0 sa1) (cl_tokenId app0) sa1"
    "has_session (GetCallingUserId sa_env0 app0 sa1) sa1" by code_simp+
  with only_current_ime [of sa_env0 app0 sa1 "Some 1" "Some 2"] show ?thesis by simp
qed

text \<open>A caller without the permission to enable input methods is refused and changes nothing in the service.\<close>

theorem EnableIme_denied:
  assumes "CheckEnableAndSwitchPermission C (sx_facts X (sd_world s)) = e" "e \<noteq> NO_ERROR"
  shows "run_state (EnableIme X C b ext st v) s =
    (case GetCallingUserId_for X C v s of Inl e' \<Rightarrow> e' | Inr _ \<Rightarrow> e, s)"
  using assms by (simp add: EnableIme_def facts_def split: sum.split)

theorem EnableIme_denied_witness:
  "CheckEnableAndSwitchPermission app0 (sx_facts sa_env0 (sd_world sa1)) = ERROR_STATUS_SYSTEM_PERMISSION \<and>
   run_state (EnableIme sa_env0 app0 ''ime'' '''' DISABLED (- 1)) sa1 = (ERROR_STATUS_SYSTEM_PERMISSION, sa1)"
proof -
  have "CheckEnableAndSwitchPermission app0 (sx_facts sa_env0 (sd_world sa1)) = ERROR_STATUS_SYSTEM_PERMISSION"
    "GetCallingUserId_for sa_env0 app0 (- 1) sa1 = Inr 100" by code_simp+
  with EnableIme_denied [of app0 sa_env0 sa1 ERROR_STATUS_SYSTEM_PERMISSION "''ime''" "''''" DISABLED "- 1"] show ?thesis by simp
qed

section \<open>Switching by key\<close>

definition switching :: "'d sa \<Rightarrow> u32 \<times> bool \<times> sa_task list" where
  "switching s = (sa_targetSwitchCount s, sa_switchTaskExecuting s, sa_tasks s)"

lemma low_switching: "low m \<Longrightarrow> frames switching m"
  by (simp add: frames_def switching_def low_fields)

lemmas switching_low [frame_intros] = low_tables [THEN low_switching] low_inquirer [THEN low_switching]
  low_inquirer1 [THEN low_switching] low_inquirer2 [THEN low_switching] low_inquirer3 [THEN low_switching]
  low_inquirer4 [THEN low_switching]

lemma switching_basic [frame_intros]:
  "frames switching (sa_emit ev)" "frames switching (set_type b im)" "frames switching (on_world g)"
  unfolding sa_emit_def set_type_def on_world_def by (intro frame_intros frames_modify; simp add: switching_def)+

lemma switching_in_session [frame_intros]: "frames switching (in_session X u none m)"
proof -
  have "frames switching (settle_event X u ev)" for ev
    by (cases ev; simp add: settle_event_def tell_def; intro frame_intros)
  then show ?thesis unfolding in_session_def run_session_def settle_def
    by (intro frame_intros frames_modify) (simp add: switching_def)
qed

lemma switching_queue_switch [frame_intros]: "frames switching (queue_switch X C u sw)"
  unfolding queue_switch_def OnSwitchInputMethod_def CheckSwitchPermission_def IsTmpIme_def StartSwitch_def
  by (intro frame_intros)

lemma switching_SwitchType:
  "switching (snd (run_state (SwitchType X u) s)) = (0, sa_switchTaskExecuting s, sa_tasks s)"
proof -
  have "wp (SwitchType X u) (\<lambda>_ t. switching t = (0, sa_switchTaskExecuting s, sa_tasks s)) s"
    unfolding SwitchType_def
    by (subst wp_bind, subst wp_gets, subst wp_bind, subst wp_modify,
        rule framesD [unfolded preserves_wp, rule_format], intro frame_intros) (simp add: switching_def)
  then show ?thesis by (simp add: wp_run)
qed

lemma switching_presses:
  "sa_switchTaskExecuting s \<Longrightarrow> switching (snd (run_state (for_each (replicate n ()) (\<lambda>_. DealSwitchRequest u)) s)) =
   (sa_targetSwitchCount s + of_nat n, True, sa_tasks s)"
  by (induction n arbitrary: s) (auto simp: DealSwitchRequest_def switching_def split: prod.split)

text \<open>C22. However many presses of the key combination come in while the task that switches runs, at its end all of
  them are taken, the flag that it runs is cleared, and no second task was posted.\<close>

theorem switch_task_done:
  assumes "sa_switchTaskExecuting s"
  shows "switching (snd (run_state (switch_task X u arrivals) s)) = (0, False, sa_tasks s)"
  using assms
proof (induction arrivals arbitrary: s)
  case Nil
  then show ?case using switching_SwitchType [of X u s] by (auto simp: switching_def split: prod.split)
next
  case (Cons n ns)
  let ?s = "snd (run_state (SwitchType X u) s)"
  let ?t = "snd (run_state (for_each (replicate n ()) (\<lambda>_. DealSwitchRequest u)) ?s)"
  have s: "switching ?s = (0, True, sa_tasks s)" using switching_SwitchType [of X u s] Cons.prems by simp
  then have t: "switching ?t = (of_nat n, True, sa_tasks s)"
    using switching_presses [of ?s n u] by (simp add: switching_def)
  have step: "snd (run_state (switch_task X u (n # ns)) s) =
    (if sa_targetSwitchCount ?t > 0 then snd (run_state (switch_task X u ns) ?t) else ?t\<lparr>sa_switchTaskExecuting := False\<rparr>)"
    by (simp split: prod.split)
  show ?case
  proof (cases "sa_targetSwitchCount ?t > 0")
    case True
    from t have "sa_switchTaskExecuting ?t" "sa_tasks ?t = sa_tasks s" by (simp_all add: switching_def)
    with Cons.IH [of ?t] True show ?thesis unfolding step by simp
  next
    case False
    then have "sa_targetSwitchCount ?t = 0" by (metis word_gt_0)
    with False t show ?thesis unfolding step by (simp add: switching_def)
  qed
qed

theorem switch_task_done_witness:
  "switching (snd (run_state (switch_task sa_env0 100 [2, 0]) (sa1\<lparr>sa_switchTaskExecuting := True, sa_targetSwitchCount := 1\<rparr>))) =
   (0, False, sa_tasks sa1)"
  using switch_task_done [of "sa1\<lparr>sa_switchTaskExecuting := True, sa_targetSwitchCount := 1\<rparr>" sa_env0 100 "[2, 0]"] by simp

text \<open>C23. Presses that were collected lead to the input method to which as many single steps through the list of
  the enabled ones lead, unless the 32-bit sum overflows.\<close>

theorem switch_count_steps:
  assumes "run_state (ListEnabledInputMethod V u) s = ((NO_ERROR, props), s1)"
    "run_state (GetUserCfgIme (nv_settings V) u) s1 = (cur, s2)"
    "position (\<lambda>p. pr_name p = nc_bundleName cur) props = Some i" "unat count + i < 2 ^ 32"
  shows "run_state (GetSwitchInfoBySwitchCount V u count) s =
    ((NO_ERROR, let j = (step_index (length props) ^^ unat count) i in if j = i then '''' else pr_name (props ! j)), s2)"
  using assms position_first [OF assms(3)] next_index_steps [OF assms(4)]
  by (simp add: GetSwitchInfoBySwitchCount_def Let_def)

theorem switch_count_steps_witness:
  "fst (run_state (GetSwitchInfoBySwitchCount sa_env0 100 3) sa1) = (NO_ERROR, ''ime'')"
proof -
  let ?r1 = "run_state (ListEnabledInputMethod sa_env0 100) sa1"
  let ?r2 = "run_state (GetUserCfgIme (nv_settings sa_env0) 100) (snd ?r1)"
  have r1: "fst ?r1 = (NO_ERROR, snd (fst ?r1))" by code_simp
  have pos: "position (\<lambda>p. pr_name p = nc_bundleName (fst ?r2)) (snd (fst ?r1)) = Some 0" by code_simp
  have steps: "(let j = (step_index (length (snd (fst ?r1))) ^^ unat (3 :: u32)) 0 in
      if j = 0 then '''' else pr_name (snd (fst ?r1) ! j)) = ''ime''" by code_simp
  from r1 have r1': "?r1 = ((NO_ERROR, snd (fst ?r1)), snd ?r1)" by (metis prod.collapse)
  show ?thesis using switch_count_steps [OF r1' prod.collapse [symmetric] pos, of 3] steps by simp
qed

section \<open>Exam mode\<close>

lemma tables_fields:
  assumes "tables (m :: ('d, 'a) sao)"
  shows "sa_sessions (snd (run_state m s)) = sa_sessions s" "nq_itm (snd (run_state m s)) = nq_itm s"
    "ex_isExamMode (snd (run_state m s)) = ex_isExamMode s"
  using frames_run [OF assms, of s] by (cases "snd (run_state m s)"; cases s; simp)+

text \<open>Looking up the input method of a type touches only the cached configuration of the types.\<close>

lemma type_ime_fields:
  "sa_sessions (snd (run_state (type_ime X y) s)) = sa_sessions s" "ex_isExamMode (snd (run_state (type_ime X y) s)) = ex_isExamMode s"
  by (simp_all add: type_ime_def type_query_def split: prod.split)

text \<open>C24. In exam mode two requests do not lead to an input method that is not the system's. \<open>SwitchInputMethod\<close> to
  such an input method leaves the sessions and the special input type in use as they are, and \<open>StartInputType\<close>
  leaves the sessions as they are when such an input method is configured for the type, which is neither the security
  nor the stylus type. Other ways to switch are not covered: the security type is exempt, and
  \<open>RestoreInputmethod\<close> does not ask for the exam mode.\<close>

theorem exam_blocks_switch:
  assumes "IsExamMode s" "\<not> IsSysIme (nv_settings X) b"
  shows "sa_sessions (snd (run_state (SwitchInputMethod X C b sub trigger v) s)) = sa_sessions s \<and>
    nq_itm (snd (run_state (SwitchInputMethod X C b sub trigger v) s)) = nq_itm s \<and>
    (input_type_of type \<notin> {Some SECURITY_INPUT, Some STYLUS_INPUT} \<and>
     ime_identification.ii_bundleName (snd (fst (run_state (type_ime X (input_type_of type)) s))) = b \<longrightarrow>
       sa_sessions (snd (run_state (StartInputType X C type p) s)) = sa_sessions s)"
proof -
  have "sa_sessions t = sa_sessions s \<and> nq_itm t = nq_itm s"
    if t: "run_state (SwitchInputMethodInner X C u b sub trigger) s = (r, t)" for u r t
  proof -
    let ?s1 = "snd (run_state (GetEnabledState (nv_settings X) u b DISABLED) s)"
    let ?s2 = "snd (run_state (GetCurrentImeCfg (nv_settings X) u) ?s1)"
    have "t \<in> {s, ?s1, ?s2}" using t assms tables_fields(3) [OF tables_enabled5(1), of "nv_settings X" u b DISABLED s]
        tables_fields(3) [OF tables_enabled5(3), of "nv_settings X" u ?s1]
      by (auto simp: SwitchInputMethodInner_def IsSwitchingAllow_def IsExamMode_def split: prod.splits if_splits)
    then show ?thesis by (auto simp: tables_fields [OF tables_enabled5(1)] tables_fields [OF tables_enabled5(3)])
  qed
  from this [OF prod.collapse [symmetric]]
  have switch: "sa_sessions (snd (run_state (SwitchInputMethod X C b sub trigger v) s)) = sa_sessions s \<and>
      nq_itm (snd (run_state (SwitchInputMethod X C b sub trigger v) s)) = nq_itm s"
    by (auto simp: SwitchInputMethod_def split: sum.split)
  have start: "sa_sessions (snd (run_state (StartInputType_user X C u y p) s)) = sa_sessions s"
    if "y \<notin> {Some SECURITY_INPUT, Some STYLUS_INPUT}" "ime_identification.ii_bundleName (snd (fst (run_state (type_ime X y) s))) = b" for u y
    using that assms type_ime_fields [of X y s]
    by (auto simp: StartInputType_user_def IsSwitchingAllow_def IsExamMode_def split: prod.split)
  show ?thesis using switch start by (simp add: StartInputType_def)
qed

theorem exam_blocks_switch_witness:
  "sa_sessions (snd (run_state (SwitchInputMethod sa_env0 app0 ''ime'' '''' SYSTEM_APP (- 1)) (sa1\<lparr>ex_isExamMode := True\<rparr>))) = sa_sessions sa1"
proof -
  have "\<not> IsSysIme (nv_settings sa_env0) ''ime''" by code_simp
  with exam_blocks_switch [of "sa1\<lparr>ex_isExamMode := True\<rparr>" sa_env0 "''ime''" app0 "''''" SYSTEM_APP "- 1"]
  show ?thesis by (simp add: IsExamMode_def)
qed

text \<open>When exam mode is announced while the system's input method is in use, the input method that was saved
  by an earlier announcement is forgotten.\<close>

theorem exam_on_again_forgets:
  assumes "nc_bundleName (fst (run_state (GetCurrentImeCfg (nv_settings X) u) s)) = b" "b \<noteq> ''''" "IsSysIme (nv_settings X) b"
    "u \<noteq> INVALID_USER_ID"
  shows "IsExamMode (snd (run_state (OnExamModeOn X (Some u)) s)) \<and>
    GetPreviousIme (snd (run_state (OnExamModeOn X (Some u)) s)) = ('''', '''')"
proof -
  have persist: "ex_isExamMode t' = ex_isExamMode t \<and> ex_previousBundleName t' = ex_previousBundleName t \<and>
      ex_previousSubName t' = ex_previousSubName t"
    if t': "run_state (Persist E) t = (r, t')" for E :: "'a settings_env" and t t' :: "'a sa" and r
  proof -
    have "tables (Persist E :: ('a, unit) sao)" unfolding Persist_def
      by (intro frame_intros) (simp add: frames_def)
    from frames_run [OF this, of t] t' show ?thesis by (cases t; cases t'; simp)
  qed
  with assms show ?thesis
    by (auto simp: OnExamModeOn_def SetExamMode_def ClearPreviousIme_def IsExamMode_def GetPreviousIme_def
        persist [OF prod.collapse [symmetric]] split: prod.split dest!: persist)
qed

theorem exam_on_again_forgets_witness:
  "GetPreviousIme (snd (run_state (OnExamModeOn sa_env0 (Some 100)) (sa1\<lparr>ex_previousBundleName := ''ime''\<rparr>))) = ('''', '''')"
proof -
  have "nc_bundleName (fst (run_state (GetCurrentImeCfg (nv_settings sa_env0) 100) (sa1\<lparr>ex_previousBundleName := ''ime''\<rparr>))) = ''sys''"
    "IsSysIme (nv_settings sa_env0) ''sys''" by code_simp+
  with exam_on_again_forgets [OF this(1)] show ?thesis by simp
qed

section \<open>Users and listeners\<close>

text \<open>C26. When a user is removed its session, its cached input methods and its table of enabled ones are gone,
  and the sessions of the other users stay.\<close>

theorem OnUserRemoved_correct:
  assumes "run_state (OnUserRemoved X (Content u)) s = (r, t)"
  shows "r = NO_ERROR \<and> GetUserSession u t = None \<and> cached_imes u t = None \<and> map_of (em_imeEnabledCfg t) u = None \<and>
    (v \<noteq> u \<longrightarrow> map_of (sa_sessions t) v = map_of (sa_sessions s) v)"
proof -
  let ?s1 = "snd (run_state (in_session X u 0 StopCurrentIme) s)"
  have "map_of (sa_sessions ?s1) v = map_of (sa_sessions s) v" if "v \<noteq> u"
    using fun_cong [OF frames_run [OF alone_in_session [of u X 0 StopCurrentIme], of s], of v] that by (simp add: others_def)
  then show ?thesis using assms
    by (auto simp: OnUserRemoved_def RemoveUserSession_def Delete_user_full_def Delete_user_def ClearEnabledCache_def sa_emit_def
        GetUserSession_def cached_imes_def delete_conv' split: prod.splits)
qed

theorem OnUserRemoved_correct_witness:
  "has_session 100 sa1 \<and> GetUserSession 100 (snd (run_state (OnUserRemoved sa_env0 (Content 100)) sa1)) = None"
  using OnUserRemoved_correct [OF prod.collapse [symmetric], of sa_env0 100 sa1] sa1_sessions by blast

text \<open>A registration concerns the entry of the calling process alone, and the flag that is registered is that
  of the client's record: the argument, whose permission is checked, does not limit it. A caller without any permission
  registers for every event in this way.\<close>

theorem UpdateListenEventFlag_registers:
  assumes "sa_inv s"
    "\<not> (IsImeHideOn f \<or> IsImeShowOn f \<or> IsInputStatusChangedOn f \<or> IsSoftKeyboardInfoChangedOn f)"
  shows "registered v p (sa_listeners (snd (run_state (UpdateListenEventFlag X C inner f) s))) =
    (if v = GetOsAccountLocalIdFromUid (sx_accounts X) (cl_uid C) \<and> p = cl_pid C
     then (case registered v p (sa_listeners s) of
         None \<Rightarrow> Some (snd (AddDeathRecipient (sx_listenerAlloc X (sd_world s)) (sx_listenerAdd X (sd_world s))
           \<lparr>el_eventFlag = cn_eventFlag inner, el_client = cn_client inner, el_pid = p, el_deathRecipient = False\<rparr>))
       | Some l \<Rightarrow> if cn_eventFlag inner = NO_EVENT_ON then None else Some (l\<lparr>el_eventFlag := cn_eventFlag inner\<rparr>))
     else registered v p (sa_listeners s))"
proof -
  have "listeners_ok (sa_listeners s)" using assms(1) by (simp add: sa_inv_def)
  with assms(2) show ?thesis
    by (simp add: UpdateListenEventFlag_def on_world_def registered_Update InnerToInputClientInfo_def Let_def split: option.split)
qed

theorem UpdateListenEventFlag_registers_witness:
  "(\<exists>l. registered 100 11 (sa_listeners (snd (run_state (UpdateListenEventFlag sa_env0 app0
      ((InputClientInfoToInner (client0 5 11))\<lparr>cn_eventFlag := EVENT_IME_SHOW_MASK\<rparr>) NO_EVENT_ON) sa1))) = Some l \<and>
     IsImeShowOn (el_eventFlag l)) \<and> \<not> is_system app0 facts0 \<and> \<not> is_native app0 facts0"
proof -
  have "\<not> (IsImeHideOn NO_EVENT_ON \<or> IsImeShowOn NO_EVENT_ON \<or> IsInputStatusChangedOn NO_EVENT_ON \<or>
      IsSoftKeyboardInfoChangedOn NO_EVENT_ON)" "GetOsAccountLocalIdFromUid (sx_accounts sa_env0) (cl_uid app0) = 100"
    "cl_pid app0 = 11" "registered 100 11 (sa_listeners sa1) = None" "IsImeShowOn EVENT_IME_SHOW_MASK"
    "\<not> is_system app0 facts0" "\<not> is_native app0 facts0" by code_simp+
  with UpdateListenEventFlag_registers [OF service_inv_sa1, of NO_EVENT_ON 100 11 sa_env0 app0
      "(InputClientInfoToInner (client0 5 11))\<lparr>cn_eventFlag := EVENT_IME_SHOW_MASK\<rparr>"]
  show ?thesis by (simp add: AddDeathRecipient_def split: option.split)
qed

end
