(* ===== verification/Ptt_Keyboard.thy ===== *)
theory Ptt_Keyboard
  imports Imf_Prelude
begin

text \<open>
  The keyboard side of push-to-talk: which key events the monitor forwards
  (\<open>services/adapter/keyboard/src/input_event_callback.cpp\<close>) and the state machine of the gesture
  (\<open>services/src/ptt_controller.cpp\<close>): holding the space bar alone starts the voice input, releasing it or pressing
  another key ends it. The main result: forwarding only some of the events is invisible to the gesture.
\<close>

section \<open>Key events\<close>

text \<open>The codes are constants of the multimodal input library; a key event is what the code reads of one.\<close>

record key_codes =
  kc_space :: int
  kc_capsLock :: int
  ka_down :: int
  ka_up :: int

record mmi_key_event =
  kv_keyCode :: int
  kv_keyAction :: int
  kv_pressedKeys :: "int list"

record keyboard_event_info =
  ki_keyCode :: int
  ki_keyAction :: int
  ki_pressedKeys :: "int list"

section \<open>The monitor\<close>

datatype ptt_routing = ROUTE_IDLE | ROUTE_TRACKING | ROUTE_SUPPRESSED

definition ShouldForwardPttKeyEvent :: "key_codes \<Rightarrow> mmi_key_event \<Rightarrow> ptt_routing \<Rightarrow> bool \<times> ptt_routing" where
  "ShouldForwardPttKeyEvent K e r =
     (if kv_keyAction e \<noteq> ka_down K \<and> kv_keyAction e \<noteq> ka_up K then (False, r)
      else if kv_keyCode e = kc_space K then
        if kv_keyAction e = ka_up K then (r \<noteq> ROUTE_IDLE, ROUTE_IDLE)
        else if r \<noteq> ROUTE_IDLE then (False, r)
        else let isOnlySpacePressed = (kv_pressedKeys e = [kc_space K])
          in (isOnlySpacePressed, if isOnlySpacePressed then ROUTE_TRACKING else ROUTE_SUPPRESSED)
      else if r \<noteq> ROUTE_TRACKING then (False, r)
      else (True, ROUTE_SUPPRESSED))"

definition event_info :: "key_codes \<Rightarrow> mmi_key_event \<Rightarrow> keyboard_event_info" where
  "event_info K e = \<lparr>ki_keyCode = kv_keyCode e, ki_keyAction = kv_keyAction e,
     ki_pressedKeys = (if kv_keyCode e = kc_space K \<and> kv_keyAction e = ka_down K then kv_pressedKeys e else [])\<rparr>"

text \<open>
  A callback: its own routing state and handlers, and the two variables that all callbacks share. The result: what
  is forwarded, and the key state that the handler of the combination keys is called with.
\<close>

record input_event_callback =
  ic_routing :: ptt_routing
  ic_keyHandler :: bool
  ic_keyEventHandler :: bool
  ic_keyState :: u32
  ic_isKeyHandled :: bool

definition CAPS_MASK :: u32 where "CAPS_MASK = 0x10"

definition OnInputEvent ::
  "key_codes \<Rightarrow> mmi_key_event option \<Rightarrow> input_event_callback \<Rightarrow>
     keyboard_event_info option \<times> u32 option \<times> input_event_callback" where
  "OnInputEvent K ev c = (case ev of None \<Rightarrow> (None, None, c)
   | Some e \<Rightarrow>
      (let (fwd, r) = (if ic_keyEventHandler c then ShouldForwardPttKeyEvent K e (ic_routing c) else (False, ic_routing c));
           c = c\<lparr>ic_routing := r\<rparr>;
           info = (if fwd then Some (event_info K e) else None)
       in if kv_keyCode e \<noteq> kc_capsLock K then (info, None, c\<lparr>ic_keyState := 0\<rparr>)
          else if kv_keyAction e = ka_down K then
            (let st = or (ic_keyState c) CAPS_MASK
             in (info, if ic_keyHandler c then Some st else None, c\<lparr>ic_keyState := st, ic_isKeyHandled := True\<rparr>))
          else if kv_keyAction e = ka_up K then
            (info, if ic_keyHandler c \<and> \<not> ic_isKeyHandled c then Some (ic_keyState c) else None,
             c\<lparr>ic_isKeyHandled := True, ic_keyState := and (ic_keyState c) (not CAPS_MASK)\<rparr>)
          else (info, None, c)))"

definition TriggerSwitch :: "input_event_callback \<Rightarrow> u32 option" where
  "TriggerSwitch c = (if ic_keyHandler c then Some 0x60 else None)"

text \<open>Caps lock is the only key with a mask: no other bit of the shared key state is ever set.\<close>

lemma caps_only:
  assumes "ic_keyState c \<in> {0, CAPS_MASK}" and "OnInputEvent K ev c = (i, k, c')"
  shows "ic_keyState c' \<in> {0, CAPS_MASK} \<and> (k = None \<or> k \<in> Some ` {0, CAPS_MASK})"
  using assms by (auto simp: OnInputEvent_def Let_def CAPS_MASK_def split: option.splits prod.splits if_splits)

section \<open>The controller\<close>

datatype ptt_state = PTT_IDLE | PTT_PENDING | PTT_ACTIVE | PTT_SUPPRESSED

datatype ptt_action = PTT_NONE | START_TIMER | CANCEL_TIMER | START_VOICE | STOP_VOICE

definition HasOtherPressedKey :: "key_codes \<Rightarrow> keyboard_event_info \<Rightarrow> bool" where
  "HasOtherPressedKey K i \<longleftrightarrow> (\<exists>k \<in> set (ki_pressedKeys i). k \<noteq> kc_space K)"

definition HandleSpaceDownLocked :: "key_codes \<Rightarrow> keyboard_event_info \<Rightarrow> ptt_state \<Rightarrow> ptt_action \<times> ptt_state" where
  "HandleSpaceDownLocked K i st =
     (if st \<noteq> PTT_IDLE then (PTT_NONE, st)
      else if HasOtherPressedKey K i then (PTT_NONE, PTT_SUPPRESSED)
      else (START_TIMER, PTT_PENDING))"

text \<open>What ends a gesture in the given state.\<close>

definition cleanup :: "ptt_state \<Rightarrow> ptt_action" where
  "cleanup st = (case st of PTT_PENDING \<Rightarrow> CANCEL_TIMER | PTT_ACTIVE \<Rightarrow> STOP_VOICE | _ \<Rightarrow> PTT_NONE)"

definition HandleSpaceUpLocked :: "ptt_state \<Rightarrow> ptt_action \<times> ptt_state" where
  "HandleSpaceUpLocked st = (cleanup st, PTT_IDLE)"

definition HandleOtherKeyLocked :: "ptt_state \<Rightarrow> ptt_action \<times> ptt_state" where
  "HandleOtherKeyLocked st = (case st of
     PTT_PENDING \<Rightarrow> (CANCEL_TIMER, PTT_SUPPRESSED)
   | PTT_ACTIVE \<Rightarrow> (STOP_VOICE, PTT_SUPPRESSED)
   | _ \<Rightarrow> (PTT_NONE, st))"

definition HandleKeyEvent :: "key_codes \<Rightarrow> keyboard_event_info \<Rightarrow> ptt_state \<Rightarrow> ptt_action \<times> ptt_state" where
  "HandleKeyEvent K i st =
     (let isKeyAction = (ki_keyAction i = ka_down K \<or> ki_keyAction i = ka_up K);
          isSpace = (ki_keyCode i = kc_space K)
      in if \<not> isSpace \<and> (\<not> isKeyAction \<or> st \<noteq> PTT_PENDING \<and> st \<noteq> PTT_ACTIVE) then (PTT_NONE, st)
         else if isSpace then
           if ki_keyAction i = ka_down K then HandleSpaceDownLocked K i st
           else if ki_keyAction i = ka_up K then HandleSpaceUpLocked st
           else (PTT_NONE, st)
         else HandleOtherKeyLocked st)"

definition HandleTimeout :: "ptt_state \<Rightarrow> ptt_action \<times> ptt_state" where
  "HandleTimeout st = (if st \<noteq> PTT_PENDING then (PTT_NONE, st) else (START_VOICE, PTT_ACTIVE))"

definition Reset_ptt :: "ptt_state \<Rightarrow> ptt_action \<times> ptt_state" where
  "Reset_ptt st = (cleanup st, PTT_IDLE)"

definition SuppressUntilSpaceUp :: "ptt_state \<Rightarrow> ptt_state" where
  "SuppressUntilSpaceUp st = (if st \<noteq> PTT_IDLE then PTT_SUPPRESSED else st)"

definition StateToString :: "ptt_state \<Rightarrow> string" where
  "StateToString st = (case st of PTT_IDLE \<Rightarrow> ''IDLE'' | PTT_PENDING \<Rightarrow> ''PENDING'' | PTT_ACTIVE \<Rightarrow> ''ACTIVE''
     | PTT_SUPPRESSED \<Rightarrow> ''SUPPRESSED'')"

definition ActionToString :: "ptt_action \<Rightarrow> string" where
  "ActionToString a = (case a of PTT_NONE \<Rightarrow> ''NONE'' | START_TIMER \<Rightarrow> ''START_TIMER'' | CANCEL_TIMER \<Rightarrow> ''CANCEL_TIMER''
     | START_VOICE \<Rightarrow> ''START_VOICE'' | STOP_VOICE \<Rightarrow> ''STOP_VOICE'')"

lemmas ptt_controller_defs = HandleKeyEvent_def HandleSpaceDownLocked_def HandleSpaceUpLocked_def
  HandleOtherKeyLocked_def HandleTimeout_def SuppressUntilSpaceUp_def cleanup_def

section \<open>Forwarding is invisible\<close>

text \<open>
  What reaches the controller: keys, the timer, and a gesture that fails. \<open>direct_run\<close> is the controller that sees
  every key event, \<open>routed_run\<close> the one behind the monitor; both give the actions in order.
\<close>

datatype ptt_input = KeyIn mmi_key_event | TimeoutIn | FailedIn

fun direct_run :: "key_codes \<Rightarrow> ptt_state \<Rightarrow> ptt_input list \<Rightarrow> ptt_action list" where
  "direct_run K st [] = []"
| "direct_run K st (KeyIn e # xs) = (let (a, st') = HandleKeyEvent K (event_info K e) st in a # direct_run K st' xs)"
| "direct_run K st (TimeoutIn # xs) = (let (a, st') = HandleTimeout st in a # direct_run K st' xs)"
| "direct_run K st (FailedIn # xs) = direct_run K (SuppressUntilSpaceUp st) xs"

fun routed_run :: "key_codes \<Rightarrow> ptt_routing \<Rightarrow> ptt_state \<Rightarrow> ptt_input list \<Rightarrow> ptt_action list" where
  "routed_run K r st [] = []"
| "routed_run K r st (KeyIn e # xs) = (let (fwd, r') = ShouldForwardPttKeyEvent K e r;
     (a, st') = (if fwd then HandleKeyEvent K (event_info K e) st else (PTT_NONE, st)) in a # routed_run K r' st' xs)"
| "routed_run K r st (TimeoutIn # xs) = (let (a, st') = HandleTimeout st in a # routed_run K r st' xs)"
| "routed_run K r st (FailedIn # xs) = routed_run K r (SuppressUntilSpaceUp st) xs"

text \<open>The keys that an event reports as pressed: each once, and with a press the key itself among them.\<close>

definition pressed_ok :: "key_codes \<Rightarrow> mmi_key_event \<Rightarrow> bool" where
  "pressed_ok K e \<longleftrightarrow> distinct (kv_pressedKeys e) \<and> (kv_keyAction e = ka_down K \<longrightarrow> kv_keyCode e \<in> set (kv_pressedKeys e))"

definition routing_rel :: "ptt_routing \<Rightarrow> ptt_state \<Rightarrow> ptt_state \<Rightarrow> bool" where
  "routing_rel r st st' \<longleftrightarrow> (case r of
     ROUTE_IDLE \<Rightarrow> st = PTT_IDLE \<and> st' = PTT_IDLE
   | ROUTE_TRACKING \<Rightarrow> st = st' \<and> st \<noteq> PTT_IDLE
   | ROUTE_SUPPRESSED \<Rightarrow> st \<in> {PTT_IDLE, PTT_SUPPRESSED} \<and> st' = PTT_SUPPRESSED)"

lemma distinct_single: "distinct xs \<Longrightarrow> x \<in> set xs \<Longrightarrow> (\<forall>y \<in> set xs. y = x) \<longleftrightarrow> xs = [x]"
  by (cases xs; cases "tl xs") auto

lemma only_space:
  assumes "pressed_ok K e" "kv_keyCode e = kc_space K" "kv_keyAction e = ka_down K"
  shows "HasOtherPressedKey K (event_info K e) \<longleftrightarrow> kv_pressedKeys e \<noteq> [kc_space K]"
  using assms distinct_single [of "kv_pressedKeys e" "kc_space K"]
  by (auto simp: HasOtherPressedKey_def event_info_def pressed_ok_def)

lemma routing_key:
  assumes "ka_down K \<noteq> ka_up K" "pressed_ok K e" "routing_rel r st st'"
    and "ShouldForwardPttKeyEvent K e r = (fwd, r')"
    and "(if fwd then HandleKeyEvent K (event_info K e) st else (PTT_NONE, st)) = (a, t)"
    and "HandleKeyEvent K (event_info K e) st' = (a', t')"
  shows "a = a' \<and> routing_rel r' t t'"
proof (cases "kv_keyCode e = kc_space K \<and> kv_keyAction e = ka_down K")
  case True
  then show ?thesis using assms only_space [of K e]
    by (cases r) (auto simp: routing_rel_def ShouldForwardPttKeyEvent_def ptt_controller_defs Let_def event_info_def
        split: if_splits ptt_state.splits)
next
  case False
  then show ?thesis using assms
    by (cases r; cases st') (auto simp: routing_rel_def ShouldForwardPttKeyEvent_def ptt_controller_defs Let_def event_info_def
        split: if_splits ptt_state.splits)
qed

lemma routing_other:
  assumes "routing_rel r st st'"
  shows "fst (HandleTimeout st) = fst (HandleTimeout st')" "routing_rel r (snd (HandleTimeout st)) (snd (HandleTimeout st'))"
    "routing_rel r (SuppressUntilSpaceUp st) (SuppressUntilSpaceUp st')"
  using assms by (cases r; auto simp: routing_rel_def ptt_controller_defs)+

lemma routing_simulation:
  assumes "ka_down K \<noteq> ka_up K" "\<forall>x \<in> set xs. case x of KeyIn e \<Rightarrow> pressed_ok K e | _ \<Rightarrow> True" "routing_rel r st st'"
  shows "routed_run K r st xs = direct_run K st' xs"
  using assms(2,3)
proof (induction xs arbitrary: r st st')
  case (Cons x xs)
  note ok = Cons.prems
  show ?case
  proof (cases x)
    case (KeyIn e)
    obtain fwd r' where f: "ShouldForwardPttKeyEvent K e r = (fwd, r')" by (cases "ShouldForwardPttKeyEvent K e r")
    obtain a t where g: "(if fwd then HandleKeyEvent K (event_info K e) st else (PTT_NONE, st)) = (a, t)"
      by (cases "if fwd then HandleKeyEvent K (event_info K e) st else (PTT_NONE, st)")
    obtain a' t' where h: "HandleKeyEvent K (event_info K e) st' = (a', t')" by (cases "HandleKeyEvent K (event_info K e) st'")
    have "a = a' \<and> routing_rel r' t t'" using routing_key [OF assms(1) _ ok(2) f g h] ok(1) by (simp add: KeyIn)
    then show ?thesis using Cons.IH [of r' t t'] ok(1) by (simp add: KeyIn f g h del: if_split)
  next
    case TimeoutIn
    then show ?thesis using Cons.IH [OF _ routing_other(2) [OF ok(2)]] routing_other(1) [OF ok(2)] ok(1)
      by (simp add: case_prod_beta)
  next
    case FailedIn
    then show ?thesis using Cons.IH [OF _ routing_other(3) [OF ok(2)]] ok(1) by simp
  qed
qed simp

text \<open>C29. The keyboard monitor forwards a key event to push-to-talk only when it seems to matter: the space bar pressed
  alone, its release, and the first other key meanwhile. The controller behind this filter takes the very actions,
  in the very order, that it would take if it saw every key event, however the expiry of the long-press timer and
  failing gestures fall in between; provided that the event's pressed keys are reported once each, with the key
  that goes down among them.\<close>

theorem ptt_routing_transparent:
  assumes "ka_down K \<noteq> ka_up K" "\<forall>x \<in> set xs. case x of KeyIn e \<Rightarrow> pressed_ok K e | _ \<Rightarrow> True"
  shows "routed_run K ROUTE_IDLE PTT_IDLE xs = direct_run K PTT_IDLE xs"
  using routing_simulation [OF assms, of ROUTE_IDLE PTT_IDLE PTT_IDLE] by (simp add: routing_rel_def)

text \<open>Space is held until the timer expires and is released; then it is pressed beside another key.\<close>

definition codes0 :: key_codes where
  "codes0 = \<lparr>kc_space = 2050, kc_capsLock = 2074, ka_down = 2, ka_up = 3\<rparr>"

definition key0 :: "int \<Rightarrow> int \<Rightarrow> int list \<Rightarrow> ptt_input" where
  "key0 k a ks = KeyIn \<lparr>kv_keyCode = k, kv_keyAction = a, kv_pressedKeys = ks\<rparr>"

theorem ptt_routing_transparent_witness:
  "routed_run codes0 ROUTE_IDLE PTT_IDLE
     [key0 2050 2 [2050], key0 2050 2 [2050], TimeoutIn, key0 2050 3 [], key0 2017 2 [2017], key0 2050 2 [2017, 2050], TimeoutIn]
   = direct_run codes0 PTT_IDLE
     [key0 2050 2 [2050], key0 2050 2 [2050], TimeoutIn, key0 2050 3 [], key0 2017 2 [2017], key0 2050 2 [2017, 2050], TimeoutIn]
   \<and> direct_run codes0 PTT_IDLE
     [key0 2050 2 [2050], key0 2050 2 [2050], TimeoutIn, key0 2050 3 [], key0 2017 2 [2017], key0 2050 2 [2017, 2050], TimeoutIn]
   = [START_TIMER, PTT_NONE, START_VOICE, STOP_VOICE, PTT_NONE, PTT_NONE, PTT_NONE]"
proof
  let ?xs = "[key0 2050 2 [2050], key0 2050 2 [2050], TimeoutIn, key0 2050 3 [], key0 2017 2 [2017],
    key0 2050 2 [2017, 2050], TimeoutIn]"
  have "\<forall>x \<in> set ?xs. case x of KeyIn e \<Rightarrow> pressed_ok codes0 e | _ \<Rightarrow> True" "ka_down codes0 \<noteq> ka_up codes0"
    by (simp_all add: key0_def codes0_def pressed_ok_def)
  then show "routed_run codes0 ROUTE_IDLE PTT_IDLE ?xs = direct_run codes0 PTT_IDLE ?xs"
    by (intro ptt_routing_transparent)
  show "direct_run codes0 PTT_IDLE ?xs = [START_TIMER, PTT_NONE, START_VOICE, STOP_VOICE, PTT_NONE, PTT_NONE, PTT_NONE]"
    by (simp add: key0_def codes0_def ptt_controller_defs event_info_def HasOtherPressedKey_def)
qed

end
