(* ===== verification/Sa_Ptt.thy ===== *)
theory Sa_Ptt
  imports Sa_Machine Ptt_Keyboard
begin

text \<open>
  The push-to-talk manager (\<open>services/src/push_to_talk_manager.cpp\<close>) on top of the service: holding the space bar
  in an edit box starts the voice input method, ending the gesture restores the current one. The manager acts on
  the sessions and on the input type through the operations of the service; its tasks run on the service's handler.
\<close>

section \<open>Environment and state\<close>

text \<open>
  What the systems outside answer: the user in the foreground (\<open>None\<close>: the query fails), whether the handler takes
  a task, the client's answer to \<open>StartPttSpaceKeyEventBlock\<close>, the monitor id of an attempt to watch the keyboard,
  whether the parameters of the dialog can be written and its connection allocated; and the system's configuration.
\<close>

record 'd ptt_env =
  px_sa :: "'d sa_env"
  px_keys :: key_codes
  px_foreground :: "'d \<Rightarrow> int option"
  px_posts :: "'d \<Rightarrow> bool"
  px_block :: "'d \<Rightarrow> robj \<Rightarrow> int"
  px_monitorId :: "'d \<Rightarrow> nat \<Rightarrow> int"
  px_marshal :: "'d \<Rightarrow> bool"
  px_connection :: "'d \<Rightarrow> bool"
  px_longPressMs :: u32
  px_dialogBundleName :: string
  px_dialogAbilityName :: string

datatype ptt_event =
    VoiceStarted int | VoiceStopped int int | SpaceBlocked robj | DialogConnected string string

text \<open>
  \<open>pt_gestureClient\<close> is \<open>None\<close> for the empty snapshot; \<open>pt_keyTasks\<close> and \<open>pt_timers\<close> are the tasks
  \<open>KEY_EVENT_TASK\<close> and \<open>TIMEOUT_TASK\<close> in the handler's queue; there is a callback for every monitor that was
  added, and the variables that the callbacks share; \<open>pt_dialogPopped\<close> is \<open>None\<close> before its first use.
\<close>

record 'd ptt =
  pt_sa :: "'d sa"
  pt_controller :: ptt_state
  pt_isKeyEventMonitorReady :: bool
  pt_gestureUserId :: int
  pt_gestureClient :: "focused_snapshot option"
  pt_keyTasks :: "keyboard_event_info list"
  pt_timers :: "int list"
  pt_callbacks :: "ptt_routing list"
  pt_keyState :: u32
  pt_isKeyHandled :: bool
  pt_dialogPopped :: "bool option"
  pt_log :: "ptt_event list"

type_synonym ('d, 'a) pto = "('d ptt, 'a) state"

definition on_sa :: "('d, 'a) sao \<Rightarrow> ('d, 'a) pto" where
  "on_sa m = do {
     r \<leftarrow> gets (\<lambda>s. run_state m (pt_sa s));
     modify (\<lambda>s. s\<lparr>pt_sa := snd r\<rparr>);
     ret (fst r) }"

definition pt_emit :: "ptt_event \<Rightarrow> ('d, unit) pto" where
  "pt_emit ev = modify (\<lambda>s. s\<lparr>pt_log := ev # pt_log s\<rparr>)"

definition pt_world :: "('d \<Rightarrow> 'a) \<Rightarrow> ('d, 'a) pto" where
  "pt_world f = gets (\<lambda>s. f (sd_world (pt_sa s)))"

definition ptt_control :: "(ptt_state \<Rightarrow> ptt_action \<times> ptt_state) \<Rightarrow> ('d, ptt_action) pto" where
  "ptt_control f = do {
     a \<leftarrow> gets (\<lambda>s. fst (f (pt_controller s)));
     modify (\<lambda>s. s\<lparr>pt_controller := snd (f (pt_controller s))\<rparr>);
     ret a }"

section \<open>The focused client\<close>

definition PttSettings_IsEnabled :: "'d sa_env \<Rightarrow> int \<Rightarrow> ('d, bool) sao" where
  "PttSettings_IsEnabled X userId =
     (if userId < 0 then ret False
      else do {
        (r, v) \<leftarrow> GetStringValue (se_ds (nv_settings X)) SETTING_URI_PROXY ''settings.keyboard.push_talk_switch'' '''';
        ret (r = NO_ERROR \<and> v = ''true'') })"

definition GetEligibleClient :: "'d sa_env \<Rightarrow> int \<Rightarrow> ('d, focused_snapshot option) sao" where
  "GetEligibleClient X userId = do {
     session \<leftarrow> gets (GetUserSession userId);
     (case session of None \<Rightarrow> ret None
      | Some ss \<Rightarrow> (case GetFocusedRealImeClient ss of None \<Rightarrow> ret None
        | Some snapshot \<Rightarrow>
            if fs_isSecurityIme snapshot \<or> fs_isOneTimeCode snapshot then ret None
            else do {
              enabled \<leftarrow> PttSettings_IsEnabled X userId;
              ret (if enabled then Some snapshot else None) })) }"

definition IsSameInputClient :: "focused_snapshot \<Rightarrow> focused_snapshot \<Rightarrow> bool" where
  "IsSameInputClient l r \<longleftrightarrow> fs_client l = fs_client r \<and> fs_channel l = fs_channel r \<and>
     fs_clientGroupId l = fs_clientGroupId r \<and> fs_editorWindowId l = fs_editorWindowId r \<and>
     fs_editorDisplayId l = fs_editorDisplayId r"

definition IsGestureAvailable :: "'d sa_env \<Rightarrow> int \<Rightarrow> robj \<Rightarrow> ('d, bool) sao" where
  "IsGestureAvailable X userId channel = do {
     c \<leftarrow> GetEligibleClient X userId;
     ret (case c of None \<Rightarrow> False | Some snapshot \<Rightarrow> fs_channel snapshot = channel) }"

definition SetKeyEventMonitorReady :: "bool \<Rightarrow> ('d, unit) pto" where
  "SetKeyEventMonitorReady isReady = modify (\<lambda>s. s\<lparr>pt_isKeyEventMonitorReady := isReady\<rparr>)"

definition IsReady :: "'d ptt \<Rightarrow> bool" where
  "IsReady s \<longleftrightarrow> sa_serviceHandler (pt_sa s) \<and> pt_isKeyEventMonitorReady s"

text \<open>The request of an input method: the code, and the answer.\<close>

definition IsPttGestureAvailable :: "'d ptt_env \<Rightarrow> caller \<Rightarrow> robj option \<Rightarrow> ('d, int \<times> bool) pto" where
  "IsPttGestureAvailable P C channel = (case channel of None \<Rightarrow> ret (ERROR_BAD_PARAMETERS, False)
   | Some ch \<Rightarrow> do {
       ready \<leftarrow> gets IsReady;
       if \<not> ready then ret (NO_ERROR, False)
       else do {
         userId \<leftarrow> gets (\<lambda>s. GetCallingUserId (px_sa P) C (pt_sa s));
         cur \<leftarrow> gets (\<lambda>s. IsCurrentIme_sa (px_sa P) userId (cl_tokenId C) (pt_sa s));
         if \<not> cur then ret (ERROR_NOT_CURRENT_IME, False)
         else do {
           b \<leftarrow> on_sa (IsGestureAvailable (px_sa P) userId ch);
           ret (NO_ERROR, b) } } })"

section \<open>The gesture\<close>

definition ClearGestureContext :: "('d, unit) pto" where
  "ClearGestureContext = modify (\<lambda>s. s\<lparr>pt_gestureUserId := INVALID_USER_ID, pt_gestureClient := None\<rparr>)"

definition NotifyGestureCancelled :: "'d ptt_env \<Rightarrow> int \<Rightarrow> ('d, unit) pto" where
  "NotifyGestureCancelled P userId =
     (if userId = INVALID_USER_ID then ret ()
      else on_sa (void (in_session (px_sa P) userId NO_ERROR NotifyPttGestureCancelled)))"

definition NotifyRollbackSpace_ptt :: "'d ptt_env \<Rightarrow> int \<Rightarrow> ('d, int) pto" where
  "NotifyRollbackSpace_ptt P userId = on_sa (in_session (px_sa P) userId ERROR_NULL_POINTER NotifyRollbackSpace)"

definition suppress :: "('d, unit) pto" where
  "suppress = modify (\<lambda>s. s\<lparr>pt_controller := SuppressUntilSpaceUp (pt_controller s)\<rparr>)"

text \<open>How a gesture that cannot go on ends, wherever that is found.\<close>

definition fail_gesture :: "'d ptt_env \<Rightarrow> int \<Rightarrow> ('d, unit) pto" where
  "fail_gesture P userId = do { suppress; NotifyGestureCancelled P userId; ClearGestureContext }"

definition BindGestureContext :: "'d ptt_env \<Rightarrow> int \<Rightarrow> ('d, bool) pto" where
  "BindGestureContext P userId = do {
     modify (\<lambda>s. s\<lparr>pt_gestureClient := None\<rparr>);
     c \<leftarrow> on_sa (GetEligibleClient (px_sa P) userId);
     (case c of None \<Rightarrow> ret False
      | Some snapshot \<Rightarrow> do { modify (\<lambda>s. s\<lparr>pt_gestureClient := Some snapshot\<rparr>); ret True }) }"

definition IsGestureContextValid :: "'d ptt_env \<Rightarrow> int \<Rightarrow> ('d, bool) pto" where
  "IsGestureContextValid P userId = do {
     g \<leftarrow> gets pt_gestureClient;
     u \<leftarrow> gets pt_gestureUserId;
     (case g of None \<Rightarrow> ret False
      | Some gesture \<Rightarrow>
          if userId \<noteq> u then ret False
          else do {
            c \<leftarrow> on_sa (GetEligibleClient (px_sa P) userId);
            ret (case c of None \<Rightarrow> False | Some current \<Rightarrow> IsSameInputClient gesture current) }) }"

definition HandleTimerStartFailure :: "'d ptt_env \<Rightarrow> ('d, unit) pto" where
  "HandleTimerStartFailure P = do { u \<leftarrow> gets pt_gestureUserId; fail_gesture P u }"

definition ScheduleLongPressTimer :: "'d ptt_env \<Rightarrow> ('d, unit) pto" where
  "ScheduleLongPressTimer P = do {
     h \<leftarrow> gets (\<lambda>s. sa_serviceHandler (pt_sa s));
     if \<not> h then HandleTimerStartFailure P
     else if px_longPressMs P = 0 then HandleTimerStartFailure P
     else do {
       modify (\<lambda>s. s\<lparr>pt_timers := []\<rparr>);
       gestureUserId \<leftarrow> gets pt_gestureUserId;
       posted \<leftarrow> pt_world (px_posts P);
       if \<not> posted then fail_gesture P gestureUserId
       else modify (\<lambda>s. s\<lparr>pt_timers := pt_timers s @ [gestureUserId]\<rparr>) } }"

definition start_for :: "'d ptt_env \<Rightarrow> int \<Rightarrow> ('d, unit) pto" where
  "start_for P userId = do {
     bound \<leftarrow> BindGestureContext P userId;
     if \<not> bound then fail_gesture P userId
     else do {
       modify (\<lambda>s. s\<lparr>pt_gestureUserId := userId\<rparr>);
       ScheduleLongPressTimer P } }"

definition HandleStartTimer :: "'d ptt_env \<Rightarrow> int \<Rightarrow> ('d, unit) pto" where
  "HandleStartTimer P eventUserId =
     (if eventUserId = INVALID_USER_ID then do {
        u \<leftarrow> pt_world (px_foreground P);
        (if u = None \<or> u = Some INVALID_USER_ID then do { suppress; ClearGestureContext }
         else start_for P (the u)) }
      else start_for P eventUserId)"

definition HandleCancelTimer :: "('d, unit) pto" where
  "HandleCancelTimer = do {
     h \<leftarrow> gets (\<lambda>s. sa_serviceHandler (pt_sa s));
     when_do h (modify (\<lambda>s. s\<lparr>pt_timers := []\<rparr>));
     ClearGestureContext }"

definition EnableSpaceKeyEventBlock :: "'d ptt_env \<Rightarrow> int \<Rightarrow> ('d, bool) pto" where
  "EnableSpaceKeyEventBlock P userId = do {
     g \<leftarrow> gets pt_gestureClient;
     r \<leftarrow> (case g of None \<Rightarrow> ret ERROR_NULL_POINTER
           | Some snapshot \<Rightarrow> do {
               pt_emit (SpaceBlocked (fs_client snapshot));
               pt_world (\<lambda>w. px_block P w (fs_client snapshot)) });
     if r = NO_ERROR then ret True
     else do { fail_gesture P userId; ret False } }"

text \<open>The end of \<open>HandleStartVoice\<close>; the handler it calls is the service's \<open>StartInputType\<close>, outside of any request.\<close>

definition start_voice :: "'d ptt_env \<Rightarrow> int \<Rightarrow> ('d, unit) pto" where
  "start_voice P userId = do {
     NotifyRollbackSpace_ptt P userId;
     r \<leftarrow> on_sa (StartInputType_user (px_sa P) (sx_self (px_sa P)) userId (Some PUSH_TO_TALK_INPUT) True);
     if r \<noteq> NO_ERROR then fail_gesture P userId
     else pt_emit (VoiceStarted userId) }"

definition HandleStartVoice :: "'d ptt_env \<Rightarrow> ('d, unit) pto" where
  "HandleStartVoice P = do {
     userId \<leftarrow> gets pt_gestureUserId;
     if userId = INVALID_USER_ID then do { suppress; ClearGestureContext }
     else do {
       foreground \<leftarrow> pt_world (\<lambda>w. IsOsAccountForeground (sx_accounts (px_sa P)) w userId);
       if \<not> foreground then fail_gesture P userId
       else do {
         valid \<leftarrow> IsGestureContextValid P userId;
         if \<not> valid then fail_gesture P userId
         else do {
           blocked \<leftarrow> EnableSpaceKeyEventBlock P userId;
           when_do blocked (start_voice P userId) } } } }"

definition RestoreCurrentIme :: "'d ptt_env \<Rightarrow> int \<Rightarrow> ('d, int) pto" where
  "RestoreCurrentIme P userId = do {
     b \<leftarrow> gets (\<lambda>s. has_session userId (pt_sa s));
     if \<not> b then ret ERROR_IMSA_USER_SESSION_NOT_FOUND
     else do {
       on_sa (set_type False no_ime);
       on_sa (in_session (px_sa P) userId ERROR_IMSA_USER_SESSION_NOT_FOUND (\<lambda>E. StartCurrentIme E False DEFAULT_START)) } }"

definition HandleStopVoice :: "'d ptt_env \<Rightarrow> ('d, unit) pto" where
  "HandleStopVoice P = do {
     userId \<leftarrow> gets pt_gestureUserId;
     if userId = INVALID_USER_ID then ClearGestureContext
     else do {
       on_sa (void (in_session (px_sa P) userId NO_ERROR SendPttStopPrivateCommand));
       r \<leftarrow> RestoreCurrentIme P userId;
       pt_emit (VoiceStopped userId r);
       ClearGestureContext } }"

definition HandleNoAction :: "('d, unit) pto" where
  "HandleNoAction = do {
     st \<leftarrow> gets pt_controller;
     when_do (st = PTT_IDLE) ClearGestureContext }"

definition ApplyAction :: "'d ptt_env \<Rightarrow> ptt_action \<Rightarrow> int \<Rightarrow> ('d, unit) pto" where
  "ApplyAction P a eventUserId = (case a of
     START_TIMER \<Rightarrow> HandleStartTimer P eventUserId
   | CANCEL_TIMER \<Rightarrow> HandleCancelTimer
   | START_VOICE \<Rightarrow> HandleStartVoice P
   | STOP_VOICE \<Rightarrow> HandleStopVoice P
   | PTT_NONE \<Rightarrow> HandleNoAction)"

section \<open>Tasks and the keyboard\<close>

definition HandleKeyEvent_ptt :: "'d ptt_env \<Rightarrow> keyboard_event_info \<Rightarrow> ('d, unit) pto" where
  "HandleKeyEvent_ptt P i = do {
     h \<leftarrow> gets (\<lambda>s. sa_serviceHandler (pt_sa s));
     posted \<leftarrow> pt_world (px_posts P);
     when_do (h \<and> posted) (modify (\<lambda>s. s\<lparr>pt_keyTasks := pt_keyTasks s @ [i]\<rparr>)) }"

definition key_task :: "'d ptt_env \<Rightarrow> ('d, unit) pto" where
  "key_task P = do {
     ts \<leftarrow> gets pt_keyTasks;
     (case ts of [] \<Rightarrow> ret ()
      | i # rest \<Rightarrow> do {
          modify (\<lambda>s. s\<lparr>pt_keyTasks := rest\<rparr>);
          a \<leftarrow> ptt_control (HandleKeyEvent (px_keys P) i);
          ApplyAction P a INVALID_USER_ID }) }"

definition timeout_task :: "'d ptt_env \<Rightarrow> ('d, unit) pto" where
  "timeout_task P = do {
     ts \<leftarrow> gets pt_timers;
     (case ts of [] \<Rightarrow> ret ()
      | gestureUserId # rest \<Rightarrow> do {
          modify (\<lambda>s. s\<lparr>pt_timers := rest\<rparr>);
          u \<leftarrow> gets pt_gestureUserId;
          if gestureUserId \<noteq> u then ret ()
          else do {
            a \<leftarrow> ptt_control HandleTimeout;
            ApplyAction P a gestureUserId } }) }"

text \<open>A key event at one of the callbacks: to push-to-talk, and to the combination keys.\<close>

definition key_input :: "'d ptt_env \<Rightarrow> nat \<Rightarrow> mmi_key_event option \<Rightarrow> ('d, unit) pto" where
  "key_input P n e = do {
     cs \<leftarrow> gets pt_callbacks;
     if n \<ge> length cs then ret ()
     else do {
       (info, combination, c) \<leftarrow> gets (\<lambda>s. OnInputEvent (px_keys P) e
          \<lparr>ic_routing = cs ! n, ic_keyHandler = True, ic_keyEventHandler = True, ic_keyState = pt_keyState s,
           ic_isKeyHandled = pt_isKeyHandled s\<rparr>);
       modify (\<lambda>s. s\<lparr>pt_callbacks := cs[n := ic_routing c], pt_keyState := ic_keyState c, pt_isKeyHandled := ic_isKeyHandled c\<rparr>);
       (case info of None \<Rightarrow> ret () | Some i \<Rightarrow> HandleKeyEvent_ptt P i);
       (case combination of None \<Rightarrow> ret () | Some k \<Rightarrow> on_sa (void (SwitchByCombinationKey (px_sa P) k))) } }"

abbreviation ERROR_SUBSCRIBE_KEYBOARD_EVENT :: int where "ERROR_SUBSCRIBE_KEYBOARD_EVENT \<equiv> 3"

text \<open>A callback is added with a monitor; the code tells whether it was.\<close>

definition AddKeyEventMonitor :: "int \<Rightarrow> ('d, int) pto" where
  "AddKeyEventMonitor monitorId =
     (if monitorId < 0 then ret ERROR_SUBSCRIBE_KEYBOARD_EVENT
      else do { modify (\<lambda>s. s\<lparr>pt_callbacks := pt_callbacks s @ [ROUTE_IDLE]\<rparr>); ret NO_ERROR })"

fun add_monitor :: "'d ptt_env \<Rightarrow> nat list \<Rightarrow> ('d, unit) pto" where
  "add_monitor P [] = ret ()"
| "add_monitor P (attempt # attempts) = do {
     monitorId \<leftarrow> pt_world (\<lambda>w. px_monitorId P w attempt);
     r \<leftarrow> AddKeyEventMonitor monitorId;
     if r = NO_ERROR then SetKeyEventMonitorReady True else add_monitor P attempts }"

definition InitKeyEventMonitor :: "'d ptt_env \<Rightarrow> ('d, unit) pto" where
  "InitKeyEventMonitor P = do {
     on_sa (on_system_event (px_sa P) KeyMonitorReady);
     SetKeyEventMonitorReady False;
     add_monitor P [1, 2, 3] }"

section \<open>The dialog\<close>

definition ConnectPushToTalkDialog :: "'d ptt_env \<Rightarrow> ('d, bool) pto" where
  "ConnectPushToTalkDialog P = do {
     ok \<leftarrow> pt_world (\<lambda>w. px_marshal P w \<and> px_connection P w);
     when_do ok (pt_emit (DialogConnected (px_dialogBundleName P) (px_dialogAbilityName P)));
     ret ok }"

definition dialog_popped :: "'d ptt_env \<Rightarrow> ('d, bool) pto" where
  "dialog_popped P = do {
     p \<leftarrow> gets pt_dialogPopped;
     (case p of Some b \<Rightarrow> ret b
      | None \<Rightarrow> do {
          b \<leftarrow> on_sa (GetPushToTalkDialogPopped (se_ds (nv_settings (px_sa P))));
          modify (\<lambda>s. s\<lparr>pt_dialogPopped := Some b\<rparr>);
          ret b }) }"

definition StartDialogAbility :: "'d ptt_env \<Rightarrow> int \<Rightarrow> ('d, unit) pto" where
  "StartDialogAbility P userId =
     (if \<not> nv_enablePushToTalk (px_sa P) then ret ()
      else do {
        popped \<leftarrow> dialog_popped P;
        if popped then ret ()
        else do {
          prop \<leftarrow> on_sa (GetCurrentInputMethod (px_sa P) userId);
          (case prop of None \<Rightarrow> ret ()
           | Some p \<Rightarrow>
               if \<not> IsSysIme (nv_settings (px_sa P)) (pr_name p) then ret ()
               else if px_dialogBundleName P = '''' \<or> px_dialogAbilityName P = '''' then ret ()
               else do {
                 modify (\<lambda>s. s\<lparr>pt_dialogPopped := Some True\<rparr>);
                 ok \<leftarrow> ConnectPushToTalkDialog P;
                 if \<not> ok then modify (\<lambda>s. s\<lparr>pt_dialogPopped := Some False\<rparr>)
                 else on_sa (SetPushToTalkDialogPopped (se_ds (nv_settings (px_sa P)))) }) } })"

section \<open>Steps\<close>

text \<open>
  Push-to-talk together with the service: what happens to the service, with what the manager does besides, and the
  manager's own tasks. Tasks vanish with the handler whose queue they are in.
\<close>

datatype 'd ptt_stimulus =
    SaCall caller sa_call | SaEvent sa_system_event | WorldChanges 'd
  | KeyInput nat "mmi_key_event option" | KeyTaskRuns | TimerFires | GestureQuery caller "robj option"

definition dialog_user :: "sa_system_event \<Rightarrow> sa_task list \<Rightarrow> int option" where
  "dialog_user ev ts = (case ev of TaskRuns i _ \<Rightarrow>
       if i < length ts then (case ts ! i of PttDialogTask u \<Rightarrow> Some u | _ \<Rightarrow> None) else None
     | _ \<Rightarrow> None)"

definition on_service_event :: "'d ptt_env \<Rightarrow> sa_system_event \<Rightarrow> ('d, unit) pto" where
  "on_service_event P ev =
     (if ev = KeyMonitorReady then InitKeyEventMonitor P
      else do {
        dialog \<leftarrow> gets (\<lambda>s. dialog_user ev (sa_tasks (pt_sa s)));
        when_do (ev = ServiceStops) (SetKeyEventMonitorReady False);
        on_sa (on_system_event (px_sa P) ev);
        (case dialog of None \<Rightarrow> ret () | Some u \<Rightarrow> StartDialogAbility P u) })"

definition drop_tasks :: "('d, unit) pto" where
  "drop_tasks = modify (\<lambda>s. if sa_serviceHandler (pt_sa s) then s else s\<lparr>pt_keyTasks := [], pt_timers := []\<rparr>)"

definition on_stimulus :: "'d ptt_env \<Rightarrow> 'd ptt_stimulus \<Rightarrow> ('d, unit) pto" where
  "on_stimulus P x = (case x of
     SaCall C q \<Rightarrow> on_sa (on_call (px_sa P) C q)
   | SaEvent ev \<Rightarrow> on_service_event P ev
   | WorldChanges w \<Rightarrow> modify (\<lambda>s. s\<lparr>pt_sa := (pt_sa s)\<lparr>sd_world := w\<rparr>\<rparr>)
   | KeyInput n e \<Rightarrow> key_input P n e
   | KeyTaskRuns \<Rightarrow> key_task P
   | TimerFires \<Rightarrow> timeout_task P
   | GestureQuery C ch \<Rightarrow> void (IsPttGestureAvailable P C ch))"

definition react :: "'d ptt_env \<Rightarrow> 'd ptt_stimulus \<Rightarrow> ('d, unit) pto" where
  "react P x = do { on_stimulus P x; drop_tasks }"

inductive ptt_step :: "'d ptt_env \<Rightarrow> 'd ptt \<Rightarrow> 'd ptt \<Rightarrow> bool" for P where
  step: "run_state (react P x) s = ((), t) \<Longrightarrow> ptt_step P s t"

inductive_cases ptt_step_cases: "ptt_step P s t"

definition ptt_start :: "'d ptt \<Rightarrow> bool" where
  "ptt_start s \<longleftrightarrow> sa_start (pt_sa s) \<and> pt_controller s = PTT_IDLE \<and> \<not> pt_isKeyEventMonitorReady s \<and>
     pt_gestureUserId s = INVALID_USER_ID \<and> pt_gestureClient s = None \<and> pt_keyTasks s = [] \<and> pt_timers s = [] \<and>
     pt_callbacks s = [] \<and> pt_keyState s = 0 \<and> \<not> pt_isKeyHandled s \<and> pt_dialogPopped s = None \<and> pt_log s = []"

definition ptt_reachable :: "'d ptt_env \<Rightarrow> 'd ptt \<Rightarrow> bool" where
  "ptt_reachable P = reaches ptt_start (ptt_step P)"

end
