(* ===== verification/Sa_Ptt_Correct.thy ===== *)
theory Sa_Ptt_Correct
  imports Sa_Ptt
begin

text \<open>
  Push-to-talk is safe: a gesture is bound to a user and a client exactly while it lasts, its timer belongs to it,
  the voice input is ended for the user it was started for, and it starts only for the client that still has the
  focus. The invariant of the service holds all along.
\<close>

section \<open>The invariant\<close>

text \<open>
  The user whose voice input is on, by the log (the newest event first); \<open>None\<close> when the log is not an alternation
  of starts and stops for the same user.
\<close>

fun voices :: "ptt_event list \<Rightarrow> int option option" where
  "voices [] = Some None"
| "voices (VoiceStarted u # l) = (if voices l = Some None then Some (Some u) else None)"
| "voices (VoiceStopped u r # l) = (if voices l = Some (Some u) then Some None else None)"
| "voices (_ # l) = voices l"

text \<open>For which users voice input was started, the newest first.\<close>

fun starts :: "ptt_event list \<Rightarrow> int list" where
  "starts [] = []"
| "starts (VoiceStarted u # l) = u # starts l"
| "starts (_ # l) = starts l"

definition in_gesture :: "'d ptt \<Rightarrow> bool" where
  "in_gesture s \<longleftrightarrow> pt_controller s = PTT_PENDING \<or> pt_controller s = PTT_ACTIVE"

definition gesture_inv :: "'d ptt \<Rightarrow> bool" where
  "gesture_inv s \<longleftrightarrow>
     (pt_gestureUserId s \<noteq> INVALID_USER_ID \<longleftrightarrow> in_gesture s) \<and> (pt_gestureClient s \<noteq> None \<longleftrightarrow> in_gesture s) \<and>
     (pt_timers s = [] \<or> pt_controller s = PTT_PENDING \<and> pt_timers s = [pt_gestureUserId s]) \<and>
     voices (pt_log s) = Some (if pt_controller s = PTT_ACTIVE then Some (pt_gestureUserId s) else None)"

definition ptt_inv :: "'d ptt \<Rightarrow> bool" where
  "ptt_inv s \<longleftrightarrow> gesture_inv s \<and> (pt_timers s = [] \<or> sa_serviceHandler (pt_sa s)) \<and> sa_inv (pt_sa s)"

lemma run_on_sa [simp]: "run_state (on_sa m) s = (fst (run_state m (pt_sa s)), s\<lparr>pt_sa := snd (run_state m (pt_sa s))\<rparr>)"
  by (simp add: on_sa_def)

lemma wp_on_sa [wp_simps]: "wp (on_sa m) Q s = Q (fst (run_state m (pt_sa s))) (s\<lparr>pt_sa := snd (run_state m (pt_sa s))\<rparr>)"
  by (simp add: wp_run)

lemma wp_pt [wp_simps]:
  "wp (pt_emit ev) Q s = Q () (s\<lparr>pt_log := ev # pt_log s\<rparr>)" "wp (pt_world f) Q' s = Q' (f (sd_world (pt_sa s))) s"
  by (simp_all add: pt_emit_def pt_world_def wp_simps)

lemma gesture_inv_sa [simp]: "gesture_inv (s\<lparr>pt_sa := a\<rparr>) = gesture_inv s"
  by (simp add: gesture_inv_def in_gesture_def)

text \<open>A part that is not a gesture's: it leaves alone what the gesture's invariant speaks of.\<close>

definition gesture :: "'d ptt \<Rightarrow> ptt_state \<times> int \<times> focused_snapshot option \<times> int list \<times> int option option \<times> int list" where
  "gesture s = (pt_controller s, pt_gestureUserId s, pt_gestureClient s, pt_timers s, voices (pt_log s), starts (pt_log s))"

lemma gesture_inv_frame: "gesture s = gesture t \<Longrightarrow> gesture_inv s = gesture_inv t"
  by (simp add: gesture_def gesture_inv_def in_gesture_def)

abbreviation aside :: "('d, 'a) pto \<Rightarrow> bool" where
  "aside m \<equiv> frames gesture m"

lemma aside_basic [frame_intros]:
  "aside (on_sa m)" "aside (pt_world f)" "aside (SetKeyEventMonitorReady rdy)" "aside (HandleKeyEvent_ptt P i)"
  "aside (AddKeyEventMonitor n)" "aside (pt_emit (DialogConnected b e))" "aside (pt_emit (SpaceBlocked k))"
  unfolding SetKeyEventMonitorReady_def HandleKeyEvent_ptt_def AddKeyEventMonitor_def pt_world_def pt_emit_def
  by (auto intro!: frame_intros frames_modify simp: frames_def gesture_def)

lemma aside_add_monitor [frame_intros]: "aside (add_monitor P ns)"
  by (induction ns) (auto intro!: frame_intros)

lemma aside_ops [frame_intros]:
  "aside (InitKeyEventMonitor P)" "aside (dialog_popped P)" "aside (ConnectPushToTalkDialog P)"
  unfolding InitKeyEventMonitor_def dialog_popped_def ConnectPushToTalkDialog_def
  by (intro frame_intros frames_modify; simp add: gesture_def)+

lemma aside_ops1 [frame_intros]:
  "aside (StartDialogAbility P u)" "aside (key_input P n e)" "aside (IsPttGestureAvailable P C ch)"
  unfolding StartDialogAbility_def key_input_def IsPttGestureAvailable_def
  by (intro frame_intros frames_modify; simp add: gesture_def)+

lemma aside_service_event [frame_intros]: "aside (on_service_event P ev)"
  unfolding on_service_event_def by (intro frame_intros)

lemma aside_inv: "aside m \<Longrightarrow> gesture_inv s \<Longrightarrow> gesture_inv (snd (run_state m s))"
  using gesture_inv_frame frames_run by metis

section \<open>The gesture's tasks\<close>

text \<open>A state in which no gesture is bound, whatever was bound before.\<close>

definition unbound :: "'d ptt \<Rightarrow> bool" where
  "unbound s \<longleftrightarrow> \<not> in_gesture s \<and> pt_gestureUserId s = INVALID_USER_ID \<and> pt_gestureClient s = None"

lemma unbound_inv: "unbound s \<Longrightarrow> pt_timers s = [] \<Longrightarrow> voices (pt_log s) = Some None \<Longrightarrow> gesture_inv s"
  by (auto simp: unbound_def gesture_inv_def in_gesture_def)

definition quiet_log :: "'d ptt \<Rightarrow> 'd ptt \<Rightarrow> bool" where
  "quiet_log s t \<longleftrightarrow> pt_timers t = pt_timers s \<and> pt_log t = pt_log s"

lemma wp_ClearGestureContext [wp_simps]:
  "wp ClearGestureContext Q s = Q () (s\<lparr>pt_gestureUserId := INVALID_USER_ID, pt_gestureClient := None\<rparr>)"
  by (simp add: ClearGestureContext_def wp_simps)

lemma wp_suppress [wp_simps]: "wp suppress Q s = Q () (s\<lparr>pt_controller := SuppressUntilSpaceUp (pt_controller s)\<rparr>)"
  by (simp add: suppress_def wp_simps)

lemma fail_gesture_unbound: "wp (fail_gesture P u) (\<lambda>_ t. unbound t \<and> quiet_log s t) s"
  by (simp add: fail_gesture_def NotifyGestureCancelled_def wp_simps unbound_def quiet_log_def in_gesture_def
      SuppressUntilSpaceUp_def)

lemma fail_gesture_inv:
  assumes "pt_timers s = []" "voices (pt_log s) = Some None"
  shows "wp (fail_gesture P u) (\<lambda>_. gesture_inv) s"
  by (rule wp_conseq [OF fail_gesture_unbound]) (use assms in \<open>auto intro: unbound_inv simp: quiet_log_def\<close>)

lemma ScheduleLongPressTimer_inv:
  assumes "pt_controller s = PTT_PENDING" "pt_gestureUserId s \<noteq> INVALID_USER_ID" "pt_gestureClient s \<noteq> None"
    and "pt_timers s = []" "voices (pt_log s) = Some None"
  shows "wp (ScheduleLongPressTimer P) (\<lambda>_. gesture_inv) s"
  unfolding ScheduleLongPressTimer_def HandleTimerStartFailure_def
  using assms by (simp add: wp_simps fail_gesture_inv) (simp add: gesture_inv_def in_gesture_def)

lemma start_for_inv:
  assumes "pt_controller s = PTT_PENDING" "u \<noteq> INVALID_USER_ID" "pt_timers s = []" "voices (pt_log s) = Some None"
  shows "wp (start_for P u) (\<lambda>_. gesture_inv) s"
  unfolding start_for_def BindGestureContext_def
  using assms by (auto simp: wp_simps split: option.split intro!: fail_gesture_inv ScheduleLongPressTimer_inv)

lemma HandleStartTimer_inv:
  assumes "pt_controller s = PTT_PENDING" "pt_timers s = []" "voices (pt_log s) = Some None"
  shows "wp (HandleStartTimer P u) (\<lambda>_. gesture_inv) s"
  unfolding HandleStartTimer_def using assms
  by (auto simp: wp_simps SuppressUntilSpaceUp_def unbound_def in_gesture_def intro!: start_for_inv unbound_inv)

lemma EnableSpaceKeyEventBlock_inv:
  assumes "pt_controller s = PTT_ACTIVE" "pt_gestureUserId s \<noteq> INVALID_USER_ID" "pt_gestureClient s \<noteq> None"
    "pt_timers s = []" "voices (pt_log s) = Some None"
  shows "wp (EnableSpaceKeyEventBlock P u) (\<lambda>b t. if b then gesture t = gesture s else gesture_inv t) s"
  unfolding EnableSpaceKeyEventBlock_def using assms
  by (auto simp: wp_simps gesture_def split: option.split intro!: wp_conseq [OF fail_gesture_inv])

lemma start_voice_inv:
  assumes "pt_controller s = PTT_ACTIVE" "pt_gestureUserId s \<noteq> INVALID_USER_ID" "pt_gestureClient s \<noteq> None"
    "pt_timers s = []" "voices (pt_log s) = Some None" "u = pt_gestureUserId s"
  shows "wp (start_voice P u) (\<lambda>_. gesture_inv) s"
  unfolding start_voice_def NotifyRollbackSpace_ptt_def using assms
  by (auto simp: wp_simps gesture_inv_def in_gesture_def intro!: fail_gesture_inv)

lemma HandleStartVoice_inv:
  assumes "pt_controller s = PTT_ACTIVE" "pt_gestureUserId s \<noteq> INVALID_USER_ID" "pt_gestureClient s \<noteq> None"
    "pt_timers s = []" "voices (pt_log s) = Some None"
  shows "wp (HandleStartVoice P) (\<lambda>_. gesture_inv) s"
  unfolding HandleStartVoice_def IsGestureContextValid_def using assms
  by (auto simp: wp_simps split: option.split if_splits intro!: fail_gesture_inv wp_conseq [OF EnableSpaceKeyEventBlock_inv])
    (auto simp: gesture_def intro!: start_voice_inv)

lemma HandleStopVoice_inv:
  assumes "\<not> in_gesture s" "pt_gestureUserId s \<noteq> INVALID_USER_ID" "pt_timers s = []"
    "voices (pt_log s) = Some (Some (pt_gestureUserId s))"
  shows "wp (HandleStopVoice P) (\<lambda>_. gesture_inv) s"
  unfolding HandleStopVoice_def RestoreCurrentIme_def using assms
  by (auto simp: wp_simps in_gesture_def unbound_def intro!: unbound_inv)

text \<open>What the controller has just decided, and the state the decision leaves to the action.\<close>

lemma ApplyAction_inv:
  assumes "gesture_inv s" and "pt_timers s = [] \<or> sa_serviceHandler (pt_sa s)"
    and "HandleKeyEvent K i (pt_controller s) = (a, st)"
  shows "wp (ApplyAction P a u) (\<lambda>_. gesture_inv) (s\<lparr>pt_keyTasks := ts, pt_controller := st\<rparr>)"
proof (cases a)
  case PTT_NONE
  then have "st = pt_controller s \<or> \<not> in_gesture s \<and> st \<in> {PTT_IDLE, PTT_SUPPRESSED}"
    using assms(3) by (auto simp: ptt_controller_defs Let_def in_gesture_def split: if_splits ptt_state.splits)
  then show ?thesis using PTT_NONE assms(1)
    by (auto simp: ApplyAction_def HandleNoAction_def wp_simps gesture_inv_def in_gesture_def)
next
  case START_TIMER
  then have "pt_controller s = PTT_IDLE \<and> st = PTT_PENDING"
    using assms(3) by (auto simp: ptt_controller_defs Let_def split: if_splits ptt_state.splits)
  then show ?thesis using START_TIMER assms(1)
    by (auto simp: ApplyAction_def gesture_inv_def intro!: HandleStartTimer_inv)
next
  case CANCEL_TIMER
  then have "pt_controller s = PTT_PENDING \<and> st \<in> {PTT_IDLE, PTT_SUPPRESSED}"
    using assms(3) by (auto simp: ptt_controller_defs Let_def split: if_splits ptt_state.splits)
  then show ?thesis using CANCEL_TIMER assms(1,2)
    by (auto simp: ApplyAction_def HandleCancelTimer_def wp_simps gesture_inv_def in_gesture_def)
next
  case START_VOICE
  then show ?thesis using assms(3) by (auto simp: ptt_controller_defs Let_def split: if_splits ptt_state.splits)
next
  case STOP_VOICE
  then have "pt_controller s = PTT_ACTIVE \<and> st \<in> {PTT_IDLE, PTT_SUPPRESSED}"
    using assms(3) by (auto simp: ptt_controller_defs Let_def split: if_splits ptt_state.splits)
  then show ?thesis using STOP_VOICE assms(1)
    by (auto simp: ApplyAction_def gesture_inv_def in_gesture_def intro!: HandleStopVoice_inv)
qed

lemma key_task_inv:
  assumes "gesture_inv s" "pt_timers s = [] \<or> sa_serviceHandler (pt_sa s)"
  shows "wp (key_task P) (\<lambda>_. gesture_inv) s"
proof (cases "pt_keyTasks s")
  case Nil
  then show ?thesis using assms(1) by (simp add: key_task_def wp_simps)
next
  case (Cons i rest)
  obtain a st where a: "HandleKeyEvent (px_keys P) i (pt_controller s) = (a, st)"
    by (cases "HandleKeyEvent (px_keys P) i (pt_controller s)")
  show ?thesis using ApplyAction_inv [OF assms a, of P INVALID_USER_ID rest]
    by (simp add: key_task_def ptt_control_def wp_simps Cons a)
qed

lemma timeout_task_inv:
  assumes "gesture_inv s"
  shows "wp (timeout_task P) (\<lambda>_. gesture_inv) s"
proof (cases "pt_timers s")
  case Nil
  then show ?thesis using assms by (simp add: timeout_task_def wp_simps)
next
  case (Cons u rest)
  with assms have g: "pt_controller s = PTT_PENDING" "u = pt_gestureUserId s" "rest = []" "pt_gestureUserId s \<noteq> INVALID_USER_ID"
    "pt_gestureClient s \<noteq> None" "voices (pt_log s) = Some None"
    by (auto simp: gesture_inv_def in_gesture_def)
  then show ?thesis using Cons
    by (auto simp: timeout_task_def ptt_control_def wp_simps HandleTimeout_def ApplyAction_def intro!: HandleStartVoice_inv)
qed

section \<open>The service's invariant\<close>

definition serviced :: "'d ptt \<Rightarrow> bool" where
  "serviced s \<longleftrightarrow> sa_inv (pt_sa s)"

lemma serviced_on_sa [pres_intros]: "keeps m \<Longrightarrow> preserves serviced (on_sa m)"
  by (simp add: preserves_def serviced_def)

lemma serviced_modify: "(\<And>s. pt_sa (f s) = pt_sa s) \<Longrightarrow> preserves serviced (modify f)"
  by (simp add: preserves_def serviced_def)

lemma keeps_ptt_queries [pres_intros]:
  "keeps (GetEligibleClient X u)" "keeps (IsGestureAvailable X u ch)"
  unfolding GetEligibleClient_def IsGestureAvailable_def PttSettings_IsEnabled_def by (intro pres_intros)+

lemma serviced_basic [pres_intros]:
  "preserves serviced (pt_emit ev)" "preserves serviced (pt_world f)" "preserves serviced suppress"
  "preserves serviced ClearGestureContext" "preserves serviced (ptt_control c)" "preserves serviced HandleCancelTimer"
  "preserves serviced HandleNoAction" "preserves serviced (SetKeyEventMonitorReady rdy)"
  "preserves serviced (HandleKeyEvent_ptt P i)" "preserves serviced (AddKeyEventMonitor n)" "preserves serviced drop_tasks"
  unfolding pt_emit_def pt_world_def suppress_def ClearGestureContext_def ptt_control_def HandleCancelTimer_def
    HandleNoAction_def SetKeyEventMonitorReady_def HandleKeyEvent_ptt_def AddKeyEventMonitor_def drop_tasks_def
  by (intro pres_intros serviced_modify; simp)+

lemma serviced_fail [pres_intros]:
  assumes "sa_env_ok (px_sa P)"
  shows "preserves serviced (fail_gesture P u)" "preserves serviced (NotifyRollbackSpace_ptt P u)"
  unfolding fail_gesture_def NotifyGestureCancelled_def NotifyRollbackSpace_ptt_def
  by (intro pres_intros inv_session_ops assms; simp)+

lemma serviced_start [pres_intros]:
  assumes "sa_env_ok (px_sa P)"
  shows "preserves serviced (ScheduleLongPressTimer P)" "preserves serviced (BindGestureContext P u)"
    "preserves serviced (IsGestureContextValid P u)" "preserves serviced (EnableSpaceKeyEventBlock P u)"
    "preserves serviced (RestoreCurrentIme P u)" "preserves serviced (start_voice P u)"
  unfolding ScheduleLongPressTimer_def HandleTimerStartFailure_def BindGestureContext_def IsGestureContextValid_def
    EnableSpaceKeyEventBlock_def RestoreCurrentIme_def start_voice_def
  by (intro pres_intros inv_session_ops serviced_modify assms; simp)+

lemma serviced_voice [pres_intros]:
  assumes "sa_env_ok (px_sa P)"
  shows "preserves serviced (start_for P u)" "preserves serviced (HandleStartVoice P)" "preserves serviced (HandleStopVoice P)"
  unfolding start_for_def HandleStartVoice_def HandleStopVoice_def
  by (intro pres_intros quiet_inv inv_session_ops serviced_modify assms; simp)+

lemma serviced_ApplyAction [pres_intros]: "sa_env_ok (px_sa P) \<Longrightarrow> preserves serviced (ApplyAction P a u)"
  by (cases a; simp only: ApplyAction_def HandleStartTimer_def ptt_action.case) (intro pres_intros; assumption)+

lemma keeps_dialog [pres_intros]: "keeps (GetPushToTalkDialogPopped D)" "keeps (SetPushToTalkDialogPopped D)"
  unfolding GetPushToTalkDialogPopped_def SetPushToTalkDialogPopped_def by (intro pres_intros)+

lemma serviced_tasks [pres_intros]:
  assumes "sa_env_ok (px_sa P)"
  shows "preserves serviced (key_task P)" "preserves serviced (timeout_task P)" "preserves serviced (key_input P n e)"
    "preserves serviced (IsPttGestureAvailable P C ch)" "preserves serviced (StartDialogAbility P u)"
  unfolding key_task_def timeout_task_def key_input_def IsPttGestureAvailable_def StartDialogAbility_def
    dialog_popped_def ConnectPushToTalkDialog_def
  by (intro pres_intros serviced_modify assms; simp)+

lemma serviced_add_monitor [pres_intros]: "preserves serviced (add_monitor P ns)"
  by (induction ns) (auto intro!: pres_intros)

lemma serviced_service_event [pres_intros]:
  "sa_env_ok (px_sa P) \<Longrightarrow> preserves serviced (on_service_event P ev)"
  unfolding on_service_event_def InitKeyEventMonitor_def by (intro pres_intros keeps_event; assumption)

lemma serviced_step: "sa_env_ok (px_sa P) \<Longrightarrow> preserves serviced (on_stimulus P x)"
  by (cases x; simp add: on_stimulus_def)
    (intro pres_intros keeps_call serviced_on_sa; assumption | simp add: preserves_def serviced_def sa_inv_def)+

section \<open>All steps\<close>

lemma gesture_inv_step:
  assumes "ptt_inv s"
  shows "gesture_inv (snd (run_state (on_stimulus P x) s))"
proof (cases x)
  case KeyTaskRuns
  then show ?thesis using key_task_inv [of s P] assms by (simp add: on_stimulus_def ptt_inv_def wp_run)
next
  case TimerFires
  then show ?thesis using timeout_task_inv [of s P] assms by (simp add: on_stimulus_def ptt_inv_def wp_run)
next
  case (WorldChanges w)
  then show ?thesis using assms by (simp add: on_stimulus_def ptt_inv_def)
qed (use assms in \<open>auto simp: on_stimulus_def ptt_inv_def intro!: aside_inv aside_basic aside_ops1 aside_service_event frames_void\<close>)

lemma gesture_inv_drop: "gesture_inv s \<Longrightarrow> gesture_inv (s\<lparr>pt_keyTasks := [], pt_timers := []\<rparr>)"
  by (auto simp: gesture_inv_def in_gesture_def)

lemma ptt_inv_step:
  assumes "sa_env_ok (px_sa P)" "ptt_inv s"
  shows "ptt_inv (snd (run_state (react P x) s))"
proof -
  let ?t = "snd (run_state (on_stimulus P x) s)"
  have "gesture_inv ?t" "sa_inv (pt_sa ?t)"
    using gesture_inv_step [OF assms(2)] preserves_run [OF serviced_step [OF assms(1), of x], of s] assms(2)
    by (simp_all add: serviced_def ptt_inv_def)
  then show ?thesis using gesture_inv_drop [of ?t]
    by (simp add: react_def drop_tasks_def ptt_inv_def case_prod_beta)
qed

interpretation push_to_talk: safe_system ptt_start "ptt_step P" "\<lambda>s. sa_env_ok (px_sa P) \<longrightarrow> ptt_inv s"
proof (unfold_locales, goal_cases)
  case (1 s)
  then show ?case
    by (simp add: ptt_start_def ptt_inv_def gesture_inv_def in_gesture_def sa_start_def sa_inv_def sessions_ok_def listeners_ok_def)
next
  case (2 s t)
  then show ?case by (metis ptt_step_cases ptt_inv_step snd_conv)
qed

text \<open>C13. Push-to-talk and the service, through any sequence of requests, system events, key events, expiring timers and
  tasks: a gesture has a user and a client exactly while it is pending or active; at most one long-press timer runs,
  only for a gesture that is pending, and for its user; voice input is started and stopped alternately and is
  stopped for the user it was started for, being on exactly while the gesture is active (so an input method that a
  gesture replaced is restored for the right user when the gesture ends); and every session and the listeners keep
  their invariant.\<close>

theorem push_to_talk_safe:
  assumes "sa_env_ok (px_sa P)" "ptt_reachable P s"
  shows "(pt_gestureUserId s \<noteq> INVALID_USER_ID \<longleftrightarrow> pt_controller s \<in> {PTT_PENDING, PTT_ACTIVE})
    \<and> (pt_gestureClient s \<noteq> None \<longleftrightarrow> pt_controller s \<in> {PTT_PENDING, PTT_ACTIVE})
    \<and> (pt_timers s = [] \<or> pt_controller s = PTT_PENDING \<and> pt_timers s = [pt_gestureUserId s])
    \<and> voices (pt_log s) = Some (if pt_controller s = PTT_ACTIVE then Some (pt_gestureUserId s) else None)
    \<and> sa_inv (pt_sa s)"
  using push_to_talk.inv_reaches [of P s] assms
  by (auto simp: ptt_reachable_def ptt_inv_def gesture_inv_def in_gesture_def)

section \<open>When voice input starts\<close>

lemma GetEligibleClient_Some:
  assumes "fst (run_state (GetEligibleClient X u) s) = Some c"
  shows "\<exists>ss. GetUserSession u s = Some ss \<and> GetFocusedRealImeClient ss = Some c \<and> \<not> fs_isSecurityIme c \<and>
    \<not> fs_isOneTimeCode c \<and> 0 \<le> u"
  using assms
  by (auto simp: GetEligibleClient_def PttSettings_IsEnabled_def case_prod_beta split: option.splits if_splits)

definition started :: "'d ptt \<Rightarrow> int list" where
  "started s = starts (pt_log s)"

lemma aside_started: "aside m \<Longrightarrow> frames started m"
  by (simp add: frames_def gesture_def started_def)

lemma started_modify: "(\<And>s. pt_log (f s) = pt_log s) \<Longrightarrow> frames started (modify f)"
  by (rule frames_modify) (simp add: started_def)

lemmas started_aside [frame_intros] = aside_basic [THEN aside_started] aside_ops1 [THEN aside_started]
  aside_service_event [THEN aside_started]

lemma started_basic [frame_intros]:
  "frames started suppress" "frames started ClearGestureContext" "frames started (ptt_control c)" "frames started HandleCancelTimer"
  "frames started HandleNoAction" "frames started drop_tasks" "frames started (pt_emit (VoiceStopped u r))"
  unfolding suppress_def ClearGestureContext_def ptt_control_def HandleCancelTimer_def HandleNoAction_def drop_tasks_def pt_emit_def
  by (intro frame_intros frames_modify; simp add: started_def)+

lemma started_gesture [frame_intros]:
  "frames started (fail_gesture P u)" "frames started (BindGestureContext P u)" "frames started (IsGestureContextValid P u)"
  "frames started (HandleStopVoice P)"
  unfolding fail_gesture_def NotifyGestureCancelled_def BindGestureContext_def IsGestureContextValid_def HandleStopVoice_def
    RestoreCurrentIme_def
  by (intro frame_intros started_modify; simp)+

lemma started_timer [frame_intros]: "frames started (EnableSpaceKeyEventBlock P u)" "frames started (HandleStartTimer P u)"
  unfolding EnableSpaceKeyEventBlock_def HandleStartTimer_def start_for_def ScheduleLongPressTimer_def HandleTimerStartFailure_def
  by (intro frame_intros started_modify; simp)+

lemma started_ApplyAction: "a \<noteq> START_VOICE \<Longrightarrow> frames started (ApplyAction P a u)"
  by (cases a; simp only: ApplyAction_def ptt_action.case) (intro frame_intros | simp)+

lemma key_never_starts: "fst (HandleKeyEvent K i st) \<noteq> START_VOICE"
  by (simp add: ptt_controller_defs Let_def split: ptt_state.split)

lemma started_key_task: "frames started (key_task P)"
proof -
  have act: "frames started (ptt_control (HandleKeyEvent K i) \<bind> (\<lambda>a. ApplyAction P a u))" for K i u
    by (simp add: frames_def ptt_control_def case_prod_beta started_ApplyAction [OF key_never_starts, THEN frames_run])
      (simp add: started_def)
  have "frames started (modify (\<lambda>s. s\<lparr>pt_keyTasks := ts\<rparr>) \<bind> (\<lambda>_. ptt_control (HandleKeyEvent K i) \<bind> (\<lambda>a. ApplyAction P a u)))"
    for ts K i u
    by (rule frames_bind [OF started_modify]) (simp_all add: act)
  then show ?thesis unfolding key_task_def by (intro frames_bind frames_gets) (simp split: list.split)
qed

lemma started_elsewhere: "x \<noteq> TimerFires \<Longrightarrow> frames started (on_stimulus P x)"
  by (cases x; simp only: on_stimulus_def ptt_stimulus.case)
    (intro frame_intros started_key_task started_modify | simp)+

text \<open>The conditions under which voice input may start for \<open>u\<close>: of the gesture, and of the moment.\<close>

definition may_start_voice :: "'d ptt_env \<Rightarrow> int \<Rightarrow> 'd ptt \<Rightarrow> bool" where
  "may_start_voice P u s \<longleftrightarrow> pt_controller s = PTT_PENDING \<and> u = pt_gestureUserId s \<and>
     IsOsAccountForeground (sx_accounts (px_sa P)) (sd_world (pt_sa s)) u \<and>
     (case (pt_gestureClient s, GetUserSession u (pt_sa s)) of (Some g, Some ss) \<Rightarrow>
        (case GetFocusedRealImeClient ss of None \<Rightarrow> False
         | Some c \<Rightarrow> IsSameInputClient g c \<and> \<not> fs_isSecurityIme c \<and> \<not> fs_isOneTimeCode c)
      | _ \<Rightarrow> False)"

lemma started_fields [simp]:
  "started (s\<lparr>pt_sa := a\<rparr>) = started s" "started (s\<lparr>pt_controller := c\<rparr>) = started s" "started (s\<lparr>pt_timers := ts\<rparr>) = started s"
  "started (s\<lparr>pt_gestureUserId := u, pt_gestureClient := g\<rparr>) = started s" "started (s\<lparr>pt_log := VoiceStarted u # l\<rparr>) = u # starts l"
  by (simp_all add: started_def)

lemma wp_frame: "frames g m \<Longrightarrow> g s = v \<Longrightarrow> wp m (\<lambda>_ t. g t = v) s"
  by (simp add: wp_run frames_run)

lemma start_voice_started: "started s = v \<Longrightarrow> wp (start_voice P u) (\<lambda>_ t. started t = v \<or> started t = u # v) s"
  unfolding start_voice_def NotifyRollbackSpace_ptt_def
  by (auto simp: wp_simps started_def [of s] intro!: wp_conseq [OF wp_frame [OF started_gesture(1)]])

text \<open>Past the checks of \<open>HandleStartVoice\<close>; when one fails nothing is started.\<close>

definition voice_checks :: "'d ptt_env \<Rightarrow> 'd ptt \<Rightarrow> bool" where
  "voice_checks P s \<longleftrightarrow> IsOsAccountForeground (sx_accounts (px_sa P)) (sd_world (pt_sa s)) (pt_gestureUserId s) \<and>
     (\<exists>g c. pt_gestureClient s = Some g \<and> IsSameInputClient g c \<and>
       fst (run_state (GetEligibleClient (px_sa P) (pt_gestureUserId s)) (pt_sa s)) = Some c)"

lemma HandleStartVoice_unchecked:
  assumes "\<not> voice_checks P s" "started s = v"
  shows "wp (HandleStartVoice P) (\<lambda>_ t. started t = v) s"
  unfolding HandleStartVoice_def IsGestureContextValid_def using assms
  by (auto simp: wp_simps voice_checks_def split: option.split intro!: wp_frame [OF started_gesture(1)])

lemma HandleStartVoice_started:
  "wp (HandleStartVoice P) (\<lambda>_ t. started t = started s \<or> started t = pt_gestureUserId s # started s) s"
proof -
  have fail: "started t = started s \<Longrightarrow>
      wp (fail_gesture P u) (\<lambda>_ t. started t = started s \<or> started t = pt_gestureUserId s # started s) t" for u t
    by (rule wp_conseq [OF wp_frame [OF started_gesture(1)]]) auto
  show ?thesis unfolding HandleStartVoice_def IsGestureContextValid_def
    by (auto simp: wp_simps split: option.split
        intro!: fail wp_conseq [OF wp_frame [OF started_timer(1)]] start_voice_started)
qed

lemma HandleStartVoice_guard:
  assumes "started (snd (run_state (HandleStartVoice P) s)) \<noteq> started s"
  shows "started (snd (run_state (HandleStartVoice P) s)) = pt_gestureUserId s # started s \<and> voice_checks P s"
  using assms HandleStartVoice_unchecked [of P s "started s"] HandleStartVoice_started [of P s] by (auto simp: wp_run)

lemma voice_checks_may:
  assumes "voice_checks P s" "pt_controller s = PTT_PENDING"
  shows "may_start_voice P (pt_gestureUserId s) s"
  using assms GetEligibleClient_Some [of "px_sa P" "pt_gestureUserId s" "pt_sa s"]
  by (fastforce simp: voice_checks_def may_start_voice_def)

lemma timeout_task_guard:
  assumes "started (snd (run_state (timeout_task P) s)) \<noteq> started s"
  shows "\<exists>u. started (snd (run_state (timeout_task P) s)) = u # started s \<and> may_start_voice P u s \<and> pt_timers s \<noteq> []"
proof -
  obtain u rest where ts: "pt_timers s = u # rest" "u = pt_gestureUserId s"
    using assms by (cases "pt_timers s") (auto simp: timeout_task_def split: if_splits)
  let ?s = "s\<lparr>pt_timers := rest, pt_controller := PTT_ACTIVE\<rparr>"
  have p: "pt_controller s = PTT_PENDING"
    using assms ts by (auto simp: timeout_task_def ptt_control_def HandleTimeout_def ApplyAction_def
        frames_run [OF started_basic(5)] split: if_splits)
  have run: "snd (run_state (timeout_task P) s) = snd (run_state (HandleStartVoice P) ?s)"
    using ts p by (simp add: timeout_task_def ptt_control_def HandleTimeout_def ApplyAction_def)
  have "started ?s = started s" by (simp add: started_def)
  with HandleStartVoice_guard [of P ?s] assms run
  have "started (snd (run_state (HandleStartVoice P) ?s)) = u # started s \<and> voice_checks P ?s" using ts by simp
  then show ?thesis using voice_checks_may [of P s] p ts run by (auto simp: voice_checks_def)
qed

text \<open>C14. The push-to-talk manager starts voice input only when the long-press timer of a pending gesture fires, and at
  most once then; the gesture's user is in the foreground at that moment, the input client that has the focus of a
  real input method in that user's session is the one the gesture began in (same client, channel, group, window and
  display), and its edit box is neither a password field nor a field for a one-time code. No request, no other
  event and no key by itself ever makes the manager start it. This is about the manager's own starts, which \<open>starts\<close>
  collects: a request \<open>StartInputType\<close> for the push-to-talk type reaches the service past the manager and is not
  subject to its checks.\<close>

theorem voice_start_guarded:
  assumes "run_state (react P x) s = ((), t)" "starts (pt_log t) \<noteq> starts (pt_log s)"
  shows "x = TimerFires \<and> pt_timers s \<noteq> [] \<and> may_start_voice P (pt_gestureUserId s) s \<and>
    starts (pt_log t) = pt_gestureUserId s # starts (pt_log s)"
proof -
  let ?t = "snd (run_state (on_stimulus P x) s)"
  have t: "starts (pt_log t) = started ?t"
    using assms(1) frames_run [OF started_basic(6), of ?t] by (auto simp: react_def case_prod_beta started_def)
  have x: "x = TimerFires" using assms(2) t frames_run [OF started_elsewhere, of x P s] by (auto simp: started_def)
  then show ?thesis using timeout_task_guard [of P s] t assms(2)
    by (auto simp: on_stimulus_def started_def [of s] may_start_voice_def)
qed

end
