(* ===== verification/Sa_Ptt_Example.thy ===== *)
theory Sa_Ptt_Example
  imports Sa_Ptt_Correct Sa_Example
begin

text \<open>
  A gesture on the device of the service's example: the user 100 edits a text, the switch of push-to-talk is on, and
  the input method \<open>sys\<close> serves it.
\<close>

definition talk_sa :: "db sa_env" where
  "talk_sa = sa_env0\<lparr>nv_types := Some [\<lparr>iti_type = PUSH_TO_TALK_INPUT, iti_bundleName = ''sys'', iti_subName = ''''\<rparr>]\<rparr>"

definition talk_env :: "db ptt_env" where
  "talk_env = \<lparr>px_sa = talk_sa, px_keys = codes0, px_foreground = (\<lambda>_. Some 100), px_posts = (\<lambda>_. True),
     px_block = (\<lambda>_ _. NO_ERROR), px_monitorId = (\<lambda>_ n. if n = 1 then - 1 else 0), px_marshal = (\<lambda>_. True),
     px_connection = (\<lambda>_. True), px_longPressMs = 500, px_dialogBundleName = ''dialog'', px_dialogAbilityName = ''Ability''\<rparr>"

definition talk0 :: "db sa \<Rightarrow> db ptt" where
  "talk0 s = \<lparr>pt_sa = s, pt_controller = PTT_IDLE, pt_isKeyEventMonitorReady = False, pt_gestureUserId = INVALID_USER_ID,
     pt_gestureClient = None, pt_keyTasks = [], pt_timers = [], pt_callbacks = [], pt_keyState = 0, pt_isKeyHandled = False,
     pt_dialogPopped = None, pt_log = []\<rparr>"

definition reacts :: "db ptt_stimulus list \<Rightarrow> db ptt \<Rightarrow> db ptt" where
  "reacts xs s = fold (\<lambda>x s. snd (run_state (react talk_env x) s)) xs s"

definition space :: "int \<Rightarrow> int list \<Rightarrow> mmi_key_event option" where
  "space a ks = Some \<lparr>kv_keyCode = 2050, kv_keyAction = a, kv_pressedKeys = ks\<rparr>"

text \<open>The service starts, finds the keyboard at the second attempt, and the space bar is held; nobody edits a text.\<close>

definition idle_press :: "db ptt_stimulus list" where
  "idle_press = [SaEvent ServiceStarts, SaEvent KeyMonitorReady, KeyInput 0 (space 2 [2050]), KeyTaskRuns]"

text \<open>The space bar is held in the edit box of a client, until the timer has fired.\<close>

definition talk1 :: "db ptt" where
  "talk1 = (talk0 (sa1\<lparr>sa_sessions := [(100, attached0)],
     sd_world := [(GenerateTargetUri SETTING_URI_PROXY ''settings.keyboard.push_talk_switch'', ''true'')]\<rparr>))\<lparr>pt_callbacks := [ROUTE_IDLE]\<rparr>"

definition held :: "db ptt" where
  "held = reacts [KeyInput 0 (space 2 [2050]), KeyTaskRuns] talk1"

lemma reacts_reachable: "ptt_reachable talk_env s \<Longrightarrow> ptt_reachable talk_env (reacts xs s)"
proof (induction xs arbitrary: s)
  case (Cons x xs)
  have "ptt_step talk_env s (snd (run_state (react talk_env x) s))"
    by (rule ptt_step.step) (simp add: prod_eq_iff)
  with Cons show ?case by (auto simp: reacts_def ptt_reachable_def intro: reaches.more)
qed (simp add: reacts_def)

lemma talk_env_ok: "sa_env_ok (px_sa talk_env)"
  using sa_env0_ok by (simp add: talk_env_def talk_sa_def sa_env_ok_def)

lemma talk0_start: "ptt_reachable talk_env (talk0 sa0)"
  using sa0_start by (auto simp: ptt_reachable_def ptt_start_def talk0_def intro: reaches.start)

theorem push_to_talk_safe_witness:
  "voices (pt_log (reacts idle_press (talk0 sa0))) =
     Some (if pt_controller (reacts idle_press (talk0 sa0)) = PTT_ACTIVE
       then Some (pt_gestureUserId (reacts idle_press (talk0 sa0))) else None)
   \<and> sa_inv (pt_sa (reacts idle_press (talk0 sa0)))"
  using push_to_talk_safe [OF talk_env_ok reacts_reachable [OF talk0_start]] by blast

lemma held_run:
  "held = snd (run_state (do { key_input talk_env 0 (space 2 [2050]); drop_tasks; key_task talk_env; drop_tasks }) talk1)"
  by (simp add: held_def reacts_def react_def on_stimulus_def case_prod_beta)

lemma held_eval:
  "(\<lambda>s. (starts (pt_log s), starts (pt_log (snd (run_state (do { timeout_task talk_env; drop_tasks }) s))))) held = ([], [100])"
  unfolding held_run by code_simp

lemma held_starts: "starts (pt_log held) = []" "starts (pt_log (snd (run_state (react talk_env TimerFires) held))) = [100]"
  using held_eval by (simp_all add: react_def on_stimulus_def)

theorem voice_start_guarded_witness:
  "may_start_voice talk_env (pt_gestureUserId held) held \<and>
   starts (pt_log (snd (run_state (react talk_env TimerFires) held))) = [pt_gestureUserId held]"
proof -
  have "starts (pt_log (snd (run_state (react talk_env TimerFires) held))) \<noteq> starts (pt_log held)"
    by (simp add: held_starts)
  from voice_start_guarded [of talk_env TimerFires, OF _ this] show ?thesis by (auto simp: held_starts prod_eq_iff)
qed

end
