(* ===== verification/Numkey_Apps.thy ===== *)
theory Numkey_Apps
  imports Settings_Data
begin

text \<open>
  Which applications have the number keys typed for them (\<open>numkey_apps_manager.cpp\<close>): the user's block list, read
  from the settings and followed by an observer, the developer's configuration, and the device types the system
  excludes.
\<close>

section \<open>Environment and state\<close>

text \<open>
  \<open>nx_devConfig\<close> is \<open>None\<close> without \<open>COMPATIBILITY_CONFIG_CENTER_ENABLE\<close>, else the library of the configuration
  center: it can be loaded, the code of \<open>Init\<close>, and what \<open>GetConfig\<close> gives for an application (\<open>None\<close>: it fails; the
  values by key). \<open>nx_deviceType\<close> is the bundle manager's \<open>GetCompatibleDeviceType\<close> (\<open>None\<close>: no manager).
\<close>

record config_center =
  cc_load :: bool
  cc_init :: int
  cc_config :: "string \<Rightarrow> (string \<times> string) list option"

record 'd numkey_env =
  nx_ds :: "'d data_share"
  nx_cj :: cjson
  nx_enableNumKey :: bool
  nx_disableDeviceTypes :: "string list"
  nx_devConfig :: "config_center option"
  nx_deviceType :: "'d \<Rightarrow> string \<Rightarrow> (int \<times> string) option"

record 'd numkey = "'d settings" +
  nk_isFeatureEnabled :: bool
  nk_disableDeviceTypes :: "string list"
  nk_compConfigInited :: bool
  nk_usersBlockList :: "(int \<times> string list) list"
  nk_observers :: "(int \<times> observer) list"

type_synonym ('d, 'x, 'a) numkey_op = "(('d, 'x) numkey_scheme, 'a) state"

section \<open>Configuration\<close>

text \<open>
  The applications with \<open>BLOCK_MODE\<close>. \<open>GetKeys\<close> walks over the children of any node; those of an array have no
  name, and making a string of it is undefined, so the model speaks of objects and of values without children.
\<close>

definition UserBlockListCfg_Unmarshal :: "cjson \<Rightarrow> json \<Rightarrow> string list \<Rightarrow> bool \<times> string list" where
  "UserBlockListCfg_Unmarshal cj node apps = (case node of
     JObject ms \<Rightarrow> (True, snd (GetKeys_int cj ms apps (\<lambda>mode. mode = 8)))
   | _ \<Rightarrow> (True, apps))"

text \<open>\<open>(autoConsumeNumKeysAndInsert, hasAutoConsumeNumKeysAndInsert)\<close>\<close>

definition NumKeyOptions_Unmarshal :: "cjson \<Rightarrow> json \<Rightarrow> bool \<times> bool \<Rightarrow> bool \<times> bool \<times> bool" where
  "NumKeyOptions_Unmarshal cj node x =
     (let (has, v) = GetValue_bool cj node ''autoConsumeNumKeysAndInsert'' (fst x) in (True, v, has))"

datatype dev_config_state = NO_CONFIG | DEV_DISABLED | DEV_ENABLED

abbreviation COMP_CONFIG_KEY_NUM_KEY :: string where "COMP_CONFIG_KEY_NUM_KEY \<equiv> ''numKeyOptions''"

definition InitCompConfigReader :: "config_center \<Rightarrow> ('d, 'x, int) numkey_op" where
  "InitCompConfigReader cc = do {
     inited \<leftarrow> gets nk_compConfigInited;
     if inited then ret NO_ERROR
     else if \<not> cc_load cc then ret ERROR_PARSE_CONFIG_FILE
     else if cc_init cc \<noteq> 0 then ret ERROR_PARSE_CONFIG_FILE
     else do { modify (\<lambda>s. s\<lparr>nk_compConfigInited := True\<rparr>); ret NO_ERROR } }"

definition QueryDevCompConfig :: "cjson \<Rightarrow> config_center \<Rightarrow> string \<Rightarrow> ('d, 'x) numkey_scheme \<Rightarrow> dev_config_state" where
  "QueryDevCompConfig cj cc bundleName s =
     (if \<not> nk_compConfigInited s then NO_CONFIG
      else case cc_config cc bundleName of None \<Rightarrow> NO_CONFIG
        | Some valMap \<Rightarrow> (case map_of valMap COMP_CONFIG_KEY_NUM_KEY of None \<Rightarrow> NO_CONFIG
          | Some v \<Rightarrow> (case Unmarshall cj (NumKeyOptions_Unmarshal cj) v (False, False) of (ok, auto, has) \<Rightarrow>
              if \<not> ok then NO_CONFIG else if \<not> has then NO_CONFIG
              else if auto then DEV_ENABLED else DEV_DISABLED)))"

section \<open>The block lists\<close>

abbreviation COMPATIBLE_SETTING_STRATEGY :: string where "COMPATIBLE_SETTING_STRATEGY \<equiv> ''COMPATIBLE_SETTING_STRATEGY''"

definition ParseBlockList :: "'d data_share \<Rightarrow> cjson \<Rightarrow> int \<Rightarrow> ('d, 'x, int \<times> string list) settings_op" where
  "ParseBlockList D cj userId = do {
     (r, valueStr) \<leftarrow> GetStringValue D (user_uri userId) COMPATIBLE_SETTING_STRATEGY '''';
     if r \<noteq> NO_ERROR \<and> r \<noteq> ERROR_KEYWORD_NOT_FOUND then ret (r, [])
     else if r = ERROR_KEYWORD_NOT_FOUND then ret (NO_ERROR, [])
     else if valueStr = '''' then ret (NO_ERROR, [])
     else (case Unmarshall cj (UserBlockListCfg_Unmarshal cj) valueStr [] of (ok, apps) \<Rightarrow>
       if \<not> ok then ret (ERROR_PARSE_CONFIG_FILE, []) else ret (NO_ERROR, apps)) }"

definition UpdateUserBlockList :: "'d numkey_env \<Rightarrow> int \<Rightarrow> ('d, 'x, int) numkey_op" where
  "UpdateUserBlockList N userId = do {
     (r, blockList) \<leftarrow> ParseBlockList (nx_ds N) (nx_cj N) userId;
     if r \<noteq> NO_ERROR then ret r
     else do {
       modify (\<lambda>s. s\<lparr>nk_usersBlockList := AList.update userId blockList (nk_usersBlockList s)\<rparr>);
       ret NO_ERROR } }"

definition RegisterUserBlockListData :: "'d numkey_env \<Rightarrow> int \<Rightarrow> ('d, 'x, int) numkey_op" where
  "RegisterUserBlockListData N userId = do {
     known \<leftarrow> gets (\<lambda>s. map_of (nk_observers s) userId \<noteq> None);
     if known then ret NO_ERROR
     else do {
       (r, ob) \<leftarrow> RegisterObserver (nx_ds N) (user_uri userId) COMPATIBLE_SETTING_STRATEGY;
       if r \<noteq> NO_ERROR then ret r
       else do {
         modify (\<lambda>s. s\<lparr>nk_observers := AList.update userId ob (nk_observers s)\<rparr>);
         ret NO_ERROR } } }"

text \<open>What the observer of a user does when the setting changes.\<close>

definition OnBlockListChanged :: "'d numkey_env \<Rightarrow> nat \<Rightarrow> ('d, 'x, unit) numkey_op" where
  "OnBlockListChanged N n = do {
     obs \<leftarrow> gets nk_observers;
     (case List.find (\<lambda>(u, ob). ob_id ob = n) obs of None \<Rightarrow> ret ()
      | Some (u, _) \<Rightarrow> void (UpdateUserBlockList N u)) }"

definition IsInNumkeyBlockList :: "int \<Rightarrow> string \<Rightarrow> ('d, 'x) numkey_scheme \<Rightarrow> bool" where
  "IsInNumkeyBlockList userId bundleName s = (case map_of (nk_usersBlockList s) userId of None \<Rightarrow> False
     | Some blockList \<Rightarrow> bundleName \<in> set blockList)"

section \<open>Life cycle\<close>

definition Init_numkey :: "'d numkey_env \<Rightarrow> int \<Rightarrow> ('d, 'x, int) numkey_op" where
  "Init_numkey N userId = do {
     modify (\<lambda>s. s\<lparr>nk_isFeatureEnabled := nx_enableNumKey N, nk_disableDeviceTypes := nx_disableDeviceTypes N\<rparr>);
     if \<not> nx_enableNumKey N then ret NO_ERROR
     else do {
       (case nx_devConfig N of None \<Rightarrow> ret NO_ERROR | Some cc \<Rightarrow> InitCompConfigReader cc);
       RegisterUserBlockListData N userId;
       UpdateUserBlockList N userId } }"

definition OnUserSwitched_numkey :: "'d numkey_env \<Rightarrow> int \<Rightarrow> ('d, 'x, int) numkey_op" where
  "OnUserSwitched_numkey N userId = do {
     on \<leftarrow> gets nk_isFeatureEnabled;
     if \<not> on then ret NO_ERROR
     else do { RegisterUserBlockListData N userId; UpdateUserBlockList N userId } }"

definition OnUserRemoved_numkey :: "'d numkey_env \<Rightarrow> int \<Rightarrow> ('d, 'x, int) numkey_op" where
  "OnUserRemoved_numkey N userId = do {
     on \<leftarrow> gets nk_isFeatureEnabled;
     if \<not> on then ret NO_ERROR
     else do {
       ob \<leftarrow> gets (\<lambda>s. map_of (nk_observers s) userId);
       (case ob of None \<Rightarrow> ret NO_ERROR
        | Some ob \<Rightarrow> do {
            r \<leftarrow> UnregisterObserver (nx_ds N) ob;
            modify (\<lambda>s. s\<lparr>nk_observers := AList.delete userId (nk_observers s)\<rparr>);
            ret r }) } }"

definition Release_numkey :: "'d numkey_env \<Rightarrow> ('d, 'x, unit) numkey_op" where
  "Release_numkey N = do {
     obs \<leftarrow> gets nk_observers;
     modify (\<lambda>s. s\<lparr>nk_observers := []\<rparr>);
     for_each obs (\<lambda>(u, ob). void (UnregisterObserver (nx_ds N) ob)) }"

section \<open>The decision\<close>

definition GetCompatibleDeviceType :: "'d numkey_env \<Rightarrow> 'd \<Rightarrow> string \<Rightarrow> string option" where
  "GetCompatibleDeviceType N w bundleName = (case nx_deviceType N w bundleName of None \<Rightarrow> None
     | Some (r, deviceType) \<Rightarrow> if r \<noteq> 0 \<or> deviceType = '''' then None else Some deviceType)"

definition NeedAutoNumKeyInput :: "'d numkey_env \<Rightarrow> int \<Rightarrow> string \<Rightarrow> ('d, 'x) numkey_scheme \<Rightarrow> bool" where
  "NeedAutoNumKeyInput N userId bundleName s =
     (if \<not> nk_isFeatureEnabled s then False
      else if IsInNumkeyBlockList userId bundleName s then False
      else (case (case nx_devConfig N of None \<Rightarrow> NO_CONFIG | Some cc \<Rightarrow> QueryDevCompConfig (nx_cj N) cc bundleName s) of
          DEV_ENABLED \<Rightarrow> True
        | DEV_DISABLED \<Rightarrow> False
        | NO_CONFIG \<Rightarrow>
            if nk_disableDeviceTypes s = [] then False
            else (case GetCompatibleDeviceType N (sd_world s) bundleName of None \<Rightarrow> False
              | Some t \<Rightarrow> map lower t \<notin> set (nk_disableDeviceTypes s))))"

text \<open>The block list of a user overrides everything else, and a removed user's list stays behind.\<close>

lemma blocked_never_typed: "IsInNumkeyBlockList u b s \<Longrightarrow> \<not> NeedAutoNumKeyInput N u b s"
  by (simp add: NeedAutoNumKeyInput_def)

lemma numkey_settings_ops:
  "frames (\<lambda>s :: ('d, 'x) numkey_scheme. nk_usersBlockList s) (UnregisterObserver D ob)"
  unfolding UnregisterObserver_def CreateDataShareHelper_def GetToken_def ReleaseDataShareHelper_def outside_def
  by (intro frame_intros frames_modify; simp)

lemma removed_user_stays_blocked:
  "nk_usersBlockList (snd (run_state (OnUserRemoved_numkey N u) s)) = nk_usersBlockList s"
proof -
  have "frames nk_usersBlockList (OnUserRemoved_numkey N u)" unfolding OnUserRemoved_numkey_def
    by (intro frame_intros frames_modify numkey_settings_ops; simp)
  then show ?thesis by (rule frames_run)
qed

end
