(* ===== verification/Spec2Isabelle.thy ===== *)
theory Spec2Isabelle
  imports Proxy_Correct Task_Correct Enabled_Restart Parcel_Correct Controller_Example Sa_Correct Sa_Ptt_Example Numkey_Apps
begin

text \<open>
  A verification development for the input method framework (\<open>inputmethod_imf\<close>).

  \<^bold>\<open>The program.\<close> The service connects applications that edit text (clients) with input method
  engines. Its front is the system ability (\<open>services/src/input_method_system_ability.cpp\<close>), which takes the
  requests of clients, of engines and of system applications, checks who calls, and reacts to users that come and
  go, packages, the screen, the window manager and keys. For every user there is a session
  (\<open>peruser_session.cpp\<close>). It keeps one group of clients per display group (\<open>client_group.cpp\<close>), each with a
  current and an inactive client; the data of the real input method process, of a mirror and of the proxies of each
  display; and a state manager per real input method that freezes and thaws its process around requests
  (\<open>ime_state_manager.cpp\<close>, \<open>freeze_manager.cpp\<close>, \<open>ime_lifecycle_manager.cpp\<close>). Beside the sessions stand the input
  methods for special types of input such as passwords (\<open>input_type_manager.cpp\<close>), the tables of enabled input
  methods and their upgrade (\<open>settings_data_provider\<close>), the cache of the installed ones
  (\<open>full_ime_info_manager.cpp\<close>), the inquirer (\<open>ime_info_inquirer.cpp\<close>), exam mode, the listeners, and the adapters
  to the window manager and to the accounts. The client library is \<open>input_method_controller.cpp\<close>; of the engine
  library the task manager is modelled.

  \<^bold>\<open>The theories.\<close>
  \<^item> \<open>Imf_Prelude\<close>: machine types, ordered association lists for \<open>std::map\<close>, the state monad with its
    weakest-precondition, preservation and frame rules, reachability and the interface \<open>safe_system\<close>.
  \<^item> \<open>Imf_Global\<close>: return codes, editor attributes, text configuration, the record of a client.
  \<^item> \<open>Client_Group\<close>: one group of clients; the interface \<open>client_registry\<close> states what the session relies on.
  \<^item> \<open>Ime_State_Manager\<close>: the two managers, and as a step relation the event handler's queue and the
    scheduler's view; the interface \<open>state_control\<close> is what both managers promise.
  \<^item> \<open>Input_Type_Manager\<close>: the special input types.
  \<^item> \<open>Session_Base\<close>, \<open>Session_Clients\<close>, \<open>Session_Lifecycle\<close>, \<open>Session_Proxy\<close>: the session's state and
    its functions, one definition per member function, in the order of their use: lookups and requests;
    attaching, detaching, focus, showing and hiding; starting, stopping, connecting and dying of the
    input method; proxies and the mirror.
  \<^item> \<open>Session_Groups\<close>, \<open>Session_Inv\<close>, \<open>Session_Machine\<close>: what each handler does to the client groups,
    as refinement of small functions on them; the invariant and its preservation by every handler; the
    session as a state machine over all requests, with the invariant on every reachable session.
  \<^item> \<open>Session_Examples\<close>: a concrete environment and sessions for the witnesses.
  \<^item> \<open>Client_Correct\<close>, \<open>Ime_Correct\<close>, \<open>Proxy_Correct\<close> and this theory: properties of the session, among them that a
    request to the input method implements an abstract contract of its use (\<open>use_after\<close>).
  \<^item> \<open>Json_Serializable\<close>, \<open>Settings_Data\<close>, \<open>Ime_Enabled_Info\<close>, \<open>Ime_Enabled_Manager\<close>: JSON values and the
    accessors of \<open>serializable.cpp\<close>, the settings database, the upgrade of the tables of enabled input methods, and
    their manager. \<open>Enabled_Inv\<close>, \<open>Enabled_Correct\<close>, \<open>Enabled_Restart\<close>: the invariant of the tables, what each
    operation does to them, and that the user's choice survives a restart if the database kept it. \<open>Settings_Example\<close>: a database and a JSON
    library that satisfy the hypotheses.
  \<^item> \<open>Imf_Parcel\<close>, \<open>Parcel_Correct\<close>: the structures that travel between processes, and their round trips.
  \<^item> \<open>Controller_Base\<close>, \<open>Controller_Ops\<close>, \<open>Controller_Text\<close>: the client library; \<open>Controller_Machine\<close>,
    \<open>Controller_Correct\<close>, \<open>Controller_Edit\<close>, \<open>Controller_Example\<close>: it as a state machine, its invariant and properties.
  \<^item> \<open>Task_Manager\<close>, \<open>Task_Correct\<close>: the engine's tasks and actions.
  \<^item> \<open>Window_Adapter\<close>, \<open>Identity_Checker\<close>, \<open>Ime_Event_Listeners\<close>, \<open>Exam_Mode\<close>, \<open>Full_Ime_Info\<close>,
    \<open>Ime_Info_Inquirer\<close>: the parts named above, each extending the state of the ones it works on.
  \<^item> \<open>Sa_Base\<close>, \<open>Sa_Switch\<close>, \<open>Sa_Requests\<close>, \<open>Sa_Queries\<close>, \<open>Sa_Events\<close>: the system ability: its state, users and
    callers; switching; the requests of clients; those of engines and the queries; the events of the system and the
    posted tasks.
  \<^item> \<open>Sa_Frame\<close>, \<open>Sa_Inv\<close>, \<open>Sa_Machine\<close>, \<open>Sa_Isolation\<close>: which operations leave which part of the state alone; the
    invariant of the service and that every operation keeps it; the service as a state machine; that a caller acts on
    its own user's session. \<open>Sa_Example\<close>, \<open>Sa_Correct\<close>: a concrete device, and the properties of the service.
  \<^item> \<open>Ptt_Keyboard\<close>, \<open>Sa_Ptt\<close>: push-to-talk: the keyboard monitor's filter (\<open>input_event_callback.cpp\<close>) with the
    gesture's state machine (\<open>ptt_controller.cpp\<close>), and the manager (\<open>push_to_talk_manager.cpp\<close>) that acts on the
    service through the operations of \<open>Sa_Base\<close> and \<open>Sa_Switch\<close>. \<open>Sa_Ptt_Correct\<close>, \<open>Sa_Ptt_Example\<close>: both together as
    a state machine, what is safe about a gesture, and a gesture played through.
  \<^item> \<open>Numkey_Apps\<close>: for which applications number keys are typed (\<open>numkey_apps_manager.cpp\<close>).

  \<^bold>\<open>State and effects.\<close> A handler of a session is a function in the state monad over the record \<open>session\<close>, whose
  fields are the members of \<open>PerUserSession\<close>. A call that leaves the session (to an engine's core, to
  a client, to the ability manager, to listeners) appends an event to the log; its answer, and the
  answers of other components, are taken from the environment \<open>senv\<close> as functions of the log, so that
  equal questions at different times may be answered differently. A query does not append to the log:
  between two events its answer is stable. A remote object is a number, and casting a proxy to its object is
  the identity. A new connection object is named by the length of the log. Memory allocation may fail.
  The build switches are fields of the environment. An \<open>unordered_map\<close> is a list in its iteration
  order, in which a new group comes first.

  The state of the service is one record that grows from part to part: settings, tables, exam mode, cache, input
  types, and at last the sessions of all users. The system ability runs an operation of a session in the environment
  that its other parts make up (\<open>session_env\<close>: the questions they answer are answered by their models), and then
  carries out what the operation asked of them (\<open>settle\<close>). What lies outside of the service, the window manager, the
  bundle manager, the accounts, access tokens, the settings database and the JSON library, are parameters, in records
  whose fields are the calls the code makes; they may depend on the outside world \<open>sd_world\<close>, which any step may change.

  \<^bold>\<open>Hypotheses.\<close> Where a property needs it, the JSON library reads what it prints (\<open>cjson_ok\<close>) and prints the names of
  the members of an object (\<open>prints_names\<close>), the database returns nothing but what was stored (\<open>store_ok\<close>; each of its
  calls may fail), a parcel returns what was written in the order of writing (\<open>parcel_queue\<close>),
  and other threads keep the invariant of a session (\<open>env_ok\<close>, \<open>sa_env_ok\<close>). The witnesses instantiate all of them.

  \<^bold>\<open>Concurrency.\<close> Locks are not modelled. A handler runs to its end, except where it waits for a
  condition or sleeps: there the environment may change the session in any way that keeps the
  invariant (\<open>e_interfere\<close>, \<open>env_ok\<close>). The wait of at most 10 ms for a client to confirm the end of its
  input is not such a point. The event handler's tasks are requests of the state machines; the order of
  requests, tasks and timers is open. Presses of the key combination that come in while the task that switches runs
  are an argument of it.

  \<^bold>\<open>Bounds.\<close> The loops with a limit are the code's own: \<open>BlockRetry\<close> and \<open>Attach\<close> recurse on the number of
  attempts. The loop that executes a task's actions is a function on the callbacks' finite answers, the loop of the
  switching task one on the list of arrivals. All functions are total; there is no fuel.

  \<^bold>\<open>Not modelled.\<close> The engine library but for its tasks (\<open>input_method_ability.cpp\<close>, the panel); the common event
  manager, whose events are steps of the service; the subscription of key combinations at the input library; dumps, the
  unloading of the service on demand, reports and tracing; the labels and icons of a property; the language bindings.
  The service's own model takes the decision of \<open>Numkey_Apps\<close> as a parameter.
\<close>

section \<open>Invariants of every reachable session\<close>

text \<open>C1. In every session that can be reached by serving requests, in any order and whatever the rest of the
  system answers, each client is filed under its own object and in its own group, at most one group
  has an id, and the current client of a group is one of its registered clients.\<close>

theorem reachable_clients:
  assumes "session_reachable E userId s" "env_ok E" "GetClientGroupByGroupId gid s = Some g"
  shows "cg_displayGroupId g = gid \<and>
    (\<forall>k ci. GetClientInfo (Some k) g = Some ci \<longrightarrow> ci_client ci = Some k \<and> ci_clientGroupId ci = gid) \<and>
    (\<forall>k. cg_currentClient g = Some k \<longrightarrow> GetCurrentClientInfo g \<noteq> None) \<and> distinct (map fst (ss_groups s))"
proof -
  have "groups_ok (ss_groups s)"
    using inv_reachable [OF assms(1,2)] by (simp add: session_inv_def session_ok_def)
  with assms(3) show ?thesis
    by (auto simp: groups_ok_def group_ok_def entries_ok_def current_ok_iff GetClientGroupByGroupId_def
        GetCurrentClientInfo_def)
qed

text \<open>A session that has started, lost and connected its input method and served two clients.\<close>

definition busy0 :: session where
  "busy0 = after [StartIme_req (Some cfg0) False, SetCoreAndAgent (Some 7) (Some 8) 50 51,
     PrepareInput (client0 5 11), StartInput (client0 5 11), PrepareInput (client0 6 12), StartInput (client0 6 12),
     RegisterProxyIme 0 (Some 20) (Some 21) 60 61, AttachBegin] (new_session 100 '''')"

lemma busy0_reachable: "session_reachable env0 100 busy0"
  unfolding busy0_def
  by (rule reachable_after, unfold session_reachable_def, rule reaches.start) (auto simp: session_start_def)

lemma busy0_run:
  "busy0 = snd (run_state (do {
     StartIme env0 (Some cfg0) False; OnSetCoreAndAgent env0 (Some 7) (Some 8) 50 51;
     OnPrepareInput env0 (client0 5 11); OnStartInput env0 (client0 5 11);
     OnPrepareInput env0 (client0 6 12); OnStartInput env0 (client0 6 12);
     OnRegisterProxyIme env0 0 (Some 20) (Some 21) 60 61; IncreaseAttachCount }) (new_session 100 ''''))"
  by (simp add: busy0_def after_def handle_def case_prod_beta)

lemma busy0_eval:
  "(\<lambda>s. (map_option cg_currentClient (GetClientGroupByGroupId 0 s), GetRealImeData True s \<noteq> None, GetAttachCount s)) busy0
   = (Some (Some 6), True, 1)"
  unfolding busy0_run by code_simp

theorem reachable_clients_witness:
  "case GetClientGroupByGroupId 0 busy0 of None \<Rightarrow> False
   | Some g \<Rightarrow> cg_currentClient g = Some 6 \<and> GetCurrentClientInfo g \<noteq> None"
proof -
  let ?g = "the (GetClientGroupByGroupId 0 busy0)"
  have g: "GetClientGroupByGroupId 0 busy0 = Some ?g" "cg_currentClient ?g = Some 6" using busy0_eval by auto
  with reachable_clients [OF busy0_reachable env_ok_env0 g(1)] show ?thesis by (auto split: option.split)
qed

text \<open>C7. In every reachable session the data in a slot is of the slot's kind, an input method that is ready
  has a core and an agent to talk to, and a display lists a proxy at most once.\<close>

theorem reachable_imes:
  assumes "session_reachable E userId s" "env_ok E"
  shows "(\<forall>d. GetRealImeData True s = Some d \<longrightarrow> IsRealIme d \<and> im_core d \<noteq> None \<and> im_agent d \<noteq> None) \<and>
    (\<forall>d. ss_mirror s = Some d \<longrightarrow> IsImeMirror d \<and> im_core d \<noteq> None \<and> im_agent d \<noteq> None) \<and>
    (\<forall>k l. map_of (ss_proxy s) k = Some l \<longrightarrow> distinct (map im_pid l) \<and>
       (\<forall>d. d \<in> set l \<longrightarrow> im_type d = PROXY_IME \<and> im_core d \<noteq> None \<and> im_agent d \<noteq> None))"
proof -
  have "imes_ok s" using inv_reachable [OF assms] by (simp add: session_inv_def)
  then show ?thesis
    by (auto simp: imes_ok_def real_ok_def mirror_ok_def proxy_ok_def proxies_ok_def complete_def IsRealIme_def
        IsImeMirror_def GetRealImeData_def split: option.splits if_splits)
qed

theorem reachable_imes_witness: "\<exists>d. GetRealImeData True busy0 = Some d \<and> im_core d \<noteq> None"
proof -
  have "GetRealImeData True busy0 = Some (the (GetRealImeData True busy0))" using busy0_eval by auto
  with reachable_imes [OF busy0_reachable env_ok_env0] show ?thesis by blast
qed

text \<open>C37. The counters of every reachable session stay within their bounds, so that no 32-bit count wraps:
  attaches in progress, scene board restarts, restart tasks and the number of times a restart waited.\<close>

theorem reachable_counters:
  assumes "session_reachable E userId s" "env_ok E"
  shows "GetAttachCount s \<le> MAX_ATTACH_COUNT \<and> GetScbStartCount s \<le> MAX_SCB_START_COUNT \<and>
    ss_restartTasks s \<le> MAX_RESTART_TASKS \<and> ss_waitAttachTimes s \<le> 20"
  using inv_reachable [OF assms]
  by (simp add: session_inv_def counters_ok_def GetAttachCount_def GetScbStartCount_def)

theorem reachable_counters_witness: "GetAttachCount busy0 = 1 \<and> GetAttachCount busy0 \<le> MAX_ATTACH_COUNT"
proof -
  have "GetAttachCount busy0 = 1" using busy0_eval by simp
  with reachable_counters [OF busy0_reachable env_ok_env0] show ?thesis by simp
qed

end
